(* ===== verification/Prelude.thy ===== *)
theory Prelude
  imports Main "HOL-Library.Sublist"
begin

text \<open>
  The part of the language that every component uses: strings, lists, sets with insertion
  order, thrown values and results, and the collections of simplification rules that the
  component theories fill.

  A JavaScript string is a sequence of UTF-16 code units. The model writes it as a
  \<open>string\<close>, a list of characters 0 to 255, so a character stands for the code unit of the
  same number and \<open>length\<close> is the source's \<open>.length\<close>. Literals of the source that use a code
  unit above 255 (a dash, an ellipsis, a typographic quote, an arrow, an emoji) are written
  with an ASCII stand-in.
\<close>

section \<open>Collections of rules\<close>

named_theorems js_simps
named_theorems route_simps
named_theorems flow_simps

section \<open>Strings\<close>

abbreviation starts_with :: "string \<Rightarrow> string \<Rightarrow> bool" where
  "starts_with s p \<equiv> prefix p s"

text \<open>\<open>String.prototype.split\<close> with a one-character separator: never the empty list.\<close>

fun split_on :: "char \<Rightarrow> string \<Rightarrow> string list" where
  "split_on c [] = [[]]"
| "split_on c (x # xs) =
     (if x = c then [] # split_on c xs
      else (case split_on c xs of [] \<Rightarrow> [[x]] | y # ys \<Rightarrow> (x # y) # ys))"

text \<open>\<open>Array.prototype.join\<close>.\<close>

fun join :: "string \<Rightarrow> string list \<Rightarrow> string" where
  "join sep [] = []"
| "join sep [x] = x"
| "join sep (x # y # ys) = x @ sep @ join sep (y # ys)"

text \<open>The code units below 256 that \<open>String.prototype.trim\<close> removes.\<close>

definition is_js_space :: "char \<Rightarrow> bool" where
  "is_js_space c \<longleftrightarrow> of_char c \<in> ({9, 10, 11, 12, 13, 32, 160} :: nat set)"

definition trim :: "string \<Rightarrow> string" where
  "trim s = rev (dropWhile is_js_space (rev (dropWhile is_js_space s)))"

text \<open>\<open>toLowerCase\<close>: A to Z and the accented capitals, all of which stay below 256.\<close>

definition lower_char :: "char \<Rightarrow> char" where
  "lower_char c =
     (let n = (of_char c :: nat)
      in if (65 \<le> n \<and> n \<le> 90) \<or> (192 \<le> n \<and> n \<le> 222 \<and> n \<noteq> 215) then char_of (n + 32) else c)"

definition to_lower :: "string \<Rightarrow> string" where
  "to_lower s = map lower_char s"

text \<open>\<open>toUpperCase\<close> of the letters a to z.\<close>

definition upper_char :: "char \<Rightarrow> char" where
  "upper_char c = (let n = (of_char c :: nat) in if 97 \<le> n \<and> n \<le> 122 then char_of (n - 32) else c)"

definition to_upper :: "string \<Rightarrow> string" where
  "to_upper s = map upper_char s"

text \<open>A string or null is falsy when it is absent or empty.\<close>

fun truthy :: "string option \<Rightarrow> bool" where
  "truthy None = False"
| "truthy (Some s) = (s \<noteq> [])"

text \<open>\<open>a ?? b\<close> and \<open>a || b\<close>.\<close>

fun nullish :: "'a option \<Rightarrow> 'a \<Rightarrow> 'a" where
  "nullish None d = d"
| "nullish (Some x) d = x"

definition or_else :: "string \<Rightarrow> string \<Rightarrow> string" where
  "or_else s d = (if s = [] then d else s)"

text \<open>\<open>Set.prototype.add\<close>: a set in insertion order.\<close>

definition add_uniq :: "'a \<Rightarrow> 'a list \<Rightarrow> 'a list" where
  "add_uniq x xs = (if x \<in> set xs then xs else xs @ [x])"

text \<open>\<open>xs.slice(-n)\<close> for a positive n: the last n elements.\<close>

definition slice_last :: "nat \<Rightarrow> 'a list \<Rightarrow> 'a list" where
  "slice_last n xs = drop (length xs - n) xs"

text \<open>Decimal printing of a natural number.\<close>

definition digit_char :: "nat \<Rightarrow> char" where
  "digit_char d = char_of (48 + d)"

fun show_nat :: "nat \<Rightarrow> string" where
  "show_nat n = (if n < 10 then [digit_char n] else show_nat (n div 10) @ [digit_char (n mod 10)])"

declare show_nat.simps [simp del]

section \<open>Thrown values\<close>

text \<open>
  What a \<open>catch\<close> can receive: an \<open>ApiError\<close> (which extends \<open>Error\<close>), another
  \<open>Error\<close>, or a value that is no \<open>Error\<close>. The fields of an \<open>ApiError\<close> are
  modelled in \<open>ApiClient\<close>; the error is a parameter here.
\<close>

datatype 'e thrown = Api 'e | JsError string | NotError

section \<open>Lemmas on strings and lists\<close>

lemma split_on_ne [simp]: "split_on c s \<noteq> []"
  by (induction s) (auto split: list.splits)

lemma show_nat_ne [simp]: "show_nat n \<noteq> []"
  by (subst show_nat.simps) simp

lemma hd_split_on_no_sep: "c \<notin> set (hd (split_on c s))"
  by (induction s) (auto split: list.splits)

lemma split_on_no_sep [js_simps]: "c \<notin> set s \<Longrightarrow> split_on c s = [s]"
  by (induction s) auto

lemma split_on_append: "c \<notin> set p \<Longrightarrow> split_on c (p @ c # s) = p # split_on c s"
  by (induction p) auto

lemma split_on_pieces: "p \<in> set (split_on c s) \<Longrightarrow> c \<notin> set p"
proof (induction s arbitrary: p)
  case Nil
  then show ?case by simp
next
  case (Cons x xs)
  then show ?case
    by (cases "split_on c xs") (auto split: if_splits)
qed

lemma set_join: "set (join sep xs) \<subseteq> (\<Union>x \<in> set xs. set x) \<union> set sep"
  by (induction sep xs rule: join.induct) auto

lemma dropWhile_hd: "dropWhile P xs = [] \<or> \<not> P (hd (dropWhile P xs))"
  by (induction xs) auto

lemma dropWhile_fix: "xs = [] \<or> \<not> P (hd xs) \<Longrightarrow> dropWhile P xs = xs"
  by (cases xs) auto

lemma last_dropWhile: "dropWhile P xs \<noteq> [] \<Longrightarrow> last (dropWhile P xs) = last xs"
  by (induction xs) auto

text \<open>
  Trimming is idempotent. The head of the left-trimmed string is no space, and dropping
  from the right either empties the string or keeps that head.
\<close>

lemma trim_trim [simp]: "trim (trim s) = trim s"
proof -
  let ?a = "dropWhile is_js_space s"
  let ?b = "dropWhile is_js_space (rev ?a)"
  have b: "?b = [] \<or> \<not> is_js_space (hd ?b)"
    by (rule dropWhile_hd)
  have "rev ?b = [] \<or> \<not> is_js_space (hd (rev ?b))"
  proof (cases "?b = []")
    case False
    then have "last ?b = last (rev ?a)"
      by (rule last_dropWhile)
    moreover have "?a \<noteq> []"
      using False by (metis dropWhile.simps(1) rev.simps(1))
    ultimately have "hd (rev ?b) = hd ?a"
      by (metis hd_rev last_rev)
    then show ?thesis
      using dropWhile_hd [of is_js_space s] \<open>?a \<noteq> []\<close> by metis
  qed simp
  then have "dropWhile is_js_space (rev ?b) = rev ?b"
    by (rule dropWhile_fix)
  then show ?thesis
    using b by (simp add: trim_def dropWhile_fix)
qed

lemma length_trim: "length (trim s) \<le> length s"
proof -
  have "length (trim s) \<le> length (rev (dropWhile is_js_space s))"
    unfolding trim_def by (metis length_dropWhile_le length_rev)
  also have "\<dots> \<le> length s"
    by (simp add: length_dropWhile_le)
  finally show ?thesis .
qed

lemma set_trim: "set (trim s) \<subseteq> set s"
  unfolding trim_def by (metis set_dropWhileD set_rev subsetI)

lemma set_add_uniq [simp]: "set (add_uniq x xs) = insert x (set xs)"
  by (auto simp: add_uniq_def)

lemma distinct_add_uniq [simp]: "distinct xs \<Longrightarrow> distinct (add_uniq x xs)"
  by (auto simp: add_uniq_def)

lemma length_slice_last [simp]: "length (slice_last n xs) = min n (length xs)"
  by (simp add: slice_last_def min_def)

lemma set_slice_last: "set (slice_last n xs) \<subseteq> set xs"
  unfolding slice_last_def by (rule set_drop_subset)

lemma distinct_slice_last: "distinct xs \<Longrightarrow> distinct (slice_last n xs)"
  unfolding slice_last_def by (rule distinct_drop)

lemma lower_char_colon [simp]: "lower_char c = CHR '':'' \<longleftrightarrow> c = CHR '':''"
proof
  assume colon: "lower_char c = CHR '':''"
  show "c = CHR '':''"
  proof (cases "lower_char c = c")
    case False
    let ?n = "of_char c :: nat"
    from False have n: "65 \<le> ?n" "?n \<le> 222" "lower_char c = char_of (?n + 32)"
      by (auto simp: lower_char_def Let_def split: if_splits)
    from n have "of_char (lower_char c) = ?n + 32"
      by simp
    with colon n show ?thesis by simp
  qed (use colon in simp)
qed (simp add: lower_char_def)

end
