(* ===== verification/Machine.thy ===== *)
theory Machine
  imports Prelude
begin

text \<open>
  Components as machines, and what a component shows as a tree.

  A component of the program has a state, events (a user's action, an answer of the server, a
  timer) and a step function. \<open>reach\<close> is the set of states that events, each enabled when it
  happens, lead to. What a component renders is a list of \<open>ui\<close> nodes: texts, alerts, controls
  with the event they fire, grouped in boxes. Class names, icons, placeholders and layout
  elements have no counterpart. \<open>offers\<close> says which events a rendered tree lets the user fire: a
  disabled control fires none.

  The locale \<open>machine\<close> is the contract of an invariant; the theories of the components
  interpret it.
\<close>

section \<open>Reachable states\<close>

inductive reach ::
    "('s \<Rightarrow> bool) \<Rightarrow> ('s \<Rightarrow> 'e \<Rightarrow> bool) \<Rightarrow> ('s \<Rightarrow> 'e \<Rightarrow> 's) \<Rightarrow> 's \<Rightarrow> bool"
  for start enabled step where
  reach_start: "start s \<Longrightarrow> reach start enabled step s"
| reach_step: "reach start enabled step s \<Longrightarrow> enabled s e \<Longrightarrow> reach start enabled step (step s e)"

fun run :: "('s \<Rightarrow> 'e \<Rightarrow> 's) \<Rightarrow> 's \<Rightarrow> 'e list \<Rightarrow> 's" where
  "run step s [] = s"
| "run step s (e # es) = run step (step s e) es"

fun enabled_run :: "('s \<Rightarrow> 'e \<Rightarrow> bool) \<Rightarrow> ('s \<Rightarrow> 'e \<Rightarrow> 's) \<Rightarrow> 's \<Rightarrow> 'e list \<Rightarrow> bool" where
  "enabled_run enabled step s [] = True"
| "enabled_run enabled step s (e # es) = (enabled s e \<and> enabled_run enabled step (step s e) es)"

text \<open>What the events of a run send, when \<open>call\<close> says what each event sends in a state.\<close>

fun run_log :: "('s \<Rightarrow> 'e \<Rightarrow> 's) \<Rightarrow> ('s \<Rightarrow> 'e \<Rightarrow> 'i option) \<Rightarrow> 's \<Rightarrow> 'e list \<Rightarrow> 'i list" where
  "run_log step call s [] = []"
| "run_log step call s (e # es) =
     (case call s e of None \<Rightarrow> [] | Some i \<Rightarrow> [i]) @ run_log step call (step s e) es"

lemma run_log_subset:
  "(\<And>s e i. call s e = Some i \<Longrightarrow> i \<in> A) \<Longrightarrow> set (run_log step call s es) \<subseteq> A"
  by (induction es arbitrary: s) (auto split: option.split)

lemma reach_run:
  "reach start enabled step s \<Longrightarrow> enabled_run enabled step s es \<Longrightarrow>
   reach start enabled step (run step s es)"
  by (induction es arbitrary: s) (auto intro: reach_step)

locale machine =
  fixes start :: "'s \<Rightarrow> bool"
    and enabled :: "'s \<Rightarrow> 'e \<Rightarrow> bool"
    and step :: "'s \<Rightarrow> 'e \<Rightarrow> 's"
    and inv :: "'s \<Rightarrow> bool"
  assumes inv_start: "start s \<Longrightarrow> inv s"
    and inv_step: "inv s \<Longrightarrow> enabled s e \<Longrightarrow> inv (step s e)"
begin

lemma reach_inv: "reach start enabled step s \<Longrightarrow> inv s"
  by (induction rule: reach.induct) (auto intro: inv_start inv_step)

lemma run_inv: "inv s \<Longrightarrow> enabled_run enabled step s es \<Longrightarrow> inv (run step s es)"
  by (induction es arbitrary: s) (auto intro: inv_step)

end

section \<open>Rendered trees\<close>

datatype 'e ui =
    Text string
  | Heading string
  | Badge string string              \<comment> \<open>tone and label\<close>
  | Alert string                     \<comment> \<open>a paragraph with role alert\<close>
  | Link string string               \<comment> \<open>target and label\<close>
  | Button string bool 'e            \<comment> \<open>label, disabled, the event of a click or a submit\<close>
  | Field string string "string \<Rightarrow> 'e"  \<comment> \<open>label, value, the event of a change\<close>
  | Choice string string "(string \<times> string) list" "string \<Rightarrow> 'e"
      \<comment> \<open>a select: label, value, options (value and label), the event of a change\<close>
  | Check string bool bool 'e        \<comment> \<open>a checkbox: label, checked, disabled, event\<close>
  | Files string "string list \<Rightarrow> 'e" \<comment> \<open>a file input: label, the event of a choice\<close>
  | Box string "'e ui list"          \<comment> \<open>a region, by its label or test id\<close>
  | Throws string                    \<comment> \<open>rendering throws here\<close>

fun offers :: "'e ui \<Rightarrow> 'e \<Rightarrow> bool" where
  "offers (Button l d e) x = (\<not> d \<and> x = e)"
| "offers (Field l v f) x = (\<exists>s. x = f s)"
| "offers (Choice l v os f) x = (\<exists>p \<in> set os. x = f (fst p))"
| "offers (Check l c d e) x = (\<not> d \<and> x = e)"
| "offers (Files l f) x = (\<exists>fs. x = f fs)"
| "offers (Box l us) x = (\<exists>u \<in> set us. offers u x)"
| "offers _ x = False"

definition offered :: "'e ui list \<Rightarrow> 'e \<Rightarrow> bool" where
  "offered us x \<longleftrightarrow> (\<exists>u \<in> set us. offers u x)"

lemma offered_simps [simp]:
  "offered [] x = False"
  "offered (u # us) x = (offers u x \<or> offered us x)"
  "offered (us @ vs) x = (offered us x \<or> offered vs x)"
  by (auto simp: offered_def)

lemma offered_if [simp]:
  "offered (if b then us else vs) x = (b \<and> offered us x \<or> \<not> b \<and> offered vs x)"
  by simp

lemma offers_Box: "offers (Box l us) x = offered us x"
  by (simp add: offered_def)

lemma offered_map: "offered (map f xs) x = (\<exists>y \<in> set xs. offers (f y) x)"
  by (auto simp: offered_def)

text \<open>\<open>{condition && <node/>}\<close>.\<close>

definition shown_if :: "bool \<Rightarrow> 'e ui list \<Rightarrow> 'e ui list" where
  "shown_if b us = (if b then us else [])"

lemma offered_shown_if [simp]: "offered (shown_if b us) x = (b \<and> offered us x)"
  by (simp add: shown_if_def)

text \<open>The labels of the checkboxes of a tree.\<close>

primrec node_checks :: "'e ui \<Rightarrow> string list" where
  "node_checks (Text s) = []"
| "node_checks (Heading s) = []"
| "node_checks (Badge t l) = []"
| "node_checks (Alert s) = []"
| "node_checks (Link h l) = []"
| "node_checks (Button l d e) = []"
| "node_checks (Field l v g) = []"
| "node_checks (Choice l v os g) = []"
| "node_checks (Check l c d e) = [l]"
| "node_checks (Files l g) = []"
| "node_checks (Box l us) = concat (map node_checks us)"
| "node_checks (Throws m) = []"

definition check_labels :: "'e ui list \<Rightarrow> string list" where
  "check_labels us = concat (map node_checks us)"

lemma check_labels_simps [simp]:
  "check_labels [] = []"
  "check_labels (u # us) = node_checks u @ check_labels us"
  "check_labels (us @ vs) = check_labels us @ check_labels vs"
  "check_labels (shown_if b us) = (if b then check_labels us else [])"
  by (simp_all add: check_labels_def shown_if_def)

lemma check_labels_map: "check_labels (map f xs) = concat (map (\<lambda>x. node_checks (f x)) xs)"
  by (simp add: check_labels_def comp_def)

text \<open>A child component's tree inside its parent's: the events are wrapped.\<close>

primrec map_events :: "('e \<Rightarrow> 'f) \<Rightarrow> 'e ui \<Rightarrow> 'f ui" where
  "map_events f (Text s) = Text s"
| "map_events f (Heading s) = Heading s"
| "map_events f (Badge t l) = Badge t l"
| "map_events f (Alert s) = Alert s"
| "map_events f (Link h l) = Link h l"
| "map_events f (Button l d e) = Button l d (f e)"
| "map_events f (Field l v g) = Field l v (\<lambda>s. f (g s))"
| "map_events f (Choice l v os g) = Choice l v os (\<lambda>s. f (g s))"
| "map_events f (Check l c d e) = Check l c d (f e)"
| "map_events f (Files l g) = Files l (\<lambda>fs. f (g fs))"
| "map_events f (Box l us) = Box l (map (map_events f) us)"
| "map_events f (Throws m) = Throws m"

lemma offers_map_events: "offers (map_events f u) x \<Longrightarrow> \<exists>e. x = f e \<and> offers u e"
proof (induction u)
  case (Box l us)
  then obtain u where u: "u \<in> set us" "offers (map_events f u) x" by auto
  then obtain e where "x = f e" "offers u e" using Box.IH by blast
  with u show ?case by auto
qed auto

lemma offered_map_events: "offered (map (map_events f) us) x \<Longrightarrow> \<exists>e. x = f e \<and> offered us e"
  using offers_map_events by (force simp: offered_def)

lemma offers_map_eventsI: "offers u e \<Longrightarrow> offers (map_events f u) (f e)"
  by (induction u) auto

lemma offered_child:
  "offered (map (map_events f) us) x \<longleftrightarrow> (\<exists>e. x = f e \<and> offered us e)"
proof
  assume "\<exists>e. x = f e \<and> offered us e"
  then show "offered (map (map_events f) us) x"
    by (auto simp: offered_def intro: offers_map_eventsI)
qed (rule offered_map_events)

end
