(* ===== verification/ApiClient.thy ===== *)
theory ApiClient
  imports Prelude
begin

text \<open>
  The API client of the browser and its variants: \<open>frontend/src/lib/api/client.ts\<close>, the
  administration app's own copy \<open>frontend/apps/admin/src/lib/api/client.ts\<close>, the
  server-side \<open>lib/api/public.ts\<close> and \<open>lib/api/health.ts\<close>, and the base URLs of
  \<open>lib/config.ts\<close>.

  The network is a parameter: \<open>fetch\<close> maps a request to an outcome, a response or a
  rejection. JSON values are a datatype; the numbers of the payloads the code looks at are
  whole numbers, so they are \<open>int\<close>.
\<close>

section \<open>JSON values\<close>

datatype json =
    JNull
  | JBool bool
  | JNum int
  | JStr string
  | JArr "json list"
  | JObj "(string \<times> json) list"

text \<open>Property access: \<open>undefined\<close>, here \<open>None\<close>, on anything but an object that has the key.\<close>

fun get_field :: "json \<Rightarrow> string \<Rightarrow> json option" where
  "get_field (JObj fs) k = map_of fs k"
| "get_field _ k = None"

fun json_truthy :: "json option \<Rightarrow> bool" where
  "json_truthy None = False"
| "json_truthy (Some JNull) = False"
| "json_truthy (Some (JBool b)) = b"
| "json_truthy (Some (JNum n)) = (n \<noteq> 0)"
| "json_truthy (Some (JStr s)) = (s \<noteq> [])"
| "json_truthy (Some (JArr _)) = True"
| "json_truthy (Some (JObj _)) = True"

fun show_int :: "int \<Rightarrow> string" where
  "show_int n = (if n < 0 then CHR ''-'' # show_nat (nat (- n)) else show_nat (nat n))"

text \<open>\<open>String(v)\<close>; in an array null prints as the empty string.\<close>

fun to_str :: "json \<Rightarrow> string" where
  "to_str JNull = ''null''"
| "to_str (JBool b) = (if b then ''true'' else ''false'')"
| "to_str (JNum n) = show_int n"
| "to_str (JStr s) = s"
| "to_str (JArr vs) = join '','' (map (\<lambda>v. if v = JNull then [] else to_str v) vs)"
| "to_str (JObj _) = ''[object Object]''"

section \<open>ApiError\<close>

text \<open>
  \<open>code\<close> and \<open>details\<close> hold what the server sent, which the type annotations of the source do
  not check: \<open>None\<close> is \<open>undefined\<close>. \<open>Error\<close> turns its message into a string.
\<close>

record api_error =
  err_status :: nat
  err_code :: "json option"
  err_message :: string
  err_details :: json

fun error_message :: "json option \<Rightarrow> string" where
  "error_message None = []"
| "error_message (Some v) = to_str v"

definition ApiError :: "nat \<Rightarrow> json option \<Rightarrow> json option \<Rightarrow> json \<Rightarrow> api_error" where
  "ApiError status code message details =
     \<lparr>err_status = status, err_code = code, err_message = error_message message,
      err_details = details\<rparr>"

type_synonym failure = "api_error thrown"

section \<open>Requests and responses\<close>

datatype body = BText string | BForm "(string \<times> string) list"

record api_init =
  init_path :: string
  init_base :: "string option"
  init_method :: "string option"
  init_body :: "body option"
  init_headers :: "string \<rightharpoonup> string"

record http_request =
  http_url :: string
  http_method :: "string option"
  http_credentials :: string
  http_headers :: "string \<rightharpoonup> string"
  http_body :: "body option"

text \<open>
  A response: its status, its content type and its body, where \<open>None\<close> is a body that
  \<open>response.json()\<close> cannot parse.
\<close>

record http_response =
  res_status :: nat
  res_type :: "string option"
  res_json :: "json option"

datatype outcome = Rejected string | Response http_response

text \<open>\<open>response.ok\<close> of the fetch standard.\<close>

definition res_ok :: "http_response \<Rightarrow> bool" where
  "res_ok r \<longleftrightarrow> 200 \<le> res_status r \<and> res_status r < 300"

definition str_includes :: "string \<Rightarrow> string \<Rightarrow> bool" where
  "str_includes s t \<longleftrightarrow> sublist t s"


section \<open>Base URLs\<close>

definition API_URL_BROWSER :: "(string \<rightharpoonup> string) \<Rightarrow> string" where
  "API_URL_BROWSER env = nullish (env ''NEXT_PUBLIC_API_URL'') ''http://localhost:8000''"

definition API_URL_SERVER :: "(string \<rightharpoonup> string) \<Rightarrow> string" where
  "API_URL_SERVER env = nullish (env ''SERVER_API_URL'') (API_URL_BROWSER env)"

definition WS_URL :: "(string \<rightharpoonup> string) \<Rightarrow> string" where
  "WS_URL env = nullish (env ''NEXT_PUBLIC_WS_URL'') ''ws://localhost:8000''"

definition SITE_URL :: "(string \<rightharpoonup> string) \<Rightarrow> string" where
  "SITE_URL env = nullish (env ''NEXT_PUBLIC_SITE_URL'') ''http://localhost:3000''"

section \<open>apiFetch\<close>

fun is_text :: "body option \<Rightarrow> bool" where
  "is_text (Some (BText s)) = (s \<noteq> [])"
| "is_text _ = False"

definition base_headers :: "api_init \<Rightarrow> string \<rightharpoonup> string" where
  "base_headers i =
     (let m = to_upper (nullish (init_method i) ''GET'')
      in [''Accept'' \<mapsto> ''application/json'']
         ++ (if m \<noteq> ''GET'' \<and> m \<noteq> ''HEAD'' then [''X-Requested-With'' \<mapsto> ''XMLHttpRequest'']
             else Map.empty)
         ++ (if is_text (init_body i) then [''Content-Type'' \<mapsto> ''application/json''] else Map.empty)
         ++ init_headers i)"

definition api_request :: "(string \<rightharpoonup> string) \<Rightarrow> api_init \<Rightarrow> http_request" where
  "api_request env i =
     \<lparr>http_url = nullish (init_base i) (API_URL_BROWSER env) @ init_path i,
      http_method = init_method i,
      http_credentials = ''include'',
      http_headers = base_headers i,
      http_body = init_body i\<rparr>"

text \<open>The error a response that is not ok is turned into.\<close>

definition envelope_error :: "nat \<Rightarrow> json \<Rightarrow> api_error" where
  "envelope_error status payload =
     (case get_field payload ''error'' of
        Some e \<Rightarrow>
          (if json_truthy (Some e)
           then ApiError status (get_field e ''code'') (get_field e ''message'')
                  (case get_field e ''details'' of None \<Rightarrow> JObj [] | Some JNull \<Rightarrow> JObj [] | Some d \<Rightarrow> d)
           else ApiError status (Some (JStr ''unknown_error''))
                  (Some (JStr (''Request failed ('' @ show_nat status @ '')''))) (JObj []))
      | None \<Rightarrow> ApiError status (Some (JStr ''unknown_error''))
                  (Some (JStr (''Request failed ('' @ show_nat status @ '')''))) (JObj []))"

definition read_payload :: "http_response \<Rightarrow> failure + json" where
  "read_payload r =
     (let isJson = (case res_type r of None \<Rightarrow> False | Some t \<Rightarrow> str_includes t ''application/json'')
      in if isJson
         then (case res_json r of None \<Rightarrow> Inl (JsError ''SyntaxError'') | Some v \<Rightarrow> Inr v)
         else Inr JNull)"

definition apiFetch ::
    "(http_request \<Rightarrow> outcome) \<Rightarrow> (string \<rightharpoonup> string) \<Rightarrow> api_init \<Rightarrow> failure + json" where
  "apiFetch fetch env i =
     (case fetch (api_request env i) of
        Rejected m \<Rightarrow> Inl (JsError m)
      | Response r \<Rightarrow>
          (case read_payload r of
             Inl e \<Rightarrow> Inl e
           | Inr payload \<Rightarrow>
               (if \<not> res_ok r then Inl (Api (envelope_error (res_status r) payload)) else Inr payload)))"

section \<open>The administration app's client\<close>

text \<open>
  \<open>encodeURIComponent\<close>: unreserved characters stay; every other one is the percent form of its
  UTF-8 bytes, one byte below 128 and two below 256.
\<close>

definition unreserved :: "char \<Rightarrow> bool" where
  "unreserved c =
     (let n = (of_char c :: nat)
      in (65 \<le> n \<and> n \<le> 90) \<or> (97 \<le> n \<and> n \<le> 122) \<or> (48 \<le> n \<and> n \<le> 57)
         \<or> c \<in> set ''-_.!~*()'' \<or> n = 39)"

definition hex_char :: "nat \<Rightarrow> char" where
  "hex_char d = (if d < 10 then char_of (48 + d) else char_of (55 + d))"

definition percent :: "nat \<Rightarrow> string" where
  "percent n = [CHR ''%'', hex_char (n div 16), hex_char (n mod 16)]"

definition encode_char :: "char \<Rightarrow> string" where
  "encode_char c =
     (let n = (of_char c :: nat)
      in if unreserved c then [c]
         else if n < 128 then percent n
         else percent (192 + n div 64) @ percent (128 + n mod 64))"

definition encodeURIComponent :: "string \<Rightarrow> string" where
  "encodeURIComponent s = concat (map encode_char s)"

text \<open>
  What the client touches in the browser: the local storage (\<open>None\<close> where reading or writing it
  throws), the current location, and a navigation it asks for. \<open>window\<close> is \<open>None\<close> when the code
  runs on the server.
\<close>

record browser =
  storage :: "(string \<rightharpoonup> string) option"
  loc_pathname :: string
  loc_search :: string
  navigate_to :: "string option"

definition admin_token :: "browser \<Rightarrow> string option" where
  "admin_token w =
     (case storage w of
        None \<Rightarrow> None
      | Some m \<Rightarrow>
          (if truthy (m ''admin_access_token'') then m ''admin_access_token''
           else m ''hm_access_token''))"

definition admin_headers :: "api_init \<Rightarrow> browser option \<Rightarrow> string \<rightharpoonup> string" where
  "admin_headers i win =
     (let headers = base_headers i
      in if \<not> truthy (headers ''Authorization'')
         then (case win of
                 None \<Rightarrow> headers
               | Some w \<Rightarrow>
                   (if truthy (admin_token w)
                    then headers(''Authorization'' \<mapsto> ''Bearer '' @ the (admin_token w))
                    else headers))
         else headers)"

definition on_unauthorized :: "string \<Rightarrow> browser \<Rightarrow> browser" where
  "on_unauthorized path w =
     (let w1 = w\<lparr>storage := map_option (\<lambda>m. m(''admin_access_token'' := None)) (storage w)\<rparr>
      in if \<not> str_includes path ''/auth/token'' \<and> \<not> str_includes path ''/auth/logout''
            \<and> \<not> starts_with (loc_pathname w) ''/login''
         then w1\<lparr>navigate_to :=
                Some (''/login?next='' @ encodeURIComponent (loc_pathname w @ loc_search w))\<rparr>
         else w1)"

definition admin_apiFetch ::
    "(http_request \<Rightarrow> outcome) \<Rightarrow> (string \<rightharpoonup> string) \<Rightarrow> browser option \<Rightarrow> api_init
      \<Rightarrow> (failure + json) \<times> browser option" where
  "admin_apiFetch fetch env win i =
     (case fetch ((api_request env i)\<lparr>http_headers := admin_headers i win\<rparr>) of
        Rejected m \<Rightarrow> (Inl (JsError m), win)
      | Response r \<Rightarrow>
          (case read_payload r of
             Inl e \<Rightarrow> (Inl e, win)
           | Inr payload \<Rightarrow>
               (if \<not> res_ok r
                then (Inl (Api (envelope_error (res_status r) payload)),
                      (if res_status r = 401 then map_option (on_unauthorized (init_path i)) win
                       else win))
                else (Inr payload, win))))"

section \<open>Server-side reads\<close>

definition MARKETING_TTL_SECONDS :: nat where
  "MARKETING_TTL_SECONDS = 3600"

definition PRICING_TTL_SECONDS :: nat where
  "PRICING_TTL_SECONDS = 60"

record public_result =
  pub_data :: "json option"
  notFound :: bool

text \<open>
  The fetch of a server component takes the seconds its answer may be served from the data
  cache. A body that does not parse is caught like a rejection.
\<close>

definition fetchPublic ::
    "(string \<Rightarrow> nat \<Rightarrow> outcome) \<Rightarrow> (string \<rightharpoonup> string) \<Rightarrow> string \<Rightarrow> nat \<Rightarrow> public_result" where
  "fetchPublic fetch env path revalidate =
     (case fetch (API_URL_SERVER env @ path) revalidate of
        Rejected _ \<Rightarrow> \<lparr>pub_data = None, notFound = False\<rparr>
      | Response r \<Rightarrow>
          (if res_status r = 404 then \<lparr>pub_data = None, notFound = True\<rparr>
           else if \<not> res_ok r then \<lparr>pub_data = None, notFound = False\<rparr>
           else (case res_json r of
                   None \<Rightarrow> \<lparr>pub_data = None, notFound = False\<rparr>
                 | Some v \<Rightarrow> \<lparr>pub_data = Some v, notFound = False\<rparr>)))"

definition getPricing where
  "getPricing fetch env = fetchPublic fetch env ''/api/v1/platform/pricing'' PRICING_TTL_SECONDS"

definition getSubject where
  "getSubject fetch env slug =
     fetchPublic fetch env (''/api/v1/subjects/'' @ encodeURIComponent slug) MARKETING_TTL_SECONDS"

definition getSubjects where
  "getSubjects fetch env = fetchPublic fetch env ''/api/v1/subjects'' MARKETING_TTL_SECONDS"

definition getPublicExpert where
  "getPublicExpert fetch env slug =
     fetchPublic fetch env (''/api/v1/experts/'' @ encodeURIComponent slug) MARKETING_TTL_SECONDS"

definition getExpertsForSubject where
  "getExpertsForSubject fetch env slug pageSize =
     fetchPublic fetch env
       (''/api/v1/experts?subject='' @ encodeURIComponent slug @ ''&page_size='' @ show_nat pageSize)
       MARKETING_TTL_SECONDS"

definition fetchBackendHealth ::
    "(http_request \<Rightarrow> outcome) \<Rightarrow> (string \<rightharpoonup> string) \<Rightarrow> json option" where
  "fetchBackendHealth fetch env =
     (case apiFetch fetch env
             \<lparr>init_path = ''/healthz'', init_base = Some (API_URL_SERVER env), init_method = None,
              init_body = None, init_headers = Map.empty\<rparr> of
        Inl _ \<Rightarrow> None
      | Inr v \<Rightarrow> Some v)"

section \<open>Lemmas\<close>

lemma apiFetch_cases:
  "apiFetch fetch env i = Inr v \<longleftrightarrow>
     (\<exists>r. fetch (api_request env i) = Response r \<and> res_ok r \<and> read_payload r = Inr v)"
  by (auto simp: apiFetch_def split: outcome.splits sum.splits)

lemma envelope_error_status [simp]: "err_status (envelope_error st p) = st"
  by (auto simp: envelope_error_def ApiError_def split: option.splits json.splits)

lemma admin_apiFetch_result:
  "fst (admin_apiFetch fetch env win i) =
     apiFetch (\<lambda>q. fetch (q\<lparr>http_headers := admin_headers i win\<rparr>)) env i"
  by (auto simp: admin_apiFetch_def apiFetch_def split: outcome.splits sum.splits)

lemma unreserved_not_special: "unreserved c \<Longrightarrow> c \<notin> set ''/?&#=%''"
  by (auto simp: unreserved_def Let_def)

lemma hex_char_plain: "d < 16 \<Longrightarrow> hex_char d \<notin> set ''/?&#=''"
proof -
  have "list_all (\<lambda>d. hex_char d \<notin> set ''/?&#='') [0..<16]"
    by code_simp
  then have "\<forall>d \<in> {0..<16}. hex_char d \<notin> set ''/?&#=''"
    by (simp add: list_all_iff)
  then show "d < 16 \<Longrightarrow> hex_char d \<notin> set ''/?&#=''"
    by auto
qed

lemma percent_plain: "n < 256 \<Longrightarrow> set (percent n) \<inter> set ''/?&#='' = {}"
  using hex_char_plain [of "n div 16"] hex_char_plain [of "n mod 16"]
  by (auto simp: percent_def)

lemma encode_char_plain: "set (encode_char c) \<inter> set ''/?&#='' = {}"
proof -
  let ?n = "of_char c :: nat"
  have "?n < 256" by simp
  then have "192 + ?n div 64 < 256" "128 + ?n mod 64 < 256" by arith+
  then show ?thesis
    using percent_plain [of ?n] percent_plain [of "192 + ?n div 64"]
      percent_plain [of "128 + ?n mod 64"] unreserved_not_special [of c]
    by (auto simp: encode_char_def Let_def)
qed

text \<open>An encoded component holds no character that ends a path segment or a parameter.\<close>

lemma encodeURIComponent_plain: "set (encodeURIComponent s) \<inter> set ''/?&#='' = {}"
  using encode_char_plain by (auto simp: encodeURIComponent_def)

end
