(* ===== verification/Endpoints.thy ===== *)
theory Endpoints
  imports ApiClient Complex_Main
begin

text \<open>
  The request each function of the API modules hands to \<open>apiFetch\<close>: \<open>features/*/api.ts\<close>.
  A module \<open>fooApi\<close> with a function \<open>bar\<close> is the definition \<open>fooApi_bar\<close>; its \<open>baseUrl\<close>
  parameter, where it has one, is the first argument. What the module does with the answer is
  modelled where it does anything: the three upload functions and \<open>fileDownloadUrl\<close>.
\<close>

section \<open>JSON.stringify\<close>

definition escape_char :: "char \<Rightarrow> string" where
  "escape_char c =
     (let n = (of_char c :: nat)
      in if n = 34 then [CHR 0x5C, CHR 0x22]
         else if n = 92 then [CHR 0x5C, CHR 0x5C]
         else if n = 8 then CHR 0x5C # ''b''
         else if n = 9 then CHR 0x5C # ''t''
         else if n = 10 then CHR 0x5C # ''n''
         else if n = 12 then CHR 0x5C # ''f''
         else if n = 13 then CHR 0x5C # ''r''
         else if n < 32
           then CHR 0x5C # ''u00'' @ [char_of (48 + n div 16),
                  if n mod 16 < 10 then char_of (48 + n mod 16) else char_of (87 + n mod 16)]
         else [c])"

definition json_string :: "string \<Rightarrow> string" where
  "json_string s = CHR 0x22 # concat (map escape_char s) @ [CHR 0x22]"

fun stringify :: "json \<Rightarrow> string" where
  "stringify JNull = ''null''"
| "stringify (JBool b) = (if b then ''true'' else ''false'')"
| "stringify (JNum n) = show_int n"
| "stringify (JStr s) = json_string s"
| "stringify (JArr vs) = ''['' @ join '','' (map stringify vs) @ '']''"
| "stringify (JObj fs) =
     ''{'' @ join '','' (map (\<lambda>(k, v). json_string k @ '':'' @ stringify v) fs) @ ''}''"

lemma stringify_ne: "stringify v \<noteq> []"
  by (cases v) (auto simp: json_string_def)

section \<open>Query strings\<close>

text \<open>
  \<open>URLSearchParams.toString\<close>: letters, digits and \<open>*-._\<close> stay, a space becomes a plus sign,
  everything else the percent form of its UTF-8 bytes.
\<close>

definition form_char :: "char \<Rightarrow> string" where
  "form_char c =
     (let n = (of_char c :: nat)
      in if (65 \<le> n \<and> n \<le> 90) \<or> (97 \<le> n \<and> n \<le> 122) \<or> (48 \<le> n \<and> n \<le> 57) \<or> c \<in> set ''*-._''
         then [c]
         else if n = 32 then ''+''
         else if n < 128 then percent n
         else percent (192 + n div 64) @ percent (128 + n mod 64))"

definition form_encode :: "string \<Rightarrow> string" where
  "form_encode s = concat (map form_char s)"

definition search_to_string :: "(string \<times> string) list \<Rightarrow> string" where
  "search_to_string ps = join ''&'' (map (\<lambda>(k, v). form_encode k @ ''='' @ form_encode v) ps)"

text \<open>
  \<open>query\<close> of the portal client, over an object with distinct keys: an entry that is
  \<open>undefined\<close> or empty is left out; numbers are printed.
\<close>

definition query :: "(string \<times> string option) list \<Rightarrow> string" where
  "query params =
     (let kept = [(k, v). (k, Some v) \<leftarrow> params, v \<noteq> []];
          qs = search_to_string kept
      in if qs \<noteq> [] then ''?'' @ qs else [])"

section \<open>Requests\<close>

definition get_req :: "string \<Rightarrow> api_init" where
  "get_req p = \<lparr>init_path = p, init_base = None, init_method = None, init_body = None,
                init_headers = Map.empty\<rparr>"

definition at_base :: "string \<Rightarrow> api_init \<Rightarrow> api_init" where
  "at_base b i = i\<lparr>init_base := Some b\<rparr>"

definition json_req :: "string \<Rightarrow> string \<Rightarrow> json \<Rightarrow> api_init" where
  "json_req m p v = \<lparr>init_path = p, init_base = None, init_method = Some m,
                     init_body = Some (BText (stringify v)), init_headers = Map.empty\<rparr>"

definition typed :: "api_init \<Rightarrow> api_init" where
  "typed i = i\<lparr>init_headers := [''Content-Type'' \<mapsto> ''application/json'']\<rparr>"

definition bare_post :: "string \<Rightarrow> api_init" where
  "bare_post p = \<lparr>init_path = p, init_base = None, init_method = Some ''POST'', init_body = None,
                  init_headers = Map.empty\<rparr>"

definition form_post :: "string \<Rightarrow> (string \<times> string) list \<Rightarrow> api_init" where
  "form_post p fs = \<lparr>init_path = p, init_base = None, init_method = Some ''POST'',
                     init_body = Some (BForm fs), init_headers = Map.empty\<rparr>"

lemmas [js_simps] = get_req_def at_base_def json_req_def typed_def bare_post_def form_post_def

subsection \<open>features/auth/api.ts\<close>

definition authApi_register :: "string \<Rightarrow> string \<Rightarrow> string \<Rightarrow> string \<Rightarrow> api_init" where
  "authApi_register b email name password =
     at_base b (json_req ''POST'' ''/api/v1/auth/register''
       (JObj [(''email'', JStr email), (''name'', JStr name), (''password'', JStr password)]))"

definition authApi_login :: "string \<Rightarrow> string \<Rightarrow> string \<Rightarrow> api_init" where
  "authApi_login b email password =
     at_base b (json_req ''POST'' ''/api/v1/auth/token''
       (JObj [(''email'', JStr email), (''password'', JStr password)]))"

definition authApi_logout :: "string \<Rightarrow> api_init" where
  "authApi_logout b = at_base b (bare_post ''/api/v1/auth/logout'')"

definition authApi_me :: "string \<Rightarrow> api_init" where
  "authApi_me b = at_base b (get_req ''/api/v1/me'')"

definition authApi_verifyEmail :: "string \<Rightarrow> string \<Rightarrow> api_init" where
  "authApi_verifyEmail b token =
     at_base b (json_req ''POST'' ''/api/v1/auth/verify-email'' (JObj [(''token'', JStr token)]))"

definition authApi_resendVerification :: "string \<Rightarrow> api_init" where
  "authApi_resendVerification b = at_base b (bare_post ''/api/v1/auth/resend-verification'')"

definition authApi_requestPasswordReset :: "string \<Rightarrow> string \<Rightarrow> api_init" where
  "authApi_requestPasswordReset b email =
     at_base b (json_req ''POST'' ''/api/v1/auth/password/reset'' (JObj [(''email'', JStr email)]))"

definition authApi_confirmPasswordReset ::
    "string \<Rightarrow> string \<Rightarrow> string \<Rightarrow> string \<Rightarrow> api_init" where
  "authApi_confirmPasswordReset b uid token password =
     at_base b (json_req ''POST'' ''/api/v1/auth/password/reset/confirm''
       (JObj [(''uid'', JStr uid), (''token'', JStr token), (''password'', JStr password)]))"

definition authApi_deactivate :: "string \<Rightarrow> api_init" where
  "authApi_deactivate b = at_base b (bare_post ''/api/v1/me/deactivate'')"

text \<open>The session a server component reads: null whenever the request fails.\<close>

definition getServerSession :: "(api_init \<Rightarrow> failure + json) \<Rightarrow> string \<Rightarrow> json option" where
  "getServerSession call b =
     (case call (authApi_me b) of
        Inl _ \<Rightarrow> None
      | Inr v \<Rightarrow> get_field v ''user'')"

subsection \<open>features/orders/api.ts\<close>

definition ordersApi_pay :: "string \<Rightarrow> api_init" where
  "ordersApi_pay oid = typed (json_req ''POST'' (''/api/v1/me/orders/'' @ oid @ ''/pay'') (JObj []))"

definition ordersApi_confirmPayment :: "string \<Rightarrow> api_init" where
  "ordersApi_confirmPayment oid =
     typed (json_req ''POST'' (''/api/v1/me/orders/'' @ oid @ ''/payment/confirm'') (JObj []))"

definition ordersApi_list :: api_init where
  "ordersApi_list = get_req ''/api/v1/me/orders''"

definition ordersApi_detail :: "string \<Rightarrow> api_init" where
  "ordersApi_detail oid = get_req (''/api/v1/me/orders/'' @ oid)"

definition ordersApi_deliver :: "string \<Rightarrow> string \<Rightarrow> string list \<Rightarrow> api_init" where
  "ordersApi_deliver oid summary ids =
     typed (json_req ''POST'' (''/api/v1/me/orders/'' @ oid @ ''/deliveries'')
       (JObj [(''summary'', JStr summary), (''attachment_ids'', JArr (map JStr ids))]))"

definition ordersApi_approve :: "string \<Rightarrow> api_init" where
  "ordersApi_approve oid =
     typed (json_req ''POST'' (''/api/v1/me/orders/'' @ oid @ ''/approve'') (JObj []))"

definition ordersApi_requestRevision :: "string \<Rightarrow> string \<Rightarrow> api_init" where
  "ordersApi_requestRevision oid note =
     typed (json_req ''POST'' (''/api/v1/me/orders/'' @ oid @ ''/request-revision'')
       (JObj [(''note'', JStr note)]))"

definition ordersApi_cancel :: "string \<Rightarrow> string \<Rightarrow> api_init" where
  "ordersApi_cancel oid reason =
     typed (json_req ''POST'' (''/api/v1/me/orders/'' @ oid @ ''/cancel'')
       (JObj [(''reason'', JStr reason)]))"

text \<open>Reading a property of \<open>undefined\<close> or null throws.\<close>

fun member_of :: "json option \<Rightarrow> string \<Rightarrow> failure + json option" where
  "member_of None k = Inl (JsError ''TypeError'')"
| "member_of (Some JNull) k = Inl (JsError ''TypeError'')"
| "member_of (Some v) k = Inr (get_field v k)"

definition download_req :: "string \<Rightarrow> api_init" where
  "download_req attachmentId = get_req (''/api/v1/files/'' @ attachmentId @ ''/download-url'')"

definition fileDownloadUrl ::
    "(api_init \<Rightarrow> failure + json) \<Rightarrow> string \<Rightarrow> failure + json option" where
  "fileDownloadUrl call attachmentId =
     (case call (download_req attachmentId) of
        Inl e \<Rightarrow> Inl e
      | Inr v \<Rightarrow> member_of (Some v) ''url'')"

subsection \<open>features/payments/api.ts\<close>

definition paymentsApi_earnings :: api_init where
  "paymentsApi_earnings = get_req ''/api/v1/me/earnings''"

definition paymentsApi_payouts :: api_init where
  "paymentsApi_payouts = get_req ''/api/v1/me/payouts''"

subsection \<open>features/notifications/api.ts\<close>

definition notificationsApi_list :: api_init where
  "notificationsApi_list = get_req ''/api/v1/me/notifications''"

definition notificationsApi_read :: "string \<Rightarrow> api_init" where
  "notificationsApi_read nid =
     typed (json_req ''POST'' (''/api/v1/me/notifications/'' @ nid @ ''/read'') (JObj []))"

definition notificationsApi_readAll :: api_init where
  "notificationsApi_readAll = typed (json_req ''POST'' ''/api/v1/me/notifications/read-all'' (JObj []))"

definition notificationsApi_preferences_get :: api_init where
  "notificationsApi_preferences_get = get_req ''/api/v1/me/notification-preferences''"

definition notificationsApi_preferences_set :: "string \<Rightarrow> bool \<Rightarrow> api_init" where
  "notificationsApi_preferences_set category enabled =
     typed (json_req ''PUT'' ''/api/v1/me/notification-preferences''
       (JObj [(''category'', JStr category), (''email_enabled'', JBool enabled)]))"

subsection \<open>features/messaging/api.ts\<close>

datatype thread_context = OrderContext string | DisputeContext string | RequestContext string

fun context_json :: "thread_context \<Rightarrow> json" where
  "context_json (OrderContext oid) = JObj [(''context_type'', JStr ''order''), (''order_id'', JStr oid)]"
| "context_json (DisputeContext oid) =
     JObj [(''context_type'', JStr ''dispute''), (''order_id'', JStr oid)]"
| "context_json (RequestContext rid) =
     JObj [(''context_type'', JStr ''request''), (''request_id'', JStr rid)]"

fun json_opt :: "string option \<Rightarrow> json" where
  "json_opt None = JNull"
| "json_opt (Some s) = JStr s"

definition messagingApi_list :: api_init where
  "messagingApi_list = get_req ''/api/v1/me/threads''"

definition messagingApi_detail :: "string \<Rightarrow> api_init" where
  "messagingApi_detail tid = get_req (''/api/v1/me/threads/'' @ tid)"

definition messagingApi_send :: "string \<Rightarrow> string \<Rightarrow> string option \<Rightarrow> api_init" where
  "messagingApi_send tid text attachmentId =
     typed (json_req ''POST'' (''/api/v1/me/threads/'' @ tid @ ''/messages'')
       (JObj [(''body'', JStr text), (''attachment_id'', json_opt attachmentId)]))"

definition messagingApi_markRead :: "string \<Rightarrow> api_init" where
  "messagingApi_markRead tid =
     typed (json_req ''POST'' (''/api/v1/me/threads/'' @ tid @ ''/read'') (JObj []))"

definition messagingApi_open :: "thread_context \<Rightarrow> api_init" where
  "messagingApi_open context =
     typed (json_req ''POST'' ''/api/v1/me/threads/open'' (context_json context))"

definition messagingApi_reportMessage :: "string \<Rightarrow> string \<Rightarrow> string \<Rightarrow> api_init" where
  "messagingApi_reportMessage mid reason details =
     typed (json_req ''POST'' (''/api/v1/me/messages/'' @ mid @ ''/report'')
       (JObj [(''reason'', JStr reason), (''details'', JStr details)]))"

text \<open>
  The uploads read \<open>attachment\<close> of the answer and, but for \<open>uploadFile\<close>, its \<open>id\<close>. A file is
  its name here.
\<close>

definition upload_req :: "string \<Rightarrow> string \<Rightarrow> api_init" where
  "upload_req purpose file =
     form_post ''/api/v1/files'' [(''purpose'', purpose), (''file'', file)]"

definition uploadChatAttachment ::
    "(api_init \<Rightarrow> failure + json) \<Rightarrow> string \<Rightarrow> failure + json option" where
  "uploadChatAttachment call file =
     (case call (upload_req ''message'' file) of
        Inl e \<Rightarrow> Inl e
      | Inr v \<Rightarrow> (case member_of (Some v) ''attachment'' of
                    Inl e \<Rightarrow> Inl e
                  | Inr a \<Rightarrow> member_of a ''id''))"

subsection \<open>features/disputes/api.ts\<close>

definition disputesApi_forOrder :: "string \<Rightarrow> api_init" where
  "disputesApi_forOrder oid = get_req (''/api/v1/me/orders/'' @ oid @ ''/dispute'')"

definition disputesApi_detail :: "string \<Rightarrow> api_init" where
  "disputesApi_detail did = get_req (''/api/v1/me/disputes/'' @ did)"

definition disputesApi_open :: "string \<Rightarrow> string \<Rightarrow> string \<Rightarrow> string list \<Rightarrow> api_init" where
  "disputesApi_open oid reason description evidence =
     typed (json_req ''POST'' (''/api/v1/me/orders/'' @ oid @ ''/dispute'')
       (JObj [(''reason'', JStr reason), (''description'', JStr description),
              (''evidence_ids'', JArr (map JStr evidence))]))"

definition disputesApi_addEvidence :: "string \<Rightarrow> string list \<Rightarrow> api_init" where
  "disputesApi_addEvidence did evidence =
     typed (json_req ''POST'' (''/api/v1/me/disputes/'' @ did @ ''/evidence'')
       (JObj [(''evidence_ids'', JArr (map JStr evidence))]))"

definition uploadDisputeEvidence ::
    "(api_init \<Rightarrow> failure + json) \<Rightarrow> string \<Rightarrow> failure + json option" where
  "uploadDisputeEvidence call file =
     (case call (upload_req ''dispute_evidence'' file) of
        Inl e \<Rightarrow> Inl e
      | Inr v \<Rightarrow> (case member_of (Some v) ''attachment'' of
                    Inl e \<Rightarrow> Inl e
                  | Inr a \<Rightarrow> member_of a ''id''))"

subsection \<open>features/reviews/api.ts\<close>

definition reviewsApi_forOrder :: "string \<Rightarrow> api_init" where
  "reviewsApi_forOrder oid = get_req (''/api/v1/me/orders/'' @ oid @ ''/review'')"

definition reviewsApi_submit :: "string \<Rightarrow> json \<Rightarrow> api_init" where
  "reviewsApi_submit oid input =
     typed (json_req ''POST'' (''/api/v1/me/orders/'' @ oid @ ''/review'') input)"

definition reviewsApi_edit :: "string \<Rightarrow> json \<Rightarrow> api_init" where
  "reviewsApi_edit rid input = typed (json_req ''PATCH'' (''/api/v1/me/reviews/'' @ rid) input)"

fun json_num_opt :: "int option \<Rightarrow> json" where
  "json_num_opt None = JNull"
| "json_num_opt (Some n) = JNum n"

definition reviewsApi_reply :: "string \<Rightarrow> string \<Rightarrow> int option \<Rightarrow> api_init" where
  "reviewsApi_reply rid reply ratingOfStudent =
     typed (json_req ''POST'' (''/api/v1/reviews/'' @ rid @ ''/reply'')
       (JObj [(''reply'', JStr reply), (''rating_of_student'', json_num_opt ratingOfStudent)]))"

definition reviewsApi_received :: api_init where
  "reviewsApi_received = get_req ''/api/v1/me/reviews''"

definition reviewsApi_public :: "string option \<Rightarrow> string \<Rightarrow> api_init" where
  "reviewsApi_public base slug =
     (get_req (''/api/v1/experts/'' @ encodeURIComponent slug @ ''/reviews''))\<lparr>init_base := base\<rparr>"

subsection \<open>features/requests/api.ts\<close>

definition requestsApi_list :: api_init where
  "requestsApi_list = get_req ''/api/v1/me/requests''"

definition requestsApi_detail :: "string \<Rightarrow> api_init" where
  "requestsApi_detail rid = get_req (''/api/v1/me/requests/'' @ rid)"

definition requestsApi_create :: "json \<Rightarrow> api_init" where
  "requestsApi_create payload = typed (json_req ''POST'' ''/api/v1/me/requests'' payload)"

definition requestsApi_update :: "string \<Rightarrow> json \<Rightarrow> api_init" where
  "requestsApi_update rid payload =
     typed (json_req ''PATCH'' (''/api/v1/me/requests/'' @ rid) payload)"

definition requestsApi_publish :: "string \<Rightarrow> bool \<Rightarrow> api_init" where
  "requestsApi_publish rid attested =
     typed (json_req ''POST'' (''/api/v1/me/requests/'' @ rid @ ''/publish'')
       (JObj [(''attested'', JBool attested)]))"

definition requestsApi_cancel :: "string \<Rightarrow> string \<Rightarrow> api_init" where
  "requestsApi_cancel rid reason =
     typed (json_req ''POST'' (''/api/v1/me/requests/'' @ rid @ ''/cancel'')
       (JObj [(''reason'', JStr reason)]))"

definition with_query :: "string \<Rightarrow> (string \<times> string) list \<Rightarrow> string" where
  "with_query p params =
     (let qs = search_to_string params in p @ (if qs \<noteq> [] then ''?'' @ qs else []))"

definition feedApi_list :: "(string \<times> string) list \<Rightarrow> api_init" where
  "feedApi_list params = get_req (with_query ''/api/v1/requests'' params)"

definition feedApi_detail :: "string \<Rightarrow> api_init" where
  "feedApi_detail rid = get_req (''/api/v1/requests/'' @ rid)"

definition taxonomyApi_terms :: "string \<Rightarrow> api_init" where
  "taxonomyApi_terms kind = get_req (''/api/v1/taxonomy/terms?kind='' @ kind)"

subsection \<open>features/offers/api.ts\<close>

definition offersApi_submit :: "string \<Rightarrow> json \<Rightarrow> api_init" where
  "offersApi_submit rid payload =
     typed (json_req ''POST'' (''/api/v1/requests/'' @ rid @ ''/offers'') payload)"

definition offersApi_mine :: api_init where
  "offersApi_mine = get_req ''/api/v1/me/offers''"

definition offersApi_update :: "string \<Rightarrow> json \<Rightarrow> api_init" where
  "offersApi_update oid payload = typed (json_req ''PATCH'' (''/api/v1/me/offers/'' @ oid) payload)"

definition offersApi_withdraw :: "string \<Rightarrow> api_init" where
  "offersApi_withdraw oid =
     typed (json_req ''POST'' (''/api/v1/me/offers/'' @ oid @ ''/withdraw'') (JObj []))"

definition offersApi_resubmit :: "string \<Rightarrow> api_init" where
  "offersApi_resubmit oid =
     typed (json_req ''POST'' (''/api/v1/me/offers/'' @ oid @ ''/resubmit'') (JObj []))"

definition selectionApi_listForRequest :: "string \<Rightarrow> api_init" where
  "selectionApi_listForRequest rid = get_req (''/api/v1/me/requests/'' @ rid @ ''/offers'')"

definition selectionApi_accept :: "string \<Rightarrow> string \<Rightarrow> api_init" where
  "selectionApi_accept rid oid =
     typed (json_req ''POST'' (''/api/v1/me/requests/'' @ rid @ ''/offers/'' @ oid @ ''/accept'')
       (JObj []))"

definition selectionApi_decline :: "string \<Rightarrow> string \<Rightarrow> string \<Rightarrow> api_init" where
  "selectionApi_decline rid oid reason =
     typed (json_req ''POST'' (''/api/v1/me/requests/'' @ rid @ ''/offers/'' @ oid @ ''/decline'')
       (JObj [(''reason'', JStr reason)]))"

subsection \<open>features/assignments/api.ts\<close>

text \<open>
  \<open>Math.round\<close>, which rounds a half up. An amount is an exact rational; the rounding of a
  binary fraction before it is outside the model.
\<close>

definition math_round :: "rat \<Rightarrow> int" where
  "math_round x = \<lfloor>x + 1 / 2\<rfloor>"

definition assignmentsApi_invitations :: api_init where
  "assignmentsApi_invitations = get_req ''/api/v1/me/pool-invitations''"

definition assignmentsApi_acceptInvitation :: "string \<Rightarrow> rat option \<Rightarrow> api_init" where
  "assignmentsApi_acceptInvitation iid expectedAmount =
     typed (json_req ''POST'' (''/api/v1/me/pool-invitations/'' @ iid @ ''/accept'')
       (case expectedAmount of
          None \<Rightarrow> JObj []
        | Some a \<Rightarrow>
            (if a = 0 then JObj [] else JObj [(''expected_amount'', JNum (math_round (a * 100)))])))"

definition assignmentsApi_declineInvitation :: "string \<Rightarrow> string \<Rightarrow> api_init" where
  "assignmentsApi_declineInvitation iid reason =
     typed (json_req ''POST'' (''/api/v1/me/pool-invitations/'' @ iid @ ''/decline'')
       (JObj [(''reason'', JStr reason)]))"

definition assignmentsApi_assignments :: api_init where
  "assignmentsApi_assignments = get_req ''/api/v1/me/assignments''"

definition assignmentsApi_acceptAssignment :: "string \<Rightarrow> api_init" where
  "assignmentsApi_acceptAssignment aid =
     typed (json_req ''POST'' (''/api/v1/me/assignments/'' @ aid @ ''/accept'') (JObj []))"

definition assignmentsApi_declineAssignment :: "string \<Rightarrow> string \<Rightarrow> api_init" where
  "assignmentsApi_declineAssignment aid reason =
     typed (json_req ''POST'' (''/api/v1/me/assignments/'' @ aid @ ''/decline'')
       (JObj [(''reason'', JStr reason)]))"

subsection \<open>features/experts/api.ts\<close>

datatype save_mode = Create | Patch

datatype upload_purpose =
  Credential | Avatar | Request_brief | Delivery | Order_attachment | Message | Dispute_evidence

fun purpose_name :: "upload_purpose \<Rightarrow> string" where
  "purpose_name Credential = ''credential''"
| "purpose_name Avatar = ''avatar''"
| "purpose_name Request_brief = ''request_brief''"
| "purpose_name Delivery = ''delivery''"
| "purpose_name Order_attachment = ''order_attachment''"
| "purpose_name Message = ''message''"
| "purpose_name Dispute_evidence = ''dispute_evidence''"

definition expertsApi_directory :: "string \<Rightarrow> (string \<times> string) list \<Rightarrow> api_init" where
  "expertsApi_directory b params = at_base b (get_req (with_query ''/api/v1/experts'' params))"

definition expertsApi_publicExpert :: "string \<Rightarrow> string \<Rightarrow> api_init" where
  "expertsApi_publicExpert b slug =
     at_base b (get_req (''/api/v1/experts/'' @ encodeURIComponent slug))"

definition expertsApi_applyInfo :: "string \<Rightarrow> api_init" where
  "expertsApi_applyInfo b = at_base b (get_req ''/api/v1/experts/apply-info'')"

definition expertsApi_myApplication :: "string \<Rightarrow> api_init" where
  "expertsApi_myApplication b = at_base b (get_req ''/api/v1/me/expert-application'')"

definition expertsApi_saveApplication :: "string \<Rightarrow> json \<Rightarrow> save_mode \<Rightarrow> api_init" where
  "expertsApi_saveApplication b payload mode =
     at_base b (json_req (if mode = Create then ''POST'' else ''PATCH'')
       ''/api/v1/me/expert-application'' payload)"

definition expertsApi_submitApplication :: "string \<Rightarrow> api_init" where
  "expertsApi_submitApplication b = at_base b (bare_post ''/api/v1/me/expert-application/submit'')"

definition expertsApi_myExpertProfile :: "string \<Rightarrow> api_init" where
  "expertsApi_myExpertProfile b = at_base b (get_req ''/api/v1/me/expert-profile'')"

definition expertsApi_updateExpertProfile :: "string \<Rightarrow> json \<Rightarrow> api_init" where
  "expertsApi_updateExpertProfile b payload =
     at_base b (json_req ''PATCH'' ''/api/v1/me/expert-profile'' payload)"

definition profilesApi_studentProfile :: "string \<Rightarrow> api_init" where
  "profilesApi_studentProfile b = at_base b (get_req ''/api/v1/me/student-profile'')"

definition profilesApi_saveStudentProfile :: "string \<Rightarrow> json \<Rightarrow> api_init" where
  "profilesApi_saveStudentProfile b payload =
     at_base b (json_req ''PATCH'' ''/api/v1/me/student-profile'' payload)"

definition profilesApi_taxonomy :: "string \<Rightarrow> string option \<Rightarrow> api_init" where
  "profilesApi_taxonomy b kind =
     at_base b (get_req (''/api/v1/taxonomy/terms''
       @ (if truthy kind then ''?kind='' @ encodeURIComponent (the kind) else [])))"

definition uploadFile ::
    "(api_init \<Rightarrow> failure + json) \<Rightarrow> string \<Rightarrow> string \<Rightarrow> upload_purpose \<Rightarrow> failure + json option" where
  "uploadFile call b file purpose =
     (case call (at_base b (upload_req (purpose_name purpose) file)) of
        Inl e \<Rightarrow> Inl e
      | Inr v \<Rightarrow> member_of (Some v) ''attachment'')"

subsection \<open>features/portal/api.ts\<close>

datatype kpi_range = Today | D7 | D30 | Custom

fun range_name :: "kpi_range \<Rightarrow> string" where
  "range_name Today = ''today''"
| "range_name D7 = ''7d''"
| "range_name D30 = ''30d''"
| "range_name Custom = ''custom''"

datatype report_action = Dismiss | Confirm_hide

fun report_action_name :: "report_action \<Rightarrow> string" where
  "report_action_name Dismiss = ''dismiss''"
| "report_action_name Confirm_hide = ''confirm_hide''"

definition portalApi_kpis :: "kpi_range \<Rightarrow> string option \<Rightarrow> string option \<Rightarrow> api_init" where
  "portalApi_kpis period start stop =
     get_req (''/api/v1/ops/kpis''
       @ query [(''range'', Some (range_name period)), (''from'', start), (''to'', stop)])"

definition portalApi_reports :: "(string \<times> string option) list \<Rightarrow> api_init" where
  "portalApi_reports filters = get_req (''/api/v1/ops/reports'' @ query filters)"

definition portalApi_reviewReport :: "string \<Rightarrow> report_action \<Rightarrow> string \<Rightarrow> api_init" where
  "portalApi_reviewReport rid action note =
     typed (json_req ''POST'' (''/api/v1/ops/reports/'' @ rid @ ''/review'')
       (JObj [(''action'', JStr (report_action_name action)), (''note'', JStr note)]))"

definition portalApi_disputes :: "(string \<times> string option) list \<Rightarrow> api_init" where
  "portalApi_disputes filters = get_req (''/api/v1/ops/disputes'' @ query filters)"

definition portalApi_audit :: "(string \<times> string option) list \<Rightarrow> api_init" where
  "portalApi_audit filters = get_req (''/api/v1/ops/audit'' @ query filters)"

definition portalApi_config :: api_init where
  "portalApi_config = get_req ''/api/v1/ops/config''"

definition portalApi_updateConfig :: "json \<Rightarrow> api_init" where
  "portalApi_updateConfig changes = typed (json_req ''PUT'' ''/api/v1/ops/config'' changes)"

definition portalApi_reconciliation :: api_init where
  "portalApi_reconciliation = get_req ''/api/v1/ops/reconciliation''"

definition portalApi_users :: "(string \<times> string option) list \<Rightarrow> api_init" where
  "portalApi_users filters = get_req (''/api/v1/ops/users'' @ query filters)"

section \<open>The whole surface\<close>

text \<open>
  \<open>api_call i\<close>: some function of the modules, called with some arguments, makes the request
  \<open>i\<close>. One rule for every call of \<open>apiFetch\<close> in \<open>features/*/api.ts\<close> (the one of
  \<open>getServerSession\<close> is \<open>authApi_me\<close>, those of the four uploads are \<open>upload_req\<close>).
\<close>

inductive api_call :: "api_init \<Rightarrow> bool" where
  "api_call (authApi_register a b c d)"
| "api_call (authApi_login a b c)"
| "api_call (authApi_logout a)"
| "api_call (authApi_me a)"
| "api_call (authApi_verifyEmail a b)"
| "api_call (authApi_resendVerification a)"
| "api_call (authApi_requestPasswordReset a b)"
| "api_call (authApi_confirmPasswordReset a b c d)"
| "api_call (authApi_deactivate a)"
| "api_call (ordersApi_pay a)"
| "api_call (ordersApi_confirmPayment a)"
| "api_call (ordersApi_list)"
| "api_call (ordersApi_detail a)"
| "api_call (ordersApi_deliver a b c)"
| "api_call (ordersApi_approve a)"
| "api_call (ordersApi_requestRevision a b)"
| "api_call (ordersApi_cancel a b)"
| "api_call (download_req a)"
| "api_call (paymentsApi_earnings)"
| "api_call (paymentsApi_payouts)"
| "api_call (notificationsApi_list)"
| "api_call (notificationsApi_read a)"
| "api_call (notificationsApi_readAll)"
| "api_call (notificationsApi_preferences_get)"
| "api_call (notificationsApi_preferences_set a b)"
| "api_call (messagingApi_list)"
| "api_call (messagingApi_detail a)"
| "api_call (messagingApi_send a b c)"
| "api_call (messagingApi_markRead a)"
| "api_call (messagingApi_open a)"
| "api_call (messagingApi_reportMessage a b c)"
| "api_call (disputesApi_forOrder a)"
| "api_call (disputesApi_detail a)"
| "api_call (disputesApi_open a b c d)"
| "api_call (disputesApi_addEvidence a b)"
| "api_call (reviewsApi_forOrder a)"
| "api_call (reviewsApi_submit a b)"
| "api_call (reviewsApi_edit a b)"
| "api_call (reviewsApi_reply a b c)"
| "api_call (reviewsApi_received)"
| "api_call (reviewsApi_public a b)"
| "api_call (requestsApi_list)"
| "api_call (requestsApi_detail a)"
| "api_call (requestsApi_create a)"
| "api_call (requestsApi_update a b)"
| "api_call (requestsApi_publish a b)"
| "api_call (requestsApi_cancel a b)"
| "api_call (feedApi_list a)"
| "api_call (feedApi_detail a)"
| "api_call (taxonomyApi_terms a)"
| "api_call (offersApi_submit a b)"
| "api_call (offersApi_mine)"
| "api_call (offersApi_update a b)"
| "api_call (offersApi_withdraw a)"
| "api_call (offersApi_resubmit a)"
| "api_call (selectionApi_listForRequest a)"
| "api_call (selectionApi_accept a b)"
| "api_call (selectionApi_decline a b c)"
| "api_call (assignmentsApi_invitations)"
| "api_call (assignmentsApi_acceptInvitation a b)"
| "api_call (assignmentsApi_declineInvitation a b)"
| "api_call (assignmentsApi_assignments)"
| "api_call (assignmentsApi_acceptAssignment a)"
| "api_call (assignmentsApi_declineAssignment a b)"
| "api_call (expertsApi_directory a b)"
| "api_call (expertsApi_publicExpert a b)"
| "api_call (expertsApi_applyInfo a)"
| "api_call (expertsApi_myApplication a)"
| "api_call (expertsApi_saveApplication a b c)"
| "api_call (expertsApi_submitApplication a)"
| "api_call (expertsApi_myExpertProfile a)"
| "api_call (expertsApi_updateExpertProfile a b)"
| "api_call (profilesApi_studentProfile a)"
| "api_call (profilesApi_saveStudentProfile a b)"
| "api_call (profilesApi_taxonomy a b)"
| "api_call (portalApi_kpis a b c)"
| "api_call (portalApi_reports a)"
| "api_call (portalApi_reviewReport a b c)"
| "api_call (portalApi_disputes a)"
| "api_call (portalApi_audit a)"
| "api_call (portalApi_config)"
| "api_call (portalApi_updateConfig a)"
| "api_call (portalApi_reconciliation)"
| "api_call (portalApi_users a)"
| "api_call (upload_req a b)"
| "api_call (at_base c (upload_req a b))"

lemmas api_defs =
  authApi_register_def authApi_login_def authApi_logout_def authApi_me_def
  authApi_verifyEmail_def authApi_resendVerification_def authApi_requestPasswordReset_def
  authApi_confirmPasswordReset_def authApi_deactivate_def download_req_def ordersApi_pay_def ordersApi_confirmPayment_def ordersApi_list_def
  ordersApi_detail_def ordersApi_deliver_def ordersApi_approve_def
  ordersApi_requestRevision_def ordersApi_cancel_def paymentsApi_earnings_def
  paymentsApi_payouts_def notificationsApi_list_def notificationsApi_read_def
  notificationsApi_readAll_def notificationsApi_preferences_get_def
  notificationsApi_preferences_set_def messagingApi_list_def messagingApi_detail_def
  messagingApi_send_def messagingApi_markRead_def messagingApi_open_def
  messagingApi_reportMessage_def disputesApi_forOrder_def disputesApi_detail_def
  disputesApi_open_def disputesApi_addEvidence_def reviewsApi_forOrder_def
  reviewsApi_submit_def reviewsApi_edit_def reviewsApi_reply_def reviewsApi_received_def
  reviewsApi_public_def requestsApi_list_def requestsApi_detail_def requestsApi_create_def
  requestsApi_update_def requestsApi_publish_def requestsApi_cancel_def feedApi_list_def
  feedApi_detail_def taxonomyApi_terms_def offersApi_submit_def offersApi_mine_def
  offersApi_update_def offersApi_withdraw_def offersApi_resubmit_def
  selectionApi_listForRequest_def selectionApi_accept_def selectionApi_decline_def
  assignmentsApi_invitations_def assignmentsApi_acceptInvitation_def
  assignmentsApi_declineInvitation_def assignmentsApi_assignments_def
  assignmentsApi_acceptAssignment_def assignmentsApi_declineAssignment_def
  expertsApi_directory_def expertsApi_publicExpert_def expertsApi_applyInfo_def
  expertsApi_myApplication_def expertsApi_saveApplication_def expertsApi_submitApplication_def
  expertsApi_myExpertProfile_def expertsApi_updateExpertProfile_def
  profilesApi_studentProfile_def profilesApi_saveStudentProfile_def profilesApi_taxonomy_def
  portalApi_kpis_def portalApi_reports_def portalApi_reviewReport_def portalApi_disputes_def
  portalApi_audit_def portalApi_config_def portalApi_updateConfig_def
  portalApi_reconciliation_def portalApi_users_def upload_req_def

definition mutating :: "api_init \<Rightarrow> bool" where
  "mutating i \<longleftrightarrow> to_upper (nullish (init_method i) ''GET'') \<notin> {''GET'', ''HEAD''}"

lemma header_requested_with:
  "mutating i \<Longrightarrow> init_headers i ''X-Requested-With'' = None \<Longrightarrow>
   http_headers (api_request env i) ''X-Requested-With'' = Some ''XMLHttpRequest''"
  by (auto simp: mutating_def api_request_def base_headers_def Let_def map_add_def)

lemma header_accept:
  "init_headers i ''Accept'' = None \<Longrightarrow>
   http_headers (api_request env i) ''Accept'' = Some ''application/json''"
  by (auto simp: api_request_def base_headers_def Let_def map_add_def)

lemma header_content_type:
  "is_text (init_body i) \<Longrightarrow> init_headers i ''Content-Type'' \<in> {None, Some ''application/json''} \<Longrightarrow>
   http_headers (api_request env i) ''Content-Type'' = Some ''application/json''"
  by (auto simp: api_request_def base_headers_def Let_def map_add_def split: option.split)

lemma api_call_headers:
  "api_call i \<Longrightarrow> init_headers i = Map.empty
     \<or> init_headers i = [''Content-Type'' \<mapsto> ''application/json'']"
  by (erule api_call.cases) (simp_all add: api_defs js_simps)

lemma api_call_path: "api_call i \<Longrightarrow> starts_with (init_path i) ''/api/v1/''"
  by (erule api_call.cases) (simp_all add: api_defs js_simps with_query_def Let_def)

lemma api_call_body:
  "api_call i \<Longrightarrow> init_body i = None \<or> is_text (init_body i) \<or> (\<exists>fs. init_body i = Some (BForm fs))"
  by (erule api_call.cases) (simp_all add: api_defs js_simps stringify_ne)

lemma api_call_form_untyped:
  "api_call i \<Longrightarrow> init_body i = Some (BForm fs) \<Longrightarrow> init_headers i = Map.empty"
  by (erule api_call.cases) (auto simp: api_defs js_simps)

section \<open>Reading a query string\<close>

text \<open>
  What the receiving side does with a query string: split at \<open>&\<close>, then at the first \<open>=\<close>, and
  decode plus signs and percent forms (a first byte of 192 or more starts a two-byte
  sequence).
\<close>

definition unhex :: "char \<Rightarrow> nat" where
  "unhex c = (let n = (of_char c :: nat) in if n < 58 then n - 48 else n - 55)"

fun form_decode :: "string \<Rightarrow> string" where
  "form_decode [] = []"
| "form_decode (c # cs) =
     (if c = CHR ''+'' then CHR '' '' # form_decode cs
      else if c \<noteq> CHR ''%'' then c # form_decode cs
      else (case cs of
              h # l # rest \<Rightarrow>
                (if 16 * unhex h + unhex l < 128
                 then char_of (16 * unhex h + unhex l) # form_decode rest
                 else (case rest of
                         _ # h2 # l2 # rest2 \<Rightarrow>
                           char_of ((16 * unhex h + unhex l - 192) * 64
                             + (16 * unhex h2 + unhex l2 - 128)) # form_decode rest2
                       | _ \<Rightarrow> []))
            | _ \<Rightarrow> []))"

lemma unhex_hex_char [simp]: "d < 16 \<Longrightarrow> unhex (hex_char d) = d"
  by (auto simp: unhex_def hex_char_def Let_def)

lemma form_decode_percent:
  "n < 128 \<Longrightarrow> form_decode (percent n @ t) = char_of n # form_decode t"
  by (simp add: percent_def)

lemma form_decode_percent2:
  assumes "128 \<le> n" "n < 256"
  shows "form_decode (percent (192 + n div 64) @ percent (128 + n mod 64) @ t)
           = char_of n # form_decode t"
proof -
  let ?a = "192 + n div 64" and ?b = "128 + n mod 64"
  have "?a < 256" "?b < 256" using assms by arith+
  then have d: "?a div 16 < 16" "?b div 16 < 16" by arith+
  have "16 * (?a div 16) + ?a mod 16 = ?a" "16 * (?b div 16) + ?b mod 16 = ?b" by arith+
  moreover have "(?a - 192) * 64 + (?b - 128) = n" by simp
  ultimately show ?thesis using d by (simp add: percent_def)
qed

lemma form_decode_char [simp]: "form_decode (form_char c @ t) = c # form_decode t"
proof -
  let ?n = "of_char c :: nat"
  let ?safe = "(65 \<le> ?n \<and> ?n \<le> 90) \<or> (97 \<le> ?n \<and> ?n \<le> 122) \<or> (48 \<le> ?n \<and> ?n \<le> 57)
    \<or> c \<in> set ''*-._''"
  have n: "?n < 256" by simp
  have space: "?n = 32 \<Longrightarrow> c = CHR '' ''"
  proof -
    assume "?n = 32"
    have "c = char_of ?n" by simp
    also have "\<dots> = char_of (32 :: nat)" by (simp only: \<open>?n = 32\<close>)
    also have "\<dots> = CHR '' ''" by code_simp
    finally show "c = CHR '' ''" .
  qed
  consider "form_char c = [c]" "c \<noteq> CHR ''+''" "c \<noteq> CHR ''%''"
    | "form_char c = ''+''" "c = CHR '' ''"
    | "form_char c = percent ?n" "?n < 128"
    | "form_char c = percent (192 + ?n div 64) @ percent (128 + ?n mod 64)" "128 \<le> ?n"
  proof (cases ?safe)
    case True
    then have "form_char c = [c]" "c \<noteq> CHR ''+''" "c \<noteq> CHR ''%''"
      by (auto simp: form_char_def Let_def)
    then show thesis by (rule that(1))
  next
    case False
    then have f: "form_char c = (if ?n = 32 then ''+'' else if ?n < 128 then percent ?n
        else percent (192 + ?n div 64) @ percent (128 + ?n mod 64))"
      unfolding form_char_def Let_def by (rule if_not_P)
    show thesis
    proof (cases "?n = 32")
      case True
      with f have "form_char c = ''+''" by (simp only: if_True refl)
      then show thesis using that(2) space True by blast
    next
      case no_space: False
      show thesis
      proof (cases "?n < 128")
        case True
        with f no_space have "form_char c = percent ?n" by metis
        then show thesis using that(3) True by blast
      next
        case False
        with f no_space
        have "form_char c = percent (192 + ?n div 64) @ percent (128 + ?n mod 64)"
          by metis
        then show thesis using that(4) False by (meson not_less)
      qed
    qed
  qed
  then show ?thesis
  proof cases
    case 4
    then show ?thesis using form_decode_percent2 [OF 4(2) n, of t] by simp
  qed (simp_all add: form_decode_percent)
qed

lemma form_decode_encode [simp]: "form_decode (form_encode s) = s"
  by (induction s) (simp_all add: form_encode_def)

text \<open>\<open>encodeURIComponent\<close> is undone by the same decoder.\<close>

lemma form_decode_encode_char [simp]: "form_decode (encode_char c @ t) = c # form_decode t"
proof (cases "unreserved c")
  case True
  then have "c \<noteq> CHR ''+''" "c \<noteq> CHR ''%''" by (auto simp: unreserved_def Let_def)
  with True show ?thesis by (simp add: encode_char_def Let_def)
next
  case False
  let ?n = "of_char c :: nat"
  have n: "?n < 256" by simp
  show ?thesis
  proof (cases "?n < 128")
    case True
    with False have "encode_char c = percent ?n"
      unfolding encode_char_def Let_def by metis
    then show ?thesis using form_decode_percent [OF True, of t] by simp
  next
    case big: False
    with False have "encode_char c = percent (192 + ?n div 64) @ percent (128 + ?n mod 64)"
      unfolding encode_char_def Let_def by metis
    then show ?thesis using form_decode_percent2 [OF _ n, of t] big by simp
  qed
qed

lemma form_decode_encodeURIComponent [simp]: "form_decode (encodeURIComponent s) = s"
  by (induction s) (simp_all add: encodeURIComponent_def)

fun split_first :: "char \<Rightarrow> string \<Rightarrow> string \<times> string" where
  "split_first c [] = ([], [])"
| "split_first c (x # xs) =
     (if x = c then ([], xs) else (let (a, b) = split_first c xs in (x # a, b)))"

definition parse_query :: "string \<Rightarrow> (string \<times> string) list" where
  "parse_query s =
     (if s = [] then []
      else map (\<lambda>p. let (k, v) = split_first (CHR ''='') p in (form_decode k, form_decode v))
             (split_on (CHR ''&'') s))"

lemma split_first_append: "c \<notin> set a \<Longrightarrow> split_first c (a @ c # b) = (a, b)"
  by (induction a) auto

lemma form_char_plain: "set (form_char c) \<inter> set ''&='' = {}"
proof -
  let ?n = "of_char c :: nat"
  have "?n < 256" by simp
  then have "192 + ?n div 64 < 256" "128 + ?n mod 64 < 256" by arith+
  then show ?thesis
    using percent_plain [of ?n] percent_plain [of "192 + ?n div 64"]
      percent_plain [of "128 + ?n mod 64"]
    by (auto simp: form_char_def Let_def)
qed

lemma form_encode_plain: "CHR ''&'' \<notin> set (form_encode s)" "CHR ''='' \<notin> set (form_encode s)"
  using form_char_plain by (force simp: form_encode_def)+

lemma split_join_amp:
  assumes "\<forall>p \<in> set (p0 # ps). CHR ''&'' \<notin> set p"
  shows "split_on (CHR ''&'') (join ''&'' (p0 # ps)) = p0 # ps"
  using assms
  by (induction ps arbitrary: p0) (simp_all add: split_on_no_sep split_on_append)

lemma parse_search: "parse_query (search_to_string ps) = ps"
proof (cases ps)
  case Nil
  then show ?thesis by (simp add: search_to_string_def parse_query_def)
next
  case (Cons q qs)
  let ?f = "\<lambda>(k, v). form_encode k @ ''='' @ form_encode v"
  have ne: "search_to_string ps \<noteq> []"
    by (cases qs; cases q) (auto simp: Cons search_to_string_def)
  have "split_on (CHR ''&'') (search_to_string ps) = map ?f ps"
    unfolding Cons search_to_string_def list.map
    by (rule split_join_amp) (auto simp: form_encode_plain)
  then have "parse_query (search_to_string ps)
      = map ((\<lambda>p. let (k, v) = split_first (CHR ''='') p in (form_decode k, form_decode v)) \<circ> ?f) ps"
    using ne by (simp add: parse_query_def)
  also have "\<dots> = ps"
    by (rule map_idI) (auto simp: split_first_append form_encode_plain)
  finally show ?thesis .
qed

section \<open>Properties\<close>

text \<open>
  C4: the query string of the portal's filters loses nothing and invents nothing. Reading back
  what \<open>query\<close> appends to a path gives exactly the entries that are defined and not empty, in
  order, whatever characters their values hold; with no such entry the path stays bare.
\<close>

theorem query_roundtrip:
  "\<exists>qs. query params = (if qs = [] then [] else ''?'' @ qs) \<and>
     parse_query qs = [(k, v). (k, Some v) \<leftarrow> params, v \<noteq> []]"
  by (rule exI [of _ "search_to_string [(k, v). (k, Some v) \<leftarrow> params, v \<noteq> []]"])
    (simp add: query_def Let_def parse_search)

text \<open>
  C5: every request the API modules can make (every call of \<open>apiFetch\<close> in
  \<open>features/*/api.ts\<close>, the password reset and the signed download addresses included) goes to
  the base its caller gives or the browser's, under \<open>/api/v1/\<close>, is sent with the session
  cookies, asks for JSON, carries the \<open>X-Requested-With\<close> header when it changes state (the
  defence in depth against cross-site requests), declares a text body as JSON and leaves the
  content type of a multipart body to the browser.
\<close>

theorem api_surface_headers:
  assumes "api_call i"
  shows "starts_with (init_path i) ''/api/v1/'' \<and>
    http_url (api_request env i) = nullish (init_base i) (API_URL_BROWSER env) @ init_path i \<and>
    http_credentials (api_request env i) = ''include'' \<and>
    http_headers (api_request env i) ''Accept'' = Some ''application/json'' \<and>
    (mutating i \<longrightarrow>
       http_headers (api_request env i) ''X-Requested-With'' = Some ''XMLHttpRequest'') \<and>
    (is_text (init_body i) \<longrightarrow>
       http_headers (api_request env i) ''Content-Type'' = Some ''application/json'') \<and>
    (\<forall>fs. init_body i = Some (BForm fs) \<longrightarrow>
       http_headers (api_request env i) ''Content-Type'' = None)"
proof -
  have h: "init_headers i k = None" if "k \<noteq> ''Content-Type''" for k
    using api_call_headers [OF assms] that by auto
  have c: "init_headers i ''Content-Type'' \<in> {None, Some ''application/json''}"
    using api_call_headers [OF assms] by auto
  have f: "http_headers (api_request env i) ''Content-Type'' = None"
    if "init_body i = Some (BForm fs)" for fs
    using api_call_form_untyped [OF assms that] that
    by (simp add: api_request_def base_headers_def Let_def map_add_def)
  show ?thesis
    using api_call_path [OF assms] header_requested_with header_accept header_content_type [OF _ c] h f
    by (simp add: api_request_def [of env i, THEN arg_cong [where f = http_credentials]]
        api_request_def [of env i, THEN arg_cong [where f = http_url]])
qed

theorem api_surface_headers_witness:
  "http_headers (api_request Map.empty (ordersApi_approve ''o1'')) ''X-Requested-With''
     = Some ''XMLHttpRequest'' \<and>
   http_headers (api_request Map.empty (authApi_confirmPasswordReset ''b'' ''u'' ''t'' ''p''))
     ''X-Requested-With'' = Some ''XMLHttpRequest''"
proof -
  have "api_call (ordersApi_approve ''o1'')"
    "api_call (authApi_confirmPasswordReset ''b'' ''u'' ''t'' ''p'')" by (rule api_call.intros)+
  moreover have "mutating (ordersApi_approve ''o1'')"
    "mutating (authApi_confirmPasswordReset ''b'' ''u'' ''t'' ''p'')"
    by (simp_all add: mutating_def ordersApi_approve_def authApi_confirmPasswordReset_def js_simps
        to_upper_def upper_char_def)
  ultimately show ?thesis using api_surface_headers by blast
qed

text \<open>
  \<open>apiFetch\<close> throws exactly when something went wrong, and says what. It returns a payload
  only for a status from 200 to 299; it throws an \<open>ApiError\<close> only for another status, with that
  status, with the code of the server's envelope when there is one and \<open>unknown_error\<close> otherwise;
  every other failure (a rejected fetch, a body that is no JSON) is not an \<open>ApiError\<close>.
\<close>

lemma apiFetch_outcomes:
  "case apiFetch fetch env i of
     Inr v \<Rightarrow> (\<exists>r. fetch (api_request env i) = Response r \<and> res_ok r \<and> read_payload r = Inr v)
   | Inl (Api e) \<Rightarrow>
       (\<exists>r p. fetch (api_request env i) = Response r \<and> \<not> res_ok r \<and> read_payload r = Inr p \<and>
          err_status e = res_status r \<and>
          (if json_truthy (get_field p ''error'')
           then err_code e = get_field (the (get_field p ''error'')) ''code''
           else err_code e = Some (JStr ''unknown_error'')))
   | Inl _ \<Rightarrow> (\<exists>m. fetch (api_request env i) = Rejected m)
       \<or> (\<exists>r. fetch (api_request env i) = Response r \<and> res_json r = None)"
proof (cases "fetch (api_request env i)")
  case (Rejected m)
  then show ?thesis by (simp add: apiFetch_def)
next
  case (Response r)
  show ?thesis
  proof (cases "read_payload r")
    case (Inl e)
    then have "res_json r = None" "e = JsError ''SyntaxError''"
      by (auto simp: read_payload_def Let_def split: option.splits if_splits)
    then show ?thesis using Response Inl by (simp add: apiFetch_def)
  next
    case (Inr p)
    then show ?thesis
      using Response
      by (auto simp: apiFetch_def envelope_error_def ApiError_def split: option.split)
  qed
qed

end
