(* ===== verification/Forms.thy ===== *)
theory Forms
  imports Machine Endpoints
begin

text \<open>
  What the forms of the program share: asynchronous handlers against a server, upload loops, and
  the text shown for a caught error.

  A handler that awaits requests is a function that threads the world the server lives in. The
  server is a parameter: it answers a request with a payload or a failure, and may change the
  world. \<open>logged\<close> is a server that also writes down the requests it was asked, so that
  properties can speak of which requests a handler makes and in which order.
\<close>

section \<open>Servers\<close>

type_synonym 'w server = "api_init \<Rightarrow> 'w \<Rightarrow> (failure + json) \<times> 'w"

definition ask :: "'w server \<Rightarrow> api_init \<Rightarrow> (failure + json \<Rightarrow> 'a) \<Rightarrow> 'w \<Rightarrow> 'a \<times> 'w" where
  "ask srv i k w = (case srv i w of (r, w') \<Rightarrow> (k r, w'))"

definition logged :: "'w server \<Rightarrow> ('w \<times> api_init list) server" where
  "logged srv i wl = (case srv i (fst wl) of (r, w') \<Rightarrow> (r, w', snd wl @ [i]))"

text \<open>
  The payloads are cast, not checked. An identifier the server sends is text; should it be
  another value, the model takes the text a template string would give it.
\<close>

fun text_of :: "json option \<Rightarrow> string" where
  "text_of None = ''undefined''"
| "text_of (Some v) = to_str v"

section \<open>Errors shown to the user\<close>

text \<open>\<open>error instanceof Error ? error.message : fallback\<close>, and the same with \<open>ApiError\<close>.\<close>

fun message_or :: "string \<Rightarrow> failure \<Rightarrow> string" where
  "message_or d (Api e) = err_message e"
| "message_or d (JsError m) = m"
| "message_or d NotError = d"

fun api_message_or :: "string \<Rightarrow> failure \<Rightarrow> string" where
  "api_message_or d (Api e) = err_message e"
| "api_message_or d _ = d"

text \<open>\<open>{error && <p role="alert">{error}</p>}\<close>: an empty message shows nothing.\<close>

definition alert_if :: "string option \<Rightarrow> 'e ui list" where
  "alert_if e = (if truthy e then [Alert (the e)] else [])"

lemma offered_alert_if [simp]: "\<not> offered (alert_if e) x"
  by (simp add: alert_if_def)

text \<open>The viewer's side of an order.\<close>

datatype role = Student | Expert

text \<open>What the server tells of an uploaded file.\<close>

record attachment =
  at_id :: string
  at_name :: string
  at_size :: nat
  at_type :: string

section \<open>Numbers and dates\<close>

text \<open>The functions of the user's locale: parameters of what is shown.\<close>

record locale_text =
  show_number :: "rat \<Rightarrow> string"
  show_date :: "string \<Rightarrow> string"
  show_datetime :: "string \<Rightarrow> string"
  show_short :: "string \<Rightarrow> string"
  show_price :: "rat \<Rightarrow> string"          \<comment> \<open>US dollars without cents\<close>

text \<open>A locale that prints whole numbers and leaves dates as they are.\<close>

definition plain_locale :: locale_text where
  "plain_locale = \<lparr>show_number = (\<lambda>x. show_int \<lfloor>x\<rfloor>), show_date = id, show_datetime = id, show_short = id,
     show_price = (\<lambda>x. CHR ''$'' # show_int \<lfloor>x\<rfloor>)\<rparr>"

section \<open>Upload loops\<close>

text \<open>\<open>for (const file of files) ids.push(await up(file))\<close>: the first failure leaves the loop.\<close>

fun upload_all ::
    "(string \<Rightarrow> 'w \<Rightarrow> (failure + string) \<times> 'w) \<Rightarrow> string list \<Rightarrow> 'w \<Rightarrow> (failure + string list) \<times> 'w"
  where
  "upload_all up [] w = (Inr [], w)"
| "upload_all up (f # fs) w =
     (case up f w of
        (Inl e, w') \<Rightarrow> (Inl e, w')
      | (Inr i, w') \<Rightarrow>
          (case upload_all up fs w' of
             (Inl e, w'') \<Rightarrow> (Inl e, w'')
           | (Inr is, w'') \<Rightarrow> (Inr (i # is), w'')))"

text \<open>\<open>(await uploadFile(file, purpose)).id\<close> and \<open>await uploadDisputeEvidence(file)\<close>.\<close>

definition upload_id :: "string \<Rightarrow> upload_purpose \<Rightarrow> 'w server \<Rightarrow> string \<Rightarrow> 'w \<Rightarrow> (failure + string) \<times> 'w"
  where
  "upload_id b purpose srv file =
     ask srv (at_base b (upload_req (purpose_name purpose) file))
       (\<lambda>r. case uploadFile (\<lambda>_. r) b file purpose of
              Inl e \<Rightarrow> Inl e
            | Inr a \<Rightarrow> (case member_of a ''id'' of Inl e \<Rightarrow> Inl e | Inr i \<Rightarrow> Inr (text_of i)))"

definition evidence_id :: "'w server \<Rightarrow> string \<Rightarrow> 'w \<Rightarrow> (failure + string) \<times> 'w" where
  "evidence_id srv file =
     ask srv (upload_req ''dispute_evidence'' file)
       (\<lambda>r. map_sum id text_of (uploadDisputeEvidence (\<lambda>_. r) file))"

text \<open>
  The contract of an upload function: one request per file, whatever comes of it. A loop then
  makes the requests of a prefix of the files, of all of them if it succeeds.
\<close>

locale uploader =
  fixes up :: "string \<Rightarrow> 'w \<times> api_init list \<Rightarrow> (failure + string) \<times> 'w \<times> api_init list"
    and rq :: "string \<Rightarrow> api_init"
  assumes up_log: "snd (snd (up f wl)) = snd wl @ [rq f]"
begin

lemma all_ok:
  "upload_all up fs wl = (Inr is, wl') \<Longrightarrow>
   snd wl' = snd wl @ map rq fs \<and> length is = length fs"
proof (induction fs arbitrary: wl "is" wl')
  case (Cons f fs)
  obtain r wl1 where Pair: "up f wl = (r, wl1)" by (meson surj_pair)
  with Cons.prems obtain i js where "r = Inr i" "upload_all up fs wl1 = (Inr js, wl')" "is = i # js"
    by (auto split: prod.splits sum.splits)
  then show ?case
    using Cons.IH [of wl1 js wl'] up_log [of f wl] Pair by simp
qed simp

lemma all_stops:
  "upload_all up fs wl = (Inl e, wl') \<Longrightarrow>
   \<exists>k < length fs. snd wl' = snd wl @ map rq (take (Suc k) fs)"
proof (induction fs arbitrary: wl e wl')
  case (Cons f fs)
  note log = up_log [of f wl]
  obtain r wl1 where Pair: "up f wl = (r, wl1)" by (meson surj_pair)
  show ?case
  proof (cases r)
    case (Inl x)
    then show ?thesis using Cons.prems Pair log by (intro exI [of _ 0]) simp
  next
    case (Inr i)
    then have "upload_all up fs wl1 = (Inl e, wl')"
      using Cons.prems Pair by (auto split: prod.splits sum.splits)
    then obtain k where "k < length fs" "snd wl' = snd wl1 @ map rq (take (Suc k) fs)"
      using Cons.IH by blast
    then show ?thesis using Pair log by (intro exI [of _ "Suc k"]) simp
  qed
qed simp

end

lemma logged_ask: "snd (snd (ask (logged srv) i k wl)) = snd wl @ [i]"
  by (simp add: ask_def logged_def split: prod.split)

interpretation file_upload: uploader "upload_id b purpose (logged srv)"
  "\<lambda>f. at_base b (upload_req (purpose_name purpose) f)" for b purpose srv
  by unfold_locales (simp add: upload_id_def logged_ask)

interpretation evidence_upload: uploader "evidence_id (logged srv)"
  "upload_req ''dispute_evidence''" for srv
  by unfold_locales (simp add: evidence_id_def logged_ask)

end
