(* ===== verification/Orders.thy ===== *)
theory Orders
  imports Forms
begin

text \<open>
  Orders: the domain types and the lifecycle helpers of \<open>features/orders/types.ts\<close>, the order list
  \<open>features/orders/components/orders-list-client.tsx\<close>, the payment card and the earnings card.
\<close>

section \<open>Data\<close>

datatype order_status =
    Awaiting_payment
  | Active
  | Delivered
  | Revision_requested
  | Completed
  | Cancelled
  | Disputed

fun status_name :: "order_status \<Rightarrow> string" where
  "status_name Awaiting_payment = ''awaiting_payment''"
| "status_name Active = ''active''"
| "status_name Delivered = ''delivered''"
| "status_name Revision_requested = ''revision_requested''"
| "status_name Completed = ''completed''"
| "status_name Cancelled = ''cancelled''"
| "status_name Disputed = ''disputed''"

datatype order_source = Open_bid | Managed_pool | Managed_direct

record order_item =
  oi_id :: string
  oi_number :: string
  oi_status :: order_status
  oi_source :: order_source
  oi_title :: string
  oi_amount :: rat
  oi_role :: role
  oi_created_at :: string

datatype delivery_status = Submitted | Approved | Changes_requested

record delivery =
  dl_id :: string
  dl_revision :: nat
  dl_summary :: string
  dl_status :: delivery_status
  dl_submitted_at :: "string option"
  dl_approved_at :: "string option"
  dl_approval_source :: string
  dl_attachments :: "attachment list"

record order_event =
  oe_type :: string
  oe_created_at :: string
  oe_data :: json

datatype payment_status =
    Pay_pending
  | Pay_requires_action
  | Pay_processing
  | Pay_succeeded
  | Pay_failed
  | Pay_canceled
  | Pay_refunded
  | Pay_partially_refunded

record payment_info =
  pi_id :: string
  pi_gateway :: string
  pi_status :: payment_status
  pi_amount_minor :: int
  pi_amount :: rat
  pi_currency :: string
  pi_refunded :: rat
  pi_failure_reason :: string
  pi_paid_at :: "string option"
  pi_simulated :: bool
  pi_instructions :: "string option"
  pi_dev_self_confirm :: bool

record order_detail =
  od_id :: string
  od_number :: string
  od_status :: order_status
  od_source :: order_source
  od_title :: string
  od_amount :: rat
  od_role :: role
  od_created_at :: string
  od_request_id :: string
  od_category :: string
  od_counterparty :: string
  od_expert_amount :: rat
  od_commission :: rat
  od_currency :: string
  od_deadline :: "string option"
  od_revisions_allowed :: nat
  od_revisions_used :: nat
  od_auto_approve_at :: "string option"
  od_paid_at :: "string option"
  od_delivered_at :: "string option"
  od_completed_at :: "string option"
  od_cancelled_at :: "string option"
  od_cancellation_reason :: string
  od_events :: "order_event list"
  od_deliveries :: "delivery list"
  od_payment :: "payment_info option"

section \<open>Copy and tones\<close>

fun PAYMENT_STATUS_COPY :: "payment_status \<Rightarrow> string" where
  "PAYMENT_STATUS_COPY Pay_pending = ''Awaiting payment''"
| "PAYMENT_STATUS_COPY Pay_requires_action = ''Action required''"
| "PAYMENT_STATUS_COPY Pay_processing = ''Processing''"
| "PAYMENT_STATUS_COPY Pay_succeeded = ''Paid''"
| "PAYMENT_STATUS_COPY Pay_failed = ''Payment failed -- retry available''"
| "PAYMENT_STATUS_COPY Pay_canceled = ''Payment canceled''"
| "PAYMENT_STATUS_COPY Pay_refunded = ''Refunded''"
| "PAYMENT_STATUS_COPY Pay_partially_refunded = ''Partially refunded''"

fun ORDER_STATUS_TONE :: "order_status \<Rightarrow> string" where
  "ORDER_STATUS_TONE Awaiting_payment = ''warning''"
| "ORDER_STATUS_TONE Active = ''info''"
| "ORDER_STATUS_TONE Delivered = ''info''"
| "ORDER_STATUS_TONE Revision_requested = ''warning''"
| "ORDER_STATUS_TONE Completed = ''success''"
| "ORDER_STATUS_TONE Cancelled = ''neutral''"
| "ORDER_STATUS_TONE Disputed = ''danger''"

fun ORDER_STATUS_COPY :: "order_status \<Rightarrow> string" where
  "ORDER_STATUS_COPY Awaiting_payment = ''Awaiting payment''"
| "ORDER_STATUS_COPY Active = ''In progress''"
| "ORDER_STATUS_COPY Delivered = ''Delivered -- review due''"
| "ORDER_STATUS_COPY Revision_requested = ''Revision requested''"
| "ORDER_STATUS_COPY Completed = ''Completed''"
| "ORDER_STATUS_COPY Cancelled = ''Cancelled''"
| "ORDER_STATUS_COPY Disputed = ''Disputed''"

fun SOURCE_COPY :: "order_source \<Rightarrow> string" where
  "SOURCE_COPY Open_bid = ''Open marketplace''"
| "SOURCE_COPY Managed_pool = ''Managed (pool)''"
| "SOURCE_COPY Managed_direct = ''Managed (direct)''"

definition EVENT_COPY :: "(string \<times> string) list" where
  "EVENT_COPY =
     [(''created'', ''Order created''), (''payment_confirmed'', ''Payment confirmed''),
      (''delivered'', ''Work delivered''), (''revision_requested'', ''Revision requested''),
      (''redelivered'', ''Revision delivered''), (''approved'', ''Delivery approved''),
      (''auto_approved'', ''Auto-approved (72h elapsed)''), (''completed'', ''Order completed''),
      (''cancelled'', ''Order cancelled''), (''dispute_opened'', ''Dispute opened'')]"

section \<open>The lifecycle helpers\<close>

record workspace_action =
  ac_key :: string
  ac_label :: string
  ac_tone :: "string option"

abbreviation act :: "string \<Rightarrow> string \<Rightarrow> string option \<Rightarrow> workspace_action" where
  "act k l t \<equiv> \<lparr>ac_key = k, ac_label = l, ac_tone = t\<rparr>"

definition workspaceActions :: "order_detail \<Rightarrow> workspace_action list" where
  "workspaceActions ord =
     (if od_status ord = Awaiting_payment
      then act ''pay'' ''Pay now'' (Some ''primary'')
           # (if od_role ord = Student then [act ''cancel'' ''Cancel order'' (Some ''ghost'')] else [])
      else [])
     @ (if od_status ord = Active \<and> od_role ord = Expert
        then [act ''deliver'' ''Submit delivery'' (Some ''primary'')] else [])
     @ (if od_status ord = Delivered \<and> od_role ord = Student
        then act ''approve'' ''Approve delivery'' (Some ''primary'')
             # (if od_revisions_used ord < od_revisions_allowed ord
                then [act ''revise'' ''Request revision'' None] else [])
        else [])"

fun progressStep :: "order_status \<Rightarrow> nat" where
  "progressStep Awaiting_payment = 0"
| "progressStep Active = 1"
| "progressStep Delivered = 2"
| "progressStep Revision_requested = 2"
| "progressStep Completed = 3"
| "progressStep _ = 0"

section \<open>The payment card\<close>

datatype payment_event = OnPay | OnConfirm

definition PaymentCard :: "locale_text \<Rightarrow> payment_info \<Rightarrow> role \<Rightarrow> bool \<Rightarrow> payment_event ui list" where
  "PaymentCard loc p r busy =
     (let student = (r = Student);
          pending = (pi_status p = Pay_pending);
          failed = (pi_status p = Pay_failed);
          refunded = (pi_status p = Pay_refunded \<or> pi_status p = Pay_partially_refunded)
      in [Heading ''Payment'']
         @ shown_if (pi_simulated p) [Badge ''warning'' ''Simulated (manual gateway)'']
         @ [Badge (if pi_status p = Pay_succeeded then ''success'' else if failed then ''danger''
                   else if pending then ''warning'' else ''neutral'')
              (PAYMENT_STATUS_COPY (pi_status p)),
            Text ''Order total'', Text (pi_currency p @ '' '' @ show_number loc (pi_amount p))]
         @ shown_if refunded
             [Text ''Refunded'', Text (pi_currency p @ '' '' @ show_number loc (pi_refunded p))]
         @ (if truthy (pi_paid_at p)
            then [Text ''Paid at'', Text (show_datetime loc (the (pi_paid_at p)))] else [])
         @ shown_if (failed \<and> pi_failure_reason p \<noteq> []) [Alert (pi_failure_reason p)]
         @ shown_if (student \<and> pending)
             ((if truthy (pi_instructions p) then [Text (the (pi_instructions p))] else [])
              @ [Button (if truthy (pi_instructions p) then ''Show payment instructions'' else ''Start payment'')
                   busy OnPay]
              @ shown_if (pi_dev_self_confirm p) [Button ''Confirm payment (dev)'' busy OnConfirm]
              @ [Text ''Manual gateway: an operator (or, in local development, the dev confirm action) verifies the transfer before the order starts. No card data is collected here.''])
         @ shown_if (student \<and> failed) [Button ''Retry payment'' busy OnPay])"

section \<open>The earnings card\<close>

datatype payout_status = Scheduled | In_transit | Paid | Payout_failed | Reversed

fun PAYOUT_STATUS_COPY :: "payout_status \<Rightarrow> string" where
  "PAYOUT_STATUS_COPY Scheduled = ''Scheduled''"
| "PAYOUT_STATUS_COPY In_transit = ''In transit''"
| "PAYOUT_STATUS_COPY Paid = ''Paid''"
| "PAYOUT_STATUS_COPY Payout_failed = ''Failed''"
| "PAYOUT_STATUS_COPY Reversed = ''Reversed''"

record earnings_summary =
  es_credit_minor :: int
  es_payout_minor :: int
  es_outstanding_minor :: int
  es_credit :: rat
  es_payout :: rat
  es_outstanding :: rat
  es_currency :: string

record payout_record =
  po_id :: string
  po_order_number :: string
  po_amount :: rat
  po_currency :: string
  po_status :: payout_status

record earnings_card =
  ec_cancelled :: bool
  ec_earnings :: "earnings_summary option"
  ec_payouts :: "payout_record list option"

definition earnings_init :: earnings_card where
  "earnings_init = \<lparr>ec_cancelled = False, ec_earnings = None, ec_payouts = None\<rparr>"

datatype earnings_event =
    EarningsAnswer "failure + earnings_summary"
  | PayoutsAnswer "failure + payout_record list"
  | EarningsUnmount

fun earnings_step :: "earnings_card \<Rightarrow> earnings_event \<Rightarrow> earnings_card" where
  "earnings_step c (EarningsAnswer r) =
     (if ec_cancelled c then c
      else c\<lparr>ec_earnings := (case r of Inr s \<Rightarrow> Some s | Inl _ \<Rightarrow> None)\<rparr>)"
| "earnings_step c (PayoutsAnswer r) =
     (if ec_cancelled c then c
      else c\<lparr>ec_payouts := Some (case r of Inr ps \<Rightarrow> take 3 ps | Inl _ \<Rightarrow> [])\<rparr>)"
| "earnings_step c EarningsUnmount = c\<lparr>ec_cancelled := True\<rparr>"

definition EarningsCard :: "locale_text \<Rightarrow> earnings_card \<Rightarrow> 'e ui list" where
  "EarningsCard loc c =
     (case ec_earnings c of
        None \<Rightarrow> []
      | Some s \<Rightarrow>
          (if es_credit_minor s = 0 then []
           else [Heading ''Earnings'',
                 Text ''Earned (net)'', Text (es_currency s @ '' '' @ show_number loc (es_credit s)),
                 Text ''Paid out'', Text (es_currency s @ '' '' @ show_number loc (es_payout s)),
                 Text ''Available'', Text (es_currency s @ '' '' @ show_number loc (es_outstanding s))]
                @ concat (map (\<lambda>p.
                    [Text (po_order_number p),
                     Text (po_currency p @ '' '' @ show_number loc (po_amount p)),
                     Badge (if po_status p = Paid then ''success''
                            else if po_status p = Payout_failed then ''danger'' else ''info'')
                       (PAYOUT_STATUS_COPY (po_status p))]) (nullish (ec_payouts c) []))))"

section \<open>The order list\<close>

datatype list_filter = All | Only order_status

definition STATUS_FILTERS :: "list_filter list" where
  "STATUS_FILTERS = [All, Only Active, Only Delivered, Only Completed]"

fun filter_name :: "list_filter \<Rightarrow> string" where
  "filter_name All = ''all''"
| "filter_name (Only st) = status_name st"

fun filter_keeps :: "list_filter \<Rightarrow> order_item \<Rightarrow> bool" where
  "filter_keeps All ord = True"
| "filter_keeps (Only st) ord = (oi_status ord = st)"

record orders_list =
  ol_cancelled :: bool
  ol_orders :: "order_item list option"
  ol_failed :: bool
  ol_filter :: list_filter

definition orders_list_init :: orders_list where
  "orders_list_init = \<lparr>ol_cancelled = False, ol_orders = None, ol_failed = False, ol_filter = All\<rparr>"

datatype orders_list_event =
    OrdersAnswer "failure + order_item list"
  | SetFilter list_filter
  | OrdersUnmount

fun orders_list_step :: "orders_list \<Rightarrow> orders_list_event \<Rightarrow> orders_list" where
  "orders_list_step s (OrdersAnswer r) =
     (if ol_cancelled s then s
      else (case r of Inr os \<Rightarrow> s\<lparr>ol_orders := Some os\<rparr> | Inl _ \<Rightarrow> s\<lparr>ol_failed := True\<rparr>))"
| "orders_list_step s (SetFilter f) = s\<lparr>ol_filter := f\<rparr>"
| "orders_list_step s OrdersUnmount = s\<lparr>ol_cancelled := True\<rparr>"

definition visible_orders :: "list_filter \<Rightarrow> order_item list \<Rightarrow> order_item list" where
  "visible_orders f os = filter (filter_keeps f) os"

definition order_row :: "locale_text \<Rightarrow> order_item \<Rightarrow> 'e ui" where
  "order_row loc ord =
     Box (oi_id ord)
       [Link (''/orders/'' @ oi_id ord) (oi_title ord), Text (oi_number ord), Text (SOURCE_COPY (oi_source ord)),
        Badge (ORDER_STATUS_TONE (oi_status ord)) (ORDER_STATUS_COPY (oi_status ord)),
        Text (show_price loc (oi_amount ord)), Text ''Details'']"

definition tab_button :: "order_item list \<Rightarrow> list_filter \<Rightarrow> orders_list_event ui" where
  "tab_button os f =
     Button (filter_name f @ '' ('' @ show_nat (length (filter (filter_keeps f) os)) @ '')'') False (SetFilter f)"

definition OrdersListClient ::
    "locale_text \<Rightarrow> earnings_card \<Rightarrow> orders_list \<Rightarrow> orders_list_event ui list" where
  "OrdersListClient loc earnings s =
     (if ol_failed s then [Alert ''Couldn't load your orders -- refresh to try again.'']
      else (case ol_orders s of
        None \<Rightarrow> []
      | Some os \<Rightarrow>
          (let visible = visible_orders (ol_filter s) os
           in [Box ''Filter orders by status'' (map (tab_button os) STATUS_FILTERS)]
              @ (if visible = []
                 then [Heading (if os = [] then ''No active orders yet'' else ''No orders matching this status''),
                       Text (if os = []
                         then ''Once a task brief is matched with an expert or an offer is accepted, the escrow-funded working order appears here.''
                         else ''Try selecting another status tab above to see your order history.'')]
                      @ shown_if (os = []) [Link ''/requests/new'' ''Post a Brief'']
                 else [Box ''orders'' (map (order_row loc) visible)])
              @ EarningsCard loc earnings
              @ [Text ''Escrow Custody Safe'',
                 Text ''Order deposits are held in double-entry custodial vault escrow. Funds are never released until you inspect the submitted deliverables.'',
                 Text ''72-hour deliverable inspection window'', Text ''Binding dispute arbitration tribunal'',
                 Text ''Need More Guidance?'',
                 Text ''Have another course, code review, or exam prep requirement? Launch a new brief in under 2 minutes.'',
                 Link ''/requests/new'' ''Post New Academic Brief''])))"

end
