(* ===== verification/Disputes.thy ===== *)
theory Disputes
  imports Forms
begin

text \<open>
  Disputes on an order: \<open>features/disputes/types.ts\<close> and
  \<open>features/disputes/components/dispute-section.tsx\<close>.
\<close>

section \<open>Data\<close>

datatype dispute_status = DOpen | Under_review | Awaiting_response | Resolved | DClosed

datatype dispute_outcome =
    Refund_student_full
  | Refund_student_partial
  | Release_expert
  | Split
  | No_fault_close

record evidence_ref =
  ev_id :: string
  ev_name :: string

text \<open>The empty outcome of the source is \<open>None\<close>.\<close>

record dispute =
  dp_id :: string
  dp_order_id :: string
  dp_order_number :: string
  dp_opened_by :: int
  dp_reason :: string
  dp_reason_display :: string
  dp_description :: string
  dp_status :: dispute_status
  dp_outcome :: "dispute_outcome option"
  dp_resolution_notes :: string
  dp_created_at :: string
  dp_resolved_at :: "string option"
  dp_thread :: "string option"
  dp_evidence :: "evidence_ref list"

definition DISPUTE_REASONS :: "(string \<times> string) list" where
  "DISPUTE_REASONS =
     [(''quality_below_expectations'', ''Quality below expectations''),
      (''expert_unresponsive'', ''Expert unresponsive''),
      (''deadline_missed'', ''Deadline missed''),
      (''scope_disagreement'', ''Scope disagreement''),
      (''payment_issue'', ''Payment issue''),
      (''integrity_concern'', ''Academic integrity concern''),
      (''other'', ''Other'')]"

fun DISPUTE_STATUS_COPY :: "dispute_status \<Rightarrow> string" where
  "DISPUTE_STATUS_COPY DOpen = ''Open -- awaiting review''"
| "DISPUTE_STATUS_COPY Under_review = ''Under review''"
| "DISPUTE_STATUS_COPY Awaiting_response = ''Awaiting response''"
| "DISPUTE_STATUS_COPY Resolved = ''Resolved''"
| "DISPUTE_STATUS_COPY DClosed = ''Closed''"

fun DISPUTE_STATUS_TONE :: "dispute_status \<Rightarrow> string" where
  "DISPUTE_STATUS_TONE DOpen = ''warning''"
| "DISPUTE_STATUS_TONE Under_review = ''info''"
| "DISPUTE_STATUS_TONE Awaiting_response = ''info''"
| "DISPUTE_STATUS_TONE Resolved = ''success''"
| "DISPUTE_STATUS_TONE DClosed = ''neutral''"

fun DISPUTE_OUTCOME_COPY :: "dispute_outcome \<Rightarrow> string" where
  "DISPUTE_OUTCOME_COPY Refund_student_full = ''Refunded to the student''"
| "DISPUTE_OUTCOME_COPY Refund_student_partial = ''Partially refunded to the student''"
| "DISPUTE_OUTCOME_COPY Release_expert = ''Released to the expert''"
| "DISPUTE_OUTCOME_COPY Split = ''Split between student and expert''"
| "DISPUTE_OUTCOME_COPY No_fault_close = ''Closed without fault''"

definition DISPUTE_WINDOW_STATUSES :: "string list" where
  "DISPUTE_WINDOW_STATUSES = [''active'', ''delivered'', ''revision_requested'', ''completed'']"

definition canOpenDispute :: "string \<Rightarrow> bool" where
  "canOpenDispute orderStatus \<longleftrightarrow> orderStatus \<in> set DISPUTE_WINDOW_STATUSES"

definition MIN_DESCRIPTION_CHARS :: nat where "MIN_DESCRIPTION_CHARS = 20"
definition MAX_DESCRIPTION_CHARS :: nat where "MAX_DESCRIPTION_CHARS = 5000"

section \<open>Evidence\<close>

record evidence_form =
  ef_files :: "string list"
  ef_uploading :: bool
  ef_error :: "string option"

definition evidence_init :: evidence_form where
  "evidence_init = \<lparr>ef_files = [], ef_uploading = False, ef_error = None\<rparr>"

datatype evidence_event =
    OpenFile string
  | ChooseFiles "string list"
  | AttachFiles
  | FileOpened "failure + string"      \<comment> \<open>the download address, or the failure to get it\<close>
  | Attached "failure + unit"          \<comment> \<open>the uploads and the caller's promise settle\<close>

definition attach_start :: "evidence_form \<Rightarrow> evidence_form" where
  "attach_start f = f\<lparr>ef_error := None, ef_uploading := True\<rparr>"

text \<open>The requests of the handler: every file in turn, then \<open>onAdd\<close> with the identifiers.\<close>

definition attach_send ::
    "'w server \<Rightarrow> (string list \<Rightarrow> 'w \<Rightarrow> (failure + unit) \<times> 'w) \<Rightarrow> evidence_form \<Rightarrow> 'w \<Rightarrow> (failure + unit) \<times> 'w"
  where
  "attach_send srv onAdd f w =
     (case upload_all (evidence_id srv) (ef_files f) w of
        (Inl e, w') \<Rightarrow> (Inl e, w')
      | (Inr ids, w') \<Rightarrow> onAdd ids w')"

definition attach_done :: "failure + unit \<Rightarrow> evidence_form \<Rightarrow> evidence_form" where
  "attach_done r f =
     (case r of
        Inr _ \<Rightarrow> f\<lparr>ef_files := [], ef_uploading := False\<rparr>
      | Inl e \<Rightarrow> f\<lparr>ef_error := Some (api_message_or ''Upload failed.'' e), ef_uploading := False\<rparr>)"

fun evidence_step :: "evidence_form \<Rightarrow> evidence_event \<Rightarrow> evidence_form" where
  "evidence_step f (OpenFile i) = f"
| "evidence_step f (ChooseFiles fs) = f\<lparr>ef_files := fs\<rparr>"
| "evidence_step f AttachFiles = attach_start f"
| "evidence_step f (FileOpened (Inl e)) = f\<lparr>ef_error := Some ''Could not open the file.''\<rparr>"
| "evidence_step f (FileOpened (Inr url)) = f"
| "evidence_step f (Attached r) = attach_done r f"

definition EvidenceList :: "dispute \<Rightarrow> bool \<Rightarrow> evidence_form \<Rightarrow> evidence_event ui list" where
  "EvidenceList d can_add f =
     [Box ''dispute-evidence''
       (Text ''Evidence''
        # map (\<lambda>x. Button (''[page] '' @ ev_name x) False (OpenFile (ev_id x))) (dp_evidence d)
        @ shown_if can_add
            (Files ''Attach more evidence'' ChooseFiles
             # shown_if (ef_files f \<noteq> [])
                 [Button (if ef_uploading f then ''Uploading...''
                          else ''Attach '' @ show_nat (length (ef_files f)) @ '' file''
                            @ (if length (ef_files f) = 1 then [] else ''s''))
                    (ef_uploading f) AttachFiles])
        @ alert_if (ef_error f))]"

section \<open>The status card\<close>

datatype card_event = Evidence evidence_event | OpenThread

definition dispute_active :: "dispute \<Rightarrow> bool" where
  "dispute_active d \<longleftrightarrow> dp_status d \<noteq> Resolved \<and> dp_status d \<noteq> DClosed"

text \<open>\<open>openThread\<close>: where the router goes.\<close>

definition open_dispute_thread :: "'w server \<Rightarrow> dispute \<Rightarrow> 'w \<Rightarrow> (failure + string) \<times> 'w" where
  "open_dispute_thread srv d =
     ask srv (messagingApi_open (DisputeContext (dp_order_id d)))
       (\<lambda>r. case r of
          Inl e \<Rightarrow> Inl e
        | Inr v \<Rightarrow> (case member_of (Some v) ''id'' of
             Inl e \<Rightarrow> Inl e | Inr i \<Rightarrow> Inr (''/messages/'' @ text_of i)))"

definition DisputeStatusCard :: "dispute \<Rightarrow> bool \<Rightarrow> evidence_form \<Rightarrow> card_event ui list" where
  "DisputeStatusCard d busy f =
     [Box ''dispute-status''
       ([Badge (DISPUTE_STATUS_TONE (dp_status d)) (DISPUTE_STATUS_COPY (dp_status d)),
         Text (dp_reason_display d), Text (dp_description d)]
        @ (case dp_outcome d of None \<Rightarrow> []
           | Some out \<Rightarrow> [Text ''Outcome: '', Text (DISPUTE_OUTCOME_COPY out)])
        @ shown_if (dp_resolution_notes d \<noteq> [])
            [Text ''Resolution'', Text (dp_resolution_notes d)]
        @ map (map_events Evidence) (EvidenceList d (dispute_active d) f)
        @ [Button ''Open dispute thread'' False OpenThread]
        @ shown_if busy [Text ''Working...''])]"

section \<open>The composer\<close>

record dispute_composer =
  dc_open :: bool
  dc_reason :: string
  dc_description :: string
  dc_files :: "string list"
  dc_uploading :: bool
  dc_error :: "string option"

definition dispute_init :: dispute_composer where
  "dispute_init = \<lparr>dc_open = False, dc_reason = [], dc_description = [], dc_files = [],
                   dc_uploading = False, dc_error = None\<rparr>"

datatype dispute_event =
    OpenComposer
  | CloseComposer
  | PickReason string
  | TypeDescription string
  | ChooseEvidence "string list"
  | SubmitDispute
  | DisputeSent "failure + unit"

definition dispute_check :: "locale_text \<Rightarrow> dispute_composer \<Rightarrow> string option" where
  "dispute_check loc c =
     (if dc_reason c = [] then Some ''Pick the reason that fits best.''
      else if length (trim (dc_description c)) < MIN_DESCRIPTION_CHARS
      then Some (''Describe the problem in at least '' @ show_nat MIN_DESCRIPTION_CHARS @ '' characters.'')
      else if length (dc_description c) > MAX_DESCRIPTION_CHARS
      then Some (''Descriptions are limited to '' @ show_number loc (of_nat MAX_DESCRIPTION_CHARS) @ '' characters.'')
      else None)"

text \<open>\<open>onSubmit\<close> up to its first \<open>await\<close>; the flag says whether the requests start.\<close>

definition dispute_submit :: "locale_text \<Rightarrow> dispute_composer \<Rightarrow> dispute_composer \<times> bool" where
  "dispute_submit loc c =
     (case dispute_check loc c of
        Some m \<Rightarrow> (c\<lparr>dc_error := Some m\<rparr>, False)
      | None \<Rightarrow> (c\<lparr>dc_error := None, dc_uploading := True\<rparr>, True))"

definition dispute_send ::
    "'w server \<Rightarrow> (string \<Rightarrow> string \<Rightarrow> string list \<Rightarrow> 'w \<Rightarrow> (failure + unit) \<times> 'w) \<Rightarrow> dispute_composer
     \<Rightarrow> 'w \<Rightarrow> (failure + unit) \<times> 'w" where
  "dispute_send srv onSubmit c w =
     (case upload_all (evidence_id srv) (dc_files c) w of
        (Inl e, w') \<Rightarrow> (Inl e, w')
      | (Inr ids, w') \<Rightarrow> onSubmit (dc_reason c) (trim (dc_description c)) ids w')"

definition dispute_sent :: "failure + unit \<Rightarrow> dispute_composer \<Rightarrow> dispute_composer" where
  "dispute_sent r c =
     (case r of
        Inl e \<Rightarrow> c\<lparr>dc_error := Some (api_message_or ''Could not open the dispute.'' e), dc_uploading := False\<rparr>
      | Inr _ \<Rightarrow> c\<lparr>dc_uploading := False\<rparr>)"

fun dispute_step :: "locale_text \<Rightarrow> dispute_composer \<Rightarrow> dispute_event \<Rightarrow> dispute_composer" where
  "dispute_step loc c OpenComposer = c\<lparr>dc_open := True\<rparr>"
| "dispute_step loc c CloseComposer = c\<lparr>dc_open := False\<rparr>"
| "dispute_step loc c (PickReason r) = c\<lparr>dc_reason := r\<rparr>"
| "dispute_step loc c (TypeDescription s) = c\<lparr>dc_description := s\<rparr>"
| "dispute_step loc c (ChooseEvidence fs) = c\<lparr>dc_files := fs\<rparr>"
| "dispute_step loc c SubmitDispute = fst (dispute_submit loc c)"
| "dispute_step loc c (DisputeSent r) = dispute_sent r c"

definition DisputeComposer :: "dispute_composer \<Rightarrow> bool \<Rightarrow> dispute_event ui list" where
  "DisputeComposer c busy =
     (if \<not> dc_open c then [Button ''Open a dispute'' False OpenComposer]
      else [Box ''dispute-composer''
        ([Choice ''Reason'' (dc_reason c) (([], ''Select a reason...'') # DISPUTE_REASONS) PickReason,
          Field ''What went wrong?'' (dc_description c) TypeDescription,
          Files ''Evidence (optional -- PDF/JPG/PNG, <=10 MB each)'' ChooseEvidence]
         @ alert_if (dc_error c)
         @ [Button (if dc_uploading c then ''Uploading...'' else ''Open dispute'')
              (busy \<or> dc_uploading c) SubmitDispute,
            Button ''Cancel'' busy CloseComposer])])"

section \<open>The section of the order page\<close>

record dispute_section =
  ds_evidence :: evidence_form
  ds_composer :: dispute_composer

definition dispute_section_init :: dispute_section where
  "dispute_section_init = \<lparr>ds_evidence = evidence_init, ds_composer = dispute_init\<rparr>"

datatype dispute_section_event = OnCard card_event | OnComposer dispute_event

definition DisputeSection ::
    "string \<Rightarrow> role \<Rightarrow> dispute option \<Rightarrow> bool \<Rightarrow> dispute_section \<Rightarrow> dispute_section_event ui list" where
  "DisputeSection orderStatus orderRole d busy s =
     (let eligible = canOpenDispute orderStatus
      in [Box ''dispute-section''
        (Heading ''Dispute''
         # shown_if (d = None \<and> eligible \<and> orderRole = Student) [Text ''Within the BR-40 window'']
         @ (case d of
              Some x \<Rightarrow> map (map_events OnCard) (DisputeStatusCard x busy (ds_evidence s))
            | None \<Rightarrow>
                (if eligible
                 then (if orderRole = Student
                       then Text ''Something off? Open a dispute and an admin mediates (first response within 24h). The expert payout pauses while a dispute is open.''
                            # map (map_events OnComposer) (DisputeComposer (ds_composer s) busy)
                       else [Box ''dispute-none-expert'' [Text ''No dispute on this order. If the client opens one, it appears here and the payout pauses until resolution.'']])
                 else [Text ''Disputes open while the order is running or within 7 days after completion (BR-40).''])))])"

fun dispute_section_step ::
    "locale_text \<Rightarrow> dispute_section \<Rightarrow> dispute_section_event \<Rightarrow> dispute_section" where
  "dispute_section_step loc s (OnCard (Evidence e)) = s\<lparr>ds_evidence := evidence_step (ds_evidence s) e\<rparr>"
| "dispute_section_step loc s (OnCard OpenThread) = s"
| "dispute_section_step loc s (OnComposer e) = s\<lparr>ds_composer := dispute_step loc (ds_composer s) e\<rparr>"

text \<open>A change of the props that mounts the card or the composer starts it afresh.\<close>

definition dispute_place :: "string \<Rightarrow> role \<Rightarrow> dispute option \<Rightarrow> nat" where
  "dispute_place orderStatus orderRole d =
     (if d \<noteq> None then 1 else if canOpenDispute orderStatus \<and> orderRole = Student then 2 else 0)"

definition dispute_section_props ::
    "string \<Rightarrow> string \<Rightarrow> role \<Rightarrow> dispute option \<Rightarrow> dispute option \<Rightarrow> dispute_section \<Rightarrow> dispute_section" where
  "dispute_section_props oldStatus newStatus orderRole old new s =
     (if dispute_place oldStatus orderRole old = dispute_place newStatus orderRole new then s
      else dispute_section_init)"

section \<open>Lemmas\<close>

lemmas dispute_consts = MIN_DESCRIPTION_CHARS_def MAX_DESCRIPTION_CHARS_def

lemma offered_EvidenceList:
  "offered (EvidenceList d can_add f) e \<Longrightarrow>
   (\<exists>x \<in> set (dp_evidence d). e = OpenFile (ev_id x)) \<or>
   (can_add \<and> ((\<exists>fs. e = ChooseFiles fs) \<or> (e = AttachFiles \<and> ef_files f \<noteq> [] \<and> \<not> ef_uploading f)))"
  by (auto simp: EvidenceList_def offers_Box offered_map simp del: offers.simps(6))

lemma offered_DisputeComposer:
  "offered (DisputeComposer c busy) e \<longleftrightarrow>
     (if dc_open c
      then (\<exists>r. e = PickReason r \<and> (r = [] \<or> r \<in> fst ` set DISPUTE_REASONS)) \<or>
        (\<exists>s. e = TypeDescription s) \<or> (\<exists>fs. e = ChooseEvidence fs) \<or>
        (\<not> busy \<and> \<not> dc_uploading c \<and> e = SubmitDispute) \<or> (\<not> busy \<and> e = CloseComposer)
      else e = OpenComposer)"
  by (auto simp: DisputeComposer_def offers_Box simp del: offers.simps(6))

text \<open>The composer as a machine; one submission is in flight exactly while it says so.\<close>

fun dispute_enabled :: "dispute_composer \<Rightarrow> dispute_event \<Rightarrow> bool" where
  "dispute_enabled c (DisputeSent r) = dc_uploading c"
| "dispute_enabled c e = offered (DisputeComposer c False) e"

interpretation disputing: machine "\<lambda>c. c = dispute_init" dispute_enabled "dispute_step loc"
  "\<lambda>c. dc_reason c = [] \<or> dc_reason c \<in> fst ` set DISPUTE_REASONS" for loc
proof unfold_locales
  fix c e
  assume "dc_reason c = [] \<or> dc_reason c \<in> fst ` set DISPUTE_REASONS" "dispute_enabled c e"
  then show "dc_reason (dispute_step loc c e) = [] \<or>
      dc_reason (dispute_step loc c e) \<in> fst ` set DISPUTE_REASONS"
    by (cases e)
      (auto simp: offered_DisputeComposer dispute_submit_def dispute_sent_def
        split: option.splits sum.splits if_splits)
qed (simp add: dispute_init_def)

section \<open>Properties\<close>

text \<open>
  Whatever the student does with the composer, a dispute is only sent with one of the
  documented reasons and a description that has 20 to 5,000 characters without surrounding
  space; and while one is being sent the form offers no second submission.
\<close>

lemma dispute_input_valid:
  assumes "reach (\<lambda>c. c = dispute_init) dispute_enabled (dispute_step loc) c"
    and "dispute_submit loc c = (c', True)"
  shows "dc_reason c \<in> fst ` set DISPUTE_REASONS \<and>
    20 \<le> length (trim (dc_description c)) \<and> length (trim (dc_description c)) \<le> 5000 \<and>
    \<not> offered (DisputeComposer c' busy) SubmitDispute"
  using disputing.reach_inv [OF assms(1)] assms(2) length_trim [of "dc_description c"]
  by (auto simp: dispute_submit_def dispute_check_def dispute_consts offered_DisputeComposer
      split: option.splits if_splits)

text \<open>
  What opening a dispute asks of the server. Either every chosen file is uploaded, in order,
  and then one request opens the dispute with as many identifiers as there are files; or an upload
  fails, no later file is uploaded and no dispute is opened.
\<close>

lemma dispute_requests:
  fixes srv :: "'w server" and oid :: string
  defines "onSubmit \<equiv> \<lambda>r d ids. ask (logged srv) (disputesApi_open oid r d ids) (map_sum id (\<lambda>_. ()))"
  assumes "dispute_send (logged srv) onSubmit c (w, []) = (res, w', sent)"
  shows "(\<exists>ids. length ids = length (dc_files c) \<and>
        sent = map (upload_req ''dispute_evidence'') (dc_files c)
          @ [disputesApi_open oid (dc_reason c) (trim (dc_description c)) ids]) \<or>
    (\<exists>e k. res = Inl e \<and> k < length (dc_files c) \<and>
        sent = map (upload_req ''dispute_evidence'') (take (Suc k) (dc_files c)))"
proof (cases "upload_all (evidence_id (logged srv)) (dc_files c) (w, [])")
  case (fields r w1 l1)
  show ?thesis
  proof (cases r)
    case (Inl e)
    then show ?thesis
      using evidence_upload.all_stops [of srv "dc_files c" "(w, [])" e "(w1, l1)"] fields assms(2)
      by (auto simp: dispute_send_def)
  next
    case (Inr ids)
    then have "l1 = map (upload_req ''dispute_evidence'') (dc_files c) \<and> length ids = length (dc_files c)"
      using evidence_upload.all_ok [of srv "dc_files c" "(w, [])" ids "(w1, l1)"] fields by simp
    then show ?thesis
      using fields Inr assms(2)
      by (auto simp: dispute_send_def onSubmit_def ask_def logged_def split: prod.splits)
  qed
qed

definition busy_server :: "nat server" where
  "busy_server i n =
     (if n = 1 then (Inl (JsError ''Failed to fetch''), Suc n)
      else (Inr (JObj [(''attachment'', JObj [(''id'', JStr (''f'' @ show_nat n))])]), Suc n))"

text \<open>
  Who may do what with a dispute. The order page lets a student open one only while there is
  none and the order is in the window; it lets nobody else open one; and evidence can be attached
  only while the dispute is neither resolved nor closed.
\<close>

lemma dispute_policy_shown:
  "(offered (DisputeSection st orderRole d busy s) (OnComposer e) \<longrightarrow>
      d = None \<and> canOpenDispute st \<and> orderRole = Student) \<and>
   (offered (DisputeSection st orderRole d busy s) (OnCard (Evidence AttachFiles)) \<longrightarrow>
      (\<exists>x. d = Some x \<and> dispute_active x \<and> ef_files (ds_evidence s) \<noteq> []))"
  by (auto simp: DisputeSection_def DisputeStatusCard_def Let_def offers_Box offered_child
      simp del: offers.simps(6) map_map dest!: offered_EvidenceList split: option.splits if_splits)

end
