(* ===== verification/Numbers.thy ===== *)
theory Numbers
  imports Endpoints
begin

text \<open>
  Numbers in text fields: \<open>Number(s)\<close> and \<open>String(n / 100)\<close> of the language, as the request form,
  the offers and the portal use them.

  A number is an exact rational, and \<open>None\<close> is \<open>NaN\<close>. The model leaves out the rounding of binary
  fractions, hexadecimal literals and \<open>Infinity\<close>, none of which a number field can hold.
\<close>

section \<open>Parsing\<close>

definition is_digit :: "char \<Rightarrow> bool" where
  "is_digit c \<longleftrightarrow> 48 \<le> (of_char c :: nat) \<and> (of_char c :: nat) \<le> 57"

definition digits_value :: "string \<Rightarrow> nat" where
  "digits_value s = foldl (\<lambda>n c. 10 * n + (of_char c - 48)) 0 s"

text \<open>The exponent, after \<open>e\<close> or \<open>E\<close>: an optional sign and at least one digit.\<close>

definition parse_exponent :: "string \<Rightarrow> rat option" where
  "parse_exponent s =
     (let neg = (s \<noteq> [] \<and> hd s = CHR ''-''); ds = (if s \<noteq> [] \<and> hd s \<in> set ''+-'' then tl s else s)
      in if ds = [] \<or> \<not> list_all is_digit ds then None
         else Some (if neg then 1 / 10 ^ digits_value ds else 10 ^ digits_value ds))"

definition parse_unsigned :: "string \<Rightarrow> rat option" where
  "parse_unsigned s =
     (let whole = takeWhile is_digit s; rest = dropWhile is_digit s;
          point = (rest \<noteq> [] \<and> hd rest = CHR ''.'');
          frac = (if point then takeWhile is_digit (tl rest) else []);
          rest2 = (if point then dropWhile is_digit (tl rest) else rest);
          mantissa = of_nat (digits_value whole) + of_nat (digits_value frac) / 10 ^ length frac
      in if whole = [] \<and> frac = [] then None
         else if rest2 = [] then Some mantissa
         else if hd rest2 \<in> set ''eE'' then map_option (\<lambda>k. mantissa * k) (parse_exponent (tl rest2))
         else None)"

definition to_number :: "string \<Rightarrow> rat option" where
  "to_number s =
     (let t = trim s
      in if t = [] then Some 0
         else if hd t = CHR ''-'' then map_option uminus (parse_unsigned (tl t))
         else if hd t = CHR ''+'' then parse_unsigned (tl t)
         else parse_unsigned t)"

section \<open>Printing\<close>

text \<open>\<open>String(cents / 100)\<close> for a positive whole number of cents.\<close>

definition cents_text :: "nat \<Rightarrow> string" where
  "cents_text b =
     (let q = b div 100; r = b mod 100
      in if r = 0 then show_nat q
         else if r mod 10 = 0 then show_nat q @ ''.'' @ [digit_char (r div 10)]
         else show_nat q @ ''.'' @ [digit_char (r div 10), digit_char (r mod 10)])"

text \<open>\<open>n.toFixed(2)\<close> of a number: two decimals, the half rounded away from zero.\<close>

definition to_fixed2 :: "rat \<Rightarrow> string" where
  "to_fixed2 x =
     (let c = \<lfloor>\<bar>x\<bar> * 100 + 1 / 2\<rfloor>; q = nat (c div 100); r = nat (c mod 100)
      in (if x < 0 \<and> c \<noteq> 0 then ''-'' else []) @ show_nat q @ ''.'' @ [digit_char (r div 10), digit_char (r mod 10)])"

text \<open>\<open>n.toFixed(1)\<close> of a number that is not negative.\<close>

definition to_fixed1 :: "rat \<Rightarrow> string" where
  "to_fixed1 x = (let c = nat \<lfloor>x * 10 + 1 / 2\<rfloor> in show_nat (c div 10) @ ''.'' @ [digit_char (c mod 10)])"

text \<open>
  \<open>String(x)\<close> for a number whose decimals end after at most 17 digits, which are the ones the language can
  print in full.
\<close>

primrec frac_digits :: "nat \<Rightarrow> rat \<Rightarrow> string" where
  "frac_digits 0 f = []"
| "frac_digits (Suc n) f =
     (if f = 0 then [] else digit_char (nat \<lfloor>f * 10\<rfloor>) # frac_digits n (f * 10 - of_int \<lfloor>f * 10\<rfloor>))"

definition number_text :: "rat \<Rightarrow> string" where
  "number_text x =
     (let y = \<bar>x\<bar>; f = frac_digits 17 (y - of_int \<lfloor>y\<rfloor>)
      in (if x < 0 then ''-'' else []) @ show_nat (nat \<lfloor>y\<rfloor>) @ (if f = [] then [] else CHR ''.'' # f))"

section \<open>Lemmas\<close>

lemma of_digit_char [simp]: "d < 10 \<Longrightarrow> (of_char (digit_char d) :: nat) = 48 + d"
  by (simp add: digit_char_def)

lemma is_digit_char [simp]: "d < 10 \<Longrightarrow> is_digit (digit_char d)"
  by (simp add: is_digit_def)

lemma digits_value_snoc: "digits_value (s @ [c]) = 10 * digits_value s + (of_char c - 48)"
  by (simp add: digits_value_def)

lemma show_nat_digits: "list_all is_digit (show_nat n)"
  by (induction n rule: show_nat.induct) (subst show_nat.simps, auto)

lemma digits_value_show_nat [simp]: "digits_value (show_nat n) = n"
proof (induction n rule: show_nat.induct)
  case (1 n)
  show ?case
  proof (cases "n < 10")
    case True
    then show ?thesis by (subst show_nat.simps) (simp add: digits_value_def)
  next
    case False
    then show ?thesis using 1 by (subst show_nat.simps) (simp add: digits_value_snoc)
  qed
qed

lemma digit_not_special:
  assumes "is_digit c"
  shows "c \<noteq> CHR ''-''" "c \<noteq> CHR ''+''" "c \<noteq> CHR ''.''" "\<not> is_js_space c"
  using assms by (auto simp: is_digit_def is_js_space_def)

lemma takeWhile_digits:
  "list_all is_digit s \<Longrightarrow> takeWhile is_digit (s @ t) = s @ takeWhile is_digit t"
  "list_all is_digit s \<Longrightarrow> dropWhile is_digit (s @ t) = dropWhile is_digit t"
  by (induction s) auto

lemma point_no_digit [simp]: "\<not> is_digit (CHR ''.'')"
  by (simp add: is_digit_def)

lemma trim_digits:
  assumes "s \<noteq> []" "is_digit (hd s)" "is_digit (last s)"
  shows "trim s = s"
proof -
  have "dropWhile is_js_space s = s"
    using assms digit_not_special(4) by (intro dropWhile_fix) auto
  moreover have "dropWhile is_js_space (rev s) = rev s"
    using assms digit_not_special(4) by (intro dropWhile_fix) (auto simp: hd_rev)
  ultimately show ?thesis by (simp add: trim_def)
qed

lemma hd_show_nat: "is_digit (hd (show_nat n))"
  using show_nat_digits [of n] by (cases "show_nat n") auto

lemma last_show_nat: "is_digit (last (show_nat n))"
  using show_nat_digits [of n] by (metis last_in_set list_all_iff show_nat_ne)

lemma to_number_decimal:
  assumes "list_all is_digit fs" "fs \<noteq> []"
  shows "to_number (show_nat q @ ''.'' @ fs) = Some (of_nat q + of_nat (digits_value fs) / 10 ^ length fs)"
proof -
  let ?s = "show_nat q @ ''.'' @ fs"
  have "is_digit (last fs)" using assms by (metis last_in_set list_all_iff)
  then have t: "trim ?s = ?s" using assms hd_show_nat by (intro trim_digits) auto
  have "hd ?s \<noteq> CHR ''-''" "hd ?s \<noteq> CHR ''+''"
    using digit_not_special(1,2) [OF hd_show_nat [of q]] by auto
  moreover have "parse_unsigned ?s = Some (of_nat q + of_nat (digits_value fs) / 10 ^ length fs)"
  proof -
    have a: "takeWhile is_digit ?s = show_nat q" "dropWhile is_digit ?s = CHR ''.'' # fs"
      by (simp_all add: takeWhile_digits [OF show_nat_digits])
    have b: "takeWhile is_digit fs = fs" "dropWhile is_digit fs = []"
      using assms(1) by (simp_all add: list_all_iff takeWhile_eq_all_conv)
    show ?thesis unfolding parse_unsigned_def Let_def a by (simp add: b)
  qed
  ultimately show ?thesis unfolding to_number_def t Let_def by simp
qed

lemma to_number_show_nat: "to_number (show_nat q) = Some (of_nat q)"
proof -
  have t: "trim (show_nat q) = show_nat q"
    using hd_show_nat last_show_nat by (intro trim_digits) auto
  have "hd (show_nat q) \<noteq> CHR ''-''" "hd (show_nat q) \<noteq> CHR ''+''"
    using digit_not_special(1,2) [OF hd_show_nat [of q]] by auto
  moreover have "parse_unsigned (show_nat q) = Some (of_nat q)"
  proof -
    have a: "takeWhile is_digit (show_nat q) = show_nat q" "dropWhile is_digit (show_nat q) = []"
      using takeWhile_digits [OF show_nat_digits, of q "[]"] by simp_all
    show ?thesis unfolding parse_unsigned_def Let_def a by (simp add: digits_value_def [of "[]"])
  qed
  ultimately show ?thesis unfolding to_number_def t Let_def by simp
qed

lemma to_number_cents_text: "to_number (cents_text b) = Some (of_nat b / 100)"
proof -
  let ?q = "b div 100" and ?r = "b mod 100"
  have b: "(of_nat b :: rat) = of_nat ?q * 100 + of_nat ?r"
    by (metis div_mult_mod_eq of_nat_add of_nat_mult of_nat_numeral)
  have r: "(of_nat ?r :: rat) = of_nat (?r div 10) * 10 + of_nat (?r mod 10)"
    by (metis div_mult_mod_eq of_nat_add of_nat_mult of_nat_numeral)
  have d: "?r div 10 < 10" "?r mod 10 < 10" by (simp_all add: less_mult_imp_div_less)
  consider "?r = 0" | "?r \<noteq> 0" "?r mod 10 = 0" | "?r mod 10 \<noteq> 0" by fastforce
  then show ?thesis
  proof cases
    case 1
    then show ?thesis using b by (simp add: cents_text_def to_number_show_nat)
  next
    case 2
    then have "to_number (cents_text b) = Some (of_nat ?q + of_nat (?r div 10) / 10)"
      using to_number_decimal [of "[digit_char (?r div 10)]" ?q] d
      by (simp add: cents_text_def Let_def digits_value_def)
    then show ?thesis using b r 2 by (simp add: field_simps)
  next
    case 3
    then have "to_number (cents_text b) = Some (of_nat ?q + of_nat (10 * (?r div 10) + ?r mod 10) / 100)"
      using to_number_decimal [of "[digit_char (?r div 10), digit_char (?r mod 10)]" ?q] d
      by (simp add: cents_text_def Let_def digits_value_def power2_eq_square) fastforce
    moreover have "10 * (?r div 10) + ?r mod 10 = ?r" by simp
    ultimately show ?thesis using b by (simp add: field_simps)
  qed
qed

lemma math_round_int [simp]: "math_round (of_int n) = n"
  by (simp add: math_round_def floor_eq_iff)

lemma math_round_nat [simp]: "math_round (of_nat n) = int n"
  using math_round_int [of "int n"] by simp

end
