(* ===== verification/RequestForm.thy ===== *)
theory RequestForm
  imports Forms Numbers
begin

text \<open>
  Service requests: the types of \<open>features/requests/types.ts\<close> and the wizard
  \<open>features/requests/RequestForm.tsx\<close>, shared by the pages that create and edit a request.
\<close>

section \<open>Data\<close>

datatype request_status =
    Rq_draft | Rq_open | Rq_matched | Rq_in_progress | Rq_completed
  | Rq_rejected | Rq_in_review | Rq_pooled | Rq_cancelled | Rq_expired

record taxonomy_ref =
  tx_id :: string
  tx_name :: string
  tx_slug :: string

datatype request_mode = Open_mode | Managed_mode
datatype pricing_type = Fixed | Hourly

text \<open>The \<open>bidding\<close> summary: each of its three fields can be absent.\<close>

record bidding =
  bd_offers :: "nat option"
  bd_offer_count :: "nat option"
  bd_my_offer_status :: "string option"

record service_request =
  sr_id :: string
  sr_mode :: request_mode
  sr_category :: string
  sr_title :: string
  sr_description :: string
  sr_subject :: "taxonomy_ref option"
  sr_skills :: "taxonomy_ref list"
  sr_pricing :: pricing_type
  sr_budget_min :: "nat option"
  sr_budget_max :: "nat option"
  sr_budget_min_display :: "string option"     \<comment> \<open>a number, as it prints\<close>
  sr_budget_max_display :: "string option"
  sr_currency :: string
  sr_deadline :: "string option"
  sr_status :: request_status
  sr_offer_count :: nat
  sr_expires_at :: "string option"
  sr_attachments :: "attachment list"
  sr_created_at :: string
  sr_student_view :: bool
  sr_bidding :: "bidding option"

fun mode_name :: "request_mode \<Rightarrow> string" where
  "mode_name Open_mode = ''open''"
| "mode_name Managed_mode = ''managed''"

fun pricing_name :: "pricing_type \<Rightarrow> string" where
  "pricing_name Fixed = ''fixed''"
| "pricing_name Hourly = ''hourly''"

fun REQUEST_STATUS_TONE :: "request_status \<Rightarrow> string" where
  "REQUEST_STATUS_TONE Rq_draft = ''neutral''"
| "REQUEST_STATUS_TONE Rq_open = ''info''"
| "REQUEST_STATUS_TONE Rq_matched = ''success''"
| "REQUEST_STATUS_TONE Rq_in_progress = ''info''"
| "REQUEST_STATUS_TONE Rq_completed = ''success''"
| "REQUEST_STATUS_TONE Rq_rejected = ''danger''"
| "REQUEST_STATUS_TONE Rq_in_review = ''warning''"
| "REQUEST_STATUS_TONE Rq_pooled = ''warning''"
| "REQUEST_STATUS_TONE Rq_cancelled = ''neutral''"
| "REQUEST_STATUS_TONE Rq_expired = ''warning''"

fun REQUEST_STATUS_COPY :: "request_status \<Rightarrow> string" where
  "REQUEST_STATUS_COPY Rq_draft = ''Draft''"
| "REQUEST_STATUS_COPY Rq_open = ''Receiving offers''"
| "REQUEST_STATUS_COPY Rq_matched = ''Expert selected''"
| "REQUEST_STATUS_COPY Rq_in_progress = ''In progress''"
| "REQUEST_STATUS_COPY Rq_completed = ''Completed''"
| "REQUEST_STATUS_COPY Rq_rejected = ''Rejected''"
| "REQUEST_STATUS_COPY Rq_in_review = ''In review''"
| "REQUEST_STATUS_COPY Rq_pooled = ''With expert pool''"
| "REQUEST_STATUS_COPY Rq_cancelled = ''Cancelled''"
| "REQUEST_STATUS_COPY Rq_expired = ''Expired''"

definition REQUEST_CATEGORIES :: "(string \<times> string) list" where
  "REQUEST_CATEGORIES =
     [(''tutoring'', ''1:1 tutoring sessions''), (''concept_coaching'', ''Concept coaching''),
      (''problem_walkthrough'', ''Guided problem walkthrough''),
      (''writing_feedback'', ''Writing feedback & coaching''),
      (''code_review'', ''Code review & mentoring''), (''exam_prep'', ''Exam preparation''),
      (''mentorship'', ''Ongoing mentorship''), (''other'', ''Other legitimate help'')]"

definition isDraftEditable :: "request_status \<Rightarrow> bool" where
  "isDraftEditable st \<longleftrightarrow> st = Rq_draft"

definition canAcceptOffers :: "request_status \<Rightarrow> bool" where
  "canAcceptOffers st \<longleftrightarrow> st = Rq_open"

section \<open>The form\<close>

record form_state =
  fs_mode :: request_mode
  fs_category :: string
  fs_title :: string
  fs_description :: string
  fs_subject_id :: string
  fs_skill_ids :: "string list"
  fs_pricing :: pricing_type
  fs_budget_min :: string
  fs_budget_max :: string
  fs_deadline :: string

text \<open>\<open>existing?.budget ? String(existing.budget / 100) : ""\<close>.\<close>

definition budget_text :: "nat option \<Rightarrow> string" where
  "budget_text b = (case b of None \<Rightarrow> [] | Some n \<Rightarrow> if n = 0 then [] else cents_text n)"

definition form_init :: "service_request option \<Rightarrow> form_state" where
  "form_init existing =
     (case existing of
        None \<Rightarrow> \<lparr>fs_mode = Open_mode, fs_category = ''tutoring'', fs_title = [], fs_description = [],
                fs_subject_id = [], fs_skill_ids = [], fs_pricing = Fixed, fs_budget_min = [],
                fs_budget_max = [], fs_deadline = []\<rparr>
      | Some r \<Rightarrow> \<lparr>fs_mode = sr_mode r, fs_category = sr_category r, fs_title = sr_title r,
                  fs_description = sr_description r,
                  fs_subject_id = (case sr_subject r of None \<Rightarrow> [] | Some t \<Rightarrow> tx_id t),
                  fs_skill_ids = map tx_id (sr_skills r), fs_pricing = sr_pricing r,
                  fs_budget_min = budget_text (sr_budget_min r),
                  fs_budget_max = budget_text (sr_budget_max r),
                  fs_deadline = nullish (sr_deadline r) []\<rparr>)"

text \<open>\<open>enhance\<close> holds what the closure of the running enhancement captured.\<close>

record request_form =
  rq_step :: nat
  rq_subjects :: "taxonomy_ref list"
  rq_skills :: "taxonomy_ref list"
  rq_form :: form_state
  rq_files :: "string list"
  rq_error :: "string option"
  rq_busy :: bool
  rq_enhance :: "(form_state \<times> taxonomy_ref option) option"
  rq_ai_success :: bool

definition request_form_init :: "service_request option \<Rightarrow> request_form" where
  "request_form_init existing =
     \<lparr>rq_step = 1, rq_subjects = [], rq_skills = [], rq_form = form_init existing, rq_files = [],
      rq_error = None, rq_busy = False, rq_enhance = None, rq_ai_success = False\<rparr>"

text \<open>A taxonomy answer: anything but a list of terms counts as no terms.\<close>

definition terms_of :: "(json \<Rightarrow> taxonomy_ref) \<Rightarrow> failure + json \<Rightarrow> taxonomy_ref list" where
  "terms_of cast r =
     (case r of
        Inr v \<Rightarrow> (case get_field v ''terms'' of Some (JArr ts) \<Rightarrow> map cast ts | _ \<Rightarrow> [])
      | Inl _ \<Rightarrow> [])"

definition param :: "(string \<times> string) list \<Rightarrow> string \<Rightarrow> string" where
  "param ps k = nullish (map_of ps k) []"

text \<open>The effect that pre-fills from the query string, when no request is edited.\<close>

definition prefill :: "(string \<times> string) list \<Rightarrow> request_form \<Rightarrow> request_form" where
  "prefill ps s =
     (let t = param ps ''title''; d = param ps ''prompt''; c = param ps ''category''; f = rq_form s
      in if t = [] \<and> d = [] \<and> c = [] then s
         else s\<lparr>rq_form := f\<lparr>fs_title := or_else t (fs_title f), fs_description := or_else d (fs_description f),
                 fs_category := or_else c (fs_category f)\<rparr>,
                rq_step := (if t \<noteq> [] \<or> d \<noteq> [] then 2 else rq_step s)\<rparr>)"

definition selectedSubject :: "request_form \<Rightarrow> taxonomy_ref option" where
  "selectedSubject s = find (\<lambda>t. tx_id t = fs_subject_id (rq_form s)) (rq_subjects s)"

definition nl :: string where "nl = [CHR 0x0A]"

definition append_template :: "string \<Rightarrow> string \<Rightarrow> string" where
  "append_template old txt = (if old \<noteq> [] then old @ nl @ nl @ txt else txt)"

definition enhanced_text :: "form_state \<Rightarrow> taxonomy_ref option \<Rightarrow> string" where
  "enhanced_text f subject =
     (let subjectName = (case subject of None \<Rightarrow> ''Academic'' | Some t \<Rightarrow> tx_name t);
          topic = or_else (trim (fs_title f)) (subjectName @ '' Comprehensive Analysis'');
          currentDesc = trim (fs_description f)
      in ''### [target] 1. Project Objective & Academic Scope'' @ nl
         @ ''Task Focus: '' @ topic @ nl
         @ (if currentDesc \<noteq> [] then ''Student Notes: '' @ currentDesc @ nl else [])
         @ ''We require doctoral-grade conceptual guidance and technical review adhering strictly to academic integrity honor codes (BR-10 & BR-14).'' @ nl @ nl
         @ ''### [microscope] 2. Core Blockers & Technical Constraints'' @ nl
         @ ''- Specific Problem Statement: Clarify theoretical proofs and implementation bottlenecks.'' @ nl
         @ ''- Architectural / Math Constraints: Adhere to standard notation, rigorous step-by-step derivations, and verifiable methodology.'' @ nl
         @ ''- Code / Data Environment: Cleanly documented scripts with modular architecture and test assertions.'' @ nl @ nl
         @ ''### [parcel] 3. Required Milestone Deliverables'' @ nl
         @ ''1. Annotated technical walkthrough notes detailing foundational concepts.'' @ nl
         @ ''2. Code/Proof review identifying edge cases, time/space complexity, and optimization vectors.'' @ nl
         @ ''3. 1-on-1 Q&A discussion to verify conceptual mastery and independent execution.'')"

section \<open>Submitting\<close>

definition text_or_null :: "string \<Rightarrow> json" where
  "text_or_null s = (if s = [] then JNull else JStr s)"

text \<open>\<open>s ? Math.round(Number(s) * 100) : null\<close>; \<open>NaN\<close> is sent as null.\<close>

definition budget_json :: "string \<Rightarrow> json" where
  "budget_json s =
     (if s = [] then JNull
      else (case to_number s of None \<Rightarrow> JNull | Some x \<Rightarrow> JNum (math_round (x * 100))))"

definition request_payload :: "form_state \<Rightarrow> string list \<Rightarrow> json" where
  "request_payload f ids =
     JObj ([(''mode'', JStr (mode_name (fs_mode f))), (''category'', JStr (fs_category f)),
            (''title'', JStr (fs_title f)), (''description'', JStr (fs_description f)),
            (''subject_id'', text_or_null (fs_subject_id f)),
            (''skill_ids'', JArr (map JStr (fs_skill_ids f))),
            (''pricing_type'', JStr (pricing_name (fs_pricing f))),
            (''budget_min'', budget_json (fs_budget_min f)), (''budget_max'', budget_json (fs_budget_max f)),
            (''deadline'', text_or_null (fs_deadline f))]
           @ (if ids = [] then [] else [(''attachment_ids'', JArr (map JStr ids))]))"

definition save_request :: "service_request option \<Rightarrow> json \<Rightarrow> api_init" where
  "save_request existing payload =
     (case existing of None \<Rightarrow> requestsApi_create payload | Some r \<Rightarrow> requestsApi_update (sr_id r) payload)"

definition route_to :: "json \<Rightarrow> failure + string" where
  "route_to saved =
     (case member_of (Some saved) ''id'' of Inl e \<Rightarrow> Inl e | Inr i \<Rightarrow> Inr (''/requests/'' @ text_of i))"

text \<open>The requests of \<open>submit\<close>, and the page it routes to.\<close>

definition submit_request ::
    "string \<Rightarrow> 'w server \<Rightarrow> service_request option \<Rightarrow> form_state \<Rightarrow> string list \<Rightarrow> bool \<Rightarrow> 'w
     \<Rightarrow> (failure + string) \<times> 'w" where
  "submit_request b srv existing f files publish w =
     (case upload_all (upload_id b Request_brief srv) files w of
        (Inl e, w1) \<Rightarrow> (Inl e, w1)
      | (Inr ids, w1) \<Rightarrow>
          (case srv (save_request existing (request_payload f ids)) w1 of
             (Inl e, w2) \<Rightarrow> (Inl e, w2)
           | (Inr saved, w2) \<Rightarrow>
               if \<not> publish then (route_to saved, w2)
               else (case member_of (Some saved) ''status'' of
                   Inl e \<Rightarrow> (Inl e, w2)
                 | Inr st \<Rightarrow>
                     if st = Some (JStr ''draft'')
                     then (case srv (requestsApi_publish (text_of (get_field saved ''id'')) True) w2 of
                         (Inl e, w3) \<Rightarrow> (Inl e, w3)
                       | (Inr _, w3) \<Rightarrow> (route_to saved, w3))
                     else (route_to saved, w2))))"

section \<open>The form as a machine\<close>

record browser_env =
  be_date_after :: "nat \<Rightarrow> string"     \<comment> \<open>the date some days from now\<close>
  be_file_size :: "string \<Rightarrow> nat"

datatype request_event =
    Subjects "failure + json"
  | Skills "failure + json"
  | Prefill "(string \<times> string) list"
  | GoStep nat
  | PickMode request_mode
  | PickCategory string
  | TypeTitle string
  | PickSubject string
  | TypeBrief string
  | InsertTemplate string
  | ToggleSkill string
  | AddFiles "string list"
  | RemoveFile nat
  | QuickDeadline nat
  | TypeDeadline string
  | PickPricing string
  | TypeMin string
  | TypeMax string
  | Enhance
  | Enhanced
  | EnhanceShown
  | SubmitRequest bool
  | RequestSaved "failure + string"

abbreviation upd_form :: "(form_state \<Rightarrow> form_state) \<Rightarrow> request_form \<Rightarrow> request_form" where
  "upd_form g s \<equiv> s\<lparr>rq_form := g (rq_form s)\<rparr>"

fun request_step ::
    "browser_env \<Rightarrow> (json \<Rightarrow> taxonomy_ref) \<Rightarrow> service_request option \<Rightarrow> request_form \<Rightarrow> request_event \<Rightarrow> request_form"
  where
  "request_step env cast ex s (Subjects r) = s\<lparr>rq_subjects := terms_of cast r\<rparr>"
| "request_step env cast ex s (Skills r) = s\<lparr>rq_skills := terms_of cast r\<rparr>"
| "request_step env cast ex s (Prefill ps) = (if ex \<noteq> None then s else prefill ps s)"
| "request_step env cast ex s (GoStep n) = s\<lparr>rq_step := n\<rparr>"
| "request_step env cast ex s (PickMode m) = upd_form (\<lambda>f. f\<lparr>fs_mode := m\<rparr>) s"
| "request_step env cast ex s (PickCategory c) = upd_form (\<lambda>f. f\<lparr>fs_category := c\<rparr>) s"
| "request_step env cast ex s (TypeTitle t) = upd_form (\<lambda>f. f\<lparr>fs_title := t\<rparr>) s"
| "request_step env cast ex s (PickSubject i) = upd_form (\<lambda>f. f\<lparr>fs_subject_id := i\<rparr>) s"
| "request_step env cast ex s (TypeBrief d) = upd_form (\<lambda>f. f\<lparr>fs_description := d\<rparr>) s"
| "request_step env cast ex s (InsertTemplate t) =
     upd_form (\<lambda>f. f\<lparr>fs_description := append_template (fs_description f) t\<rparr>) s"
| "request_step env cast ex s (ToggleSkill i) =
     upd_form (\<lambda>f. f\<lparr>fs_skill_ids := (if i \<in> set (fs_skill_ids f) then filter (\<lambda>j. j \<noteq> i) (fs_skill_ids f)
                                    else fs_skill_ids f @ [i])\<rparr>) s"
| "request_step env cast ex s (AddFiles fs) = s\<lparr>rq_files := rq_files s @ fs\<rparr>"
| "request_step env cast ex s (RemoveFile i) =
     s\<lparr>rq_files := take i (rq_files s) @ drop (Suc i) (rq_files s)\<rparr>"
| "request_step env cast ex s (QuickDeadline n) = upd_form (\<lambda>f. f\<lparr>fs_deadline := be_date_after env n\<rparr>) s"
| "request_step env cast ex s (TypeDeadline d) = upd_form (\<lambda>f. f\<lparr>fs_deadline := d\<rparr>) s"
| "request_step env cast ex s (PickPricing p) =
     upd_form (\<lambda>f. f\<lparr>fs_pricing := (if p = ''hourly'' then Hourly else Fixed)\<rparr>) s"
| "request_step env cast ex s (TypeMin t) = upd_form (\<lambda>f. f\<lparr>fs_budget_min := t\<rparr>) s"
| "request_step env cast ex s (TypeMax t) = upd_form (\<lambda>f. f\<lparr>fs_budget_max := t\<rparr>) s"
| "request_step env cast ex s Enhance =
     s\<lparr>rq_enhance := Some (rq_form s, selectedSubject s), rq_ai_success := False\<rparr>"
| "request_step env cast ex s Enhanced =
     (case rq_enhance s of
        None \<Rightarrow> s
      | Some (f, subject) \<Rightarrow>
          (upd_form (\<lambda>g. g\<lparr>fs_description := enhanced_text f subject\<rparr>) s)
            \<lparr>rq_enhance := None, rq_ai_success := True\<rparr>)"
| "request_step env cast ex s EnhanceShown = s\<lparr>rq_ai_success := False\<rparr>"
| "request_step env cast ex s (SubmitRequest publish) = s\<lparr>rq_error := None, rq_busy := True\<rparr>"
| "request_step env cast ex s (RequestSaved r) =
     (case r of
        Inr path \<Rightarrow> s\<lparr>rq_busy := False\<rparr>
      | Inl e \<Rightarrow> s\<lparr>rq_error := Some (api_message_or ''Something went wrong. Please check your inputs and try again.'' e),
                  rq_busy := False\<rparr>)"

section \<open>What it shows\<close>

text \<open>\<open>Number(form.budget_max) || 0\<close> and the estimates made from it.\<close>

definition budgetMaxNum :: "form_state \<Rightarrow> rat" where
  "budgetMaxNum f = nullish (to_number (fs_budget_max f)) 0"

definition expertEstPayout :: "rat \<Rightarrow> int" where
  "expertEstPayout deposit = math_round (deposit * (85 / 100))"

definition platformEstFee :: "rat \<Rightarrow> int" where
  "platformEstFee deposit = math_round (deposit * (15 / 100))"

definition stepper :: "nat \<Rightarrow> request_event ui list" where
  "stepper n =
     [Button ((if n > 1 then ''[check]'' else ''1'') @ '' 1. Model & Scope'') False (GoStep 1),
      Button ((if n > 2 then ''[check]'' else ''2'') @ '' 2. Academic Specs'') False (GoStep 2),
      Button ''3 3. Turnaround & Escrow'' False (GoStep 3)]"

definition step1 :: "request_form \<Rightarrow> request_event ui list" where
  "step1 s =
     [Heading ''Step 1: Choose Operating Model & Scope'',
      Text ''Select how you want to discover specialists and define the high-level assistance category.'',
      Text ''Operating Delivery Model *'', Text ''Choose your operating model'',
      Check ''[bolt] Open Bidding Marketplace'' (fs_mode (rq_form s) = Open_mode) False (PickMode Open_mode),
      Text ''Verified specialists review your requirements and submit bids. You choose the best rate and credential match.'',
      Text ''Blind Bidding'', Text ''Direct Hire'', Text ''Rate Comparison'',
      Check ''[gem] Managed White-Glove Service'' (fs_mode (rq_form s) = Managed_mode) False (PickMode Managed_mode),
      Text ''Platform coordinators analyze your task and algorithmically assign our top 3% rated specialist with SLA delivery guarantee.'',
      Text ''Top 3% Vetted'', Text ''SLA Guarantee'', Text ''Coordinator Assisted'']
     @ [Text ''Assistance Category *'']
     @ map (\<lambda>(v, l). Check l (fs_category (rq_form s) = v) False (PickCategory v)) REQUEST_CATEGORIES
     @ [Button ''Continue to Academic Specs'' False (GoStep 2)]"

definition step2 :: "browser_env \<Rightarrow> request_form \<Rightarrow> request_event ui list" where
  "step2 env s =
     (let f = rq_form s
      in [Heading ''Step 2: Academic Specs & Files'',
          Text ''Define the task requirements with technical precision so specialists can review feasibility immediately.'',
          Text (show_nat (length (fs_title f)) @ ''/120''),
          Field ''Task Title *'' (fs_title f) TypeTitle,
          Choice ''Subject Taxonomy *'' (fs_subject_id f)
            (([], ''Select a subject...'') # map (\<lambda>t. (tx_id t, tx_name t)) (rq_subjects s)) PickSubject,
          Choice ''Assistance Track'' (fs_category f) REQUEST_CATEGORIES PickCategory,
          Button (if rq_enhance s \<noteq> None then ''Enhancing Brief...'' else ''Enhance with AI'')
            (rq_enhance s \<noteq> None) Enhance,
          Text ''Markdown'',
          Text (show_nat (length (fs_description f)) @ '' chars'')]
         @ shown_if (rq_ai_success s)
             [Text ''AI Academic Copilot structured your brief with technical rubrics and milestone checkpoints!'']
         @ [Text ''Quick inserts:'',
            Button ''+ Problem Statement'' False
              (InsertTemplate (''### Problem Statement'' @ nl @ ''Describe the exact problem or proof blocker here.'')),
            Button ''+ Constraints'' False
              (InsertTemplate (''### Requirements & Constraints'' @ nl @ ''- Constraint 1:'' @ nl @ ''- Constraint 2:'')),
            Button ''+ Expected Deliverables'' False
              (InsertTemplate (''### Expected Deliverables'' @ nl @ ''Conceptual code review and walkthrough notes.'')),
            Field ''Detailed Task Brief & Blockers *'' (fs_description f) TypeBrief]
         @ shown_if (rq_skills s \<noteq> []) [Text ''Required Skills & Tools (Optional)'']
         @ map (\<lambda>t. Check (tx_name t) (tx_id t \<in> set (fs_skill_ids f)) False (ToggleSkill (tx_id t))) (rq_skills s)
         @ [Text ''PDF, DOCX, ZIP, Jupyter (.ipynb), Python (.py), <=10MB'',
            Text ''Drag files here or click to browse'',
            Text ''Upload assignment briefs, dataset samples, or code specifications'',
            Files ''Attachments & Problem Sheets'' AddFiles]
         @ map (\<lambda>(i, name). Box name
              [Text (name @ '' ('' @ show_int (math_round (of_nat (be_file_size env name) / 1024)) @ '' KB)''),
               Button (''Remove '' @ name) False (RemoveFile i)]) (zip [0..<length (rq_files s)] (rq_files s))
         @ [Button ''Back'' False (GoStep 1), Button ''Continue to Turnaround & Escrow'' False (GoStep 3)])"

definition step3 :: "service_request option \<Rightarrow> request_form \<Rightarrow> request_event ui list" where
  "step3 existing s =
     (let f = rq_form s; deposit = budgetMaxNum f
      in [Heading ''Step 3: Turnaround & Escrow Custody'',
          Text ''Configure your delivery timeline, pricing structure, and inspect escrow custody protections.'',
          Text ''Target Turnaround Window *'',
          Button ''< 24 Hours [Rush] Priority specialist routing'' False (QuickDeadline 1),
          Button ''3 Days [Standard] Balanced milestone cadence'' False (QuickDeadline 3),
          Button ''7+ Days [Deep Dive] Comprehensive research review'' False (QuickDeadline 7),
          Field ''Or select a specific calendar date:'' (fs_deadline f) TypeDeadline,
          Text ''Pricing & Escrow Limits *'',
          Choice ''Pricing Model'' (pricing_name (fs_pricing f))
            [(''fixed'', ''Fixed Milestone Price''), (''hourly'', ''Hourly Rate'')] PickPricing,
          Field ''Budget Min ($ USD)'' (fs_budget_min f) TypeMin,
          Field ''Budget Max ($ USD)'' (fs_budget_max f) TypeMax,
          Text ''Custody & Escrow Breakdown'', Text ''100% Escrow Protected'',
          Text ''Maximum Deposit'',
          Text (''$'' @ (if deposit > 0 then to_fixed2 deposit else ''0.00'')),
          Text ''Specialist Net (85%)'',
          Text (''$'' @ (if deposit > 0 then to_fixed2 (of_int (expertEstPayout deposit)) else ''0.00'')),
          Text ''Platform Reserve (15%)'',
          Text (''$'' @ (if deposit > 0 then to_fixed2 (of_int (platformEstFee deposit)) else ''0.00'')),
          Text ''Funds remain in platform custody and are never released to the specialist until you inspect the milestone submission and provide written approval.'',
          Text ''Academic Integrity Honor Code (BR-10 & BR-14): Vetted doctoral specialists coach and clarify conceptual principles, provide constructive feedback, and review logic. They never complete graded coursework or exams on your behalf.'']
         @ alert_if (rq_error s)
         @ [Button ''Back'' False (GoStep 2),
            Button ''Save Draft'' (rq_busy s) (SubmitRequest False),
            Button (if rq_busy s then ''Submitting...''
                    else if fs_mode f = Managed_mode then ''Submit for Managed Review''
                    else if existing \<noteq> None then ''Save & Publish'' else ''Publish Task Brief'')
              (rq_busy s) (SubmitRequest True)])"

definition summary_panel :: "request_form \<Rightarrow> request_event ui list" where
  "summary_panel s =
     (let f = rq_form s
      in [Text ''Live Brief Preview'', Text ''Selected Model'',
          Text (if fs_mode f = Managed_mode then ''Managed White-Glove'' else ''Open Bidding Pool''),
          Text ''Academic Scope'', Text (or_else (fs_title f) ''Untitled Task Brief''),
          Text (or_else (nullish (map_of REQUEST_CATEGORIES (fs_category f)) []) ''General'')]
         @ (case selectedSubject s of None \<Rightarrow> [] | Some t \<Rightarrow> [Text (tx_name t)])
         @ [Text ''Budget Target'',
            Text (if fs_budget_max f \<noteq> []
                  then ''$'' @ or_else (fs_budget_min f) ''0'' @ '' - $'' @ fs_budget_max f else ''Flexible''),
            Text ''Deadline'', Text (or_else (fs_deadline f) ''Flexible''),
            Text ''Attached Reference Files'',
            Text (show_nat (length (rq_files s)) @ '' file'' @ (if length (rq_files s) = 1 then [] else ''s'')),
            Text ''100% Milestone-Gated Escrow'', Text ''Average First Bid: < 18 Minutes'',
            Text ''Top 3% Vetted Doctoral Specialists''])"

definition RequestForm :: "browser_env \<Rightarrow> service_request option \<Rightarrow> request_form \<Rightarrow> request_event ui list" where
  "RequestForm env existing s =
     stepper (rq_step s)
     @ shown_if (rq_step s = 1) (step1 s)
     @ shown_if (rq_step s = 2) (step2 env s)
     @ shown_if (rq_step s = 3) (step3 existing s)
     @ summary_panel s"

section \<open>Lemmas\<close>

lemma budget_roundtrip: "0 < n \<Longrightarrow> budget_json (budget_text (Some n)) = JNum (int n)"
proof -
  assume "0 < n"
  have "cents_text n \<noteq> []" by (simp add: cents_text_def Let_def)
  then have "budget_json (budget_text (Some n)) = JNum (math_round (of_nat n / 100 * 100))"
    using \<open>0 < n\<close> by (simp add: budget_json_def budget_text_def to_number_cents_text)
  then show ?thesis by simp
qed

definition amount_json :: "nat option \<Rightarrow> json" where
  "amount_json b = (case b of None \<Rightarrow> JNull | Some n \<Rightarrow> if n = 0 then JNull else JNum (int n))"

lemma budget_json_text: "budget_json (budget_text b) = amount_json b"
proof (cases b)
  case (Some n)
  then show ?thesis
    using budget_roundtrip [of n] by (cases "n = 0") (simp_all add: amount_json_def budget_text_def budget_json_def)
qed (simp add: amount_json_def budget_text_def budget_json_def)

text \<open>What follows the answer to the request that saves: the publication of a draft, and where it all ends.\<close>

definition publishes :: "bool \<Rightarrow> json \<Rightarrow> bool" where
  "publishes publish saved \<longleftrightarrow> publish \<and> get_field saved ''status'' = Some (JStr ''draft'')"

definition publication :: "json \<Rightarrow> api_init" where
  "publication saved = requestsApi_publish (text_of (get_field saved ''id'')) True"

lemma saved_tail:
  assumes "(if \<not> publish then (route_to saved, w2, l2)
      else (case member_of (Some saved) ''status'' of
          Inl e \<Rightarrow> (Inl e, w2, l2)
        | Inr st \<Rightarrow>
            if st = Some (JStr ''draft'')
            then (case logged srv (publication saved) (w2, l2) of
                (Inl e, w3) \<Rightarrow> (Inl e, w3)
              | (Inr _, w3) \<Rightarrow> (route_to saved, w3))
            else (route_to saved, w2, l2))) = (res, w', sent)"
  shows "sent = l2 @ (if publishes publish saved then [publication saved] else []) \<and>
    res = (if publishes publish saved
           then (case fst (srv (publication saved) w2) of Inl e \<Rightarrow> Inl e | Inr _ \<Rightarrow> route_to saved)
           else route_to saved)"
proof (cases "saved = JNull")
  case True
  then show ?thesis using assms by (cases publish) (auto simp: publishes_def route_to_def)
next
  case False
  then have m: "member_of (Some saved) k = Inr (get_field saved k)" for k by (cases saved) simp_all
  show ?thesis
    using assms
    by (cases "srv (publication saved) w2"; cases "fst (srv (publication saved) w2)")
      (auto simp: publishes_def m logged_def split: if_splits)
qed

lemma request_form_checks:
  "set (check_labels (RequestForm env existing t)) \<subseteq>
     {''[bolt] Open Bidding Marketplace'', ''[gem] Managed White-Glove Service''}
     \<union> set (map snd REQUEST_CATEGORIES) \<union> set (map tx_name (rq_skills t))"
proof -
  have "set (check_labels (step1 t)) \<subseteq>
      {''[bolt] Open Bidding Marketplace'', ''[gem] Managed White-Glove Service''} \<union> set (map snd REQUEST_CATEGORIES)"
    by (auto simp: step1_def check_labels_map) (metis image_eqI snd_conv)
  moreover have "set (check_labels (step2 env t)) \<subseteq> set (map tx_name (rq_skills t))"
    by (auto simp: step2_def check_labels_map Let_def)
  moreover have "check_labels (step3 existing t) = []"
    by (auto simp: step3_def Let_def alert_if_def)
  moreover have "check_labels (summary_panel t) = []" "check_labels (stepper n) = []" for n
    by (auto simp: summary_panel_def stepper_def Let_def split: option.split)
  ultimately show ?thesis
    unfolding RequestForm_def by auto
qed

section \<open>Properties\<close>

text \<open>
  C23: an edit that changes nothing writes back what the request has. The payload of the form that
  the request fills in carries its fields, with the amounts in cents unchanged after being printed
  in the field as dollars and parsed again; a missing or zero amount and an empty subject or
  deadline are sent as null.
\<close>

theorem untouched_edit_roundtrip:
  "request_payload (form_init (Some r)) [] =
     JObj [(''mode'', JStr (mode_name (sr_mode r))), (''category'', JStr (sr_category r)),
           (''title'', JStr (sr_title r)), (''description'', JStr (sr_description r)),
           (''subject_id'', case sr_subject r of None \<Rightarrow> JNull | Some t \<Rightarrow> text_or_null (tx_id t)),
           (''skill_ids'', JArr (map (\<lambda>t. JStr (tx_id t)) (sr_skills r))),
           (''pricing_type'', JStr (pricing_name (sr_pricing r))),
           (''budget_min'', amount_json (sr_budget_min r)), (''budget_max'', amount_json (sr_budget_max r)),
           (''deadline'', case sr_deadline r of None \<Rightarrow> JNull | Some d \<Rightarrow> text_or_null d)]"
  by (simp add: request_payload_def form_init_def budget_json_text text_or_null_def comp_def
      split: option.split)

text \<open>
  C24: what a submission asks of the server, and what comes of it. Either an upload fails, no later file
  is uploaded and nothing is saved; or every file is uploaded in order and then one request saves the
  form with the identifiers the uploads gave, one per file. Exactly when publishing was asked for and the
  answer to that request is a draft, one last request publishes what was saved, by the identifier of
  the answer. A refusal of either request is the outcome; otherwise it is the page of the saved request.
\<close>

theorem submission_requests:
  assumes "submit_request b (logged srv) existing f files publish (w, []) = (res, w', sent)"
  shows "(\<exists>e k. res = Inl e \<and> k < length files \<and>
       sent = map (\<lambda>x. at_base b (upload_req ''request_brief'' x)) (take (Suc k) files)) \<or>
    (\<exists>ids w1 answer w2.
       upload_all (upload_id b Request_brief (logged srv)) files (w, [])
         = (Inr ids, w1, map (\<lambda>x. at_base b (upload_req ''request_brief'' x)) files) \<and>
       length ids = length files \<and>
       srv (save_request existing (request_payload f ids)) w1 = (answer, w2) \<and>
       sent = map (\<lambda>x. at_base b (upload_req ''request_brief'' x)) files
         @ save_request existing (request_payload f ids)
         # (case answer of Inl e \<Rightarrow> []
            | Inr saved \<Rightarrow>
                if publish \<and> get_field saved ''status'' = Some (JStr ''draft'')
                then [requestsApi_publish (text_of (get_field saved ''id'')) True] else []) \<and>
       res = (case answer of Inl e \<Rightarrow> Inl e
              | Inr saved \<Rightarrow>
                  if publish \<and> get_field saved ''status'' = Some (JStr ''draft'')
                  then (case fst (srv (requestsApi_publish (text_of (get_field saved ''id'')) True) w2) of
                          Inl e \<Rightarrow> Inl e | Inr _ \<Rightarrow> route_to saved)
                  else route_to saved))"
proof (cases "upload_all (upload_id b Request_brief (logged srv)) files (w, [])")
  case (fields r w1 l1)
  note ok = file_upload.all_ok [of b Request_brief srv files "(w, [])" _ "(w1, l1)", simplified]
  note stops = file_upload.all_stops [of b Request_brief srv files "(w, [])" _ "(w1, l1)", simplified]
  show ?thesis
  proof (cases r)
    case (Inl e)
    then show ?thesis using stops fields assms by (auto simp: submit_request_def)
  next
    case (Inr ids)
    let ?save = "save_request existing (request_payload f ids)"
    have up: "length ids = length files"
        "l1 = map (\<lambda>x. at_base b (upload_req ''request_brief'' x)) files"
      using ok fields Inr by auto
    obtain a w2 where a: "srv ?save w1 = (a, w2)" by fastforce
    have lg: "logged srv ?save (w1, l1) = (a, w2, l1 @ [?save])" by (simp add: logged_def a)
    show ?thesis
    proof (cases a)
      case (Inl e)
      then have "sent = l1 @ [?save]" "res = Inl e"
        using assms fields Inr lg by (simp_all add: submit_request_def)
      then show ?thesis using up fields a Inl \<open>r = Inr ids\<close> by (intro disjI2 exI [of _ ids] exI [of _ w1]) simp
    next
      case (Inr saved)
      have "sent = (l1 @ [?save]) @ (if publishes publish saved then [publication saved] else []) \<and>
          res = (if publishes publish saved
                 then (case fst (srv (publication saved) w2) of Inl e \<Rightarrow> Inl e | Inr _ \<Rightarrow> route_to saved)
                 else route_to saved)"
        using saved_tail [unfolded publication_def, of publish saved w2 "l1 @ [?save]" srv res w' sent] assms
        by (simp add: submit_request_def publication_def fields \<open>r = Inr ids\<close> lg Inr)
      then show ?thesis
        using up fields a Inr \<open>r = Inr ids\<close> unfolding publishes_def publication_def
        by (intro disjI2 exI [of _ ids] exI [of _ w1] exI [of _ a] exI [of _ w2]) simp
    qed
  qed
qed

definition draft_server :: "nat server" where
  "draft_server i n =
     (if init_path i = ''/api/v1/me/requests''
      then (Inr (JObj [(''id'', JStr (''q'' @ show_nat n)), (''status'', JStr ''draft'')]), Suc n)
      else (Inl (JsError ''Failed to fetch''), n))"

lemma draft_server_create:
  "draft_server (requestsApi_create payload) n =
     (Inr (JObj [(''id'', JStr (''q'' @ show_nat n)), (''status'', JStr ''draft'')]), Suc n)"
  by (simp add: draft_server_def requestsApi_create_def js_simps)

lemma draft_server_publish:
  "draft_server (requestsApi_publish i True) n = (Inl (JsError ''Failed to fetch''), n)"
  by (simp add: draft_server_def requestsApi_publish_def js_simps)

theorem submission_requests_witness:
  "(let (res, n, sent) = submit_request ''https://api'' (logged draft_server) None (form_init None) [] True (0, [])
    in sent = [requestsApi_create (request_payload (form_init None) []), requestsApi_publish ''q0'' True])"
proof -
  obtain res n sent where s: "submit_request ''https://api'' (logged draft_server) None (form_init None) [] True (0, [])
      = (res, n, sent)"
    by (rule prod_cases3)
  have z: "show_nat 0 = ''0''" by code_simp
  show ?thesis
    using s submission_requests [OF s] by (auto simp: save_request_def draft_server_create z)
qed

text \<open>
  Trying again after a refused publication saves the request twice. With a server that saves
  drafts and does not publish them, the first submission of a new request fails after saving it;
  the form is then as it was and offers the submission again, and the second one does not update
  the saved request but creates another.
\<close>

lemma retry_creates_again:
  fixes f :: form_state
  defines "payload \<equiv> request_payload f []"
  shows "(let (r1, w1, l1) = submit_request b (logged draft_server) None f [] True (0, []);
        (r2, w2, l2) = submit_request b (logged draft_server) None f [] True (w1, l1)
    in r1 = Inl (JsError ''Failed to fetch'') \<and>
       filter (\<lambda>i. i = requestsApi_create payload) l2 = [requestsApi_create payload, requestsApi_create payload]) \<and>
    (rq_form s = f \<and> rq_step s = 3 \<longrightarrow>
       (let s' = request_step env cast None s (RequestSaved (Inl (JsError ''Failed to fetch'')))
        in rq_form s' = f \<and> offered (RequestForm env None s') (SubmitRequest True)))"
proof -
  have p: "requestsApi_publish i True \<noteq> requestsApi_create payload" for i
    by (simp add: requestsApi_publish_def requestsApi_create_def js_simps)
  show ?thesis
    by (simp add: submit_request_def save_request_def logged_def draft_server_create draft_server_publish p payload_def [symmetric]
        RequestForm_def step3_def Let_def)
qed

text \<open>
  A request is published as attested without an attestation. Two clicks on the untouched form
  save a request and publish it with \<open>attested\<close> true, and the only checkboxes the form has, in
  every state, choose the model, the category and the skills: none asks for the integrity
  attestation that the rule BR-10 wants ticked.
\<close>

lemma publishes_unattested:
  "offered (RequestForm env None (request_form_init None)) (GoStep 3) \<and>
   (let s = request_step env cast None (request_form_init None) (GoStep 3)
    in offered (RequestForm env None s) (SubmitRequest True) \<and>
       snd (snd (submit_request b (logged draft_server) None (rq_form s) (rq_files s) True (0, []))) =
         [requestsApi_create (request_payload (form_init None) []), requestsApi_publish ''q0'' True]) \<and>
   set (check_labels (RequestForm env existing t)) \<subseteq>
     {''[bolt] Open Bidding Marketplace'', ''[gem] Managed White-Glove Service''}
     \<union> set (map snd REQUEST_CATEGORIES) \<union> set (map tx_name (rq_skills t))"
proof (intro conjI)
  have zero: "show_nat 0 = ''0''" by code_simp
  show "offered (RequestForm env None (request_form_init None)) (GoStep 3)"
    by (simp add: RequestForm_def stepper_def)
  show "let s = request_step env cast None (request_form_init None) (GoStep 3)
    in offered (RequestForm env None s) (SubmitRequest True) \<and>
       snd (snd (submit_request b (logged draft_server) None (rq_form s) (rq_files s) True (0, []))) =
         [requestsApi_create (request_payload (form_init None) []), requestsApi_publish ''q0'' True]"
    by (simp add: RequestForm_def step3_def submit_request_def save_request_def logged_def
        draft_server_create draft_server_publish request_form_init_def Let_def zero)
  show "set (check_labels (RequestForm env existing t)) \<subseteq>
     {''[bolt] Open Bidding Marketplace'', ''[gem] Managed White-Glove Service''}
     \<union> set (map snd REQUEST_CATEGORIES) \<union> set (map tx_name (rq_skills t))"
    using request_form_checks by blast
qed

text \<open>
  The breakdown of the deposit can be off by a dollar, and is: the specialist's net and the
  platform's reserve, each rounded by itself, add up to a number within one dollar of the
  deposit, and for a deposit of ten dollars they add up to eleven.
\<close>

lemma breakdown_off_by_one:
  "\<bar>of_int (expertEstPayout d + platformEstFee d) - d\<bar> \<le> 1 \<and>
   expertEstPayout 10 + platformEstFee 10 = 11"
proof
  have r: "of_int (math_round x) \<le> x + 1 / 2" "x - 1 / 2 \<le> of_int (math_round x)" for x
    unfolding math_round_def by linarith+
  show "\<bar>of_int (expertEstPayout d + platformEstFee d) - d\<bar> \<le> 1"
    using r [of "d * (85 / 100)"] r [of "d * (15 / 100)"]
    by (simp add: expertEstPayout_def platformEstFee_def abs_le_iff)
  show "expertEstPayout 10 + platformEstFee 10 = 11"
    by (simp add: expertEstPayout_def platformEstFee_def math_round_def)
qed

end
