(* ===== verification/Backend.thy ===== *)
theory Backend
  imports Orders Disputes RequestForm
begin

text \<open>
  What the services of the backend share: accounts, domain errors and the envelope the API client
  reads (\<open>apps/core/exceptions.py\<close>), money in minor units (\<open>apps/core/money.py\<close>,
  \<open>apps/payments/config.py\<close>) and the string functions of Python that the guards use.

  A service either raises or returns the new state: \<open>domain_error + 'a\<close>. Its transaction is undone
  by an error, so an error leaves the state as it was. The vocabularies of the two sides are the same
  words, so the statuses are the datatypes of the client's theories. Times are seconds, read from the
  argument \<open>now\<close>.
\<close>

section \<open>Accounts and errors\<close>

record account =
  acct_id :: int
  acct_staff :: bool

record domain_error =
  de_status :: nat
  de_code :: string
  de_message :: string

type_synonym 'a served = "domain_error + 'a"

definition DomainError :: "string \<Rightarrow> string \<Rightarrow> domain_error" where
  "DomainError message code = \<lparr>de_status = 400, de_code = code, de_message = message\<rparr>"

definition NotFoundError :: "string \<Rightarrow> domain_error" where
  "NotFoundError message = \<lparr>de_status = 404, de_code = ''not_found'', de_message = message\<rparr>"

definition PermissionDeniedError :: "string \<Rightarrow> domain_error" where
  "PermissionDeniedError message =
     \<lparr>de_status = 403, de_code = ''permission_denied'', de_message = message\<rparr>"

definition PaymentFailedError :: "string \<Rightarrow> domain_error" where
  "PaymentFailedError message =
     \<lparr>de_status = 402, de_code = ''payment_failed'', de_message = message\<rparr>"

fun and_then :: "'a served \<Rightarrow> ('a \<Rightarrow> 'b served) \<Rightarrow> 'b served" where
  "and_then (Inl e) f = Inl e"
| "and_then (Inr x) f = f x"

text \<open>The state after a request: an error rolls the transaction back.\<close>

fun committed :: "'s \<Rightarrow> 's served \<Rightarrow> 's" where
  "committed s (Inl e) = s"
| "committed s (Inr s') = s'"

definition error_envelope :: "domain_error \<Rightarrow> json" where
  "error_envelope e =
     JObj [(''error'', JObj [(''code'', JStr (de_code e)), (''message'', JStr (de_message e)),
                             (''details'', JObj [])])]"

definition error_response :: "domain_error \<Rightarrow> http_response" where
  "error_response e =
     \<lparr>res_status = de_status e, res_type = Some ''application/json'', res_json = Some (error_envelope e)\<rparr>"

text \<open>What the client's \<open>apiFetch\<close> makes of an answer of the backend.\<close>

definition shown_failure :: "domain_error \<Rightarrow> failure" where
  "shown_failure e =
     Api \<lparr>err_status = de_status e, err_code = Some (JStr (de_code e)), err_message = de_message e,
          err_details = JObj []\<rparr>"

lemma apiFetch_error_response:
  assumes "fetch (api_request env i) = Response (error_response e)" "400 \<le> de_status e"
  shows "apiFetch fetch env i = Inl (shown_failure e)"
  using assms
  by (simp add: apiFetch_def error_response_def read_payload_def str_includes_def res_ok_def
      envelope_error_def error_envelope_def ApiError_def shown_failure_def)

lemma error_simps [simp]:
  "de_status (DomainError m c) = 400" "de_status (PermissionDeniedError m) = 403"
  "de_status (NotFoundError m) = 404" "de_status (PaymentFailedError m) = 402"
  "de_code (DomainError m c) = c" "de_code (PermissionDeniedError m) = ''permission_denied''"
  by (simp_all add: DomainError_def PermissionDeniedError_def NotFoundError_def PaymentFailedError_def)

lemma and_then_Inr: "and_then r f = Inr y \<longleftrightarrow> (\<exists>x. r = Inr x \<and> f x = Inr y)"
  by (cases r) auto

section \<open>Python strings\<close>

definition py_quoted :: "string \<Rightarrow> string" where
  "py_quoted s = CHR 0x27 # s @ [CHR 0x27]"

text \<open>The code points below 256 that \<open>str.strip\<close> removes: more than those of the client's \<open>trim\<close>.\<close>

definition is_py_space :: "char \<Rightarrow> bool" where
  "is_py_space c \<longleftrightarrow> of_char c \<in> ({9, 10, 11, 12, 13, 28, 29, 30, 31, 32, 133, 160} :: nat set)"

definition py_strip :: "string \<Rightarrow> string" where
  "py_strip s = rev (dropWhile is_py_space (rev (dropWhile is_py_space s)))"

text \<open>A text the client has trimmed can only lose a separator that \<open>trim\<close> does not know.\<close>

definition py_plain :: "string \<Rightarrow> bool" where
  "py_plain s \<longleftrightarrow> (\<forall>c \<in> set s. is_py_space c \<longrightarrow> is_js_space c)"

lemma dropWhile_cong_set: "(\<And>x. x \<in> set xs \<Longrightarrow> P x = Q x) \<Longrightarrow> dropWhile P xs = dropWhile Q xs"
  by (induction xs) auto

lemma js_py_space: "is_js_space c \<Longrightarrow> is_py_space c"
  by (auto simp: is_js_space_def is_py_space_def)

lemma py_strip_trim:
  assumes "py_plain s"
  shows "py_strip s = trim s"
proof -
  have eq: "is_py_space c = is_js_space c" if "c \<in> set s" for c
    using assms that js_py_space by (auto simp: py_plain_def)
  have "dropWhile is_py_space s = dropWhile is_js_space s"
    by (rule dropWhile_cong_set) (rule eq)
  moreover have "dropWhile is_py_space (rev (dropWhile is_js_space s)) =
      dropWhile is_js_space (rev (dropWhile is_js_space s))"
  proof (rule dropWhile_cong_set)
    fix c assume "c \<in> set (rev (dropWhile is_js_space s))"
    then have "c \<in> set s" by (simp add: set_dropWhileD)
    then show "is_py_space c = is_js_space c" by (rule eq)
  qed
  ultimately show ?thesis by (simp add: py_strip_def trim_def)
qed

section \<open>Money\<close>

definition ZERO_DECIMAL_CURRENCIES :: "string list" where
  "ZERO_DECIMAL_CURRENCIES =
     [''JPY'', ''KRW'', ''VND'', ''CLP'', ''ISK'', ''XOF'', ''XAF'', ''BIF'', ''DJF'', ''GNF'', ''KMF'',
      ''MGA'', ''PYG'', ''RWF'', ''UGX'', ''VUV'']"

definition exponent_for :: "string \<Rightarrow> nat" where
  "exponent_for currency = (if to_upper currency \<in> set ZERO_DECIMAL_CURRENCIES then 0 else 2)"

text \<open>A float in the source; the amounts are exact here.\<close>

definition to_major :: "int \<Rightarrow> string \<Rightarrow> rat" where
  "to_major amount_minor currency = of_int amount_minor / 10 ^ exponent_for currency"

text \<open>
  The largest remainder method. \<open>None\<close> is the \<open>ValueError\<close>. The quotients are floats in the source;
  here they are exact: the floor is the integer quotient and the fraction is compared by the
  integer remainder, all quotients having the same divisor. For \<open>amt * w\<close> below \<open>2 ^ 53\<close> the float
  quotient, which is correctly rounded, has the same floor. The sort is stable, in reverse.
\<close>

definition bump :: "nat \<Rightarrow> int list \<Rightarrow> int list" where
  "bump i xs = xs[i := xs ! i + 1]"

definition allocate :: "int \<Rightarrow> int list \<Rightarrow> int list option" where
  "allocate total_minor weights =
     (if weights = [] \<or> total_minor < 0 \<or> list_ex (\<lambda>w. w < 0) weights \<or> sum_list weights \<le> 0 then None
      else (let total_weight = sum_list weights;
                floors = map (\<lambda>w. total_minor * w div total_weight) weights;
                remainder = total_minor - sum_list floors;
                ranks = sort_key (\<lambda>i. - (total_minor * weights ! i mod total_weight)) [0..<length weights]
            in Some (fold bump (take (nat remainder) ranks) floors)))"

text \<open>
  A commission rate is a decimal with four places: the argument \<open>rate\<close> counts ten-thousandths. Half
  a unit is rounded away from zero.
\<close>

definition round_half_up :: "int \<Rightarrow> int \<Rightarrow> int" where
  "round_half_up x n = sgn x * ((2 * \<bar>x\<bar> + n) div (2 * n))"

definition commission_split :: "int \<Rightarrow> int \<Rightarrow> int \<times> int" where
  "commission_split amount_minor rate =
     (let commission = round_half_up (amount_minor * rate) 10000
      in (commission, amount_minor - commission))"

section \<open>Lemmas on money\<close>

lemma bump_length [simp]: "length (bump i xs) = length xs"
  by (simp add: bump_def)

lemma fold_bump_length [simp]: "length (fold bump is xs) = length xs"
  by (induction "is" arbitrary: xs) simp_all

lemma sum_list_bump: "i < length xs \<Longrightarrow> sum_list (bump i xs) = sum_list xs + (1 :: int)"
proof (induction xs arbitrary: i)
  case (Cons x xs)
  then show ?case by (cases i) (simp_all add: bump_def)
qed simp

lemma sum_list_fold_bump:
  "(\<And>i. i \<in> set is \<Longrightarrow> i < length xs) \<Longrightarrow> sum_list (fold bump is xs) = sum_list xs + int (length is)"
proof (induction "is" arbitrary: xs)
  case (Cons i js)
  then show ?case using Cons.IH [of "bump i xs"] by (simp add: sum_list_bump)
qed simp

lemma nth_fold_bump:
  assumes "distinct is" "\<And>i. i \<in> set is \<Longrightarrow> i < length xs" "k < length xs"
  shows "fold bump is xs ! k = xs ! k + (if k \<in> set is then 1 else 0)"
  using assms
proof (induction "is" arbitrary: xs)
  case (Cons i js)
  then show ?case using Cons.IH [of "bump i xs"] by (auto simp: bump_def nth_list_update)
qed simp

text \<open>What the floors leave over is not negative and less than the number of weights.\<close>

lemma floors_remainder:
  fixes amt :: int
  assumes "0 < W" "0 \<le> amt"
  shows "sum_list (map (\<lambda>w. amt * w div W) ws) * W \<le> amt * sum_list ws"
    and "ws \<noteq> [] \<Longrightarrow> amt * sum_list ws < (sum_list (map (\<lambda>w. amt * w div W) ws) + int (length ws)) * W"
proof -
  show "sum_list (map (\<lambda>w. amt * w div W) ws) * W \<le> amt * sum_list ws"
  proof (induction ws)
    case (Cons w ws)
    have "amt * w div W * W \<le> amt * w"
      using div_mult_mod_eq [of "amt * w" W] pos_mod_sign [OF assms(1), of "amt * w"] by linarith
    then show ?case using Cons by (simp add: algebra_simps)
  qed simp
  show "ws \<noteq> [] \<Longrightarrow> amt * sum_list ws < (sum_list (map (\<lambda>w. amt * w div W) ws) + int (length ws)) * W"
  proof (induction ws)
    case (Cons w ws)
    have "amt * w < amt * w div W * W + W"
      using div_mult_mod_eq [of "amt * w" W] pos_mod_bound [OF assms(1), of "amt * w"] by linarith
    then show ?case using Cons by (cases "ws = []") (simp_all add: algebra_simps)
  qed simp
qed

text \<open>
  The parts of an allocation are as many as the weights, add up to the amt, and each is the floor of
  its exact share or one more.
\<close>

lemma allocate_parts:
  assumes "allocate amt ws = Some ps"
  shows "length ps = length ws" "sum_list ps = amt"
    "\<And>k. k < length ws \<Longrightarrow>
       ps ! k = amt * ws ! k div sum_list ws \<or> ps ! k = amt * ws ! k div sum_list ws + 1"
proof -
  define W where "W = sum_list ws"
  define floors where "floors = map (\<lambda>w. amt * w div W) ws"
  define ranks where "ranks = sort_key (\<lambda>i. - (amt * ws ! i mod W)) [0..<length ws]"
  have ok: "ws \<noteq> []" "0 \<le> amt" "0 < W"
    using assms by (auto simp: allocate_def W_def split: if_splits)
  have ps: "ps = fold bump (take (nat (amt - sum_list floors)) ranks) floors"
    using assms by (auto simp: allocate_def Let_def W_def floors_def ranks_def split: if_splits)
  have "sum_list floors * W \<le> amt * W" "amt * W < (sum_list floors + int (length ws)) * W"
    using floors_remainder [OF ok(3,2), of ws] ok(1) by (simp_all add: floors_def W_def)
  then have r: "0 \<le> amt - sum_list floors" "amt - sum_list floors < int (length ws)"
    using ok(3) by (simp_all add: mult_less_cancel_right_pos)
  have len: "length ranks = length ws" "length floors = length ws"
    by (simp_all add: ranks_def floors_def)
  have d: "distinct ranks" and s: "\<And>i. i \<in> set ranks \<Longrightarrow> i < length ws"
    by (auto simp: ranks_def)
  define js where "js = take (nat (amt - sum_list floors)) ranks"
  have js: "distinct js" "\<And>i. i \<in> set js \<Longrightarrow> i < length floors"
    using d s by (auto simp: js_def len dest: in_set_takeD)
  show "length ps = length ws" by (simp add: ps len)
  show "sum_list ps = amt"
    using sum_list_fold_bump [of js floors] js(2) r len by (simp add: ps js_def)
  show "ps ! k = amt * ws ! k div sum_list ws \<or> ps ! k = amt * ws ! k div sum_list ws + 1"
    if "k < length ws" for k
  proof -
    have "ps = fold bump js floors" by (simp add: ps js_def)
    then show ?thesis using nth_fold_bump [OF js, of k] that by (simp add: len floors_def W_def)
  qed
qed

text \<open>No part is further than one unit from its exact share.\<close>

lemma allocate_close:
  assumes "allocate amt ws = Some ps" "k < length ws"
  shows "\<bar>ps ! k * sum_list ws - amt * ws ! k\<bar> \<le> sum_list ws" "0 \<le> ps ! k"
proof -
  have ok: "0 < sum_list ws" "0 \<le> amt" "\<And>w. w \<in> set ws \<Longrightarrow> 0 \<le> w"
    using assms by (auto simp: allocate_def list_ex_iff not_less split: if_splits)
  let ?q = "amt * ws ! k div sum_list ws"
  have q: "?q * sum_list ws \<le> amt * ws ! k" "amt * ws ! k < ?q * sum_list ws + sum_list ws"
    using div_mult_mod_eq [of "amt * ws ! k" "sum_list ws"]
      pos_mod_sign [OF ok(1), of "amt * ws ! k"] pos_mod_bound [OF ok(1), of "amt * ws ! k"] by linarith+
  have "0 \<le> ?q" using ok assms(2) by (simp add: pos_imp_zdiv_nonneg_iff)
  then show "0 \<le> ps ! k" using allocate_parts(3) [OF assms] by linarith
  show "\<bar>ps ! k * sum_list ws - amt * ws ! k\<bar> \<le> sum_list ws"
    using allocate_parts(3) [OF assms] q by (auto simp: algebra_simps)
qed

lemma allocate_pair:
  assumes "allocate amt [a, b] = Some ps"
  obtains x y where "ps = [x, y]" "x + y = amt" "0 \<le> x" "0 \<le> y"
proof -
  have "length ps = 2" using allocate_parts(1) [OF assms] by simp
  then obtain x y where ps: "ps = [x, y]" by (metis length_0_conv length_Suc_conv numeral_2_eq_2)
  have "0 \<le> x" "0 \<le> y"
    using allocate_close(2) [OF assms, of 0] allocate_close(2) [OF assms, of 1] by (simp_all add: ps)
  with ps show ?thesis using that allocate_parts(2) [OF assms] by simp
qed

lemma commission_split_sum: "fst (commission_split a r) + snd (commission_split a r) = a"
  by (simp add: commission_split_def Let_def)

lemma round_half_up_nonneg:
  "0 \<le> x \<Longrightarrow> round_half_up x n = (if x = 0 then 0 else (2 * x + n) div (2 * n))"
  by (simp add: round_half_up_def sgn_if)

lemma round_half_up_bounds:
  assumes "0 \<le> x" "0 < n" "x \<le> y * n"
  shows "0 \<le> round_half_up x n" "round_half_up x n \<le> y"
proof -
  have "(2 * x + n) div (2 * n) \<le> (n + y * (2 * n)) div (2 * n)"
    by (rule zdiv_mono1) (use assms in \<open>simp_all add: algebra_simps\<close>)
  also have "\<dots> = y" using assms(2) by simp
  finally have up: "(2 * x + n) div (2 * n) \<le> y" .
  have lo: "0 \<le> (2 * x + n) div (2 * n)" using assms by (simp add: pos_imp_zdiv_nonneg_iff)
  have y: "0 \<le> y" using assms by (metis dual_order.trans zero_le_mult_iff not_less)
  show "0 \<le> round_half_up x n" "round_half_up x n \<le> y"
    using up lo y by (simp_all add: round_half_up_nonneg [OF assms(1)])
qed

text \<open>With a rate between nothing and everything neither side is charged more than the amount.\<close>

lemma commission_split_bounds:
  assumes "0 \<le> a" "0 \<le> r" "r \<le> 10000"
  shows "0 \<le> fst (commission_split a r)" "0 \<le> snd (commission_split a r)"
proof -
  have "0 \<le> a * r" "a * r \<le> a * 10000" using assms by (simp_all add: mult_left_mono)
  then have "0 \<le> round_half_up (a * r) 10000" "round_half_up (a * r) 10000 \<le> a"
    by (intro round_half_up_bounds; simp)+
  then show "0 \<le> fst (commission_split a r)" "0 \<le> snd (commission_split a r)"
    unfolding commission_split_def Let_def by simp_all
qed

end
