(* ===== verification/RequestServer.thy ===== *)
theory RequestServer
  imports Backend
begin

text \<open>
  The service requests of the backend: \<open>apps/service_requests/services.py\<close> and the properties of the
  model in \<open>models.py\<close>. A request is a row; an operation takes the time and the account and returns
  the row it saves, with the actions it writes to the audit log, or the error it raises; \<open>publish\<close> returns both.
\<close>

section \<open>Rows\<close>

record db_request =
  rr_id :: string
  rr_student :: int
  rr_mode :: request_mode
  rr_title :: string
  rr_category :: string
  rr_description :: string
  rr_subject :: "int option"
  rr_budget_min :: "int option"
  rr_budget_max :: "int option"
  rr_deadline :: "string option"
  rr_status :: request_status
  rr_attested_at :: "int option"
  rr_policy_version :: string
  rr_offer_count :: int
  rr_expires_at :: "int option"
  rr_reopened_at :: "int option"
  rr_closed_at :: "int option"
  rr_closed_reason :: string

fun request_wire :: "request_status \<Rightarrow> string" where
  "request_wire Rq_draft = ''draft''"
| "request_wire Rq_open = ''open''"
| "request_wire Rq_matched = ''matched''"
| "request_wire Rq_in_progress = ''in_progress''"
| "request_wire Rq_completed = ''completed''"
| "request_wire Rq_rejected = ''rejected''"
| "request_wire Rq_in_review = ''in_review''"
| "request_wire Rq_pooled = ''pooled''"
| "request_wire Rq_cancelled = ''cancelled''"
| "request_wire Rq_expired = ''expired''"

section \<open>The state machine\<close>

definition request_TRANSITIONS :: "((request_status \<times> request_status) \<times> string) list" where
  "request_TRANSITIONS =
     [((Rq_draft, Rq_open), ''publish''),
      ((Rq_draft, Rq_cancelled), ''cancel''),
      ((Rq_open, Rq_matched), ''select_offer''),
      ((Rq_open, Rq_cancelled), ''cancel''),
      ((Rq_open, Rq_expired), ''expire''),
      ((Rq_expired, Rq_open), ''reopen''),
      ((Rq_draft, Rq_in_review), ''submit_managed''),
      ((Rq_in_review, Rq_pooled), ''approve_pool''),
      ((Rq_in_review, Rq_rejected), ''reject_managed''),
      ((Rq_in_review, Rq_matched), ''assign_direct''),
      ((Rq_in_review, Rq_cancelled), ''cancel''),
      ((Rq_pooled, Rq_matched), ''assign_pool''),
      ((Rq_pooled, Rq_rejected), ''reject_managed''),
      ((Rq_pooled, Rq_cancelled), ''cancel''),
      ((Rq_matched, Rq_in_progress), ''order_paid''),
      ((Rq_matched, Rq_cancelled), ''cancel''),
      ((Rq_in_progress, Rq_completed), ''order_completed''),
      ((Rq_in_progress, Rq_cancelled), ''cancel'')]"

type_synonym request_result = "(db_request \<times> string list) served"

definition request_transition ::
    "int \<Rightarrow> request_status \<Rightarrow> string \<Rightarrow> db_request \<Rightarrow> request_result" where
  "request_transition now to_status reason r =
     (case map_of request_TRANSITIONS (rr_status r, to_status) of
        None \<Rightarrow>
          Inl (DomainError
            (''Cannot move a request from '' @ py_quoted (request_wire (rr_status r)) @ '' to ''
               @ py_quoted (request_wire to_status) @ ''.'') ''invalid_transition'')
      | Some action \<Rightarrow>
          Inr (r\<lparr>rr_status := to_status,
                 rr_closed_reason := (if to_status = Rq_cancelled then take 200 reason else rr_closed_reason r),
                 rr_closed_at := (if to_status = Rq_cancelled \<or> to_status = Rq_expired then Some now
                                  else rr_closed_at r)\<rparr>,
               [action]))"

definition is_open_for_offers :: "int \<Rightarrow> db_request \<Rightarrow> bool" where
  "is_open_for_offers now r \<longleftrightarrow>
     rr_status r = Rq_open \<and> rr_mode r = Open_mode \<and>
     (case rr_expires_at r of None \<Rightarrow> True | Some t \<Rightarrow> now < t)"

section \<open>The owner's operations\<close>

definition REQUEST_TTL_DAYS :: int where "REQUEST_TTL_DAYS = 30"
definition INTEGRITY_POLICY_VERSION :: string where "INTEGRITY_POLICY_VERSION = ''2026-09''"

definition days :: "int \<Rightarrow> int" where "days n = n * 86400"
definition hours :: "int \<Rightarrow> int" where "hours n = n * 3600"

text \<open>The fields a publication needs, the falsy ones among them listed. Zero is falsy.\<close>

definition missing_fields :: "db_request \<Rightarrow> string list" where
  "missing_fields r =
     (if rr_title r = [] then [''title''] else [])
     @ (if rr_description r = [] then [''description''] else [])
     @ (if rr_subject r = None then [''subject''] else [])
     @ (if rr_budget_max r = None \<or> rr_budget_max r = Some 0 then [''budget_max''] else [])"

text \<open>
  The attestation and the time to live are saved before the transition, outside of a transaction: a refused
  publication leaves them in the row.
\<close>

type_synonym request_answer = "domain_error option \<times> db_request \<times> string list"

definition request_answered :: "db_request \<Rightarrow> request_result \<Rightarrow> request_answer" where
  "request_answered r x = (case x of Inl e \<Rightarrow> (Some e, r, []) | Inr (r', acts) \<Rightarrow> (None, r', acts))"

definition publish :: "int \<Rightarrow> account \<Rightarrow> bool \<Rightarrow> db_request \<Rightarrow> request_answer" where
  "publish now owner attested r =
     (if rr_student r \<noteq> acct_id owner
      then (Some (PermissionDeniedError ''You can only publish your own requests.''), r, [])
      else if \<not> attested
      then (Some (DomainError ''You must attest to the academic-integrity policy (BR-10).'' ''attestation_required''),
            r, [])
      else if missing_fields r \<noteq> []
      then (Some (DomainError (''Complete the request before publishing: '' @ join '', '' (missing_fields r) @ ''.'')
                   ''validation_error''), r, [])
      else (let attest = r\<lparr>rr_attested_at := Some now, rr_policy_version := INTEGRITY_POLICY_VERSION\<rparr>;
                dated = attest\<lparr>rr_expires_at := Some (now + days REQUEST_TTL_DAYS)\<rparr>
            in if rr_mode r = Managed_mode
               then request_answered attest (request_transition now Rq_in_review [] attest)
               else request_answered dated (request_transition now Rq_open [] dated)))"

definition cancel_request :: "int \<Rightarrow> account \<Rightarrow> string \<Rightarrow> db_request \<Rightarrow> request_result" where
  "cancel_request now owner reason r =
     (if rr_student r \<noteq> acct_id owner
      then Inl (PermissionDeniedError ''You can only cancel your own requests.'')
      else request_transition now Rq_cancelled reason r)"

definition reopen :: "int \<Rightarrow> account \<Rightarrow> db_request \<Rightarrow> request_result" where
  "reopen now owner r =
     (if rr_student r \<noteq> acct_id owner
      then Inl (PermissionDeniedError ''You can only re-open your own requests.'')
      else if rr_reopened_at r \<noteq> None
      then Inl (DomainError ''A request can be re-opened only once (BR-08).'' ''invalid_transition'')
      else and_then (request_transition now Rq_open [] r) (\<lambda>(r', acts).
             Inr (r'\<lparr>rr_reopened_at := Some now, rr_expires_at := Some (now + days REQUEST_TTL_DAYS)\<rparr>, acts)))"

text \<open>
  The requests of the API on the owner's request (\<open>_MyRequestActionView\<close>): to another account the row does
  not exist.
\<close>

datatype request_command = Publish_request bool | Cancel_request string | Reopen_request

definition request_exec :: "int \<Rightarrow> account \<Rightarrow> request_command \<Rightarrow> db_request \<Rightarrow> request_answer" where
  "request_exec now a c r =
     (if rr_student r \<noteq> acct_id a
      then (Some (NotFoundError ''No ServiceRequest matches the given query.''), r, [])
      else (case c of
              Publish_request attested \<Rightarrow> publish now a attested r
            | Cancel_request reason \<Rightarrow> request_answered r (cancel_request now a reason r)
            | Reopen_request \<Rightarrow> request_answered r (reopen now a r)))"

text \<open>Called by the selection of an offer.\<close>

definition mark_matched :: "int \<Rightarrow> db_request \<Rightarrow> request_result" where
  "mark_matched now r = request_transition now Rq_matched [] r"

text \<open>The effect of the expiry job on one request.\<close>

definition expire_due :: "int \<Rightarrow> db_request \<Rightarrow> db_request" where
  "expire_due now r =
     (if rr_status r = Rq_open \<and> (case rr_expires_at r of None \<Rightarrow> False | Some t \<Rightarrow> t \<le> now)
      then r\<lparr>rr_status := Rq_expired, rr_closed_reason := ''TTL expired'', rr_closed_at := Some now\<rparr>
      else r)"

section \<open>Lemmas\<close>

lemma request_transition_Inr:
  "request_transition now to_status reason r = Inr (r', acts) \<longleftrightarrow>
   (\<exists>a. map_of request_TRANSITIONS (rr_status r, to_status) = Some a \<and> acts = [a] \<and>
      r' = r\<lparr>rr_status := to_status,
             rr_closed_reason := (if to_status = Rq_cancelled then take 200 reason else rr_closed_reason r),
             rr_closed_at := (if to_status = Rq_cancelled \<or> to_status = Rq_expired then Some now
                              else rr_closed_at r)\<rparr>)"
  by (auto simp: request_transition_def split: option.splits)

end
