(* ===== verification/OrderRows.thy ===== *)
theory OrderRows
  imports RequestServer
begin

text \<open>
  The rows that hang together by one order: the order, its deliveries, events and deadline proposal
  (\<open>apps/orders\<close>), its payment, refunds, payouts and ledger (\<open>apps/payments\<close>), its dispute
  (\<open>apps/disputes\<close>), and the request it came from. The uploads are the rows of \<open>apps/files\<close> the
  services look up. What is written to the audit log and to the notification funnel is kept as two
  lists, of the actor and the action and of the recipient and the type.

  The services lock the order row for the length of their transaction, so the operations on one order
  happen one after the other.
\<close>

record db_order =
  or_id :: string
  or_number :: string
  or_student :: int
  or_student_email :: string
  or_expert :: int
  or_expert_name :: string
  or_source :: order_source
  or_amount :: int
  or_currency :: string
  or_rate :: int                             \<comment> \<open>\<open>commission_rate\<close>, in ten-thousandths\<close>
  or_commission :: int
  or_expert_amount :: int
  or_status :: order_status
  or_deadline :: "string option"
  or_revisions_allowed :: nat
  or_revisions_used :: nat
  or_created_at :: int
  or_accepted_at :: "int option"
  or_paid_at :: "int option"
  or_delivered_at :: "int option"
  or_open_dispute :: bool
  or_completed_at :: "int option"
  or_cancelled_at :: "int option"
  or_cancelled_by :: "int option"
  or_cancellation_reason :: string
  or_auto_approve_at :: "int option"
  or_delivery_due_at :: "int option"

record delivery_row =
  dr_id :: string
  dr_revision :: nat
  dr_summary :: string
  dr_status :: delivery_status
  dr_attachments :: "string list"
  dr_submitted_at :: "int option"
  dr_approved_at :: "int option"
  dr_approval_source :: string

record event_row =
  er_type :: string
  er_at :: int
  er_actor :: "int option"
  er_data :: "(string \<times> json) list"

record payment_row =
  pr_gateway :: string
  pr_reference :: "string option"
  pr_amount :: int
  pr_currency :: string
  pr_status :: payment_status
  pr_failure_reason :: string
  pr_instructions :: string
  pr_refunded :: int
  pr_paid_at :: "int option"
  pr_canceled_at :: "int option"

record refund_row =
  rf_amount :: int
  rf_reason :: string
  rf_note :: string
  rf_initiated_by :: int

datatype entry_type = Charge | Commission | Expert_credit | Refund | Payout | Fee | Adjustment

record ledger_row =
  lg_type :: entry_type
  lg_amount :: int
  lg_currency :: string
  lg_user :: "int option"

record payout_row =
  py_expert :: int
  py_amount :: int
  py_currency :: string
  py_status :: payout_status
  py_reference :: string
  py_failure_reason :: string
  py_settled_at :: "int option"

record db_dispute =
  dw_opened_by :: int
  dw_reason :: string
  dw_description :: string
  dw_prior :: order_status                   \<comment> \<open>\<open>prior_order_status\<close>\<close>
  dw_status :: dispute_status
  dw_outcome :: "dispute_outcome option"
  dw_notes :: string
  dw_resolved_by :: "int option"
  dw_resolved_at :: "int option"
  dw_closed_at :: "int option"
  dw_evidence :: "string list"
  dw_created_at :: int

datatype proposal_status = Pp_pending | Pp_accepted | Pp_declined | Pp_withdrawn

record proposal_row =
  pp_proposed_by :: int
  pp_due_at :: int
  pp_note :: string
  pp_status :: proposal_status

record upload_row =
  up_id :: string
  up_uploader :: int
  up_purpose :: string

record order_state =
  os_order :: db_order
  os_request :: db_request
  os_deliveries :: "delivery_row list"       \<comment> \<open>in the order they were created\<close>
  os_events :: "event_row list"
  os_payment :: "payment_row option"         \<comment> \<open>one to one with the order\<close>
  os_refunds :: "refund_row list"
  os_payouts :: "payout_row list"
  os_ledger :: "ledger_row list"
  os_dispute :: "db_dispute option"         \<comment> \<open>one to one with the order\<close>
  os_proposal :: "proposal_row option"       \<comment> \<open>one to one with the order\<close>
  os_uploads :: "upload_row list"
  os_audit :: "(int option \<times> string) list"
  os_notices :: "(int \<times> string) list"

text \<open>The platform's configuration and the settings the services read.\<close>

record backend_config =
  cf_gateway :: string
  cf_dev_self_confirm :: bool
  cf_instructions :: string
  cf_payout_min :: int
  cf_window_days :: int
  cf_open_rate :: int                        \<comment> \<open>in ten-thousandths\<close>
  cf_managed_rate :: int

definition default_config :: backend_config where
  "default_config =
     \<lparr>cf_gateway = ''manual'', cf_dev_self_confirm = False,
      cf_instructions = ''Transfer the exact amount to the platform account; then submit the payment reference on the order page. An operator confirms receipt before work starts.'',
      cf_payout_min = 1000, cf_window_days = 7,
      cf_open_rate = 1500, cf_managed_rate = 2000\<rparr>"

section \<open>Writing\<close>

definition with_order :: "(db_order \<Rightarrow> db_order) \<Rightarrow> order_state \<Rightarrow> order_state" where
  "with_order f s = s\<lparr>os_order := f (os_order s)\<rparr>"

definition audit_log :: "int option \<Rightarrow> string \<Rightarrow> order_state \<Rightarrow> order_state" where
  "audit_log actor action s = s\<lparr>os_audit := os_audit s @ [(actor, action)]\<rparr>"

definition notify_user :: "int \<Rightarrow> string \<Rightarrow> order_state \<Rightarrow> order_state" where
  "notify_user recipient ntype s = s\<lparr>os_notices := os_notices s @ [(recipient, ntype)]\<rparr>"

definition record_event ::
    "int \<Rightarrow> string \<Rightarrow> int option \<Rightarrow> (string \<times> json) list \<Rightarrow> order_state \<Rightarrow> order_state" where
  "record_event now event_type actor data s =
     s\<lparr>os_events := os_events s
         @ [\<lparr>er_type = event_type, er_at = now, er_actor = actor, er_data = data\<rparr>]\<rparr>"

definition ledger_entry ::
    "entry_type \<Rightarrow> int \<Rightarrow> string \<Rightarrow> int option \<Rightarrow> order_state \<Rightarrow> order_state" where
  "ledger_entry kind amount currency usr s =
     s\<lparr>os_ledger := os_ledger s
         @ [\<lparr>lg_type = kind, lg_amount = amount, lg_currency = currency, lg_user = usr\<rparr>]\<rparr>"

definition entries_total :: "entry_type \<Rightarrow> order_state \<Rightarrow> int" where
  "entries_total kind s = sum_list (map lg_amount (filter (\<lambda>e. lg_type e = kind) (os_ledger s)))"

section \<open>What the writers leave alone\<close>

lemma with_order_simps [simp]:
  "os_order (with_order f s) = f (os_order s)" "os_request (with_order f s) = os_request s"
  "os_deliveries (with_order f s) = os_deliveries s" "os_events (with_order f s) = os_events s"
  "os_payment (with_order f s) = os_payment s" "os_refunds (with_order f s) = os_refunds s"
  "os_payouts (with_order f s) = os_payouts s" "os_ledger (with_order f s) = os_ledger s"
  "os_dispute (with_order f s) = os_dispute s" "os_proposal (with_order f s) = os_proposal s"
  "os_uploads (with_order f s) = os_uploads s" "os_audit (with_order f s) = os_audit s"
  "os_notices (with_order f s) = os_notices s"
  by (simp_all add: with_order_def)

lemma audit_log_simps [simp]:
  "os_order (audit_log a x s) = os_order s" "os_request (audit_log a x s) = os_request s"
  "os_deliveries (audit_log a x s) = os_deliveries s" "os_events (audit_log a x s) = os_events s"
  "os_payment (audit_log a x s) = os_payment s" "os_refunds (audit_log a x s) = os_refunds s"
  "os_payouts (audit_log a x s) = os_payouts s" "os_ledger (audit_log a x s) = os_ledger s"
  "os_dispute (audit_log a x s) = os_dispute s" "os_proposal (audit_log a x s) = os_proposal s"
  "os_uploads (audit_log a x s) = os_uploads s" "os_notices (audit_log a x s) = os_notices s"
  by (simp_all add: audit_log_def)

lemma notify_user_simps [simp]:
  "os_order (notify_user r n s) = os_order s" "os_request (notify_user r n s) = os_request s"
  "os_deliveries (notify_user r n s) = os_deliveries s" "os_events (notify_user r n s) = os_events s"
  "os_payment (notify_user r n s) = os_payment s" "os_refunds (notify_user r n s) = os_refunds s"
  "os_payouts (notify_user r n s) = os_payouts s" "os_ledger (notify_user r n s) = os_ledger s"
  "os_dispute (notify_user r n s) = os_dispute s" "os_proposal (notify_user r n s) = os_proposal s"
  "os_uploads (notify_user r n s) = os_uploads s" "os_audit (notify_user r n s) = os_audit s"
  by (simp_all add: notify_user_def)

lemma record_event_simps [simp]:
  "os_order (record_event t e a d s) = os_order s" "os_request (record_event t e a d s) = os_request s"
  "os_deliveries (record_event t e a d s) = os_deliveries s"
  "map er_type (os_events (record_event t e a d s)) = map er_type (os_events s) @ [e]"
  "os_payment (record_event t e a d s) = os_payment s" "os_refunds (record_event t e a d s) = os_refunds s"
  "os_payouts (record_event t e a d s) = os_payouts s" "os_ledger (record_event t e a d s) = os_ledger s"
  "os_dispute (record_event t e a d s) = os_dispute s" "os_proposal (record_event t e a d s) = os_proposal s"
  "os_uploads (record_event t e a d s) = os_uploads s" "os_audit (record_event t e a d s) = os_audit s"
  "os_notices (record_event t e a d s) = os_notices s"
  by (simp_all add: record_event_def)

lemma ledger_entry_simps [simp]:
  "os_order (ledger_entry k x c u s) = os_order s" "os_request (ledger_entry k x c u s) = os_request s"
  "os_deliveries (ledger_entry k x c u s) = os_deliveries s" "os_events (ledger_entry k x c u s) = os_events s"
  "os_payment (ledger_entry k x c u s) = os_payment s" "os_refunds (ledger_entry k x c u s) = os_refunds s"
  "os_payouts (ledger_entry k x c u s) = os_payouts s" "os_dispute (ledger_entry k x c u s) = os_dispute s"
  "os_proposal (ledger_entry k x c u s) = os_proposal s" "os_uploads (ledger_entry k x c u s) = os_uploads s"
  "os_audit (ledger_entry k x c u s) = os_audit s" "os_notices (ledger_entry k x c u s) = os_notices s"
  by (simp_all add: ledger_entry_def)

lemma entries_total_entry [simp]:
  "entries_total k (ledger_entry k' x c u s) = entries_total k s + (if k = k' then x else 0)"
  by (simp add: entries_total_def ledger_entry_def)

lemma entries_total_cong: "os_ledger s' = os_ledger s \<Longrightarrow> entries_total k s' = entries_total k s"
  by (simp add: entries_total_def)

lemma entries_total_simps [simp]:
  "entries_total k (with_order f s) = entries_total k s"
  "entries_total k (audit_log a x s) = entries_total k s"
  "entries_total k (notify_user r n s) = entries_total k s"
  "entries_total k (record_event t e a d s) = entries_total k s"
  "entries_total k (s\<lparr>os_order := ord\<rparr>) = entries_total k s"
  "entries_total k (s\<lparr>os_request := rq\<rparr>) = entries_total k s"
  "entries_total k (s\<lparr>os_deliveries := ds\<rparr>) = entries_total k s"
  "entries_total k (s\<lparr>os_payment := p\<rparr>) = entries_total k s"
  "entries_total k (s\<lparr>os_refunds := rs\<rparr>) = entries_total k s"
  "entries_total k (s\<lparr>os_payouts := ps\<rparr>) = entries_total k s"
  "entries_total k (s\<lparr>os_dispute := dd\<rparr>) = entries_total k s"
  "entries_total k (s\<lparr>os_proposal := pp\<rparr>) = entries_total k s"
  by (simp_all add: entries_total_def)

end
