(* ===== verification/PaymentServer.thy ===== *)
theory PaymentServer
  imports OrderRows
begin

text \<open>
  The payments of an order: \<open>apps/payments/services.py\<close>, the gateways of \<open>gateway.py\<close> and the
  webhook handlers of \<open>webhooks.py\<close>. The commission is the order's own snapshot.
\<close>

section \<open>The gateway\<close>

text \<open>
  Of the two registered gateways only the manual one works; every operation of the other raises, as
  does an unknown name. No handler knows these exceptions: the request ends with a 500.
\<close>

definition server_error :: domain_error where
  "server_error = \<lparr>de_status = 500, de_code = ''error'', de_message = ''Server Error (500)''\<rparr>"

definition get_gateway :: "string \<Rightarrow> string" where
  "get_gateway name = to_lower (py_strip name)"

definition registered :: "string \<Rightarrow> bool" where
  "registered name \<longleftrightarrow> get_gateway name \<in> {''manual'', ''stripe''}"

definition gateway_call :: "string \<Rightarrow> 'a \<Rightarrow> 'a served" where
  "gateway_call name x = (if get_gateway name = ''manual'' then Inr x else Inl server_error)"

definition SIMULATED_FAILURE_PREFIX :: string where "SIMULATED_FAILURE_PREFIX = ''fail''"

text \<open>Whether the provider confirms.\<close>

definition gateway_confirm :: "string \<Rightarrow> string \<Rightarrow> bool served" where
  "gateway_confirm name provider_reference =
     gateway_call name (\<not> starts_with provider_reference SIMULATED_FAILURE_PREFIX)"

section \<open>Starting a payment\<close>

text \<open>A fresh random token stands for the twelve hexadecimal digits of a \<open>uuid4\<close>.\<close>

definition payment_reference :: "string \<Rightarrow> string \<Rightarrow> string" where
  "payment_reference gateway_name token = gateway_name @ ''-pay-'' @ token"

definition create_payment_row ::
    "backend_config \<Rightarrow> string \<Rightarrow> order_state \<Rightarrow> payment_row served" where
  "create_payment_row cfg token s =
     (let name = get_gateway (cf_gateway cfg)
      in gateway_call name
           \<lparr>pr_gateway = name, pr_reference = Some (payment_reference name token),
            pr_amount = or_amount (os_order s), pr_currency = or_currency (os_order s),
            pr_status = Pay_pending, pr_failure_reason = [], pr_instructions = cf_instructions cfg,
            pr_refunded = 0, pr_paid_at = None, pr_canceled_at = None\<rparr>)"

definition payment_or_new :: "backend_config \<Rightarrow> string \<Rightarrow> order_state \<Rightarrow> order_state served" where
  "payment_or_new cfg token s =
     (case os_payment s of
        Some p \<Rightarrow> Inr s
      | None \<Rightarrow> and_then (create_payment_row cfg token s) (\<lambda>p. Inr (s\<lparr>os_payment := Some p\<rparr>)))"

definition rearmed :: "backend_config \<Rightarrow> string \<Rightarrow> db_order \<Rightarrow> payment_row \<Rightarrow> payment_row" where
  "rearmed cfg token ord p =
     p\<lparr>pr_gateway := get_gateway (cf_gateway cfg), pr_status := Pay_pending, pr_amount := or_amount ord,
       pr_currency := or_currency ord, pr_failure_reason := [], pr_canceled_at := None,
       pr_reference := Some (payment_reference (get_gateway (cf_gateway cfg)) token)\<rparr>"

definition start_payment ::
    "backend_config \<Rightarrow> string \<Rightarrow> account \<Rightarrow> order_state \<Rightarrow> order_state served" where
  "start_payment cfg token actor s =
     (if or_student (os_order s) \<noteq> acct_id actor
      then Inl (PermissionDeniedError ''You can only pay for your own orders.'')
      else if or_status (os_order s) \<noteq> Awaiting_payment
      then Inl (DomainError ''Only an order awaiting payment can be paid.'' ''invalid_transition'')
      else if \<not> registered (cf_gateway cfg) then Inl server_error
      else and_then (payment_or_new cfg token s) (\<lambda>s1.
        (case os_payment s1 of
           None \<Rightarrow> Inl server_error
         | Some p \<Rightarrow>
             (if pr_status p = Pay_succeeded
              then Inl (DomainError ''This order is already paid.'' ''duplicate_payment'')
              else if pr_status p = Pay_pending \<and> truthy (pr_reference p) then Inr s1
              else Inr (audit_log (Some (acct_id actor)) ''payment.start''
                          (s1\<lparr>os_payment := Some (rearmed cfg token (os_order s1) p)\<rparr>))))))"

section \<open>Confirming\<close>

definition charge_entries :: "payment_row \<Rightarrow> order_state \<Rightarrow> order_state" where
  "charge_entries p s =
     (let ord = os_order s;
          (commission, expert_net) =
            (if or_commission ord = 0 then commission_split (pr_amount p) (or_rate ord)
             else (or_commission ord, or_expert_amount ord))
      in ledger_entry Expert_credit expert_net (pr_currency p) (Some (or_expert ord))
           (ledger_entry Commission commission (pr_currency p) None
             (ledger_entry Charge (pr_amount p) (pr_currency p) (Some (or_student ord)) s)))"

text \<open>
  The transaction of a confirmation. \<open>Inl (Inl reason)\<close> is the provider's refusal, \<open>Inl (Inr e)\<close> any
  other error. \<open>confirmed\<close> is the receiver of the signal, which the orders provide.
\<close>

definition confirm_payment_atomic ::
    "(string \<Rightarrow> order_state \<Rightarrow> order_state served) \<Rightarrow> int \<Rightarrow> int option \<Rightarrow> payment_row \<Rightarrow> order_state
     \<Rightarrow> (string + domain_error) + order_state" where
  "confirm_payment_atomic confirmed now actor p s =
     (let ord = os_order s
      in if pr_status p = Pay_succeeded
         then Inl (Inr (DomainError ''This payment is already confirmed.'' ''duplicate_payment''))
         else if pr_status p = Pay_canceled \<or> pr_status p = Pay_refunded
         then Inl (Inr (DomainError ''This payment was canceled or refunded.'' ''invalid_transition''))
         else if or_status ord \<noteq> Awaiting_payment
         then Inl (Inr (DomainError ''Only an order awaiting payment can be confirmed.'' ''invalid_transition''))
         else if pr_amount p \<noteq> or_amount ord \<or> pr_currency p \<noteq> or_currency ord
         then Inl (Inr (DomainError ''Payment amount does not match the booked order.'' ''amount_mismatch''))
         else if \<not> truthy (pr_reference p)
         then Inl (Inr (DomainError ''Payment has no provider reference.'' ''validation_error''))
         else (case gateway_confirm (pr_gateway p) (the (pr_reference p)) of
             Inl e \<Rightarrow> Inl (Inr e)
           | Inr False \<Rightarrow> Inl (Inl ''Provider reported failure (simulated)'')
           | Inr True \<Rightarrow>
               (let paid = p\<lparr>pr_status := Pay_succeeded, pr_paid_at := Some now\<rparr>
                in map_sum Inr id
                     (confirmed (pr_gateway paid)
                       (audit_log actor ''payment.confirm''
                         (charge_entries paid (s\<lparr>os_payment := Some paid\<rparr>)))))))"

definition open_payment :: "payment_status \<Rightarrow> bool" where
  "open_payment st \<longleftrightarrow> st \<in> {Pay_pending, Pay_requires_action, Pay_processing}"

definition mark_payment_failed :: "string \<Rightarrow> payment_row \<Rightarrow> order_state \<Rightarrow> order_state" where
  "mark_payment_failed reason p s =
     (if open_payment (pr_status p)
      then notify_user (or_student (os_order s)) ''payment_failed''
             (audit_log None ''payment.failed''
               (s\<lparr>os_payment := Some (p\<lparr>pr_status := Pay_failed, pr_failure_reason := take 255 reason\<rparr>)\<rparr>))
      else s)"

text \<open>
  The confirmation and the state it leaves: an error leaves the state as it was, apart from the
  provider's refusal, which is recorded in a transaction of its own.
\<close>

definition confirm_payment ::
    "(string \<Rightarrow> order_state \<Rightarrow> order_state served) \<Rightarrow> int \<Rightarrow> int option \<Rightarrow> payment_row \<Rightarrow> order_state
     \<Rightarrow> domain_error option \<times> order_state" where
  "confirm_payment confirmed now actor p s =
     (case confirm_payment_atomic confirmed now actor p s of
        Inr s' \<Rightarrow> (None, s')
      | Inl (Inr e) \<Rightarrow> (Some e, s)
      | Inl (Inl reason) \<Rightarrow>
          (Some (PaymentFailedError ''The payment attempt failed -- you can retry from the order page.''),
           mark_payment_failed reason p s))"

definition confirm_order_payment ::
    "(string \<Rightarrow> order_state \<Rightarrow> order_state served) \<Rightarrow> backend_config \<Rightarrow> int \<Rightarrow> string \<Rightarrow> int option
     \<Rightarrow> order_state \<Rightarrow> domain_error option \<times> order_state" where
  "confirm_order_payment confirmed cfg now token actor s =
     (if \<not> registered (cf_gateway cfg) then (Some server_error, s)
      else if get_gateway (cf_gateway cfg) \<noteq> ''manual''
      then (Some (DomainError ''Operator confirmation is only available on manual rails; provider payments confirm via webhooks.'' ''feature_disabled''), s)
      else (case payment_or_new cfg token s of
          Inl e \<Rightarrow> (Some e, s)
        | Inr s1 \<Rightarrow>
            (case os_payment s1 of
               None \<Rightarrow> (Some server_error, s)
             | Some p \<Rightarrow>
                 (if pr_status p = Pay_succeeded
                  then (Some (DomainError ''This payment is already confirmed.'' ''duplicate_payment''), s1)
                  else confirm_payment confirmed now actor p s1))))"

text \<open>The cancellation of an order closes an open attempt.\<close>

definition void_payment_for_order :: "int \<Rightarrow> int option \<Rightarrow> order_state \<Rightarrow> order_state" where
  "void_payment_for_order now actor s =
     (case os_payment s of
        None \<Rightarrow> s
      | Some p \<Rightarrow>
          (if open_payment (pr_status p)
           then audit_log actor ''payment.void''
                  (s\<lparr>os_payment := Some (p\<lparr>pr_status := Pay_canceled, pr_canceled_at := Some now\<rparr>)\<rparr>)
           else s))"

section \<open>Refunds\<close>

definition REFUND_REASONS :: "string list" where
  "REFUND_REASONS = [''expert_fault'', ''platform_fault'', ''mutual'', ''admin_decision'', ''dispute_resolution'']"

definition refund_payment :: "int \<Rightarrow> payment_row \<Rightarrow> payment_row" where
  "refund_payment amount p =
     p\<lparr>pr_refunded := pr_refunded p + amount,
       pr_status := (if pr_amount p \<le> pr_refunded p + amount then Pay_refunded else Pay_partially_refunded)\<rparr>"

text \<open>The entries of a refund: the refund, and the reversals that are not zero.\<close>

definition refund_entries :: "payment_row \<Rightarrow> int \<Rightarrow> int \<Rightarrow> int \<Rightarrow> order_state \<Rightarrow> order_state" where
  "refund_entries p amount reversed_commission reversed_credit s =
     (let ord = os_order s;
          s1 = ledger_entry Refund (- amount) (pr_currency p) (Some (or_student ord)) s;
          s2 = (if reversed_credit = 0 then s1
                else ledger_entry Expert_credit (- reversed_credit) (pr_currency p) (Some (or_expert ord)) s1)
      in if reversed_commission = 0 then s2
         else ledger_entry Commission (- reversed_commission) (pr_currency p) None s2)"

definition issue_refund ::
    "account \<Rightarrow> int \<Rightarrow> string \<Rightarrow> string \<Rightarrow> payment_row \<Rightarrow> order_state \<Rightarrow> order_state served" where
  "issue_refund by amount reason note p s =
     (if \<not> acct_staff by
      then Inl (PermissionDeniedError ''Only support can issue refunds (BR-26..28).'')
      else if pr_status p \<notin> {Pay_succeeded, Pay_partially_refunded}
      then Inl (DomainError ''Only a succeeded payment can be refunded.'' ''invalid_transition'')
      else if amount \<le> 0 \<or> pr_amount p - pr_refunded p < amount
      then Inl (DomainError (''Refund must be between 1 and '' @ show_int (pr_amount p - pr_refunded p)
             @ '' minor units.'') ''validation_error'')
      else if reason \<notin> set REFUND_REASONS
      then Inl (DomainError ''Unknown refund reason.'' ''validation_error'')
      else (case allocate amount [max (or_commission (os_order s)) 0, max (or_expert_amount (os_order s)) 0] of
          Some [reversed_commission, reversed_credit] \<Rightarrow>
            and_then (gateway_call (pr_gateway p) ()) (\<lambda>_.
              Inr (audit_log (Some (acct_id by)) ''payment.refund''
                (refund_entries p amount reversed_commission reversed_credit
                  (s\<lparr>os_refunds := os_refunds s
                       @ [\<lparr>rf_amount = amount, rf_reason = reason, rf_note = take 255 note,
                           rf_initiated_by = acct_id by\<rparr>],
                     os_payment := Some (refund_payment amount p)\<rparr>))))
        | _ \<Rightarrow> Inl server_error))"

section \<open>Payouts\<close>

definition expert_credit_balance :: "order_state \<Rightarrow> int" where
  "expert_credit_balance s = entries_total Expert_credit s"

definition remaining_payable :: "order_state \<Rightarrow> int" where
  "remaining_payable s = expert_credit_balance s + entries_total Payout s"

definition schedule_payout :: "backend_config \<Rightarrow> order_state \<Rightarrow> order_state served" where
  "schedule_payout cfg s =
     (if or_status (os_order s) \<noteq> Completed
      then Inl (DomainError ''Payouts schedule for completed orders only (BR-30).'' ''invalid_transition'')
      else if os_payouts s \<noteq> [] then Inr s
      else if or_open_dispute (os_order s) then Inr s
      else if expert_credit_balance s < cf_payout_min cfg then Inr s
      else Inr (notify_user (or_expert (os_order s)) ''payout_scheduled''
             (s\<lparr>os_payouts :=
                 [\<lparr>py_expert = or_expert (os_order s), py_amount = expert_credit_balance s,
                   py_currency = or_currency (os_order s), py_status = Scheduled, py_reference = [],
                   py_failure_reason = [], py_settled_at = None\<rparr>]\<rparr>)))"

text \<open>The payouts of an order are addressed by their position.\<close>

definition payout_at :: "nat \<Rightarrow> order_state \<Rightarrow> payout_row option" where
  "payout_at i s = (if i < length (os_payouts s) then Some (os_payouts s ! i) else None)"

definition set_payout :: "nat \<Rightarrow> payout_row \<Rightarrow> order_state \<Rightarrow> order_state" where
  "set_payout i y s = s\<lparr>os_payouts := (os_payouts s)[i := y]\<rparr>"

definition settle_payout ::
    "backend_config \<Rightarrow> int \<Rightarrow> string \<Rightarrow> account \<Rightarrow> nat \<Rightarrow> payout_row \<Rightarrow> order_state \<Rightarrow> order_state served" where
  "settle_payout cfg now token actor i y s =
     (if \<not> acct_staff actor then Inl (PermissionDeniedError ''Only staff can settle payouts.'')
      else if py_status y = Paid
      then Inl (DomainError ''This payout is already settled.'' ''duplicate_payout'')
      else if py_status y \<notin> {Scheduled, Payout_failed, In_transit}
      then Inl (DomainError ''Payout is not settleable.'' ''invalid_transition'')
      else if or_open_dispute (os_order s)
      then Inl (DomainError ''This payout is frozen by an open dispute (BR-40).'' ''payout_frozen'')
      else and_then (gateway_call (cf_gateway cfg) (''manual-po-'' @ token)) (\<lambda>ref.
        Inr (notify_user (py_expert y) ''payout_paid''
          (audit_log (Some (acct_id actor)) ''payout.settle''
            (ledger_entry Payout (- py_amount y) (py_currency y) (Some (py_expert y))
              (set_payout i (y\<lparr>py_status := Paid, py_reference := ref, py_failure_reason := [],
                               py_settled_at := Some now\<rparr>) s))))))"

definition mark_payout_failed ::
    "account \<Rightarrow> string \<Rightarrow> nat \<Rightarrow> payout_row \<Rightarrow> order_state \<Rightarrow> order_state served" where
  "mark_payout_failed actor reason i y s =
     (if \<not> acct_staff actor then Inl (PermissionDeniedError ''Only staff can fail payouts.'')
      else if py_status y = Paid
      then Inl (DomainError ''A paid payout cannot be marked failed.'' ''invalid_transition'')
      else Inr (notify_user (py_expert y) ''payout_failed''
             (audit_log (Some (acct_id actor)) ''payout.fail''
               (set_payout i (y\<lparr>py_status := Payout_failed, py_failure_reason := take 255 reason\<rparr>) s))))"

text \<open>The effect of the hourly job on one order.\<close>

definition payout_sweeper :: "backend_config \<Rightarrow> order_state \<Rightarrow> order_state" where
  "payout_sweeper cfg s =
     (case os_payment s of
        Some p \<Rightarrow>
          (if pr_status p = Pay_succeeded \<and> or_status (os_order s) = Completed \<and> os_payouts s = []
              \<and> \<not> or_open_dispute (os_order s)
           then committed s (schedule_payout cfg s) else s)
      | None \<Rightarrow> s)"

section \<open>The ledger's identity and the webhooks\<close>

definition ledger_check :: "order_state \<Rightarrow> bool" where
  "ledger_check s \<longleftrightarrow>
     entries_total Charge s + entries_total Refund s
     = entries_total Commission s + entries_total Expert_credit s + entries_total Fee s"

text \<open>
  An event carries a reference: no payment of that reference is an error, or is ignored. The error is a
  \<open>ValueError\<close>, which \<open>ingest\<close> and \<open>redeliver\<close> catch together with the domain errors: the event is
  stored as failed with its text.
\<close>

definition unknown_reference :: "string \<Rightarrow> domain_error" where
  "unknown_reference reference =
     DomainError (''Unknown payment reference '' @ py_quoted reference) ''ValueError''"

definition handle_payment_succeeded ::
    "(string \<Rightarrow> order_state \<Rightarrow> order_state served) \<Rightarrow> int \<Rightarrow> string \<Rightarrow> order_state
     \<Rightarrow> domain_error option \<times> order_state" where
  "handle_payment_succeeded confirmed now reference s =
     (case os_payment s of
        Some p \<Rightarrow>
          (if pr_reference p = Some reference
           then (if pr_status p = Pay_succeeded then (None, s) else confirm_payment confirmed now None p s)
           else (Some (unknown_reference reference), s))
      | None \<Rightarrow> (Some (unknown_reference reference), s))"

definition handle_payment_failed :: "string \<Rightarrow> string \<Rightarrow> order_state \<Rightarrow> order_state" where
  "handle_payment_failed reference reason s =
     (case os_payment s of
        Some p \<Rightarrow>
          (if pr_reference p \<noteq> Some reference \<or> pr_status p \<in> {Pay_succeeded, Pay_canceled} then s
           else s\<lparr>os_payment := Some (p\<lparr>pr_status := Pay_failed,
                    pr_failure_reason := take 255 (or_else reason ''Provider reported failure'')\<rparr>)\<rparr>)
      | None \<Rightarrow> s)"

end
