(* ===== verification/OrderServer.thy ===== *)
theory OrderServer
  imports PaymentServer
begin

text \<open>
  The lifecycle of an order: \<open>apps/orders/services.py\<close>, the receiver of the payment signal
  (\<open>payment_hooks.py\<close>) and what the views of \<open>api/views.py\<close> check first. The effect of a job on all
  orders is modelled as its effect on each, without the summary it writes to the audit log. The two
  events of a deadline proposal carry an identifier and a formatted time, which are left out.
\<close>

section \<open>The state machine\<close>

definition order_TRANSITIONS :: "((order_status \<times> order_status) \<times> string) list" where
  "order_TRANSITIONS =
     [((Awaiting_payment, Active), ''payment_confirmed''),
      ((Awaiting_payment, Cancelled), ''cancel''),
      ((Active, Delivered), ''deliver''),
      ((Active, Cancelled), ''cancel''),
      ((Active, Disputed), ''open_dispute''),
      ((Delivered, Revision_requested), ''request_revision''),
      ((Delivered, Completed), ''approve''),
      ((Delivered, Cancelled), ''cancel''),
      ((Delivered, Disputed), ''open_dispute''),
      ((Revision_requested, Delivered), ''deliver''),
      ((Revision_requested, Completed), ''approve''),
      ((Revision_requested, Disputed), ''open_dispute''),
      ((Revision_requested, Cancelled), ''cancel''),
      ((Completed, Disputed), ''open_dispute''),
      ((Disputed, Completed), ''resolve_release''),
      ((Disputed, Cancelled), ''resolve_refund''),
      ((Disputed, Active), ''resolve_no_fault''),
      ((Disputed, Delivered), ''resolve_no_fault''),
      ((Disputed, Revision_requested), ''resolve_no_fault'')]"

definition order_transition ::
    "int \<Rightarrow> order_status \<Rightarrow> int option \<Rightarrow> string \<Rightarrow> (string \<times> json) list \<Rightarrow> order_state \<Rightarrow> order_state served"
  where
  "order_transition now to_status actor event_type data s =
     (case map_of order_TRANSITIONS (or_status (os_order s), to_status) of
        None \<Rightarrow>
          Inl (DomainError (''Cannot move an order from '' @ py_quoted (status_name (or_status (os_order s)))
             @ '' to '' @ py_quoted (status_name to_status) @ ''.'') ''invalid_transition'')
      | Some action \<Rightarrow>
          Inr (audit_log actor (''order.'' @ action)
                (record_event now event_type actor data
                  (with_order (\<lambda>r. r\<lparr>or_status := to_status\<rparr>) s))))"

section \<open>Notifications\<close>

datatype targets = Both | Only_student | Only_expert

definition order_event_copy :: "(string \<times> targets \<times> string) list" where
  "order_event_copy =
     [(''order_active'', Both, ''order_paid_activated''),
      (''delivered'', Only_student, ''order_delivered''),
      (''revision_requested'', Only_expert, ''order_revision_requested''),
      (''completed'', Both, ''order_approved_completed''),
      (''cancelled'', Both, ''order_cancelled''),
      (''deadline_reminder'', Only_expert, ''order_deadline_warning''),
      (''dispute_opened'', Both, ''dispute_opened''),
      (''dispute_resolved'', Both, ''dispute_resolved''),
      (''overdue_flagged'', Both, ''order_overdue_flagged''),
      (''deadline_extended'', Both, ''order_deadline_extended''),
      (''auto_approve_warning'', Only_student, ''order_auto_approve_warning'')]"

definition notify_parties :: "string \<Rightarrow> order_state \<Rightarrow> order_state" where
  "notify_parties event s =
     (case map_of order_event_copy event of
        None \<Rightarrow> s
      | Some (Both, ntype) \<Rightarrow>
          notify_user (or_expert (os_order s)) ntype (notify_user (or_student (os_order s)) ntype s)
      | Some (Only_student, ntype) \<Rightarrow> notify_user (or_student (os_order s)) ntype s
      | Some (Only_expert, ntype) \<Rightarrow> notify_user (or_expert (os_order s)) ntype s)"

section \<open>Guards\<close>

definition student_guard :: "account \<Rightarrow> order_state \<Rightarrow> order_state served" where
  "student_guard usr s =
     (if or_student (os_order s) \<noteq> acct_id usr
      then Inl (PermissionDeniedError ''You can only manage your own orders.'') else Inr s)"

definition expert_guard :: "account \<Rightarrow> order_state \<Rightarrow> order_state served" where
  "expert_guard usr s =
     (if or_expert (os_order s) \<noteq> acct_id usr
      then Inl (PermissionDeniedError ''Only the assigned expert can deliver on this order.'') else Inr s)"

text \<open>What every order view asks first: which side of the order the user is.\<close>

definition view_role :: "account \<Rightarrow> order_state \<Rightarrow> role served" where
  "view_role usr s =
     (if or_student (os_order s) = acct_id usr then Inr Student
      else if or_expert (os_order s) = acct_id usr then Inr Expert
      else Inl (PermissionDeniedError ''You are not a party to this order.''))"

section \<open>Payment\<close>

text \<open>A transition of the request the order came from.\<close>

definition move_request ::
    "int \<Rightarrow> request_status \<Rightarrow> string \<Rightarrow> int option \<Rightarrow> order_state \<Rightarrow> order_state served" where
  "move_request now to_status reason actor s =
     and_then (request_transition now to_status reason (os_request s))
       (\<lambda>(r, acts). Inr (fold (audit_log actor) acts (s\<lparr>os_request := r\<rparr>)))"

text \<open>Only from the statuses given; otherwise the request stays.\<close>

definition move_request_from ::
    "request_status list \<Rightarrow> int \<Rightarrow> request_status \<Rightarrow> string \<Rightarrow> int option \<Rightarrow> order_state \<Rightarrow> order_state served"
  where
  "move_request_from froms now to_status reason actor s =
     (if rr_status (os_request s) \<in> set froms then move_request now to_status reason actor s else Inr s)"

definition mark_paid :: "int \<Rightarrow> account option \<Rightarrow> string \<Rightarrow> order_state \<Rightarrow> order_state served" where
  "mark_paid now actor via s =
     (if (case actor of None \<Rightarrow> False | Some a \<Rightarrow> \<not> acct_staff a)
      then Inl (PermissionDeniedError ''Only staff can confirm payments in this phase.'')
      else if or_paid_at (os_order s) \<noteq> None
      then Inl (DomainError ''This order is already paid.'' ''invalid_transition'')
      else and_then (order_transition now Active (map_option acct_id actor) ''payment_confirmed'' []
                      (with_order (\<lambda>r. r\<lparr>or_paid_at := Some now\<rparr>) s)) (\<lambda>s1.
        (let s2 = record_event now ''payment_confirmed'' (map_option acct_id actor) [(''via'', JStr via)] s1
         in and_then (move_request_from [Rq_matched] now Rq_in_progress [] (map_option acct_id actor) s2)
              (\<lambda>s3. Inr (notify_parties ''order_active'' s3)))))"

text \<open>The receiver of \<open>payment_confirmed\<close>.\<close>

definition activate_order_on_payment :: "int \<Rightarrow> string \<Rightarrow> order_state \<Rightarrow> order_state served" where
  "activate_order_on_payment now gateway s = mark_paid now None gateway s"

section \<open>The delivery loop\<close>

definition AUTO_APPROVE_HOURS :: int where "AUTO_APPROVE_HOURS = 72"
definition UNPAID_CANCEL_HOURS :: int where "UNPAID_CANCEL_HOURS = 72"
definition REVISION_DUE_EXTENSION_DAYS :: int where "REVISION_DUE_EXTENSION_DAYS = 7"
definition MIN_DELIVERY_SUMMARY :: nat where "MIN_DELIVERY_SUMMARY = 20"

text \<open>As many of the user's own uploads of the purpose as there are different identifiers.\<close>

definition own_uploads :: "string \<Rightarrow> account \<Rightarrow> string list \<Rightarrow> order_state \<Rightarrow> bool" where
  "own_uploads purpose usr ids s \<longleftrightarrow>
     length (filter (\<lambda>u. up_id u \<in> set ids \<and> up_uploader u = acct_id usr \<and> up_purpose u = purpose)
       (os_uploads s)) = length (remdups ids)"

text \<open>The insertion of a delivery; the database refuses a second one of the same number.\<close>

definition create_delivery :: "delivery_row \<Rightarrow> order_state \<Rightarrow> order_state served" where
  "create_delivery d s =
     (if dr_revision d \<in> dr_revision ` set (os_deliveries s) then Inl server_error
      else Inr (s\<lparr>os_deliveries := os_deliveries s @ [d]\<rparr>))"

definition next_revision :: "db_order \<Rightarrow> nat" where
  "next_revision ord = (if or_status ord = Revision_requested then or_revisions_used ord else 0)"

definition delivery_event_type :: "nat \<Rightarrow> string" where
  "delivery_event_type number = (if number = 0 then ''delivered'' else ''redelivered'')"

definition submit_delivery ::
    "int \<Rightarrow> string \<Rightarrow> account \<Rightarrow> string \<Rightarrow> string list \<Rightarrow> order_state \<Rightarrow> order_state served" where
  "submit_delivery now token expert summary ids s =
     and_then (expert_guard expert s) (\<lambda>_.
       (if or_status (os_order s) \<notin> {Active, Revision_requested}
        then Inl (DomainError ''This order is not open for delivery.'' ''order_locked'')
        else if length (py_strip summary) < MIN_DELIVERY_SUMMARY
        then Inl (DomainError ''Add a proper delivery summary.'' ''validation_error'')
        else if ids \<noteq> [] \<and> \<not> own_uploads ''delivery'' expert ids s
        then Inl (DomainError ''Attachments must be your own delivery uploads.'' ''validation_error'')
        else (let number = next_revision (os_order s)
              in and_then (create_delivery
                   \<lparr>dr_id = token, dr_revision = number, dr_summary = py_strip summary, dr_status = Submitted,
                    dr_attachments = remdups ids, dr_submitted_at = Some now, dr_approved_at = None,
                    dr_approval_source = []\<rparr> s) (\<lambda>s1.
                 and_then (order_transition now Delivered (Some (acct_id expert))
                     (delivery_event_type number) []
                     (with_order (\<lambda>r. r\<lparr>or_delivered_at := Some now,
                        or_auto_approve_at := Some (now + hours AUTO_APPROVE_HOURS),
                        or_delivery_due_at := None\<rparr>) s1)) (\<lambda>s2.
                   Inr (notify_parties ''delivered'' s2))))))"

text \<open>The delivery with the highest number is the one reviewed.\<close>

definition highest_revision :: "delivery_row list \<Rightarrow> nat" where
  "highest_revision ds = fold max (map dr_revision ds) 0"

definition update_latest :: "(delivery_row \<Rightarrow> delivery_row) \<Rightarrow> order_state \<Rightarrow> order_state" where
  "update_latest f s =
     s\<lparr>os_deliveries := map (\<lambda>d. if dr_revision d = highest_revision (os_deliveries s) then f d else d)
         (os_deliveries s)\<rparr>"

definition request_revision ::
    "int \<Rightarrow> account \<Rightarrow> string \<Rightarrow> order_state \<Rightarrow> order_state served" where
  "request_revision now student note s =
     and_then (student_guard student s) (\<lambda>_.
       (if or_status (os_order s) \<noteq> Delivered
        then Inl (DomainError ''Only a delivered order can be sent back for revision.'' ''order_locked'')
        else if or_revisions_allowed (os_order s) \<le> or_revisions_used (os_order s)
        then Inl (DomainError ''The included revisions are exhausted -- approve, or contact support.''
               ''revisions_exhausted'')
        else if length (py_strip note) < 10
        then Inl (DomainError ''Describe the requested changes (required).'' ''validation_error'')
        else if os_deliveries s = [] then Inl (DomainError ''No delivery to revise.'' ''order_locked'')
        else and_then (order_transition now Revision_requested (Some (acct_id student)) ''revision_requested'' []
               (with_order (\<lambda>r. r\<lparr>or_revisions_used := Suc (or_revisions_used r), or_auto_approve_at := None,
                  or_delivery_due_at := Some (now + days REVISION_DUE_EXTENSION_DAYS)\<rparr>)
                 (update_latest (\<lambda>d. d\<lparr>dr_status := Changes_requested\<rparr>) s))) (\<lambda>s1.
             Inr (notify_parties ''revision_requested''
               (record_event now ''revision_requested'' (Some (acct_id student))
                 [(''note'', JStr (take 500 note)), (''revision'', JNum (int (or_revisions_used (os_order s1))))]
                 s1)))))"

datatype approval_source = By_student | By_auto | By_admin

fun source_name :: "approval_source \<Rightarrow> string" where
  "source_name By_student = ''student''"
| "source_name By_auto = ''auto''"
| "source_name By_admin = ''admin''"

definition approval_event :: "approval_source \<Rightarrow> string" where
  "approval_event source = (if source = By_auto then ''auto_approved'' else ''approved'')"

fun approve_guard :: "approval_source \<Rightarrow> account option \<Rightarrow> order_state \<Rightarrow> order_state served" where
  "approve_guard By_student (Some a) s = student_guard a s"
| "approve_guard By_student None s = Inl server_error"
| "approve_guard By_admin actor s =
     (if (case actor of None \<Rightarrow> True | Some a \<Rightarrow> \<not> acct_staff a)
      then Inl (PermissionDeniedError ''Only staff can force-approve.'') else Inr s)"
| "approve_guard By_auto actor s = Inr s"

definition approve_delivery ::
    "backend_config \<Rightarrow> int \<Rightarrow> account option \<Rightarrow> approval_source \<Rightarrow> order_state \<Rightarrow> order_state served" where
  "approve_delivery cfg now actor source s =
     and_then (approve_guard source actor s) (\<lambda>_.
       (if or_status (os_order s) \<noteq> Delivered
        then Inl (DomainError ''Only a delivered order can be approved.'' ''order_locked'')
        else and_then (order_transition now Completed (map_option acct_id actor)
               (approval_event source) []
               (with_order (\<lambda>r. r\<lparr>or_completed_at := Some now, or_auto_approve_at := None\<rparr>)
                 (update_latest (\<lambda>d. d\<lparr>dr_status := Approved, dr_approved_at := Some now,
                    dr_approval_source := source_name source\<rparr>) s))) (\<lambda>s1.
             (let s2 = record_event now ''completed'' (map_option acct_id actor)
                         [(''source'', JStr (source_name source))] s1
              in and_then (move_request_from [Rq_in_progress] now Rq_completed [] (map_option acct_id actor) s2)
                   (\<lambda>s3. and_then (schedule_payout cfg s3) (\<lambda>s4. Inr (notify_parties ''completed'' s4)))))))"

section \<open>Cancellation\<close>

definition cancel_order :: "int \<Rightarrow> account \<Rightarrow> string \<Rightarrow> order_state \<Rightarrow> order_state served" where
  "cancel_order now actor reason s =
     (if or_student (os_order s) \<noteq> acct_id actor \<and> or_expert (os_order s) \<noteq> acct_id actor \<and> \<not> acct_staff actor
      then Inl (PermissionDeniedError ''You are not a party to this order.'')
      else if or_status (os_order s) \<noteq> Awaiting_payment \<and> \<not> acct_staff actor
      then Inl (PermissionDeniedError ''Cancellation after payment is handled by support (BR-26..28).'')
      else if reason = []
      then Inl (DomainError ''A cancellation reason is required.'' ''validation_error'')
      else and_then (order_transition now Cancelled (Some (acct_id actor)) ''cancelled'' []
             (with_order (\<lambda>r. r\<lparr>or_cancelled_at := Some now, or_cancelled_by := Some (acct_id actor),
                or_cancellation_reason := take 200 reason\<rparr>) s)) (\<lambda>s1.
           (let s2 = void_payment_for_order now (Some (acct_id actor)) s1
            in and_then (move_request_from [Rq_matched, Rq_in_progress] now Rq_cancelled reason
                           (Some (acct_id actor)) s2)
                 (\<lambda>s3. Inr (notify_parties ''cancelled'' s3)))))"

section \<open>Jobs\<close>

fun at_most :: "int option \<Rightarrow> int \<Rightarrow> bool" where
  "at_most None t = False"
| "at_most (Some x) t = (x \<le> t)"

fun after :: "int option \<Rightarrow> int \<Rightarrow> bool" where
  "after None t = False"
| "after (Some x) t = (t < x)"

definition has_event :: "string \<Rightarrow> order_state \<Rightarrow> bool" where
  "has_event event_type s \<longleftrightarrow> event_type \<in> er_type ` set (os_events s)"

definition auto_approve_due :: "backend_config \<Rightarrow> int \<Rightarrow> order_state \<Rightarrow> order_state" where
  "auto_approve_due cfg now s =
     (if or_status (os_order s) = Delivered \<and> at_most (or_auto_approve_at (os_order s)) now
      then committed s (approve_delivery cfg now None By_auto s) else s)"

definition sweep_unpaid :: "int \<Rightarrow> order_state \<Rightarrow> order_state" where
  "sweep_unpaid now s =
     (if or_status (os_order s) = Awaiting_payment
         \<and> or_created_at (os_order s) \<le> now - hours UNPAID_CANCEL_HOURS
      then committed s (order_transition now Cancelled None ''cancelled'' []
             (with_order (\<lambda>r. r\<lparr>or_cancelled_at := Some now,
                or_cancellation_reason := ''Unpaid for 72 hours''\<rparr>) s))
      else s)"

definition deadline_reminder :: "int \<Rightarrow> order_state \<Rightarrow> order_state" where
  "deadline_reminder now s =
     (if or_status (os_order s) \<in> {Active, Delivered, Revision_requested}
         \<and> after (or_delivery_due_at (os_order s)) now
         \<and> at_most (or_delivery_due_at (os_order s)) (now + hours 24)
         \<and> \<not> has_event ''deadline_reminded'' s
      then notify_parties ''deadline_reminder'' (record_event now ''deadline_reminded'' None [] s) else s)"

definition AUTO_APPROVE_WARNING_HOURS :: int where "AUTO_APPROVE_WARNING_HOURS = 24"

definition auto_approve_warning :: "int \<Rightarrow> order_state \<Rightarrow> order_state" where
  "auto_approve_warning now s =
     (if or_status (os_order s) = Delivered
         \<and> after (or_auto_approve_at (os_order s)) now
         \<and> at_most (or_auto_approve_at (os_order s)) (now + hours AUTO_APPROVE_WARNING_HOURS)
         \<and> \<not> has_event ''auto_approve_warned'' s
      then notify_parties ''auto_approve_warning'' (record_event now ''auto_approve_warned'' None [] s) else s)"

definition OVERDUE_FLAG_GRACE_HOURS :: int where "OVERDUE_FLAG_GRACE_HOURS = 24"

definition flag_overdue :: "int \<Rightarrow> order_state \<Rightarrow> order_state" where
  "flag_overdue now s =
     (if or_status (os_order s) \<in> {Active, Revision_requested}
         \<and> (case or_delivery_due_at (os_order s) of None \<Rightarrow> False
            | Some t \<Rightarrow> t < now - hours OVERDUE_FLAG_GRACE_HOURS)
         \<and> \<not> has_event ''overdue_flagged'' s
      then notify_parties ''overdue_flagged''
             (audit_log None ''order.overdue_flagged'' (record_event now ''overdue_flagged'' None [] s))
      else s)"

section \<open>Deadline proposals\<close>

definition counterpart :: "account \<Rightarrow> order_state \<Rightarrow> int" where
  "counterpart actor s =
     (if acct_id actor = or_student (os_order s) then or_expert (os_order s) else or_student (os_order s))"

definition is_participant :: "account \<Rightarrow> order_state \<Rightarrow> bool" where
  "is_participant actor s \<longleftrightarrow> acct_id actor \<in> {or_student (os_order s), or_expert (os_order s)}"

text \<open>One proposal row per order: an insertion beside an answered one fails.\<close>

definition propose_deadline ::
    "int \<Rightarrow> account \<Rightarrow> int \<Rightarrow> string \<Rightarrow> order_state \<Rightarrow> order_state served" where
  "propose_deadline now actor proposed_due_at note s =
     (if \<not> is_participant actor s
      then Inl (PermissionDeniedError ''Only the order's participants can propose deadlines.'')
      else if or_status (os_order s) \<notin> {Active, Delivered, Revision_requested}
      then Inl (DomainError ''Deadlines can be proposed only while work is in progress.'' ''invalid_transition'')
      else if (case os_proposal s of None \<Rightarrow> False | Some p \<Rightarrow> pp_status p = Pp_pending)
      then Inl (DomainError ''A proposal is already pending on this order.'' ''duplicate_proposal'')
      else if proposed_due_at \<le> now
      then Inl (DomainError ''The proposed deadline must be in the future.'' ''validation_error'')
      else if os_proposal s \<noteq> None then Inl server_error
      else Inr (notify_user (counterpart actor s) ''order_deadline_proposed''
             (audit_log (Some (acct_id actor)) ''order.deadline_proposed''
               (record_event now ''deadline_proposed'' (Some (acct_id actor)) []
                 (s\<lparr>os_proposal := Some \<lparr>pp_proposed_by = acct_id actor, pp_due_at = proposed_due_at,
                      pp_note = take 300 note, pp_status = Pp_pending\<rparr>\<rparr>)))))"

definition respond_deadline_proposal ::
    "int \<Rightarrow> account \<Rightarrow> bool \<Rightarrow> order_state \<Rightarrow> order_state served" where
  "respond_deadline_proposal now actor accept s =
     (if \<not> is_participant actor s
      then Inl (PermissionDeniedError ''Only the order's participants can respond to proposals.'')
      else (case os_proposal s of
          None \<Rightarrow> Inl (DomainError ''No pending deadline proposal on this order.'' ''not_found'')
        | Some p \<Rightarrow>
            (if pp_status p \<noteq> Pp_pending
             then Inl (DomainError ''No pending deadline proposal on this order.'' ''not_found'')
             else if pp_proposed_by p = acct_id actor
             then Inr (s\<lparr>os_proposal := Some (p\<lparr>pp_status := Pp_withdrawn\<rparr>)\<rparr>)
             else if accept
             then Inr (audit_log (Some (acct_id actor)) ''order.deadline_extended''
                    (record_event now ''deadline_extended'' (Some (acct_id actor)) []
                      (with_order (\<lambda>r. r\<lparr>or_delivery_due_at := Some (pp_due_at p)\<rparr>)
                        (s\<lparr>os_proposal := Some (p\<lparr>pp_status := Pp_accepted\<rparr>)\<rparr>))))
             else Inr (s\<lparr>os_proposal := Some (p\<lparr>pp_status := Pp_declined\<rparr>)\<rparr>))))"

section \<open>The factory\<close>

fun source_wire :: "order_source \<Rightarrow> string" where
  "source_wire Open_bid = ''open_bid''"
| "source_wire Managed_pool = ''managed_pool''"
| "source_wire Managed_direct = ''managed_direct''"

definition rate_for_source :: "backend_config \<Rightarrow> order_source \<Rightarrow> int" where
  "rate_for_source cfg source = (if source = Open_bid then cf_open_rate cfg else cf_managed_rate cfg)"

text \<open>The row of a new order. Its \<open>commission_rate\<close> column keeps its default.\<close>

definition create_order_for_request ::
    "backend_config \<Rightarrow> int \<Rightarrow> string \<Rightarrow> string \<Rightarrow> string \<Rightarrow> int \<Rightarrow> string \<Rightarrow> int \<Rightarrow> string \<Rightarrow> order_source \<Rightarrow> upload_row list
     \<Rightarrow> db_request \<Rightarrow> order_state served" where
  "create_order_for_request cfg now oid number email expert expert_name amount currency source uploads rq =
     (if rr_student rq = expert
      then Inl (DomainError ''Student and expert cannot be the same account.'' ''self_dealing'')
      else (let (commission, net) = commission_split amount (rate_for_source cfg source)
            in Inr (audit_log None ''order.create'' (record_event now ''created'' None
                 [(''data'', JObj [(''source'', JStr (source_wire source)), (''amount'', JNum amount)])]
                 \<lparr>os_order =
                   \<lparr>or_id = oid, or_number = number, or_student = rr_student rq, or_student_email = email,
                    or_expert = expert, or_expert_name = expert_name, or_source = source, or_amount = amount,
                    or_currency = currency, or_rate = 1500, or_commission = commission, or_expert_amount = net,
                    or_status = Awaiting_payment, or_deadline = rr_deadline rq, or_revisions_allowed = 2,
                    or_revisions_used = 0, or_created_at = now, or_accepted_at = Some now, or_paid_at = None,
                    or_delivered_at = None, or_open_dispute = False, or_completed_at = None,
                    or_cancelled_at = None, or_cancelled_by = None, or_cancellation_reason = [],
                    or_auto_approve_at = None, or_delivery_due_at = None\<rparr>,
                  os_request = rq, os_deliveries = [], os_events = [], os_payment = None, os_refunds = [],
                  os_payouts = [], os_ledger = [], os_dispute = None, os_proposal = None,
                  os_uploads = uploads, os_audit = [], os_notices = []\<rparr>))))"

end
