(* ===== verification/DisputeServer.thy ===== *)
theory DisputeServer
  imports OrderServer
begin

text \<open>
  Disputes: \<open>apps/disputes/services.py\<close> and the view that adds evidence (\<open>api/views.py\<close>). A resolution
  runs the refund and the payout services of \<open>PaymentServer\<close> and the order's state machine of
  \<open>OrderServer\<close>. The thread that a dispute opens belongs to the messaging service; only its entry in
  the audit log is kept. The events of a dispute carry its identifier and outcome, and so does the note
  of its refund, which are left out.
\<close>

definition dispute_TRANSITIONS :: "((dispute_status \<times> dispute_status) \<times> string) list" where
  "dispute_TRANSITIONS =
     [((DOpen, Under_review), ''disputes.taken''),
      ((DOpen, Awaiting_response), ''disputes.awaiting_response''),
      ((Awaiting_response, Under_review), ''disputes.resumed''),
      ((Under_review, Resolved), ''disputes.resolved''),
      ((Resolved, DClosed), ''disputes.closed'')]"

definition OPEN_STATUSES :: "dispute_status list" where
  "OPEN_STATUSES = [DOpen, Under_review, Awaiting_response]"

definition DISPUTABLE_STATUSES :: "order_status list" where
  "DISPUTABLE_STATUSES = [Active, Delivered, Revision_requested]"

definition MIN_DESCRIPTION :: nat where "MIN_DESCRIPTION = 20"

definition REASON_VALUES :: "string list" where
  "REASON_VALUES =
     [''quality_below_expectations'', ''expert_unresponsive'', ''deadline_missed'', ''scope_disagreement'',
      ''payment_issue'', ''integrity_concern'', ''other'']"

fun dispute_wire :: "dispute_status \<Rightarrow> string" where
  "dispute_wire DOpen = ''open''"
| "dispute_wire Under_review = ''under_review''"
| "dispute_wire Awaiting_response = ''awaiting_response''"
| "dispute_wire Resolved = ''resolved''"
| "dispute_wire DClosed = ''closed''"

text \<open>The single writer of the flag that freezes the payout.\<close>

definition freeze_payout :: "bool \<Rightarrow> order_state \<Rightarrow> order_state" where
  "freeze_payout frozen s = with_order (\<lambda>r. r\<lparr>or_open_dispute := frozen\<rparr>) s"

section \<open>Opening\<close>

definition window_closed :: "backend_config \<Rightarrow> int \<Rightarrow> db_order \<Rightarrow> bool" where
  "window_closed cfg now ord =
     (if or_status ord = Completed
      then (case or_completed_at ord of None \<Rightarrow> True | Some t \<Rightarrow> days (cf_window_days cfg) < now - t)
      else or_status ord \<notin> set DISPUTABLE_STATUSES)"

text \<open>Each file of the evidence, in order: the first that does not pass raises.\<close>

fun check_evidence :: "account \<Rightarrow> upload_row list \<Rightarrow> string list \<Rightarrow> string list served" where
  "check_evidence actor ups [] = Inr []"
| "check_evidence actor ups (i # is) =
     (case find (\<lambda>u. up_id u = i) ups of
        None \<Rightarrow> Inl (DomainError ''Evidence files must use the dispute_evidence purpose.'' ''validation_error'')
      | Some u \<Rightarrow>
          (if up_purpose u \<noteq> ''dispute_evidence''
           then Inl (DomainError ''Evidence files must use the dispute_evidence purpose.'' ''validation_error'')
           else if up_uploader u \<noteq> acct_id actor
           then Inl (PermissionDeniedError ''Only your own uploads can be attached as evidence.'')
           else map_sum id (\<lambda>js. i # js) (check_evidence actor ups is)))"

definition new_dispute ::
    "int \<Rightarrow> account \<Rightarrow> string \<Rightarrow> string \<Rightarrow> string list \<Rightarrow> order_state \<Rightarrow> db_dispute" where
  "new_dispute now actor reason description evidence s =
     \<lparr>dw_opened_by = acct_id actor, dw_reason = reason, dw_description = py_strip description,
      dw_prior = or_status (os_order s), dw_status = DOpen, dw_outcome = None, dw_notes = [],
      dw_resolved_by = None, dw_resolved_at = None, dw_closed_at = None, dw_evidence = remdups evidence,
      dw_created_at = now\<rparr>"

definition open_dispute ::
    "backend_config \<Rightarrow> int \<Rightarrow> account \<Rightarrow> string \<Rightarrow> string \<Rightarrow> string list \<Rightarrow> order_state \<Rightarrow> order_state served"
  where
  "open_dispute cfg now actor reason description ids s =
     (if \<not> is_participant actor s
      then Inl (PermissionDeniedError ''Only the order's participants can open a dispute.'')
      else if os_dispute s \<noteq> None
      then Inl (DomainError ''This order already has a dispute.'' ''duplicate_dispute'')
      else if window_closed cfg now (os_order s)
      then Inl (DomainError
             (if or_status (os_order s) = Completed
              then ''The dispute window closed 7 days after completion (BR-40).''
              else ''Disputes open while the order is active, delivered, revision_requested, or within 7 days after completion (BR-40).'')
             ''dispute_window_closed'')
      else if reason \<notin> set REASON_VALUES
      then Inl (DomainError ''Unknown dispute reason.'' ''validation_error'')
      else if length (py_strip description) < MIN_DESCRIPTION
      then Inl (DomainError ''Describe the problem in at least 20 characters.'' ''validation_error'')
      else and_then (check_evidence actor (os_uploads s) ids) (\<lambda>evidence.
        and_then (order_transition now Disputed None ''dispute_opened'' []
            (freeze_payout True
              (s\<lparr>os_dispute := Some (new_dispute now actor reason description evidence s)\<rparr>))) (\<lambda>s1.
          Inr (notify_user (counterpart actor s1) ''dispute_opened''
            (audit_log (Some (acct_id actor)) ''messaging.thread_created''
              (audit_log (Some (acct_id actor)) ''dispute.opened'' s1))))))"

section \<open>Review\<close>

definition dispute_transition ::
    "dispute_status \<Rightarrow> account \<Rightarrow> db_dispute \<Rightarrow> order_state \<Rightarrow> order_state served" where
  "dispute_transition to_status actor d s =
     (if \<not> acct_staff actor
      then Inl (PermissionDeniedError ''Only support can move a dispute through review.'')
      else (case map_of dispute_TRANSITIONS (dw_status d, to_status) of
          None \<Rightarrow> Inl (DomainError (''Cannot move a dispute from '' @ py_quoted (dispute_wire (dw_status d))
                    @ '' to '' @ py_quoted (dispute_wire to_status) @ ''.'') ''invalid_transition'')
        | Some action \<Rightarrow>
            Inr (audit_log (Some (acct_id actor)) action
              (s\<lparr>os_dispute := Some (d\<lparr>dw_status := to_status\<rparr>)\<rparr>))))"

definition take_case :: "account \<Rightarrow> db_dispute \<Rightarrow> order_state \<Rightarrow> order_state served" where
  "take_case actor d s = dispute_transition Under_review actor d s"

definition await_response :: "account \<Rightarrow> db_dispute \<Rightarrow> order_state \<Rightarrow> order_state served" where
  "await_response actor d s = dispute_transition Awaiting_response actor d s"

definition resume_review :: "account \<Rightarrow> db_dispute \<Rightarrow> order_state \<Rightarrow> order_state served" where
  "resume_review actor d s = dispute_transition Under_review actor d s"

section \<open>Resolution\<close>

text \<open>The first payout of the order that is not paid.\<close>

definition unpaid_payout :: "order_state \<Rightarrow> nat option" where
  "unpaid_payout s = find (\<lambda>i. py_status (os_payouts s ! i) \<noteq> Paid) [0..<length (os_payouts s)]"

definition void_scheduled_payout :: "account \<Rightarrow> order_state \<Rightarrow> order_state served" where
  "void_scheduled_payout actor s =
     (case unpaid_payout s of
        None \<Rightarrow> Inr s
      | Some i \<Rightarrow> mark_payout_failed actor ''Order refunded by dispute resolution'' i (os_payouts s ! i) s)"

definition correct_payout :: "account \<Rightarrow> order_state \<Rightarrow> order_state" where
  "correct_payout actor s =
     (case unpaid_payout s of
        None \<Rightarrow> s
      | Some i \<Rightarrow>
          audit_log (Some (acct_id actor)) ''payout.adjusted_dispute''
            (set_payout i ((os_payouts s ! i)\<lparr>py_amount := expert_credit_balance s\<rparr>) s))"

definition refunds :: "dispute_outcome \<Rightarrow> bool" where
  "refunds out \<longleftrightarrow> out \<in> {Refund_student_full, Refund_student_partial, Split}"

text \<open>The refund an outcome asks for, and the void of the payout after a full one.\<close>

definition resolve_money ::
    "account \<Rightarrow> dispute_outcome \<Rightarrow> int option \<Rightarrow> order_state \<Rightarrow> order_state served" where
  "resolve_money actor out refund_amount s =
     (case (case os_payment s of
              Some p \<Rightarrow> if pr_status p \<in> {Pay_succeeded, Pay_partially_refunded} then Some p else None
            | None \<Rightarrow> None) of
        None \<Rightarrow> Inl (DomainError ''No succeeded payment to refund on this order.'' ''validation_error'')
      | Some p \<Rightarrow>
          (let refundable = pr_amount p - pr_refunded p;
               amount = (if out = Refund_student_full then refundable
                         else (case refund_amount of None \<Rightarrow> 0 | Some a \<Rightarrow> a))
           in if out \<noteq> Refund_student_full \<and> (amount \<le> 0 \<or> refundable \<le> amount)
              then Inl (DomainError (''Refund must be between 1 and '' @ show_int (refundable - 1)
                     @ '' minor units for this outcome.'') ''validation_error'')
              else and_then (issue_refund actor amount ''dispute_resolution'' ''Dispute'' p s) (\<lambda>s1.
                     if out = Refund_student_full then void_scheduled_payout actor s1 else Inr s1)))"

fun outcome_status :: "dispute_outcome \<Rightarrow> order_status \<Rightarrow> order_status" where
  "outcome_status Refund_student_full prior = Cancelled"
| "outcome_status Refund_student_partial prior = Completed"
| "outcome_status Release_expert prior = Completed"
| "outcome_status Split prior = Completed"
| "outcome_status No_fault_close prior = prior"

definition resolve_order :: "int \<Rightarrow> order_status \<Rightarrow> order_state \<Rightarrow> order_state served" where
  "resolve_order now new_status s =
     (if new_status \<noteq> or_status (os_order s)
      then order_transition now new_status None ''dispute_resolved'' [] s
      else Inr (record_event now ''dispute_resolved'' None [] s))"

definition resolve_refund ::
    "account \<Rightarrow> dispute_outcome \<Rightarrow> int option \<Rightarrow> order_state \<Rightarrow> order_state served" where
  "resolve_refund actor out refund_amount s =
     (if refunds out then resolve_money actor out refund_amount s else Inr s)"

definition adjust_payout :: "account \<Rightarrow> dispute_outcome \<Rightarrow> order_state \<Rightarrow> order_state" where
  "adjust_payout actor out s =
     (if out = Refund_student_partial \<or> out = Split then correct_payout actor s else s)"

definition resolved_row ::
    "int \<Rightarrow> account \<Rightarrow> dispute_outcome \<Rightarrow> string \<Rightarrow> db_dispute \<Rightarrow> db_dispute" where
  "resolved_row now actor out notes d =
     d\<lparr>dw_outcome := Some out, dw_notes := py_strip notes, dw_resolved_by := Some (acct_id actor),
       dw_resolved_at := Some now, dw_status := Resolved\<rparr>"

text \<open>An unknown outcome is \<open>None\<close>.\<close>

definition resolve_dispute ::
    "int \<Rightarrow> account \<Rightarrow> dispute_outcome option \<Rightarrow> string \<Rightarrow> int option \<Rightarrow> db_dispute \<Rightarrow> order_state
     \<Rightarrow> order_state served" where
  "resolve_dispute now actor outcome notes refund_amount d s =
     (if \<not> acct_staff actor
      then Inl (PermissionDeniedError ''Only support can resolve disputes (BR-41).'')
      else if map_of dispute_TRANSITIONS (dw_status d, Resolved) = None
      then Inl (DomainError (''Cannot resolve a dispute from '' @ py_quoted (dispute_wire (dw_status d)) @ ''.'')
             ''invalid_transition'')
      else (case outcome of
          None \<Rightarrow> Inl (DomainError ''Unknown dispute outcome.'' ''validation_error'')
        | Some out \<Rightarrow>
            (if length (py_strip notes) < 20
             then Inl (DomainError ''Resolution notes are required (>=20 characters).'' ''validation_error'')
             else and_then (resolve_refund actor out refund_amount s) (\<lambda>s1.
               and_then (resolve_order now (outcome_status out (dw_prior d))
                           (adjust_payout actor out (freeze_payout False s1))) (\<lambda>s2.
                 Inr (notify_user (or_expert (os_order s2)) ''dispute_resolved''
                   (notify_user (or_student (os_order s2)) ''dispute_resolved''
                     (audit_log (Some (acct_id actor)) ''disputes.resolved''
                       (s2\<lparr>os_dispute := Some (resolved_row now actor out notes d)\<rparr>)))))))))"

definition close_dispute :: "int \<Rightarrow> account \<Rightarrow> db_dispute \<Rightarrow> order_state \<Rightarrow> order_state served" where
  "close_dispute now actor d s =
     (if \<not> acct_staff actor then Inl (PermissionDeniedError ''Only support can close disputes.'')
      else if map_of dispute_TRANSITIONS (dw_status d, DClosed) = None
      then Inl (DomainError (''Cannot close a dispute from '' @ py_quoted (dispute_wire (dw_status d)) @ ''.'')
             ''invalid_transition'')
      else Inr (audit_log (Some (acct_id actor)) ''disputes.closed''
             (s\<lparr>os_dispute := Some (d\<lparr>dw_status := DClosed, dw_closed_at := Some now\<rparr>)\<rparr>)))"

section \<open>More evidence\<close>

text \<open>
  The view is no transaction: the files before the first one that does not pass stay attached. The
  result is the error, if any, and the state.
\<close>

fun add_files ::
    "account \<Rightarrow> upload_row list \<Rightarrow> string list \<Rightarrow> db_dispute \<Rightarrow> domain_error option \<times> db_dispute" where
  "add_files actor ups [] d = (None, d)"
| "add_files actor ups (i # is) d =
     (case find (\<lambda>u. up_id u = i) ups of
        None \<Rightarrow> (Some (NotFoundError ''Evidence files must use the dispute_evidence purpose.''), d)
      | Some u \<Rightarrow>
          (if up_purpose u \<noteq> ''dispute_evidence''
           then (Some (NotFoundError ''Evidence files must use the dispute_evidence purpose.''), d)
           else if up_uploader u \<noteq> acct_id actor
           then (Some (NotFoundError ''Only your own uploads can be attached.''), d)
           else add_files actor ups is (d\<lparr>dw_evidence := add_uniq i (dw_evidence d)\<rparr>)))"

definition add_evidence ::
    "account \<Rightarrow> string list \<Rightarrow> order_state \<Rightarrow> domain_error option \<times> order_state" where
  "add_evidence actor ids s =
     (case os_dispute s of
        None \<Rightarrow> (Some (NotFoundError ''Dispute not found.''), s)
      | Some d \<Rightarrow>
          (if \<not> is_participant actor s \<and> \<not> acct_staff actor
           then (Some (PermissionDeniedError ''You are not a participant of this dispute.''), s)
           else if dw_status d \<notin> set OPEN_STATUSES
           then (Some (DomainError ''This dispute is closed to new evidence.'' ''invalid_transition''), s)
           else (case add_files actor (os_uploads s) ids d of
               (e, d') \<Rightarrow> (e, s\<lparr>os_dispute := Some d'\<rparr>))))"

end
