(* ===== verification/OrderBackend.thy ===== *)
theory OrderBackend
  imports DisputeServer Machine
begin

text \<open>
  The backend of one order as a machine: every request of the API, action of the administration site,
  webhook and job that changes it (\<open>apps/orders/api/views.py\<close>, \<open>apps/disputes/api/views.py\<close>, the
  \<open>admin.py\<close> files), and what stays true whatever they do and in whichever order. Of the administration site these are
  the actions, which go through the services. Its change forms are not commands: staff can write the status, the
  mark of an open dispute and the revisions of an order, and add, edit or delete deliveries, past every service and
  every guard, so that what is said of all histories of an order is said of those without such an edit. The
  configuration is the same over a history, though the site can edit it too.
\<close>

section \<open>Requests\<close>

datatype order_command =
    Pay
  | ConfirmPayment                           \<comment> \<open>the development endpoint\<close>
  | Deliver string "string list"
  | Approve
  | RequestRevision string
  | CancelOrder string
  | OnRequest request_command
  | OpenDispute string string "string list"
  | AddEvidence "string list"
  | Upload string string                     \<comment> \<open>identifier and purpose\<close>
  | ProposeDeadline int string
  | RespondDeadline bool
  | OperatorConfirm
  | ForceApprove
  | StaffCancel string                       \<comment> \<open>the operator's address\<close>
  | ConfirmRow
  | FullRefund
  | SettlePayout nat
  | FailPayout nat
  | TakeCase
  | AwaitResponse
  | ResumeReview
  | ResolveCase "dispute_outcome option" string "int option"
  | CloseCase
  | HookSucceeded string
  | HookFailed string string
  | JobAutoApprove
  | JobSweepUnpaid
  | JobPayouts
  | JobReminder
  | JobWarning
  | JobOverdue

type_synonym order_answer = "domain_error option \<times> order_state"

definition atomically :: "order_state \<Rightarrow> order_state served \<Rightarrow> order_answer" where
  "atomically s r = (case r of Inl e \<Rightarrow> (Some e, s) | Inr s' \<Rightarrow> (None, s'))"

definition as_party :: "account \<Rightarrow> order_state \<Rightarrow> order_state served \<Rightarrow> order_answer" where
  "as_party a s r = atomically s (and_then (view_role a s) (\<lambda>_. r))"

text \<open>The administration site lets only staff in, and an action skips the rows its filter excludes.\<close>

definition as_staff :: "account \<Rightarrow> order_state \<Rightarrow> bool \<Rightarrow> order_answer \<Rightarrow> order_answer" where
  "as_staff a s chosen r =
     (if \<not> acct_staff a then (Some (PermissionDeniedError ''Permission denied''), s)
      else if chosen then r else (None, s))"

definition confirm_view ::
    "backend_config \<Rightarrow> int \<Rightarrow> string \<Rightarrow> account \<Rightarrow> order_state \<Rightarrow> order_answer" where
  "confirm_view cfg now token a s =
     (if \<not> cf_dev_self_confirm cfg
      then (Some (PermissionDeniedError ''Payment self-confirmation is disabled on this environment.''), s)
      else (case and_then (view_role a s)
               (\<lambda>_. if os_payment s = None then start_payment cfg token a s else Inr s) of
          Inl e \<Rightarrow> (Some e, s)
        | Inr s1 \<Rightarrow>
            (case os_payment s1 of
               None \<Rightarrow> (Some server_error, s1)
             | Some p \<Rightarrow>
                 confirm_payment (activate_order_on_payment now) now (Some (acct_id a)) p s1)))"

definition on_dispute ::
    "order_state \<Rightarrow> (db_dispute \<Rightarrow> order_state served) \<Rightarrow> order_answer" where
  "on_dispute s f = (case os_dispute s of None \<Rightarrow> (None, s) | Some d \<Rightarrow> atomically s (f d))"

definition on_payout ::
    "nat \<Rightarrow> order_state \<Rightarrow> (payout_row \<Rightarrow> order_state served) \<Rightarrow> order_answer" where
  "on_payout i s f = (case payout_at i s of None \<Rightarrow> (None, s) | Some y \<Rightarrow> atomically s (f y))"

text \<open>
  The owner's requests on the service request itself: it can be cancelled as long as it is not completed, and the
  order is not told.
\<close>

definition on_request :: "int \<Rightarrow> account \<Rightarrow> request_command \<Rightarrow> order_state \<Rightarrow> order_answer" where
  "on_request now a rc s =
     (case request_exec now a rc (os_request s) of
        (e, r, acts) \<Rightarrow> (e, fold (audit_log (Some (acct_id a))) acts (s\<lparr>os_request := r\<rparr>)))"

fun exec ::
    "backend_config \<Rightarrow> int \<Rightarrow> string \<Rightarrow> account \<Rightarrow> order_command \<Rightarrow> order_state \<Rightarrow> order_answer" where
  "exec cfg now token a Pay s = as_party a s (start_payment cfg token a s)"
| "exec cfg now token a ConfirmPayment s = confirm_view cfg now token a s"
| "exec cfg now token a (Deliver summary ids) s = as_party a s (submit_delivery now token a summary ids s)"
| "exec cfg now token a Approve s = as_party a s (approve_delivery cfg now (Some a) By_student s)"
| "exec cfg now token a (RequestRevision note) s = as_party a s (request_revision now a note s)"
| "exec cfg now token a (CancelOrder reason) s = as_party a s (cancel_order now a reason s)"
| "exec cfg now token a (OnRequest rc) s = on_request now a rc s"
| "exec cfg now token a (OpenDispute reason description ids) s =
     atomically s (open_dispute cfg now a reason description ids s)"
| "exec cfg now token a (AddEvidence ids) s = add_evidence a ids s"
| "exec cfg now token a (Upload i purpose) s =
     (None, s\<lparr>os_uploads := os_uploads s @ [\<lparr>up_id = i, up_uploader = acct_id a, up_purpose = purpose\<rparr>]\<rparr>)"
| "exec cfg now token a (ProposeDeadline due note) s = atomically s (propose_deadline now a due note s)"
| "exec cfg now token a (RespondDeadline accept) s =
     atomically s (respond_deadline_proposal now a accept s)"
| "exec cfg now token a OperatorConfirm s =
     as_staff a s (or_status (os_order s) = Awaiting_payment)
       (confirm_order_payment (activate_order_on_payment now) cfg now token (Some (acct_id a)) s)"
| "exec cfg now token a ForceApprove s =
     as_staff a s (or_status (os_order s) = Delivered)
       (atomically s (approve_delivery cfg now (Some a) By_admin s))"
| "exec cfg now token a (StaffCancel email) s =
     as_staff a s (or_status (os_order s) \<notin> {Completed, Cancelled})
       (atomically s (cancel_order now a (''Admin action by '' @ email) s))"
| "exec cfg now token a ConfirmRow s =
     as_staff a s True
       (case os_payment s of None \<Rightarrow> (None, s)
        | Some p \<Rightarrow> confirm_payment (activate_order_on_payment now) now (Some (acct_id a)) p s)"
| "exec cfg now token a FullRefund s =
     as_staff a s True
       (case os_payment s of None \<Rightarrow> (None, s)
        | Some p \<Rightarrow>
            if pr_status p = Pay_succeeded
            then atomically s (issue_refund a (pr_amount p - pr_refunded p) ''admin_decision''
                   ''Full refund via admin action'' p s)
            else (None, s))"
| "exec cfg now token a (SettlePayout i) s =
     as_staff a s True
       (on_payout i s (\<lambda>y. if py_status y \<in> {Scheduled, Payout_failed}
                           then settle_payout cfg now token a i y s else Inr s))"
| "exec cfg now token a (FailPayout i) s =
     as_staff a s True
       (on_payout i s (\<lambda>y. if py_status y \<noteq> Paid
                           then mark_payout_failed a ''Marked failed via admin'' i y s else Inr s))"
| "exec cfg now token a TakeCase s = as_staff a s True (on_dispute s (\<lambda>d. take_case a d s))"
| "exec cfg now token a AwaitResponse s = as_staff a s True (on_dispute s (\<lambda>d. await_response a d s))"
| "exec cfg now token a ResumeReview s = as_staff a s True (on_dispute s (\<lambda>d. resume_review a d s))"
| "exec cfg now token a (ResolveCase out notes amount) s =
     as_staff a s True (on_dispute s (\<lambda>d. resolve_dispute now a out notes amount d s))"
| "exec cfg now token a CloseCase s = as_staff a s True (on_dispute s (\<lambda>d. close_dispute now a d s))"
| "exec cfg now token a (HookSucceeded ref) s =
     handle_payment_succeeded (activate_order_on_payment now) now ref s"
| "exec cfg now token a (HookFailed ref reason) s = (None, handle_payment_failed ref reason s)"
| "exec cfg now token a JobAutoApprove s = (None, auto_approve_due cfg now s)"
| "exec cfg now token a JobSweepUnpaid s = (None, sweep_unpaid now s)"
| "exec cfg now token a JobPayouts s = (None, payout_sweeper cfg s)"
| "exec cfg now token a JobReminder s = (None, deadline_reminder now s)"
| "exec cfg now token a JobWarning s = (None, auto_approve_warning now s)"
| "exec cfg now token a JobOverdue s = (None, flag_overdue now s)"

section \<open>The machine\<close>

type_synonym order_call = "int \<times> string \<times> account \<times> order_command"

fun backend_step :: "backend_config \<Rightarrow> order_state \<Rightarrow> order_call \<Rightarrow> order_state" where
  "backend_step cfg s (now, token, a, c) = snd (exec cfg now token a c s)"

text \<open>A new order: what the factory makes for a request that has just been matched.\<close>

definition backend_start :: "order_state \<Rightarrow> bool" where
  "backend_start s \<longleftrightarrow>
     (\<exists>cfg now oid number email expert name amount currency source ups rq.
        rr_status rq = Rq_matched \<and> 0 \<le> amount \<and>
        create_order_for_request cfg now oid number email expert name amount currency source ups rq = Inr s)"

abbreviation backend_reach :: "backend_config \<Rightarrow> order_state \<Rightarrow> bool" where
  "backend_reach cfg \<equiv> reach backend_start (\<lambda>s c. True) (backend_step cfg)"

end
