(* ===== verification/OrderLaw.thy ===== *)
theory OrderLaw
  imports OrderBackend
begin

text \<open>
  The contract of a law of the backend: a relation between the state before a request and the state after
  it. If each service obeys it and it only looks at the rows that count, every request of the
  machine does. The theories of the invariants interpret it.
\<close>

locale order_law =
  fixes law :: "order_state \<Rightarrow> order_state \<Rightarrow> bool"
    and cfg :: backend_config
  assumes frame_law: "\<And>s s'. os_order s' = os_order s \<Longrightarrow> os_request s' = os_request s \<Longrightarrow>
      os_deliveries s' = os_deliveries s \<Longrightarrow> os_payment s' = os_payment s \<Longrightarrow> os_payouts s' = os_payouts s \<Longrightarrow>
      os_ledger s' = os_ledger s \<Longrightarrow> os_dispute s' = os_dispute s \<Longrightarrow> law s s'"
    and request_law: "\<And>now a rc s. law s (snd (on_request now a rc s))"
    and start_law: "\<And>token a s s'. start_payment cfg token a s = Inr s' \<Longrightarrow> law s s'"
    and deliver_law: "\<And>now token a t ids s s'. submit_delivery now token a t ids s = Inr s' \<Longrightarrow> law s s'"
    and approve_law: "\<And>now actor source s s'. approve_delivery cfg now actor source s = Inr s' \<Longrightarrow> law s s'"
    and revise_law: "\<And>now a t s s'. request_revision now a t s = Inr s' \<Longrightarrow> law s s'"
    and cancel_law: "\<And>now a reason s s'. cancel_order now a reason s = Inr s' \<Longrightarrow> law s s'"
    and dispute_law: "\<And>now a reason t ids s s'. open_dispute cfg now a reason t ids s = Inr s' \<Longrightarrow> law s s'"
    and evidence_law: "\<And>a ids s. law s (snd (add_evidence a ids s))"
    and respond_law: "\<And>now a accept s s'. respond_deadline_proposal now a accept s = Inr s' \<Longrightarrow> law s s'"
    and confirm_view_law: "\<And>now token a s. law s (snd (confirm_view cfg now token a s))"
    and confirm_order_law: "\<And>now token actor s.
      law s (snd (confirm_order_payment (activate_order_on_payment now) cfg now token actor s))"
    and confirm_law: "\<And>now actor p s. os_payment s = Some p \<Longrightarrow>
      law s (snd (confirm_payment (activate_order_on_payment now) now actor p s))"
    and refund_law: "\<And>a amount reason t p s s'. os_payment s = Some p \<Longrightarrow>
      issue_refund a amount reason t p s = Inr s' \<Longrightarrow> law s s'"
    and settle_law: "\<And>now token a i y s s'. payout_at i s = Some y \<Longrightarrow>
      settle_payout cfg now token a i y s = Inr s' \<Longrightarrow> law s s'"
    and fail_law: "\<And>a t i y s s'. payout_at i s = Some y \<Longrightarrow> mark_payout_failed a t i y s = Inr s' \<Longrightarrow> law s s'"
    and move_law: "\<And>st a d s s'. os_dispute s = Some d \<Longrightarrow> st \<in> set OPEN_STATUSES \<Longrightarrow>
      dispute_transition st a d s = Inr s' \<Longrightarrow> law s s'"
    and resolve_law: "\<And>now a out t amount d s s'. os_dispute s = Some d \<Longrightarrow>
      resolve_dispute now a out t amount d s = Inr s' \<Longrightarrow> law s s'"
    and close_law: "\<And>now a d s s'. os_dispute s = Some d \<Longrightarrow> close_dispute now a d s = Inr s' \<Longrightarrow> law s s'"
    and hook_failed_law: "\<And>ref reason s. law s (handle_payment_failed ref reason s)"
    and schedule_law: "\<And>s s'. schedule_payout cfg s = Inr s' \<Longrightarrow> law s s'"
    and sweep_law: "\<And>now s. law s (sweep_unpaid now s)"
begin

lemma law_refl: "law s s"
  by (rule frame_law) simp_all

lemma atomically_law: "(\<And>s'. r = Inr s' \<Longrightarrow> law s s') \<Longrightarrow> law s (snd (atomically s r))"
  by (cases r) (simp_all add: atomically_def law_refl)

lemma as_party_law: "(\<And>s'. r = Inr s' \<Longrightarrow> law s s') \<Longrightarrow> law s (snd (as_party a s r))"
  unfolding as_party_def by (intro atomically_law) (auto simp: and_then_Inr)

lemma as_staff_law: "law s (snd r) \<Longrightarrow> law s (snd (as_staff a s b r))"
  by (simp add: as_staff_def law_refl)

lemma on_dispute_law:
  "(\<And>d s'. os_dispute s = Some d \<Longrightarrow> f d = Inr s' \<Longrightarrow> law s s') \<Longrightarrow> law s (snd (on_dispute s f))"
  by (auto simp: on_dispute_def law_refl intro!: atomically_law split: option.split)

lemma on_payout_law:
  "(\<And>y s'. payout_at i s = Some y \<Longrightarrow> f y = Inr s' \<Longrightarrow> law s s') \<Longrightarrow> law s (snd (on_payout i s f))"
  by (auto simp: on_payout_def law_refl intro!: atomically_law split: option.split)

lemma committed_law: "(\<And>s'. r = Inr s' \<Longrightarrow> law s s') \<Longrightarrow> law s (committed s r)"
  by (cases r) (simp_all add: law_refl)

lemma job_laws:
  "law s (auto_approve_due cfg now s)" "law s (payout_sweeper cfg s)" "law s (deadline_reminder now s)"
  "law s (auto_approve_warning now s)" "law s (flag_overdue now s)"
proof -
  show "law s (auto_approve_due cfg now s)"
    by (simp add: auto_approve_due_def law_refl committed_law approve_law)
  show "law s (payout_sweeper cfg s)"
    by (simp add: payout_sweeper_def law_refl committed_law schedule_law split: option.split)
qed (rule frame_law;
    auto simp: deadline_reminder_def auto_approve_warning_def flag_overdue_def notify_parties_def
      split: option.splits targets.splits)+

lemmas service_laws = start_law deliver_law approve_law revise_law cancel_law dispute_law respond_law refund_law
  resolve_law close_law

lemmas view_laws = law_refl as_party_law as_staff_law on_dispute_law on_payout_law atomically_law

text \<open>Every request obeys the law.\<close>

lemma exec_law: "law s (snd (exec cfg now token a c s))"
proof (cases c)
  case (Upload i purpose)
  show ?thesis unfolding Upload by (rule frame_law) simp_all
next
  case ConfirmRow
  show ?thesis unfolding ConfirmRow exec.simps
    by (intro as_staff_law) (simp add: law_refl confirm_law split: option.split)
next
  case FullRefund
  show ?thesis unfolding FullRefund exec.simps
    by (intro as_staff_law) (simp add: law_refl atomically_law refund_law split: option.split)
next
  case (SettlePayout i)
  show ?thesis unfolding SettlePayout exec.simps
    by (intro as_staff_law on_payout_law) (auto intro: settle_law law_refl split: if_splits)
next
  case (FailPayout i)
  show ?thesis unfolding FailPayout exec.simps
    by (intro as_staff_law on_payout_law) (auto intro: fail_law law_refl split: if_splits)
next
  case (ProposeDeadline due text1)
  show ?thesis unfolding ProposeDeadline exec.simps
    by (rule atomically_law, rule frame_law) (auto simp: propose_deadline_def split: if_splits)
next
  case (HookSucceeded ref)
  then show ?thesis by (simp add: handle_payment_succeeded_def law_refl confirm_law split: option.split)
next
  case TakeCase
  show ?thesis unfolding TakeCase exec.simps take_case_def
    by (intro as_staff_law on_dispute_law) (erule move_law [rotated 2], simp_all add: OPEN_STATUSES_def)
next
  case AwaitResponse
  show ?thesis unfolding AwaitResponse exec.simps await_response_def
    by (intro as_staff_law on_dispute_law) (erule move_law [rotated 2], simp_all add: OPEN_STATUSES_def)
next
  case ResumeReview
  show ?thesis unfolding ResumeReview exec.simps resume_review_def
    by (intro as_staff_law on_dispute_law) (erule move_law [rotated 2], simp_all add: OPEN_STATUSES_def)
qed (simp_all add: view_laws service_laws request_law evidence_law confirm_view_law confirm_order_law hook_failed_law
    sweep_law job_laws)

end

end
