(* ===== verification/OrderInvariants.thy ===== *)
theory OrderInvariants
  imports OrderLaw
begin

text \<open>
  What the backend keeps of an order, whatever happens to it: the deliveries are numbered without gap
  and the revisions within their allowance, the flag that freezes the payout is up exactly while a
  dispute is open, and the ledger adds up.
\<close>

section \<open>Results of the building blocks\<close>

lemma order_transition_Inr:
  "order_transition now to_status actor e data s = Inr s' \<longleftrightarrow>
   (\<exists>a. map_of order_TRANSITIONS (or_status (os_order s), to_status) = Some a \<and>
      s' = audit_log actor (''order.'' @ a)
             (record_event now e actor data (with_order (\<lambda>r. r\<lparr>or_status := to_status\<rparr>) s)))"
  by (auto simp: order_transition_def split: option.splits)

lemma move_request_Inr:
  "move_request now to_status reason actor s = Inr s' \<Longrightarrow>
   \<exists>r a. s' = audit_log actor a (s\<lparr>os_request := r\<rparr>)"
  by (auto simp: move_request_def and_then_Inr request_transition_def split: option.splits)

lemma notify_parties_simps [simp]:
  "os_order (notify_parties e s) = os_order s" "os_request (notify_parties e s) = os_request s"
  "os_deliveries (notify_parties e s) = os_deliveries s" "os_events (notify_parties e s) = os_events s"
  "os_payment (notify_parties e s) = os_payment s" "os_refunds (notify_parties e s) = os_refunds s"
  "os_payouts (notify_parties e s) = os_payouts s" "os_ledger (notify_parties e s) = os_ledger s"
  "os_dispute (notify_parties e s) = os_dispute s" "os_proposal (notify_parties e s) = os_proposal s"
  "os_uploads (notify_parties e s) = os_uploads s" "os_audit (notify_parties e s) = os_audit s"
  by (auto simp: notify_parties_def split: option.splits targets.splits)

lemma highest_revision_ge: "d \<in> set ds \<Longrightarrow> dr_revision d \<le> highest_revision ds"
proof -
  have "k \<le> fold max ks m \<and> m \<le> fold max ks m" if "k \<in> set ks \<union> {m}" for k :: nat and ks m
    using that by (induction ks arbitrary: m k) (auto, (metis max.bounded_iff max.cobounded1 max.cobounded2)+)
  then show "d \<in> set ds \<Longrightarrow> dr_revision d \<le> highest_revision ds"
    unfolding highest_revision_def by (metis Un_iff image_eqI image_set)
qed

lemma map_revision_update [simp]:
  "(\<And>d. dr_revision (f d) = dr_revision d) \<Longrightarrow>
   map dr_revision (os_deliveries (update_latest f s)) = map dr_revision (os_deliveries s)"
  by (simp add: update_latest_def)

lemma update_latest_simps [simp]:
  "os_order (update_latest f s) = os_order s" "os_request (update_latest f s) = os_request s"
  "os_events (update_latest f s) = os_events s" "os_payment (update_latest f s) = os_payment s"
  "os_payouts (update_latest f s) = os_payouts s" "os_ledger (update_latest f s) = os_ledger s"
  "os_dispute (update_latest f s) = os_dispute s" "os_proposal (update_latest f s) = os_proposal s"
  "os_uploads (update_latest f s) = os_uploads s" "entries_total k (update_latest f s) = entries_total k s"
  by (simp_all add: update_latest_def entries_total_def)

lemma entries_total_notify [simp]: "entries_total k (notify_parties e s) = entries_total k s"
  by (simp add: entries_total_def)

section \<open>The invariants\<close>

text \<open>The stage of the work: during a dispute, the one it interrupted.\<close>

definition work_phase :: "order_state \<Rightarrow> order_status" where
  "work_phase s =
     (if or_status (os_order s) = Disputed
      then (case os_dispute s of None \<Rightarrow> Disputed | Some d \<Rightarrow> dw_prior d)
      else or_status (os_order s))"

definition deliveries_inv :: "order_state \<Rightarrow> bool" where
  "deliveries_inv s \<longleftrightarrow>
     (let n = length (os_deliveries s); used = or_revisions_used (os_order s)
      in map dr_revision (os_deliveries s) = [0..<n] \<and> used \<le> or_revisions_allowed (os_order s) \<and>
         or_revisions_allowed (os_order s) = 2 \<and> n \<le> Suc used \<and> (work_phase s \<in> {Awaiting_payment, Active} \<longrightarrow> n = 0 \<and> used = 0) \<and>
         (work_phase s = Delivered \<longrightarrow> n = Suc used) \<and>
         (work_phase s = Revision_requested \<longrightarrow> n = used \<and> 0 < used))"

definition freeze_inv :: "order_state \<Rightarrow> bool" where
  "freeze_inv s \<longleftrightarrow>
     or_open_dispute (os_order s) = (case os_dispute s of None \<Rightarrow> False | Some d \<Rightarrow> dw_status d \<in> set OPEN_STATUSES) \<and>
     (or_status (os_order s) = Disputed \<longrightarrow> or_open_dispute (os_order s)) \<and>
     (or_open_dispute (os_order s) \<longrightarrow> or_status (os_order s) \<in> {Disputed, Cancelled}) \<and>
     (case os_dispute s of None \<Rightarrow> True
      | Some d \<Rightarrow> dw_prior d \<in> {Active, Delivered, Revision_requested, Completed})"

definition unpaid_ledger :: "order_state \<Rightarrow> bool" where
  "unpaid_ledger s \<longleftrightarrow>
     entries_total Charge s = 0 \<and> entries_total Refund s = 0 \<and> entries_total Commission s = 0 \<and>
     entries_total Expert_credit s = 0 \<and> entries_total Fee s = 0"

definition paid_ledger :: "payment_row \<Rightarrow> order_state \<Rightarrow> bool" where
  "paid_ledger p s \<longleftrightarrow>
     entries_total Charge s = pr_amount p \<and> entries_total Refund s = - pr_refunded p \<and>
     entries_total Commission s + entries_total Expert_credit s = pr_amount p - pr_refunded p \<and>
     entries_total Fee s = 0 \<and> pr_amount p = or_amount (os_order s) \<and>
     0 \<le> pr_refunded p \<and> pr_refunded p \<le> pr_amount p \<and> or_status (os_order s) \<noteq> Awaiting_payment"

definition money_inv :: "order_state \<Rightarrow> bool" where
  "money_inv s \<longleftrightarrow>
     or_commission (os_order s) + or_expert_amount (os_order s) = or_amount (os_order s) \<and>
     0 \<le> or_amount (os_order s) \<and>
     (case os_payment s of
        None \<Rightarrow> unpaid_ledger s
      | Some p \<Rightarrow>
          (if pr_paid_at p = None
           then unpaid_ledger s \<and> pr_refunded p = 0 \<and> pr_status p \<notin> {Pay_succeeded, Pay_partially_refunded}
           else paid_ledger p s))"

definition payout_inv :: "order_state \<Rightarrow> bool" where
  "payout_inv s \<longleftrightarrow>
     length (os_payouts s) \<le> 1 \<and>
     entries_total Payout s
       = - sum_list (map py_amount (filter (\<lambda>y. py_status y = Paid) (os_payouts s)))"

definition backend_inv :: "order_state \<Rightarrow> bool" where
  "backend_inv s \<longleftrightarrow> deliveries_inv s \<and> freeze_inv s \<and> money_inv s \<and> payout_inv s"

section \<open>Frames\<close>

definition money_frame where
  "money_frame s =
     (os_payment s, os_ledger s, or_amount (os_order s), or_commission (os_order s), or_expert_amount (os_order s))"

lemma money_inv_totals:
  assumes "money_inv s" "os_payment s' = os_payment s" "or_amount (os_order s') = or_amount (os_order s)"
    and "or_commission (os_order s') = or_commission (os_order s)"
    and "or_expert_amount (os_order s') = or_expert_amount (os_order s)"
    and "\<And>k. k \<noteq> Payout \<Longrightarrow> entries_total k s' = entries_total k s"
    and "or_status (os_order s') = Awaiting_payment \<Longrightarrow> or_status (os_order s) = Awaiting_payment"
  shows "money_inv s'"
proof -
  have "unpaid_ledger s' = unpaid_ledger s" by (simp add: unpaid_ledger_def assms(6))
  moreover have "paid_ledger p s \<Longrightarrow> paid_ledger p s'" for p
    using assms(7) by (auto simp: paid_ledger_def assms(3,6))
  ultimately show ?thesis
    using assms(1) unfolding money_inv_def assms(2-5) by (auto split: option.splits if_splits)
qed

lemma money_inv_frame:
  assumes "money_inv s" "money_frame s' = money_frame s"
    and "or_status (os_order s') = Awaiting_payment \<Longrightarrow> or_status (os_order s) = Awaiting_payment"
  shows "money_inv s'"
  by (rule money_inv_totals [OF assms(1)])
    (use assms(2,3) in \<open>simp_all add: money_frame_def entries_total_def\<close>)

lemma payout_inv_frame:
  assumes "payout_inv s" "os_payouts s' = os_payouts s" "os_ledger s' = os_ledger s"
  shows "payout_inv s'"
  using assms by (simp add: payout_inv_def entries_total_def)

lemma deliveries_inv_frame:
  assumes "deliveries_inv s" "work_phase s' = work_phase s"
    and "map dr_revision (os_deliveries s') = map dr_revision (os_deliveries s)"
    and "or_revisions_used (os_order s') = or_revisions_used (os_order s)"
    and "or_revisions_allowed (os_order s') = or_revisions_allowed (os_order s)"
  shows "deliveries_inv s'"
proof -
  have "length (os_deliveries s') = length (os_deliveries s)" using assms(3) by (metis length_map)
  then show ?thesis using assms(1) unfolding deliveries_inv_def Let_def assms(2-5) by simp
qed

text \<open>The status may change to Cancelled, and anywhere but to Disputed when no dispute is open.\<close>

lemma freeze_inv_frame:
  assumes "freeze_inv s" "os_dispute s' = os_dispute s"
    and "or_open_dispute (os_order s') = or_open_dispute (os_order s)"
    and "or_status (os_order s') = or_status (os_order s) \<or> or_status (os_order s') = Cancelled \<or>
      or_status (os_order s) \<notin> {Disputed, Cancelled} \<and> or_status (os_order s') \<noteq> Disputed"
  shows "freeze_inv s'"
  using assms(1,4) unfolding freeze_inv_def assms(2,3) by auto

text \<open>Operations that leave the order, its deliveries and its dispute alone.\<close>

lemma money_step:
  assumes "backend_inv s" "os_order s' = os_order s" "os_deliveries s' = os_deliveries s"
    and "os_dispute s' = os_dispute s" "money_inv s'" "payout_inv s'"
  shows "backend_inv s'"
proof -
  have "deliveries_inv s'"
    by (rule deliveries_inv_frame [of s]) (use assms in \<open>simp_all add: backend_inv_def work_phase_def\<close>)
  moreover have "freeze_inv s'"
    by (rule freeze_inv_frame [of s]) (use assms in \<open>simp_all add: backend_inv_def\<close>)
  ultimately show ?thesis using assms by (simp add: backend_inv_def)
qed

text \<open>Operations that leave the money alone.\<close>

lemma work_step:
  assumes "backend_inv s" "money_frame s' = money_frame s" "os_payouts s' = os_payouts s"
    and "or_status (os_order s') = Awaiting_payment \<Longrightarrow> or_status (os_order s) = Awaiting_payment"
    and "deliveries_inv s'" "freeze_inv s'"
  shows "backend_inv s'"
proof -
  have "money_inv s'" by (rule money_inv_frame [of s]) (use assms in \<open>simp_all add: backend_inv_def\<close>)
  moreover have "payout_inv s'"
    by (rule payout_inv_frame [of s]) (use assms in \<open>simp_all add: backend_inv_def money_frame_def\<close>)
  ultimately show ?thesis using assms by (simp add: backend_inv_def)
qed

text \<open>Operations that touch none of it.\<close>

lemma idle_step:
  assumes "backend_inv s" "os_order s' = os_order s" "os_deliveries s' = os_deliveries s"
    and "os_dispute s' = os_dispute s" "os_payment s' = os_payment s" "os_ledger s' = os_ledger s"
    and "os_payouts s' = os_payouts s"
  shows "backend_inv s'"
proof (rule money_step [OF assms(1-4)])
  show "money_inv s'"
    by (rule money_inv_frame [of s]) (use assms in \<open>simp_all add: backend_inv_def money_frame_def\<close>)
  show "payout_inv s'"
    by (rule payout_inv_frame [of s]) (use assms in \<open>simp_all add: backend_inv_def\<close>)
qed

section \<open>Every operation keeps the invariants\<close>

lemmas inv_defs = backend_inv_def deliveries_inv_def freeze_inv_def money_inv_def payout_inv_def work_phase_def
  unpaid_ledger_def paid_ledger_def Let_def

lemma transitions_never_await: "map_of order_TRANSITIONS (st, to_status) = Some a \<Longrightarrow> to_status \<noteq> Awaiting_payment"
  by (auto simp: order_TRANSITIONS_def split: if_splits)

lemma submit_delivery_cases:
  assumes "submit_delivery now token expert summary ids s = Inr s'"
  obtains d a where "or_status (os_order s) \<in> {Active, Revision_requested}"
    "dr_revision d = next_revision (os_order s)" "dr_revision d \<notin> dr_revision ` set (os_deliveries s)"
    "s' = notify_parties ''delivered''
       (audit_log (Some (acct_id expert)) a
         (record_event now (delivery_event_type (next_revision (os_order s))) (Some (acct_id expert)) []
           (with_order (\<lambda>r. r\<lparr>or_status := Delivered\<rparr>)
             (with_order (\<lambda>r. r\<lparr>or_delivered_at := Some now,
                        or_auto_approve_at := Some (now + hours AUTO_APPROVE_HOURS),
                        or_delivery_due_at := None\<rparr>)
               (s\<lparr>os_deliveries := os_deliveries s @ [d]\<rparr>)))))"
proof -
  let ?d = "\<lparr>dr_id = token, dr_revision = next_revision (os_order s), dr_summary = py_strip summary,
    dr_status = Submitted, dr_attachments = remdups ids, dr_submitted_at = Some now, dr_approved_at = None,
    dr_approval_source = []\<rparr>"
  show ?thesis
    using assms
    by (auto simp: submit_delivery_def and_then_Inr order_transition_Inr create_delivery_def expert_guard_def Let_def
        intro: that [of ?d] split: if_splits)
qed

lemma submit_delivery_inv:
  assumes "submit_delivery now token expert summary ids s = Inr s'" "backend_inv s"
  shows "backend_inv s'"
  using assms(1)
proof (cases rule: submit_delivery_cases)
  case (1 d a)
  have old: "deliveries_inv s" "freeze_inv s" using assms(2) by (simp_all add: backend_inv_def)
  have "deliveries_inv s'"
    using old(1) 1 by (auto simp: deliveries_inv_def work_phase_def Let_def next_revision_def)
  moreover have "freeze_inv s'" by (rule freeze_inv_frame [OF old(2)]) (use 1(1) in \<open>auto simp: 1(4)\<close>)
  ultimately show ?thesis
    by (intro work_step [OF assms(2)]) (simp_all add: 1 money_frame_def)
qed

lemma request_revision_cases:
  assumes "request_revision now student note s = Inr s'"
  obtains a data where
    "or_status (os_order s) = Delivered"
    "or_revisions_used (os_order s) < or_revisions_allowed (os_order s)"
    "s' = notify_parties ''revision_requested''
       (record_event now ''revision_requested'' (Some (acct_id student)) data
         (audit_log (Some (acct_id student)) a
           (record_event now ''revision_requested'' (Some (acct_id student)) []
             (with_order (\<lambda>r. r\<lparr>or_status := Revision_requested\<rparr>)
               (with_order (\<lambda>r. r\<lparr>or_revisions_used := Suc (or_revisions_used r), or_auto_approve_at := None,
                    or_delivery_due_at := Some (now + days REVISION_DUE_EXTENSION_DAYS)\<rparr>)
                 (update_latest (\<lambda>d. d\<lparr>dr_status := Changes_requested\<rparr>) s))))))"
  using assms
  by (auto simp: request_revision_def and_then_Inr order_transition_Inr student_guard_def not_le
        intro: that split: if_splits)

lemma request_revision_inv:
  assumes "request_revision now student note s = Inr s'" "backend_inv s"
  shows "backend_inv s'"
proof -
  obtain a data where st: "or_status (os_order s) = Delivered"
      "or_revisions_used (os_order s) < or_revisions_allowed (os_order s)"
    and s': "s' = notify_parties ''revision_requested''
       (record_event now ''revision_requested'' (Some (acct_id student)) data
         (audit_log (Some (acct_id student)) a
           (record_event now ''revision_requested'' (Some (acct_id student)) []
             (with_order (\<lambda>r. r\<lparr>or_status := Revision_requested\<rparr>)
               (with_order (\<lambda>r. r\<lparr>or_revisions_used := Suc (or_revisions_used r), or_auto_approve_at := None,
                    or_delivery_due_at := Some (now + days REVISION_DUE_EXTENSION_DAYS)\<rparr>)
                 (update_latest (\<lambda>d. d\<lparr>dr_status := Changes_requested\<rparr>) s))))))"
    by (rule request_revision_cases [OF assms(1)])
  have old: "deliveries_inv s" "freeze_inv s" using assms(2) by (simp_all add: backend_inv_def)
  have len: "length (os_deliveries s') = length (os_deliveries s)"
    by (simp add: s' update_latest_def)
  have "deliveries_inv s'"
    using old(1) st len by (simp add: deliveries_inv_def work_phase_def Let_def s')
  moreover have "freeze_inv s'" by (rule freeze_inv_frame [OF old(2)]) (simp_all add: s' st)
  ultimately show ?thesis
    by (intro work_step [OF assms(2)]) (simp_all add: s' money_frame_def)
qed

text \<open>A change of the request alone, and the optional steps that move it.\<close>

lemma move_request_from:
  assumes "move_request_from froms now to_status reason actor s = Inr s'"
  shows "os_order s' = os_order s" "os_deliveries s' = os_deliveries s" "os_dispute s' = os_dispute s"
    "os_payment s' = os_payment s" "os_ledger s' = os_ledger s" "os_payouts s' = os_payouts s"
  using assms by (auto simp: move_request_from_def dest!: move_request_Inr split: if_splits)

lemma schedule_payout_inv:
  assumes "schedule_payout cfg s = Inr s'" "backend_inv s"
  shows "backend_inv s'"
proof (rule money_step [OF assms(2)])
  have m: "money_inv s" and p: "payout_inv s" using assms(2) by (simp_all add: backend_inv_def)
  show "money_inv s'"
    by (rule money_inv_frame [OF m])
      (use assms(1) in \<open>auto simp: schedule_payout_def money_frame_def split: if_splits\<close>)
  show "payout_inv s'"
    using assms(1) p by (auto simp: schedule_payout_def payout_inv_def split: if_splits)
qed (use assms(1) in \<open>auto simp: schedule_payout_def split: if_splits\<close>)

text \<open>The order just after it is marked completed, before its events, its request and its payout.\<close>

definition approved_order :: "int \<Rightarrow> approval_source \<Rightarrow> order_state \<Rightarrow> order_state" where
  "approved_order now source s =
     with_order (\<lambda>r. r\<lparr>or_status := Completed\<rparr>)
       (with_order (\<lambda>r. r\<lparr>or_completed_at := Some now, or_auto_approve_at := None\<rparr>)
         (update_latest (\<lambda>d. d\<lparr>dr_status := Approved, dr_approved_at := Some now,
            dr_approval_source := source_name source\<rparr>) s))"

lemma approve_delivery_cases:
  assumes "approve_delivery cfg now actor source s = Inr s'"
  obtains a data s2 s3 s4 where "or_status (os_order s) = Delivered"
    "s2 = record_event now ''completed'' (map_option acct_id actor) data
        (audit_log (map_option acct_id actor) a (record_event now (approval_event source)
          (map_option acct_id actor) [] (approved_order now source s)))"
    "move_request_from [Rq_in_progress] now Rq_completed [] (map_option acct_id actor) s2 = Inr s3"
    "schedule_payout cfg s3 = Inr s4" "s' = notify_parties ''completed'' s4"
  using assms unfolding approved_order_def
  by (auto simp: approve_delivery_def and_then_Inr order_transition_Inr Let_def intro: that split: if_splits)

lemma approve_delivery_inv:
  assumes "approve_delivery cfg now actor source s = Inr s'" "backend_inv s"
  shows "backend_inv s'"
proof -
  obtain a data s2 s3 s4 where st: "or_status (os_order s) = Delivered"
    and s2: "s2 = record_event now ''completed'' (map_option acct_id actor) data
        (audit_log (map_option acct_id actor) a (record_event now (approval_event source)
          (map_option acct_id actor) [] (approved_order now source s)))"
    and s3: "move_request_from [Rq_in_progress] now Rq_completed [] (map_option acct_id actor) s2 = Inr s3"
    and s4: "schedule_payout cfg s3 = Inr s4" and s': "s' = notify_parties ''completed'' s4"
    by (rule approve_delivery_cases [OF assms(1)])
  note s1_def = approved_order_def
  have old: "deliveries_inv s" "freeze_inv s" using assms(2) by (simp_all add: backend_inv_def)
  have "deliveries_inv s2"
  proof -
    have "length (os_deliveries s2) = length (os_deliveries s)" by (simp add: s2 s1_def update_latest_def)
    then show ?thesis
      using old(1) by (simp add: deliveries_inv_def work_phase_def Let_def s2 s1_def)
  qed
  moreover have "freeze_inv s2" by (rule freeze_inv_frame [OF old(2)]) (simp_all add: s2 s1_def st)
  ultimately have "backend_inv s2"
    by (intro work_step [OF assms(2)]) (simp_all add: s2 s1_def money_frame_def)
  then have "backend_inv s3" by (rule idle_step) (rule move_request_from [OF s3])+
  then have "backend_inv s4" by (rule schedule_payout_inv [OF s4])
  then show ?thesis by (rule idle_step) (simp_all add: s')
qed

section \<open>Money\<close>

lemma map_sum_InrE:
  assumes "map_sum f id r = Inr x"
  obtains "r = Inr x"
  using assms by (cases r) auto

lemma charge_entries_cases:
  obtains c n where
    "charge_entries p s = ledger_entry Expert_credit n (pr_currency p) (Some (or_expert (os_order s)))
       (ledger_entry Commission c (pr_currency p) None
         (ledger_entry Charge (pr_amount p) (pr_currency p) (Some (or_student (os_order s))) s))"
    "or_commission (os_order s) + or_expert_amount (os_order s) = pr_amount p \<Longrightarrow> c + n = pr_amount p"
proof (cases "or_commission (os_order s) = 0")
  case True
  then show ?thesis
    using that [of "snd (commission_split (pr_amount p) (or_rate (os_order s)))"
        "fst (commission_split (pr_amount p) (or_rate (os_order s)))"]
      commission_split_sum [of "pr_amount p" "or_rate (os_order s)"]
    by (simp add: charge_entries_def Let_def case_prod_unfold)
next
  case False
  then show ?thesis
    using that [of "or_expert_amount (os_order s)" "or_commission (os_order s)"]
    by (simp add: charge_entries_def Let_def)
qed

text \<open>A payment of an order that awaits one has not been charged.\<close>

lemma awaiting_unpaid:
  assumes "backend_inv s" "os_payment s = Some p" "or_status (os_order s) = Awaiting_payment"
  shows "pr_paid_at p = None" "pr_refunded p = 0" "unpaid_ledger s"
  using assms by (auto simp: backend_inv_def money_inv_def paid_ledger_def split: if_splits)

lemma mark_paid_cases:
  assumes "mark_paid now actor via s = Inr s'"
  obtains b data s1 s2 where
    "s1 = record_event now ''payment_confirmed'' (map_option acct_id actor) data
             (audit_log (map_option acct_id actor) b
               (record_event now ''payment_confirmed'' (map_option acct_id actor) []
                 (with_order (\<lambda>r. r\<lparr>or_status := Active\<rparr>) (with_order (\<lambda>r. r\<lparr>or_paid_at := Some now\<rparr>) s))))"
    "move_request_from [Rq_matched] now Rq_in_progress [] (map_option acct_id actor) s1 = Inr s2"
    "s' = notify_parties ''order_active'' s2"
  using assms
  by (auto simp: mark_paid_def and_then_Inr order_transition_Inr Let_def intro: that split: if_splits)

lemma mark_paid_inv:
  assumes "mark_paid now actor via s = Inr s'"
    and "or_status (os_order s) = Awaiting_payment" "deliveries_inv s" "freeze_inv s" "payout_inv s"
    and "os_payment s = Some p" "pr_paid_at p \<noteq> None"
    and "or_commission (os_order s) + or_expert_amount (os_order s) = or_amount (os_order s)"
    and "0 \<le> or_amount (os_order s)"
    and "entries_total Charge s = pr_amount p" "entries_total Refund s = 0" "pr_refunded p = 0"
    and "entries_total Commission s + entries_total Expert_credit s = pr_amount p" "entries_total Fee s = 0"
    and "pr_amount p = or_amount (os_order s)"
  shows "backend_inv s'"
proof -
  obtain b data s1 s2 where
      s1: "s1 = record_event now ''payment_confirmed'' (map_option acct_id actor) data
             (audit_log (map_option acct_id actor) b
               (record_event now ''payment_confirmed'' (map_option acct_id actor) []
                 (with_order (\<lambda>r. r\<lparr>or_status := Active\<rparr>) (with_order (\<lambda>r. r\<lparr>or_paid_at := Some now\<rparr>) s))))"
    and s2: "move_request_from [Rq_matched] now Rq_in_progress [] (map_option acct_id actor) s1 = Inr s2"
    and s': "s' = notify_parties ''order_active'' s2"
    by (rule mark_paid_cases [OF assms(1)])
  have "deliveries_inv s1" using assms(2,3) by (simp add: s1 deliveries_inv_def work_phase_def Let_def)
  moreover have "freeze_inv s1" by (rule freeze_inv_frame [OF assms(4)]) (simp_all add: s1 assms(2))
  moreover have "payout_inv s1" by (rule payout_inv_frame [OF assms(5)]) (simp_all add: s1)
  moreover have "money_inv s1"
    using assms(6-15) by (auto simp: money_inv_def paid_ledger_def s1)
  ultimately have "backend_inv s1" by (simp add: backend_inv_def)
  then have "backend_inv s2" by (rule idle_step) (rule move_request_from [OF s2])+
  then show ?thesis by (rule idle_step) (simp_all add: s')
qed

lemma confirm_payment_inv:
  assumes "confirm_payment (activate_order_on_payment now) now actor p s = (e, s')"
    and "backend_inv s" "os_payment s = Some p"
  shows "backend_inv s'"
proof (cases "confirm_payment_atomic (activate_order_on_payment now) now actor p s")
  case (Inl x)
  show ?thesis
  proof (cases x)
    case (Inl reason)
    then have s': "s' = mark_payment_failed reason p s"
      using assms(1) \<open>confirm_payment_atomic _ now actor p s = Inl x\<close> by (simp add: confirm_payment_def)
    show ?thesis
    proof (rule money_step [OF assms(2)])
      show "money_inv s'"
        using assms(2,3) unfolding s'
        by (auto simp: mark_payment_failed_def backend_inv_def money_inv_def unpaid_ledger_def
            paid_ledger_def open_payment_def split: if_splits)
      show "payout_inv s'"
        by (rule payout_inv_frame [of s]) (use assms(2) in \<open>simp_all add: s' mark_payment_failed_def backend_inv_def\<close>)
    qed (simp_all add: s' mark_payment_failed_def)
  next
    case (Inr err)
    then have "s' = s"
      using assms(1) \<open>confirm_payment_atomic _ now actor p s = Inl x\<close> by (simp add: confirm_payment_def)
    then show ?thesis using assms(2) by simp
  qed
next
  case (Inr x)
  define q where "q = p\<lparr>pr_status := Pay_succeeded, pr_paid_at := Some now\<rparr>"
  have st: "or_status (os_order s) = Awaiting_payment" and amt: "pr_amount p = or_amount (os_order s)"
    and m: "mark_paid now None (pr_gateway q)
        (audit_log actor ''payment.confirm'' (charge_entries q (s\<lparr>os_payment := Some q\<rparr>))) = Inr s'"
    using assms(1) Inr
    by (auto simp: confirm_payment_def confirm_payment_atomic_def Let_def q_def activate_order_on_payment_def
        split: if_splits sum.splits bool.splits elim!: map_sum_InrE)
  note un = awaiting_unpaid [OF assms(2,3) st]
  obtain c n where ce: "charge_entries q (s\<lparr>os_payment := Some q\<rparr>)
      = ledger_entry Expert_credit n (pr_currency q) (Some (or_expert (os_order s)))
         (ledger_entry Commission c (pr_currency q) None
           (ledger_entry Charge (pr_amount q) (pr_currency q) (Some (or_student (os_order s)))
             (s\<lparr>os_payment := Some q\<rparr>)))"
    and cn: "or_commission (os_order s) + or_expert_amount (os_order s) = pr_amount q \<Longrightarrow> c + n = pr_amount q"
    by (rule charge_entries_cases [of q "s\<lparr>os_payment := Some q\<rparr>"]) simp
  have old: "deliveries_inv s" "freeze_inv s" "payout_inv s"
      "or_commission (os_order s) + or_expert_amount (os_order s) = or_amount (os_order s)"
      "0 \<le> or_amount (os_order s)"
    using assms(2) by (simp_all add: backend_inv_def money_inv_def)
  have q: "pr_amount q = pr_amount p" "pr_refunded q = pr_refunded p" "pr_paid_at q = Some now"
    by (simp_all add: q_def)
  show ?thesis
  proof (rule mark_paid_inv [OF m, where p = q])
    show "deliveries_inv (audit_log actor ''payment.confirm'' (charge_entries q (s\<lparr>os_payment := Some q\<rparr>)))"
      by (rule deliveries_inv_frame [OF old(1)]) (simp_all add: ce work_phase_def)
    show "freeze_inv (audit_log actor ''payment.confirm'' (charge_entries q (s\<lparr>os_payment := Some q\<rparr>)))"
      by (rule freeze_inv_frame [OF old(2)]) (simp_all add: ce)
    show "payout_inv (audit_log actor ''payment.confirm'' (charge_entries q (s\<lparr>os_payment := Some q\<rparr>)))"
      using old(3) by (simp add: payout_inv_def ce)
  qed (use st amt un old cn in \<open>simp_all add: ce q unpaid_ledger_def\<close>)
qed

lemma payment_or_new_cases:
  assumes "payment_or_new cfg token s = Inr s1"
  obtains (old) p where "s1 = s" "os_payment s = Some p"
    | (new) p where "os_payment s = None" "s1 = s\<lparr>os_payment := Some p\<rparr>" "pr_paid_at p = None"
        "pr_refunded p = 0" "pr_status p = Pay_pending"
  using assms
  by (cases "os_payment s")
    (auto simp: payment_or_new_def and_then_Inr create_payment_row_def gateway_call_def Let_def
      intro: new old split: if_splits)

lemma payment_or_new_inv:
  assumes "payment_or_new cfg token s = Inr s1" "backend_inv s"
  shows "backend_inv s1"
  using assms(1)
proof (cases rule: payment_or_new_cases)
  case (new p)
  show ?thesis
  proof (rule money_step [OF assms(2)])
    show "money_inv s1" using assms(2) new
      by (simp add: backend_inv_def money_inv_def unpaid_ledger_def)
    show "payout_inv s1"
      by (rule payout_inv_frame [of s]) (use assms(2) new in \<open>simp_all add: backend_inv_def\<close>)
  qed (simp_all add: new)
qed (use assms(2) in simp)

lemma start_payment_cases:
  assumes "start_payment cfg token actor s = Inr s'"
  obtains s1 p where
    "or_status (os_order s) = Awaiting_payment"
    "payment_or_new cfg token s = Inr s1"
    "os_payment s1 = Some p"
    "pr_status p \<noteq> Pay_succeeded"
    "s' = s1 \<or> s' = audit_log (Some (acct_id actor)) ''payment.start''
        (s1\<lparr>os_payment := Some (rearmed cfg token (os_order s1) p)\<rparr>)"
  using assms
  by (auto simp: start_payment_def and_then_Inr split: if_splits option.splits)

lemma start_payment_inv:
  assumes "start_payment cfg token actor s = Inr s'" "backend_inv s"
  shows "backend_inv s'"
proof -
  obtain s1 p where st: "or_status (os_order s) = Awaiting_payment" and s1: "payment_or_new cfg token s = Inr s1"
    and p: "os_payment s1 = Some p" "pr_status p \<noteq> Pay_succeeded"
    and s': "s' = s1 \<or> s' = audit_log (Some (acct_id actor)) ''payment.start''
        (s1\<lparr>os_payment := Some (rearmed cfg token (os_order s1) p)\<rparr>)"
    by (rule start_payment_cases [OF assms(1)])
  note inv = payment_or_new_inv [OF s1 assms(2)]
  have "or_status (os_order s1) = Awaiting_payment"
    using s1 st by (cases rule: payment_or_new_cases) simp_all
  note un = awaiting_unpaid [OF inv p(1) this]
  from s' show ?thesis
  proof
    assume s': "s' = audit_log (Some (acct_id actor)) ''payment.start''
        (s1\<lparr>os_payment := Some (rearmed cfg token (os_order s1) p)\<rparr>)"
    show ?thesis
    proof (rule money_step [OF inv])
      show "money_inv s'" using inv un
        by (simp add: s' backend_inv_def money_inv_def unpaid_ledger_def rearmed_def)
      show "payout_inv s'"
        by (rule payout_inv_frame [of s1]) (use inv in \<open>simp_all add: backend_inv_def s'\<close>)
    qed (simp_all add: s')
  qed (use inv in simp)
qed

text \<open>What an operator's confirmation comes down to.\<close>

lemma confirm_order_payment_cases:
  assumes "confirm_order_payment confirmed cfg now token actor s = (e, s')"
  obtains "s' = s" | "payment_or_new cfg token s = Inr s'"
    | s1 p where "payment_or_new cfg token s = Inr s1" "os_payment s1 = Some p"
        "confirm_payment confirmed now actor p s1 = (e, s')"
  using assms by (auto simp: confirm_order_payment_def split: if_splits sum.splits option.splits)

lemma confirm_order_payment_inv:
  assumes "confirm_order_payment (activate_order_on_payment now) cfg now token actor s = (e, s')" "backend_inv s"
  shows "backend_inv s'"
  using assms(1)
proof (cases rule: confirm_order_payment_cases)
  case 2 then show ?thesis using payment_or_new_inv assms(2) by blast
next
  case 3 then show ?thesis using confirm_payment_inv payment_or_new_inv assms(2) by blast
qed (use assms(2) in simp)

lemma void_payment_inv:
  assumes "backend_inv s"
  shows "backend_inv (void_payment_for_order now actor s)"
proof (rule money_step [OF assms])
  show "money_inv (void_payment_for_order now actor s)"
    using assms
    by (auto simp: void_payment_for_order_def backend_inv_def money_inv_def unpaid_ledger_def paid_ledger_def
        open_payment_def split: option.splits if_splits)
  show "payout_inv (void_payment_for_order now actor s)"
    by (rule payout_inv_frame [of s])
      (use assms in \<open>simp_all add: backend_inv_def void_payment_for_order_def split: option.split\<close>)
qed (simp_all add: void_payment_for_order_def split: option.split)

lemma handle_payment_failed_inv:
  assumes "backend_inv s"
  shows "backend_inv (handle_payment_failed ref reason s)"
proof (rule money_step [OF assms])
  show "money_inv (handle_payment_failed ref reason s)"
    using assms
    by (auto simp: handle_payment_failed_def backend_inv_def money_inv_def unpaid_ledger_def paid_ledger_def
        split: option.splits if_splits)
  show "payout_inv (handle_payment_failed ref reason s)"
    by (rule payout_inv_frame [of s])
      (use assms in \<open>simp_all add: backend_inv_def handle_payment_failed_def split: option.split\<close>)
qed (simp_all add: handle_payment_failed_def split: option.split)

lemma issue_refund_cases:
  assumes "issue_refund by amount reason note p s = Inr s'"
  obtains x y rows where
    "allocate amount [max (or_commission (os_order s)) 0, max (or_expert_amount (os_order s)) 0]
        = Some [x, y]"
    "pr_status p \<in> {Pay_succeeded, Pay_partially_refunded}"
    "0 < amount"
    "amount \<le> pr_amount p - pr_refunded p"
    "s' = audit_log (Some (acct_id by)) ''payment.refund'' (refund_entries p amount x y
        (s\<lparr>os_refunds := rows, os_payment := Some (refund_payment amount p)\<rparr>))"
  using assms
  by (auto simp: issue_refund_def and_then_Inr split: if_splits option.splits list.splits)

lemma issue_refund_inv:
  assumes "issue_refund by amount reason note p s = Inr s'" "backend_inv s" "os_payment s = Some p"
  shows "backend_inv s'"
proof -
  obtain x y rows where r: "allocate amount [max (or_commission (os_order s)) 0, max (or_expert_amount (os_order s)) 0]
        = Some [x, y]"
    and g: "pr_status p \<in> {Pay_succeeded, Pay_partially_refunded}" "0 < amount" "amount \<le> pr_amount p - pr_refunded p"
    and s': "s' = audit_log (Some (acct_id by)) ''payment.refund'' (refund_entries p amount x y
        (s\<lparr>os_refunds := rows, os_payment := Some (refund_payment amount p)\<rparr>))"
    by (rule issue_refund_cases [OF assms(1)])
  have xy: "x + y = amount" using allocate_parts(2) [OF r] by simp
  have paid: "pr_paid_at p \<noteq> None" "paid_ledger p s"
    using assms(2,3) g(1) by (auto simp: backend_inv_def money_inv_def split: if_splits)
  show ?thesis
  proof (rule money_step [OF assms(2)])
    show "money_inv s'"
      using assms(2) paid g xy
      by (auto simp: s' backend_inv_def money_inv_def paid_ledger_def refund_entries_def refund_payment_def Let_def)
    show "payout_inv s'"
      using assms(2) by (simp add: s' backend_inv_def payout_inv_def refund_entries_def Let_def)
  qed (simp_all add: s' refund_entries_def Let_def)
qed

lemma settle_payout_cases:
  assumes "settle_payout cfg now token actor i y s = Inr s'" "payout_at i s = Some y"
  obtains ref where
    "py_status y \<noteq> Paid"
    "i < length (os_payouts s)"
    "os_payouts s ! i = y"
    "s' = notify_user (py_expert y) ''payout_paid''
          (audit_log (Some (acct_id actor)) ''payout.settle''
            (ledger_entry Payout (- py_amount y) (py_currency y) (Some (py_expert y))
              (set_payout i (y\<lparr>py_status := Paid, py_reference := ref, py_failure_reason := [],
                               py_settled_at := Some now\<rparr>) s)))"
  using assms
  by (auto simp: settle_payout_def and_then_Inr payout_at_def split: if_splits)

lemma settle_payout_inv:
  assumes "settle_payout cfg now token actor i y s = Inr s'" "backend_inv s" "payout_at i s = Some y"
  shows "backend_inv s'"
proof -
  obtain ref where g: "py_status y \<noteq> Paid" "i < length (os_payouts s)" "os_payouts s ! i = y"
    and s': "s' = notify_user (py_expert y) ''payout_paid''
          (audit_log (Some (acct_id actor)) ''payout.settle''
            (ledger_entry Payout (- py_amount y) (py_currency y) (Some (py_expert y))
              (set_payout i (y\<lparr>py_status := Paid, py_reference := ref, py_failure_reason := [],
                               py_settled_at := Some now\<rparr>) s)))"
    by (rule settle_payout_cases [OF assms(1,3)])
  have one: "os_payouts s = [y]" "i = 0"
    using assms(2) g by (cases "os_payouts s"; force simp: backend_inv_def payout_inv_def)+
  have lift: "entries_total k (set_payout i z s) = entries_total k s" for k z
    by (simp add: set_payout_def entries_total_def)
  show ?thesis
  proof (rule money_step [OF assms(2)])
    show "money_inv s'"
      by (rule money_inv_totals [of s])
        (use assms(2) in \<open>simp_all add: s' backend_inv_def lift, simp_all add: set_payout_def\<close>)
    show "payout_inv s'"
      using assms(2) g one by (simp add: s' backend_inv_def payout_inv_def set_payout_def lift)
  qed (simp_all add: s' set_payout_def)
qed

text \<open>A change of the payout that leaves it unpaid.\<close>

lemma set_unpaid_payout_inv:
  assumes "backend_inv s" "i < length (os_payouts s)" "py_status (os_payouts s ! i) \<noteq> Paid" "py_status z \<noteq> Paid"
  shows "backend_inv (set_payout i z s)"
proof -
  obtain y where one: "os_payouts s = [y]" "i = 0"
    using assms(1,2) by (cases "os_payouts s"; force simp: backend_inv_def payout_inv_def)
  show ?thesis
  proof (rule money_step [OF assms(1)])
    show "money_inv (set_payout i z s)"
      by (rule money_inv_frame [of s])
        (use assms(1) in \<open>simp_all add: backend_inv_def money_frame_def set_payout_def\<close>)
    show "payout_inv (set_payout i z s)"
      using assms one by (simp add: backend_inv_def payout_inv_def set_payout_def entries_total_def)
  qed (simp_all add: set_payout_def)
qed

lemma mark_payout_failed_inv:
  assumes "mark_payout_failed actor reason i y s = Inr s'" "backend_inv s" "i < length (os_payouts s)"
    and "os_payouts s ! i = y"
  shows "backend_inv s'"
proof -
  define z where "z = y\<lparr>py_status := Payout_failed, py_failure_reason := take 255 reason\<rparr>"
  have g: "py_status y \<noteq> Paid" and s': "s' = notify_user (py_expert y) ''payout_failed''
      (audit_log (Some (acct_id actor)) ''payout.fail'' (set_payout i z s))"
    using assms(1) by (auto simp: mark_payout_failed_def z_def split: if_splits)
  have "backend_inv (set_payout i z s)"
    by (rule set_unpaid_payout_inv) (use assms(2-4) g in \<open>simp_all add: z_def\<close>)
  then show ?thesis by (rule idle_step) (simp_all add: s')
qed

section \<open>Cancellation, disputes, jobs\<close>

text \<open>A transition to a status that puts no demand on the deliveries.\<close>

lemma ended_deliveries:
  assumes "deliveries_inv s" "map dr_revision (os_deliveries s') = map dr_revision (os_deliveries s)"
    and "or_revisions_used (os_order s') = or_revisions_used (os_order s)"
    and "or_revisions_allowed (os_order s') = or_revisions_allowed (os_order s)"
    and "work_phase s' \<in> {Completed, Cancelled}"
  shows "deliveries_inv s'"
proof -
  have "length (os_deliveries s') = length (os_deliveries s)" using assms(2) by (metis length_map)
  then show ?thesis using assms(1,5) unfolding deliveries_inv_def Let_def assms(2-4) by auto
qed

lemma cancel_order_cases:
  assumes "cancel_order now actor reason s = Inr s'"
  obtains a s1 s3 where
    "s1 = audit_log (Some (acct_id actor)) a (record_event now ''cancelled'' (Some (acct_id actor)) []
         (with_order (\<lambda>r. r\<lparr>or_status := Cancelled\<rparr>)
           (with_order (\<lambda>r. r\<lparr>or_cancelled_at := Some now, or_cancelled_by := Some (acct_id actor),
                or_cancellation_reason := take 200 reason\<rparr>) s)))"
    "move_request_from [Rq_matched, Rq_in_progress] now Rq_cancelled reason (Some (acct_id actor))
        (void_payment_for_order now (Some (acct_id actor)) s1) = Inr s3"
    "s' = notify_parties ''cancelled'' s3"
  using assms
  by (auto simp: cancel_order_def and_then_Inr order_transition_Inr Let_def intro: that split: if_splits)

lemma cancel_order_inv:
  assumes "cancel_order now actor reason s = Inr s'" "backend_inv s"
  shows "backend_inv s'"
proof -
  obtain a s1 s3 where
      s1: "s1 = audit_log (Some (acct_id actor)) a (record_event now ''cancelled'' (Some (acct_id actor)) []
         (with_order (\<lambda>r. r\<lparr>or_status := Cancelled\<rparr>)
           (with_order (\<lambda>r. r\<lparr>or_cancelled_at := Some now, or_cancelled_by := Some (acct_id actor),
                or_cancellation_reason := take 200 reason\<rparr>) s)))"
    and s3: "move_request_from [Rq_matched, Rq_in_progress] now Rq_cancelled reason (Some (acct_id actor))
        (void_payment_for_order now (Some (acct_id actor)) s1) = Inr s3"
    and s': "s' = notify_parties ''cancelled'' s3"
    by (rule cancel_order_cases [OF assms(1)])
  have old: "deliveries_inv s" "freeze_inv s" using assms(2) by (simp_all add: backend_inv_def)
  have "deliveries_inv s1" by (rule ended_deliveries [OF old(1)]) (simp_all add: s1 work_phase_def)
  moreover have "freeze_inv s1" by (rule freeze_inv_frame [OF old(2)]) (simp_all add: s1)
  ultimately have "backend_inv s1"
    by (intro work_step [OF assms(2)]) (simp_all add: s1 money_frame_def)
  note void_payment_inv [OF this, of now "Some (acct_id actor)"]
  then have "backend_inv s3" by (rule idle_step) (rule move_request_from [OF s3])+
  then show ?thesis by (rule idle_step) (simp_all add: s')
qed

lemma sweep_unpaid_inv:
  assumes "backend_inv s"
  shows "backend_inv (sweep_unpaid now s)"
proof -
  have old: "deliveries_inv s" "freeze_inv s" using assms by (simp_all add: backend_inv_def)
  define s1 where "s1 = with_order (\<lambda>r. r\<lparr>or_status := Cancelled\<rparr>)
    (with_order (\<lambda>r. r\<lparr>or_cancelled_at := Some now, or_cancellation_reason := ''Unpaid for 72 hours''\<rparr>) s)"
  have "deliveries_inv s1" by (rule ended_deliveries [OF old(1)]) (simp_all add: s1_def work_phase_def)
  moreover have "freeze_inv s1" by (rule freeze_inv_frame [OF old(2)]) (simp_all add: s1_def)
  ultimately have inv: "backend_inv s1"
    by (intro work_step [OF assms]) (simp_all add: s1_def money_frame_def)
  have "sweep_unpaid now s = s \<or>
      (\<exists>a. sweep_unpaid now s = audit_log None a (record_event now ''cancelled'' None [] s1))"
    by (auto simp: sweep_unpaid_def order_transition_def s1_def split: option.split)
  then show ?thesis
  proof
    assume "\<exists>a. sweep_unpaid now s = audit_log None a (record_event now ''cancelled'' None [] s1)"
    then obtain a where e: "sweep_unpaid now s = audit_log None a (record_event now ''cancelled'' None [] s1)"
      by blast
    show ?thesis unfolding e by (rule idle_step [OF inv]) simp_all
  qed (use assms in simp)
qed

lemma freeze_payout_simps [simp]:
  "os_order (freeze_payout b s) = (os_order s)\<lparr>or_open_dispute := b\<rparr>"
  "os_deliveries (freeze_payout b s) = os_deliveries s" "os_payment (freeze_payout b s) = os_payment s"
  "os_payouts (freeze_payout b s) = os_payouts s" "os_ledger (freeze_payout b s) = os_ledger s"
  "os_dispute (freeze_payout b s) = os_dispute s" "entries_total k (freeze_payout b s) = entries_total k s"
  by (simp_all add: freeze_payout_def)

lemma new_dispute_simps [simp]:
  "dw_prior (new_dispute now actor reason description ids s) = or_status (os_order s)"
  "dw_status (new_dispute now actor reason description ids s) = DOpen"
  by (simp_all add: new_dispute_def)

lemma open_dispute_cases:
  assumes "open_dispute cfg now actor reason description ids s = Inr s'"
  obtains a c ev where
    "os_dispute s = None"
    "\<not> window_closed cfg now (os_order s)"
    "s' = notify_user c ''dispute_opened''
      (audit_log (Some (acct_id actor)) ''messaging.thread_created''
        (audit_log (Some (acct_id actor)) ''dispute.opened''
          (audit_log None a (record_event now ''dispute_opened'' None []
            (with_order (\<lambda>r. r\<lparr>or_status := Disputed\<rparr>) (freeze_payout True
              (s\<lparr>os_dispute := Some (new_dispute now actor reason description ev s)\<rparr>)))))))"
  using assms
  by (auto simp: open_dispute_def and_then_Inr order_transition_Inr intro: that split: if_splits)

lemma open_dispute_inv:
  assumes "open_dispute cfg now actor reason description ids s = Inr s'" "backend_inv s"
  shows "backend_inv s'"
proof -
  obtain a c ev where g: "os_dispute s = None" "\<not> window_closed cfg now (os_order s)"
    and s': "s' = notify_user c ''dispute_opened''
      (audit_log (Some (acct_id actor)) ''messaging.thread_created''
        (audit_log (Some (acct_id actor)) ''dispute.opened''
          (audit_log None a (record_event now ''dispute_opened'' None []
            (with_order (\<lambda>r. r\<lparr>or_status := Disputed\<rparr>) (freeze_payout True
              (s\<lparr>os_dispute := Some (new_dispute now actor reason description ev s)\<rparr>)))))))"
    by (rule open_dispute_cases [OF assms(1)])
  have st: "or_status (os_order s) \<in> {Active, Delivered, Revision_requested, Completed}"
    using g(2) by (auto simp: window_closed_def DISPUTABLE_STATUSES_def split: if_splits)
  have old: "deliveries_inv s" using assms(2) by (simp add: backend_inv_def)
  have "work_phase s = or_status (os_order s)" using st by (auto simp: work_phase_def)
  then have "deliveries_inv s'"
    by (intro deliveries_inv_frame [OF old]) (simp_all add: s' work_phase_def)
  moreover have "freeze_inv s'" using st by (simp add: freeze_inv_def s' OPEN_STATUSES_def)
  ultimately show ?thesis
    by (intro work_step [OF assms(2)]) (simp_all add: s' money_frame_def)
qed

text \<open>A change of the dispute's row that keeps it open or keeps it closed, and its prior status.\<close>

lemma dispute_row_inv:
  assumes "backend_inv s" "os_dispute s = Some d" "dw_prior d' = dw_prior d"
    and "dw_status d' \<in> set OPEN_STATUSES \<longleftrightarrow> dw_status d \<in> set OPEN_STATUSES"
    and "os_dispute s' = Some d'" "os_order s' = os_order s" "os_deliveries s' = os_deliveries s"
    and "os_payment s' = os_payment s" "os_ledger s' = os_ledger s" "os_payouts s' = os_payouts s"
  shows "backend_inv s'"
proof (rule work_step [OF assms(1)])
  show "deliveries_inv s'"
    by (rule deliveries_inv_frame [of s]) (use assms in \<open>simp_all add: backend_inv_def work_phase_def\<close>)
  show "freeze_inv s'"
    using assms(1) unfolding backend_inv_def freeze_inv_def assms(2,5,6) option.case assms(3,4) by blast
qed (use assms in \<open>simp_all add: money_frame_def\<close>)

lemma dispute_transition_inv:
  assumes "dispute_transition to_status actor d s = Inr s'" "backend_inv s" "os_dispute s = Some d"
    and "to_status \<in> set OPEN_STATUSES"
  shows "backend_inv s'"
proof -
  obtain a where a: "map_of dispute_TRANSITIONS (dw_status d, to_status) = Some a"
    and s': "s' = audit_log (Some (acct_id actor)) a (s\<lparr>os_dispute := Some (d\<lparr>dw_status := to_status\<rparr>)\<rparr>)"
    using assms(1) by (auto simp: dispute_transition_def split: if_splits option.splits)
  have "dw_status d \<in> set OPEN_STATUSES"
    using a assms(4) by (auto simp: dispute_TRANSITIONS_def OPEN_STATUSES_def split: if_splits)
  then show ?thesis
    by (intro dispute_row_inv [OF assms(2,3), of "d\<lparr>dw_status := to_status\<rparr>"]) (simp_all add: s' assms(4))
qed

lemma close_dispute_inv:
  assumes "close_dispute now actor d s = Inr s'" "backend_inv s" "os_dispute s = Some d"
  shows "backend_inv s'"
proof -
  have g: "dw_status d = Resolved"
    and s': "s' = audit_log (Some (acct_id actor)) ''disputes.closed''
          (s\<lparr>os_dispute := Some (d\<lparr>dw_status := DClosed, dw_closed_at := Some now\<rparr>)\<rparr>)"
    using assms(1) by (auto simp: close_dispute_def dispute_TRANSITIONS_def split: if_splits)
  show ?thesis
    by (rule dispute_row_inv [OF assms(2,3), of "d\<lparr>dw_status := DClosed, dw_closed_at := Some now\<rparr>"])
      (simp_all add: s' g OPEN_STATUSES_def)
qed

lemma add_files_row:
  "add_files actor ups ids d = (e, d') \<Longrightarrow> dw_prior d' = dw_prior d \<and> dw_status d' = dw_status d"
  by (induction actor ups ids d rule: add_files.induct) (auto split: option.splits if_splits)

lemma add_evidence_inv:
  assumes "add_evidence actor ids s = (e, s')" "backend_inv s"
  shows "backend_inv s'"
proof -
  show ?thesis
  proof (cases "os_dispute s")
    case (Some d)
    obtain x d' where f: "add_files actor (os_uploads s) ids d = (x, d')" by (cases "add_files actor (os_uploads s) ids d")
    have "s' = s \<or> s' = s\<lparr>os_dispute := Some d'\<rparr>"
      using assms(1) Some f by (auto simp: add_evidence_def split: if_splits)
    moreover have "backend_inv (s\<lparr>os_dispute := Some d'\<rparr>)"
      using add_files_row [OF f] by (intro dispute_row_inv [OF assms(2) Some, of d']) simp_all
    ultimately show ?thesis using assms(2) by metis
  qed (use assms in \<open>simp add: add_evidence_def\<close>)
qed

text \<open>The money of a resolution leaves the order and the dispute alone.\<close>

lemma resolve_money_cases:
  assumes "resolve_money actor out refund_amount s = Inr s'"
  obtains p amount s1 where
    "os_payment s = Some p"
    "issue_refund actor amount ''dispute_resolution'' ''Dispute'' p s = Inr s1"
    "s' = s1 \<or> void_scheduled_payout actor s1 = Inr s'"
  using assms
  by (auto simp: resolve_money_def and_then_Inr Let_def split: option.splits if_splits)

lemma resolve_money_inv:
  assumes "resolve_money actor out refund_amount s = Inr s'" "backend_inv s"
  shows "backend_inv s'" "os_order s' = os_order s" "os_dispute s' = os_dispute s"
    "os_deliveries s' = os_deliveries s"
proof -
  obtain p amount s1 where p: "os_payment s = Some p"
    and r: "issue_refund actor amount ''dispute_resolution'' ''Dispute'' p s = Inr s1"
    and v: "s' = s1 \<or> void_scheduled_payout actor s1 = Inr s'"
    by (rule resolve_money_cases [OF assms(1)])
  have f: "os_order s1 = os_order s" "os_dispute s1 = os_dispute s" "os_deliveries s1 = os_deliveries s"
    using r by (auto simp: issue_refund_def and_then_Inr refund_entries_def Let_def
        split: if_splits option.splits list.splits)
  note inv = issue_refund_inv [OF r assms(2) p]
  have "backend_inv s' \<and> os_order s' = os_order s1 \<and> os_dispute s' = os_dispute s1 \<and>
      os_deliveries s' = os_deliveries s1"
    using v
  proof
    assume v: "void_scheduled_payout actor s1 = Inr s'"
    show ?thesis
    proof (cases "unpaid_payout s1")
      case (Some i)
      then have "i < length (os_payouts s1)" by (auto simp: unpaid_payout_def find_Some_iff)
      with v Some mark_payout_failed_inv [OF _ inv this refl] show ?thesis
        by (auto simp: void_scheduled_payout_def mark_payout_failed_def set_payout_def split: if_splits)
    qed (use v inv in \<open>simp add: void_scheduled_payout_def\<close>)
  qed (use inv in simp)
  then show "backend_inv s'" "os_order s' = os_order s" "os_dispute s' = os_dispute s"
      "os_deliveries s' = os_deliveries s"
    using f by simp_all
qed

lemma correct_payout_inv:
  assumes "backend_inv s"
  shows "backend_inv (correct_payout actor s)"
proof (cases "unpaid_payout s")
  case (Some i)
  then have i: "i < length (os_payouts s)" "py_status (os_payouts s ! i) \<noteq> Paid"
    by (auto simp: unpaid_payout_def find_Some_iff)
  have "backend_inv (set_payout i ((os_payouts s ! i)\<lparr>py_amount := expert_credit_balance s\<rparr>) s)"
    by (rule set_unpaid_payout_inv [OF assms i]) (simp add: i)
  then have "backend_inv (audit_log (Some (acct_id actor)) ''payout.adjusted_dispute''
      (set_payout i ((os_payouts s ! i)\<lparr>py_amount := expert_credit_balance s\<rparr>) s))"
    by (rule idle_step) simp_all
  then show ?thesis using Some by (simp add: correct_payout_def)
qed (use assms in \<open>simp add: correct_payout_def\<close>)

text \<open>Unfreezing and correcting the payout may change places.\<close>

lemma adjust_freeze:
  "adjust_payout actor out (freeze_payout b s) = freeze_payout b (adjust_payout actor out s)"
  by (simp add: adjust_payout_def correct_payout_def unpaid_payout_def freeze_payout_def with_order_def
      set_payout_def audit_log_def expert_credit_balance_def entries_total_def split: option.split)

lemma adjust_payout_simps [simp]:
  "os_order (adjust_payout actor out s) = os_order s"
  "os_deliveries (adjust_payout actor out s) = os_deliveries s"
  "os_dispute (adjust_payout actor out s) = os_dispute s"
  by (simp_all add: adjust_payout_def correct_payout_def set_payout_def split: option.split)

lemma resolve_order_cases:
  assumes "resolve_order now new s = Inr s'"
  obtains a where "new \<noteq> or_status (os_order s)"
      "map_of order_TRANSITIONS (or_status (os_order s), new) = Some a"
      "s' = audit_log None (''order.'' @ a)
        (record_event now ''dispute_resolved'' None [] (with_order (\<lambda>r. r\<lparr>or_status := new\<rparr>) s))"
    | "new = or_status (os_order s)" "s' = record_event now ''dispute_resolved'' None [] s"
  using assms by (auto simp: resolve_order_def order_transition_Inr split: if_splits)

lemma resolve_dispute_cases:
  assumes "resolve_dispute now actor outcome notes refund_amount d s = Inr s'"
  obtains out s1 s4 where
    "map_of dispute_TRANSITIONS (dw_status d, Resolved) \<noteq> None"
    "resolve_refund actor out refund_amount s = Inr s1"
    "resolve_order now (outcome_status out (dw_prior d))
        (freeze_payout False (adjust_payout actor out s1)) = Inr s4"
    "s' = notify_user (or_expert (os_order s4)) ''dispute_resolved''
          (notify_user (or_student (os_order s4)) ''dispute_resolved''
            (audit_log (Some (acct_id actor)) ''disputes.resolved''
              (s4\<lparr>os_dispute := Some (resolved_row now actor out notes d)\<rparr>)))"
  using assms
  by (auto simp: resolve_dispute_def and_then_Inr adjust_freeze intro: that split: if_splits option.splits)

lemma resolve_dispute_inv:
  assumes "resolve_dispute now actor outcome notes refund_amount d s = Inr s'" "backend_inv s"
    and "os_dispute s = Some d"
  shows "backend_inv s'"
proof -
  obtain out s1 s4 where
      legal_rev: "map_of dispute_TRANSITIONS (dw_status d, Resolved) \<noteq> None"
    and s1: "resolve_refund actor out refund_amount s = Inr s1"
    and s4: "resolve_order now (outcome_status out (dw_prior d))
        (freeze_payout False (adjust_payout actor out s1)) = Inr s4"
    and s': "s' = notify_user (or_expert (os_order s4)) ''dispute_resolved''
          (notify_user (or_student (os_order s4)) ''dispute_resolved''
            (audit_log (Some (acct_id actor)) ''disputes.resolved''
              (s4\<lparr>os_dispute := Some (resolved_row now actor out notes d)\<rparr>)))"
    by (rule resolve_dispute_cases [OF assms(1)])
  define t where "t = adjust_payout actor out s1"
  have d1: "backend_inv s1" "os_dispute s1 = Some d"
    using s1 assms(2,3) resolve_money_inv by (auto simp: resolve_refund_def split: if_splits)
  have inv: "backend_inv t"
    using correct_payout_inv [OF d1(1), of actor] d1(1) by (simp add: t_def adjust_payout_def)
  have dt: "os_dispute t = Some d" by (simp add: t_def d1(2))
  have op: "dw_status d \<in> set OPEN_STATUSES"
    using legal_rev by (auto simp: dispute_TRANSITIONS_def OPEN_STATUSES_def split: if_splits)
  then have st: "or_status (os_order t) \<in> {Disputed, Cancelled}"
    and prior: "dw_prior d \<in> {Active, Delivered, Revision_requested, Completed}"
    using inv dt by (simp_all add: backend_inv_def freeze_inv_def)
  let ?new = "outcome_status out (dw_prior d)"
  have new: "?new \<in> {Cancelled, Completed, dw_prior d}" by (cases out) simp_all
  have legal: "or_status (os_order t) = Disputed \<or> ?new = Cancelled"
    using s4 st by (cases rule: resolve_order_cases)
      (auto simp: t_def order_TRANSITIONS_def split: if_splits)
  have s'_order: "os_order s' = (os_order t)\<lparr>or_open_dispute := False, or_status := ?new\<rparr>"
    and s'_rows: "os_deliveries s' = os_deliveries t" "os_payment s' = os_payment t"
      "os_payouts s' = os_payouts t" "os_ledger s' = os_ledger t"
    using s4 by (cases rule: resolve_order_cases; simp add: s' t_def [symmetric])+
  have s'_dispute: "os_dispute s' = Some (resolved_row now actor out notes d)" by (simp add: s')
  have "?new \<noteq> Disputed" using new prior by auto
  then have ph: "work_phase s' = ?new" by (simp add: work_phase_def s'_order)
  have rev: "map dr_revision (os_deliveries s') = map dr_revision (os_deliveries t)"
    "or_revisions_used (os_order s') = or_revisions_used (os_order t)"
    "or_revisions_allowed (os_order s') = or_revisions_allowed (os_order t)"
    by (simp_all add: s'_order s'_rows)
  have old: "deliveries_inv t" using inv by (simp add: backend_inv_def)
  have "deliveries_inv s'"
  proof (cases "?new \<in> {Completed, Cancelled}")
    case True
    show ?thesis by (rule ended_deliveries [OF old rev]) (use True ph in simp)
  next
    case False
    then have "?new = dw_prior d" "or_status (os_order t) = Disputed" using new legal by blast+
    then have "work_phase s' = work_phase t" using ph dt by (simp add: work_phase_def)
    then show ?thesis by (rule deliveries_inv_frame [OF old _ rev])
  qed
  moreover have "freeze_inv s'"
    using new prior by (auto simp: freeze_inv_def s'_order s'_dispute resolved_row_def OPEN_STATUSES_def)
  moreover have "or_status (os_order s') \<noteq> Awaiting_payment" using new prior by (auto simp: s'_order)
  ultimately show ?thesis
    by (intro work_step [OF inv]) (simp_all add: money_frame_def s'_order s'_rows)
qed

section \<open>Deadlines and jobs\<close>

lemma propose_deadline_inv:
  assumes "propose_deadline now actor due note s = Inr s'" "backend_inv s"
  shows "backend_inv s'"
  by (rule idle_step [OF assms(2)]) (use assms(1) in \<open>auto simp: propose_deadline_def split: if_splits\<close>)

lemma respond_deadline_proposal_inv:
  assumes "respond_deadline_proposal now actor accept s = Inr s'" "backend_inv s"
  shows "backend_inv s'"
proof -
  have f: "os_deliveries s' = os_deliveries s" "os_dispute s' = os_dispute s" "os_payouts s' = os_payouts s"
      "os_payment s' = os_payment s" "os_ledger s' = os_ledger s"
      "os_order s' = os_order s \<or> (\<exists>due. os_order s' = (os_order s)\<lparr>or_delivery_due_at := due\<rparr>)"
    using assms(1)
    by (auto simp: respond_deadline_proposal_def split: if_splits option.splits)
  obtain due where ord: "os_order s' = (os_order s)\<lparr>or_delivery_due_at := due\<rparr>"
    using f(6)
  proof
    assume "os_order s' = os_order s"
    then show ?thesis using that [of "or_delivery_due_at (os_order s)"] by (cases "os_order s") simp
  qed (use that in blast)
  have old: "deliveries_inv s" "freeze_inv s" using assms(2) by (simp_all add: backend_inv_def)
  have "deliveries_inv s'"
    by (rule deliveries_inv_frame [OF old(1)]) (simp_all add: ord f(1-5) work_phase_def)
  moreover have "freeze_inv s'" by (rule freeze_inv_frame [OF old(2)]) (simp_all add: ord f(1-5))
  ultimately show ?thesis
    by (intro work_step [OF assms(2)]) (simp_all add: ord f(1-5) money_frame_def)
qed

section \<open>The machine keeps them\<close>

lemma confirm_view_inv:
  assumes "backend_inv s"
  shows "backend_inv (snd (confirm_view cfg now token a s))"
proof -
  obtain e s' where r: "confirm_view cfg now token a s = (e, s')" by (cases "confirm_view cfg now token a s")
  consider "s' = s" | s1 where "s1 = s \<or> start_payment cfg token a s = Inr s1"
      "s' = s1 \<or> (\<exists>p. os_payment s1 = Some p \<and>
         confirm_payment (activate_order_on_payment now) now (Some (acct_id a)) p s1 = (e, s'))"
    using r by (auto simp: confirm_view_def and_then_Inr split: if_splits sum.splits option.splits)
  then have "backend_inv s'"
  proof cases
    case 2
    then have "backend_inv s1" using assms start_payment_inv by blast
    then show ?thesis using 2 confirm_payment_inv by blast
  qed (use assms in simp)
  then show ?thesis by (simp add: r)
qed

lemma confirm_payment_snd:
  "backend_inv s \<Longrightarrow> os_payment s = Some p \<Longrightarrow>
   backend_inv (snd (confirm_payment (activate_order_on_payment now) now actor p s))"
  using confirm_payment_inv by (cases "confirm_payment (activate_order_on_payment now) now actor p s") auto

lemma fold_audit_log_kept [simp]:
  "os_order (fold (audit_log u) acts s) = os_order s" "os_request (fold (audit_log u) acts s) = os_request s"
  "os_deliveries (fold (audit_log u) acts s) = os_deliveries s" "os_payment (fold (audit_log u) acts s) = os_payment s"
  "os_payouts (fold (audit_log u) acts s) = os_payouts s" "os_ledger (fold (audit_log u) acts s) = os_ledger s"
  "os_dispute (fold (audit_log u) acts s) = os_dispute s"
  by (induction acts arbitrary: s) simp_all

lemma on_request_kept:
  "os_order (snd (on_request now a rc s)) = os_order s"
  "os_deliveries (snd (on_request now a rc s)) = os_deliveries s"
  "os_payment (snd (on_request now a rc s)) = os_payment s"
  "os_payouts (snd (on_request now a rc s)) = os_payouts s"
  "os_ledger (snd (on_request now a rc s)) = os_ledger s"
  "os_dispute (snd (on_request now a rc s)) = os_dispute s"
  by (simp_all add: on_request_def split: prod.split)

interpretation stable: order_law "\<lambda>s s'. backend_inv s \<longrightarrow> backend_inv s'" cfg for cfg
proof
  show "backend_inv s \<longrightarrow> backend_inv s'"
    if "os_order s' = os_order s" "os_deliveries s' = os_deliveries s" "os_payment s' = os_payment s"
      "os_payouts s' = os_payouts s" "os_ledger s' = os_ledger s" "os_dispute s' = os_dispute s" for s s'
    using idle_step [of s s'] that by blast
  show "backend_inv s \<longrightarrow> backend_inv (snd (on_request now a rc s))" for now a rc s
    using idle_step [of s "snd (on_request now a rc s)"] by (simp add: on_request_kept)
  show "backend_inv s \<longrightarrow> backend_inv (snd (add_evidence a ids s))" for a ids s
    using add_evidence_inv by (cases "add_evidence a ids s") auto
  show "backend_inv s \<longrightarrow>
      backend_inv (snd (confirm_order_payment (activate_order_on_payment now) cfg now token actor s))" for now token actor s
    using confirm_order_payment_inv
    by (cases "confirm_order_payment (activate_order_on_payment now) cfg now token actor s") auto
  show "backend_inv s \<longrightarrow> backend_inv s'"
    if "payout_at i s = Some y" "mark_payout_failed a t i y s = Inr s'" for a t i y s s'
    using that mark_payout_failed_inv by (auto simp: payout_at_def split: if_splits)
  show "backend_inv s \<longrightarrow> backend_inv s'"
    if "os_dispute s = Some d" "st \<in> set OPEN_STATUSES" "dispute_transition st a d s = Inr s'" for st a d s s'
    using that dispute_transition_inv by blast
qed (rule impI;
    (erule (1) start_payment_inv submit_delivery_inv approve_delivery_inv request_revision_inv cancel_order_inv
        open_dispute_inv respond_deadline_proposal_inv schedule_payout_inv
     | erule (2) issue_refund_inv settle_payout_inv resolve_dispute_inv close_dispute_inv
     | erule confirm_view_inv handle_payment_failed_inv sweep_unpaid_inv
     | erule (1) confirm_payment_snd))+

lemma exec_inv: "backend_inv s \<Longrightarrow> backend_inv (snd (exec cfg now token a c s))"
  using stable.exec_law by blast

lemma create_order_inv:
  assumes "create_order_for_request cfg now oid number email expert name amount currency source ups rq = Inr s"
    and "0 \<le> amount"
  shows "backend_inv s"
  using assms commission_split_sum [of amount "rate_for_source cfg source"]
  by (auto simp: create_order_for_request_def case_prod_unfold Let_def inv_defs entries_total_def
      audit_log_def record_event_def split: if_splits)

interpretation order_backend: machine backend_start "\<lambda>s c. True" "backend_step cfg" backend_inv for cfg
proof unfold_locales
  show "backend_inv s" if "backend_start s" for s
    using that create_order_inv by (auto simp: backend_start_def)
  show "backend_inv (backend_step cfg s e)" if "backend_inv s" for s e
    using exec_inv [OF that] by (cases e) auto
qed

end
