(* ===== verification/OrderGuarantees.thy ===== *)
theory OrderGuarantees
  imports OrderInvariants
begin

text \<open>
  What the backend guarantees of an order: its books balance, its deliveries are numbered, no money
  leaves while a dispute is open, and the work can always be brought to its end.
\<close>

section \<open>What each operation keeps\<close>

text \<open>The rest of the order, of one operation after the other: its status, and where the money is not touched.\<close>

definition same_money :: "order_state \<Rightarrow> order_state \<Rightarrow> bool" where
  "same_money s s' \<longleftrightarrow> os_payment s' = os_payment s \<and> os_ledger s' = os_ledger s \<and> os_payouts s' = os_payouts s"

lemma same_money_payout: "same_money s s' \<Longrightarrow> entries_total k s' = entries_total k s"
  by (simp add: same_money_def entries_total_def)

lemma submit_delivery_kept:
  assumes "submit_delivery now token expert summary ids s = Inr s'"
  shows "or_status (os_order s') = Delivered \<and> same_money s s'"
  using assms by (cases rule: submit_delivery_cases) (simp add: same_money_def)

lemma request_revision_kept:
  assumes "request_revision now student text1 s = Inr s'"
  shows "or_status (os_order s') = Revision_requested \<and> same_money s s'"
  using assms by (cases rule: request_revision_cases) (simp add: same_money_def)

lemma schedule_payout_kept:
  assumes "schedule_payout cfg s = Inr s'"
  shows "os_order s' = os_order s \<and> os_payment s' = os_payment s \<and> os_ledger s' = os_ledger s"
  using assms by (auto simp: schedule_payout_def split: if_splits)

lemma approve_delivery_kept:
  assumes "approve_delivery cfg now actor source s = Inr s'"
  shows "or_status (os_order s') = Completed \<and> os_payment s' = os_payment s \<and> os_ledger s' = os_ledger s"
  using assms
proof (cases rule: approve_delivery_cases)
  case (1 a data s2 s3 s4)
  then show ?thesis
    using move_request_from [OF 1(3)] schedule_payout_kept [OF 1(4)] by (simp add: approved_order_def)
qed

lemma void_payment_kept:
  "os_order (void_payment_for_order now actor s) = os_order s"
  "os_ledger (void_payment_for_order now actor s) = os_ledger s"
  "os_payouts (void_payment_for_order now actor s) = os_payouts s"
  by (simp_all add: void_payment_for_order_def split: option.split)

lemma cancel_order_kept:
  assumes "cancel_order now actor reason s = Inr s'"
  shows "or_status (os_order s') = Cancelled \<and> os_ledger s' = os_ledger s \<and> os_payouts s' = os_payouts s"
  using assms
proof (cases rule: cancel_order_cases)
  case (1 a s1 s3)
  then show ?thesis using move_request_from [OF 1(2)] by (simp add: void_payment_kept)
qed

lemma open_dispute_kept:
  assumes "open_dispute cfg now actor reason description ids s = Inr s'"
  shows "or_status (os_order s') = Disputed \<and> same_money s s'"
  using assms by (cases rule: open_dispute_cases) (simp add: same_money_def)

lemma payment_or_new_kept:
  assumes "payment_or_new cfg token s = Inr s'"
  shows "os_order s' = os_order s \<and> os_ledger s' = os_ledger s \<and> os_payouts s' = os_payouts s"
  using assms by (cases rule: payment_or_new_cases) simp_all

lemma start_payment_kept:
  assumes "start_payment cfg token actor s = Inr s'"
  shows "os_order s' = os_order s \<and> os_ledger s' = os_ledger s \<and> os_payouts s' = os_payouts s"
  using assms
proof (cases rule: start_payment_cases)
  case (1 s1 p)
  then show ?thesis using payment_or_new_kept [OF 1(2)] by auto
qed

lemma mark_paid_kept:
  assumes "mark_paid now actor via s = Inr s'"
  shows "or_status (os_order s') = Active \<and> os_payment s' = os_payment s \<and> os_ledger s' = os_ledger s \<and>
    os_payouts s' = os_payouts s"
  using assms
proof (cases rule: mark_paid_cases)
  case (1 b data s1 s2)
  then show ?thesis using move_request_from [OF 1(2)] by simp
qed

section \<open>Only a settlement pays out\<close>

abbreviation paid_out :: "order_state \<Rightarrow> int" where
  "paid_out s \<equiv> entries_total Payout s"

lemma paid_out_cong: "os_ledger s' = os_ledger s \<Longrightarrow> paid_out s' = paid_out s"
  by (rule entries_total_cong)

lemma set_payout_paid_out [simp]: "paid_out (set_payout i y s) = paid_out s"
  by (simp add: set_payout_def entries_total_def)

lemma confirm_payment_paid_out:
  assumes "confirm_payment (activate_order_on_payment now) now actor p s = (e, s')"
  shows "paid_out s' = paid_out s"
proof (cases "confirm_payment_atomic (activate_order_on_payment now) now actor p s")
  case (Inl x)
  then show ?thesis
    using assms
    by (auto simp: confirm_payment_def mark_payment_failed_def split: sum.splits)
next
  case (Inr x)
  define q where "q = p\<lparr>pr_status := Pay_succeeded, pr_paid_at := Some now\<rparr>"
  have m: "mark_paid now None (pr_gateway q)
        (audit_log actor ''payment.confirm'' (charge_entries q (s\<lparr>os_payment := Some q\<rparr>))) = Inr s'"
    using assms Inr
    by (auto simp: confirm_payment_def confirm_payment_atomic_def Let_def q_def activate_order_on_payment_def
        split: if_splits sum.splits bool.splits elim!: map_sum_InrE)
  have "paid_out (charge_entries q t) = paid_out t" for t
    by (rule charge_entries_cases [of q t]) simp
  then have "paid_out (audit_log actor ''payment.confirm'' (charge_entries q (s\<lparr>os_payment := Some q\<rparr>))) = paid_out s"
    by simp
  moreover have "paid_out s' = paid_out (audit_log actor ''payment.confirm'' (charge_entries q (s\<lparr>os_payment := Some q\<rparr>)))"
    by (rule paid_out_cong) (use mark_paid_kept [OF m] in blast)
  ultimately show ?thesis by simp
qed

lemma confirm_payment_snd_paid_out [simp]:
  "paid_out (snd (confirm_payment (activate_order_on_payment now) now actor p s)) = paid_out s"
  using confirm_payment_paid_out by (cases "confirm_payment (activate_order_on_payment now) now actor p s") auto

lemma confirm_view_paid_out: "paid_out (snd (confirm_view cfg now token a s)) = paid_out s"
proof (cases "and_then (view_role a s) (\<lambda>_. if os_payment s = None then start_payment cfg token a s else Inr s)")
  case (Inr s1)
  have "paid_out s1 = paid_out s"
    using Inr start_payment_kept [of cfg token a s s1] paid_out_cong [of s1 s]
    by (auto simp: and_then_Inr split: if_splits)
  then show ?thesis using Inr by (simp add: confirm_view_def split: option.split)
qed (simp add: confirm_view_def)

lemma confirm_order_payment_paid_out:
  assumes "confirm_order_payment (activate_order_on_payment now) cfg now token actor s = (e, s')"
  shows "paid_out s' = paid_out s"
proof -
  have new: "paid_out s1 = paid_out s" if "payment_or_new cfg token s = Inr s1" for s1
    by (rule paid_out_cong) (use payment_or_new_kept [OF that] in blast)
  show ?thesis
    using assms
  proof (cases rule: confirm_order_payment_cases)
    case 2 then show ?thesis by (rule new)
  next
    case (3 s1 p) then show ?thesis using new [OF 3(1)] confirm_payment_paid_out [OF 3(3)] by simp
  qed simp
qed

lemma issue_refund_paid_out:
  assumes "issue_refund by amount reason text1 p s = Inr s'"
  shows "paid_out s' = paid_out s"
  using assms
proof (cases rule: issue_refund_cases)
  case (1 x y rows)
  show ?thesis unfolding 1(5) by (simp add: refund_entries_def Let_def)
qed

lemma mark_payout_failed_paid_out:
  "mark_payout_failed actor reason i y s = Inr s' \<Longrightarrow> paid_out s' = paid_out s"
  by (auto simp: mark_payout_failed_def split: if_splits)

lemma resolve_refund_paid_out:
  assumes "resolve_refund actor out amount s = Inr s'"
  shows "paid_out s' = paid_out s"
proof (cases "refunds out")
  case False
  then show ?thesis using assms by (simp add: resolve_refund_def)
next
  case True
  then have "resolve_money actor out amount s = Inr s'" using assms by (simp add: resolve_refund_def)
  then show ?thesis
    proof (cases rule: resolve_money_cases)
      case (1 p amt s1)
      have "paid_out s1 = paid_out s" using 1(2) by (rule issue_refund_paid_out)
      moreover have "paid_out s' = paid_out s1"
        using 1(3)
      proof
        assume "void_scheduled_payout actor s1 = Inr s'"
        then show ?thesis
        proof (cases "unpaid_payout s1")
          case (Some i)
          with \<open>void_scheduled_payout actor s1 = Inr s'\<close>
          have "mark_payout_failed actor ''Order refunded by dispute resolution'' i (os_payouts s1 ! i) s1 = Inr s'"
            by (simp only: void_scheduled_payout_def option.case)
          then show ?thesis by (rule mark_payout_failed_paid_out)
        qed (simp add: void_scheduled_payout_def)
      qed simp
      ultimately show ?thesis by simp
    qed
qed

lemma resolve_dispute_paid_out:
  assumes "resolve_dispute now actor outcome text1 amount d s = Inr s'"
  shows "paid_out s' = paid_out s"
  using assms
proof (cases rule: resolve_dispute_cases)
  case (1 out s1 s4)
  have "paid_out (adjust_payout actor out s1) = paid_out s1"
    by (simp add: adjust_payout_def correct_payout_def split: option.split)
  moreover have "paid_out s4 = paid_out (freeze_payout False (adjust_payout actor out s1))"
    using 1(3) by (cases rule: resolve_order_cases) simp_all
  ultimately show ?thesis using resolve_refund_paid_out [OF 1(2)] 1(4) by simp
qed

lemma dispute_transition_paid_out:
  "dispute_transition to_status actor d s = Inr s' \<Longrightarrow> paid_out s' = paid_out s"
  by (auto simp: dispute_transition_def split: if_splits option.splits)

text \<open>While a dispute is open, no service and so no request pays out.\<close>

definition disputed :: "order_state \<Rightarrow> bool" where
  "disputed s \<longleftrightarrow> os_dispute s \<noteq> None \<and> or_open_dispute (os_order s)"

interpretation frozen: order_law "\<lambda>s s'. disputed s \<longrightarrow> paid_out s' = paid_out s" cfg for cfg
proof
  show "disputed s \<longrightarrow> paid_out s' = paid_out s" if "os_ledger s' = os_ledger s" for s s'
    using paid_out_cong [OF that] by simp
  show "disputed s \<longrightarrow> paid_out (snd (on_request now a rc s)) = paid_out s" for now a rc s
    using paid_out_cong [of "snd (on_request now a rc s)" s] by (simp add: on_request_kept)
  show "disputed s \<longrightarrow> paid_out (snd (add_evidence a ids s)) = paid_out s" for a ids s
    by (simp add: add_evidence_def split: option.split prod.split)
  show "disputed s \<longrightarrow> paid_out s' = paid_out s" if "respond_deadline_proposal now a accept s = Inr s'" for now a accept s s'
    using that by (auto simp: respond_deadline_proposal_def split: if_splits option.splits)
  show "disputed s \<longrightarrow> paid_out (snd (confirm_view cfg now token a s)) = paid_out s" for now token a s
    by (simp add: confirm_view_paid_out)
  show "disputed s \<longrightarrow>
      paid_out (snd (confirm_order_payment (activate_order_on_payment now) cfg now token actor s)) = paid_out s"
    for now token actor s
    using confirm_order_payment_paid_out
    by (cases "confirm_order_payment (activate_order_on_payment now) cfg now token actor s") auto
  show "disputed s \<longrightarrow>
      paid_out (snd (confirm_payment (activate_order_on_payment now) now actor p s)) = paid_out s" for now actor p s
    by (simp add: confirm_payment_snd_paid_out)
  show "disputed s \<longrightarrow> paid_out s' = paid_out s" if "settle_payout cfg now token a i y s = Inr s'" for now token a i y s s'
    using that by (simp add: disputed_def settle_payout_def split: if_splits)
  show "disputed s \<longrightarrow> paid_out s' = paid_out s" if "close_dispute now a d s = Inr s'" for now a d s s'
    using that by (auto simp: close_dispute_def split: if_splits)
  show "disputed s \<longrightarrow> paid_out (handle_payment_failed ref reason s) = paid_out s" for ref reason s
    by (simp add: handle_payment_failed_def split: option.split)
  show "disputed s \<longrightarrow> paid_out (sweep_unpaid now s) = paid_out s" for now s
    by (auto simp: sweep_unpaid_def order_transition_def split: option.split)
  show "disputed s \<longrightarrow> paid_out s' = paid_out s" if "start_payment cfg token a s = Inr s'" for token a s s'
    using paid_out_cong start_payment_kept [OF that] by blast
  show "disputed s \<longrightarrow> paid_out s' = paid_out s" if "approve_delivery cfg now actor source s = Inr s'" for now actor source s s'
    using paid_out_cong approve_delivery_kept [OF that] by blast
  show "disputed s \<longrightarrow> paid_out s' = paid_out s" if "cancel_order now a reason s = Inr s'" for now a reason s s'
    using paid_out_cong cancel_order_kept [OF that] by blast
  show "disputed s \<longrightarrow> paid_out s' = paid_out s" if "schedule_payout cfg s = Inr s'" for s s'
    using paid_out_cong schedule_payout_kept [OF that] by blast
qed (rule impI;
    erule issue_refund_paid_out mark_payout_failed_paid_out dispute_transition_paid_out resolve_dispute_paid_out
      same_money_payout [OF conjunct2 [OF submit_delivery_kept]]
      same_money_payout [OF conjunct2 [OF request_revision_kept]]
      same_money_payout [OF conjunct2 [OF open_dispute_kept]])+

lemma exec_paid_out:
  assumes "os_dispute s = Some d" "or_open_dispute (os_order s)"
  shows "paid_out (snd (exec cfg now token a c s)) = paid_out s"
  using frozen.exec_law [of s cfg now token a c] assms by (simp add: disputed_def)

section \<open>A delivery never collides\<close>

lemma create_delivery_next:
  assumes "deliveries_inv s" "or_status (os_order s) \<in> {Active, Revision_requested}"
    and "dr_revision d = next_revision (os_order s)"
  shows "create_delivery d s = Inr (s\<lparr>os_deliveries := os_deliveries s @ [d]\<rparr>)"
proof -
  have "dr_revision ` set (os_deliveries s) = {0..<length (os_deliveries s)}"
    using assms(1) by (metis atLeast_upt atLeastLessThan_upt deliveries_inv_def image_set)
  moreover have "length (os_deliveries s) \<le> next_revision (os_order s)"
    using assms(1,2) by (auto simp: deliveries_inv_def work_phase_def next_revision_def Let_def)
  ultimately show ?thesis using assms(3) by (simp add: create_delivery_def)
qed

lemma no_server_error:
  "DomainError m c \<noteq> server_error" "PermissionDeniedError m \<noteq> server_error"
  by (simp_all add: DomainError_def PermissionDeniedError_def server_error_def)

lemma order_transition_no_server_error: "order_transition now st actor e data s \<noteq> Inl server_error"
  by (simp add: order_transition_def no_server_error split: option.split)

lemma and_then_Inl: "and_then r f = Inl e \<longleftrightarrow> r = Inl e \<or> (\<exists>x. r = Inr x \<and> f x = Inl e)"
  by (cases r) simp_all

lemma submit_delivery_no_server_error:
  assumes "deliveries_inv s"
  shows "submit_delivery now token expert summary ids s \<noteq> Inl server_error"
proof (cases "or_status (os_order s) \<in> {Active, Revision_requested}")
  case True
  show ?thesis
    unfolding submit_delivery_def Let_def create_delivery_next [OF assms True delivery_row.select_convs(2)] and_then.simps
    by (simp add: and_then_Inl order_transition_no_server_error expert_guard_def no_server_error)
next
  case False
  then show ?thesis by (simp add: submit_delivery_def expert_guard_def no_server_error)
qed

section \<open>A sample order\<close>

definition matched_request :: db_request where
  "matched_request =
     \<lparr>rr_id = ''r1'', rr_student = 1, rr_mode = Open_mode, rr_title = ''Proofs'', rr_category = ''homework'',
      rr_description = ''Ten exercises'', rr_subject = Some 4, rr_budget_min = None, rr_budget_max = Some 12000,
      rr_deadline = None, rr_status = Rq_matched, rr_attested_at = Some 0, rr_policy_version = [],
      rr_offer_count = 1, rr_expires_at = None, rr_reopened_at = None, rr_closed_at = None,
      rr_closed_reason = []\<rparr>"

definition booked_order :: order_state where
  "booked_order =
     projr (create_order_for_request default_config 0 ''o1'' ''SL-1'' ''ada@example.org'' 2 ''Dr. Babbage'' 10000 ''USD'' Open_bid
       [] matched_request)"

lemma booked_order_reach: "backend_reach cfg booked_order"
proof (rule reach.intros(1))
  have "create_order_for_request default_config 0 ''o1'' ''SL-1'' ''ada@example.org'' 2 ''Dr. Babbage'' 10000 ''USD'' Open_bid
       [] matched_request = Inr booked_order"
    by (simp add: booked_order_def create_order_for_request_def matched_request_def case_prod_unfold Let_def)
  moreover have "rr_status matched_request = Rq_matched" by (simp add: matched_request_def)
  ultimately show "backend_start booked_order"
    unfolding backend_start_def by (intro exI conjI) (assumption, simp_all)
qed

lemma booked_order_fields:
  "os_order booked_order =
     \<lparr>or_id = ''o1'', or_number = ''SL-1'', or_student = 1, or_student_email = ''ada@example.org'',
      or_expert = 2, or_expert_name = ''Dr. Babbage'', or_source = Open_bid, or_amount = 10000,
      or_currency = ''USD'', or_rate = 1500, or_commission = fst (commission_split 10000 1500),
      or_expert_amount = snd (commission_split 10000 1500), or_status = Awaiting_payment, or_deadline = None,
      or_revisions_allowed = 2, or_revisions_used = 0, or_created_at = 0, or_accepted_at = Some 0,
      or_paid_at = None, or_delivered_at = None, or_open_dispute = False, or_completed_at = None,
      or_cancelled_at = None, or_cancelled_by = None, or_cancellation_reason = [], or_auto_approve_at = None,
      or_delivery_due_at = None\<rparr>"
  "os_request booked_order = matched_request" "os_deliveries booked_order = []" "os_payment booked_order = None"
  "os_payouts booked_order = []" "os_ledger booked_order = []" "os_dispute booked_order = None"
  "os_uploads booked_order = []" "os_proposal booked_order = None"
  by (simp_all add: booked_order_def create_order_for_request_def matched_request_def case_prod_unfold Let_def
      rate_for_source_def default_config_def audit_log_def record_event_def)

section \<open>Properties\<close>

text \<open>
  C14: Whatever is done to an order through the services, and in whichever order, its ledger balances: what was charged less
  what was refunded is the platform's commission and the expert's credit. The order is charged at most
  once and in full, no more is refunded than was charged, the refunds on the ledger are those on the
  payment, and at most one payout exists, whose settlement is what the ledger says was paid out.
\<close>

theorem ledger_balanced:
  assumes "backend_reach cfg s"
  shows "ledger_check s \<and> entries_total Charge s \<in> {0, or_amount (os_order s)} \<and>
    0 \<le> - entries_total Refund s \<and> - entries_total Refund s \<le> entries_total Charge s \<and>
    (case os_payment s of None \<Rightarrow> entries_total Charge s = 0 | Some p \<Rightarrow> entries_total Refund s = - pr_refunded p) \<and>
    length (os_payouts s) \<le> 1 \<and>
    entries_total Payout s = - sum_list (map py_amount (filter (\<lambda>y. py_status y = Paid) (os_payouts s)))"
  using order_backend.reach_inv [OF assms]
  by (auto simp: backend_inv_def money_inv_def payout_inv_def ledger_check_def unpaid_ledger_def paid_ledger_def
      split: option.splits if_splits)

theorem ledger_balanced_witness:
  "entries_total Charge booked_order \<in> {0, 10000} \<and> length (os_payouts booked_order) \<le> 1"
  using ledger_balanced [OF booked_order_reach [of default_config]] by (simp add: booked_order_fields)

text \<open>
  C15: The deliveries of an order are numbered from 0 without gap and the revisions used stay within
  the allowance, so that the number a delivery gets is free and no delivery is answered by the error
  of the database. This is of deliveries made through the service; the administration site can write them by hand.
\<close>

theorem deliveries_numbered:
  assumes "backend_reach cfg s"
  shows "map dr_revision (os_deliveries s) = [0..<length (os_deliveries s)] \<and>
    or_revisions_used (os_order s) \<le> or_revisions_allowed (os_order s) \<and>
    length (os_deliveries s) \<le> Suc (or_revisions_allowed (os_order s)) \<and>
    fst (exec cfg now token a (Deliver summary ids) s) \<noteq> Some server_error"
proof -
  have d: "deliveries_inv s" using order_backend.reach_inv [OF assms] by (simp add: backend_inv_def)
  have "fst (exec cfg now token a (Deliver summary ids) s) \<noteq> Some server_error"
    using submit_delivery_no_server_error [OF d, of now token a summary ids]
    by (auto simp: as_party_def atomically_def view_role_def no_server_error split: sum.split)
  then show ?thesis using d by (auto simp: deliveries_inv_def Let_def)
qed

theorem deliveries_numbered_witness:
  "fst (exec default_config 0 [] \<lparr>acct_id = 2, acct_staff = False\<rparr> (Deliver [] []) booked_order) \<noteq> Some server_error"
  using deliveries_numbered [OF booked_order_reach] by blast

end
