(* ===== verification/OrderTerms.thy ===== *)
theory OrderTerms
  imports OrderGuarantees
begin

text \<open>
  The terms of an order: who it is between, what it costs and what each side gets, and the request it is
  for. Nothing the backend offers changes them, and the request never becomes open again.
\<close>

section \<open>What is agreed\<close>

definition past_match :: "request_status \<Rightarrow> bool" where
  "past_match st \<longleftrightarrow> st \<in> {Rq_matched, Rq_in_progress, Rq_completed, Rq_cancelled}"

type_synonym order_terms =
  "(string \<times> string \<times> int \<times> int \<times> int \<times> string \<times> int \<times> int) \<times> (string \<times> int \<times> int)"

definition terms :: "order_state \<Rightarrow> order_terms" where
  "terms s =
     ((or_id (os_order s), or_number (os_order s), or_student (os_order s), or_expert (os_order s),
       or_amount (os_order s), or_currency (os_order s), or_commission (os_order s), or_expert_amount (os_order s)),
      (rr_id (os_request s), rr_student (os_request s), rr_offer_count (os_request s)))"

definition past_request :: "order_state \<Rightarrow> bool" where
  "past_request s \<longleftrightarrow> past_match (rr_status (os_request s))"

text \<open>From one state to a later one the terms are the same and the request is not open again.\<close>

definition agreed :: "order_state \<Rightarrow> order_state \<Rightarrow> bool" where
  "agreed s s' \<longleftrightarrow> terms s' = terms s \<and> (past_request s \<longrightarrow> past_request s')"

lemma agreed_refl [simp]: "agreed s s"
  by (simp add: agreed_def)

lemma agreed_trans [trans]: "agreed s t \<Longrightarrow> agreed t u \<Longrightarrow> agreed s u"
  by (simp add: agreed_def)

lemma agreed_frame: "os_order s' = os_order s \<Longrightarrow> os_request s' = os_request s \<Longrightarrow> agreed s s'"
  by (simp add: agreed_def terms_def past_request_def)

lemma with_order_agreed:
  assumes "\<And>r. or_id (f r) = or_id r \<and> or_number (f r) = or_number r \<and> or_student (f r) = or_student r \<and>
    or_expert (f r) = or_expert r \<and> or_amount (f r) = or_amount r \<and> or_currency (f r) = or_currency r \<and>
    or_commission (f r) = or_commission r \<and> or_expert_amount (f r) = or_expert_amount r"
  shows "agreed s t \<Longrightarrow> agreed s (with_order f t)"
  using assms by (simp add: agreed_def terms_def past_request_def)

text \<open>The writers that touch neither the order nor the request.\<close>

lemma agreed_writers [simp]:
  "agreed s (audit_log a x t) = agreed s t" "agreed s (notify_user u n t) = agreed s t"
  "agreed s (record_event now e a d t) = agreed s t" "agreed s (ledger_entry k z c v t) = agreed s t"
  "agreed s (notify_parties e t) = agreed s t" "agreed s (update_latest g t) = agreed s t"
  "agreed s (t\<lparr>os_deliveries := ds\<rparr>) = agreed s t" "agreed s (t\<lparr>os_payment := p\<rparr>) = agreed s t"
  "agreed s (t\<lparr>os_refunds := rs\<rparr>) = agreed s t" "agreed s (t\<lparr>os_payouts := ps\<rparr>) = agreed s t"
  "agreed s (t\<lparr>os_dispute := d1\<rparr>) = agreed s t" "agreed s (t\<lparr>os_proposal := pp\<rparr>) = agreed s t"
  "agreed s (t\<lparr>os_uploads := us\<rparr>) = agreed s t" "agreed s (set_payout i y t) = agreed s t"
  by (simp_all add: agreed_def terms_def past_request_def set_payout_def)

section \<open>The request\<close>

lemma request_transitions_past:
  "map_of request_TRANSITIONS (st, to_status) = Some x \<Longrightarrow> past_match st \<Longrightarrow> past_match to_status"
  by (cases st; cases to_status) (simp_all add: request_TRANSITIONS_def past_match_def)

text \<open>The same request, open no more than before.\<close>

definition same_request :: "db_request \<Rightarrow> db_request \<Rightarrow> bool" where
  "same_request r r' \<longleftrightarrow>
     rr_id r' = rr_id r \<and> rr_student r' = rr_student r \<and> rr_offer_count r' = rr_offer_count r \<and>
     rr_mode r' = rr_mode r \<and> (past_match (rr_status r) \<longrightarrow> past_match (rr_status r'))"

lemma request_transition_agreed:
  "request_transition now to_status reason r = Inr (r', acts) \<Longrightarrow> same_request r r'"
  using request_transitions_past [of "rr_status r" to_status] by (auto simp: request_transition_Inr same_request_def)

lemma agreed_request: "same_request (os_request s) r \<Longrightarrow> agreed s (fold (audit_log u) acts (s\<lparr>os_request := r\<rparr>))"
  by (simp add: same_request_def agreed_def terms_def past_request_def)

lemma move_request_from_agreed:
  assumes "move_request_from froms now to_status reason actor s = Inr s'"
  shows "agreed s s'"
proof (cases "rr_status (os_request s) \<in> set froms")
  case True
  then show ?thesis
    using assms
    by (auto simp: move_request_from_def move_request_def and_then_Inr intro!: agreed_request
        dest: request_transition_agreed)
qed (use assms in \<open>simp add: move_request_from_def\<close>)

lemma request_answered_cases:
  assumes "request_answered r x = (e, r', acts)"
  obtains "r' = r" | "x = Inr (r', acts)"
  using assms by (auto simp: request_answered_def split: sum.splits)

lemma transition_answered:
  assumes "request_answered t (request_transition now to_status reason t) = (e, r', acts)"
  shows "same_request t r'"
  using assms by (cases rule: request_answered_cases) (auto simp: same_request_def dest: request_transition_agreed)

lemma publish_agreed:
  assumes "publish now a attested r = (e, r', acts)"
  shows "same_request r r'"
  using assms
  by (auto simp: publish_def Let_def same_request_def split: if_splits dest!: transition_answered)

lemma request_exec_agreed:
  assumes "request_exec now a c r = (e, r', acts)"
  shows "same_request r r'"
proof (cases "rr_student r = acct_id a")
  case True
  then show ?thesis
  proof (cases c)
    case (Publish_request attested)
    then show ?thesis using publish_agreed assms True by (simp add: request_exec_def)
  next
    case (Cancel_request reason)
    then have "request_answered r (request_transition now Rq_cancelled reason r) = (e, r', acts)"
      using assms True by (simp add: request_exec_def cancel_request_def)
    then show ?thesis by (rule transition_answered)
  next
    case Reopen_request
    then have "request_answered r (reopen now a r) = (e, r', acts)" using assms True by (simp add: request_exec_def)
    then show ?thesis
    proof (cases rule: request_answered_cases)
      case 2
      then obtain t where "request_transition now Rq_open [] r = Inr (t, acts)"
        "r' = t\<lparr>rr_reopened_at := Some now, rr_expires_at := Some (now + days REQUEST_TTL_DAYS)\<rparr>"
        by (auto simp: reopen_def and_then_Inr split: if_splits)
      then show ?thesis using request_transition_agreed [of now Rq_open "[]" r t acts] by (simp add: same_request_def)
    qed (simp add: same_request_def)
  qed
qed (use assms in \<open>simp add: request_exec_def same_request_def\<close>)

lemma on_request_agreed: "agreed s (snd (on_request now a rc s))"
proof -
  obtain e r acts where r: "request_exec now a rc (os_request s) = (e, r, acts)" by (metis prod_cases3)
  show ?thesis by (simp add: on_request_def r agreed_request [OF request_exec_agreed [OF r]])
qed

section \<open>The services\<close>

lemma order_transition_agreed:
  "order_transition now to_status actor e data t = Inr s' \<Longrightarrow> agreed s t \<Longrightarrow> agreed s s'"
  by (auto simp: order_transition_Inr intro!: with_order_agreed)

lemma freeze_payout_agreed: "agreed s t \<Longrightarrow> agreed s (freeze_payout b t)"
  unfolding freeze_payout_def by (rule with_order_agreed) simp_all

lemma submit_delivery_agreed: "submit_delivery now token a t ids s = Inr s' \<Longrightarrow> agreed s s'"
  by (erule submit_delivery_cases) (simp add: with_order_agreed)

lemma request_revision_agreed: "request_revision now a t s = Inr s' \<Longrightarrow> agreed s s'"
  by (erule request_revision_cases) (simp add: with_order_agreed)

lemma schedule_payout_agreed: "schedule_payout cfg s = Inr s' \<Longrightarrow> agreed s s'"
  by (auto simp: schedule_payout_def split: if_splits)

lemma approve_delivery_agreed:
  assumes "approve_delivery cfg now actor source s = Inr s'"
  shows "agreed s s'"
  using assms
proof (cases rule: approve_delivery_cases)
  case (1 a data s2 s3 s4)
  have "agreed s s2" unfolding 1(2) approved_order_def by (simp add: with_order_agreed)
  also note move_request_from_agreed [OF 1(3)]
  also note schedule_payout_agreed [OF 1(4)]
  finally show ?thesis by (simp add: 1(5))
qed

lemma cancel_order_agreed:
  assumes "cancel_order now actor reason s = Inr s'"
  shows "agreed s s'"
  using assms
proof (cases rule: cancel_order_cases)
  case (1 a s1 s3)
  have "agreed s s1" unfolding 1(1) by (simp add: with_order_agreed)
  then have "agreed s (void_payment_for_order now (Some (acct_id actor)) s1)"
    by (simp add: void_payment_for_order_def split: option.split)
  also note move_request_from_agreed [OF 1(2)]
  finally show ?thesis by (simp add: 1(3))
qed

lemma open_dispute_agreed: "open_dispute cfg now a reason description ids s = Inr s' \<Longrightarrow> agreed s s'"
  by (erule open_dispute_cases) (simp add: with_order_agreed freeze_payout_agreed)

lemma payment_or_new_agreed: "payment_or_new cfg token s = Inr s' \<Longrightarrow> agreed s s'"
  by (erule payment_or_new_cases) simp_all

lemma start_payment_agreed:
  assumes "start_payment cfg token a s = Inr s'"
  shows "agreed s s'"
  using assms by (cases rule: start_payment_cases) (auto dest: payment_or_new_agreed)

lemma mark_paid_agreed:
  assumes "mark_paid now actor via t = Inr s'" "agreed s t"
  shows "agreed s s'"
  using assms(1)
proof (cases rule: mark_paid_cases)
  case (1 b data s1 s2)
  have "agreed s s1" unfolding 1(1) by (simp add: with_order_agreed assms(2))
  also note move_request_from_agreed [OF 1(2)]
  finally show ?thesis by (simp add: 1(3))
qed

lemma confirm_payment_agreed: "agreed s (snd (confirm_payment (activate_order_on_payment now) now actor p s))"
proof (cases "confirm_payment_atomic (activate_order_on_payment now) now actor p s")
  case (Inl x)
  then show ?thesis by (cases x) (simp_all add: confirm_payment_def mark_payment_failed_def)
next
  case (Inr s')
  define q where "q = p\<lparr>pr_status := Pay_succeeded, pr_paid_at := Some now\<rparr>"
  have m: "mark_paid now None (pr_gateway q)
        (audit_log actor ''payment.confirm'' (charge_entries q (s\<lparr>os_payment := Some q\<rparr>))) = Inr s'"
    using Inr
    by (auto simp: confirm_payment_atomic_def Let_def q_def activate_order_on_payment_def
        split: if_splits sum.splits bool.splits elim!: map_sum_InrE)
  have "agreed s (charge_entries q t)" if "agreed s t" for t
    by (rule charge_entries_cases [of q t]) (simp add: that)
  then show ?thesis using mark_paid_agreed [OF m] by (simp add: confirm_payment_def Inr)
qed

lemma confirm_order_payment_agreed:
  "agreed s (snd (confirm_order_payment (activate_order_on_payment now) cfg now token actor s))"
proof -
  obtain e s' where r: "confirm_order_payment (activate_order_on_payment now) cfg now token actor s = (e, s')"
    by (rule prod.exhaust)
  then have "agreed s s'"
  proof (cases rule: confirm_order_payment_cases)
    case (3 s1 p)
    then show ?thesis
      using payment_or_new_agreed [OF 3(1)] confirm_payment_agreed [of s1 now actor p] agreed_trans by simp
  qed (simp_all add: payment_or_new_agreed)
  then show ?thesis by (simp add: r)
qed

lemma refund_agreed:
  assumes "issue_refund by amount reason note p s = Inr s'"
  shows "agreed s s'"
  using assms by (cases rule: issue_refund_cases) (simp add: refund_entries_def Let_def)

lemma settle_payout_agreed:
  assumes "settle_payout cfg now token actor i y s = Inr s'" "payout_at i s = Some y"
  shows "agreed s s'"
  using assms by (cases rule: settle_payout_cases) simp

lemma mark_payout_failed_agreed: "mark_payout_failed actor reason i y s = Inr s' \<Longrightarrow> agreed s s'"
  by (auto simp: mark_payout_failed_def split: if_splits)

lemma resolve_refund_agreed:
  assumes "resolve_refund actor out amount s = Inr s'"
  shows "agreed s s'"
proof (cases "refunds out")
  case True
  then have "resolve_money actor out amount s = Inr s'" using assms by (simp add: resolve_refund_def)
  then show ?thesis
  proof (cases rule: resolve_money_cases)
    case (1 p amt s1)
    have "agreed s1 s'"
      using 1(3) mark_payout_failed_agreed by (auto simp: void_scheduled_payout_def split: option.splits)
    with refund_agreed [OF 1(2)] show ?thesis by (rule agreed_trans)
  qed
qed (use assms in \<open>simp add: resolve_refund_def\<close>)

lemma resolve_dispute_agreed:
  assumes "resolve_dispute now actor outcome text1 amount d s = Inr s'"
  shows "agreed s s'"
  using assms
proof (cases rule: resolve_dispute_cases)
  case (1 out s1 s4)
  have "agreed s s1" using 1(2) by (rule resolve_refund_agreed)
  also have "agreed s1 (freeze_payout False (adjust_payout actor out s1))"
    by (rule freeze_payout_agreed) (simp add: adjust_payout_def correct_payout_def split: option.split)
  also have "agreed (freeze_payout False (adjust_payout actor out s1)) s4"
    using 1(3) by (cases rule: resolve_order_cases) (simp_all add: with_order_agreed)
  finally show ?thesis by (simp add: 1(4))
qed

lemma dispute_transition_agreed: "dispute_transition to_status actor d s = Inr s' \<Longrightarrow> agreed s s'"
  by (auto simp: dispute_transition_def split: if_splits option.splits)

lemma respond_deadline_agreed: "respond_deadline_proposal now a accept s = Inr s' \<Longrightarrow> agreed s s'"
  by (auto simp: respond_deadline_proposal_def with_order_agreed split: if_splits option.splits)

section \<open>Every request\<close>

lemma confirm_view_agreed: "agreed s (snd (confirm_view cfg now token a s))"
proof (cases "and_then (view_role a s) (\<lambda>_. if os_payment s = None then start_payment cfg token a s else Inr s)")
  case (Inl e)
  then show ?thesis by (simp add: confirm_view_def)
next
  case (Inr s1)
  then have "agreed s s1" using start_payment_agreed by (auto simp: and_then_Inr split: if_splits)
  then show ?thesis
    using Inr agreed_trans [OF _ confirm_payment_agreed] by (simp add: confirm_view_def split: option.split)
qed

lemma sweep_unpaid_agreed: "agreed s (sweep_unpaid now s)"
proof -
  have committed: "agreed s (committed s r)" if "\<And>s'. r = Inr s' \<Longrightarrow> agreed s s'" for r
    using that by (cases r) simp_all
  show ?thesis
    unfolding sweep_unpaid_def
    by (auto intro!: committed elim!: order_transition_agreed intro: with_order_agreed)
qed

interpretation settled: order_law agreed cfg for cfg
proof
  show "agreed s (snd (add_evidence a ids s))" for a ids s
    by (simp add: add_evidence_def split: option.split prod.split)
  show "agreed s s'" if "close_dispute now a d s = Inr s'" for now a d s s'
    using that by (auto simp: close_dispute_def split: if_splits)
  show "agreed s (handle_payment_failed ref reason s)" for ref reason s
    by (simp add: handle_payment_failed_def split: option.split)
  show "agreed s s'" if "payout_at i s = Some y" "settle_payout cfg now token a i y s = Inr s'" for now token a i y s s'
    using settle_payout_agreed [OF that(2,1)] .
qed (rule agreed_frame on_request_agreed confirm_view_agreed confirm_order_payment_agreed confirm_payment_agreed
      sweep_unpaid_agreed; assumption
    | erule start_payment_agreed submit_delivery_agreed approve_delivery_agreed request_revision_agreed
        cancel_order_agreed open_dispute_agreed respond_deadline_agreed refund_agreed mark_payout_failed_agreed
        dispute_transition_agreed resolve_dispute_agreed schedule_payout_agreed)+

lemma exec_agreed: "agreed s (snd (exec cfg now token a c s))"
  by (rule settled.exec_law)

text \<open>Over every history: the terms are those the order was made with.\<close>

lemma run_agreed: "agreed s (run (backend_step cfg) s calls)"
proof (induction calls arbitrary: s)
  case (Cons call calls)
  have "agreed s (backend_step cfg s call)" by (cases call) (simp add: exec_agreed)
  then show ?case using Cons.IH agreed_trans by simp
qed simp

end
