(* ===== verification/Messaging.thy ===== *)
theory Messaging
  imports Forms
begin

text \<open>
  The message button of the order and request pages
  (\<open>features/messaging/MessageThreadButton.tsx\<close>) and the report action
  (\<open>features/messaging/moderation.tsx\<close>).
\<close>

section \<open>The message button\<close>

definition open_thread :: "'w server \<Rightarrow> thread_context \<Rightarrow> 'w \<Rightarrow> (failure + string) \<times> 'w" where
  "open_thread srv context =
     ask srv (messagingApi_open context)
       (\<lambda>r. case r of
          Inl e \<Rightarrow> Inl e
        | Inr v \<Rightarrow> (case member_of (Some v) ''id'' of
             Inl e \<Rightarrow> Inl e | Inr i \<Rightarrow> Inr (''/messages/'' @ text_of i)))"

text \<open>The busy flag is set by the click and cleared when the request settles, either way.\<close>

datatype message_button_event = OpenMessages | MessagesOpened "failure + string"

fun message_button_step :: "bool \<Rightarrow> message_button_event \<Rightarrow> bool" where
  "message_button_step busy OpenMessages = True"
| "message_button_step busy (MessagesOpened r) = False"

definition MessageThreadButton :: "string \<Rightarrow> bool \<Rightarrow> bool \<Rightarrow> message_button_event ui list" where
  "MessageThreadButton lab disabled busy =
     [Button (if busy then ''Opening...'' else lab) (busy \<or> disabled) OpenMessages]"

lemma offered_message_button [simp]:
  "offered (map (map_events f) (MessageThreadButton l b d)) x \<longleftrightarrow> x = f OpenMessages \<and> \<not> b \<and> \<not> d"
  by (auto simp: MessageThreadButton_def)

section \<open>Reporting a message\<close>

definition POLICY_BANNER :: string where
  "POLICY_BANNER = ''Keep conversations and payments on Expert Marketplace -- off-platform contact or payment isn't covered by escrow or reviews, and is bannable. Report suspicious messages.''"

definition PolicyBanner :: "'e ui list" where
  "PolicyBanner = [Box ''policy-banner'' [Text POLICY_BANNER]]"

definition REPORT_REASONS :: "(string \<times> string) list" where
  "REPORT_REASONS =
     [(''off_platform'', ''Taking conversation/payment off-platform''),
      (''abuse'', ''Abuse or harassment''),
      (''integrity'', ''Academic integrity concern''),
      (''spam'', ''Spam''),
      (''other'', ''Other'')]"

datatype report_state = Report_idle | Report_sending | Report_done

record report_form =
  rp_open :: bool
  rp_reason :: string
  rp_details :: string
  rp_state :: report_state
  rp_error :: "string option"

definition report_init :: report_form where
  "report_init = \<lparr>rp_open = False, rp_reason = [], rp_details = [], rp_state = Report_idle, rp_error = None\<rparr>"

datatype report_event =
    OpenReport
  | CloseReport
  | ReportReason string
  | ReportDetails string
  | SendReport
  | ReportSent "failure + json"

definition report_submit :: "string \<Rightarrow> report_form \<Rightarrow> report_form \<times> api_init option" where
  "report_submit messageId f =
     (if rp_reason f = [] then (f\<lparr>rp_error := Some ''Pick a reason.''\<rparr>, None)
      else (f\<lparr>rp_error := None, rp_state := Report_sending\<rparr>,
            Some (messagingApi_reportMessage messageId (rp_reason f) (trim (rp_details f)))))"

definition report_sent :: "failure + json \<Rightarrow> report_form \<Rightarrow> report_form" where
  "report_sent r f =
     (case r of
        Inr _ \<Rightarrow> f\<lparr>rp_state := Report_done\<rparr>
      | Inl e \<Rightarrow> f\<lparr>rp_state := Report_idle,
                  rp_error := Some (api_message_or ''Could not send the report.'' e)\<rparr>)"

fun report_step :: "string \<Rightarrow> report_form \<Rightarrow> report_event \<Rightarrow> report_form" where
  "report_step mid f OpenReport = f\<lparr>rp_open := True\<rparr>"
| "report_step mid f CloseReport = f\<lparr>rp_open := False\<rparr>"
| "report_step mid f (ReportReason r) = f\<lparr>rp_reason := r\<rparr>"
| "report_step mid f (ReportDetails d) = f\<lparr>rp_details := d\<rparr>"
| "report_step mid f SendReport = fst (report_submit mid f)"
| "report_step mid f (ReportSent r) = report_sent r f"

definition ReportMessageButton :: "string \<Rightarrow> report_form \<Rightarrow> report_event ui list" where
  "ReportMessageButton messageId f =
     (if \<not> rp_open f then [Button ''Report'' False OpenReport]
      else if rp_state f = Report_done
      then [Box (''report-done-'' @ messageId) [Text ''Reported -- our moderation team will take a look.'']]
      else [Box (''report-form-'' @ messageId)
        ([Choice ''Report reason'' (rp_reason f) (([], ''Reason...'') # REPORT_REASONS) ReportReason,
          Field ''Additional details (optional)'' (rp_details f) ReportDetails]
         @ alert_if (rp_error f)
         @ [Button (if rp_state f = Report_sending then ''Sending...'' else ''Send report'')
              (rp_state f = Report_sending) SendReport,
            Button ''Cancel'' False CloseReport])])"

end
