(* ===== verification/Offers.thy ===== *)
theory Offers
  imports RequestForm Messaging
begin

text \<open>
  Offers and the selection of an expert: the types of \<open>features/offers/types.ts\<close>, the expert's list
  \<open>app/(app)/offers/page.tsx\<close>, the owner's page of a request \<open>app/(app)/requests/[id]/page.tsx\<close> and
  the expert's page of an open request \<open>app/(app)/opportunities/[id]/page.tsx\<close>.

  The two pages of a request share their way of working: an action is a request, then a reload of two
  requests. A run of it is a \<open>job\<close>; several can be in flight, and their answers come in any order.
\<close>

section \<open>Data\<close>

datatype offer_status = Of_pending | Of_accepted | Of_declined | Of_withdrawn | Of_expired

record expert_card =
  ec_display_name :: string
  ec_slug :: string
  ec_headline :: string
  ec_rating_avg :: "rat option"
  ec_reviews_count :: nat

record offer =
  of_id :: string
  of_request :: string
  of_amount :: nat
  of_amount_display :: string                   \<comment> \<open>a number, as it prints\<close>
  of_currency :: string
  of_timeline :: string
  of_message :: string
  of_status :: offer_status
  of_responded_at :: "string option"
  of_response_reason :: string
  of_net_preview :: "(nat \<times> nat) option"        \<comment> \<open>commission and net, in cents\<close>
  of_expert :: "expert_card option"

fun OFFER_STATUS_TONE :: "offer_status \<Rightarrow> string" where
  "OFFER_STATUS_TONE Of_pending = ''info''"
| "OFFER_STATUS_TONE Of_accepted = ''success''"
| "OFFER_STATUS_TONE Of_declined = ''neutral''"
| "OFFER_STATUS_TONE Of_withdrawn = ''warning''"
| "OFFER_STATUS_TONE Of_expired = ''warning''"

fun OFFER_STATUS_COPY :: "offer_status \<Rightarrow> string" where
  "OFFER_STATUS_COPY Of_pending = ''Pending review''"
| "OFFER_STATUS_COPY Of_accepted = ''Accepted''"
| "OFFER_STATUS_COPY Of_declined = ''Declined''"
| "OFFER_STATUS_COPY Of_withdrawn = ''Withdrawn''"
| "OFFER_STATUS_COPY Of_expired = ''Expired''"

definition isOfferEditable :: "offer_status \<Rightarrow> bool" where
  "isOfferEditable st \<longleftrightarrow> st = Of_pending"

definition isOfferResubmittable :: "offer_status \<Rightarrow> bool" where
  "isOfferResubmittable st \<longleftrightarrow> st = Of_withdrawn"

definition offer_badge :: "offer \<Rightarrow> 'e ui" where
  "offer_badge o1 = Badge (OFFER_STATUS_TONE (of_status o1)) (OFFER_STATUS_COPY (of_status o1))"

definition request_badge :: "service_request \<Rightarrow> 'e ui" where
  "request_badge r = Badge (REQUEST_STATUS_TONE (sr_status r)) (REQUEST_STATUS_COPY (sr_status r))"

definition file_line :: "attachment \<Rightarrow> 'e ui" where
  "file_line a = Text (''[clip] '' @ at_name a @ '' ('' @ show_int (math_round (of_nat (at_size a) / 1024)) @ '' kB)'')"

lemma offered_file_lines [simp]: "\<not> offered (map file_line xs) e"
  by (simp add: file_line_def offered_map)

section \<open>The expert's list of offers\<close>

text \<open>The reload after an action is not awaited: the control is free again as soon as the action is answered.\<close>

record my_offers =
  mo_offers :: "offer list option"
  mo_error :: "string option"
  mo_busy :: "string option"

definition my_offers_init :: my_offers where
  "my_offers_init = \<lparr>mo_offers = None, mo_error = None, mo_busy = None\<rparr>"

datatype my_offers_event =
    MineLoaded "failure + offer list"
  | WithdrawMine string
  | ResubmitMine string
  | MineActed "failure + unit"

fun my_offers_step :: "my_offers \<Rightarrow> my_offers_event \<Rightarrow> my_offers" where
  "my_offers_step p (MineLoaded (Inr os)) = p\<lparr>mo_offers := Some os\<rparr>"
| "my_offers_step p (MineLoaded (Inl e)) = p\<lparr>mo_error := Some ''Could not load your offers.''\<rparr>"
| "my_offers_step p (WithdrawMine i) = p\<lparr>mo_busy := Some i, mo_error := None\<rparr>"
| "my_offers_step p (ResubmitMine i) = p\<lparr>mo_busy := Some i, mo_error := None\<rparr>"
| "my_offers_step p (MineActed (Inr u)) = p\<lparr>mo_busy := None\<rparr>"
| "my_offers_step p (MineActed (Inl e)) =
     p\<lparr>mo_error := Some (api_message_or ''Action failed.'' e), mo_busy := None\<rparr>"

fun my_offers_call :: "my_offers_event \<Rightarrow> api_init option" where
  "my_offers_call (WithdrawMine i) = Some (offersApi_withdraw i)"
| "my_offers_call (ResubmitMine i) = Some (offersApi_resubmit i)"
| "my_offers_call (MineActed (Inr u)) = Some offersApi_mine"
| "my_offers_call (MineActed (Inl e)) = None"
| "my_offers_call (MineLoaded r) = None"

definition my_offer_node :: "string option \<Rightarrow> offer \<Rightarrow> my_offers_event ui" where
  "my_offer_node busy o1 =
     Box (of_id o1)
       ([offer_badge o1, Text (of_amount_display o1 @ '' '' @ of_currency o1), Text (of_message o1),
         Text (of_timeline o1), Link (''/opportunities/'' @ of_request o1) ''View request'']
        @ shown_if (isOfferEditable (of_status o1))
            [Button ''Withdraw'' (busy = Some (of_id o1)) (WithdrawMine (of_id o1))]
        @ shown_if (isOfferResubmittable (of_status o1))
            [Button ''Re-submit'' (busy = Some (of_id o1)) (ResubmitMine (of_id o1))])"

definition MyOffersPage :: "my_offers \<Rightarrow> my_offers_event ui list" where
  "MyOffersPage p =
     [Heading ''My offers''] @ alert_if (mo_error p)
     @ shown_if (mo_offers p = None \<and> \<not> truthy (mo_error p)) [Box ''loading'' []]
     @ shown_if (mo_offers p = Some [])
         [Text ''No offers yet -- find work in the '', Link ''/opportunities'' ''opportunities feed'']
     @ map (my_offer_node (mo_busy p)) (nullish (mo_offers p) [])"

section \<open>Runs of an action and its reload\<close>

text \<open>
  \<open>Acting m\<close> awaits the action, \<open>m\<close> being the message for a failure that is no \<open>ApiError\<close>;
  \<open>Detail\<close> and \<open>Listing\<close> await the two requests of \<open>load\<close>, the flag says whether it is the reload of an
  action, whose \<open>finally\<close> frees the controls.
\<close>

datatype job = Acting string | Detail bool | Listing bool

fun frees :: "job \<Rightarrow> bool" where
  "frees (Acting m) = True"
| "frees (Detail b) = b"
| "frees (Listing b) = b"

definition drop_job :: "nat \<Rightarrow> job list \<Rightarrow> job list" where
  "drop_job i js = take i js @ drop (Suc i) js"

lemma in_drop_job: "j \<in> set (drop_job i js) \<Longrightarrow> j \<in> set js"
  by (auto simp: drop_job_def dest: in_set_takeD in_set_dropD)

lemma length_drop_job: "i < length js \<Longrightarrow> Suc (length (drop_job i js)) = length js"
  by (auto simp: drop_job_def)

lemma mem_drop_job: "i < length js \<Longrightarrow> j \<in> set js \<Longrightarrow> j \<in> set (drop_job i js) \<or> j = js ! i"
  by (subst (asm) id_take_nth_drop [of i js]) (auto simp: drop_job_def)

section \<open>The owner's page of a request\<close>

record request_page =
  rp_request :: "service_request option"
  rp_offers :: "offer list option"
  rp_error :: "string option"
  rp_busy :: "string option"
  rp_jobs :: "job list"
  rp_opening :: "string \<Rightarrow> bool"            \<comment> \<open>the message button of each offer\<close>

definition request_page_init :: request_page where
  "request_page_init =
     \<lparr>rp_request = None, rp_offers = None, rp_error = None, rp_busy = None,
      rp_jobs = [Detail False], rp_opening = (\<lambda>_. False)\<rparr>"

datatype request_page_event =
    DetailAnswer nat "failure + service_request"
  | OffersAnswer nat "failure + offer list"
  | ActAnswer nat "failure + unit"
  | SelectExpert string
  | DeclineOffer string
  | CancelRequest
  | EditDraft
  | MessageExpert string message_button_event

text \<open>The end of a run: an action's \<open>finally\<close> clears the busy mark, whosever it is.\<close>

definition settle :: "nat \<Rightarrow> request_page \<Rightarrow> request_page" where
  "settle i p =
     p\<lparr>rp_jobs := drop_job i (rp_jobs p), rp_busy := (if frees (rp_jobs p ! i) then None else rp_busy p)\<rparr>"

definition act_on :: "string \<Rightarrow> request_page \<Rightarrow> request_page" where
  "act_on i p = p\<lparr>rp_busy := Some i, rp_error := None, rp_jobs := rp_jobs p @ [Acting ''Action failed.'']\<rparr>"

definition detail_answer :: "nat \<Rightarrow> failure + service_request \<Rightarrow> request_page \<Rightarrow> request_page" where
  "detail_answer i r p =
     (case r of
        Inl e \<Rightarrow> settle i (p\<lparr>rp_error := Some ''Request not found or not accessible.''\<rparr>)
      | Inr d \<Rightarrow>
          (let p1 = p\<lparr>rp_request := Some d\<rparr>
           in if sr_student_view d
              then p1\<lparr>rp_jobs := (rp_jobs p)[i := Listing (frees (rp_jobs p ! i))]\<rparr>
              else settle i p1))"

definition offers_answer :: "nat \<Rightarrow> failure + offer list \<Rightarrow> request_page \<Rightarrow> request_page" where
  "offers_answer i r p =
     settle i (case r of
        Inl e \<Rightarrow> p\<lparr>rp_error := Some ''Request not found or not accessible.''\<rparr>
      | Inr os \<Rightarrow> p\<lparr>rp_offers := Some os\<rparr>)"

definition act_answer :: "nat \<Rightarrow> failure + unit \<Rightarrow> request_page \<Rightarrow> request_page" where
  "act_answer i r p =
     (case r of
        Inl e \<Rightarrow> settle i (p\<lparr>rp_error := Some (api_message_or ''Action failed.'' e)\<rparr>)
      | Inr u \<Rightarrow> p\<lparr>rp_jobs := (rp_jobs p)[i := Detail True]\<rparr>)"

fun request_page_step :: "request_page \<Rightarrow> request_page_event \<Rightarrow> request_page" where
  "request_page_step p (DetailAnswer i r) = detail_answer i r p"
| "request_page_step p (OffersAnswer i r) = offers_answer i r p"
| "request_page_step p (ActAnswer i r) = act_answer i r p"
| "request_page_step p (SelectExpert oid) = act_on oid p"
| "request_page_step p (DeclineOffer oid) = act_on oid p"
| "request_page_step p CancelRequest =
     (case rp_request p of None \<Rightarrow> p | Some r \<Rightarrow> act_on (sr_id r) p)"
| "request_page_step p EditDraft = p"
| "request_page_step p (MessageExpert oid ev) =
     p\<lparr>rp_opening := (rp_opening p)(oid := message_button_step (rp_opening p oid) ev)\<rparr>"

text \<open>The request an event sends, on the page of the request \<open>rid\<close>.\<close>

fun request_page_call :: "string \<Rightarrow> request_page \<Rightarrow> request_page_event \<Rightarrow> api_init option" where
  "request_page_call rid p (DetailAnswer i (Inr d)) =
     (if sr_student_view d then Some (selectionApi_listForRequest rid) else None)"
| "request_page_call rid p (ActAnswer i (Inr u)) = Some (requestsApi_detail rid)"
| "request_page_call rid p (SelectExpert oid) =
     map_option (\<lambda>r. selectionApi_accept (sr_id r) oid) (rp_request p)"
| "request_page_call rid p (DeclineOffer oid) =
     map_option (\<lambda>r. selectionApi_decline (sr_id r) oid []) (rp_request p)"
| "request_page_call rid p CancelRequest = map_option (\<lambda>r. requestsApi_cancel (sr_id r) []) (rp_request p)"
| "request_page_call rid p (MessageExpert oid OpenMessages) =
     map_option (\<lambda>r. messagingApi_open (RequestContext (sr_id r))) (rp_request p)"
| "request_page_call rid p _ = None"

definition managed_note :: "request_status \<Rightarrow> string" where
  "managed_note st =
     ''Managed service. '' @
     (if st = Rq_in_review then ''Our team is reviewing your request -- typically within 24 hours. You will see the agreed price here before anything is charged.'' else [])
     @ (if st = Rq_pooled then ''Approved -- we are matching you with a suitable expert from our vetted pool.'' else [])
     @ (if st = Rq_matched then ''An expert accepted your managed request -- the order and payment step is next.'' else [])"

definition offer_card :: "request_page \<Rightarrow> service_request \<Rightarrow> offer \<Rightarrow> request_page_event ui" where
  "offer_card p r o1 =
     Box (of_id o1)
       ([Text (case of_expert o1 of None \<Rightarrow> ''Specialist'' | Some x \<Rightarrow> ec_display_name x), offer_badge o1]
        @ (case of_expert o1 of None \<Rightarrow> [] | Some x \<Rightarrow> shown_if (ec_headline x \<noteq> []) [Text (ec_headline x)])
        @ [Text (of_message o1), Text (''Proposed Timeline: '' @ of_timeline o1), Text ''Specialist Quote'',
           Text (of_amount_display o1 @ '' '' @ of_currency o1)]
        @ map (map_events (MessageExpert (of_id o1)))
            (MessageThreadButton ''Message'' (rp_opening p (of_id o1)) False)
        @ shown_if (of_status o1 = Of_pending \<and> canAcceptOffers (sr_status r))
            [Button (if rp_busy p = Some (of_id o1) then ''Selecting...'' else ''Select expert'')
               (rp_busy p = Some (of_id o1)) (SelectExpert (of_id o1)),
             Button ''Decline'' (rp_busy p = Some (of_id o1)) (DeclineOffer (of_id o1))])"

definition request_head :: "service_request \<Rightarrow> request_page_event ui list" where
  "request_head r =
     [Heading (sr_title r), request_badge r,
      Text ((case sr_subject r of None \<Rightarrow> ''No subject'' | Some t \<Rightarrow> tx_name t) @ '' - '' @ pricing_name (sr_pricing r)
        @ (case sr_budget_max_display r of None \<Rightarrow> [] | Some b \<Rightarrow> '' - budget up to '' @ b @ '' '' @ sr_currency r)
        @ (case sr_deadline r of None \<Rightarrow> [] | Some d \<Rightarrow> '' - deadline '' @ d))]
     @ shown_if (isDraftEditable (sr_status r)) [Button ''Edit draft'' False EditDraft]
     @ shown_if (canAcceptOffers (sr_status r)) [Button ''Cancel request'' False CancelRequest]
     @ shown_if (sr_mode r = Managed_mode \<and> sr_student_view r) [Text (managed_note (sr_status r))]
     @ [Text (sr_description r)] @ map file_line (sr_attachments r)
     @ map (\<lambda>t. Badge ''neutral'' (tx_name t)) (sr_skills r)"

definition offers_section :: "request_page \<Rightarrow> service_request \<Rightarrow> request_page_event ui list" where
  "offers_section p r =
     [Heading (''Offers '' @ (case rp_offers p of None \<Rightarrow> [] | Some os \<Rightarrow> ''('' @ show_nat (length os) @ '')''))]
     @ shown_if (rp_offers p = Some []) [Text ''No offers yet -- matched experts will find this request automatically.'']
     @ map (offer_card p r) (nullish (rp_offers p) [])"

definition RequestDetailPage :: "request_page \<Rightarrow> request_page_event ui list" where
  "RequestDetailPage p =
     (case rp_request p of
        None \<Rightarrow> if truthy (rp_error p) then [Text (the (rp_error p))] else [Box ''loading'' []]
      | Some r \<Rightarrow> request_head r @ alert_if (rp_error p) @ shown_if (sr_student_view r) (offers_section p r))"

fun request_page_enabled :: "request_page \<Rightarrow> request_page_event \<Rightarrow> bool" where
  "request_page_enabled p (DetailAnswer i r) =
     (i < length (rp_jobs p) \<and> (\<exists>b. rp_jobs p ! i = Detail b))"
| "request_page_enabled p (OffersAnswer i r) =
     (i < length (rp_jobs p) \<and> (\<exists>b. rp_jobs p ! i = Listing b))"
| "request_page_enabled p (ActAnswer i r) =
     (i < length (rp_jobs p) \<and> (\<exists>m. rp_jobs p ! i = Acting m))"
| "request_page_enabled p (MessageExpert oid (MessagesOpened r)) = rp_opening p oid"
| "request_page_enabled p e = offered (RequestDetailPage p) e"

abbreviation request_page_reach :: "request_page \<Rightarrow> bool" where
  "request_page_reach \<equiv> reach (\<lambda>p. p = request_page_init) request_page_enabled request_page_step"

lemmas request_page_defs = settle_def act_on_def detail_answer_def offers_answer_def act_answer_def

lemma offered_request_head:
  "offered (request_head r) e \<longleftrightarrow>
     (e = EditDraft \<and> isDraftEditable (sr_status r)) \<or> (e = CancelRequest \<and> canAcceptOffers (sr_status r))"
  by (auto simp: request_head_def request_badge_def file_line_def offered_map)

lemma offered_offer_card:
  "offers (offer_card p r o1) e \<longleftrightarrow>
     (e = MessageExpert (of_id o1) OpenMessages \<and> \<not> rp_opening p (of_id o1)) \<or>
     (of_status o1 = Of_pending \<and> canAcceptOffers (sr_status r) \<and> rp_busy p \<noteq> Some (of_id o1) \<and>
      (e = SelectExpert (of_id o1) \<or> e = DeclineOffer (of_id o1)))"
  by (cases "of_expert o1")
    (auto simp: offer_card_def offers_Box offer_badge_def simp del: offers.simps(6) list.map)

lemma offered_RequestDetailPage:
  "offered (RequestDetailPage p) e \<longleftrightarrow>
     (\<exists>r. rp_request p = Some r \<and>
       (offered (request_head r) e \<or>
        (sr_student_view r \<and> (\<exists>os o1. rp_offers p = Some os \<and> o1 \<in> set os \<and> offers (offer_card p r o1) e))))"
  by (cases "rp_request p"; cases "rp_offers p")
    (auto simp: RequestDetailPage_def offers_section_def offered_map)

text \<open>A control is never left disabled: while an offer is marked busy, a run is in flight that will free it.\<close>

definition busy_inv :: "request_page \<Rightarrow> bool" where
  "busy_inv p \<longleftrightarrow> (rp_busy p \<noteq> None \<longrightarrow> (\<exists>j \<in> set (rp_jobs p). frees j))"

lemma busy_settle: "busy_inv p \<Longrightarrow> i < length (rp_jobs p) \<Longrightarrow> busy_inv (settle i p)"
  by (auto simp: busy_inv_def settle_def dest: mem_drop_job)

lemma some_frees_update:
  assumes "i < length js" "frees j = frees (js ! i)" "\<exists>x \<in> set js. frees x"
  shows "\<exists>x \<in> set (js[i := j]). frees x"
proof -
  from assms(3) obtain k where k: "k < length js" "frees (js ! k)" by (auto simp: in_set_conv_nth)
  then have "frees (js[i := j] ! k)" using assms(1,2) by (simp add: nth_list_update)
  with k show ?thesis by (metis length_list_update nth_mem)
qed

lemma busy_update:
  "busy_inv p \<Longrightarrow> i < length (rp_jobs p) \<Longrightarrow> frees j = frees (rp_jobs p ! i)
   \<Longrightarrow> busy_inv (p\<lparr>rp_jobs := (rp_jobs p)[i := j]\<rparr>)"
  using some_frees_update [of i "rp_jobs p" j] by (auto simp: busy_inv_def)

lemma busy_fields [simp]:
  "busy_inv (p\<lparr>rp_error := x\<rparr>) = busy_inv p" "busy_inv (p\<lparr>rp_request := y\<rparr>) = busy_inv p"
  "busy_inv (p\<lparr>rp_offers := z\<rparr>) = busy_inv p" "busy_inv (p\<lparr>rp_opening := w\<rparr>) = busy_inv p"
  by (simp_all add: busy_inv_def)

interpretation request_view: machine "\<lambda>p. p = request_page_init" request_page_enabled request_page_step busy_inv
proof
  fix p e
  assume inv: "busy_inv p" and en: "request_page_enabled p e"
  have act: "busy_inv (act_on i p)" for i by (auto simp: busy_inv_def act_on_def)
  show "busy_inv (request_page_step p e)"
  proof (cases e)
    case (DetailAnswer i r)
    then show ?thesis using inv en
        busy_update [of "p\<lparr>rp_request := Some (projr r)\<rparr>" i "Listing (frees (rp_jobs p ! i))"]
      by (auto simp: detail_answer_def Let_def intro: busy_settle split: sum.split)
  next
    case (OffersAnswer i r)
    then show ?thesis using inv en
      by (auto simp: offers_answer_def intro: busy_settle split: sum.split)
  next
    case (ActAnswer i r)
    then show ?thesis using inv en
      by (auto simp: act_answer_def intro: busy_settle busy_update split: sum.split)
  qed (use inv act in \<open>auto split: option.split\<close>)
qed (simp add: busy_inv_def request_page_init_def)

section \<open>The expert's page of an open request\<close>

record opportunity_page =
  oq_request :: "service_request option"
  oq_offer :: "offer option"
  oq_amount :: string
  oq_timeline :: string
  oq_message :: string
  oq_error :: "string option"
  oq_busy :: bool
  oq_jobs :: "job list"
  oq_opening :: bool

definition opportunity_init :: opportunity_page where
  "opportunity_init =
     \<lparr>oq_request = None, oq_offer = None, oq_amount = [], oq_timeline = [], oq_message = [],
      oq_error = None, oq_busy = False, oq_jobs = [Detail False], oq_opening = False\<rparr>"

datatype opportunity_event =
    OpportunityLoaded nat "failure + service_request"
  | MyOfferLoaded nat "failure + offer list"
  | OfferActed nat "failure + unit"
  | TypeAmount string
  | TypeTimeline string
  | TypePlan string
  | SubmitOffer
  | WithdrawOffer
  | ResubmitOffer
  | MessageClient message_button_event
  | ToOpportunities

text \<open>\<open>Math.round(Number(amount) * 100)\<close>; an empty field is zero, and \<open>NaN\<close> is sent as null.\<close>

definition amount_minor :: "string \<Rightarrow> json" where
  "amount_minor s = (case to_number s of None \<Rightarrow> JNull | Some x \<Rightarrow> JNum (math_round (x * 100)))"

definition offer_payload :: "opportunity_page \<Rightarrow> json" where
  "offer_payload p =
     JObj [(''amount'', amount_minor (oq_amount p)),
           (''currency'', JStr (case oq_request p of None \<Rightarrow> ''USD'' | Some r \<Rightarrow> sr_currency r)),
           (''timeline_text'', JStr (oq_timeline p)), (''message'', JStr (oq_message p))]"

definition opportunity_settle :: "nat \<Rightarrow> opportunity_page \<Rightarrow> opportunity_page" where
  "opportunity_settle i p =
     p\<lparr>oq_jobs := drop_job i (oq_jobs p), oq_busy := (if frees (oq_jobs p ! i) then False else oq_busy p)\<rparr>"

definition start_act :: "string \<Rightarrow> opportunity_page \<Rightarrow> opportunity_page" where
  "start_act m p = p\<lparr>oq_busy := True, oq_error := None, oq_jobs := oq_jobs p @ [Acting m]\<rparr>"

definition not_eligible :: string where
  "not_eligible = ''Request not found or you are not eligible to view it.''"

definition opportunity_loaded :: "nat \<Rightarrow> failure + service_request \<Rightarrow> opportunity_page \<Rightarrow> opportunity_page" where
  "opportunity_loaded i r p =
     (case r of
        Inl e \<Rightarrow> opportunity_settle i (p\<lparr>oq_error := Some not_eligible\<rparr>)
      | Inr d \<Rightarrow> p\<lparr>oq_request := Some d, oq_jobs := (oq_jobs p)[i := Listing (frees (oq_jobs p ! i))]\<rparr>)"

text \<open>The expert's own offer on the request \<open>rid\<close> fills in the form, over what was typed.\<close>

definition my_offer_loaded :: "string \<Rightarrow> nat \<Rightarrow> failure + offer list \<Rightarrow> opportunity_page \<Rightarrow> opportunity_page" where
  "my_offer_loaded rid i r p =
     opportunity_settle i (case r of
        Inl e \<Rightarrow> p\<lparr>oq_error := Some not_eligible\<rparr>
      | Inr os \<Rightarrow>
          (case find (\<lambda>o1. of_request o1 = rid) os of
             None \<Rightarrow> p\<lparr>oq_offer := None\<rparr>
           | Some o1 \<Rightarrow> p\<lparr>oq_offer := Some o1, oq_amount := of_amount_display o1,
                        oq_timeline := of_timeline o1, oq_message := of_message o1\<rparr>))"

definition offer_acted :: "nat \<Rightarrow> failure + unit \<Rightarrow> opportunity_page \<Rightarrow> opportunity_page" where
  "offer_acted i r p =
     (case r of
        Inr u \<Rightarrow> p\<lparr>oq_jobs := (oq_jobs p)[i := Detail True]\<rparr>
      | Inl e \<Rightarrow>
          opportunity_settle i (p\<lparr>oq_error := Some (api_message_or
            (case oq_jobs p ! i of Acting m \<Rightarrow> m | _ \<Rightarrow> []) e)\<rparr>))"

fun opportunity_step :: "string \<Rightarrow> opportunity_page \<Rightarrow> opportunity_event \<Rightarrow> opportunity_page" where
  "opportunity_step rid p (OpportunityLoaded i r) = opportunity_loaded i r p"
| "opportunity_step rid p (MyOfferLoaded i r) = my_offer_loaded rid i r p"
| "opportunity_step rid p (OfferActed i r) = offer_acted i r p"
| "opportunity_step rid p (TypeAmount s) = p\<lparr>oq_amount := s\<rparr>"
| "opportunity_step rid p (TypeTimeline s) = p\<lparr>oq_timeline := s\<rparr>"
| "opportunity_step rid p (TypePlan s) = p\<lparr>oq_message := s\<rparr>"
| "opportunity_step rid p SubmitOffer = start_act ''Could not save the offer.'' p"
| "opportunity_step rid p WithdrawOffer = start_act ''Action failed.'' p"
| "opportunity_step rid p ResubmitOffer = start_act ''Action failed.'' p"
| "opportunity_step rid p (MessageClient ev) = p\<lparr>oq_opening := message_button_step (oq_opening p) ev\<rparr>"
| "opportunity_step rid p ToOpportunities = p"

definition submit_call :: "string \<Rightarrow> opportunity_page \<Rightarrow> api_init" where
  "submit_call rid p =
     (case oq_offer p of
        Some o1 \<Rightarrow> if isOfferEditable (of_status o1) then offersApi_update (of_id o1) (offer_payload p)
                  else offersApi_submit rid (offer_payload p)
      | None \<Rightarrow> offersApi_submit rid (offer_payload p))"

fun opportunity_call :: "string \<Rightarrow> opportunity_page \<Rightarrow> opportunity_event \<Rightarrow> api_init option" where
  "opportunity_call rid p (OpportunityLoaded i (Inr d)) = Some offersApi_mine"
| "opportunity_call rid p (OfferActed i (Inr u)) = Some (feedApi_detail rid)"
| "opportunity_call rid p SubmitOffer = Some (submit_call rid p)"
| "opportunity_call rid p WithdrawOffer = map_option (\<lambda>o1. offersApi_withdraw (of_id o1)) (oq_offer p)"
| "opportunity_call rid p ResubmitOffer = map_option (\<lambda>o1. offersApi_resubmit (of_id o1)) (oq_offer p)"
| "opportunity_call rid p (MessageClient OpenMessages) =
     map_option (\<lambda>r. messagingApi_open (RequestContext (sr_id r))) (oq_request p)"
| "opportunity_call rid p _ = None"

definition own_offer_node :: "offer \<Rightarrow> opportunity_event ui list" where
  "own_offer_node o1 =
     [Heading ''Your offer'', offer_badge o1]
     @ shown_if (of_status o1 = Of_declined \<and> of_response_reason o1 \<noteq> []) [Text (''Reason: '' @ of_response_reason o1)]
     @ [Text (of_amount_display o1 @ '' '' @ of_currency o1 @ '' - '' @ of_timeline o1
          @ (case of_net_preview o1 of None \<Rightarrow> []
             | Some (commission, net) \<Rightarrow>
                 '' - your net after platform commission: '' @ cents_text net @ '' '' @ of_currency o1))]
     @ shown_if (isOfferEditable (of_status o1)) [Text ''Editable while the request is open (BR-15).'']"

definition form_shown :: "offer option \<Rightarrow> bool" where
  "form_shown mine =
     (case mine of None \<Rightarrow> True | Some o1 \<Rightarrow> isOfferEditable (of_status o1) \<or> isOfferResubmittable (of_status o1))"

definition offer_form :: "opportunity_page \<Rightarrow> string \<Rightarrow> opportunity_event ui list" where
  "offer_form p currency =
     [Field (''Your price ('' @ currency @ '')'') (oq_amount p) TypeAmount,
      Field ''Proposed schedule'' (oq_timeline p) TypeTimeline,
      Field ''Your plan'' (oq_message p) TypePlan,
      Button (if oq_busy p then ''Saving...'' else if oq_offer p \<noteq> None then ''Update offer'' else ''Send offer'')
        (oq_busy p) SubmitOffer]
     @ (case oq_offer p of None \<Rightarrow> []
        | Some o1 \<Rightarrow>
            shown_if (isOfferEditable (of_status o1)) [Button ''Withdraw'' (oq_busy p) WithdrawOffer]
            @ shown_if (isOfferResubmittable (of_status o1)) [Button ''Re-submit'' (oq_busy p) ResubmitOffer])
     @ shown_if (oq_amount p \<noteq> [] \<and> (case to_number (oq_amount p) of None \<Rightarrow> False | Some x \<Rightarrow> 5 \<le> x))
         [Text ''Binding offer: acceptance creates the order at this price (BR-16).'']"

definition opportunity_head :: "opportunity_page \<Rightarrow> service_request \<Rightarrow> opportunity_event ui list" where
  "opportunity_head p r =
     [Heading (sr_title r)]
     @ map (map_events MessageClient) (MessageThreadButton ''Message client'' (oq_opening p) False)
     @ [Text ((case sr_subject r of None \<Rightarrow> ''No subject'' | Some t \<Rightarrow> tx_name t)
          @ '' - '' @ REQUEST_STATUS_COPY (sr_status r)
          @ (case sr_deadline r of None \<Rightarrow> [] | Some d \<Rightarrow> '' - needed by '' @ d)),
        request_badge r, Text (sr_description r)]
     @ map file_line (sr_attachments r)"

definition OpportunityDetailPage :: "opportunity_page \<Rightarrow> opportunity_event ui list" where
  "OpportunityDetailPage p =
     (case oq_request p of
        None \<Rightarrow> if truthy (oq_error p) then [Text (the (oq_error p))] else [Box ''loading'' []]
      | Some r \<Rightarrow>
          opportunity_head p r
          @ (case oq_offer p of None \<Rightarrow> [Heading ''Submit your offer''] | Some o1 \<Rightarrow> own_offer_node o1)
          @ shown_if (form_shown (oq_offer p)) (offer_form p (sr_currency r))
          @ alert_if (oq_error p)
          @ [Button ''Back to opportunities'' False ToOpportunities])"

fun opportunity_enabled :: "opportunity_page \<Rightarrow> opportunity_event \<Rightarrow> bool" where
  "opportunity_enabled p (OpportunityLoaded i r) = (i < length (oq_jobs p) \<and> (\<exists>b. oq_jobs p ! i = Detail b))"
| "opportunity_enabled p (MyOfferLoaded i r) = (i < length (oq_jobs p) \<and> (\<exists>b. oq_jobs p ! i = Listing b))"
| "opportunity_enabled p (OfferActed i r) = (i < length (oq_jobs p) \<and> (\<exists>m. oq_jobs p ! i = Acting m))"
| "opportunity_enabled p (MessageClient (MessagesOpened r)) = oq_opening p"
| "opportunity_enabled p e = offered (OpportunityDetailPage p) e"

abbreviation opportunity_reach :: "string \<Rightarrow> opportunity_page \<Rightarrow> bool" where
  "opportunity_reach rid \<equiv> reach (\<lambda>p. p = opportunity_init) opportunity_enabled (opportunity_step rid)"

lemmas opportunity_defs = opportunity_settle_def start_act_def opportunity_loaded_def my_offer_loaded_def
  offer_acted_def

lemma offered_own_offer [simp]: "\<not> offered (own_offer_node o1) e"
  by (simp add: own_offer_node_def offer_badge_def)

lemma offered_opportunity_head:
  "offered (opportunity_head p r) e \<longleftrightarrow> e = MessageClient OpenMessages \<and> \<not> oq_opening p"
  by (auto simp: opportunity_head_def request_badge_def simp del: list.map)

lemma offered_offer_form:
  "offered (offer_form p c) e \<longleftrightarrow>
     (\<exists>s. e = TypeAmount s) \<or> (\<exists>s. e = TypeTimeline s) \<or> (\<exists>s. e = TypePlan s) \<or>
     (\<not> oq_busy p \<and>
      (e = SubmitOffer \<or>
       (\<exists>o1. oq_offer p = Some o1 \<and>
         (e = WithdrawOffer \<and> isOfferEditable (of_status o1) \<or>
          e = ResubmitOffer \<and> isOfferResubmittable (of_status o1)))))"
  by (cases "oq_offer p") (auto simp: offer_form_def)

lemma offered_OpportunityDetailPage:
  "offered (OpportunityDetailPage p) e \<longleftrightarrow>
     (\<exists>r. oq_request p = Some r \<and>
       (e = ToOpportunities \<or> offered (opportunity_head p r) e \<or>
        (form_shown (oq_offer p) \<and> offered (offer_form p (sr_currency r)) e)))"
  by (cases "oq_request p"; cases "oq_offer p") (auto simp: OpportunityDetailPage_def)

section \<open>Properties\<close>

definition sample_request :: service_request where
  "sample_request =
     \<lparr>sr_id = ''q1'', sr_mode = Open_mode, sr_category = ''tutoring'', sr_title = ''Proofs'', sr_description = [],
      sr_subject = None, sr_skills = [], sr_pricing = Fixed, sr_budget_min = None, sr_budget_max = Some 15000,
      sr_budget_min_display = None, sr_budget_max_display = Some ''150'', sr_currency = ''USD'', sr_deadline = None,
      sr_status = Rq_open, sr_offer_count = 1, sr_expires_at = None, sr_attachments = [], sr_created_at = [],
      sr_student_view = True, sr_bidding = None\<rparr>"

definition sample_offer :: offer where
  "sample_offer =
     \<lparr>of_id = ''o1'', of_request = ''q1'', of_amount = 9000, of_amount_display = ''90'', of_currency = ''USD'',
      of_timeline = ''two weeks'', of_message = ''plan'', of_status = Of_pending, of_responded_at = None,
      of_response_reason = [], of_net_preview = None, of_expert = None\<rparr>"

text \<open>
  C25: the owner's page selects, declines and cancels only where the workflow allows it. In every
  reachable state an offer is selected or declined only if it is one of the offers listed, pending,
  and the request shown is open and the viewer's own, with no action on that offer under way; a
  request is cancelled only while it is open. And no control stays disabled: when nothing is in
  flight, no offer is marked busy.
\<close>

theorem selection_policy:
  assumes "request_page_reach p" and "request_page_enabled p e" and "request_page_call rid p e = Some i"
    and "e = SelectExpert oid \<or> e = DeclineOffer oid \<or> e = CancelRequest"
  shows "(\<exists>r. rp_request p = Some r \<and> sr_status r = Rq_open \<and>
      (e = CancelRequest \<and> i = requestsApi_cancel (sr_id r) [] \<or>
       e \<noteq> CancelRequest \<and> sr_student_view r \<and> rp_busy p \<noteq> Some oid \<and>
       (\<exists>os o1. rp_offers p = Some os \<and> o1 \<in> set os \<and> of_id o1 = oid \<and> of_status o1 = Of_pending) \<and>
       (i = selectionApi_accept (sr_id r) oid \<or> i = selectionApi_decline (sr_id r) oid []))) \<and>
    (rp_jobs p = [] \<longrightarrow> rp_busy p = None)"
proof
  show "rp_jobs p = [] \<longrightarrow> rp_busy p = None"
    using request_view.reach_inv [OF assms(1)] by (auto simp: busy_inv_def)
  have "offered (RequestDetailPage p) e" using assms(2,4) by auto
  then obtain r where r: "rp_request p = Some r" and
    o: "offered (request_head r) e \<or>
      (sr_student_view r \<and> (\<exists>os o1. rp_offers p = Some os \<and> o1 \<in> set os \<and> offers (offer_card p r o1) e))"
    by (auto simp: offered_RequestDetailPage)
  show "\<exists>r. rp_request p = Some r \<and> sr_status r = Rq_open \<and>
      (e = CancelRequest \<and> i = requestsApi_cancel (sr_id r) [] \<or>
       e \<noteq> CancelRequest \<and> sr_student_view r \<and> rp_busy p \<noteq> Some oid \<and>
       (\<exists>os o1. rp_offers p = Some os \<and> o1 \<in> set os \<and> of_id o1 = oid \<and> of_status o1 = Of_pending) \<and>
       (i = selectionApi_accept (sr_id r) oid \<or> i = selectionApi_decline (sr_id r) oid []))"
    using assms(3,4) o r
    by (intro exI [of _ r])
      (auto simp: offered_request_head offered_offer_card canAcceptOffers_def isDraftEditable_def)
qed

theorem selection_policy_witness:
  "(let p = run request_page_step request_page_init
        [DetailAnswer 0 (Inr sample_request), OffersAnswer 0 (Inr [sample_offer])]
    in rp_busy p \<noteq> Some ''o1'' \<and> rp_jobs p = [] \<and> rp_busy p = None)"
proof -
  let ?p = "run request_page_step request_page_init
        [DetailAnswer 0 (Inr sample_request), OffersAnswer 0 (Inr [sample_offer])]"
  have r: "request_page_reach ?p"
    by (rule reach_run) (auto intro: reach_start simp: request_page_init_def request_page_defs sample_request_def)
  have s: "rp_request ?p = Some sample_request" "rp_offers ?p = Some [sample_offer]" "rp_jobs ?p = []" "rp_busy ?p = None"
    by (simp_all add: request_page_init_def request_page_defs sample_request_def drop_job_def)
  have e: "request_page_enabled ?p (SelectExpert ''o1'')"
    using s by (simp add: offered_RequestDetailPage offered_offer_card sample_request_def sample_offer_def canAcceptOffers_def)
  have c: "request_page_call ''q1'' ?p (SelectExpert ''o1'') = Some (selectionApi_accept ''q1'' ''o1'')"
    using s by (simp add: sample_request_def)
  show ?thesis using selection_policy [OF r e c, of "''o1''"] s by (simp add: Let_def)
qed

text \<open>
  What the offer form sends. The form can be submitted exactly when the request is loaded, no
  action is under way and the expert has no offer on it, a pending one or a withdrawn one; a pending
  offer is then updated, and without an offer one is submitted. But a withdrawn offer, for which the
  button also says \<open>Update offer\<close>, is not updated: a second offer is submitted for the same request.
\<close>

lemma offer_form_requests:
  "(opportunity_enabled p SubmitOffer \<longleftrightarrow>
      oq_request p \<noteq> None \<and> \<not> oq_busy p \<and>
      map_option of_status (oq_offer p) \<in> {None, Some Of_pending, Some Of_withdrawn}) \<and>
   opportunity_call rid (p\<lparr>oq_offer := None\<rparr>) SubmitOffer = Some (offersApi_submit rid (offer_payload p)) \<and>
   opportunity_call rid (p\<lparr>oq_offer := Some (o1\<lparr>of_status := Of_pending\<rparr>)\<rparr>) SubmitOffer =
     Some (offersApi_update (of_id o1) (offer_payload p)) \<and>
   (let p' = p\<lparr>oq_offer := Some (o1\<lparr>of_status := Of_withdrawn\<rparr>), oq_busy := False\<rparr>
    in Button ''Update offer'' False SubmitOffer \<in> set (offer_form p' c) \<and>
       opportunity_call rid p' SubmitOffer = Some (offersApi_submit rid (offer_payload p)))"
proof (intro conjI)
  show "opportunity_enabled p SubmitOffer \<longleftrightarrow>
      oq_request p \<noteq> None \<and> \<not> oq_busy p \<and>
      map_option of_status (oq_offer p) \<in> {None, Some Of_pending, Some Of_withdrawn}"
    by (auto simp: offered_OpportunityDetailPage offered_opportunity_head offered_offer_form form_shown_def
        isOfferEditable_def isOfferResubmittable_def split: option.splits)
  have payload: "offer_payload (p\<lparr>oq_offer := x\<rparr>) = offer_payload p"
    "offer_payload (p\<lparr>oq_offer := x, oq_busy := b\<rparr>) = offer_payload p" for x b
    by (simp_all add: offer_payload_def)
  show "opportunity_call rid (p\<lparr>oq_offer := None\<rparr>) SubmitOffer = Some (offersApi_submit rid (offer_payload p))"
    "opportunity_call rid (p\<lparr>oq_offer := Some (o1\<lparr>of_status := Of_pending\<rparr>)\<rparr>) SubmitOffer =
     Some (offersApi_update (of_id o1) (offer_payload p))"
    by (simp_all add: submit_call_def payload isOfferEditable_def)
  show "let p' = p\<lparr>oq_offer := Some (o1\<lparr>of_status := Of_withdrawn\<rparr>), oq_busy := False\<rparr>
    in Button ''Update offer'' False SubmitOffer \<in> set (offer_form p' c) \<and>
       opportunity_call rid p' SubmitOffer = Some (offersApi_submit rid (offer_payload p))"
    by (simp add: submit_call_def payload isOfferEditable_def offer_form_def Let_def)
qed

end
