(* ===== verification/BiddingServer.thy ===== *)
theory BiddingServer
  imports OrderTerms Offers
begin

text \<open>
  The offers on a request and the selection of one: \<open>apps/bidding/services.py\<close>, its views and its
  task. The state is what hangs together by one request: the request, the offers on it, and from the
  selection on the order and its rows. An expert's pending offers on other requests, and the rows of
  \<open>apps/experts\<close> that decide about an expert, are read from a world that changes from call to call.
\<close>

section \<open>Rows\<close>

record offer_row =
  fr_id :: string
  fr_expert :: int
  fr_amount :: int
  fr_currency :: string
  fr_timeline :: string
  fr_message :: string
  fr_status :: offer_status
  fr_responded_at :: "int option"
  fr_reason :: string                        \<comment> \<open>\<open>response_reason\<close>\<close>

record market =
  mk_request :: db_request
  mk_offers :: "offer_row list"
  mk_order :: "order_state option"
  mk_audit :: "(int option \<times> string) list"
  mk_notices :: "(int \<times> string) list"

text \<open>The application and the profile of an expert, where there are any.\<close>

record expert_rows =
  xr_application :: "string option"
  xr_availability :: "string option"
  xr_display_name :: string

record bid_world =
  bw_experts :: "int \<Rightarrow> expert_rows"
  bw_elsewhere :: "int \<Rightarrow> nat"              \<comment> \<open>pending offers on other requests\<close>
  bw_email :: string                         \<comment> \<open>the student's\<close>
  bw_uploads :: "upload_row list"

definition is_expert :: "expert_rows \<Rightarrow> bool" where
  "is_expert x \<longleftrightarrow> xr_application x = Some ''approved''"

definition expert_is_eligible :: "expert_rows \<Rightarrow> bool" where
  "expert_is_eligible x \<longleftrightarrow>
     is_expert x \<and> xr_availability x = Some ''available'' \<and> xr_application x = Some ''approved''"

text \<open>What the serializer of a new offer lets through, and the fields a change of an offer brings.\<close>

record offer_data =
  pa_amount :: int
  pa_currency :: string
  pa_timeline :: string
  pa_message :: string

record offer_patch =
  pt_amount :: "json option"
  pt_currency :: "string option"
  pt_timeline :: "string option"
  pt_message :: "string option"

definition MAX_PENDING_OFFERS :: nat where "MAX_PENDING_OFFERS = 20"
definition MIN_OFFER_MINOR :: int where "MIN_OFFER_MINOR = 500"

text \<open>The columns of an offer. The database refuses a value that does not fit, and no handler knows its error.\<close>

definition row_fits :: "offer_row \<Rightarrow> bool" where
  "row_fits f \<longleftrightarrow>
     - (2 ^ 63) \<le> fr_amount f \<and> fr_amount f < 2 ^ 63 \<and> length (fr_currency f) \<le> 3 \<and> length (fr_timeline f) \<le> 200"

section \<open>Reading and writing\<close>

definition offer_of :: "string \<Rightarrow> market \<Rightarrow> offer_row option" where
  "offer_of oid m = find (\<lambda>f. fr_id f = oid) (mk_offers m)"

definition save_offer :: "offer_row \<Rightarrow> market \<Rightarrow> market" where
  "save_offer f m = m\<lparr>mk_offers := map (\<lambda>g. if fr_id g = fr_id f then f else g) (mk_offers m)\<rparr>"

definition bid_audit :: "int option \<Rightarrow> string \<Rightarrow> market \<Rightarrow> market" where
  "bid_audit actor action m = m\<lparr>mk_audit := mk_audit m @ [(actor, action)]\<rparr>"

definition bid_notify :: "int \<Rightarrow> string \<Rightarrow> market \<Rightarrow> market" where
  "bid_notify recipient ntype m = m\<lparr>mk_notices := mk_notices m @ [(recipient, ntype)]\<rparr>"

definition pending_count :: "bid_world \<Rightarrow> int \<Rightarrow> market \<Rightarrow> nat" where
  "pending_count w expert m =
     length (filter (\<lambda>f. fr_expert f = expert \<and> fr_status f = Of_pending) (mk_offers m)) + bw_elsewhere w expert"

text \<open>The counter is a column of positive integers.\<close>

definition count_offers :: "int \<Rightarrow> market \<Rightarrow> market served" where
  "count_offers n m =
     (let c = rr_offer_count (mk_request m) + n
      in if c < 0 then Inl server_error else Inr (m\<lparr>mk_request := (mk_request m)\<lparr>rr_offer_count := c\<rparr>\<rparr>))"

section \<open>The expert's side\<close>

definition bid_guard :: "int \<Rightarrow> bid_world \<Rightarrow> account \<Rightarrow> db_request \<Rightarrow> unit served" where
  "bid_guard now w a r =
     (if \<not> expert_is_eligible (bw_experts w (acct_id a))
      then Inl (PermissionDeniedError ''Only approved, available experts can offer.'')
      else if \<not> is_open_for_offers now r \<or> rr_mode r \<noteq> Open_mode
      then Inl (DomainError ''This request is not accepting offers.'' ''request_closed'')
      else if rr_student r = acct_id a
      then Inl (DomainError ''You cannot submit an offer on your own request.'' ''self_dealing'')
      else Inr ())"

definition new_offer :: "account \<Rightarrow> string \<Rightarrow> offer_data \<Rightarrow> offer_row" where
  "new_offer a oid p =
     \<lparr>fr_id = oid, fr_expert = acct_id a, fr_amount = pa_amount p, fr_currency = pa_currency p,
      fr_timeline = pa_timeline p, fr_message = pa_message p, fr_status = Of_pending, fr_responded_at = None,
      fr_reason = []\<rparr>"

lemma new_offer_simps [simp]:
  "fr_id (new_offer a oid p) = oid" "fr_expert (new_offer a oid p) = acct_id a"
  "fr_amount (new_offer a oid p) = pa_amount p" "fr_status (new_offer a oid p) = Of_pending"
  by (simp_all add: new_offer_def)

definition submit_offer ::
    "int \<Rightarrow> bid_world \<Rightarrow> account \<Rightarrow> string \<Rightarrow> offer_data \<Rightarrow> market \<Rightarrow> market served" where
  "submit_offer now w a oid p m =
     and_then (bid_guard now w a (mk_request m)) (\<lambda>_.
       if pa_amount p < MIN_OFFER_MINOR
       then Inl (DomainError ''Offers below the platform minimum are not allowed (BR-18).'' ''offer_too_low'')
       else if list_ex (\<lambda>f. fr_expert f = acct_id a) (mk_offers m)
       then Inl (DomainError ''You already have an offer on this request (BR-15).'' ''offer_exists'')
       else if MAX_PENDING_OFFERS \<le> pending_count w (acct_id a) m
       then Inl (DomainError ''Too many pending offers -- withdraw one first.'' ''offer_limit'')
       else if \<not> row_fits (new_offer a oid p) then Inl server_error
       else and_then (count_offers 1 (m\<lparr>mk_offers := mk_offers m @ [new_offer a oid p]\<rparr>)) (\<lambda>m1.
              Inr (bid_notify (rr_student (mk_request m)) ''request_new_offer''
                     (bid_audit (Some (acct_id a)) ''offer.submit'' m1))))"

definition owned_pending :: "account \<Rightarrow> offer_row \<Rightarrow> unit served" where
  "owned_pending a f =
     (if fr_expert f \<noteq> acct_id a then Inl (PermissionDeniedError ''You can only manage your own offers.'')
      else if fr_status f \<noteq> Of_pending
      then Inl (DomainError ''Only pending offers can be changed.'' ''offer_locked'')
      else Inr ())"

text \<open>The comparison with the minimum: null is not compared, and anything but a number raises. True is 1.\<close>

fun below_minimum :: "json \<Rightarrow> bool option" where
  "below_minimum JNull = Some False"
| "below_minimum (JNum n) = Some (n < MIN_OFFER_MINOR)"
| "below_minimum (JBool b) = Some True"
| "below_minimum _ = None"

definition patched :: "offer_patch \<Rightarrow> int \<Rightarrow> offer_row \<Rightarrow> offer_row" where
  "patched p n f =
     f\<lparr>fr_amount := n, fr_currency := nullish (pt_currency p) (fr_currency f),
       fr_timeline := nullish (pt_timeline p) (fr_timeline f), fr_message := nullish (pt_message p) (fr_message f)\<rparr>"

text \<open>No serializer stands before a change: a null amount passes the guard and fails in the database.\<close>

definition update_offer ::
    "int \<Rightarrow> bid_world \<Rightarrow> account \<Rightarrow> offer_patch \<Rightarrow> offer_row \<Rightarrow> market \<Rightarrow> market served" where
  "update_offer now w a p f m =
     and_then (owned_pending a f) (\<lambda>_.
       if \<not> expert_is_eligible (bw_experts w (acct_id a))
       then Inl (PermissionDeniedError ''Only approved, available experts can manage offers.'')
       else if \<not> is_open_for_offers now (mk_request m)
       then Inl (DomainError ''This request is no longer accepting offers.'' ''request_closed'')
       else (let v = nullish (pt_amount p) (JNum (fr_amount f))
             in case below_minimum v of
                  None \<Rightarrow> Inl server_error
                | Some True \<Rightarrow>
                    Inl (DomainError ''Offers below the platform minimum are not allowed (BR-18).'' ''offer_too_low'')
                | Some False \<Rightarrow>
                    (case v of
                       JNum n \<Rightarrow>
                         if row_fits (patched p n f)
                         then Inr (bid_audit (Some (acct_id a)) ''offer.update'' (save_offer (patched p n f) m))
                         else Inl server_error
                     | _ \<Rightarrow> Inl server_error)))"

definition withdraw_offer :: "int \<Rightarrow> account \<Rightarrow> offer_row \<Rightarrow> market \<Rightarrow> market served" where
  "withdraw_offer now a f m =
     and_then (owned_pending a f) (\<lambda>_.
       and_then (count_offers (- 1)
                  (save_offer (f\<lparr>fr_status := Of_withdrawn, fr_responded_at := Some now\<rparr>) m)) (\<lambda>m1.
         Inr (bid_audit (Some (acct_id a)) ''offer.withdraw'' m1)))"

definition resubmit_offer :: "int \<Rightarrow> bid_world \<Rightarrow> account \<Rightarrow> offer_row \<Rightarrow> market \<Rightarrow> market served" where
  "resubmit_offer now w a f m =
     (if fr_expert f \<noteq> acct_id a then Inl (PermissionDeniedError ''You can only manage your own offers.'')
      else if fr_status f \<noteq> Of_withdrawn
      then Inl (DomainError ''Only withdrawn offers can be re-submitted.'' ''invalid_transition'')
      else and_then (bid_guard now w a (mk_request m)) (\<lambda>_.
        if MAX_PENDING_OFFERS \<le> pending_count w (acct_id a) m
        then Inl (DomainError ''Too many pending offers -- withdraw one first.'' ''offer_limit'')
        else and_then (count_offers 1 (save_offer (f\<lparr>fr_status := Of_pending, fr_responded_at := None\<rparr>) m)) (\<lambda>m1.
          Inr (bid_audit (Some (acct_id a)) ''offer.resubmit'' m1))))"

section \<open>The student's side\<close>

definition decline_offer :: "int \<Rightarrow> account \<Rightarrow> string \<Rightarrow> offer_row \<Rightarrow> market \<Rightarrow> market served" where
  "decline_offer now a reason f m =
     (if rr_student (mk_request m) \<noteq> acct_id a
      then Inl (PermissionDeniedError ''You can only manage offers on your own requests.'')
      else if fr_status f \<noteq> Of_pending
      then Inl (DomainError ''Only pending offers can be declined.'' ''offer_locked'')
      else Inr (bid_audit (Some (acct_id a)) ''offer.decline''
             (save_offer (f\<lparr>fr_status := Of_declined, fr_responded_at := Some now, fr_reason := take 200 reason\<rparr>) m)))"

definition decline_sibling :: "int \<Rightarrow> offer_row \<Rightarrow> offer_row \<Rightarrow> offer_row" where
  "decline_sibling now f g =
     (if fr_id g \<noteq> fr_id f \<and> fr_status g = Of_pending
      then g\<lparr>fr_status := Of_declined, fr_responded_at := Some now, fr_reason := ''Another expert was selected''\<rparr>
      else g)"

text \<open>The name the order gets: that of the profile, or the number of the account.\<close>

definition shown_expert :: "bid_world \<Rightarrow> int \<Rightarrow> string" where
  "shown_expert w expert =
     (if xr_availability (bw_experts w expert) = None then ''user:'' @ show_int expert
      else xr_display_name (bw_experts w expert))"

definition create_order_from_offer ::
    "backend_config \<Rightarrow> int \<Rightarrow> bid_world \<Rightarrow> string \<Rightarrow> string \<Rightarrow> offer_row \<Rightarrow> db_request \<Rightarrow> order_state served" where
  "create_order_from_offer cfg now w order_id number f r =
     create_order_for_request cfg now order_id number (bw_email w) (fr_expert f) (shown_expert w (fr_expert f))
       (fr_amount f) (fr_currency f) Open_bid (bw_uploads w) r"

text \<open>
  The selection, one transaction under the locks of the offer and the request. It does not look at the time to
  live: a request that is due but not yet swept is open for selection.
\<close>

definition accept_offer ::
    "backend_config \<Rightarrow> int \<Rightarrow> bid_world \<Rightarrow> account \<Rightarrow> string \<Rightarrow> string \<Rightarrow> offer_row \<Rightarrow> market \<Rightarrow> market served" where
  "accept_offer cfg now w a order_id number f m =
     (let r = mk_request m
      in if rr_student r \<noteq> acct_id a
         then Inl (PermissionDeniedError ''You can only select an expert on your own requests.'')
         else if fr_expert f = acct_id a
         then Inl (DomainError ''You cannot select your own offer.'' ''self_dealing'')
         else if fr_status f \<noteq> Of_pending
         then Inl (DomainError ''This offer can no longer be accepted.'' ''offer_locked'')
         else if rr_status r \<noteq> Rq_open
         then Inl (DomainError ''This request is not open for selection.'' ''request_closed'')
         else if \<not> expert_is_eligible (bw_experts w (fr_expert f))
         then Inl (DomainError ''This expert is no longer eligible.'' ''expert_ineligible'')
         else (let m1 = save_offer (f\<lparr>fr_status := Of_accepted, fr_responded_at := Some now\<rparr>) m;
                   m2 = m1\<lparr>mk_offers := map (decline_sibling now f) (mk_offers m1)\<rparr>
               in and_then (mark_matched now r) (\<lambda>(r', acts).
                    and_then (create_order_from_offer cfg now w order_id number f r') (\<lambda>s.
                      Inr (bid_notify (fr_expert f) ''offer_accepted''
                             (bid_audit (Some (acct_id a)) ''offer.accept''
                               (fold (bid_audit (Some (acct_id a))) acts
                                 (m2\<lparr>mk_request := r', mk_order := Some s\<rparr>))))))))"

section \<open>The task\<close>

definition expire_offer :: "int \<Rightarrow> offer_row \<Rightarrow> offer_row" where
  "expire_offer now g =
     (if fr_status g = Of_pending
      then g\<lparr>fr_status := Of_expired, fr_responded_at := Some now, fr_reason := ''Request expired''\<rparr> else g)"

definition expire_stale_requests :: "int \<Rightarrow> market \<Rightarrow> market" where
  "expire_stale_requests now m =
     (let r = mk_request m
      in if rr_status r = Rq_open \<and> (case rr_expires_at r of None \<Rightarrow> False | Some t \<Rightarrow> t \<le> now)
         then bid_audit None ''requests.bulk_expire''
                (m\<lparr>mk_request := expire_due now r, mk_offers := map (expire_offer now) (mk_offers m)\<rparr>)
         else m)"

section \<open>The machine\<close>

datatype bid_command =
    PostOffer string offer_data           \<comment> \<open>with the identifier of the new row\<close>
  | PatchOffer string offer_patch
  | TakeBackOffer string
  | RenewOffer string
  | RefuseOffer string string
  | SelectOffer string string string         \<comment> \<open>the offer; the identifier and number of the new order\<close>
  | OwnRequest request_command
  | ExpiryTick
  | OnOrder string order_command

type_synonym bid_answer = "domain_error option \<times> market"

definition bid_atomically :: "market \<Rightarrow> market served \<Rightarrow> bid_answer" where
  "bid_atomically m x = (case x of Inl e \<Rightarrow> (Some e, m) | Inr m' \<Rightarrow> (None, m'))"

definition on_offer :: "string \<Rightarrow> market \<Rightarrow> (offer_row \<Rightarrow> market served) \<Rightarrow> bid_answer" where
  "on_offer oid m f =
     (case offer_of oid m of
        None \<Rightarrow> (Some (NotFoundError ''No Offer matches the given query.''), m)
      | Some g \<Rightarrow> bid_atomically m (f g))"

text \<open>A request on the order; the service request is one row, which the order's rows refer to.\<close>

definition on_order :: "backend_config \<Rightarrow> int \<Rightarrow> string \<Rightarrow> account \<Rightarrow> order_command \<Rightarrow> market \<Rightarrow> bid_answer" where
  "on_order cfg now token a c m =
     (case mk_order m of
        None \<Rightarrow> (Some (NotFoundError ''No Order matches the given query.''), m)
      | Some s \<Rightarrow> (case exec cfg now token a c s of
                    (e, s') \<Rightarrow> (e, m\<lparr>mk_order := Some s', mk_request := os_request s'\<rparr>)))"

definition own_request :: "backend_config \<Rightarrow> int \<Rightarrow> account \<Rightarrow> request_command \<Rightarrow> market \<Rightarrow> bid_answer" where
  "own_request cfg now a rc m =
     (if mk_order m = None
      then (case request_exec now a rc (mk_request m) of
              (e, r, acts) \<Rightarrow> (e, fold (bid_audit (Some (acct_id a))) acts (m\<lparr>mk_request := r\<rparr>)))
      else on_order cfg now [] a (OnRequest rc) m)"

fun exec_bid :: "backend_config \<Rightarrow> int \<Rightarrow> bid_world \<Rightarrow> account \<Rightarrow> bid_command \<Rightarrow> market \<Rightarrow> bid_answer" where
  "exec_bid cfg now w a (PostOffer oid p) m = bid_atomically m (submit_offer now w a oid p m)"
| "exec_bid cfg now w a (PatchOffer oid p) m = on_offer oid m (\<lambda>f. update_offer now w a p f m)"
| "exec_bid cfg now w a (TakeBackOffer oid) m = on_offer oid m (\<lambda>f. withdraw_offer now a f m)"
| "exec_bid cfg now w a (RenewOffer oid) m = on_offer oid m (\<lambda>f. resubmit_offer now w a f m)"
| "exec_bid cfg now w a (RefuseOffer oid reason) m = on_offer oid m (\<lambda>f. decline_offer now a reason f m)"
| "exec_bid cfg now w a (SelectOffer oid order_id number) m =
     on_offer oid m (\<lambda>f. accept_offer cfg now w a order_id number f m)"
| "exec_bid cfg now w a (OwnRequest rc) m = own_request cfg now a rc m"
| "exec_bid cfg now w a ExpiryTick m = (None, expire_stale_requests now m)"
| "exec_bid cfg now w a (OnOrder token c) m = on_order cfg now token a c m"

type_synonym bid_call = "int \<times> bid_world \<times> account \<times> bid_command"

fun market_step :: "backend_config \<Rightarrow> market \<Rightarrow> bid_call \<Rightarrow> market" where
  "market_step cfg m (now, w, a, c) = snd (exec_bid cfg now w a c m)"

text \<open>A draft without offers; the identifier of a new offer is fresh.\<close>

definition market_start :: "market \<Rightarrow> bool" where
  "market_start m \<longleftrightarrow>
     rr_status (mk_request m) = Rq_draft \<and> rr_offer_count (mk_request m) = 0 \<and> mk_offers m = [] \<and> mk_order m = None"

fun market_enabled :: "market \<Rightarrow> bid_call \<Rightarrow> bool" where
  "market_enabled m (now, w, a, PostOffer oid p) = (oid \<notin> fr_id ` set (mk_offers m))"
| "market_enabled m (now, w, a, c) = True"

abbreviation market_reach :: "backend_config \<Rightarrow> market \<Rightarrow> bool" where
  "market_reach cfg \<equiv> reach market_start market_enabled (market_step cfg)"

section \<open>What stays true\<close>

text \<open>
  One offer of each expert, none of the student's own, none below the minimum; the counter of the request is the
  number of offers that are not withdrawn.
\<close>

definition offers_inv :: "market \<Rightarrow> bool" where
  "offers_inv m \<longleftrightarrow>
     distinct (map fr_id (mk_offers m)) \<and> distinct (map fr_expert (mk_offers m)) \<and>
     (\<forall>f \<in> set (mk_offers m). MIN_OFFER_MINOR \<le> fr_amount f \<and> fr_expert f \<noteq> rr_student (mk_request m)) \<and>
     rr_offer_count (mk_request m) = int (length (filter (\<lambda>f. fr_status f \<noteq> Of_withdrawn) (mk_offers m)))"

definition accepted_offers :: "market \<Rightarrow> offer_row list" where
  "accepted_offers m = filter (\<lambda>f. fr_status f = Of_accepted) (mk_offers m)"

text \<open>The order is between the student and the expert of the offer, at its price.\<close>

definition order_of_offer :: "offer_row \<Rightarrow> order_state \<Rightarrow> bool" where
  "order_of_offer f s \<longleftrightarrow>
     or_student (os_order s) = rr_student (os_request s) \<and> or_expert (os_order s) = fr_expert f \<and>
     or_amount (os_order s) = fr_amount f \<and> or_currency (os_order s) = fr_currency f \<and>
     or_commission (os_order s) + or_expert_amount (os_order s) = fr_amount f"

text \<open>No offer is accepted without an order; beside an order one is, and none is pending.\<close>

definition selection_inv :: "backend_config \<Rightarrow> market \<Rightarrow> bool" where
  "selection_inv cfg m \<longleftrightarrow>
     (case mk_order m of
        None \<Rightarrow> accepted_offers m = []
      | Some s \<Rightarrow>
          backend_reach cfg s \<and> os_request s = mk_request m \<and> past_match (rr_status (mk_request m)) \<and>
          (\<forall>f \<in> set (mk_offers m). fr_status f \<noteq> Of_pending) \<and>
          (\<exists>f. accepted_offers m = [f] \<and> order_of_offer f s))"

definition market_inv :: "backend_config \<Rightarrow> market \<Rightarrow> bool" where
  "market_inv cfg m \<longleftrightarrow> offers_inv m \<and> selection_inv cfg m"

lemmas market_defs = market_inv_def offers_inv_def selection_inv_def accepted_offers_def

section \<open>Offers by their identifiers\<close>

lemma offer_split:
  assumes "distinct (map fr_id (mk_offers m))" "offer_of oid m = Some f"
  obtains xs ys where "mk_offers m = xs @ f # ys" "fr_id f = oid" "oid \<notin> fr_id ` set xs" "oid \<notin> fr_id ` set ys"
    "\<forall>g. fr_id g = oid \<longrightarrow> save_offer g m = m\<lparr>mk_offers := xs @ g # ys\<rparr>"
proof -
  have f: "f \<in> set (mk_offers m)" "fr_id f = oid"
    using assms(2) by (auto simp: offer_of_def find_Some_iff)
  then obtain xs ys where os: "mk_offers m = xs @ f # ys" by (meson split_list)
  have out: "oid \<notin> fr_id ` set xs" "oid \<notin> fr_id ` set ys"
    using assms(1) f(2) by (auto simp: os)
  have same: "map (\<lambda>h. if fr_id h = oid then g else h) zs = zs" if "oid \<notin> fr_id ` set zs" for g zs
    using that by (induction zs) auto
  show ?thesis
    by (rule that [OF os f(2) out]) (simp add: save_offer_def os f(2) same [OF out(1)] same [OF out(2)])
qed

lemma bid_writers [simp]:
  "mk_request (bid_audit u x m) = mk_request m" "mk_offers (bid_audit u x m) = mk_offers m"
  "mk_order (bid_audit u x m) = mk_order m" "mk_request (bid_notify r n m) = mk_request m"
  "mk_offers (bid_notify r n m) = mk_offers m" "mk_order (bid_notify r n m) = mk_order m"
  by (simp_all add: bid_audit_def bid_notify_def)

lemma fold_bid_audit [simp]:
  "mk_request (fold (bid_audit u) acts m) = mk_request m" "mk_offers (fold (bid_audit u) acts m) = mk_offers m"
  "mk_order (fold (bid_audit u) acts m) = mk_order m"
  by (induction acts arbitrary: m) simp_all

lemma market_inv_frame:
  "mk_request m' = mk_request m \<Longrightarrow> mk_offers m' = mk_offers m \<Longrightarrow> mk_order m' = mk_order m \<Longrightarrow>
   market_inv cfg m' = market_inv cfg m"
  unfolding market_defs by (simp only:)

lemma market_inv_writers [simp]:
  "market_inv cfg (bid_audit u x m) = market_inv cfg m" "market_inv cfg (bid_notify r n m) = market_inv cfg m"
  "market_inv cfg (fold (bid_audit u) acts m) = market_inv cfg m"
  by (rule market_inv_frame; simp)+

lemma count_offers_Inr:
  "count_offers n m = Inr m' \<longleftrightarrow>
     0 \<le> rr_offer_count (mk_request m) + n \<and>
     m' = m\<lparr>mk_request := (mk_request m)\<lparr>rr_offer_count := rr_offer_count (mk_request m) + n\<rparr>\<rparr>"
  by (auto simp: count_offers_def Let_def)

text \<open>While the request is open, or an offer is pending, there is no order.\<close>

lemma open_no_order: "market_inv cfg m \<Longrightarrow> rr_status (mk_request m) = Rq_open \<Longrightarrow> mk_order m = None"
  by (auto simp: market_defs past_match_def split: option.splits)

lemma pending_no_order:
  "market_inv cfg m \<Longrightarrow> f \<in> set (mk_offers m) \<Longrightarrow> fr_status f = Of_pending \<Longrightarrow> mk_order m = None"
  by (auto simp: market_defs split: option.splits)

text \<open>A change of one offer, with the counter following, before the selection.\<close>

lemma change_offer:
  assumes "market_inv cfg m" "mk_order m = None" "offer_of oid m = Some f"
    and "fr_id g = oid" "fr_expert g = fr_expert f" "MIN_OFFER_MINOR \<le> fr_amount g" "fr_status g \<noteq> Of_accepted"
    and "n = (if fr_status g = Of_withdrawn then 0 else 1) - (if fr_status f = Of_withdrawn then 0 else 1)"
  shows "market_inv cfg (m\<lparr>mk_offers := mk_offers (save_offer g m),
      mk_request := (mk_request m)\<lparr>rr_offer_count := rr_offer_count (mk_request m) + n\<rparr>\<rparr>)"
proof -
  have "distinct (map fr_id (mk_offers m))" using assms(1) by (simp add: market_defs)
  then show ?thesis
    by (cases rule: offer_split [OF _ assms(3)])
      (use assms in \<open>auto simp: market_defs split: if_splits\<close>)
qed

section \<open>Each operation keeps it\<close>

lemma bid_guard_open:
  assumes "bid_guard now w a r = Inr u"
  shows "rr_status r = Rq_open" "rr_student r \<noteq> acct_id a" "expert_is_eligible (bw_experts w (acct_id a))"
  using assms by (auto simp: bid_guard_def is_open_for_offers_def split: if_splits)

lemma offer_of_mem: "offer_of oid m = Some f \<Longrightarrow> f \<in> set (mk_offers m) \<and> fr_id f = oid"
  by (auto simp: offer_of_def find_Some_iff)

lemma offer_of_unique:
  assumes "distinct (map fr_id (mk_offers m))" "f \<in> set (mk_offers m)" "fr_id f = oid"
  shows "offer_of oid m = Some f"
proof -
  obtain g where g: "offer_of oid m = Some g"
    using assms(2,3) by (cases "offer_of oid m") (auto simp: offer_of_def find_None_iff)
  then have "g = f" using offer_of_mem [OF g] assms by (auto simp: distinct_map inj_on_def)
  with g show ?thesis by simp
qed

lemma submit_offer_inv:
  assumes "submit_offer now w a oid p m = Inr m'" "market_inv cfg m" "oid \<notin> fr_id ` set (mk_offers m)"
  shows "market_inv cfg m'"
proof -
  obtain u m1 where g: "bid_guard now w a (mk_request m) = Inr u" and p: "MIN_OFFER_MINOR \<le> pa_amount p"
    and one: "\<not> list_ex (\<lambda>f. fr_expert f = acct_id a) (mk_offers m)"
    and m1: "count_offers 1 (m\<lparr>mk_offers := mk_offers m @ [new_offer a oid p]\<rparr>) = Inr m1"
    and m': "market_inv cfg m' = market_inv cfg m1"
    using assms(1) by (auto simp: submit_offer_def and_then_Inr not_less split: if_splits)
  note o = bid_guard_open [OF g]
  have "mk_order m = None" by (rule open_no_order [OF assms(2) o(1)])
  then have "market_inv cfg m1"
    using assms(2,3) m1 p one o(2)
    by (auto simp: market_defs count_offers_Inr list_ex_iff new_offer_def)
  then show ?thesis by (simp add: m')
qed

lemma update_offer_inv:
  assumes "update_offer now w a p f m = Inr m'" "market_inv cfg m" "offer_of oid m = Some f"
  shows "market_inv cfg m'"
proof -
  obtain n where st: "fr_status f = Of_pending" and n: "MIN_OFFER_MINOR \<le> n"
    and m': "market_inv cfg m' = market_inv cfg (save_offer (patched p n f) m)"
    using assms(1)
    by (auto simp: update_offer_def and_then_Inr owned_pending_def Let_def not_less split: if_splits option.splits
        bool.splits json.splits)
  note f = offer_of_mem [OF assms(3)]
  have o: "mk_order m = None" using pending_no_order [OF assms(2)] f st by blast
  have "market_inv cfg (m\<lparr>mk_offers := mk_offers (save_offer (patched p n f) m),
      mk_request := (mk_request m)\<lparr>rr_offer_count := rr_offer_count (mk_request m) + 0\<rparr>\<rparr>)"
    by (rule change_offer [OF assms(2) o assms(3)]) (use f st n in \<open>simp_all add: patched_def\<close>)
  also have "m\<lparr>mk_offers := mk_offers (save_offer (patched p n f) m),
      mk_request := (mk_request m)\<lparr>rr_offer_count := rr_offer_count (mk_request m) + 0\<rparr>\<rparr> = save_offer (patched p n f) m"
    by (simp add: save_offer_def)
  finally show ?thesis by (simp add: m')
qed

lemma withdraw_offer_inv:
  assumes "withdraw_offer now a f m = Inr m'" "market_inv cfg m" "offer_of oid m = Some f"
  shows "market_inv cfg m'"
proof -
  let ?g = "f\<lparr>fr_status := Of_withdrawn, fr_responded_at := Some now\<rparr>"
  obtain m1 where st: "fr_status f = Of_pending" and m1: "count_offers (- 1) (save_offer ?g m) = Inr m1"
    and m': "market_inv cfg m' = market_inv cfg m1"
    using assms(1) by (auto simp: withdraw_offer_def and_then_Inr owned_pending_def split: if_splits)
  note f = offer_of_mem [OF assms(3)]
  have o: "mk_order m = None" using pending_no_order [OF assms(2)] f st by blast
  have "market_inv cfg (m\<lparr>mk_offers := mk_offers (save_offer ?g m),
      mk_request := (mk_request m)\<lparr>rr_offer_count := rr_offer_count (mk_request m) + - 1\<rparr>\<rparr>)"
    by (rule change_offer [OF assms(2) o assms(3)])
      (use f st assms(2) in \<open>auto simp: market_defs\<close>)
  then show ?thesis using m1 by (simp add: m' count_offers_Inr save_offer_def)
qed

lemma resubmit_offer_inv:
  assumes "resubmit_offer now w a f m = Inr m'" "market_inv cfg m" "offer_of oid m = Some f"
  shows "market_inv cfg m'"
proof -
  let ?g = "f\<lparr>fr_status := Of_pending, fr_responded_at := None\<rparr>"
  obtain u m1 where st: "fr_status f = Of_withdrawn" and g: "bid_guard now w a (mk_request m) = Inr u"
    and m1: "count_offers 1 (save_offer ?g m) = Inr m1" and m': "market_inv cfg m' = market_inv cfg m1"
    using assms(1) by (auto simp: resubmit_offer_def and_then_Inr split: if_splits)
  note f = offer_of_mem [OF assms(3)]
  have o: "mk_order m = None" by (rule open_no_order [OF assms(2) bid_guard_open(1) [OF g]])
  have "market_inv cfg (m\<lparr>mk_offers := mk_offers (save_offer ?g m),
      mk_request := (mk_request m)\<lparr>rr_offer_count := rr_offer_count (mk_request m) + 1\<rparr>\<rparr>)"
    by (rule change_offer [OF assms(2) o assms(3)])
      (use f st assms(2) in \<open>auto simp: market_defs\<close>)
  then show ?thesis using m1 by (simp add: m' count_offers_Inr save_offer_def)
qed

lemma decline_offer_inv:
  assumes "decline_offer now a reason f m = Inr m'" "market_inv cfg m" "offer_of oid m = Some f"
  shows "market_inv cfg m'"
proof -
  let ?g = "f\<lparr>fr_status := Of_declined, fr_responded_at := Some now, fr_reason := take 200 reason\<rparr>"
  have st: "fr_status f = Of_pending" and m': "market_inv cfg m' = market_inv cfg (save_offer ?g m)"
    using assms(1) by (auto simp: decline_offer_def split: if_splits)
  note f = offer_of_mem [OF assms(3)]
  have o: "mk_order m = None" using pending_no_order [OF assms(2)] f st by blast
  have "market_inv cfg (m\<lparr>mk_offers := mk_offers (save_offer ?g m),
      mk_request := (mk_request m)\<lparr>rr_offer_count := rr_offer_count (mk_request m) + 0\<rparr>\<rparr>)"
    by (rule change_offer [OF assms(2) o assms(3)])
      (use f st assms(2) in \<open>auto simp: market_defs\<close>)
  moreover have "m\<lparr>mk_offers := mk_offers (save_offer ?g m),
      mk_request := (mk_request m)\<lparr>rr_offer_count := rr_offer_count (mk_request m) + 0\<rparr>\<rparr> = save_offer ?g m"
    by (simp add: save_offer_def)
  ultimately show ?thesis by (simp add: m')
qed

lemma expire_inv:
  assumes "market_inv cfg m"
  shows "market_inv cfg (expire_stale_requests now m)"
proof (cases "rr_status (mk_request m) = Rq_open")
  case True
  have "mk_order m = None" by (rule open_no_order [OF assms True])
  moreover have "fr_id (expire_offer now f) = fr_id f" "fr_expert (expire_offer now f) = fr_expert f"
    "fr_amount (expire_offer now f) = fr_amount f"
    "fr_status (expire_offer now f) = Of_accepted \<longleftrightarrow> fr_status f = Of_accepted"
    "fr_status (expire_offer now f) = Of_withdrawn \<longleftrightarrow> fr_status f = Of_withdrawn" for f
    by (simp_all add: expire_offer_def)
  ultimately show ?thesis
    using assms by (simp add: expire_stale_requests_def Let_def expire_due_def market_defs filter_map comp_def)
qed (use assms in \<open>simp add: expire_stale_requests_def Let_def\<close>)

lemma create_order_from_offer_Inr:
  assumes "create_order_from_offer cfg now w order_id number f r = Inr s"
  shows "os_request s = r" "rr_student r \<noteq> fr_expert f"
    "or_status (os_order s) = Awaiting_payment" "or_id (os_order s) = order_id"
    "order_of_offer f s"
    "rr_status r = Rq_matched \<Longrightarrow> 0 \<le> fr_amount f \<Longrightarrow> backend_start s"
proof -
  show "os_request s = r" "rr_student r \<noteq> fr_expert f"
    "or_status (os_order s) = Awaiting_payment" "or_id (os_order s) = order_id"
    using assms
    by (auto simp: create_order_from_offer_def create_order_for_request_def case_prod_unfold Let_def split: if_splits)
  show "order_of_offer f s"
    using assms commission_split_sum
    by (auto simp: create_order_from_offer_def create_order_for_request_def case_prod_unfold Let_def order_of_offer_def
        split: if_splits)
  show "backend_start s" if "rr_status r = Rq_matched" "0 \<le> fr_amount f"
    using assms that unfolding create_order_from_offer_def backend_start_def by blast
qed

text \<open>What a selection leaves behind.\<close>

lemma accept_offer_cases:
  assumes "accept_offer cfg now w a order_id number f m = Inr m'" "offer_of oid m = Some f"
    and "distinct (map fr_id (mk_offers m))"
  obtains s xs ys where
    "rr_student (mk_request m) = acct_id a" "fr_status f = Of_pending" "rr_status (mk_request m) = Rq_open"
    "mk_offers m = xs @ f # ys" "oid \<notin> fr_id ` set xs" "oid \<notin> fr_id ` set ys"
    "create_order_from_offer cfg now w order_id number f ((mk_request m)\<lparr>rr_status := Rq_matched\<rparr>) = Inr s"
    "mk_request m' = (mk_request m)\<lparr>rr_status := Rq_matched\<rparr>" "mk_order m' = Some s"
    "mk_offers m' = map (decline_sibling now f) xs
       @ f\<lparr>fr_status := Of_accepted, fr_responded_at := Some now\<rparr> # map (decline_sibling now f) ys"
proof -
  obtain xs ys where x: "mk_offers m = xs @ f # ys" "fr_id f = oid" "oid \<notin> fr_id ` set xs" "oid \<notin> fr_id ` set ys"
    "\<forall>g. fr_id g = oid \<longrightarrow> save_offer g m = m\<lparr>mk_offers := xs @ g # ys\<rparr>"
    by (rule offer_split [OF assms(3,2)])
  have g: "rr_student (mk_request m) = acct_id a" "fr_status f = Of_pending" "rr_status (mk_request m) = Rq_open"
    using assms(1) by (auto simp: accept_offer_def Let_def split: if_splits)
  have t: "mark_matched now (mk_request m) = Inr ((mk_request m)\<lparr>rr_status := Rq_matched\<rparr>, [''select_offer''])"
    using g(3) by (simp add: mark_matched_def request_transition_def request_TRANSITIONS_def)
  obtain s where s: "create_order_from_offer cfg now w order_id number f
      ((mk_request m)\<lparr>rr_status := Rq_matched\<rparr>) = Inr s"
    using assms(1) by (auto simp: accept_offer_def Let_def t and_then_Inr split: if_splits)
  show ?thesis
    by (rule that [OF g x(1,3,4) s])
      (use assms(1) s x in \<open>auto simp: accept_offer_def Let_def t and_then_Inr decline_sibling_def split: if_splits\<close>)
qed

lemma decline_sibling_fields [simp]:
  "fr_id (decline_sibling now f g) = fr_id g" "fr_expert (decline_sibling now f g) = fr_expert g"
  "fr_amount (decline_sibling now f g) = fr_amount g"
  by (simp_all add: decline_sibling_def)

lemma decline_siblings:
  assumes "oid \<notin> fr_id ` set os" "fr_id f = oid" "filter (\<lambda>g. fr_status g = Of_accepted) os = []"
  shows "filter (\<lambda>g. fr_status g = Of_accepted) (map (decline_sibling now f) os) = []"
    "\<forall>g \<in> set (map (decline_sibling now f) os). fr_status g \<noteq> Of_pending"
    "length (filter (\<lambda>g. fr_status g \<noteq> Of_withdrawn) (map (decline_sibling now f) os)) =
       length (filter (\<lambda>g. fr_status g \<noteq> Of_withdrawn) os)"
proof -
  have w: "fr_status (decline_sibling now f g) = Of_withdrawn \<longleftrightarrow> fr_status g = Of_withdrawn" for g
    by (simp add: decline_sibling_def)
  show "length (filter (\<lambda>g. fr_status g \<noteq> Of_withdrawn) (map (decline_sibling now f) os)) =
       length (filter (\<lambda>g. fr_status g \<noteq> Of_withdrawn) os)"
    by (simp add: filter_map comp_def w)
  have "fr_status (decline_sibling now f g) \<noteq> Of_accepted \<and> fr_status (decline_sibling now f g) \<noteq> Of_pending"
    if "g \<in> set os" for g
    using assms that by (auto simp: decline_sibling_def filter_empty_conv image_iff)
  then show "filter (\<lambda>g. fr_status g = Of_accepted) (map (decline_sibling now f) os) = []"
    "\<forall>g \<in> set (map (decline_sibling now f) os). fr_status g \<noteq> Of_pending"
    by (simp_all add: filter_empty_conv)
qed

lemma accept_offer_inv:
  assumes "accept_offer cfg now w a order_id number f m = Inr m'" "market_inv cfg m" "offer_of oid m = Some f"
  shows "market_inv cfg m'"
proof -
  have d: "distinct (map fr_id (mk_offers m))" using assms(2) by (simp add: market_defs)
  show ?thesis
    using assms(1,3) d
  proof (cases rule: accept_offer_cases)
    case (1 s xs ys)
    note c = create_order_from_offer_Inr [OF 1(7)]
    have o: "mk_order m = None" by (rule open_no_order [OF assms(2) 1(3)])
    have f: "fr_id f = oid" using offer_of_mem [OF assms(3)] by simp
    have acc: "filter (\<lambda>g. fr_status g = Of_accepted) xs = []" "filter (\<lambda>g. fr_status g = Of_accepted) ys = []"
      using assms(2) o 1(2,4) by (simp_all add: market_defs)
    note xs = decline_siblings [OF 1(5) f acc(1), of now] and ys = decline_siblings [OF 1(6) f acc(2), of now]
    have "offers_inv m"
      using assms(2) by (simp add: market_inv_def)
    then have "offers_inv m'"
      unfolding offers_inv_def 1(8,10) 1(4)
      using xs(3) ys(3) 1(2) by (simp add: comp_def ball_Un image_iff)
    moreover have "backend_reach cfg s"
      by (rule reach_start, rule c(6)) (use assms(2) 1(4) in \<open>auto simp: market_defs MIN_OFFER_MINOR_def\<close>)
    then have "selection_inv cfg m'"
      using 1 c xs(1,2) ys(1,2)
      by (auto simp: selection_inv_def past_match_def accepted_offers_def order_of_offer_def)
    ultimately show ?thesis by (simp add: market_inv_def)
  qed
qed

lemma on_order_inv:
  assumes "market_inv cfg m"
  shows "market_inv cfg (snd (on_order cfg now token a c m))"
proof (cases "mk_order m")
  case (Some s)
  obtain e s' where r: "exec cfg now token a c s = (e, s')" by (rule prod.exhaust)
  have "agreed s s'" using exec_agreed [of s cfg now token a c] by (simp add: r)
  moreover have inv: "backend_reach cfg s" "os_request s = mk_request m" "past_match (rr_status (mk_request m))"
    using assms Some by (simp_all add: market_defs)
  ultimately have same: "rr_student (os_request s') = rr_student (mk_request m)"
    "rr_offer_count (os_request s') = rr_offer_count (mk_request m)" "past_match (rr_status (os_request s'))"
    "order_of_offer f s' = order_of_offer f s" for f
    by (simp_all add: agreed_def terms_def past_request_def order_of_offer_def)
  have "backend_reach cfg s'"
    using reach_step [OF inv(1), of "(now, token, a, c)"] by (simp add: r)
  then show ?thesis
    using assms Some same by (simp add: on_order_def r market_defs)
qed (use assms in \<open>simp add: on_order_def\<close>)

lemma own_request_inv:
  assumes "market_inv cfg m"
  shows "market_inv cfg (snd (own_request cfg now a rc m))"
proof (cases "mk_order m = None")
  case True
  obtain e r acts where r: "request_exec now a rc (mk_request m) = (e, r, acts)" by (metis prod_cases3)
  show ?thesis
    using assms True request_exec_agreed [OF r] by (simp add: own_request_def r, simp add: market_defs same_request_def)
next
  case False
  then have "own_request cfg now a rc m = on_order cfg now [] a (OnRequest rc) m" by (auto simp: own_request_def)
  then show ?thesis using on_order_inv [OF assms] by simp
qed

lemma on_offer_inv:
  assumes "market_inv cfg m" "\<And>f m'. offer_of oid m = Some f \<Longrightarrow> g f = Inr m' \<Longrightarrow> market_inv cfg m'"
  shows "market_inv cfg (snd (on_offer oid m g))"
  using assms by (auto simp: on_offer_def bid_atomically_def split: option.split sum.split)

lemma exec_bid_inv:
  assumes "market_inv cfg m" "market_enabled m (now, w, a, c)"
  shows "market_inv cfg (snd (exec_bid cfg now w a c m))"
proof (cases c)
  case (PostOffer oid p)
  then show ?thesis
    using assms submit_offer_inv by (simp add: bid_atomically_def split: sum.split)
qed (use assms(1) in \<open>simp_all add: on_offer_inv update_offer_inv withdraw_offer_inv resubmit_offer_inv
    decline_offer_inv accept_offer_inv own_request_inv expire_inv on_order_inv\<close>)

interpretation bidding: machine market_start market_enabled "market_step cfg" "market_inv cfg" for cfg
proof
  show "market_inv cfg m" if "market_start m" for m
    using that by (simp add: market_start_def market_defs)
  show "market_inv cfg (market_step cfg m call)" if "market_inv cfg m" "market_enabled m call" for m call
    using that exec_bid_inv by (cases call) simp
qed

text \<open>A selection the guards let through succeeds: the factory has nothing left to refuse.\<close>

lemma accept_offer_ok:
  assumes "market_inv cfg m" "offer_of oid m = Some f" "rr_student (mk_request m) = acct_id a"
    and "fr_status f = Of_pending" "rr_status (mk_request m) = Rq_open"
    and "expert_is_eligible (bw_experts w (fr_expert f))"
  shows "\<exists>m'. accept_offer cfg now w a order_id number f m = Inr m'"
proof -
  have x: "fr_expert f \<noteq> rr_student (mk_request m)"
    using assms(1) offer_of_mem [OF assms(2)] by (auto simp: market_defs)
  then have "\<exists>s. create_order_from_offer cfg now w order_id number f ((mk_request m)\<lparr>rr_status := Rq_matched\<rparr>) = Inr s"
    by (simp add: create_order_from_offer_def create_order_for_request_def case_prod_unfold Let_def)
  moreover have "mark_matched now (mk_request m) = Inr ((mk_request m)\<lparr>rr_status := Rq_matched\<rparr>, [''select_offer''])"
    using assms(5) by (simp add: mark_matched_def request_transition_def request_TRANSITIONS_def)
  ultimately show ?thesis
    using assms x by (auto simp: accept_offer_def Let_def)
qed

section \<open>What the code lets through\<close>

text \<open>An owner's refused publication of an open request still moves its time to live.\<close>

lemma refused_publication_extends:
  assumes "rr_student r = acct_id a" "rr_status r = Rq_open" "rr_mode r = Open_mode" "missing_fields r = []"
  shows "\<exists>e r'. request_exec now a (Publish_request True) r = (Some e, r', []) \<and>
    rr_expires_at r' = Some (now + days REQUEST_TTL_DAYS) \<and> rr_status r' = Rq_open"
  using assms
  by (simp add: request_exec_def publish_def Let_def request_answered_def request_transition_def
      request_TRANSITIONS_def missing_fields_def)

text \<open>The cancellation of a request leaves its offers pending.\<close>

lemma cancelled_request_keeps_offers:
  "mk_offers (snd (own_request cfg now a (Cancel_request reason) m)) = mk_offers m"
  by (simp add: own_request_def on_order_def split: prod.split option.split)

text \<open>What the page sends to update a withdrawn offer, a second submission, is refused.\<close>

lemma second_submission_refused:
  assumes "bid_guard now w a (mk_request m) = Inr ()" "MIN_OFFER_MINOR \<le> pa_amount p"
    and "f \<in> set (mk_offers m)" "fr_expert f = acct_id a"
  shows "exec_bid cfg now w a (PostOffer oid p) m =
    (Some (DomainError ''You already have an offer on this request (BR-15).'' ''offer_exists''), m)"
  using assms by (auto simp: submit_offer_def bid_atomically_def list_ex_iff)

section \<open>A sample request with two offers\<close>

definition sample_draft :: market where
  "sample_draft =
     \<lparr>mk_request = matched_request\<lparr>rr_status := Rq_draft, rr_offer_count := 0\<rparr>, mk_offers = [], mk_order = None,
      mk_audit = [], mk_notices = []\<rparr>"

definition sample_world :: bid_world where
  "sample_world =
     \<lparr>bw_experts = (\<lambda>_. \<lparr>xr_application = Some ''approved'', xr_availability = Some ''available'',
                          xr_display_name = ''Dr. Babbage''\<rparr>),
      bw_elsewhere = (\<lambda>_. 0), bw_email = ''ada@example.org'', bw_uploads = []\<rparr>"

definition sample_account :: "int \<Rightarrow> account" where
  "sample_account n = \<lparr>acct_id = n, acct_staff = False\<rparr>"

lemma sample_account_id [simp]: "acct_id (sample_account n) = n"
  by (simp add: sample_account_def)

definition sample_payload :: offer_data where
  "sample_payload = \<lparr>pa_amount = 9000, pa_currency = ''USD'', pa_timeline = ''two weeks'', pa_message = ''plan''\<rparr>"

definition open_market :: market where
  "open_market =
     run (market_step default_config) sample_draft
       [(0, sample_world, sample_account 1, OwnRequest (Publish_request True)),
        (5, sample_world, sample_account 2, PostOffer ''f1'' sample_payload),
        (6, sample_world, sample_account 3, PostOffer ''f2'' sample_payload)]"

lemma sample_eligible [simp]: "expert_is_eligible (bw_experts sample_world n)"
  by (simp add: sample_world_def expert_is_eligible_def is_expert_def)

lemma published_market:
  "mk_request (market_step default_config sample_draft (0, sample_world, sample_account 1, OwnRequest (Publish_request True)))
   = matched_request\<lparr>rr_status := Rq_open, rr_offer_count := 0, rr_attested_at := Some 0,
       rr_policy_version := INTEGRITY_POLICY_VERSION, rr_expires_at := Some (days REQUEST_TTL_DAYS)\<rparr>"
  "mk_offers (market_step default_config sample_draft (0, sample_world, sample_account 1, OwnRequest (Publish_request True))) = []"
  by (simp_all add: sample_draft_def sample_account_def own_request_def request_exec_def publish_def Let_def
      request_answered_def request_transition_def request_TRANSITIONS_def missing_fields_def matched_request_def)

lemma posted:
  assumes "rr_status (mk_request m) = Rq_open" "rr_mode (mk_request m) = Open_mode" "rr_student (mk_request m) = 1"
    and "rr_expires_at (mk_request m) = Some (days REQUEST_TTL_DAYS)" "0 \<le> rr_offer_count (mk_request m)"
    and "n \<noteq> 1" "n \<notin> fr_expert ` set (mk_offers m)" "now \<le> 6"
  shows "mk_request (market_step cfg m (now, sample_world, sample_account n, PostOffer oid sample_payload)) =
      (mk_request m)\<lparr>rr_offer_count := rr_offer_count (mk_request m) + 1\<rparr>"
    "mk_offers (market_step cfg m (now, sample_world, sample_account n, PostOffer oid sample_payload)) =
      mk_offers m @ [new_offer (sample_account n) oid sample_payload]"
proof -
  have "submit_offer now sample_world (sample_account n) oid sample_payload m \<noteq> Inl e" for e
    using assms
    by (auto simp: submit_offer_def bid_guard_def is_open_for_offers_def sample_account_def list_ex_iff
        MIN_OFFER_MINOR_def sample_payload_def row_fits_def new_offer_def count_offers_def Let_def days_def
        REQUEST_TTL_DAYS_def pending_count_def filter_empty_conv image_iff sample_world_def MAX_PENDING_OFFERS_def
        expert_is_eligible_def is_expert_def)
  then obtain m' where "submit_offer now sample_world (sample_account n) oid sample_payload m = Inr m'"
    by (cases "submit_offer now sample_world (sample_account n) oid sample_payload m") auto
  then show "mk_request (market_step cfg m (now, sample_world, sample_account n, PostOffer oid sample_payload)) =
      (mk_request m)\<lparr>rr_offer_count := rr_offer_count (mk_request m) + 1\<rparr>"
    "mk_offers (market_step cfg m (now, sample_world, sample_account n, PostOffer oid sample_payload)) =
      mk_offers m @ [new_offer (sample_account n) oid sample_payload]"
    by (auto simp: bid_atomically_def submit_offer_def and_then_Inr count_offers_Inr split: if_splits)
qed

lemma open_market_fields:
  "mk_request open_market = matched_request\<lparr>rr_status := Rq_open, rr_offer_count := 2, rr_attested_at := Some 0,
     rr_policy_version := INTEGRITY_POLICY_VERSION, rr_expires_at := Some (days REQUEST_TTL_DAYS)\<rparr>"
  "mk_offers open_market =
     [new_offer (sample_account 2) ''f1'' sample_payload, new_offer (sample_account 3) ''f2'' sample_payload]"
  by (simp_all del: market_step.simps add: open_market_def posted published_market matched_request_def)

lemma open_market_reach: "market_reach default_config open_market"
  unfolding open_market_def
proof (rule reach_run)
  show "market_reach default_config sample_draft"
    by (rule reach_start) (simp add: market_start_def sample_draft_def)
qed (simp del: market_step.simps add: posted published_market matched_request_def)

section \<open>Properties\<close>

text \<open>
  C13: The market of a request stays sound. Whatever students, experts and staff ask of the services, one
  request at a time and in whichever order, each
  expert has one offer on it, none the student's own, none below the minimum; the counter shown is the
  number of offers not withdrawn, so that taking one back is never answered by the error of the
  database. An offer is accepted exactly when there is an order; then it is the only one, no other is
  pending, and the order is one of this student and expert at the price offered, with a history that the
  guarantees on orders are about.
\<close>

theorem selection_sound:
  assumes "market_reach cfg m"
  shows "distinct (map fr_expert (mk_offers m)) \<and>
    (\<forall>f \<in> set (mk_offers m). 500 \<le> fr_amount f \<and> fr_expert f \<noteq> rr_student (mk_request m)) \<and>
    rr_offer_count (mk_request m) = int (length (filter (\<lambda>f. fr_status f \<noteq> Of_withdrawn) (mk_offers m))) \<and>
    fst (exec_bid cfg now w a (TakeBackOffer oid) m) \<noteq> Some server_error \<and>
    (case mk_order m of
       None \<Rightarrow> accepted_offers m = []
     | Some s \<Rightarrow>
         backend_reach cfg s \<and> os_request s = mk_request m \<and>
         (\<forall>f \<in> set (mk_offers m). fr_status f \<noteq> Of_pending) \<and> (\<exists>f. accepted_offers m = [f] \<and> order_of_offer f s))"
proof -
  have inv: "market_inv cfg m" by (rule bidding.reach_inv [OF assms])
  have "withdraw_offer now a f m \<noteq> Inl server_error" if f: "offer_of oid m = Some f" for f
  proof -
    have "0 < rr_offer_count (mk_request m)" if "fr_status f = Of_pending"
      using inv offer_of_mem [OF f] that by (auto simp: market_defs filter_empty_conv intro!: bexI [of _ f])
    then show ?thesis
      by (auto simp: withdraw_offer_def owned_pending_def count_offers_def save_offer_def Let_def server_error_def
          DomainError_def PermissionDeniedError_def)
  qed
  then have "fst (exec_bid cfg now w a (TakeBackOffer oid) m) \<noteq> Some server_error"
    by (auto simp: on_offer_def bid_atomically_def server_error_def NotFoundError_def split: option.split sum.split)
  then show ?thesis
    using inv by (auto simp: market_defs MIN_OFFER_MINOR_def split: option.splits)
qed

theorem selection_sound_witness:
  "length (mk_offers open_market) = 2 \<and> rr_offer_count (mk_request open_market) = 2 \<and>
   fst (exec_bid default_config 7 sample_world (sample_account 2) (TakeBackOffer ''f1'') open_market) \<noteq> Some server_error"
  using selection_sound [OF open_market_reach, of 7 sample_world "sample_account 2" "''f1''"]
  by (simp add: open_market_fields matched_request_def)

end
