(* ===== verification/Reviews.thy ===== *)
theory Reviews
  imports Forms
begin

text \<open>
  Reviews of an order: \<open>features/reviews/types.ts\<close> and
  \<open>features/reviews/components/review-card.tsx\<close>.

  A form is a state, the events its controls fire and a step function. Submitting has two parts:
  the checks, which either set an error or give the input that goes to the caller, and what
  happens when the caller's promise settles.
\<close>

section \<open>Data\<close>

datatype review_status = Published | Hidden

record review =
  rv_id :: string
  rv_order_id :: string
  rv_order_number :: string
  rv_rating :: nat
  rv_sub_quality :: "nat option"
  rv_sub_communication :: "nat option"
  rv_sub_timeliness :: "nat option"
  rv_body :: string
  rv_status :: review_status
  rv_expert_reply :: string
  rv_replied_at :: "string option"
  rv_edited :: bool
  rv_created_at :: string

datatype sub_score_key = Sub_quality | Sub_communication | Sub_timeliness

definition SUB_SCORES :: "(sub_score_key \<times> string) list" where
  "SUB_SCORES = [(Sub_quality, ''Quality''), (Sub_communication, ''Communication''),
                 (Sub_timeliness, ''Timeliness'')]"

text \<open>\<open>review[key]\<close>.\<close>

fun review_sub :: "review \<Rightarrow> sub_score_key \<Rightarrow> nat option" where
  "review_sub r Sub_quality = rv_sub_quality r"
| "review_sub r Sub_communication = rv_sub_communication r"
| "review_sub r Sub_timeliness = rv_sub_timeliness r"

definition MIN_BODY_CHARS :: nat where "MIN_BODY_CHARS = 20"
definition MAX_BODY_CHARS :: nat where "MAX_BODY_CHARS = 5000"
definition MAX_RATING :: nat where "MAX_RATING = 5"

definition canEditReview :: "review \<Rightarrow> bool \<Rightarrow> bool" where
  "canEditReview r viewerIsAuthor \<longleftrightarrow>
     viewerIsAuthor \<and> rv_expert_reply r = [] \<and> rv_status r = Published"

definition canReplyToReview :: "review \<Rightarrow> bool \<Rightarrow> bool" where
  "canReplyToReview r viewerIsExpert \<longleftrightarrow>
     viewerIsExpert \<and> rv_expert_reply r = [] \<and> rv_status r = Published"

section \<open>Stars and cards\<close>

text \<open>A star is \<open>*\<close>; \<open>repeat\<close> throws on a negative count, so on a rating above five.\<close>

definition Stars :: "nat \<Rightarrow> 'e ui list" where
  "Stars v =
     (if v \<le> MAX_RATING
      then [Box (''Rating: '' @ show_nat v @ '' out of '' @ show_nat MAX_RATING)
              [Text (replicate v CHR ''*''), Text (replicate (MAX_RATING - v) CHR ''*'')]]
      else [Throws ''RangeError''])"

definition RatingPicker :: "nat \<Rightarrow> (nat \<Rightarrow> 'e) \<Rightarrow> string \<Rightarrow> 'e ui" where
  "RatingPicker v onChange lab =
     Box lab (Text lab # map (\<lambda>star. Check (lab @ '': '' @ show_nat star) (v = star) False (onChange star))
       [1..<Suc MAX_RATING])"

definition ReviewCard :: "review \<Rightarrow> 'e ui list" where
  "ReviewCard r =
     [Box ''review-card''
       (Stars (rv_rating r)
        @ shown_if (rv_edited r) [Badge ''neutral'' ''Edited'']
        @ shown_if (truthy (rv_replied_at r)) [Badge ''info'' ''Expert replied'']
        @ [Text (rv_body r)]
        @ concat (map (\<lambda>(key, lab). case review_sub r key of
              None \<Rightarrow> [] | Some n \<Rightarrow> [Text (lab @ '': '' @ show_nat n @ ''/5'')]) SUB_SCORES)
        @ shown_if (rv_expert_reply r \<noteq> [])
            [Box ''expert-reply'' [Text ''Response from the expert'', Text (rv_expert_reply r)]])]"

section \<open>The composer\<close>

record sub_scores =
  sub_quality :: "nat option"
  sub_communication :: "nat option"
  sub_timeliness :: "nat option"

fun get_sub :: "sub_scores \<Rightarrow> sub_score_key \<Rightarrow> nat option" where
  "get_sub s Sub_quality = sub_quality s"
| "get_sub s Sub_communication = sub_communication s"
| "get_sub s Sub_timeliness = sub_timeliness s"

fun set_sub :: "sub_score_key \<Rightarrow> nat \<Rightarrow> sub_scores \<Rightarrow> sub_scores" where
  "set_sub Sub_quality v s = s\<lparr>sub_quality := Some v\<rparr>"
| "set_sub Sub_communication v s = s\<lparr>sub_communication := Some v\<rparr>"
| "set_sub Sub_timeliness v s = s\<lparr>sub_timeliness := Some v\<rparr>"

record review_composer =
  rc_rating :: nat
  rc_body :: string
  rc_subs :: sub_scores
  rc_error :: "string option"

record review_input =
  ri_rating :: nat
  ri_body :: string
  ri_subs :: sub_scores

definition composer_init :: "review option \<Rightarrow> review_composer" where
  "composer_init existing =
     (case existing of
        None \<Rightarrow> \<lparr>rc_rating = 0, rc_body = [],
                rc_subs = \<lparr>sub_quality = None, sub_communication = None, sub_timeliness = None\<rparr>,
                rc_error = None\<rparr>
      | Some r \<Rightarrow> \<lparr>rc_rating = rv_rating r, rc_body = rv_body r,
                  rc_subs = \<lparr>sub_quality = rv_sub_quality r, sub_communication = rv_sub_communication r,
                             sub_timeliness = rv_sub_timeliness r\<rparr>,
                  rc_error = None\<rparr>)"

datatype composer_event =
    PickRating nat
  | PickSub sub_score_key nat
  | TypeBody string
  | SubmitReview
  | ReviewSaved "failure + unit"      \<comment> \<open>the caller's promise settles\<close>

definition composer_check :: "locale_text \<Rightarrow> review_composer \<Rightarrow> string option" where
  "composer_check loc c =
     (if rc_rating c < 1 then Some ''Pick a star rating (required).''
      else if length (trim (rc_body c)) < MIN_BODY_CHARS
      then Some (''Share at least '' @ show_nat MIN_BODY_CHARS @ '' characters about the work.'')
      else if length (rc_body c) > MAX_BODY_CHARS
      then Some (''Reviews are limited to '' @ show_number loc (of_nat MAX_BODY_CHARS) @ '' characters.'')
      else None)"

text \<open>\<open>onSubmit\<close> up to its \<open>await\<close>: the new state and what goes to the caller.\<close>

definition composer_submit ::
    "locale_text \<Rightarrow> review_composer \<Rightarrow> review_composer \<times> review_input option" where
  "composer_submit loc c =
     (case composer_check loc c of
        Some m \<Rightarrow> (c\<lparr>rc_error := Some m\<rparr>, None)
      | None \<Rightarrow> (c\<lparr>rc_error := None\<rparr>,
          Some \<lparr>ri_rating = rc_rating c, ri_body = trim (rc_body c), ri_subs = rc_subs c\<rparr>))"

definition composer_saved :: "failure + unit \<Rightarrow> review_composer \<Rightarrow> review_composer" where
  "composer_saved r c =
     (case r of
        Inl e \<Rightarrow> c\<lparr>rc_error := Some (api_message_or ''Could not save the review.'' e)\<rparr>
      | Inr _ \<Rightarrow> c)"

fun composer_step :: "locale_text \<Rightarrow> review_composer \<Rightarrow> composer_event \<Rightarrow> review_composer" where
  "composer_step loc c (PickRating n) = c\<lparr>rc_rating := n\<rparr>"
| "composer_step loc c (PickSub k n) = c\<lparr>rc_subs := set_sub k n (rc_subs c)\<rparr>"
| "composer_step loc c (TypeBody s) = c\<lparr>rc_body := s\<rparr>"
| "composer_step loc c SubmitReview = fst (composer_submit loc c)"
| "composer_step loc c (ReviewSaved r) = composer_saved r c"

definition ReviewComposer ::
    "locale_text \<Rightarrow> review_composer \<Rightarrow> bool \<Rightarrow> string \<Rightarrow> composer_event ui list" where
  "ReviewComposer loc c busy submitLabel =
     [Box ''review-composer''
       ([RatingPicker (rc_rating c) PickRating ''Overall rating'']
        @ map (\<lambda>(key, lab). RatingPicker (nullish (get_sub (rc_subs c) key) 0) (PickSub key) lab) SUB_SCORES
        @ [Field ''Your review'' (rc_body c) TypeBody,
           Text (show_nat MIN_BODY_CHARS @ ''-'' @ show_number loc (of_nat MAX_BODY_CHARS)
             @ '' characters. You can edit until the expert replies.'')]
        @ alert_if (rc_error c)
        @ [Button (if busy then ''Saving...'' else submitLabel) busy SubmitReview])]"

section \<open>The reply form\<close>

record reply_form =
  rf_reply :: string
  rf_rating :: nat
  rf_error :: "string option"

definition reply_init :: reply_form where
  "reply_init = \<lparr>rf_reply = [], rf_rating = 0, rf_error = None\<rparr>"

datatype reply_event =
    TypeReply string
  | RateStudent nat
  | SubmitReply
  | ReplySaved "failure + unit"

definition reply_submit :: "reply_form \<Rightarrow> reply_form \<times> (string \<times> nat option) option" where
  "reply_submit f =
     (if length (trim (rf_reply f)) < MIN_BODY_CHARS
      then (f\<lparr>rf_error := Some (''Replies need at least '' @ show_nat MIN_BODY_CHARS @ '' characters.'')\<rparr>, None)
      else (f\<lparr>rf_error := None\<rparr>,
            Some (trim (rf_reply f), if rf_rating f \<ge> 1 then Some (rf_rating f) else None)))"

definition reply_saved :: "failure + unit \<Rightarrow> reply_form \<Rightarrow> reply_form" where
  "reply_saved r f =
     (case r of
        Inl e \<Rightarrow> f\<lparr>rf_error := Some (api_message_or ''Could not post the reply.'' e)\<rparr>
      | Inr _ \<Rightarrow> f)"

fun reply_step :: "reply_form \<Rightarrow> reply_event \<Rightarrow> reply_form" where
  "reply_step f (TypeReply s) = f\<lparr>rf_reply := s\<rparr>"
| "reply_step f (RateStudent n) = f\<lparr>rf_rating := n\<rparr>"
| "reply_step f SubmitReply = fst (reply_submit f)"
| "reply_step f (ReplySaved r) = reply_saved r f"

definition ReviewReplyForm :: "reply_form \<Rightarrow> bool \<Rightarrow> reply_event ui list" where
  "ReviewReplyForm f busy =
     [Box ''review-reply-form''
       ([Text ''One reply, public and immutable afterwards. The student rating stays private (aggregates only).'',
         Text ''Rate the student'',
         Box ''Rate the student (private)''
           (map (\<lambda>star. Check (''Student rating: '' @ show_nat star @ '' (private)'') (rf_rating f = star) False
              (RateStudent star)) [1..<Suc MAX_RATING]),
         Field ''Your reply'' (rf_reply f) TypeReply]
        @ alert_if (rf_error f)
        @ [Button (if busy then ''Posting...'' else ''Post reply'') busy SubmitReply])]"

section \<open>The section of the order page\<close>

record review_section =
  rs_editing :: bool
  rs_composer :: review_composer
  rs_reply :: reply_form

definition section_init :: review_section where
  "section_init = \<lparr>rs_editing = False, rs_composer = composer_init None, rs_reply = reply_init\<rparr>"

datatype section_event =
    EditReview
  | Composing composer_event
  | Replying reply_event

text \<open>The callbacks of the section: \<open>onSubmit\<close>, \<open>onEdit\<close> and \<open>onReply\<close>.\<close>

datatype review_call =
    OnSubmit review_input
  | OnEdit string review_input
  | OnReply string string "nat option"

definition ReviewSection ::
    "locale_text \<Rightarrow> role \<Rightarrow> review option \<Rightarrow> bool \<Rightarrow> review_section \<Rightarrow> section_event ui list" where
  "ReviewSection loc orderRole rw busy s =
     (case rw of
        None \<Rightarrow>
          (if orderRole \<noteq> Student
           then [Box ''review-none-expert'' [Text ''The client hasn't reviewed this order yet.'']]
           else [Box ''review-composer-section''
                  (Heading ''Leave a review''
                   # map (map_events Composing)
                       (ReviewComposer loc (rs_composer s) busy ''Publish review''))])
      | Some r \<Rightarrow>
          (let editingAllowed = canEditReview r (orderRole = Student);
               replyAllowed = canReplyToReview r (orderRole = Expert)
           in [Box ''review-section''
                ([Heading (if orderRole = Student then ''Your review'' else ''Client review'')]
                 @ (if rs_editing s \<and> editingAllowed
                    then map (map_events Composing) (ReviewComposer loc (rs_composer s) busy ''Save changes'')
                    else ReviewCard r)
                 @ shown_if (editingAllowed \<and> \<not> rs_editing s) [Button ''Edit review'' busy EditReview]
                 @ shown_if replyAllowed
                     (map (map_events Replying) (ReviewReplyForm (rs_reply s) busy)))]))"

text \<open>
  A step of the section, given its props. Editing mounts a new composer on the review; saving
  an edit closes it. The last component is the callback the event calls.
\<close>

definition section_submit ::
    "locale_text \<Rightarrow> review option \<Rightarrow> review_section \<Rightarrow> review_section \<times> review_call option" where
  "section_submit loc rw s =
     (case composer_submit loc (rs_composer s) of
        (c, inp) \<Rightarrow> (s\<lparr>rs_composer := c\<rparr>,
          map_option (\<lambda>i. case rw of None \<Rightarrow> OnSubmit i | Some r \<Rightarrow> OnEdit (rv_id r) i) inp))"

fun section_step ::
    "locale_text \<Rightarrow> review option \<Rightarrow> review_section \<Rightarrow> section_event \<Rightarrow> review_section \<times> review_call option"
  where
  "section_step loc rw s EditReview =
     (s\<lparr>rs_editing := True, rs_composer := composer_init rw\<rparr>, None)"
| "section_step loc rw s (Composing SubmitReview) = section_submit loc rw s"
| "section_step loc rw s (Composing (ReviewSaved r)) =
     (s\<lparr>rs_composer := composer_saved r (rs_composer s),
        rs_editing := (if rw \<noteq> None \<and> r = Inr () then False else rs_editing s)\<rparr>, None)"
| "section_step loc rw s (Composing e) =
     (s\<lparr>rs_composer := composer_step loc (rs_composer s) e\<rparr>, None)"
| "section_step loc rw s (Replying SubmitReply) =
     (case reply_submit (rs_reply s) of
        (f, inp) \<Rightarrow> (s\<lparr>rs_reply := f\<rparr>,
          case rw of None \<Rightarrow> None
          | Some r \<Rightarrow> map_option (\<lambda>(t, n). OnReply (rv_id r) t n) inp))"
| "section_step loc rw s (Replying e) = (s\<lparr>rs_reply := reply_step (rs_reply s) e\<rparr>, None)"

text \<open>
  What a change of the props does: a form that is mounted by it starts afresh. The composer has
  two places in the tree, the first review and the edit.
\<close>

definition composer_place :: "role \<Rightarrow> review option \<Rightarrow> bool \<Rightarrow> nat" where
  "composer_place orderRole rw editing =
     (case rw of
        None \<Rightarrow> if orderRole = Student then 1 else 0
      | Some r \<Rightarrow> if editing \<and> canEditReview r (orderRole = Student) then 2 else 0)"

definition reply_place :: "role \<Rightarrow> review option \<Rightarrow> bool" where
  "reply_place orderRole rw =
     (case rw of None \<Rightarrow> False | Some r \<Rightarrow> canReplyToReview r (orderRole = Expert))"

definition section_props :: "role \<Rightarrow> review option \<Rightarrow> review option \<Rightarrow> review_section \<Rightarrow> review_section" where
  "section_props orderRole old new s =
     s\<lparr>rs_composer := (if composer_place orderRole old (rs_editing s) = composer_place orderRole new (rs_editing s)
                       then rs_composer s else composer_init new),
       rs_reply := (if reply_place orderRole old = reply_place orderRole new then rs_reply s else reply_init)\<rparr>"

section \<open>Lemmas\<close>

lemmas review_consts = MIN_BODY_CHARS_def MAX_BODY_CHARS_def MAX_RATING_def SUB_SCORES_def

lemma offers_RatingPicker:
  "offers (RatingPicker v f lab) x \<longleftrightarrow> (\<exists>n \<in> {1..5}. x = f n)"
  by (auto simp: RatingPicker_def MAX_RATING_def)

lemma Stars_offer [simp]: "\<not> offered (Stars v) x"
  by (simp add: Stars_def)

lemma ReviewCard_offers [simp]: "\<not> offered (ReviewCard r) x"
  by (auto simp: ReviewCard_def offers_Box SUB_SCORES_def simp del: offers.simps(6) split: option.split)

lemma offered_ReviewComposer:
  "offered (ReviewComposer loc c busy lab) e \<longleftrightarrow>
     (\<exists>n \<in> {1..5}. e = PickRating n) \<or> (\<exists>k. \<exists>n \<in> {1..5}. e = PickSub k n) \<or>
     (\<exists>s. e = TypeBody s) \<or> (\<not> busy \<and> e = SubmitReview)"
proof -
  have keys: "(\<exists>k. P k) \<longleftrightarrow> P Sub_quality \<or> P Sub_communication \<or> P Sub_timeliness"
    for P :: "sub_score_key \<Rightarrow> bool"
    by (metis sub_score_key.exhaust)
  show ?thesis
    by (simp add: ReviewComposer_def offers_Box SUB_SCORES_def offers_RatingPicker keys
        del: offers.simps(6))
qed

definition scores_ok :: "nat \<Rightarrow> sub_scores \<Rightarrow> bool" where
  "scores_ok n subs \<longleftrightarrow> n \<le> 5 \<and> (\<forall>k m. get_sub subs k = Some m \<longrightarrow> 1 \<le> m \<and> m \<le> 5)"

definition review_ok :: "review \<Rightarrow> bool" where
  "review_ok r \<longleftrightarrow> rv_rating r \<le> 5 \<and> (\<forall>k m. review_sub r k = Some m \<longrightarrow> 1 \<le> m \<and> m \<le> 5)"

lemma get_set_sub: "get_sub (set_sub k n s) k' = (if k' = k then Some n else get_sub s k')"
  by (cases k; cases k') auto

fun composer_enabled :: "locale_text \<Rightarrow> review_composer \<Rightarrow> composer_event \<Rightarrow> bool" where
  "composer_enabled loc c (ReviewSaved r) = True"
| "composer_enabled loc c e = offered (ReviewComposer loc c False ''Publish review'') e"

definition composer_start :: "review_composer \<Rightarrow> bool" where
  "composer_start c \<longleftrightarrow> (\<exists>existing. pred_option review_ok existing \<and> c = composer_init existing)"

lemma scores_ok_init: "composer_start c \<Longrightarrow> scores_ok (rc_rating c) (rc_subs c)"
proof -
  have "get_sub (rc_subs (composer_init (Some r))) k = review_sub r k" for r k
    by (cases k) (simp_all add: composer_init_def)
  moreover have "get_sub (rc_subs (composer_init None)) k = None" for k
    by (cases k) (simp_all add: composer_init_def)
  ultimately show "composer_start c \<Longrightarrow> scores_ok (rc_rating c) (rc_subs c)"
    by (auto simp: composer_start_def scores_ok_def review_ok_def pred_option_def composer_init_def
        split: option.splits)
qed

interpretation composing: machine composer_start "composer_enabled loc" "composer_step loc"
  "\<lambda>c. scores_ok (rc_rating c) (rc_subs c)" for loc
proof unfold_locales
  fix c e
  assume "scores_ok (rc_rating c) (rc_subs c)" "composer_enabled loc c e"
  then show "scores_ok (rc_rating (composer_step loc c e)) (rc_subs (composer_step loc c e))"
    by (cases e)
      (auto simp: offered_ReviewComposer scores_ok_def get_set_sub composer_submit_def
        composer_saved_def split: option.splits sum.splits if_splits)
qed (rule scores_ok_init)

section \<open>Properties\<close>

text \<open>
  Whatever the student picks and types, from an empty form or from an existing review, what
  the composer hands on is within the documented bounds: one to five stars, sub-scores from one to
  five where given, and a body without surrounding space of 20 to 5,000 characters.
\<close>

lemma review_input_valid:
  assumes "reach composer_start (composer_enabled loc) (composer_step loc) c"
    and "composer_submit loc c = (c', Some i)"
  shows "1 \<le> ri_rating i \<and> ri_rating i \<le> 5 \<and>
    (\<forall>k n. get_sub (ri_subs i) k = Some n \<longrightarrow> 1 \<le> n \<and> n \<le> 5) \<and>
    20 \<le> length (ri_body i) \<and> length (ri_body i) \<le> 5000 \<and> trim (ri_body i) = ri_body i"
  using composing.reach_inv [OF assms(1)] assms(2) length_trim [of "rc_body c"]
  by (auto simp: composer_submit_def composer_check_def scores_ok_def review_consts
      split: option.splits if_splits)

text \<open>
  The section keeps the rule on replies. On a review it offers the edit only to its author
  and the reply only to the expert, and only while there is no reply and the review is published;
  once there is a reply, or the review is hidden, it offers nothing to anyone.
\<close>

lemma review_policy_shown:
  "(offered (ReviewSection loc orderRole (Some r) busy s) e \<longrightarrow>
      rv_expert_reply r = [] \<and> rv_status r = Published) \<and>
   (offered (ReviewSection loc orderRole (Some r) busy s) (Replying f) \<longrightarrow> orderRole = Expert) \<and>
   (offered (ReviewSection loc orderRole (Some r) busy s) EditReview \<or>
      offered (ReviewSection loc orderRole (Some r) busy s) (Composing d) \<longrightarrow> orderRole = Student)"
  by (auto simp: ReviewSection_def Let_def offers_Box offered_child canEditReview_def
      canReplyToReview_def simp del: offers.simps(6))

definition sample_review :: review where
  "sample_review = \<lparr>rv_id = ''r1'', rv_order_id = ''o1'', rv_order_number = ''HM-1'', rv_rating = 4,
     rv_sub_quality = None, rv_sub_communication = None, rv_sub_timeliness = None,
     rv_body = ''Good'', rv_status = Published, rv_expert_reply = [], rv_replied_at = None,
     rv_edited = False, rv_created_at = []\<rparr>"

end
