(* ===== verification/OrderWorkspace.thy ===== *)
theory OrderWorkspace
  imports Orders Reviews Disputes Messaging
begin

text \<open>
  The order workspace: \<open>features/orders/components/order-workspace.tsx\<close>. It is a machine: its state
  is the props, the mode, the composers and the sections; its events are what the rendered tree
  offers, the settling of what was sent, and new props.
\<close>

section \<open>Timeline, progress, files\<close>

definition STEPS :: "(string \<times> string) list" where
  "STEPS =
     [(''Escrow Secured'', ''Funds held safely''), (''Specialist Working'', ''In progress''),
      (''Delivery Uploaded'', ''Inspection active''), (''Completed'', ''Escrow released'')]"

definition Timeline :: "locale_text \<Rightarrow> order_event list \<Rightarrow> 'e ui list" where
  "Timeline loc evs =
     map (\<lambda>ev. Box (oe_type ev)
       [Text (nullish (map_of EVENT_COPY (oe_type ev)) (oe_type ev)), Text (show_datetime loc (oe_created_at ev))])
       evs"

text \<open>The width of the bar, in percent.\<close>

definition rail_width :: "order_status \<Rightarrow> rat" where
  "rail_width st =
     (if st = Completed then 100
      else max 12 (of_nat (progressStep st) / of_nat (length STEPS - 1) * 100))"

definition rail_step :: "order_status \<Rightarrow> nat \<Rightarrow> string \<times> string \<Rightarrow> 'e ui" where
  "rail_step st i item =
     Box (fst item)
       [Text (if i < progressStep st \<or> st = Completed then ''[check]'' else show_nat (Suc i)),
        Text (fst item), Text (snd item)]"

definition ProgressRail :: "order_status \<Rightarrow> 'e ui list" where
  "ProgressRail st =
     [Box (''Order progress: step '' @ show_nat (Suc (progressStep st)) @ '' of '' @ show_nat (length STEPS))
       (map (\<lambda>(i, item). rail_step st i item) (zip [0..<length STEPS] STEPS))]"

section \<open>The delivery composer\<close>

record delivery_composer =
  dv_summary :: string
  dv_files :: "string list"
  dv_uploading :: bool
  dv_error :: "string option"

definition delivery_init :: delivery_composer where
  "delivery_init = \<lparr>dv_summary = [], dv_files = [], dv_uploading = False, dv_error = None\<rparr>"

datatype delivery_event =
    TypeSummary string
  | ChooseDelivery "string list"
  | SubmitDelivery
  | DeliverySent "failure + unit"

definition delivery_submit :: "delivery_composer \<Rightarrow> delivery_composer \<times> bool" where
  "delivery_submit c =
     (if length (trim (dv_summary c)) < 20
      then (c\<lparr>dv_error := Some ''Summarize the work in at least 20 characters.''\<rparr>, False)
      else (c\<lparr>dv_error := None, dv_uploading := True\<rparr>, True))"

definition delivery_send ::
    "string \<Rightarrow> 'w server \<Rightarrow> (string \<Rightarrow> string list \<Rightarrow> 'w \<Rightarrow> (failure + unit) \<times> 'w) \<Rightarrow> delivery_composer
     \<Rightarrow> 'w \<Rightarrow> (failure + unit) \<times> 'w" where
  "delivery_send b srv onSubmit c w =
     (case upload_all (upload_id b Delivery srv) (dv_files c) w of
        (Inl e, w') \<Rightarrow> (Inl e, w')
      | (Inr ids, w') \<Rightarrow> onSubmit (trim (dv_summary c)) ids w')"

definition delivery_sent :: "failure + unit \<Rightarrow> delivery_composer \<Rightarrow> delivery_composer" where
  "delivery_sent r c =
     (case r of
        Inl e \<Rightarrow> c\<lparr>dv_error := Some (message_or ''Could not submit delivery.'' e), dv_uploading := False\<rparr>
      | Inr _ \<Rightarrow> c\<lparr>dv_uploading := False\<rparr>)"

fun delivery_step :: "delivery_composer \<Rightarrow> delivery_event \<Rightarrow> delivery_composer" where
  "delivery_step c (TypeSummary s) = c\<lparr>dv_summary := s\<rparr>"
| "delivery_step c (ChooseDelivery fs) = c\<lparr>dv_files := fs\<rparr>"
| "delivery_step c SubmitDelivery = fst (delivery_submit c)"
| "delivery_step c (DeliverySent r) = delivery_sent r c"

definition DeliveryComposer :: "delivery_composer \<Rightarrow> bool \<Rightarrow> delivery_event ui list" where
  "DeliveryComposer c busy =
     [Heading ''Upload Work Deliverable'',
      Field ''Delivery summary'' (dv_summary c) TypeSummary,
      Files ''Files (PDF/JPG/PNG, <=25 MB each)'' ChooseDelivery]
     @ alert_if (dv_error c)
     @ [Button (if dv_uploading c then ''Uploading Deliverable...'' else ''Submit delivery'')
          (busy \<or> dv_uploading c) SubmitDelivery]"

section \<open>The revision composer\<close>

record revision_composer =
  rv_note :: string
  rv_error :: "string option"

definition revision_init :: revision_composer where
  "revision_init = \<lparr>rv_note = [], rv_error = None\<rparr>"

datatype revision_event = TypeNote string | SubmitRevision | RevisionSent "failure + unit"

definition revision_submit :: "revision_composer \<Rightarrow> revision_composer \<times> string option" where
  "revision_submit c =
     (if length (trim (rv_note c)) < 10
      then (c\<lparr>rv_error := Some ''Tell the expert what to change (at least 10 characters).''\<rparr>, None)
      else (c\<lparr>rv_error := None\<rparr>, Some (trim (rv_note c))))"

definition revision_sent :: "failure + unit \<Rightarrow> revision_composer \<Rightarrow> revision_composer" where
  "revision_sent r c =
     (case r of
        Inl e \<Rightarrow> c\<lparr>rv_error := Some (message_or ''Could not request revision.'' e)\<rparr>
      | Inr _ \<Rightarrow> c)"

fun revision_step :: "revision_composer \<Rightarrow> revision_event \<Rightarrow> revision_composer" where
  "revision_step c (TypeNote s) = c\<lparr>rv_note := s\<rparr>"
| "revision_step c SubmitRevision = fst (revision_submit c)"
| "revision_step c (RevisionSent r) = revision_sent r c"

definition RevisionComposer :: "revision_composer \<Rightarrow> bool \<Rightarrow> revision_event ui list" where
  "RevisionComposer c busy =
     [Heading ''Specify Required Revisions'', Field ''Revision note'' (rv_note c) TypeNote]
     @ alert_if (rv_error c) @ [Button ''Request revision'' busy SubmitRevision]"

section \<open>The workspace\<close>

datatype workspace_mode = Idle | DeliverMode | ReviseMode | CancelMode

record workspace =
  ws_order :: order_detail
  ws_review :: "review option"
  ws_dispute :: "dispute option"
  ws_busy :: bool
  ws_mode :: workspace_mode
  ws_reason :: string
  ws_error :: "string option"
  ws_delivery :: delivery_composer
  ws_revision :: revision_composer
  ws_reviewing :: review_section
  ws_disputing :: dispute_section
  ws_messaging :: bool

definition workspace_init :: "order_detail \<Rightarrow> review option \<Rightarrow> dispute option \<Rightarrow> workspace" where
  "workspace_init ord rw d =
     \<lparr>ws_order = ord, ws_review = rw, ws_dispute = d, ws_busy = False, ws_mode = Idle,
      ws_reason = [], ws_error = None, ws_delivery = delivery_init, ws_revision = revision_init,
      ws_reviewing = section_init, ws_disputing = dispute_section_init, ws_messaging = False\<rparr>"

datatype workspace_event =
    Act string                        \<comment> \<open>\<open>onAction(key)\<close> without a payload\<close>
  | SetMode workspace_mode
  | Delivering delivery_event
  | Revising revision_event
  | TypeCancel string
  | SubmitCancel
  | CancelSent "failure + unit"
  | Download string
  | Reviewing section_event
  | Disputing dispute_section_event
  | Messages message_button_event
  | Props order_detail "review option" "dispute option" bool

section \<open>What it shows\<close>

definition DeliveryFiles :: "order_detail \<Rightarrow> workspace_event ui list" where
  "DeliveryFiles ord =
     (case od_deliveries ord of
        [] \<Rightarrow> []
      | latest # _ \<Rightarrow>
          (if dl_attachments latest = [] then []
           else Text ''Attached Artifacts''
                # map (\<lambda>f. Box (at_id f)
                    [Text (at_name f),
                     Text (''('' @ show_int (max 1 (math_round (of_nat (at_size f) / 1024))) @ '' KB)''),
                     Button (''Download '' @ at_name f) False (Download (at_id f))])
                  (dl_attachments latest)))"

definition header_banner :: "locale_text \<Rightarrow> workspace \<Rightarrow> workspace_event ui list" where
  "header_banner loc s =
     (let ord = ws_order s; student = (od_role ord = Student)
      in [Text (od_number ord), Text (SOURCE_COPY (od_source ord)), Heading (od_title ord),
          Text (if student then ''Matched Expert: '' else ''Client / Student: ''), Text (od_counterparty ord)]
         @ map (map_events Messages)
             (MessageThreadButton ''Message'' (od_status ord = Cancelled) (ws_messaging s))
         @ [Badge (ORDER_STATUS_TONE (od_status ord)) (ORDER_STATUS_COPY (od_status ord))]
         @ ProgressRail (od_status ord)
         @ [Text ''Total Escrow Value'', Text (od_currency ord @ '' '' @ show_number loc (od_amount ord)),
            Text (if student then ''Expert Payout'' else ''Your Net Earnings''),
            Text (od_currency ord @ '' '' @ show_number loc (od_expert_amount ord)),
            Text ''Revisions Allowed'',
            Text (show_nat (od_revisions_used ord) @ '' / '' @ show_nat (od_revisions_allowed ord) @ '' used''),
            Text (if od_status ord = Completed then ''Completed On'' else ''Auto-Approval''),
            Text (if od_status ord = Completed
                  then (if truthy (od_completed_at ord) then show_date loc (the (od_completed_at ord)) else ''Finalized'')
                  else if truthy (od_auto_approve_at ord) then show_short loc (the (od_auto_approve_at ord))
                  else ''Active'')])"

fun delivery_tone :: "delivery_status \<Rightarrow> string" where
  "delivery_tone Approved = ''success''"
| "delivery_tone Changes_requested = ''warning''"
| "delivery_tone Submitted = ''info''"

text \<open>\<open>latest.status.replace("_", " ")\<close>.\<close>

fun delivery_label :: "delivery_status \<Rightarrow> string" where
  "delivery_label Approved = ''approved''"
| "delivery_label Changes_requested = ''revision requested''"
| "delivery_label Submitted = ''submitted''"

definition inspection_panel :: "workspace \<Rightarrow> workspace_event ui list" where
  "inspection_panel s =
     (let ord = ws_order s; student = (od_role ord = Student)
      in case od_deliveries ord of
        latest # _ \<Rightarrow>
          [Heading (if dl_revision latest = 0 then ''Submitted Deliverable''
                    else ''Revision Deliverable #'' @ show_nat (dl_revision latest)),
           Badge (delivery_tone (dl_status latest)) (delivery_label (dl_status latest))]
          @ shown_if (student \<and> od_status ord = Delivered)
              ([Text ''Work ready for your inspection'',
                Text ''Review files thoroughly. Once satisfied, release escrow funds to compensate the specialist.'',
                Button ''Approve & Release Escrow'' (ws_busy s) (Act ''approve'')]
               @ shown_if (od_revisions_used ord < od_revisions_allowed ord)
                   [Button ''Request Revision'' (ws_busy s) (SetMode ReviseMode)])
          @ [Text ''Specialist Submission Notes'', Text (dl_summary latest)]
          @ DeliveryFiles ord
      | [] \<Rightarrow>
          [Heading ''Deliverable Workspace'', Heading ''Awaiting Work Delivery'',
           Text (if student
             then ''Your expert is actively researching and drafting your requirements. You will be notified the instant the deliverable is uploaded.''
             else ''You are currently assigned to this order. Prepare your deliverables and submit when ready.'')]
          @ shown_if (\<not> student \<and> od_status ord = Active \<and> ws_mode s = Idle)
              [Button ''Submit Delivery Now'' (ws_busy s) (SetMode DeliverMode)])"

definition cancel_form :: "workspace \<Rightarrow> workspace_event ui list" where
  "cancel_form s =
     [Heading ''Order Cancellation'', Field ''Cancellation reason'' (ws_reason s) TypeCancel]
     @ alert_if (ws_error s)
     @ [Button ''Back'' False (SetMode Idle), Button ''Confirm cancellation'' (ws_busy s) SubmitCancel]"

text \<open>The tests on the key and the tone, in the order the source has them.\<close>

definition action_node :: "bool \<Rightarrow> workspace_action \<Rightarrow> workspace_event ui" where
  "action_node busy a =
     (if ac_key a = ''pay'' then Button (ac_label a) busy (Act ''pay'')
      else if ac_tone a = Some ''ghost'' then Text (ac_label a)
      else if ac_key a = ''cancel'' then Button (ac_label a) busy (SetMode CancelMode)
      else if ac_key a = ''deliver'' then Button (ac_label a) busy (SetMode DeliverMode)
      else if ac_key a = ''revise'' then Button (ac_label a) busy (SetMode ReviseMode)
      else Button (ac_label a) busy (Act (ac_key a)))"

definition action_bar :: "workspace \<Rightarrow> workspace_event ui list" where
  "action_bar s =
     (let actions = workspaceActions (ws_order s)
      in if actions \<noteq> [] \<and> ws_mode s = Idle then map (action_node (ws_busy s)) actions else [])"

fun payment_key :: "payment_event \<Rightarrow> workspace_event" where
  "payment_key OnPay = Act ''pay''"
| "payment_key OnConfirm = Act ''confirm-payment''"

definition OrderWorkspace :: "locale_text \<Rightarrow> workspace \<Rightarrow> workspace_event ui list" where
  "OrderWorkspace loc s =
     (let ord = ws_order s
      in header_banner loc s
         @ (case od_payment ord of None \<Rightarrow> []
            | Some p \<Rightarrow> map (map_events payment_key) (PaymentCard loc p (od_role ord) (ws_busy s)))
         @ inspection_panel s
         @ (if od_status ord = Revision_requested \<and> truthy (od_deadline ord)
            then [Text ''A revised delivery is due by '', Text (show_date loc (the (od_deadline ord)))] else [])
         @ shown_if (ws_mode s = DeliverMode)
             (map (map_events Delivering) (DeliveryComposer (ws_delivery s) (ws_busy s)))
         @ shown_if (ws_mode s = ReviseMode)
             (map (map_events Revising) (RevisionComposer (ws_revision s) (ws_busy s)))
         @ shown_if (ws_mode s = CancelMode) (cancel_form s)
         @ shown_if (od_status ord = Completed \<or> ws_review s \<noteq> None)
             (map (map_events Reviewing)
               (ReviewSection loc (od_role ord) (ws_review s) (ws_busy s) (ws_reviewing s)))
         @ action_bar s
         @ map (map_events Disputing)
             (DisputeSection (status_name (od_status ord)) (od_role ord) (ws_dispute s) (ws_busy s)
               (ws_disputing s))
         @ [Heading ''Audit Timeline''] @ Timeline loc (od_events ord)
         @ [Text ''Escrow Protection Active'',
            Text ''Funds remain secured in neutral platform escrow. The specialist will receive compensation only when you approve the delivered work or the 72h inspection window lapses.''])"

section \<open>What it does\<close>

datatype action_payload =
    NoPayload
  | TextPayload string
  | DeliveryPayload string "string list"
  | ReviewPayload review_input
  | EditPayload string review_input
  | ReplyPayload string string "nat option"
  | DisputePayload string string "string list"
  | EvidencePayload string "string list"

fun review_action :: "review_call \<Rightarrow> string \<times> action_payload" where
  "review_action (OnSubmit i) = (''submit-review'', ReviewPayload i)"
| "review_action (OnEdit rid i) = (''edit-review'', EditPayload rid i)"
| "review_action (OnReply rid t n) = (''reply-review'', ReplyPayload rid t n)"

text \<open>
  The call of \<open>onAction\<close> an event leads to, if any. \<open>ids\<close> are the identifiers the uploads gave,
  for the events that upload first.
\<close>

fun workspace_call ::
    "locale_text \<Rightarrow> string list \<Rightarrow> workspace \<Rightarrow> workspace_event \<Rightarrow> (string \<times> action_payload) option" where
  "workspace_call loc ids s (Act k) = Some (k, NoPayload)"
| "workspace_call loc ids s (Delivering SubmitDelivery) =
     (if snd (delivery_submit (ws_delivery s))
      then Some (''deliver'', DeliveryPayload (trim (dv_summary (ws_delivery s))) ids) else None)"
| "workspace_call loc ids s (Revising SubmitRevision) =
     map_option (\<lambda>n. (''revise'', TextPayload n)) (snd (revision_submit (ws_revision s)))"
| "workspace_call loc ids s SubmitCancel =
     (if length (trim (ws_reason s)) < 5 then None else Some (''cancel'', TextPayload (trim (ws_reason s))))"
| "workspace_call loc ids s (Reviewing e) =
     map_option review_action (snd (section_step loc (ws_review s) (ws_reviewing s) e))"
| "workspace_call loc ids s (Disputing (OnComposer SubmitDispute)) =
     (let c = ds_composer (ws_disputing s)
      in if snd (dispute_submit loc c)
         then Some (''open-dispute'', DisputePayload (dc_reason c) (trim (dc_description c)) ids) else None)"
| "workspace_call loc ids s (Disputing (OnCard (Evidence AttachFiles))) =
     map_option (\<lambda>d. (''add-evidence'', EvidencePayload (dp_id d) ids)) (ws_dispute s)"
| "workspace_call loc ids s _ = None"

text \<open>
  New props. The effect on the status and the number of deliveries closes the composers; the
  sections see their own props change.
\<close>

definition new_props ::
    "order_detail \<Rightarrow> review option \<Rightarrow> dispute option \<Rightarrow> bool \<Rightarrow> workspace \<Rightarrow> workspace" where
  "new_props ord rw d busy s =
     (let old = ws_order s
      in s\<lparr>ws_order := ord, ws_review := rw, ws_dispute := d, ws_busy := busy,
           ws_mode := (if od_status ord = od_status old \<and> length (od_deliveries ord) = length (od_deliveries old)
                       then ws_mode s else Idle),
           ws_reviewing := section_props (od_role ord) (ws_review s) rw (ws_reviewing s),
           ws_disputing := dispute_section_props (status_name (od_status old)) (status_name (od_status ord))
             (od_role ord) (ws_dispute s) d (ws_disputing s)\<rparr>)"

definition set_mode :: "workspace_mode \<Rightarrow> workspace \<Rightarrow> workspace" where
  "set_mode m s =
     (if m = ws_mode s then s
      else s\<lparr>ws_mode := m, ws_delivery := delivery_init, ws_revision := revision_init\<rparr>)"

fun workspace_step :: "locale_text \<Rightarrow> workspace \<Rightarrow> workspace_event \<Rightarrow> workspace" where
  "workspace_step loc s (Act k) = s"
| "workspace_step loc s (SetMode m) = set_mode m s"
| "workspace_step loc s (Delivering (DeliverySent (Inr u))) = set_mode Idle s"
| "workspace_step loc s (Delivering e) = s\<lparr>ws_delivery := delivery_step (ws_delivery s) e\<rparr>"
| "workspace_step loc s (Revising (RevisionSent (Inr u))) = set_mode Idle s"
| "workspace_step loc s (Revising e) = s\<lparr>ws_revision := revision_step (ws_revision s) e\<rparr>"
| "workspace_step loc s (TypeCancel r) = s\<lparr>ws_reason := r\<rparr>"
| "workspace_step loc s SubmitCancel =
     s\<lparr>ws_error := (if length (trim (ws_reason s)) < 5
                    then Some ''Please tell us why -- it helps support resolve things faster.'' else None)\<rparr>"
| "workspace_step loc s (CancelSent (Inr u)) = set_mode Idle s"
| "workspace_step loc s (CancelSent (Inl e)) = s\<lparr>ws_error := Some (message_or ''Could not cancel.'' e)\<rparr>"
| "workspace_step loc s (Download i) = s"
| "workspace_step loc s (Reviewing e) =
     s\<lparr>ws_reviewing := fst (section_step loc (ws_review s) (ws_reviewing s) e)\<rparr>"
| "workspace_step loc s (Disputing e) = s\<lparr>ws_disputing := dispute_section_step loc (ws_disputing s) e\<rparr>"
| "workspace_step loc s (Messages e) = s\<lparr>ws_messaging := message_button_step (ws_messaging s) e\<rparr>"
| "workspace_step loc s (Props ord rw d busy) = new_props ord rw d busy s"

section \<open>The workspace as a machine\<close>

text \<open>Events that are not the user's: something that was sent settles.\<close>

fun settles :: "workspace_event \<Rightarrow> bool" where
  "settles (Delivering (DeliverySent r)) = True"
| "settles (Revising (RevisionSent r)) = True"
| "settles (CancelSent r) = True"
| "settles (Reviewing (Composing (ReviewSaved r))) = True"
| "settles (Reviewing (Replying (ReplySaved r))) = True"
| "settles (Disputing (OnCard (Evidence (FileOpened r)))) = True"
| "settles (Disputing (OnCard (Evidence (Attached r)))) = True"
| "settles (Disputing (OnComposer (DisputeSent r))) = True"
| "settles (Messages (MessagesOpened r)) = True"
| "settles e = False"

text \<open>Anything can settle at any time, and the props can change to any order seen from the same side.\<close>

definition workspace_enabled :: "locale_text \<Rightarrow> workspace \<Rightarrow> workspace_event \<Rightarrow> bool" where
  "workspace_enabled loc s e \<longleftrightarrow>
     (case e of
        Props ord rw d busy \<Rightarrow> od_role ord = od_role (ws_order s)
      | _ \<Rightarrow> settles e \<or> offered (OrderWorkspace loc s) e)"

definition workspace_start :: "workspace \<Rightarrow> bool" where
  "workspace_start s \<longleftrightarrow> (\<exists>ord rw d. s = workspace_init ord rw d)"

abbreviation workspace_reach :: "locale_text \<Rightarrow> workspace \<Rightarrow> bool" where
  "workspace_reach loc \<equiv> reach workspace_start (workspace_enabled loc) (workspace_step loc)"

section \<open>Lemmas\<close>

lemma offered_messages [simp]:
  "offered (map (map_events Messages) us) e \<Longrightarrow> \<exists>x. e = Messages x"
  by (auto simp: offered_child)

lemma offered_rail [simp]: "\<not> offered (ProgressRail st) e"
  by (auto simp: ProgressRail_def rail_step_def offers_Box offered_map simp del: offers.simps(6))

lemma offered_timeline [simp]: "\<not> offered (Timeline loc evs) e"
  by (auto simp: Timeline_def offers_Box offered_map simp del: offers.simps(6))

lemma offered_header: "offered (header_banner loc s) e \<Longrightarrow> \<exists>x. e = Messages x"
  by (auto simp: header_banner_def Let_def offered_child)

text \<open>What the payment card sends, for a student who is not busy.\<close>

definition card_pays :: "payment_info \<Rightarrow> string \<Rightarrow> bool" where
  "card_pays p k \<longleftrightarrow>
     (k = ''pay'' \<and> pi_status p \<in> {Pay_pending, Pay_failed}) \<or>
     (k = ''confirm-payment'' \<and> pi_status p = Pay_pending \<and> pi_dev_self_confirm p)"

lemma offered_PaymentCard:
  "offered (PaymentCard loc p r busy) x \<longleftrightarrow>
   r = Student \<and> \<not> busy \<and> (\<exists>k. payment_key x = Act k \<and> card_pays p k)"
  by (cases x; cases "pi_status p") (auto simp: PaymentCard_def Let_def card_pays_def)

lemma offered_payment:
  "offered (map (map_events payment_key) (PaymentCard loc p r busy)) e \<longleftrightarrow>
   r = Student \<and> \<not> busy \<and> (\<exists>k. e = Act k \<and> card_pays p k)"
proof -
  have "\<exists>x. payment_key x = Act k" if "card_pays p k" for k
    using that payment_key.simps by (auto simp: card_pays_def simp del: payment_key.simps intro: exI [of _ OnPay])
  then show ?thesis by (auto simp: offered_child offered_PaymentCard) metis
qed

lemma offered_files: "offered (DeliveryFiles ord) e \<Longrightarrow> \<exists>i. e = Download i"
  by (auto simp: DeliveryFiles_def offers_Box offered_map simp del: offers.simps(6)
      split: list.splits if_splits)

lemma offered_inspection:
  "offered (inspection_panel s) e \<Longrightarrow>
   (\<exists>i. e = Download i) \<or>
   (\<not> ws_busy s \<and> e = Act ''approve'' \<and> od_role (ws_order s) = Student \<and> od_status (ws_order s) = Delivered) \<or>
   (\<not> ws_busy s \<and> e = SetMode ReviseMode \<and> od_role (ws_order s) = Student \<and> od_status (ws_order s) = Delivered \<and>
      od_revisions_used (ws_order s) < od_revisions_allowed (ws_order s)) \<or>
   (\<not> ws_busy s \<and> e = SetMode DeliverMode \<and> od_role (ws_order s) = Expert \<and> od_status (ws_order s) = Active)"
  by (cases "od_role (ws_order s)")
    (auto simp: inspection_panel_def Let_def split: list.splits dest: offered_files)

lemma offered_action_bar:
  "offered (action_bar s) e \<longleftrightarrow> \<not> ws_busy s \<and> ws_mode s = Idle \<and>
   ((e = Act ''pay'' \<and> od_status (ws_order s) = Awaiting_payment) \<or>
    (e = SetMode DeliverMode \<and> od_role (ws_order s) = Expert \<and> od_status (ws_order s) = Active) \<or>
    (e = Act ''approve'' \<and> od_role (ws_order s) = Student \<and> od_status (ws_order s) = Delivered) \<or>
    (e = SetMode ReviseMode \<and> od_role (ws_order s) = Student \<and> od_status (ws_order s) = Delivered \<and>
      od_revisions_used (ws_order s) < od_revisions_allowed (ws_order s)))"
  by (auto simp: action_bar_def Let_def workspaceActions_def action_node_def)

text \<open>What a tree of the workspace can offer, by the kind of the event.\<close>

lemma offered_OrderWorkspace:
  "offered (OrderWorkspace loc s) e \<Longrightarrow>
   (\<exists>x. e = Messages x) \<or>
   (\<exists>p k. od_payment (ws_order s) = Some p \<and> od_role (ws_order s) = Student \<and> e = Act k \<and> card_pays p k) \<or>
   offered (inspection_panel s) e \<or> offered (action_bar s) e \<or>
   (ws_mode s = DeliverMode \<and> (\<exists>x. e = Delivering x \<and> offered (DeliveryComposer (ws_delivery s) (ws_busy s)) x)) \<or>
   (ws_mode s = ReviseMode \<and> (\<exists>x. e = Revising x \<and> offered (RevisionComposer (ws_revision s) (ws_busy s)) x)) \<or>
   (ws_mode s = CancelMode \<and> offered (cancel_form s) e) \<or>
   (\<exists>x. e = Reviewing x) \<or>
   (\<exists>x. e = Disputing x \<and> offered (DisputeSection (status_name (od_status (ws_order s)))
      (od_role (ws_order s)) (ws_dispute s) (ws_busy s) (ws_disputing s)) x)"
proof -
  assume "offered (OrderWorkspace loc s) e"
  then consider "offered (header_banner loc s) e"
    | p where "od_payment (ws_order s) = Some p"
        "offered (map (map_events payment_key) (PaymentCard loc p (od_role (ws_order s)) (ws_busy s))) e"
    | "offered (inspection_panel s) e"
    | "ws_mode s = DeliverMode"
        "offered (map (map_events Delivering) (DeliveryComposer (ws_delivery s) (ws_busy s))) e"
    | "ws_mode s = ReviseMode"
        "offered (map (map_events Revising) (RevisionComposer (ws_revision s) (ws_busy s))) e"
    | "ws_mode s = CancelMode" "offered (cancel_form s) e"
    | us where "offered (map (map_events Reviewing) us) e"
    | "offered (action_bar s) e"
    | "offered (map (map_events Disputing) (DisputeSection (status_name (od_status (ws_order s)))
        (od_role (ws_order s)) (ws_dispute s) (ws_busy s) (ws_disputing s))) e"
    unfolding OrderWorkspace_def Let_def offered_simps offered_shown_if
    by (cases "od_payment (ws_order s)") (auto split: if_splits)
  then show ?thesis
  proof cases
    case 1 then show ?thesis using offered_header by blast
  next
    case 2 then show ?thesis by (auto simp: offered_payment)
  next
    case 4 then show ?thesis by (auto simp: offered_child)
  next
    case 5 then show ?thesis by (auto simp: offered_child)
  next
    case 7 then show ?thesis by (auto simp: offered_child)
  next
    case 9 then show ?thesis by (auto simp: offered_child)
  qed simp_all
qed

definition mode_inv :: "workspace \<Rightarrow> bool" where
  "mode_inv s \<longleftrightarrow>
     ws_mode s \<noteq> CancelMode \<and>
     (ws_mode s = DeliverMode \<longrightarrow> od_role (ws_order s) = Expert \<and> od_status (ws_order s) = Active) \<and>
     (ws_mode s = ReviseMode \<longrightarrow> od_role (ws_order s) = Student \<and> od_status (ws_order s) = Delivered)"

lemma mode_inv_idle: "ws_mode s = Idle \<Longrightarrow> mode_inv s"
  by (simp add: mode_inv_def)

lemma mode_inv_cong:
  "ws_mode s' = ws_mode s \<Longrightarrow> ws_order s' = ws_order s \<Longrightarrow> mode_inv s' = mode_inv s"
  by (simp add: mode_inv_def)

lemma set_mode_Idle: "ws_mode (set_mode Idle s) = Idle"
  by (simp add: set_mode_def)

lemma offered_SetMode:
  assumes "offered (OrderWorkspace loc s) (SetMode m)" "mode_inv s"
  shows "(m = DeliverMode \<and> od_role (ws_order s) = Expert \<and> od_status (ws_order s) = Active) \<or>
    (m = ReviseMode \<and> od_role (ws_order s) = Student \<and> od_status (ws_order s) = Delivered)"
  using offered_OrderWorkspace [OF assms(1)] assms(2)
  by (auto simp: offered_action_bar mode_inv_def dest: offered_inspection)

lemma offered_Act:
  assumes "offered (OrderWorkspace loc s) (Act k)" "mode_inv s"
  shows "(k = ''pay'' \<and> od_status (ws_order s) = Awaiting_payment) \<or>
    (\<exists>p. od_payment (ws_order s) = Some p \<and> od_role (ws_order s) = Student \<and> card_pays p k) \<or>
    (k = ''approve'' \<and> od_role (ws_order s) = Student \<and> od_status (ws_order s) = Delivered)"
  using offered_OrderWorkspace [OF assms(1)] assms(2)
  by (auto simp: offered_action_bar mode_inv_def dest: offered_inspection)

lemma mode_inv_step:
  assumes "mode_inv s" "workspace_enabled loc s e"
  shows "mode_inv (workspace_step loc s e)"
proof (cases "\<exists>m. e = SetMode m")
  case True
  then obtain m where e: "e = SetMode m" by blast
  then have "offered (OrderWorkspace loc s) (SetMode m)"
    using assms(2) by (simp add: workspace_enabled_def)
  then show ?thesis
    using offered_SetMode [OF _ assms(1)] assms(1) e by (auto simp: mode_inv_def set_mode_def)
next
  case False
  show ?thesis
  proof (cases "\<exists>ord rw d b. e = Props ord rw d b")
    case True
    then show ?thesis
      using assms by (auto simp: workspace_enabled_def new_props_def Let_def mode_inv_def
          split: if_splits)
  next
    case False
    with \<open>\<not> (\<exists>m. e = SetMode m)\<close> have "ws_mode (workspace_step loc s e) = Idle \<or>
        (ws_mode (workspace_step loc s e) = ws_mode s \<and> ws_order (workspace_step loc s e) = ws_order s)"
      by (cases "(loc, s, e)" rule: workspace_step.cases) (auto simp: set_mode_def)
    then show ?thesis
      using assms(1) mode_inv_idle mode_inv_cong by blast
  qed
qed

lemma offered_Disputing:
  "offered (OrderWorkspace loc s) (Disputing x) \<Longrightarrow>
   offered (DisputeSection (status_name (od_status (ws_order s))) (od_role (ws_order s)) (ws_dispute s)
     (ws_busy s) (ws_disputing s)) x"
  by (auto simp: offered_action_bar cancel_form_def dest!: offered_OrderWorkspace dest: offered_inspection)

text \<open>The reason of the dispute form is one of its choices.\<close>

definition reason_listed :: "dispute_section \<Rightarrow> bool" where
  "reason_listed d \<longleftrightarrow> dc_reason (ds_composer d) = [] \<or> dc_reason (ds_composer d) \<in> fst ` set DISPUTE_REASONS"

lemma reason_listed_init [simp]: "reason_listed dispute_section_init"
  by (simp add: reason_listed_def dispute_section_init_def dispute_init_def)

lemma offered_section_composer:
  "offered (DisputeSection st r d busy ds) (OnComposer x) \<Longrightarrow> offered (DisputeComposer (ds_composer ds) busy) x"
  by (auto simp: DisputeSection_def Let_def offers_Box offered_child simp del: offers.simps(6)
      split: option.splits if_splits)

lemma reason_listed_composer:
  assumes "reason_listed ds" "offered (DisputeComposer (ds_composer ds) busy) x \<or> (\<exists>r. x = DisputeSent r)"
  shows "reason_listed (dispute_section_step loc ds (OnComposer x))"
  using assms
  by (cases x)
    (auto simp: reason_listed_def offered_DisputeComposer dispute_submit_def dispute_sent_def
      split: option.splits sum.splits if_splits)

lemma reason_listed_step:
  assumes "reason_listed (ws_disputing s)" "workspace_enabled loc s e"
  shows "reason_listed (ws_disputing (workspace_step loc s e))"
proof (cases "\<exists>x. e = Disputing x")
  case True
  then obtain x where e: "e = Disputing x" by blast
  show ?thesis
  proof (cases x)
    case (OnCard c)
    then show ?thesis using assms(1) e by (cases c) (simp_all add: reason_listed_def)
  next
    case (OnComposer y)
    have "settles e \<or> offered (OrderWorkspace loc s) e" using assms(2) e by (simp add: workspace_enabled_def)
    then have "offered (DisputeComposer (ds_composer (ws_disputing s)) (ws_busy s)) y \<or> (\<exists>r. y = DisputeSent r)"
      using offered_section_composer [OF offered_Disputing] e OnComposer by (cases y) auto
    then show ?thesis using reason_listed_composer [OF assms(1)] e OnComposer by simp
  qed
next
  case False
  then show ?thesis
    using assms(1)
    by (cases "(loc, s, e)" rule: workspace_step.cases)
      (auto simp: set_mode_def new_props_def Let_def dispute_section_props_def)
qed

definition space_inv :: "workspace \<Rightarrow> bool" where
  "space_inv s \<longleftrightarrow> mode_inv s \<and> reason_listed (ws_disputing s)"

lemma space_inv_init [simp]: "space_inv (workspace_init ord rw d)"
  by (simp add: space_inv_def workspace_init_def mode_inv_idle)

lemma space_inv_step: "space_inv s \<Longrightarrow> workspace_enabled loc s e \<Longrightarrow> space_inv (workspace_step loc s e)"
  by (simp add: space_inv_def mode_inv_step reason_listed_step)

interpretation space: machine workspace_start "workspace_enabled loc" "workspace_step loc" space_inv for loc
  by unfold_locales (auto simp: workspace_start_def intro: space_inv_step)

section \<open>The documented lifecycle\<close>

text \<open>
  What a participant's own action may do, by the documents: who may do it in which status, and the
  status the order has when it has succeeded. \<open>docs/workflows/order-lifecycle.md\<close> has the delivery
  and its answers and the student's cancellation of an unpaid order; \<open>payments.md\<close> the student's payment,
  which leaves the order unpaid until it is confirmed, and the confirmation of a development setup;
  \<open>disputes.md\<close> (BR-40) the opening of a dispute by either party while the order runs and for seven
  days after its completion, once per order. The days and the once are conditions besides this table.
  The cancellations of a running order are the administrators'. The table is the specification the
  workspace, and in \<open>OrderContract\<close> the backend, is compared with.
\<close>

fun documented :: "role \<Rightarrow> order_status \<Rightarrow> string \<Rightarrow> order_status option" where
  "documented Student Awaiting_payment k =
     (if k = ''pay'' then Some Awaiting_payment else if k = ''confirm-payment'' then Some Active
      else if k = ''cancel'' then Some Cancelled else None)"
| "documented Student Delivered k =
     (if k = ''approve'' then Some Completed else if k = ''revise'' then Some Revision_requested
      else if k = ''open-dispute'' then Some Disputed else None)"
| "documented Expert Active k =
     (if k = ''deliver'' then Some Delivered else if k = ''open-dispute'' then Some Disputed else None)"
| "documented Expert Revision_requested k =
     (if k = ''deliver'' then Some Delivered else if k = ''open-dispute'' then Some Disputed else None)"
| "documented r Active k = (if k = ''open-dispute'' then Some Disputed else None)"
| "documented r Delivered k = (if k = ''open-dispute'' then Some Disputed else None)"
| "documented r Revision_requested k = (if k = ''open-dispute'' then Some Disputed else None)"
| "documented r Completed k = (if k = ''open-dispute'' then Some Disputed else None)"
| "documented r st k = None"

text \<open>
  Every key of the table. The other keys the workspace sends (the reviews and the evidence of a
  dispute) do not change the order's status.
\<close>

definition lifecycle_keys :: "string set" where
  "lifecycle_keys =
     {''pay'', ''confirm-payment'', ''deliver'', ''approve'', ''revise'', ''cancel'', ''open-dispute''}"

lemma documented_keys: "documented r st k \<noteq> None \<Longrightarrow> k \<in> lifecycle_keys"
  by (cases r; cases st) (auto simp: lifecycle_keys_def split: if_splits)

text \<open>
  A payment out of place: the expert of an unpaid order pays, or a student whose card shows an attempt
  that is pending or has failed, though the order does not await its payment.
\<close>

definition stray_payment :: "order_detail \<Rightarrow> string \<Rightarrow> bool" where
  "stray_payment ord k \<longleftrightarrow>
     (k = ''pay'' \<and> od_role ord = Expert \<and> od_status ord = Awaiting_payment) \<or>
     (od_role ord = Student \<and> od_status ord \<noteq> Awaiting_payment \<and>
        (\<exists>p. od_payment ord = Some p \<and> card_pays p k))"

fun payload_ok :: "action_payload \<Rightarrow> bool" where
  "payload_ok (DeliveryPayload summary ids) = (20 \<le> length summary \<and> trim summary = summary)"
| "payload_ok (TextPayload note) = (10 \<le> length note \<and> trim note = note)"
| "payload_ok (DisputePayload reason description ids) =
     (reason \<in> fst ` set DISPUTE_REASONS \<and> 20 \<le> length description \<and> length description \<le> 5000 \<and>
      trim description = description)"
| "payload_ok _ = True"

lemma review_action_key: "review_action c = (k, p) \<Longrightarrow> k \<in> lifecycle_keys \<Longrightarrow> False"
  by (cases c) (auto simp: lifecycle_keys_def)

lemma evidence_key: "''add-evidence'' \<notin> lifecycle_keys"
  by (simp add: lifecycle_keys_def)

lemma window_statuses:
  "canOpenDispute (status_name st) \<longleftrightarrow> st \<in> {Active, Delivered, Revision_requested, Completed}"
  by (cases st) (simp_all add: canOpenDispute_def DISPUTE_WINDOW_STATUSES_def)

text \<open>The events that send a lifecycle action, and with what.\<close>

lemma call_kinds:
  assumes "workspace_call loc ids s e = Some (k, p)" "k \<in> lifecycle_keys"
  obtains (act) "e = Act k" "p = NoPayload"
    | (deliver) "e = Delivering SubmitDelivery" "k = ''deliver''"
        "p = DeliveryPayload (trim (dv_summary (ws_delivery s))) ids" "snd (delivery_submit (ws_delivery s))"
    | (revise) n where "e = Revising SubmitRevision" "k = ''revise''" "p = TextPayload n"
        "snd (revision_submit (ws_revision s)) = Some n"
    | (cancel) "e = SubmitCancel"
    | (dispute) c where "e = Disputing (OnComposer SubmitDispute)" "k = ''open-dispute''"
        "c = ds_composer (ws_disputing s)" "snd (dispute_submit loc c)"
        "p = DisputePayload (dc_reason c) (trim (dc_description c)) ids"
  using assms
  by (cases "(loc, ids, s, e)" rule: workspace_call.cases)
    (auto simp: Let_def evidence_key dest: review_action_key split: if_splits)

lemma dispute_payload_ok:
  assumes "snd (dispute_submit loc (ds_composer d))" "reason_listed d"
  shows "payload_ok (DisputePayload (dc_reason (ds_composer d)) (trim (dc_description (ds_composer d))) ids)"
  using assms length_trim [of "dc_description (ds_composer d)"]
  by (auto simp: dispute_submit_def dispute_check_def dispute_consts reason_listed_def split: option.splits if_splits)

lemma call_mode:
  assumes "space_inv s" "workspace_enabled loc s e" "workspace_call loc ids s e = Some (k, p)"
    and "k \<in> lifecycle_keys"
  shows "(documented (od_role (ws_order s)) (od_status (ws_order s)) k \<noteq> None \<or> stray_payment (ws_order s) k) \<and>
    payload_ok p \<and> k \<noteq> ''cancel'' \<and>
    (k = ''deliver'' \<longrightarrow> od_status (ws_order s) \<noteq> Revision_requested) \<and>
    (k = ''open-dispute'' \<longrightarrow> od_role (ws_order s) = Student \<and> ws_dispute s = None)"
proof -
  have m: "mode_inv s" and listed: "reason_listed (ws_disputing s)" using assms(1) by (simp_all add: space_inv_def)
  have off: "offered (OrderWorkspace loc s) e" if "\<not> settles e" "\<nexists>ord rw d b. e = Props ord rw d b"
    using assms(2) that by (cases e) (simp_all add: workspace_enabled_def)
  show ?thesis
    using assms(3,4)
  proof (cases rule: call_kinds)
    case act
    then have "offered (OrderWorkspace loc s) (Act k)" using off by simp
    from offered_Act [OF this m] show ?thesis
      using act(2)
      by (cases "od_role (ws_order s)"; cases "od_status (ws_order s) = Awaiting_payment")
        (auto simp: stray_payment_def card_pays_def)
  next
    case deliver
    have "ws_mode s = DeliverMode"
      using offered_OrderWorkspace [OF off] deliver(1) m
      by (auto simp: offered_action_bar mode_inv_def cancel_form_def dest: offered_inspection)
    then show ?thesis
      using deliver m by (auto simp: mode_inv_def delivery_submit_def split: if_splits)
  next
    case revise
    have "ws_mode s = ReviseMode"
      using offered_OrderWorkspace [OF off] revise(1) m
      by (auto simp: offered_action_bar mode_inv_def cancel_form_def dest: offered_inspection)
    then show ?thesis
      using revise m by (auto simp: mode_inv_def revision_submit_def split: if_splits)
  next
    case cancel
    have "ws_mode s = CancelMode"
      using offered_OrderWorkspace [OF off] cancel
      by (auto simp: offered_action_bar dest: offered_inspection)
    then show ?thesis using m by (simp add: mode_inv_def)
  next
    case (dispute c)
    have "offered (OrderWorkspace loc s) (Disputing (OnComposer SubmitDispute))" using off dispute(1) by simp
    from dispute_policy_shown [of _ _ _ _ _ SubmitDispute, THEN conjunct1, rule_format, OF offered_Disputing [OF this]]
    have w: "ws_dispute s = None" "canOpenDispute (status_name (od_status (ws_order s)))"
        "od_role (ws_order s) = Student" by simp_all
    then have "documented Student (od_status (ws_order s)) ''open-dispute'' \<noteq> None"
      by (auto simp: window_statuses)
    then show ?thesis
      using dispute w dispute_payload_ok [OF _ listed] by simp
  qed
qed

lemma offered_bar: "offered (action_bar s) e \<Longrightarrow> offered (OrderWorkspace loc s) e"
  by (simp add: OrderWorkspace_def Let_def)

text \<open>Orders to speak of in witnesses.\<close>

definition sample_order :: "role \<Rightarrow> order_status \<Rightarrow> delivery list \<Rightarrow> order_detail" where
  "sample_order r st ds =
     \<lparr>od_id = ''o1'', od_number = ''HM-1'', od_status = st, od_source = Open_bid, od_title = ''Essay'',
      od_amount = 40, od_role = r, od_created_at = [], od_request_id = ''q1'', od_category = [],
      od_counterparty = ''Sam'', od_expert_amount = 34, od_commission = 6, od_currency = ''USD'',
      od_deadline = None, od_revisions_allowed = 2, od_revisions_used = 0, od_auto_approve_at = None,
      od_paid_at = None, od_delivered_at = None, od_completed_at = None, od_cancelled_at = None,
      od_cancellation_reason = [], od_events = [], od_deliveries = ds, od_payment = None\<rparr>"

definition sample_delivery :: delivery where
  "sample_delivery =
     \<lparr>dl_id = ''d1'', dl_revision = 0, dl_summary = ''All done'', dl_status = Changes_requested,
      dl_submitted_at = None, dl_approved_at = None, dl_approval_source = [], dl_attachments = []\<rparr>"

lemma workspace_reach_init: "workspace_reach loc (workspace_init ord rw d)"
  by (rule reach_start) (auto simp: workspace_start_def)

section \<open>Properties\<close>

text \<open>
  C11: the workspace refines the documented lifecycle. Whatever the user does, whatever settles and
  however the order changes underneath, every action it sends that moves the order - payment and its
  confirmation, delivery, approval, revision request, cancellation, opening of a dispute - is one the
  documents allow this side in this status, apart from a payment out of place (\<open>stray_payment\<close>): the bar
  offers an unpaid order's payment to the expert too, and the payment card goes by the payment's
  status alone. What it sends is well formed: 20 characters for a delivery and for a dispute (at most
  5,000, and a listed reason), 10 for a revision note, without surrounding space. A dispute is opened
  only by the student of an order that has none.
\<close>

theorem workspace_refines_lifecycle:
  assumes "workspace_reach loc s" "workspace_enabled loc s e"
    and "workspace_call loc ids s e = Some (k, p)" "k \<in> lifecycle_keys"
  shows "(documented (od_role (ws_order s)) (od_status (ws_order s)) k \<noteq> None \<or>
      stray_payment (ws_order s) k) \<and> payload_ok p \<and>
    (k = ''open-dispute'' \<longrightarrow> od_role (ws_order s) = Student \<and> ws_dispute s = None)"
  using call_mode [OF space.reach_inv [OF assms(1)] assms(2-4)] by blast

theorem workspace_refines_lifecycle_witness:
  "documented Student Delivered ''approve'' \<noteq> None \<and>
   workspace_call plain_locale [] (workspace_init (sample_order Student Delivered [sample_delivery]) None None)
     (Act ''approve'') = Some (''approve'', NoPayload)"
proof -
  let ?s = "workspace_init (sample_order Student Delivered [sample_delivery]) None None"
  have "offered (action_bar ?s) (Act ''approve'')"
    by (simp add: offered_action_bar workspace_init_def sample_order_def)
  then have "workspace_enabled plain_locale ?s (Act ''approve'')"
    by (simp add: workspace_enabled_def offered_bar)
  from workspace_refines_lifecycle [OF workspace_reach_init this, of "[]" "''approve''" NoPayload]
  show ?thesis by (simp add: lifecycle_keys_def workspace_init_def sample_order_def)
qed

text \<open>
  Both kinds of a payment out of place do occur: the expert of an unpaid order is offered its payment, and
  the student of a cancelled order whose last attempt had failed is offered to try again.
\<close>

definition failed_payment :: payment_info where
  "failed_payment =
     \<lparr>pi_id = ''p1'', pi_gateway = ''manual'', pi_status = Pay_failed, pi_amount_minor = 4000, pi_amount = 40,
      pi_currency = ''USD'', pi_refunded = 0, pi_failure_reason = [], pi_paid_at = None, pi_simulated = True,
      pi_instructions = None, pi_dev_self_confirm = False\<rparr>"

lemma offered_card:
  "od_payment (ws_order s) = Some p \<Longrightarrow> od_role (ws_order s) = Student \<Longrightarrow> \<not> ws_busy s \<Longrightarrow> card_pays p k \<Longrightarrow>
   offered (OrderWorkspace loc s) (Act k)"
  using offered_payment [of loc p Student "ws_busy s" "Act k"] by (simp add: OrderWorkspace_def Let_def)

lemma stray_payments_sent:
  fixes loc :: locale_text
  defines "unpaid \<equiv> workspace_init (sample_order Expert Awaiting_payment []) None None"
    and "cancelled \<equiv> workspace_init ((sample_order Student Cancelled [])\<lparr>od_payment := Some failed_payment\<rparr>) None None"
  shows "workspace_enabled loc unpaid (Act ''pay'')" "workspace_enabled loc cancelled (Act ''pay'')"
    "documented Expert Awaiting_payment ''pay'' = None" "documented Student Cancelled ''pay'' = None"
proof -
  have "offered (action_bar unpaid) (Act ''pay'')"
    by (simp add: unpaid_def offered_action_bar workspace_init_def sample_order_def)
  then show "workspace_enabled loc unpaid (Act ''pay'')" by (simp add: workspace_enabled_def offered_bar)
  have "offered (OrderWorkspace loc cancelled) (Act ''pay'')"
    by (rule offered_card [of _ failed_payment])
      (simp_all add: cancelled_def workspace_init_def sample_order_def failed_payment_def card_pays_def)
  then show "workspace_enabled loc cancelled (Act ''pay'')" by (simp add: workspace_enabled_def)
qed simp_all

text \<open>
  C12: what of the documented lifecycle the workspace offers, exactly. In the idle workspace, not busy,
  each documented action of this side in this status has a control that does it or opens its form - the
  conditions being those the documents add: a revision while some are left, a confirmation where the
  development setup shows one, a dispute while the order has none (and none is being sent) - but for three,
  which have none: the student's cancellation of an unpaid order, the expert's delivery after a revision
  request, and the expert's opening of a dispute.
\<close>

fun starts :: "string \<Rightarrow> workspace_event \<Rightarrow> bool" where
  "starts k (Act k') = (k' = k)"
| "starts k (SetMode m) = ((k = ''deliver'' \<and> m = DeliverMode) \<or> (k = ''revise'' \<and> m = ReviseMode)
     \<or> (k = ''cancel'' \<and> m = CancelMode))"
| "starts k (Disputing (OnComposer x)) = (k = ''open-dispute'' \<and> x \<in> {OpenComposer, SubmitDispute})"
| "starts k (Delivering x) = (k = ''deliver'' \<and> x = SubmitDelivery)"
| "starts k (Revising x) = (k = ''revise'' \<and> x = SubmitRevision)"
| "starts k SubmitCancel = (k = ''cancel'')"
| "starts k e = False"

definition unreachable_action :: "role \<Rightarrow> order_status \<Rightarrow> string \<Rightarrow> bool" where
  "unreachable_action r st k \<longleftrightarrow>
     k = ''cancel'' \<or> (k = ''deliver'' \<and> st = Revision_requested) \<or> (k = ''open-dispute'' \<and> r = Expert)"

lemma offered_dispute_start:
  assumes "canOpenDispute st" "\<not> busy" "\<not> dc_uploading (ds_composer ds)"
  shows "\<exists>x \<in> {OpenComposer, SubmitDispute}. offered (DisputeSection st Student None busy ds) (OnComposer x)"
proof -
  have "\<exists>x \<in> {OpenComposer, SubmitDispute}. offered (DisputeComposer (ds_composer ds) busy) x"
    using assms(2,3) by (cases "dc_open (ds_composer ds)") (auto simp: offered_DisputeComposer)
  then show ?thesis
    using assms(1) by (auto simp: DisputeSection_def Let_def offers_Box offered_child simp del: offers.simps(6))
qed

lemma offered_section:
  "offered (DisputeSection (status_name (od_status (ws_order s))) (od_role (ws_order s)) (ws_dispute s)
     (ws_busy s) (ws_disputing s)) x \<Longrightarrow> offered (OrderWorkspace loc s) (Disputing x)"
  by (auto simp: OrderWorkspace_def Let_def offered_child)

lemma unreachable_not_offered:
  assumes "unreachable_action (od_role (ws_order s)) (od_status (ws_order s)) k"
    and "ws_mode s = Idle" "starts k e"
  shows "\<not> offered (OrderWorkspace loc s) e"
proof
  assume off: "offered (OrderWorkspace loc s) e"
  have mode: "\<not> (\<exists>m. e = SetMode m \<and> m \<noteq> DeliverMode \<and> m \<noteq> ReviseMode)"
    using offered_SetMode [of loc s] off mode_inv_idle [OF assms(2)] by blast
  have act: "e \<noteq> Act ''cancel''" "e \<noteq> Act ''deliver''" "e \<noteq> Act ''open-dispute''"
    using offered_Act [of loc s] off mode_inv_idle [OF assms(2)] by (auto simp: card_pays_def)
  have forms: "e \<noteq> SubmitCancel" "e \<noteq> Delivering SubmitDelivery"
    using offered_OrderWorkspace [OF off] assms(2) by (auto simp: offered_action_bar dest: offered_inspection)
  show False
    using assms(1)
    unfolding unreachable_action_def
  proof (elim disjE conjE)
    assume "k = ''cancel''"
    then show False using assms(3) mode act forms by (cases "(k, e)" rule: starts.cases) auto
  next
    assume k: "k = ''deliver''" "od_status (ws_order s) = Revision_requested"
    then have "e = SetMode DeliverMode"
      using assms(3) act forms by (cases "(k, e)" rule: starts.cases) auto
    then show False using offered_SetMode [of loc s] off mode_inv_idle [OF assms(2)] k(2) by auto
  next
    assume k: "k = ''open-dispute''" "od_role (ws_order s) = Expert"
    then obtain x where "e = Disputing (OnComposer x)"
      using assms(3) act by (cases "(k, e)" rule: starts.cases) auto
    then show False
      using dispute_policy_shown [of "status_name (od_status (ws_order s))"] offered_Disputing off k(2) by fastforce
  qed
qed

theorem workspace_offers_lifecycle:
  assumes "documented (od_role (ws_order s)) (od_status (ws_order s)) k \<noteq> None"
    and "\<not> ws_busy s" "ws_mode s = Idle"
    and "k = ''revise'' \<Longrightarrow> od_revisions_used (ws_order s) < od_revisions_allowed (ws_order s)"
    and "k = ''confirm-payment'' \<Longrightarrow> \<exists>p. od_payment (ws_order s) = Some p \<and> card_pays p k"
    and "k = ''open-dispute'' \<Longrightarrow> ws_dispute s = None \<and> \<not> dc_uploading (ds_composer (ws_disputing s))"
  shows "(\<exists>e. starts k e \<and> offered (OrderWorkspace loc s) e) \<longleftrightarrow>
    \<not> unreachable_action (od_role (ws_order s)) (od_status (ws_order s)) k"
proof
  assume "\<exists>e. starts k e \<and> offered (OrderWorkspace loc s) e"
  then show "\<not> unreachable_action (od_role (ws_order s)) (od_status (ws_order s)) k"
    using unreachable_not_offered assms(3) by blast
next
  assume reachable: "\<not> unreachable_action (od_role (ws_order s)) (od_status (ws_order s)) k"
  let ?r = "od_role (ws_order s)" and ?st = "od_status (ws_order s)"
  consider "k = ''pay''" "?st = Awaiting_payment" | "k = ''confirm-payment''" "?r = Student"
    | "k = ''deliver''" "?r = Expert" "?st = Active"
    | "k = ''approve''" "?r = Student" "?st = Delivered" | "k = ''revise''" "?r = Student" "?st = Delivered"
    | "k = ''open-dispute''" "?r = Student" "canOpenDispute (status_name ?st)"
    using assms(1) reachable unfolding window_statuses unreachable_action_def
    by (cases ?r; cases ?st) (auto split: if_splits)
  then show "\<exists>e. starts k e \<and> offered (OrderWorkspace loc s) e"
  proof cases
    case 1
    then have "offered (action_bar s) (Act k)" using assms(2,3) by (simp add: offered_action_bar)
    then show ?thesis using offered_bar by (intro exI [of _ "Act k"]) simp
  next
    case 2
    then obtain p where "od_payment (ws_order s) = Some p" "card_pays p k" using assms(5) by blast
    then show ?thesis using offered_card 2 assms(2) by (intro exI [of _ "Act k"]) simp
  next
    case 3
    then have "offered (action_bar s) (SetMode DeliverMode)" using assms(2,3) by (simp add: offered_action_bar)
    then show ?thesis using offered_bar 3(1) by (intro exI [of _ "SetMode DeliverMode"]) simp
  next
    case 4
    then have "offered (action_bar s) (Act k)" using assms(2,3) by (simp add: offered_action_bar)
    then show ?thesis using offered_bar by (intro exI [of _ "Act k"]) simp
  next
    case 5
    then have "offered (action_bar s) (SetMode ReviseMode)" using assms(2-4) by (simp add: offered_action_bar)
    then show ?thesis using offered_bar 5(1) by (intro exI [of _ "SetMode ReviseMode"]) simp
  next
    case 6
    then have none: "ws_dispute s = None" "\<not> dc_uploading (ds_composer (ws_disputing s))" using assms(6) by blast+
    obtain x where x: "x \<in> {OpenComposer, SubmitDispute}"
        "offered (DisputeSection (status_name ?st) ?r (ws_dispute s) (ws_busy s) (ws_disputing s)) (OnComposer x)"
      using offered_dispute_start [OF 6(3) assms(2) none(2)] 6(2) none(1) by auto
    then show ?thesis using 6(1) offered_section by (intro exI [of _ "Disputing (OnComposer x)"]) simp
  qed
qed

theorem workspace_offers_lifecycle_witness:
  "(\<exists>e. starts ''deliver'' e \<and>
      offered (OrderWorkspace plain_locale (workspace_init (sample_order Expert Active []) None None)) e) \<and>
   \<not> (\<exists>e. starts ''open-dispute'' e \<and>
      offered (OrderWorkspace plain_locale (workspace_init (sample_order Expert Active []) None None)) e)"
proof
  let ?s = "workspace_init (sample_order Expert Active []) None None"
  show "\<exists>e. starts ''deliver'' e \<and> offered (OrderWorkspace plain_locale ?s) e"
    using workspace_offers_lifecycle [of ?s "''deliver''" plain_locale]
    by (simp add: workspace_init_def sample_order_def unreachable_action_def)
  show "\<not> (\<exists>e. starts ''open-dispute'' e \<and> offered (OrderWorkspace plain_locale ?s) e)"
    using workspace_offers_lifecycle [of ?s "''open-dispute''" plain_locale]
    by (simp add: workspace_init_def sample_order_def unreachable_action_def dispute_section_init_def dispute_init_def)
qed

text \<open>
  A student cannot cancel an unpaid order. The lifecycle documents it and
  \<open>workspaceActions\<close> lists it, but in no reachable state is the cancellation form open and no
  enabled event of any reachable state sends a cancellation: the action's tone is tested
  before its key, and a ghost action is rendered as plain text.
\<close>

lemma cancel_unreachable:
  assumes "workspace_reach loc s"
  shows "ws_mode s \<noteq> CancelMode \<and>
    \<not> (\<exists>e ids p. workspace_enabled loc s e \<and> workspace_call loc ids s e = Some (''cancel'', p)) \<and>
    documented Student Awaiting_payment ''cancel'' = Some Cancelled \<and>
    ''cancel'' \<in> ac_key ` set (workspaceActions (sample_order Student Awaiting_payment []))"
proof -
  have inv: "space_inv s" using assms by (rule space.reach_inv)
  have "''cancel'' \<in> lifecycle_keys" by (simp add: lifecycle_keys_def)
  then have "\<not> (\<exists>e ids p. workspace_enabled loc s e \<and> workspace_call loc ids s e = Some (''cancel'', p))"
    using call_mode [OF inv] by blast
  then show ?thesis
    using inv by (auto simp: space_inv_def mode_inv_def workspaceActions_def sample_order_def)
qed

text \<open>
  An expert cannot redeliver, nor open a dispute. The documents have both, but no enabled event of any
  reachable state whose order awaits a revision sends a delivery, and none of an expert's page opens a
  dispute.
\<close>

lemma redelivery_unreachable:
  assumes "workspace_reach loc s" "od_status (ws_order s) = Revision_requested"
  shows "\<not> (\<exists>e ids p. workspace_enabled loc s e \<and> workspace_call loc ids s e = Some (''deliver'', p)) \<and>
    documented Expert (od_status (ws_order s)) ''deliver'' = Some Delivered"
proof -
  have "''deliver'' \<in> lifecycle_keys" by (simp add: lifecycle_keys_def)
  then show ?thesis
    using call_mode [OF space.reach_inv [OF assms(1)]] assms(2) by fastforce
qed

lemma expert_dispute_unreachable:
  assumes "workspace_reach loc s" "od_role (ws_order s) = Expert"
  shows "\<not> (\<exists>e ids p. workspace_enabled loc s e \<and> workspace_call loc ids s e = Some (''open-dispute'', p)) \<and>
    documented Expert Active ''open-dispute'' = Some Disputed"
proof -
  have "''open-dispute'' \<in> lifecycle_keys" by (simp add: lifecycle_keys_def)
  then show ?thesis
    using call_mode [OF space.reach_inv [OF assms(1)]] assms(2) by fastforce
qed

text \<open>
  The delivery goes out whole or not at all. Either every file is uploaded, in order, and
  then one request delivers the trimmed summary with as many identifiers as there are files; or
  an upload fails, no later file is uploaded and nothing is delivered.
\<close>

lemma delivery_requests:
  fixes srv :: "'w server" and oid :: string
  defines "onSubmit \<equiv> \<lambda>t ids. ask (logged srv) (ordersApi_deliver oid t ids) (map_sum id (\<lambda>_. ()))"
  assumes "delivery_send b (logged srv) onSubmit c (w, []) = (res, w', sent)"
  shows "(\<exists>ids. length ids = length (dv_files c) \<and>
        sent = map (\<lambda>f. at_base b (upload_req ''delivery'' f)) (dv_files c)
          @ [ordersApi_deliver oid (trim (dv_summary c)) ids]) \<or>
    (\<exists>e k. res = Inl e \<and> k < length (dv_files c) \<and>
        sent = map (\<lambda>f. at_base b (upload_req ''delivery'' f)) (take (Suc k) (dv_files c)))"
proof (cases "upload_all (upload_id b Delivery (logged srv)) (dv_files c) (w, [])")
  case (fields r w1 l1)
  note ok = file_upload.all_ok [of b Delivery srv "dv_files c" "(w, [])" _ "(w1, l1)", simplified]
  note stops = file_upload.all_stops [of b Delivery srv "dv_files c" "(w, [])" _ "(w1, l1)", simplified]
  show ?thesis
  proof (cases r)
    case (Inl e)
    then show ?thesis using stops fields assms(2) by (auto simp: delivery_send_def)
  next
    case (Inr ids)
    then show ?thesis
      using ok fields assms(2)
      by (auto simp: delivery_send_def onSubmit_def ask_def logged_def split: prod.splits)
  qed
qed

end
