(* ===== verification/OrderPage.thy ===== *)
theory OrderPage
  imports OrderWorkspace
begin

text \<open>
  The order page: \<open>features/orders/components/order-workspace-client.tsx\<close>. It loads the order and its
  side panels, turns the workspace's actions into requests, and reloads after each.

  The payloads are cast to the types of the workspace without a check; the casts are the functions
  of a record the definitions take.
\<close>

section \<open>State\<close>

record casts =
  order_of :: "json \<Rightarrow> order_detail"
  review_of :: "json \<Rightarrow> review"
  dispute_of :: "json \<Rightarrow> dispute"

record order_page =
  pg_order :: "order_detail option"
  pg_review :: "review option"
  pg_dispute :: "dispute option"
  pg_failed :: bool
  pg_busy :: bool

definition order_page_init :: order_page where
  "order_page_init =
     \<lparr>pg_order = None, pg_review = None, pg_dispute = None, pg_failed = False, pg_busy = False\<rparr>"

section \<open>Loading\<close>

text \<open>The two side panels: a failure of either, a 404 included, means there is none.\<close>

definition fulfilled :: "(json \<Rightarrow> 'a) \<Rightarrow> failure + json \<Rightarrow> 'a option" where
  "fulfilled cast r = (case r of Inr v \<Rightarrow> Some (cast v) | Inl _ \<Rightarrow> None)"

definition load_panels ::
    "'w server \<Rightarrow> casts \<Rightarrow> string \<Rightarrow> order_page \<Rightarrow> 'w \<Rightarrow> order_page \<times> 'w" where
  "load_panels srv dec orderId p w =
     (case srv (reviewsApi_forOrder orderId) w of (r, w1) \<Rightarrow>
        (case srv (disputesApi_forOrder orderId) w1 of (d, w2) \<Rightarrow>
           (p\<lparr>pg_review := fulfilled (review_of dec) r, pg_dispute := fulfilled (dispute_of dec) d\<rparr>, w2)))"

definition load_order ::
    "'w server \<Rightarrow> casts \<Rightarrow> string \<Rightarrow> order_page \<Rightarrow> 'w \<Rightarrow> order_page \<times> 'w" where
  "load_order srv dec orderId p w =
     (if orderId = [] then (p, w)
      else (case srv (ordersApi_detail orderId) w of
          (Inl e, w1) \<Rightarrow> (p\<lparr>pg_failed := True\<rparr>, w1)
        | (Inr v, w1) \<Rightarrow>
            load_panels srv dec orderId (p\<lparr>pg_order := Some (order_of dec v), pg_failed := False\<rparr>) w1))"

section \<open>Actions\<close>

fun num_json :: "nat option \<Rightarrow> json" where
  "num_json None = JNull"
| "num_json (Some n) = JNum (int n)"

definition review_json :: "review_input \<Rightarrow> json" where
  "review_json i =
     JObj [(''rating'', JNum (int (ri_rating i))), (''body'', JStr (ri_body i)),
           (''sub_quality'', num_json (sub_quality (ri_subs i))),
           (''sub_communication'', num_json (sub_communication (ri_subs i))),
           (''sub_timeliness'', num_json (sub_timeliness (ri_subs i)))]"

text \<open>One request whose answer is put into the page, or dropped.\<close>

definition request_then ::
    "'w server \<Rightarrow> api_init \<Rightarrow> (json \<Rightarrow> order_page \<Rightarrow> order_page) \<Rightarrow> order_page \<Rightarrow> 'w
     \<Rightarrow> (failure + unit) \<times> order_page \<times> 'w" where
  "request_then srv i keep p w =
     (case srv i w of (Inl e, w1) \<Rightarrow> (Inl e, p, w1) | (Inr v, w1) \<Rightarrow> (Inr (), keep v p, w1))"

definition set_review :: "casts \<Rightarrow> json \<Rightarrow> order_page \<Rightarrow> order_page" where
  "set_review dec v p = p\<lparr>pg_review := Some (review_of dec v)\<rparr>"

definition set_dispute :: "casts \<Rightarrow> json \<Rightarrow> order_page \<Rightarrow> order_page" where
  "set_dispute dec v p = p\<lparr>pg_dispute := Some (dispute_of dec v)\<rparr>"

text \<open>
  The tests on the key and the shape of the payload, in order: the request they lead to and what
  is done with its answer. No match makes no request.
\<close>

definition action_request ::
    "casts \<Rightarrow> string \<Rightarrow> string \<Rightarrow> action_payload \<Rightarrow> (api_init \<times> (json \<Rightarrow> order_page \<Rightarrow> order_page)) option"
  where
  "action_request dec oid key payload =
     (if key = ''pay'' then Some (ordersApi_pay oid, \<lambda>_. id)
      else if key = ''confirm-payment'' then Some (ordersApi_confirmPayment oid, \<lambda>_. id)
      else if key = ''approve'' then Some (ordersApi_approve oid, \<lambda>_. id)
      else (case payload of
          DeliveryPayload summary ids \<Rightarrow>
            if key = ''deliver'' then Some (ordersApi_deliver oid summary ids, \<lambda>_. id) else None
        | TextPayload t \<Rightarrow>
            if key = ''revise'' then Some (ordersApi_requestRevision oid t, \<lambda>_. id)
            else if key = ''cancel'' then Some (ordersApi_cancel oid t, \<lambda>_. id) else None
        | ReviewPayload i \<Rightarrow>
            if key = ''submit-review'' then Some (reviewsApi_submit oid (review_json i), set_review dec) else None
        | EditPayload rid i \<Rightarrow>
            if key = ''edit-review'' then Some (reviewsApi_edit rid (review_json i), set_review dec) else None
        | ReplyPayload rid t n \<Rightarrow>
            if key = ''reply-review'' then Some (reviewsApi_reply rid t (map_option int n), set_review dec) else None
        | DisputePayload r d ids \<Rightarrow>
            if key = ''open-dispute'' then Some (disputesApi_open oid r d ids, set_dispute dec) else None
        | EvidencePayload did ids \<Rightarrow>
            if key = ''add-evidence'' then Some (disputesApi_addEvidence did ids, \<lambda>_. id) else None
        | NoPayload \<Rightarrow> None))"

text \<open>Only adding evidence makes a second request, for the dispute.\<close>

definition second_request ::
    "casts \<Rightarrow> string \<Rightarrow> action_payload \<Rightarrow> (api_init \<times> (json \<Rightarrow> order_page \<Rightarrow> order_page)) option" where
  "second_request dec key payload =
     (case payload of
        EvidencePayload did ids \<Rightarrow>
          if key = ''add-evidence'' then Some (disputesApi_detail did, set_dispute dec) else None
      | _ \<Rightarrow> None)"

definition dispatch ::
    "'w server \<Rightarrow> casts \<Rightarrow> string \<Rightarrow> string \<Rightarrow> action_payload \<Rightarrow> order_page \<Rightarrow> 'w
     \<Rightarrow> (failure + unit) \<times> order_page \<times> 'w" where
  "dispatch srv dec oid key payload p w =
     (case action_request dec oid key payload of
        None \<Rightarrow> (Inr (), p, w)
      | Some (i, keep) \<Rightarrow>
          (case request_then srv i keep p w of
             (Inl e, p1, w1) \<Rightarrow> (Inl e, p1, w1)
           | (Inr _, p1, w1) \<Rightarrow>
               (case second_request dec key payload of
                  None \<Rightarrow> (Inr (), p1, w1)
                | Some (j, keep2) \<Rightarrow> request_then srv j keep2 p1 w1)))"

text \<open>\<open>onAction\<close>: busy while it runs, a reload after a success, and a failure rethrown.\<close>

definition onAction ::
    "'w server \<Rightarrow> casts \<Rightarrow> string \<Rightarrow> string \<Rightarrow> action_payload \<Rightarrow> order_page \<Rightarrow> 'w
     \<Rightarrow> (failure + unit) \<times> order_page \<times> 'w" where
  "onAction srv dec orderId key payload p w =
     (if orderId = [] then (Inr (), p, w)
      else (case dispatch srv dec orderId key payload (p\<lparr>pg_busy := True\<rparr>) w of
          (Inl e, p1, w1) \<Rightarrow> (Inl e, p1\<lparr>pg_busy := False\<rparr>, w1)
        | (Inr _, p1, w1) \<Rightarrow>
            (case load_order srv dec orderId p1 w1 of
               (p2, w2) \<Rightarrow> (Inr (), p2\<lparr>pg_busy := False\<rparr>, w2))))"

text \<open>What the page shows: the failure, nothing while loading, or the workspace.\<close>

definition OrderWorkspaceClient :: "locale_text \<Rightarrow> order_page \<Rightarrow> workspace \<Rightarrow> workspace_event ui list" where
  "OrderWorkspaceClient loc p s =
     (if pg_failed p \<and> pg_order p = None
      then [Alert ''This order isn't available -- it may not exist, or your account may not be a participant.'',
            Link ''/orders'' ''<- Back to my orders'']
      else (case pg_order p of
          None \<Rightarrow> []
        | Some ord \<Rightarrow>
            Link ''/orders'' ''<- My orders''
            # OrderWorkspace loc (s\<lparr>ws_order := ord, ws_review := pg_review p, ws_dispute := pg_dispute p,
                ws_busy := pg_busy p\<rparr>)))"

section \<open>Lemmas\<close>

text \<open>The requests an action makes when nothing fails.\<close>

definition action_requests :: "casts \<Rightarrow> string \<Rightarrow> string \<Rightarrow> action_payload \<Rightarrow> api_init list" where
  "action_requests dec oid key payload =
     (case action_request dec oid key payload of
        None \<Rightarrow> []
      | Some (i, _) \<Rightarrow> i # (case second_request dec key payload of None \<Rightarrow> [] | Some (j, _) \<Rightarrow> [j]))"

lemma request_then_logged:
  assumes "request_then (logged srv) i keep p (w, l) = (res, p', w', l')"
  shows "l' = l @ [i]"
  using assms by (auto simp: request_then_def logged_def split: prod.splits sum.splits)

lemma request_then_page:
  assumes "request_then srv i keep p w = (res, p', w')"
  shows "(\<exists>e. res = Inl e \<and> p' = p) \<or> (\<exists>v. res = Inr () \<and> p' = keep v p)"
  using assms by (auto simp: request_then_def split: prod.splits sum.splits)

lemma keep_order:
  "action_request dec oid key payload = Some (i, keep) \<Longrightarrow> pg_order (keep v p) = pg_order p"
  "second_request dec key payload = Some (i, keep) \<Longrightarrow> pg_order (keep v p) = pg_order p"
  by (auto simp: action_request_def second_request_def set_review_def set_dispute_def
      split: if_splits action_payload.splits)

lemma second_keeps_page:
  "second_request dec key payload = Some j \<Longrightarrow> action_request dec oid key payload = Some (i, keep) \<Longrightarrow>
   keep v p = p"
  by (auto simp: action_request_def second_request_def split: if_splits action_payload.splits)

lemma dispatch_logged:
  assumes "dispatch (logged srv) dec oid key payload p (w, l) = (res, p', w', l')"
  shows "(\<forall>e. res = Inl e \<longrightarrow> p' = p \<and>
        (\<exists>k > 0. k \<le> length (action_requests dec oid key payload) \<and>
           l' = l @ take k (action_requests dec oid key payload))) \<and>
    (\<forall>u. res = Inr u \<longrightarrow> l' = l @ action_requests dec oid key payload \<and> pg_order p' = pg_order p)"
proof (cases "action_request dec oid key payload")
  case None
  then show ?thesis using assms by (auto simp: dispatch_def action_requests_def)
next
  case (Some a)
  obtain i keep where a: "action_request dec oid key payload = Some (i, keep)" using Some by (cases a) simp
  obtain r1 p1 w1 l1 where r: "request_then (logged srv) i keep p (w, l) = (r1, p1, w1, l1)"
    by (rule prod_cases4)
  note log1 = request_then_logged [OF r] and page1 = request_then_page [OF r]
  show ?thesis
  proof (cases r1)
    case (Inl e)
    then show ?thesis
      using assms a r log1 page1
      by (auto simp: dispatch_def action_requests_def intro!: exI [of _ "Suc 0"])
  next
    case (Inr u)
    then obtain v where p1: "p1 = keep v p" using page1 by auto
    show ?thesis
    proof (cases "second_request dec key payload")
      case None
      then show ?thesis
        using assms a r Inr log1 p1 keep_order(1) [OF a]
        by (auto simp: dispatch_def action_requests_def)
    next
      case (Some b)
      then obtain j keep2 where b: "second_request dec key payload = Some (j, keep2)" by (cases b) simp
      then have r2: "request_then (logged srv) j keep2 p1 (w1, l1) = (res, p', w', l')"
        using assms a r Inr by (simp add: dispatch_def)
      have "p1 = p" using p1 second_keeps_page [OF b a] by simp
      then show ?thesis
        using a b log1 request_then_logged [OF r2] request_then_page [OF r2] keep_order(2) [OF b]
        by (auto simp: action_requests_def intro!: exI [of _ "Suc (Suc 0)"])
    qed
  qed
qed

lemma load_logged:
  assumes "load_order (logged srv) dec oid p (w, l) = (p', w', l')" "oid \<noteq> []"
  shows "(pg_failed p' \<and> pg_order p' = pg_order p \<and> l' = l @ [ordersApi_detail oid]) \<or>
    (\<exists>v. fst (srv (ordersApi_detail oid) w) = Inr v \<and> \<not> pg_failed p' \<and> pg_order p' = Some (order_of dec v) \<and>
       l' = l @ [ordersApi_detail oid, reviewsApi_forOrder oid, disputesApi_forOrder oid])"
  using assms
  by (auto simp: load_order_def load_panels_def logged_def split: prod.splits sum.splits)

section \<open>Properties\<close>

text \<open>
  C21: the page is never ahead of the server. An action that fails changes nothing but that the
  page is no longer busy, after a non-empty part of its requests and no other request; one that
  succeeds made exactly its own requests and then asked for the order, and the order shown is
  afterwards what the server answered, or, when that last request fails, the order shown before.
\<close>

theorem page_follows_server:
  assumes "orderId \<noteq> []"
    and "onAction (logged srv) dec orderId key payload p (w, []) = (res, p', w', sent)"
  shows "\<not> pg_busy p' \<and>
    (\<forall>e. res = Inl e \<longrightarrow> p' = p\<lparr>pg_busy := False\<rparr> \<and>
       (\<exists>k > 0. k \<le> length (action_requests dec orderId key payload) \<and>
          sent = take k (action_requests dec orderId key payload))) \<and>
    (res = Inr () \<longrightarrow>
       (pg_order p' = pg_order p \<and> pg_failed p' \<and>
          sent = action_requests dec orderId key payload @ [ordersApi_detail orderId]) \<or>
       (\<exists>w1 v. fst (srv (ordersApi_detail orderId) w1) = Inr v \<and> pg_order p' = Some (order_of dec v) \<and>
          sent = action_requests dec orderId key payload
            @ [ordersApi_detail orderId, reviewsApi_forOrder orderId, disputesApi_forOrder orderId]))"
proof -
  obtain r p1 w1 l1 where d: "dispatch (logged srv) dec orderId key payload (p\<lparr>pg_busy := True\<rparr>) (w, []) = (r, p1, w1, l1)"
    by (rule prod_cases4)
  note log = dispatch_logged [OF d]
  show ?thesis
  proof (cases r)
    case (Inl e)
    then show ?thesis using assms d log by (auto simp: onAction_def)
  next
    case (Inr u)
    obtain p2 w2 l2 where l: "load_order (logged srv) dec orderId p1 (w1, l1) = (p2, w2, l2)"
      by (rule prod_cases3)
    have "res = Inr () \<and> p' = p2\<lparr>pg_busy := False\<rparr> \<and> sent = l2"
      using assms d l Inr by (simp add: onAction_def)
    then show ?thesis
      using load_logged [OF l assms(1)] log Inr by auto
  qed
qed

definition sample_dispute :: dispute where
  "sample_dispute =
     \<lparr>dp_id = ''d1'', dp_order_id = ''o1'', dp_order_number = ''HM-1'', dp_opened_by = 7, dp_reason = ''other'',
      dp_reason_display = ''Other'', dp_description = [], dp_status = DOpen, dp_outcome = None,
      dp_resolution_notes = [], dp_created_at = [], dp_resolved_at = None, dp_thread = None, dp_evidence = []\<rparr>"

definition one_order_casts :: casts where
  "one_order_casts = \<lparr>order_of = (\<lambda>v. sample_order Student Active []), review_of = (\<lambda>v. sample_review),
     dispute_of = (\<lambda>v. sample_dispute)\<rparr>"

theorem page_follows_server_witness:
  "(let (res, p', n, sent) = onAction (logged (\<lambda>i n. (Inr JNull, Suc n))) one_order_casts ''o1'' ''approve'' NoPayload
          order_page_init (0 :: nat, [])
    in length sent \<le> 4 \<and> \<not> pg_busy p')"
proof -
  obtain res p' n sent where a: "onAction (logged (\<lambda>i n. (Inr JNull, Suc n))) one_order_casts ''o1'' ''approve''
      NoPayload order_page_init (0 :: nat, []) = (res, p', n, sent)"
    by (rule prod_cases4)
  have "length (action_requests one_order_casts ''o1'' ''approve'' NoPayload) = 1"
    by (simp add: action_requests_def action_request_def second_request_def)
  then have "length sent \<le> 4"
    using page_follows_server [OF _ a] by (cases res) auto
  then show ?thesis using page_follows_server [OF _ a] a by simp
qed

end
