(* ===== verification/OrderProgress.thy ===== *)
theory OrderProgress
  imports OrderGuarantees
begin

text \<open>
  The work on an order can always be brought to its end: whatever has happened to it, as long as it is
  not cancelled, at most three successful requests complete it. And what is promised of the money and
  of the deliveries on the way.
\<close>

section \<open>A payment that is awaited can be confirmed\<close>

definition payable :: "payment_row \<Rightarrow> db_order \<Rightarrow> bool" where
  "payable p ord \<longleftrightarrow>
     pr_amount p = or_amount ord \<and> pr_currency p = or_currency ord \<and>
     pr_status p \<in> {Pay_pending, Pay_failed} \<and> get_gateway (pr_gateway p) = ''manual'' \<and>
     (\<exists>t. pr_reference p = Some (payment_reference ''manual'' t))"

definition ready_inv :: "backend_config \<Rightarrow> order_state \<Rightarrow> bool" where
  "ready_inv cfg s \<longleftrightarrow>
     (get_gateway (cf_gateway cfg) = ''manual'' \<longrightarrow> or_status (os_order s) = Awaiting_payment \<longrightarrow>
        or_paid_at (os_order s) = None \<and>
        (case os_payment s of None \<Rightarrow> True | Some p \<Rightarrow> payable p (os_order s)))"

lemma manual_gateway: "get_gateway ''manual'' = ''manual''"
  by (simp add: get_gateway_def py_strip_def is_py_space_def to_lower_def lower_char_def Let_def)

lemma not_awaiting_ready: "or_status (os_order s) \<noteq> Awaiting_payment \<Longrightarrow> ready_inv cfg s"
  by (simp add: ready_inv_def)

lemma ready_frame:
  "ready_inv cfg s \<Longrightarrow> os_order s' = os_order s \<Longrightarrow> os_payment s' = os_payment s \<Longrightarrow> ready_inv cfg s'"
  unfolding ready_inv_def by (simp only:)

lemma payment_or_new_payable:
  assumes "payment_or_new cfg token s = Inr s1" "ready_inv cfg s" "get_gateway (cf_gateway cfg) = ''manual''"
    and "or_status (os_order s) = Awaiting_payment"
  obtains p where "os_payment s1 = Some p" "payable p (os_order s1)" "os_order s1 = os_order s"
proof (cases "os_payment s")
  case None
  with assms(1,3) show ?thesis
    by (intro that)
      (auto simp: payment_or_new_def and_then_Inr create_payment_row_def gateway_call_def Let_def payable_def
        manual_gateway)
next
  case (Some p)
  with assms show ?thesis by (intro that [of p]) (simp_all add: payment_or_new_def ready_inv_def)
qed

lemma payment_or_new_ready:
  assumes "payment_or_new cfg token s = Inr s1" "ready_inv cfg s"
  shows "ready_inv cfg s1"
proof (cases "get_gateway (cf_gateway cfg) = ''manual'' \<and> or_status (os_order s) = Awaiting_payment")
  case True
  then obtain p where "os_payment s1 = Some p" "payable p (os_order s1)" "os_order s1 = os_order s"
    using payment_or_new_payable assms by blast
  then show ?thesis using assms(2) True by (simp add: ready_inv_def)
next
  case False
  then show ?thesis using payment_or_new_kept [OF assms(1)] by (auto simp: ready_inv_def)
qed

lemma start_payment_ready:
  assumes "start_payment cfg token actor s = Inr s'" "ready_inv cfg s"
  shows "ready_inv cfg s'"
  using assms(1)
proof (cases rule: start_payment_cases)
  case (1 s1 p)
  note r = payment_or_new_ready [OF 1(2) assms(2)]
  show ?thesis
    using 1(5)
  proof
    assume s': "s' = audit_log (Some (acct_id actor)) ''payment.start''
        (s1\<lparr>os_payment := Some (rearmed cfg token (os_order s1) p)\<rparr>)"
    show ?thesis
      using r by (auto simp: s' ready_inv_def payable_def rearmed_def manual_gateway)
  qed (use r in simp)
qed

lemma confirm_payment_ready:
  assumes "confirm_payment (activate_order_on_payment now) now actor p s = (e, s')"
    and "ready_inv cfg s" "os_payment s = Some p"
  shows "ready_inv cfg s'"
proof (cases "confirm_payment_atomic (activate_order_on_payment now) now actor p s")
  case (Inl x)
  then have "s' = s \<or> (\<exists>reason. s' = mark_payment_failed reason p s)"
    using assms(1) by (auto simp: confirm_payment_def split: sum.splits)
  moreover have "ready_inv cfg (mark_payment_failed reason p s)" for reason
    using assms(2,3) by (cases "open_payment (pr_status p)")
      (simp_all add: ready_inv_def mark_payment_failed_def payable_def)
  ultimately show ?thesis using assms(2) by blast
next
  case (Inr x)
  then obtain g t where "mark_paid now None g t = Inr s'"
    using assms(1)
    by (auto simp: confirm_payment_def confirm_payment_atomic_def Let_def activate_order_on_payment_def
        split: if_splits sum.splits bool.splits elim!: map_sum_InrE)
  then show ?thesis using mark_paid_kept not_awaiting_ready by fastforce
qed

section \<open>Every command keeps it so\<close>

lemma issue_refund_ready:
  assumes "issue_refund by amount reason text1 p s = Inr s'" "ready_inv cfg s" "os_payment s = Some p"
  shows "ready_inv cfg s'"
  using assms(1)
proof (cases rule: issue_refund_cases)
  case (1 x y rows)
  have "os_order s' = os_order s" unfolding 1(5) by (simp add: refund_entries_def Let_def)
  then show ?thesis using 1(2) assms(2,3) by (auto simp: ready_inv_def payable_def)
qed

lemma dispute_transition_ready:
  assumes "dispute_transition to_status actor d s = Inr s'" "ready_inv cfg s"
  shows "ready_inv cfg s'"
  by (rule ready_frame [OF assms(2)])
    (use assms(1) in \<open>auto simp: dispute_transition_def split: if_splits option.splits\<close>)

lemma resolve_dispute_ready:
  assumes "resolve_dispute now actor outcome text1 amount d s = Inr s'" "backend_inv s" "os_dispute s = Some d"
  shows "ready_inv cfg s'"
  using assms(1)
proof (cases rule: resolve_dispute_cases)
  case (1 out s1 s4)
  have prior: "dw_prior d \<noteq> Awaiting_payment"
    using assms(2,3) by (auto simp: backend_inv_def freeze_inv_def)
  then have "outcome_status out (dw_prior d) \<noteq> Awaiting_payment" by (cases out) simp_all
  moreover have "or_status (os_order s') = outcome_status out (dw_prior d)"
    using 1(3) by (cases rule: resolve_order_cases) (simp_all add: 1(4))
  ultimately show ?thesis by (simp add: not_awaiting_ready)
qed

lemma confirm_snd_ready:
  assumes "ready_inv cfg s" "os_payment s = Some p"
  shows "ready_inv cfg (snd (confirm_payment (activate_order_on_payment now) now actor p s))"
  using confirm_payment_ready [OF _ assms]
  by (cases "confirm_payment (activate_order_on_payment now) now actor p s") simp

lemma confirm_view_ready:
  assumes "ready_inv cfg s"
  shows "ready_inv cfg (snd (confirm_view cfg now token a s))"
proof (cases "and_then (view_role a s) (\<lambda>_. if os_payment s = None then start_payment cfg token a s else Inr s)")
  case (Inl x)
  then show ?thesis using assms by (simp add: confirm_view_def)
next
  case (Inr s1)
  have "ready_inv cfg s1"
    using Inr assms start_payment_ready [of cfg token a s s1] by (auto simp: and_then_Inr split: if_splits)
  then show ?thesis
    using Inr assms confirm_snd_ready [of cfg s1] by (simp add: confirm_view_def split: option.split)
qed

lemma confirm_order_ready:
  assumes "ready_inv cfg s"
  shows "ready_inv cfg (snd (confirm_order_payment (activate_order_on_payment now) cfg now token actor s))"
proof -
  obtain e s' where r: "confirm_order_payment (activate_order_on_payment now) cfg now token actor s = (e, s')"
    by (rule prod.exhaust)
  then have "ready_inv cfg s'"
  proof (cases rule: confirm_order_payment_cases)
    case 2 then show ?thesis using payment_or_new_ready assms by blast
  next
    case (3 s1 p) then show ?thesis using payment_or_new_ready [OF 3(1) assms] confirm_payment_ready by blast
  qed (use assms in simp)
  then show ?thesis by (simp add: r)
qed

text \<open>An order that waits for its payment stays ready for it, by every service and so by every request.\<close>

interpretation waiting: order_law
  "\<lambda>s s'. backend_inv s \<and> ready_inv cfg s \<longrightarrow> ready_inv cfg s'" cfg for cfg
proof
  let ?law = "\<lambda>s s'. backend_inv s \<and> ready_inv cfg s \<longrightarrow> ready_inv cfg s'"
  have frame: "?law s s'" if "os_order s' = os_order s" "os_payment s' = os_payment s" for s s'
    using ready_frame that by blast
  have moved: "?law s s'" if "or_status (os_order s') \<noteq> Awaiting_payment" for s s'
    using not_awaiting_ready [OF that] by blast
  show "?law s s'" if "os_order s' = os_order s" "os_payment s' = os_payment s" for s s' by (rule frame [OF that])
  show "?law s (snd (on_request now a rc s))" for now a rc s by (rule frame) (simp_all add: on_request_kept)
  show "?law s (snd (add_evidence a ids s))" for a ids s
    by (rule frame) (simp_all add: add_evidence_def split: option.split prod.split)
  show "?law s s'" if "submit_delivery now token a t ids s = Inr s'" for now token a t ids s s'
    by (rule moved) (simp add: submit_delivery_kept [OF that])
  show "?law s s'" if "approve_delivery cfg now actor source s = Inr s'" for now actor source s s'
    by (rule moved) (simp add: approve_delivery_kept [OF that])
  show "?law s s'" if "request_revision now a t s = Inr s'" for now a t s s'
    by (rule moved) (simp add: request_revision_kept [OF that])
  show "?law s s'" if "cancel_order now a reason s = Inr s'" for now a reason s s'
    by (rule moved) (simp add: cancel_order_kept [OF that])
  show "?law s s'" if "open_dispute cfg now a reason t ids s = Inr s'" for now a reason t ids s s'
    by (rule moved) (simp add: open_dispute_kept [OF that])
  show "?law s s'" if "respond_deadline_proposal now a accept s = Inr s'" for now a accept s s'
    using that by (auto simp: respond_deadline_proposal_def ready_inv_def payable_def split: if_splits option.splits)
  show "?law s s'" if "settle_payout cfg now token a i y s = Inr s'" for now token a i y s s'
    by (rule frame) (use that in \<open>auto simp: settle_payout_def and_then_Inr set_payout_def split: if_splits\<close>)
  show "?law s s'" if "mark_payout_failed a t i y s = Inr s'" for a t i y s s'
    by (rule frame) (use that in \<open>auto simp: mark_payout_failed_def set_payout_def split: if_splits\<close>)
  show "?law s s'" if "close_dispute now a d s = Inr s'" for now a d s s'
    by (rule frame) (use that in \<open>auto simp: close_dispute_def split: if_splits\<close>)
  show "?law s s'" if "schedule_payout cfg s = Inr s'" for s s'
    by (rule frame) (simp_all add: schedule_payout_kept [OF that])
  show "?law s (handle_payment_failed ref reason s)" for ref reason s
    by (cases "os_payment s") (auto simp: handle_payment_failed_def ready_inv_def payable_def)
  show "?law s (sweep_unpaid now s)" for now s
    by (auto simp: sweep_unpaid_def order_transition_def intro!: not_awaiting_ready split: option.split)
qed (intro impI, elim conjE,
    (erule (1) start_payment_ready dispute_transition_ready
     | erule (2) issue_refund_ready resolve_dispute_ready
     | erule confirm_view_ready confirm_order_ready
     | erule (1) confirm_snd_ready))+

lemma exec_ready: "ready_inv cfg s \<Longrightarrow> backend_inv s \<Longrightarrow> ready_inv cfg (snd (exec cfg now token a c s))"
  using waiting.exec_law by blast

interpretation ready_backend: machine backend_start "\<lambda>s c. True" "backend_step cfg"
    "\<lambda>s. backend_inv s \<and> ready_inv cfg s" for cfg
proof unfold_locales
  show "backend_inv s \<and> ready_inv cfg s" if "backend_start s" for s
    using that create_order_inv
    by (auto simp: backend_start_def)
      (auto simp: create_order_for_request_def case_prod_unfold Let_def ready_inv_def split: if_splits)
  show "backend_inv (backend_step cfg s e) \<and> ready_inv cfg (backend_step cfg s e)"
    if "backend_inv s \<and> ready_inv cfg s" for s e
    using exec_inv exec_ready that by (cases e) auto
qed

section \<open>Each stage can be left forwards\<close>

text \<open>Requests that succeed one after the other.\<close>

fun all_answered :: "backend_config \<Rightarrow> order_state \<Rightarrow> order_call list \<Rightarrow> bool" where
  "all_answered cfg s [] = True"
| "all_answered cfg s ((now, token, a, c) # calls) =
     (fst (exec cfg now token a c s) = None \<and> all_answered cfg (snd (exec cfg now token a c s)) calls)"

definition student_of :: "order_state \<Rightarrow> account" where
  "student_of s = \<lparr>acct_id = or_student (os_order s), acct_staff = False\<rparr>"

definition expert_of :: "order_state \<Rightarrow> account" where
  "expert_of s = \<lparr>acct_id = or_expert (os_order s), acct_staff = False\<rparr>"

definition support_staff :: account where "support_staff = \<lparr>acct_id = 0, acct_staff = True\<rparr>"

lemma move_request_from_ok:
  assumes "\<And>st. st \<in> set froms \<Longrightarrow> map_of request_TRANSITIONS (st, to_status) \<noteq> None"
  obtains s' where "move_request_from froms now to_status reason actor s = Inr s'"
proof (cases "rr_status (os_request s) \<in> set froms")
  case True
  then obtain act where "map_of request_TRANSITIONS (rr_status (os_request s), to_status) = Some act"
    using assms by blast
  then show ?thesis
    using that True by (simp add: move_request_from_def move_request_def request_transition_def)
qed (use that in \<open>simp add: move_request_from_def\<close>)

lemma mark_paid_ok:
  assumes "or_status (os_order s) = Awaiting_payment" "or_paid_at (os_order s) = None"
  obtains s' where "mark_paid now None via s = Inr s'"
proof -
  have t: "map_of order_TRANSITIONS (Awaiting_payment, Active) = Some ''payment_confirmed''"
    by (simp add: order_TRANSITIONS_def)
  let ?s1 = "record_event now ''payment_confirmed'' None [(''via'', JStr via)]
     (audit_log None ''order.payment_confirmed'' (record_event now ''payment_confirmed'' None []
       (with_order (\<lambda>r. r\<lparr>or_status := Active\<rparr>) (with_order (\<lambda>r. r\<lparr>or_paid_at := Some now\<rparr>) s))))"
  obtain s2 where "move_request_from [Rq_matched] now Rq_in_progress [] None ?s1 = Inr s2"
    by (rule move_request_from_ok [of "[Rq_matched]" Rq_in_progress now "[]" None ?s1])
      (auto simp: request_TRANSITIONS_def)
  then show ?thesis
    using that assms by (simp add: mark_paid_def order_transition_def t Let_def)
qed

lemma charge_entries_order [simp]:
  "os_order (charge_entries p s) = os_order s" "os_request (charge_entries p s) = os_request s"
  by (rule charge_entries_cases [of p s]; simp)+

lemma confirm_ok:
  assumes "or_status (os_order s) = Awaiting_payment" "or_paid_at (os_order s) = None" "payable p (os_order s)"
  obtains s' where "confirm_payment (activate_order_on_payment now) now actor p s = (None, s')"
    "or_status (os_order s') = Active"
proof -
  let ?q = "p\<lparr>pr_status := Pay_succeeded, pr_paid_at := Some now\<rparr>"
  let ?s = "audit_log actor ''payment.confirm'' (charge_entries ?q (s\<lparr>os_payment := Some ?q\<rparr>))"
  obtain s' where m: "mark_paid now None (pr_gateway p) ?s = Inr s'"
    by (rule mark_paid_ok [of ?s now "pr_gateway p"]) (simp_all add: assms)
  obtain t where ref: "pr_reference p = Some (payment_reference ''manual'' t)"
    using assms(3) by (auto simp: payable_def)
  have g: "gateway_confirm (pr_gateway p) (payment_reference ''manual'' t) = Inr True"
    using assms(3)
    by (simp add: payable_def gateway_confirm_def gateway_call_def payment_reference_def SIMULATED_FAILURE_PREFIX_def)
  have "confirm_payment_atomic (activate_order_on_payment now) now actor p s = Inr s'"
    using assms m ref g
    by (auto simp: confirm_payment_atomic_def payable_def Let_def activate_order_on_payment_def payment_reference_def)
  then have "confirm_payment (activate_order_on_payment now) now actor p s = (None, s')"
    by (simp add: confirm_payment_def)
  then show ?thesis using that mark_paid_kept [OF m] by blast
qed

lemma payment_stage:
  assumes "ready_inv cfg s" "get_gateway (cf_gateway cfg) = ''manual''"
    and "or_status (os_order s) = Awaiting_payment"
  obtains s' where "exec cfg now token support_staff OperatorConfirm s = (None, s')"
    "or_status (os_order s') = Active"
proof -
  obtain s1 where s1: "payment_or_new cfg token s = Inr s1"
    using assms(2)
    by (cases "os_payment s")
      (simp_all add: payment_or_new_def create_payment_row_def gateway_call_def Let_def manual_gateway)
  obtain p where p: "os_payment s1 = Some p" "payable p (os_order s1)" "os_order s1 = os_order s"
    using payment_or_new_payable [OF s1 assms] by blast
  have "or_paid_at (os_order s) = None" using assms by (simp add: ready_inv_def)
  then obtain s' where s': "confirm_payment (activate_order_on_payment now) now (Some 0) p s1 = (None, s')"
      "or_status (os_order s') = Active"
    using confirm_ok [of s1 p now "Some 0"] assms(3) p by metis
  have "pr_status p \<noteq> Pay_succeeded" using p(2) by (auto simp: payable_def)
  then have "exec cfg now token support_staff OperatorConfirm s = (None, s')"
    using assms(2,3) s1 p(1) s'
    by (simp add: as_staff_def support_staff_def confirm_order_payment_def registered_def)
  then show ?thesis using that s'(2) by blast
qed

text \<open>The student's own requests: the payment is started, or started again after a failure, and confirmed.\<close>

lemma start_ok:
  assumes "ready_inv cfg s" "get_gateway (cf_gateway cfg) = ''manual''"
    and "or_status (os_order s) = Awaiting_payment" "acct_id a = or_student (os_order s)"
  obtains s' p where "start_payment cfg token a s = Inr s'" "os_payment s' = Some p" "pr_status p = Pay_pending"
    "payable p (os_order s')" "os_order s' = os_order s" "os_dispute s' = os_dispute s"
proof -
  obtain s1 where s1: "payment_or_new cfg token s = Inr s1"
    using assms(2)
    by (cases "os_payment s")
      (simp_all add: payment_or_new_def create_payment_row_def gateway_call_def Let_def manual_gateway)
  obtain q where q: "os_payment s1 = Some q" "payable q (os_order s1)" "os_order s1 = os_order s"
    using payment_or_new_payable [OF s1 assms(1-3)] by blast
  have d: "os_dispute s1 = os_dispute s" using s1 by (cases rule: payment_or_new_cases) simp_all
  have reg: "registered (cf_gateway cfg)" by (simp add: registered_def assms(2))
  obtain t where ref: "pr_reference q = Some (payment_reference ''manual'' t)" using q(2) by (auto simp: payable_def)
  then have tr: "truthy (pr_reference q)" by (simp add: payment_reference_def)
  have st: "pr_status q = Pay_pending \<or> pr_status q = Pay_failed" using q(2) by (auto simp: payable_def)
  show ?thesis
  proof (cases "pr_status q = Pay_pending")
    case True
    then have "start_payment cfg token a s = Inr s1"
      using assms(3,4) reg s1 q(1) tr by (simp add: start_payment_def)
    then show ?thesis using that q d True by blast
  next
    case False
    let ?s = "audit_log (Some (acct_id a)) ''payment.start'' (s1\<lparr>os_payment := Some (rearmed cfg token (os_order s1) q)\<rparr>)"
    have "start_payment cfg token a s = Inr ?s"
      using assms(3,4) reg s1 q(1) st False by (simp add: start_payment_def)
    moreover have "payable (rearmed cfg token (os_order s1) q) (os_order ?s)"
      using assms(2) by (auto simp: payable_def rearmed_def manual_gateway)
    moreover have "os_payment ?s = Some (rearmed cfg token (os_order s1) q)"
      "pr_status (rearmed cfg token (os_order s1) q) = Pay_pending" "os_order ?s = os_order s" "os_dispute ?s = os_dispute s"
      by (simp_all add: q(3) d rearmed_def)
    ultimately show ?thesis by (intro that)
  qed
qed

lemma self_confirm_ok:
  assumes "ready_inv cfg s" "get_gateway (cf_gateway cfg) = ''manual''" "cf_dev_self_confirm cfg"
    and "or_status (os_order s) = Awaiting_payment" "acct_id a = or_student (os_order s)"
  obtains s' where "exec cfg now token a ConfirmPayment s = (None, s')" "or_status (os_order s') = Active"
proof -
  have v: "view_role a s = Inr Student" by (simp add: view_role_def assms(5))
  have paid: "or_paid_at (os_order s) = None" using assms(1,2,4) by (simp add: ready_inv_def)
  obtain s1 p where s1: "(if os_payment s = None then start_payment cfg token a s else Inr s) = Inr s1"
      "os_payment s1 = Some p" "payable p (os_order s1)" "os_order s1 = os_order s"
  proof (cases "os_payment s")
    case None
    obtain s' p where "start_payment cfg token a s = Inr s'" "os_payment s' = Some p" "payable p (os_order s')"
        "os_order s' = os_order s"
      by (rule start_ok [OF assms(1,2,4,5)])
    then show ?thesis using that None by simp
  next
    case (Some q)
    then have "payable q (os_order s)" using assms(1,2,4) by (simp add: ready_inv_def)
    then show ?thesis using that [of s q] Some by simp
  qed
  obtain s' where s': "confirm_payment (activate_order_on_payment now) now (Some (acct_id a)) p s1 = (None, s')"
      "or_status (os_order s') = Active"
    by (rule confirm_ok [of s1 p now "Some (acct_id a)"]) (use s1(3) in \<open>simp_all add: s1(4) assms(4) paid\<close>)
  have "exec cfg now token a ConfirmPayment s = (None, s')"
    using s1(1) s'(1) by (simp add: confirm_view_def assms(3) v s1(2))
  then show ?thesis using that s'(2) by blast
qed

text \<open>A dispute opened by a party, while the order has none and within its window.\<close>

lemma dispute_ok:
  assumes "is_participant a s" "os_dispute s = None" "\<not> window_closed cfg now (os_order s)"
    and "reason \<in> set REASON_VALUES" "MIN_DESCRIPTION \<le> length (py_strip text1)"
    and "check_evidence a (os_uploads s) ids = Inr ids"
  obtains s' where "exec cfg now token a (OpenDispute reason text1 ids) s = (None, s')"
    "or_status (os_order s') = Disputed"
proof -
  have "or_status (os_order s) \<in> {Active, Delivered, Revision_requested, Completed}"
    using assms(3) by (auto simp: window_closed_def DISPUTABLE_STATUSES_def split: if_splits)
  then have "map_of order_TRANSITIONS (or_status (os_order s), Disputed) = Some ''open_dispute''"
    by (auto simp: order_TRANSITIONS_def)
  then obtain s' where s': "open_dispute cfg now a reason text1 ids s = Inr s'"
    using assms by (simp add: open_dispute_def order_transition_def freeze_payout_def)
  have "exec cfg now token a (OpenDispute reason text1 ids) s = (None, s')" by (simp add: s' atomically_def)
  then show ?thesis using that open_dispute_kept [OF s'] by blast
qed

definition sample_summary :: string where "sample_summary = ''The work, as described.''"

lemma sample_summary_length: "length (py_strip sample_summary) = 23"
  by (simp add: sample_summary_def py_strip_def is_py_space_def)

lemma delivery_ok:
  assumes "deliveries_inv s" "or_status (os_order s) \<in> {Active, Revision_requested}"
    and "acct_id a = or_expert (os_order s)" "MIN_DELIVERY_SUMMARY \<le> length (py_strip summary)"
    and "ids = [] \<or> own_uploads ''delivery'' a ids s"
  obtains s' where "exec cfg now token a (Deliver summary ids) s = (None, s')"
    "or_status (os_order s') = Delivered"
proof -
  obtain s1 where s1: "create_delivery
        \<lparr>dr_id = token, dr_revision = next_revision (os_order s), dr_summary = py_strip summary,
         dr_status = Submitted, dr_attachments = remdups ids, dr_submitted_at = Some now, dr_approved_at = None,
         dr_approval_source = []\<rparr> s = Inr s1" "os_order s1 = os_order s"
    using create_delivery_next [OF assms(1,2) delivery_row.select_convs(2)] by simp
  have "map_of order_TRANSITIONS (or_status (os_order s), Delivered) = Some ''deliver''"
    using assms(2) by (auto simp: order_TRANSITIONS_def)
  then obtain s2 where s2: "order_transition now Delivered (Some (acct_id a))
      (delivery_event_type (next_revision (os_order s))) []
      (with_order (\<lambda>r. r\<lparr>or_delivered_at := Some now, or_auto_approve_at := Some (now + hours AUTO_APPROVE_HOURS),
         or_delivery_due_at := None\<rparr>) s1) = Inr s2"
    by (simp add: order_transition_def s1(2))
  have g: "expert_guard a s = Inr s" by (simp add: expert_guard_def assms(3))
  have s': "submit_delivery now token a summary ids s = Inr (notify_parties ''delivered'' s2)"
    using assms(2,4,5) by (auto simp: submit_delivery_def g s1(1) s2 Let_def)
  have "\<exists>r. view_role a s = Inr r" by (simp add: view_role_def assms(3))
  then have "exec cfg now token a (Deliver summary ids) s
      = (None, notify_parties ''delivered'' s2)"
    using s' by (auto simp: as_party_def atomically_def)
  then show ?thesis using that submit_delivery_kept [OF s'] by blast
qed

lemma delivery_stage:
  assumes "deliveries_inv s" "or_status (os_order s) \<in> {Active, Revision_requested}"
  obtains s' where "exec cfg now token (expert_of s) (Deliver sample_summary []) s = (None, s')"
    "or_status (os_order s') = Delivered"
  by (rule delivery_ok [OF assms, of "expert_of s" sample_summary "[]" cfg now token])
    (simp_all add: expert_of_def sample_summary_length MIN_DELIVERY_SUMMARY_def that)

lemma schedule_payout_ok:
  assumes "or_status (os_order s) = Completed"
  shows "\<exists>s'. schedule_payout cfg s = Inr s'"
  using assms by (simp add: schedule_payout_def)

lemma approval_ok:
  assumes "or_status (os_order s) = Delivered" "acct_id u = or_student (os_order s)"
  obtains s' where "exec cfg now token u Approve s = (None, s')"
    "or_status (os_order s') = Completed"
proof -
  let ?a = "Some (acct_id u)"
  have t: "map_of order_TRANSITIONS (Delivered, Completed) = Some ''approve''"
    by (simp add: order_TRANSITIONS_def)
  let ?s2 = "record_event now ''completed'' ?a [(''source'', JStr ''student'')]
     (audit_log ?a ''order.approve'' (record_event now (approval_event By_student) ?a []
       (approved_order now By_student s)))"
  obtain s3 where s3: "move_request_from [Rq_in_progress] now Rq_completed [] ?a ?s2 = Inr s3"
    by (rule move_request_from_ok [of "[Rq_in_progress]" Rq_completed now "[]" ?a ?s2])
      (auto simp: request_TRANSITIONS_def)
  have "or_status (os_order s3) = Completed" using move_request_from [OF s3] by (simp add: approved_order_def)
  then obtain s4 where s4: "schedule_payout cfg s3 = Inr s4" using schedule_payout_ok by blast
  have g: "student_guard u s = Inr s" by (simp add: student_guard_def assms(2))
  have "approve_delivery cfg now (Some u) By_student s = Inr (notify_parties ''completed'' s4)"
    using assms(1) s3 s4
    by (simp add: approve_delivery_def g order_transition_def t Let_def approved_order_def)
  moreover have "view_role u s = Inr Student" by (simp add: view_role_def assms(2))
  ultimately have "exec cfg now token u Approve s = (None, notify_parties ''completed'' s4)"
    by (simp add: as_party_def atomically_def)
  moreover have "or_status (os_order (notify_parties ''completed'' s4)) = Completed"
    using schedule_payout_kept [OF s4] \<open>or_status (os_order s3) = Completed\<close> by simp
  ultimately show ?thesis by (rule that)
qed

lemma approval_stage:
  assumes "or_status (os_order s) = Delivered"
  obtains s' where "exec cfg now token (student_of s) Approve s = (None, s')"
    "or_status (os_order s') = Completed"
  by (rule approval_ok [OF assms, of "student_of s" cfg now token]) (simp_all add: student_of_def that)

lemma revision_ok:
  assumes "deliveries_inv s" "or_status (os_order s) = Delivered" "acct_id u = or_student (os_order s)"
    and "or_revisions_used (os_order s) < or_revisions_allowed (os_order s)" "10 \<le> length (py_strip t)"
  obtains s' where "exec cfg now token u (RequestRevision t) s = (None, s')"
    "or_status (os_order s') = Revision_requested"
proof -
  have "os_deliveries s \<noteq> []"
    using assms(1,2) by (auto simp: deliveries_inv_def work_phase_def Let_def)
  moreover have "map_of order_TRANSITIONS (Delivered, Revision_requested) = Some ''request_revision''"
    by (simp add: order_TRANSITIONS_def)
  ultimately obtain s' where s': "request_revision now u t s = Inr s'"
    using assms by (simp add: request_revision_def student_guard_def order_transition_def)
  have "view_role u s = Inr Student" by (simp add: view_role_def assms(3))
  then have "exec cfg now token u (RequestRevision t) s = (None, s')"
    by (simp add: s' as_party_def atomically_def)
  then show ?thesis using that request_revision_kept [OF s'] by blast
qed

lemma cancel_ok:
  assumes "or_status (os_order s) = Awaiting_payment" "acct_id u = or_student (os_order s)" "reason \<noteq> []"
  obtains s' where "exec cfg now token u (CancelOrder reason) s = (None, s')"
    "or_status (os_order s') = Cancelled"
proof -
  have t: "map_of order_TRANSITIONS (Awaiting_payment, Cancelled) = Some ''cancel''"
    by (simp add: order_TRANSITIONS_def)
  have m: "\<exists>s3. move_request_from [Rq_matched, Rq_in_progress] now Rq_cancelled reason x y = Inr s3" for x y
    by (rule move_request_from_ok [of "[Rq_matched, Rq_in_progress]" Rq_cancelled now reason x y])
      (auto simp: request_TRANSITIONS_def)
  obtain s' where s': "cancel_order now u reason s = Inr s'"
    using assms m by (simp add: cancel_order_def order_transition_def t Let_def) (metis and_then.simps(2))
  have "view_role u s = Inr Student" by (simp add: view_role_def assms(2))
  then have "exec cfg now token u (CancelOrder reason) s = (None, s')"
    by (simp add: s' as_party_def atomically_def)
  then show ?thesis using that cancel_order_kept [OF s'] by blast
qed

definition sample_notes :: string where "sample_notes = ''The work was delivered.''"

lemma sample_notes_length: "length (py_strip sample_notes) = 23"
  by (simp add: sample_notes_def py_strip_def is_py_space_def)

text \<open>Support takes the case and releases the money to the expert.\<close>

lemma review_stage:
  assumes "os_dispute s = Some d" "dw_status d \<in> set OPEN_STATUSES" "or_status (os_order s) = Disputed"
    and "dw_status d \<noteq> Under_review"
  obtains s' d' where "exec cfg now token support_staff TakeCase s = (None, s')"
    "os_dispute s' = Some d'" "dw_status d' = Under_review" "or_status (os_order s') = Disputed"
proof -
  have "map_of dispute_TRANSITIONS (dw_status d, Under_review) \<noteq> None"
    using assms(2,4) by (auto simp: OPEN_STATUSES_def dispute_TRANSITIONS_def)
  then obtain a where "map_of dispute_TRANSITIONS (dw_status d, Under_review) = Some a" by blast
  then have "exec cfg now token support_staff TakeCase s
      = (None, audit_log (Some 0) a (s\<lparr>os_dispute := Some (d\<lparr>dw_status := Under_review\<rparr>)\<rparr>))"
    by (simp add: as_staff_def on_dispute_def assms(1) atomically_def take_case_def dispute_transition_def
        support_staff_def)
  then show ?thesis by (rule that [where d' = "d\<lparr>dw_status := Under_review\<rparr>"]) (simp_all add: assms(3))
qed

lemma release_stage:
  assumes "os_dispute s = Some d" "dw_status d = Under_review" "or_status (os_order s) = Disputed"
  obtains s' where "exec cfg now token support_staff (ResolveCase (Some Release_expert) sample_notes None) s = (None, s')"
    "or_status (os_order s') = Completed"
proof -
  have t: "map_of order_TRANSITIONS (Disputed, Completed) = Some ''resolve_release''"
    "map_of dispute_TRANSITIONS (Under_review, Resolved) = Some ''disputes.resolved''"
    by (simp_all add: order_TRANSITIONS_def dispute_TRANSITIONS_def)
  obtain s2 where s2: "resolve_order now Completed (freeze_payout False s) = Inr s2"
      "or_status (os_order s2) = Completed"
    using assms(3) by (simp add: resolve_order_def order_transition_def t)
  then have "exec cfg now token support_staff (ResolveCase (Some Release_expert) sample_notes None) s =
      (None, notify_user (or_expert (os_order s2)) ''dispute_resolved''
         (notify_user (or_student (os_order s2)) ''dispute_resolved''
           (audit_log (Some 0) ''disputes.resolved''
             (s2\<lparr>os_dispute := Some (resolved_row now support_staff Release_expert sample_notes d)\<rparr>))))"
    by (simp add: as_staff_def on_dispute_def assms atomically_def resolve_dispute_def support_staff_def t
        sample_notes_length refunds_def resolve_refund_def adjust_payout_def)
  then show ?thesis using that s2(2) by simp
qed

section \<open>Properties\<close>

text \<open>A list of at most \<open>n\<close> calls, each answered without an error, that completes the order.\<close>

definition completes_in :: "nat \<Rightarrow> backend_config \<Rightarrow> order_state \<Rightarrow> bool" where
  "completes_in n cfg s \<longleftrightarrow>
     (\<exists>calls. length calls \<le> n \<and> all_answered cfg s calls \<and>
        or_status (os_order (run (backend_step cfg) s calls)) = Completed)"

lemma completes_now: "or_status (os_order s) = Completed \<Longrightarrow> completes_in n cfg s"
  unfolding completes_in_def by (intro exI [of _ "[]"]) simp

lemma completes_later: "completes_in n cfg s \<Longrightarrow> n \<le> m \<Longrightarrow> completes_in m cfg s"
  unfolding completes_in_def by (meson le_trans)

lemma completes_after:
  assumes "exec cfg now token a c s = (None, s')" "completes_in n cfg s'"
  shows "completes_in (Suc n) cfg s"
proof -
  obtain calls where "length calls \<le> n" "all_answered cfg s' calls"
      "or_status (os_order (run (backend_step cfg) s' calls)) = Completed"
    using assms(2) by (auto simp: completes_in_def)
  then show ?thesis
    unfolding completes_in_def using assms(1) by (intro exI [of _ "(now, token, a, c) # calls"]) simp
qed

lemma completes_delivered:
  assumes "or_status (os_order s) = Delivered"
  shows "completes_in 1 cfg s"
proof -
  obtain s' where "exec cfg 0 [] (student_of s) Approve s = (None, s')" "or_status (os_order s') = Completed"
    by (rule approval_stage [OF assms])
  then show ?thesis using completes_after [OF _ completes_now [of s' 0]] by (metis One_nat_def)
qed

lemma completes_working:
  assumes "backend_inv s" "or_status (os_order s) \<in> {Active, Revision_requested}"
  shows "completes_in 2 cfg s"
proof -
  have "deliveries_inv s" using assms(1) by (simp add: backend_inv_def)
  then obtain s' where s': "exec cfg 0 [] (expert_of s) (Deliver sample_summary []) s = (None, s')"
      "or_status (os_order s') = Delivered"
    by (rule delivery_stage [OF _ assms(2)])
  show ?thesis using completes_after [OF s'(1) completes_delivered [OF s'(2)]] by (metis Suc_1)
qed

lemma completes_awaiting:
  assumes "backend_inv s" "ready_inv cfg s" "get_gateway (cf_gateway cfg) = ''manual''"
    and "or_status (os_order s) = Awaiting_payment"
  shows "completes_in 3 cfg s"
proof -
  obtain s' where s': "exec cfg 0 [] support_staff OperatorConfirm s = (None, s')" "or_status (os_order s') = Active"
    by (rule payment_stage [OF assms(2-4)])
  have "backend_inv s'" using exec_inv [OF assms(1), of cfg 0 "[]" support_staff OperatorConfirm] unfolding s'(1) snd_conv .
  then have "completes_in 2 cfg s'" by (rule completes_working) (simp only: s'(2) insert_iff simp_thms)
  then have "completes_in (Suc 2) cfg s" by (rule completes_after [OF s'(1)])
  then show ?thesis by simp
qed

lemma completes_disputed:
  assumes "backend_inv s" "or_status (os_order s) = Disputed"
  shows "completes_in 2 cfg s"
proof -
  obtain d where d: "os_dispute s = Some d" "dw_status d \<in> set OPEN_STATUSES"
    using assms by (auto simp: backend_inv_def freeze_inv_def split: option.splits)
  show ?thesis
  proof (cases "dw_status d = Under_review")
    case True
    then obtain s' where s': "exec cfg 0 [] support_staff (ResolveCase (Some Release_expert) sample_notes None) s = (None, s')"
        "or_status (os_order s') = Completed"
      by (rule release_stage [OF d(1) _ assms(2)])
    have "completes_in (Suc 0) cfg s" by (rule completes_after [OF s'(1) completes_now [OF s'(2)]])
    then show ?thesis by (rule completes_later) simp
  next
    case False
    obtain s1 d1 where s1: "exec cfg 0 [] support_staff TakeCase s = (None, s1)" "os_dispute s1 = Some d1"
        "dw_status d1 = Under_review" "or_status (os_order s1) = Disputed"
      by (rule review_stage [OF d assms(2) False])
    obtain s' where s': "exec cfg 0 [] support_staff (ResolveCase (Some Release_expert) sample_notes None) s1 = (None, s')"
        "or_status (os_order s') = Completed"
      by (rule release_stage [OF s1(2-4)])
    have "completes_in (Suc (Suc 0)) cfg s"
      by (rule completes_after [OF s1(1) completes_after [OF s'(1) completes_now [OF s'(2)]]])
    then show ?thesis by (simp only: numeral_2_eq_2)
  qed
qed

section \<open>A sample dispute\<close>

definition sample_calls :: "order_call list" where
  "sample_calls =
     [(60, ''77'', support_staff, OperatorConfirm),
      (120, [], \<lparr>acct_id = 1, acct_staff = False\<rparr>,
         OpenDispute ''deadline_missed'' ''Nothing has arrived at all.'' [])]"

definition sample_disputed :: order_state where
  "sample_disputed = run (backend_step default_config) booked_order sample_calls"

lemma sample_disputed_reach: "backend_reach default_config sample_disputed"
  unfolding sample_disputed_def sample_calls_def run.simps
  by (intro reach.intros(2) booked_order_reach) simp_all

definition parties :: "order_state \<Rightarrow> string \<times> int \<times> int" where
  "parties s = (or_id (os_order s), or_student (os_order s), or_expert (os_order s))"

lemma mark_paid_parties:
  assumes "mark_paid now actor via s = Inr s'"
  shows "os_dispute s' = os_dispute s \<and> parties s' = parties s"
  using assms
proof (cases rule: mark_paid_cases)
  case (1 b data s1 s2)
  then show ?thesis using move_request_from [OF 1(2)] by (simp add: parties_def)
qed

lemma charge_entries_dispute [simp]: "os_dispute (charge_entries p s) = os_dispute s"
  by (rule charge_entries_cases [of p s]) simp

lemma confirm_payment_parties:
  assumes "confirm_payment (activate_order_on_payment now) now actor p s = (e, s')"
  shows "os_dispute s' = os_dispute s \<and> parties s' = parties s"
proof (cases "confirm_payment_atomic (activate_order_on_payment now) now actor p s")
  case (Inl x)
  then show ?thesis using assms by (auto simp: confirm_payment_def mark_payment_failed_def parties_def split: sum.splits)
next
  case (Inr x)
  then obtain g where "mark_paid now None g (audit_log actor ''payment.confirm''
      (charge_entries (p\<lparr>pr_status := Pay_succeeded, pr_paid_at := Some now\<rparr>)
        (s\<lparr>os_payment := Some (p\<lparr>pr_status := Pay_succeeded, pr_paid_at := Some now\<rparr>)\<rparr>))) = Inr s'"
    using assms
    by (auto simp: confirm_payment_def confirm_payment_atomic_def Let_def activate_order_on_payment_def
        split: if_splits sum.splits bool.splits elim!: map_sum_InrE)
  from mark_paid_parties [OF this] show ?thesis by (simp add: parties_def)
qed

lemma confirm_order_payment_parties:
  assumes "confirm_order_payment (activate_order_on_payment now) cfg now token actor s = (e, s')"
  shows "os_dispute s' = os_dispute s \<and> parties s' = parties s"
proof -
  have new: "os_dispute s1 = os_dispute s \<and> parties s1 = parties s"
    if "payment_or_new cfg token s = Inr s1" for s1
    using that by (cases rule: payment_or_new_cases) (simp_all add: parties_def)
  show ?thesis
    using assms
  proof (cases rule: confirm_order_payment_cases)
    case 2 then show ?thesis using new by blast
  next
    case (3 s1 p) then show ?thesis using new confirm_payment_parties by metis
  qed simp
qed

lemma sample_active:
  obtains s where "exec default_config 60 ''77'' support_staff OperatorConfirm booked_order = (None, s)"
    "or_status (os_order s) = Active" "os_dispute s = None" "parties s = (''o1'', 1, 2)"
proof -
  have m: "get_gateway (cf_gateway default_config) = ''manual''" by (simp add: default_config_def manual_gateway)
  have r: "ready_inv default_config booked_order" by (simp add: ready_inv_def booked_order_fields)
  obtain s where s: "exec default_config 60 ''77'' support_staff OperatorConfirm booked_order = (None, s)"
      "or_status (os_order s) = Active"
    by (rule payment_stage [OF r m]) (simp add: booked_order_fields)
  have "confirm_order_payment (activate_order_on_payment 60) default_config 60 ''77'' (Some 0) booked_order = (None, s)"
    using s(1) by (simp add: as_staff_def support_staff_def booked_order_fields)
  from confirm_order_payment_parties [OF this]
  have "os_dispute s = os_dispute booked_order \<and> parties s = parties booked_order" .
  then show ?thesis by (intro that [OF s]) (simp_all add: booked_order_fields parties_def)
qed

lemma sample_disputed_open:
  obtains d where "os_dispute sample_disputed = Some d" "dw_status d \<in> set OPEN_STATUSES"
    "or_status (os_order sample_disputed) = Disputed"
proof -
  let ?a = "\<lparr>acct_id = 1, acct_staff = False\<rparr> :: account" and ?text = "''Nothing has arrived at all.''"
  obtain s where s: "exec default_config 60 ''77'' support_staff OperatorConfirm booked_order = (None, s)"
    "or_status (os_order s) = Active" "os_dispute s = None" "parties s = (''o1'', 1, 2)"
    by (rule sample_active)
  have run: "sample_disputed = snd (exec default_config 120 [] ?a (OpenDispute ''deadline_missed'' ?text []) s)"
    unfolding sample_disputed_def sample_calls_def run.simps backend_step.simps s(1) snd_conv ..
  have l: "length (py_strip ?text) = 27" by (simp add: py_strip_def is_py_space_def)
  have t: "map_of order_TRANSITIONS (Active, Disputed) = Some ''open_dispute''" by (simp add: order_TRANSITIONS_def)
  have w: "\<not> window_closed default_config 120 (os_order s)"
    by (simp add: window_closed_def s(2) DISPUTABLE_STATUSES_def)
  obtain s' where s': "open_dispute default_config 120 ?a ''deadline_missed'' ?text [] s = Inr s'"
      "os_dispute s' = Some (new_dispute 120 ?a ''deadline_missed'' ?text [] s)"
    using s(1-3) s(4) [unfolded parties_def] w l t
    by (simp add: open_dispute_def is_participant_def REASON_VALUES_def MIN_DESCRIPTION_def order_transition_def
        freeze_payout_def)
  have "sample_disputed = s'" by (simp add: run s'(1) atomically_def)
  then show ?thesis
    using that s'(2) open_dispute_kept [OF s'(1)] by (simp add: new_dispute_def OPEN_STATUSES_def)
qed

text \<open>
  C16: No money leaves for the expert while a dispute is open: from whatever point of an order's history,
  whatever command is given to the backend next, what was paid out stays what it was. The mark of the open dispute is
  here as the services leave it; a form of the administration site could clear it by hand.
\<close>

theorem payout_frozen:
  assumes "backend_reach cfg s" "os_dispute s = Some d" "dw_status d \<in> set OPEN_STATUSES"
  shows "entries_total Payout (backend_step cfg s call) = entries_total Payout s"
proof -
  have "or_open_dispute (os_order s)"
    using order_backend.reach_inv [OF assms(1)] assms(2,3) by (simp add: backend_inv_def freeze_inv_def)
  then show ?thesis using exec_paid_out [OF assms(2)] by (cases call) simp
qed

theorem payout_frozen_witness:
  "entries_total Payout (backend_step default_config sample_disputed (180, [], support_staff, SettlePayout 0))
   = entries_total Payout sample_disputed"
  by (rule sample_disputed_open) (rule payout_frozen [OF sample_disputed_reach])

text \<open>
  C17: An order has no dead end: whatever the commands have done to it, short of its cancellation, at most
  three requests, each answered with success, complete it. Where it still awaits its payment this is under
  the condition that the manual gateway is the one configured: the other registered one, \<open>stripe\<close>, raises in
  every operation, and with it no payment can be started. Every other stage needs no gateway.
\<close>

theorem no_dead_end:
  assumes "backend_reach cfg s" "or_status (os_order s) \<noteq> Cancelled"
    and "or_status (os_order s) = Awaiting_payment \<Longrightarrow> get_gateway (cf_gateway cfg) = ''manual''"
  shows "\<exists>calls. length calls \<le> 3 \<and> all_answered cfg s calls \<and>
    or_status (os_order (run (backend_step cfg) s calls)) = Completed"
proof -
  have i: "backend_inv s" "ready_inv cfg s" using ready_backend.reach_inv [OF assms(1)] by simp_all
  have "completes_in 3 cfg s"
  proof (cases "or_status (os_order s)")
    case Awaiting_payment
    then show ?thesis using completes_awaiting i assms(3) by blast
  next
    case Active
    then show ?thesis using completes_later [OF completes_working [OF i(1)]] by simp
  next
    case Revision_requested
    then show ?thesis using completes_later [OF completes_working [OF i(1)]] by simp
  next
    case Delivered
    then show ?thesis using completes_later [OF completes_delivered] by simp
  next
    case Disputed
    then show ?thesis using completes_later [OF completes_disputed [OF i(1)]] by simp
  qed (use assms(2) completes_now in simp_all)
  then show ?thesis by (simp add: completes_in_def)
qed

theorem no_dead_end_witness:
  "\<exists>calls. length calls \<le> 3 \<and> all_answered default_config sample_disputed calls \<and>
    or_status (os_order (run (backend_step default_config) sample_disputed calls)) = Completed"
proof -
  have m: "get_gateway (cf_gateway default_config) = ''manual''" by (simp add: default_config_def manual_gateway)
  have "or_status (os_order sample_disputed) \<noteq> Cancelled" by (rule sample_disputed_open) simp
  then show ?thesis by (rule no_dead_end [OF sample_disputed_reach _ m])
qed

end
