(* ===== verification/OrderContract.thy ===== *)
theory OrderContract
  imports OrderPage OrderProgress
begin

text \<open>
  The order page and the backend together: the detail view of \<open>apps/orders/api/views.py\<close> as the page
  reads it, the routes of \<open>apps/orders/api/urls.py\<close> and of the dispute of an order (\<open>apps/disputes/api\<close>) with the views' reading of a body, the server the
  requests of the page meet, and a page open beside a backend that others change too.
\<close>

section \<open>The detail view\<close>

text \<open>
  How an answer is written, and what the rows of the model do not have: the text of a time, the
  attachment of an identifier, the identifier of the payment, the JSON of a detail view and of the
  short answers to an action.
\<close>

record rendering =
  rn_iso :: "int \<Rightarrow> string"
  rn_attachment :: "string \<Rightarrow> attachment"
  rn_payment_id :: string
  rn_detail :: "order_detail \<Rightarrow> json"
  rn_brief :: "order_command \<Rightarrow> order_state \<Rightarrow> json"

definition delivery_meta :: "rendering \<Rightarrow> delivery_row \<Rightarrow> delivery" where
  "delivery_meta rn d =
     \<lparr>dl_id = dr_id d, dl_revision = dr_revision d, dl_summary = dr_summary d, dl_status = dr_status d,
      dl_submitted_at = map_option (rn_iso rn) (dr_submitted_at d),
      dl_approved_at = map_option (rn_iso rn) (dr_approved_at d), dl_approval_source = dr_approval_source d,
      dl_attachments = map (rn_attachment rn) (dr_attachments d)\<rparr>"

definition event_meta :: "rendering \<Rightarrow> event_row \<Rightarrow> order_event" where
  "event_meta rn e =
     \<lparr>oe_type = er_type e, oe_created_at = rn_iso rn (er_at e), oe_data = JObj (er_data e)\<rparr>"

text \<open>The instructions and the development flag go to the student of a pending payment only.\<close>

definition payment_meta :: "backend_config \<Rightarrow> rendering \<Rightarrow> role \<Rightarrow> payment_row \<Rightarrow> payment_info" where
  "payment_meta cfg rn r p =
     (let shown = (r = Student \<and> pr_status p = Pay_pending)
      in \<lparr>pi_id = rn_payment_id rn, pi_gateway = pr_gateway p, pi_status = pr_status p,
          pi_amount_minor = pr_amount p, pi_amount = to_major (pr_amount p) (pr_currency p),
          pi_currency = pr_currency p, pi_refunded = to_major (pr_refunded p) (pr_currency p),
          pi_failure_reason = pr_failure_reason p, pi_paid_at = map_option (rn_iso rn) (pr_paid_at p),
          pi_simulated = (pr_gateway p = ''manual''),
          pi_instructions = (if shown then Some (pr_instructions p) else None),
          pi_dev_self_confirm = (shown \<and> pr_gateway p = ''manual'' \<and> cf_dev_self_confirm cfg)\<rparr>)"

text \<open>The deliveries are sorted by their number and the events by their time.\<close>

definition order_view :: "backend_config \<Rightarrow> rendering \<Rightarrow> role \<Rightarrow> order_state \<Rightarrow> order_detail" where
  "order_view cfg rn r s =
     (let ord = os_order s; iso = map_option (rn_iso rn)
      in \<lparr>od_id = or_id ord, od_number = or_number ord, od_status = or_status ord, od_source = or_source ord,
          od_title = rr_title (os_request s), od_amount = to_major (or_amount ord) (or_currency ord),
          od_role = r, od_created_at = rn_iso rn (or_created_at ord), od_request_id = rr_id (os_request s),
          od_category = rr_category (os_request s),
          od_counterparty = (if r = Student then or_expert_name ord else or_student_email ord),
          od_expert_amount = to_major (or_expert_amount ord) (or_currency ord),
          od_commission = to_major (or_commission ord) (or_currency ord), od_currency = or_currency ord,
          od_deadline = or_deadline ord, od_revisions_allowed = or_revisions_allowed ord,
          od_revisions_used = or_revisions_used ord, od_auto_approve_at = iso (or_auto_approve_at ord),
          od_paid_at = iso (or_paid_at ord), od_delivered_at = iso (or_delivered_at ord),
          od_completed_at = iso (or_completed_at ord), od_cancelled_at = iso (or_cancelled_at ord),
          od_cancellation_reason = or_cancellation_reason ord,
          od_events = map (event_meta rn) (sort_key er_at (os_events s)),
          od_deliveries = map (delivery_meta rn) (sort_key dr_revision (os_deliveries s)),
          od_payment = map_option (payment_meta cfg rn r) (os_payment s)\<rparr>)"

lemma order_view_simps [simp]:
  "od_status (order_view cfg rn r s) = or_status (os_order s)" "od_role (order_view cfg rn r s) = r"
  "od_revisions_used (order_view cfg rn r s) = or_revisions_used (os_order s)"
  "od_revisions_allowed (order_view cfg rn r s) = or_revisions_allowed (os_order s)"
  "length (od_deliveries (order_view cfg rn r s)) = length (os_deliveries s)"
  by (simp_all add: order_view_def Let_def)

section \<open>Routes\<close>

text \<open>
  \<open>data.get(name, "")\<close>, used as a text: \<open>None\<close> where the value is not one, so that the service raises. For
  the reason of a cancellation null is as good as nothing.
\<close>

fun text_field :: "string \<Rightarrow> json \<Rightarrow> string option" where
  "text_field k (JObj fs) =
     (case map_of fs k of None \<Rightarrow> Some [] | Some (JStr s) \<Rightarrow> Some s | Some _ \<Rightarrow> None)"
| "text_field k _ = None"

fun reason_field :: "json \<Rightarrow> string option" where
  "reason_field (JObj fs) = (if map_of fs ''reason'' = Some JNull then Some [] else text_field ''reason'' (JObj fs))"
| "reason_field v = None"

fun text_items :: "json list \<Rightarrow> string list option" where
  "text_items [] = Some []"
| "text_items (JStr s # vs) = map_option (Cons s) (text_items vs)"
| "text_items _ = None"

text \<open>\<open>data.get("attachment_ids") or None\<close>.\<close>

fun ids_field :: "string \<Rightarrow> json \<Rightarrow> string list option" where
  "ids_field k (JObj fs) =
     (case map_of fs k of
        None \<Rightarrow> Some []
      | Some JNull \<Rightarrow> Some []
      | Some (JArr vs) \<Rightarrow> text_items vs
      | Some _ \<Rightarrow> None)"
| "ids_field k _ = None"

text \<open>
  The body of an opened dispute: \<open>str(data.get(name, ""))\<close> of the texts, where any value has a text (the
  quoted texts within one are written without escapes), and \<open>list(data.get("evidence_ids") or [])\<close>.
\<close>

fun py_repr :: "json \<Rightarrow> string" where
  "py_repr JNull = ''None''"
| "py_repr (JBool b) = (if b then ''True'' else ''False'')"
| "py_repr (JNum n) = show_int n"
| "py_repr (JStr s) = py_quoted s"
| "py_repr (JArr vs) = ''['' @ join '', '' (map py_repr vs) @ '']''"
| "py_repr (JObj fs) = ''{'' @ join '', '' (map (\<lambda>(k, v). py_quoted k @ '': '' @ py_repr v) fs) @ ''}''"

fun py_str :: "json \<Rightarrow> string" where
  "py_str (JStr s) = s"
| "py_str v = py_repr v"

definition py_falsy :: "json \<Rightarrow> bool" where
  "py_falsy v \<longleftrightarrow> v \<in> {JNull, JBool False, JNum 0, JStr [], JArr [], JObj []}"

definition str_field :: "string \<Rightarrow> (string \<times> json) list \<Rightarrow> string" where
  "str_field k fs = (case map_of fs k of None \<Rightarrow> [] | Some v \<Rightarrow> py_str v)"

fun listed :: "json \<Rightarrow> string list option" where
  "listed (JArr vs) = text_items vs"
| "listed (JStr s) = Some (map (\<lambda>c. [c]) s)"
| "listed (JObj fs) = Some (map fst fs)"
| "listed v = (if py_falsy v then Some [] else None)"

fun dispute_body :: "json \<Rightarrow> (string \<times> string \<times> string list) option" where
  "dispute_body (JObj fs) =
     map_option (\<lambda>ids. (str_field ''reason'' fs, str_field ''description'' fs, ids))
       (case map_of fs ''evidence_ids'' of None \<Rightarrow> Some [] | Some v \<Rightarrow> listed v)"
| "dispute_body v = (if py_falsy v then Some ([], [], []) else None)"

definition order_path :: "string \<Rightarrow> string \<Rightarrow> string" where
  "order_path oid part = ''/api/v1/me/orders/'' @ oid @ part"

definition body_json :: "(string \<Rightarrow> json option) \<Rightarrow> api_init \<Rightarrow> json" where
  "body_json loads i =
     (case init_body i of
        Some (BText t) \<Rightarrow> (case loads t of Some v \<Rightarrow> v | None \<Rightarrow> JNull)
      | _ \<Rightarrow> JObj [])"

text \<open>The path after the order's identifier, the method being POST. A body that does not fit is \<open>Inl\<close>.\<close>

definition order_route ::
    "(string \<Rightarrow> json option) \<Rightarrow> string \<Rightarrow> api_init \<Rightarrow> (domain_error + order_command) option" where
  "order_route loads oid i =
     (let v = body_json loads i; bad = Inl server_error;
          wants = (\<lambda>part. init_path i = order_path oid part)
      in if init_method i \<noteq> Some ''POST'' then None
         else if wants ''/pay'' then Some (Inr Pay)
         else if wants ''/payment/confirm'' then Some (Inr ConfirmPayment)
         else if wants ''/approve'' then Some (Inr Approve)
         else if wants ''/deliveries''
         then Some (case (text_field ''summary'' v, ids_field ''attachment_ids'' v) of
                      (Some t, Some ids) \<Rightarrow> Inr (Deliver t ids) | _ \<Rightarrow> bad)
         else if wants ''/request-revision''
         then Some (case text_field ''note'' v of Some t \<Rightarrow> Inr (RequestRevision t) | None \<Rightarrow> bad)
         else if wants ''/cancel''
         then Some (case reason_field v of Some t \<Rightarrow> Inr (CancelOrder t) | None \<Rightarrow> bad)
         else if wants ''/dispute''
         then Some (case dispute_body v of Some (r, d, ids) \<Rightarrow> Inr (OpenDispute r d ids) | None \<Rightarrow> bad)
         else None)"

section \<open>The server\<close>

text \<open>
  What the requests of a signed-in account meet: the order's views, and \<open>rest\<close> for every other path. The
  clock gives the time and the fresh token of a request; the state counts the requests. An error is
  answered with the envelope, which \<open>apiFetch\<close> turns into \<open>shown_failure\<close>.
\<close>

type_synonym order_world = "order_state \<times> nat"

definition order_http ::
    "(api_init \<Rightarrow> order_state \<Rightarrow> (failure + json) \<times> order_state) \<Rightarrow> (string \<Rightarrow> json option) \<Rightarrow> rendering
     \<Rightarrow> backend_config \<Rightarrow> (nat \<Rightarrow> int \<times> string) \<Rightarrow> account \<Rightarrow> order_world server" where
  "order_http rest loads rn cfg clock a i sn =
     (case (sn, clock (snd sn)) of ((s, n), (now, token)) \<Rightarrow>
        if init_method i = None \<and> init_path i = order_path (or_id (os_order s)) []
        then (case view_role a s of
                Inl e \<Rightarrow> (Inl (shown_failure e), (s, Suc n))
              | Inr r \<Rightarrow> (Inr (rn_detail rn (order_view cfg rn r s)), (s, Suc n)))
        else (case order_route loads (or_id (os_order s)) i of
            None \<Rightarrow> (case rest i s of (res, s') \<Rightarrow> (res, (s', Suc n)))
          | Some (Inl e) \<Rightarrow> (Inl (shown_failure e), (s, Suc n))
          | Some (Inr c) \<Rightarrow>
              (case exec cfg now token a c s of
                 (None, s') \<Rightarrow> (Inr (rn_brief rn c s'), (s', Suc n))
               | (Some e, s') \<Rightarrow> (Inl (shown_failure e), (s', Suc n)))))"

section \<open>Routing the requests of the page\<close>

text \<open>
  What a lifecycle action of the page asks the backend for, by the tests of \<open>action_request\<close>. The actions that are
  left are the reviews and the evidence, which no documented transition is about.
\<close>

definition asked :: "string \<Rightarrow> action_payload \<Rightarrow> order_command option" where
  "asked k p =
     (if k = ''pay'' then Some Pay
      else if k = ''confirm-payment'' then Some ConfirmPayment
      else if k = ''approve'' then Some Approve
      else (case p of
          DeliveryPayload t ids \<Rightarrow> if k = ''deliver'' then Some (Deliver t ids) else None
        | TextPayload t \<Rightarrow>
            if k = ''revise'' then Some (RequestRevision t) else if k = ''cancel'' then Some (CancelOrder t) else None
        | DisputePayload r d ids \<Rightarrow> if k = ''open-dispute'' then Some (OpenDispute r d ids) else None
        | _ \<Rightarrow> None))"

lemma asked_cases:
  assumes "asked k p = Some c"
  obtains (pay) "k = ''pay''" "c = Pay" | (confirm) "k = ''confirm-payment''" "c = ConfirmPayment"
    | (approve) "k = ''approve''" "c = Approve"
    | (deliver) t ids where "k = ''deliver''" "p = DeliveryPayload t ids" "c = Deliver t ids"
    | (revise) t where "k = ''revise''" "p = TextPayload t" "c = RequestRevision t"
    | (cancel) t where "k = ''cancel''" "p = TextPayload t" "c = CancelOrder t"
    | (dispute) r d ids where "k = ''open-dispute''" "p = DisputePayload r d ids" "c = OpenDispute r d ids"
  using assms by (auto simp: asked_def split: if_splits action_payload.splits)

text \<open>Every key of the documented lifecycle is asked for.\<close>

lemma asked_lifecycle:
  "asked k p = Some c \<Longrightarrow> k \<in> lifecycle_keys"
  by (erule asked_cases) (simp_all add: lifecycle_keys_def)

lemma text_items_map: "text_items (map JStr ids) = Some ids"
  by (induction ids) simp_all

lemma order_path_inj: "order_path oid a = order_path oid b \<longleftrightarrow> a = b"
  by (simp add: order_path_def)

lemma api_paths:
  "init_path (ordersApi_pay oid) = order_path oid ''/pay''"
  "init_path (ordersApi_confirmPayment oid) = order_path oid ''/payment/confirm''"
  "init_path (disputesApi_open oid r d ids) = order_path oid ''/dispute''"
  "init_path (ordersApi_approve oid) = order_path oid ''/approve''"
  "init_path (ordersApi_deliver oid t ids) = order_path oid ''/deliveries''"
  "init_path (ordersApi_requestRevision oid t) = order_path oid ''/request-revision''"
  "init_path (ordersApi_cancel oid t) = order_path oid ''/cancel''"
  "init_path (ordersApi_detail oid) = order_path oid []"
  "init_path (reviewsApi_forOrder oid) = order_path oid ''/review''"
  "init_path (disputesApi_forOrder oid) = order_path oid ''/dispute''"
  by (simp_all add: order_path_def ordersApi_approve_def ordersApi_deliver_def ordersApi_requestRevision_def
      ordersApi_cancel_def ordersApi_detail_def reviewsApi_forOrder_def disputesApi_forOrder_def ordersApi_pay_def
      ordersApi_confirmPayment_def disputesApi_open_def typed_def json_req_def get_req_def)

lemma api_posts:
  "init_method (ordersApi_pay oid) = Some ''POST''" "init_method (ordersApi_confirmPayment oid) = Some ''POST''"
  "init_method (ordersApi_approve oid) = Some ''POST''" "init_method (ordersApi_deliver oid t ids) = Some ''POST''"
  "init_method (ordersApi_requestRevision oid t) = Some ''POST''" "init_method (ordersApi_cancel oid t) = Some ''POST''"
  "init_method (disputesApi_open oid r d ids) = Some ''POST''"
  by (simp_all add: ordersApi_pay_def ordersApi_confirmPayment_def ordersApi_approve_def ordersApi_deliver_def
      ordersApi_requestRevision_def ordersApi_cancel_def disputesApi_open_def typed_def json_req_def)

text \<open>The JSON of the body of such an action.\<close>

fun action_body :: "string \<Rightarrow> action_payload \<Rightarrow> json" where
  "action_body k (DeliveryPayload t ids) =
     JObj [(''summary'', JStr t), (''attachment_ids'', JArr (map JStr ids))]"
| "action_body k (TextPayload t) = JObj [(if k = ''revise'' then ''note'' else ''reason'', JStr t)]"
| "action_body k (DisputePayload r d ids) =
     JObj [(''reason'', JStr r), (''description'', JStr d), (''evidence_ids'', JArr (map JStr ids))]"
| "action_body k _ = JObj []"

lemma routed_action:
  assumes "asked k p = Some c" "action_request dec oid k p = Some (i, keep)"
    and "loads (stringify (action_body k p)) = Some (action_body k p)"
  shows "order_route loads oid i = Some (Inr c)"
proof -
  have body: "body_json loads (ordersApi_deliver oid t ids) = action_body k p" if "p = DeliveryPayload t ids" for t ids
    using assms(3) that by (simp add: body_json_def ordersApi_deliver_def typed_def json_req_def)
  have texts: "body_json loads (ordersApi_requestRevision oid t) = action_body k p" if "p = TextPayload t" "k = ''revise''" for t
    using assms(3) that by (simp add: body_json_def ordersApi_requestRevision_def typed_def json_req_def)
  have reasons: "body_json loads (ordersApi_cancel oid t) = action_body k p" if "p = TextPayload t" "k = ''cancel''" for t
    using assms(3) that by (simp add: body_json_def ordersApi_cancel_def typed_def json_req_def)
  have disputes: "body_json loads (disputesApi_open oid r d ids) = action_body k p" if "p = DisputePayload r d ids" for r d ids
    using assms(3) that by (simp add: body_json_def disputesApi_open_def typed_def json_req_def)
  from assms(1) show ?thesis
  proof (cases rule: asked_cases)
    case pay
    then have "i = ordersApi_pay oid" using assms(2) by (simp add: action_request_def)
    then show ?thesis using pay by (simp add: order_route_def Let_def api_paths api_posts order_path_inj)
  next
    case confirm
    then have "i = ordersApi_confirmPayment oid" using assms(2) by (simp add: action_request_def)
    then show ?thesis using confirm by (simp add: order_route_def Let_def api_paths api_posts order_path_inj)
  next
    case approve
    then have "i = ordersApi_approve oid" using assms(2) by (simp add: action_request_def)
    then show ?thesis using approve by (simp add: order_route_def Let_def api_paths api_posts order_path_inj)
  next
    case (deliver t ids)
    then have "i = ordersApi_deliver oid t ids" using assms(2) by (simp add: action_request_def)
    then show ?thesis using deliver by (simp add: order_route_def Let_def api_paths api_posts order_path_inj body text_items_map)
  next
    case (revise t)
    then have "i = ordersApi_requestRevision oid t" using assms(2) by (simp add: action_request_def)
    then show ?thesis using revise by (simp add: order_route_def Let_def api_paths api_posts order_path_inj texts)
  next
    case (cancel t)
    then have "i = ordersApi_cancel oid t" using assms(2) by (simp add: action_request_def)
    then show ?thesis using cancel by (simp add: order_route_def Let_def api_paths api_posts order_path_inj reasons)
  next
    case (dispute r d ids)
    then have "i = disputesApi_open oid r d ids" using assms(2) by (simp add: action_request_def)
    then show ?thesis using dispute by (simp add: order_route_def Let_def api_paths api_posts order_path_inj disputes text_items_map str_field_def)
  qed
qed

section \<open>What the backend makes of the documented actions\<close>

text \<open>The checks of the page on what it sends.\<close>

fun sendable :: "string \<Rightarrow> action_payload \<Rightarrow> bool" where
  "sendable k (TextPayload t) \<longleftrightarrow> trim t = t \<and> (if k = ''cancel'' then 5 else 10) \<le> length t"
| "sendable k p \<longleftrightarrow> payload_ok p"

text \<open>
  What the page cannot check: that the text has no separator at its ends which only the backend takes
  for one, and that the files are the account's own uploads, for a delivery or as evidence.
\<close>

fun acceptable :: "account \<Rightarrow> order_state \<Rightarrow> action_payload \<Rightarrow> bool" where
  "acceptable a s (TextPayload t) \<longleftrightarrow> py_plain t"
| "acceptable a s (DeliveryPayload t ids) \<longleftrightarrow> py_plain t \<and> (ids = [] \<or> own_uploads ''delivery'' a ids s)"
| "acceptable a s (DisputePayload r d ids) \<longleftrightarrow> py_plain d \<and> check_evidence a (os_uploads s) ids = Inr ids"
| "acceptable a s _ \<longleftrightarrow> True"

text \<open>
  The conditions besides the table of who may do what: a revision is left; money needs the gateway that
  works, and the self-confirmation its development switch; a dispute is the order's first, and no more
  than the days of the window after the completion.
\<close>

definition permitted :: "backend_config \<Rightarrow> int \<Rightarrow> order_state \<Rightarrow> string \<Rightarrow> bool" where
  "permitted cfg now s k \<longleftrightarrow>
     (k = ''revise'' \<longrightarrow> or_revisions_used (os_order s) < or_revisions_allowed (os_order s)) \<and>
     (k \<in> {''pay'', ''confirm-payment''} \<longrightarrow> get_gateway (cf_gateway cfg) = ''manual'') \<and>
     (k = ''confirm-payment'' \<longrightarrow> cf_dev_self_confirm cfg) \<and>
     (k = ''open-dispute'' \<longrightarrow> os_dispute s = None \<and>
        (or_status (os_order s) = Completed \<longrightarrow> \<not> window_closed cfg now (os_order s)))"

text \<open>The reasons the form lists are those the service knows.\<close>

lemma reasons_agree: "fst ` set DISPUTE_REASONS = set REASON_VALUES"
  by (simp add: DISPUTE_REASONS_def REASON_VALUES_def)

lemma view_role_party:
  assumes "view_role a s = Inr r"
  shows "acct_id a = (if r = Student then or_student (os_order s) else or_expert (os_order s))"
  using assms by (auto simp: view_role_def split: if_splits)

lemma documented_accepted:
  assumes "backend_inv s" "ready_inv cfg s" "view_role a s = Inr r"
    and "documented r (or_status (os_order s)) k = Some st" "asked k p = Some c"
    and "sendable k p" "acceptable a s p" "permitted cfg now s k"
  obtains s' where "exec cfg now token a c s = (None, s')" "or_status (os_order s') = st"
    "k = ''pay'' \<longrightarrow> (\<exists>q. os_payment s' = Some q \<and> pr_status q = Pay_pending)"
proof -
  have d: "deliveries_inv s" using assms(1) by (simp add: backend_inv_def)
  have who: "acct_id a = (if r = Student then or_student (os_order s) else or_expert (os_order s))"
    by (rule view_role_party [OF assms(3)])
  have plain: "py_strip t = t" if "py_plain t" "trim t = t" for t using py_strip_trim [OF that(1)] that(2) by simp
  have table: "(k = ''pay'' \<longrightarrow> r = Student \<and> or_status (os_order s) = Awaiting_payment \<and> st = Awaiting_payment) \<and>
      (k = ''confirm-payment'' \<longrightarrow> r = Student \<and> or_status (os_order s) = Awaiting_payment \<and> st = Active) \<and>
      (k = ''approve'' \<longrightarrow> r = Student \<and> or_status (os_order s) = Delivered \<and> st = Completed) \<and>
      (k = ''revise'' \<longrightarrow> r = Student \<and> or_status (os_order s) = Delivered \<and> st = Revision_requested) \<and>
      (k = ''cancel'' \<longrightarrow> r = Student \<and> or_status (os_order s) = Awaiting_payment \<and> st = Cancelled) \<and>
      (k = ''deliver'' \<longrightarrow> r = Expert \<and> or_status (os_order s) \<in> {Active, Revision_requested} \<and> st = Delivered) \<and>
      (k = ''open-dispute'' \<longrightarrow>
         or_status (os_order s) \<in> {Active, Delivered, Revision_requested, Completed} \<and> st = Disputed)"
    using assms(4) by (cases r; cases "or_status (os_order s)") (auto split: if_splits)
  from assms(5) show ?thesis
  proof (cases rule: asked_cases)
    case pay
    have t: "r = Student" "or_status (os_order s) = Awaiting_payment" "st = Awaiting_payment" using table pay(1) by simp_all
    have g: "get_gateway (cf_gateway cfg) = ''manual''" using assms(8) pay(1) by (simp add: permitted_def)
    have own: "acct_id a = or_student (os_order s)" using who t(1) by simp
    obtain s' q where s': "start_payment cfg token a s = Inr s'" "os_payment s' = Some q" "pr_status q = Pay_pending"
        "os_order s' = os_order s"
      by (rule start_ok [OF assms(2) g t(2) own])
    have "exec cfg now token a c s = (None, s')" by (simp add: pay(2) as_party_def atomically_def assms(3) s'(1))
    then show ?thesis using that s' t by simp
  next
    case confirm
    have t: "r = Student" "or_status (os_order s) = Awaiting_payment" "st = Active" using table confirm(1) by simp_all
    have g: "get_gateway (cf_gateway cfg) = ''manual''" "cf_dev_self_confirm cfg"
      using assms(8) confirm(1) by (simp_all add: permitted_def)
    have own: "acct_id a = or_student (os_order s)" using who t(1) by simp
    show ?thesis
      by (rule self_confirm_ok [OF assms(2) g t(2) own, of now token]) (use confirm t(3) that in simp)
  next
    case approve
    then have t: "r = Student" "or_status (os_order s) = Delivered" "st = Completed" using table by simp_all
    show ?thesis by (rule approval_ok [OF t(2), of a cfg now token]) (use approve t who that in auto)
  next
    case (deliver x ids)
    then have t: "r = Expert" "or_status (os_order s) \<in> {Active, Revision_requested}" "st = Delivered"
      using table by simp_all
    show ?thesis
      by (rule delivery_ok [OF d t(2), of a x ids cfg now token])
        (use deliver t who assms(6,7) plain that in \<open>auto simp: MIN_DELIVERY_SUMMARY_def\<close>)
  next
    case (revise x)
    then have t: "r = Student" "or_status (os_order s) = Delivered" "st = Revision_requested" using table by simp_all
    show ?thesis
      by (rule revision_ok [OF d t(2), of a x cfg now token])
        (use revise t who assms(6-8) plain that in \<open>auto simp: permitted_def\<close>)
  next
    case (cancel x)
    then have t: "r = Student" "or_status (os_order s) = Awaiting_payment" "st = Cancelled" using table by simp_all
    show ?thesis by (rule cancel_ok [OF t(2), of a x cfg now token]) (use cancel t who assms(6) that in auto)
  next
    case (dispute reason x ids)
    then have t: "or_status (os_order s) \<in> {Active, Delivered, Revision_requested, Completed}" "st = Disputed"
      using table by simp_all
    have w: "os_dispute s = None" "\<not> window_closed cfg now (os_order s)"
      using assms(8) t(1) dispute(1) by (auto simp: permitted_def window_closed_def DISPUTABLE_STATUSES_def)
    have party: "is_participant a s" using who by (simp add: is_participant_def)
    have said: "reason \<in> set REASON_VALUES" "MIN_DESCRIPTION \<le> length (py_strip x)"
        "check_evidence a (os_uploads s) ids = Inr ids"
      using assms(6,7) dispute(2) plain [of x] reasons_agree by (auto simp: MIN_DESCRIPTION_def)
    show ?thesis by (rule dispute_ok [OF party w said, of token]) (use dispute t that in simp)
  qed
qed

section \<open>An action of the page, from end to end\<close>

lemma view_role_parties: "parties s' = parties s \<Longrightarrow> view_role a s' = view_role a s"
  by (simp add: parties_def view_role_def)

lemma exec_as_party:
  "as_party a s r = (None, s') \<longleftrightarrow> (\<exists>x. view_role a s = Inr x) \<and> r = Inr s'"
  by (auto simp: as_party_def atomically_def view_role_def split: sum.splits)

lemma start_payment_parties:
  assumes "start_payment cfg token a s = Inr s'"
  shows "parties s' = parties s"
  using assms
proof (cases rule: start_payment_cases)
  case (1 s1 p)
  have "parties s1 = parties s" using 1(2) by (cases rule: payment_or_new_cases) (simp_all add: parties_def)
  then show ?thesis using 1(5) by (auto simp: parties_def)
qed

lemma confirm_view_parties:
  assumes "confirm_view cfg now token a s = (None, s')"
  shows "parties s' = parties s"
proof -
  obtain s1 p where s1: "(if os_payment s = None then start_payment cfg token a s else Inr s) = Inr s1"
      "confirm_payment (activate_order_on_payment now) now (Some (acct_id a)) p s1 = (None, s')"
    using assms by (auto simp: confirm_view_def and_then_Inr split: if_splits sum.splits option.splits)
  have "parties s1 = parties s" using s1(1) start_payment_parties by (auto split: if_splits)
  then show ?thesis using confirm_payment_parties [OF s1(2)] by simp
qed

lemma asked_parties:
  assumes "asked k p = Some c" "exec cfg now token a c s = (None, s')"
  shows "parties s' = parties s"
  using assms(1)
proof (cases rule: asked_cases)
  case pay
  then show ?thesis using assms(2) start_payment_parties by (auto simp: exec_as_party)
next
  case confirm
  then show ?thesis using assms(2) confirm_view_parties by simp
next
  case (deliver t ids)
  then have "submit_delivery now token a t ids s = Inr s'" using assms(2) by (simp add: exec_as_party)
  then show ?thesis by (cases rule: submit_delivery_cases) (simp add: parties_def)
next
  case approve
  then have "approve_delivery cfg now (Some a) By_student s = Inr s'" using assms(2) by (simp add: exec_as_party)
  then show ?thesis
  proof (cases rule: approve_delivery_cases)
    case (1 b data s2 s3 s4)
    then show ?thesis
      using move_request_from [OF 1(3)] schedule_payout_kept [OF 1(4)] by (simp add: parties_def approved_order_def)
  qed
next
  case (revise t)
  then have "request_revision now a t s = Inr s'" using assms(2) by (simp add: exec_as_party)
  then show ?thesis by (cases rule: request_revision_cases) (simp add: parties_def)
next
  case (cancel t)
  then have "cancel_order now a t s = Inr s'" using assms(2) by (simp add: exec_as_party)
  then show ?thesis
  proof (cases rule: cancel_order_cases)
    case (1 b s1 s3)
    then show ?thesis using move_request_from [OF 1(2)] by (simp add: parties_def void_payment_kept)
  qed
next
  case (dispute r d ids)
  then have "open_dispute cfg now a r d ids s = Inr s'"
    using assms(2) by (simp add: atomically_def split: sum.splits)
  then show ?thesis by (cases rule: open_dispute_cases) (simp add: parties_def freeze_payout_def)
qed

lemma asked_request:
  assumes "asked k p = Some c"
  obtains i keep where "action_request dec oid k p = Some (i, keep)" "second_request dec k p = None"
    "init_method i = Some ''POST''"
  using assms
  by (cases rule: asked_cases)
    (cases p; auto simp: action_request_def second_request_def api_posts intro: that)+

text \<open>The answer to an action the backend accepts, and to the question for the order.\<close>

lemma http_action:
  assumes "asked k p = Some c" "action_request dec oid k p = Some (i, keep)"
    and "loads (stringify (action_body k p)) = Some (action_body k p)"
    and "init_method i = Some ''POST''" "or_id (os_order s) = oid"
    and "exec cfg (fst (clock n)) (snd (clock n)) a c s = (None, s')"
  shows "order_http rest loads rn cfg clock a i (s, n) = (Inr (rn_brief rn c s'), (s', Suc n))"
  using routed_action [where loads = loads, OF assms(1,2) assms(3)] assms(4-6) by (simp add: order_http_def case_prod_unfold)

lemma http_detail:
  assumes "view_role a s = Inr r"
  shows "order_http rest loads rn cfg clock a (ordersApi_detail (or_id (os_order s))) (s, n)
    = (Inr (rn_detail rn (order_view cfg rn r s)), (s, Suc n))"
proof -
  have "init_method (ordersApi_detail (or_id (os_order s))) = None" by (simp add: ordersApi_detail_def get_req_def)
  then show ?thesis using assms by (simp add: order_http_def case_prod_unfold api_paths)
qed

lemma http_panel:
  assumes "i \<in> {reviewsApi_forOrder oid, disputesApi_forOrder oid}" "or_id (os_order s) = oid"
    and "snd (rest i s) = s"
  shows "\<exists>v. order_http rest loads rn cfg clock a i (s, n) = (v, (s, Suc n))"
proof -
  have m: "init_method i = None" and path: "init_path i \<noteq> order_path oid []"
    using assms(1) by (auto simp: reviewsApi_forOrder_def disputesApi_forOrder_def get_req_def order_path_def)
  then have "order_route loads oid i = None" by (simp add: order_route_def Let_def)
  with m path show ?thesis using assms(2,3) by (simp add: order_http_def case_prod_unfold)
qed

lemma load_after_action:
  assumes "view_role a s = Inr r" "or_id (os_order s) = oid" "oid \<noteq> []"
    and "order_of dec (rn_detail rn (order_view cfg rn r s)) = order_view cfg rn r s"
    and "snd (rest (reviewsApi_forOrder oid) s) = s" "snd (rest (disputesApi_forOrder oid) s) = s"
  obtains pg' where "load_order (order_http rest loads rn cfg clock a) dec oid pg (s, n) = (pg', (s, Suc (Suc (Suc n))))"
    "pg_order pg' = Some (order_view cfg rn r s)" "\<not> pg_failed pg'"
proof -
  let ?srv = "order_http rest loads rn cfg clock a"
  obtain v where v: "?srv (reviewsApi_forOrder oid) (s, Suc n) = (v, (s, Suc (Suc n)))"
    using http_panel [where rest = rest and i = "reviewsApi_forOrder oid", OF _ assms(2,5)] by blast
  obtain u where u: "?srv (disputesApi_forOrder oid) (s, Suc (Suc n)) = (u, (s, Suc (Suc (Suc n))))"
    using http_panel [where rest = rest and i = "disputesApi_forOrder oid", OF _ assms(2,6)] by blast
  have "?srv (ordersApi_detail oid) (s, n) = (Inr (rn_detail rn (order_view cfg rn r s)), (s, Suc n))"
    using http_detail [OF assms(1)] assms(2) by simp
  then show ?thesis
    using assms(3,4) v u
    by (intro that [of "pg\<lparr>pg_order := Some (order_view cfg rn r s), pg_failed := False,
          pg_review := fulfilled (review_of dec) v, pg_dispute := fulfilled (dispute_of dec) u\<rparr>"])
      (simp_all add: load_order_def load_panels_def)
qed

section \<open>A page beside the backend\<close>

text \<open>
  One side's page is open while the backend changes by whatever call, of this side, the other or the
  operator; the page sees the order when it loads it.
\<close>

datatype joint_event =
    OnPage workspace_event
  | OnServer order_call
  | Reload "review option" "dispute option" bool

type_synonym joint_state = "workspace \<times> order_state"

fun joint_step ::
    "backend_config \<Rightarrow> rendering \<Rightarrow> role \<Rightarrow> locale_text \<Rightarrow> joint_state \<Rightarrow> joint_event \<Rightarrow> joint_state" where
  "joint_step cfg rn r loc (w, s) (OnPage e) = (workspace_step loc w e, s)"
| "joint_step cfg rn r loc (w, s) (OnServer call) = (w, backend_step cfg s call)"
| "joint_step cfg rn r loc (w, s) (Reload rw d b) = (new_props (order_view cfg rn r s) rw d b w, s)"

fun joint_enabled :: "locale_text \<Rightarrow> joint_state \<Rightarrow> joint_event \<Rightarrow> bool" where
  "joint_enabled loc (w, s) (OnPage e) \<longleftrightarrow> (\<nexists>ord rw d b. e = Props ord rw d b) \<and> workspace_enabled loc w e"
| "joint_enabled loc _ _ \<longleftrightarrow> True"

definition joint_start :: "backend_config \<Rightarrow> rendering \<Rightarrow> role \<Rightarrow> joint_state \<Rightarrow> bool" where
  "joint_start cfg rn r ws \<longleftrightarrow>
     (\<exists>s rw d. backend_reach cfg s \<and> ws = (workspace_init (order_view cfg rn r s) rw d, s))"

abbreviation joint_reach ::
    "backend_config \<Rightarrow> rendering \<Rightarrow> role \<Rightarrow> locale_text \<Rightarrow> joint_state \<Rightarrow> bool" where
  "joint_reach cfg rn r loc \<equiv> reach (joint_start cfg rn r) (joint_enabled loc) (joint_step cfg rn r loc)"

text \<open>The order the page has is one the backend had, and a revision is being written only while one is left.\<close>

fun joint_inv :: "backend_config \<Rightarrow> rendering \<Rightarrow> role \<Rightarrow> joint_state \<Rightarrow> bool" where
  "joint_inv cfg rn r (w, s) \<longleftrightarrow>
     backend_inv s \<and> ready_inv cfg s \<and> space_inv w \<and> (\<exists>s0. backend_inv s0 \<and> ws_order w = order_view cfg rn r s0) \<and>
     (ws_mode w = ReviseMode \<longrightarrow> od_revisions_used (ws_order w) < od_revisions_allowed (ws_order w))"

lemma workspace_step_kept:
  assumes "\<nexists>ord rw d b. e = Props ord rw d b"
  shows "ws_order (workspace_step loc w e) = ws_order w \<and>
    (ws_mode (workspace_step loc w e) \<in> {Idle, ws_mode w} \<or> e = SetMode (ws_mode (workspace_step loc w e)))"
  using assms by (cases "(loc, w, e)" rule: workspace_step.cases) (auto simp: set_mode_def)

lemma offered_Revise:
  assumes "offered (OrderWorkspace loc w) (SetMode ReviseMode)"
  shows "od_revisions_used (ws_order w) < od_revisions_allowed (ws_order w) \<or> ws_mode w = CancelMode"
  using offered_OrderWorkspace [OF assms] by (auto simp: offered_action_bar dest: offered_inspection)

lemma view_revisions:
  assumes "backend_inv s" "backend_inv s0" "or_status (os_order s) = Delivered" "or_status (os_order s0) = Delivered"
    and "length (os_deliveries s) = length (os_deliveries s0)"
  shows "or_revisions_used (os_order s) = or_revisions_used (os_order s0) \<and>
    or_revisions_allowed (os_order s) = or_revisions_allowed (os_order s0)"
  using assms by (simp add: backend_inv_def deliveries_inv_def work_phase_def Let_def)

lemma joint_inv_step:
  assumes "joint_inv cfg rn r (w, s)" "joint_enabled loc (w, s) e"
  shows "joint_inv cfg rn r (joint_step cfg rn r loc (w, s) e)"
proof (cases e)
  case (OnPage pe)
  then have np: "\<nexists>ord rw d b. pe = Props ord rw d b" and en: "workspace_enabled loc w pe" using assms(2) by simp_all
  have i: "space_inv w" using assms(1) by simp
  then have m: "mode_inv w" by (simp add: space_inv_def)
  have "space_inv (workspace_step loc w pe)" by (rule space_inv_step [OF i en])
  moreover have "od_revisions_used (ws_order w) < od_revisions_allowed (ws_order w)"
    if rev: "ws_mode (workspace_step loc w pe) = ReviseMode"
  proof (cases "pe = SetMode ReviseMode")
    case True
    then have "offered (OrderWorkspace loc w) (SetMode ReviseMode)" using en by (simp add: workspace_enabled_def)
    from offered_Revise [OF this] show ?thesis using m by (simp add: mode_inv_def)
  next
    case False
    then have "ws_mode w = ReviseMode" using workspace_step_kept [OF np, of loc w] rev by auto
    then show ?thesis using assms(1) by simp
  qed
  ultimately show ?thesis using assms(1) workspace_step_kept [OF np, of loc w] OnPage by simp
next
  case (OnServer call)
  obtain now token a c where call: "call = (now, token, a, c)" by (rule prod_cases4)
  show ?thesis using assms(1) exec_inv [of s cfg now token a c] exec_ready [of cfg s] by (simp add: OnServer call)
next
  case (Reload rw d b)
  let ?w = "new_props (order_view cfg rn r s) rw d b w"
  obtain s0 where s0: "backend_inv s0" "ws_order w = order_view cfg rn r s0" using assms(1) by auto
  have m: "mode_inv w" and l: "reason_listed (ws_disputing w)" and s: "backend_inv s" "ready_inv cfg s"
    using assms(1) by (simp_all add: space_inv_def)
  have ord: "ws_order ?w = order_view cfg rn r s" by (simp add: new_props_def Let_def)
  have mode: "ws_mode ?w = (if or_status (os_order s) = or_status (os_order s0)
      \<and> length (os_deliveries s) = length (os_deliveries s0) then ws_mode w else Idle)"
    by (simp add: new_props_def Let_def s0(2))
  have "mode_inv ?w" using m by (auto simp: mode_inv_def ord mode s0(2) split: if_splits)
  moreover have "reason_listed (ws_disputing ?w)"
    using l by (simp add: new_props_def Let_def dispute_section_props_def)
  moreover have "or_revisions_used (os_order s) < or_revisions_allowed (os_order s)" if "ws_mode ?w = ReviseMode"
  proof -
    from that have same: "or_status (os_order s) = or_status (os_order s0)"
        "length (os_deliveries s) = length (os_deliveries s0)" and rev: "ws_mode w = ReviseMode"
      by (simp_all add: mode split: if_splits)
    then have "or_status (os_order s0) = Delivered" using m by (simp add: mode_inv_def s0(2))
    then show ?thesis using view_revisions [OF s(1) s0(1)] same rev assms(1) s0(2) by simp
  qed
  ultimately show ?thesis using s ord Reload by (auto simp: space_inv_def)
qed

interpretation joint: machine "joint_start cfg rn r" "joint_enabled loc" "joint_step cfg rn r loc" "joint_inv cfg rn r"
  for cfg rn r loc
proof unfold_locales
  show "joint_inv cfg rn r ws" if "joint_start cfg rn r ws" for ws
  proof -
    obtain s rw d where ws: "backend_reach cfg s" "ws = (workspace_init (order_view cfg rn r s) rw d, s)"
      using \<open>joint_start cfg rn r ws\<close> unfolding joint_start_def by blast
    have "backend_inv s" "ready_inv cfg s" using ready_backend.reach_inv [OF ws(1)] by simp_all
    moreover have "ws_order (fst ws) = order_view cfg rn r s" "ws_mode (fst ws) = Idle"
      by (simp_all add: ws(2) workspace_init_def)
    ultimately show ?thesis using ws(2) by auto
  qed
  show "joint_inv cfg rn r (joint_step cfg rn r loc ws e)" if "joint_inv cfg rn r ws" "joint_enabled loc ws e" for ws e
    using joint_inv_step that by (cases ws) blast
qed

lemma call_asked:
  assumes "space_inv w" "workspace_enabled loc w e" "workspace_call loc ids w e = Some (k, p)" "k \<in> lifecycle_keys"
  shows "(\<exists>c. asked k p = Some c) \<and> sendable k p \<and> (k = ''revise'' \<longrightarrow> ws_mode w = ReviseMode) \<and>
    (k = ''confirm-payment'' \<longrightarrow> (\<exists>q. od_payment (ws_order w) = Some q \<and> card_pays q k))"
proof -
  have m: "mode_inv w" using assms(1) by (simp add: space_inv_def)
  have nc: "k \<noteq> ''cancel''" and ok: "payload_ok p" using call_mode [OF assms] by simp_all
  from assms(3,4) show ?thesis
  proof (cases rule: call_kinds)
    case act
    then have "offered (OrderWorkspace loc w) (Act k)" using assms(2) by (simp add: workspace_enabled_def)
    from offered_Act [OF this m] show ?thesis using act(2) by (auto simp: asked_def card_pays_def)
  next
    case deliver
    then show ?thesis using ok by (simp add: asked_def)
  next
    case (revise n)
    then have "offered (OrderWorkspace loc w) e" using assms(2) by (simp add: workspace_enabled_def)
    then have "ws_mode w = ReviseMode"
      using offered_OrderWorkspace [of loc w e] revise(1) m
      by (auto simp: offered_action_bar mode_inv_def dest: offered_inspection)
    then show ?thesis using revise ok by (simp add: asked_def)
  next
    case cancel
    then show ?thesis using assms(3) nc by (simp split: if_splits)
  next
    case (dispute c)
    then show ?thesis using ok by (simp add: asked_def)
  qed
qed

text \<open>A payment out of place is refused, and changes nothing.\<close>

lemma stray_refused:
  assumes "view_role a s = Inr r" "stray_payment (order_view cfg rn r s) k" "asked k p = Some c"
  shows "\<exists>e. exec cfg now token a c s = (Some e, s)"
  using assms(2) unfolding stray_payment_def order_view_simps
proof (elim disjE conjE exE)
  assume "k = ''pay''" "r = Expert" "or_status (os_order s) = Awaiting_payment"
  then have "c = Pay" "or_student (os_order s) \<noteq> acct_id a"
    using assms(1,3) by (auto simp: asked_def view_role_def split: if_splits)
  then show ?thesis using assms(1) by (simp add: as_party_def atomically_def start_payment_def)
next
  fix q
  assume r: "r = Student" and st: "or_status (os_order s) \<noteq> Awaiting_payment"
    and q: "od_payment (order_view cfg rn r s) = Some q" "card_pays q k"
  obtain y where y: "os_payment s = Some y" using q(1) by (auto simp: order_view_def Let_def)
  consider "k = ''pay''" "c = Pay" | "k = ''confirm-payment''" "c = ConfirmPayment"
    using q(2) assms(3) by (auto simp: card_pays_def asked_def)
  then show ?thesis
  proof cases
    case 1
    then show ?thesis using st assms(1) by (simp add: as_party_def atomically_def start_payment_def)
  next
    case 2
    have "\<exists>e. confirm_payment_atomic (activate_order_on_payment now) now (Some (acct_id a)) y s = Inl (Inr e)"
      using st by (simp add: confirm_payment_atomic_def Let_def)
    then show ?thesis
      using 2 y assms(1) by (auto simp: confirm_view_def confirm_payment_def)
  qed
qed

lemma stray_undocumented:
  "stray_payment ord k \<Longrightarrow> documented (od_role ord) (od_status ord) k = None"
  by (cases "od_role ord"; cases "od_status ord") (auto simp: stray_payment_def card_pays_def)

section \<open>A delivered order\<close>

definition sample_delivered_calls :: "order_call list" where
  "sample_delivered_calls =
     [(60, ''77'', support_staff, OperatorConfirm),
      (90, ''d1'', \<lparr>acct_id = 2, acct_staff = False\<rparr>, Deliver sample_summary [])]"

definition sample_delivered :: order_state where
  "sample_delivered = run (backend_step default_config) booked_order sample_delivered_calls"

lemma sample_delivered_facts:
  "backend_reach default_config sample_delivered" "or_status (os_order sample_delivered) = Delivered"
  "parties sample_delivered = (''o1'', 1, 2)" "os_dispute sample_delivered = None"
proof -
  let ?e = "\<lparr>acct_id = 2, acct_staff = False\<rparr> :: account"
  obtain s where s: "exec default_config 60 ''77'' support_staff OperatorConfirm booked_order = (None, s)"
    "or_status (os_order s) = Active" "os_dispute s = None" "parties s = (''o1'', 1, 2)"
    by (rule sample_active)
  have "backend_reach default_config (backend_step default_config booked_order (60, ''77'', support_staff, OperatorConfirm))"
    by (rule reach.intros(2) [OF booked_order_reach]) simp
  then have r: "backend_reach default_config s" unfolding backend_step.simps s(1) snd_conv .
  have d: "deliveries_inv s" using order_backend.reach_inv [OF r] by (simp add: backend_inv_def)
  obtain s' where s': "exec default_config 90 ''d1'' ?e (Deliver sample_summary []) s = (None, s')"
      "or_status (os_order s') = Delivered"
    by (rule delivery_ok [OF d, of ?e sample_summary "[]" default_config 90 "''d1''"])
      (use s in \<open>simp_all add: sample_summary_length MIN_DELIVERY_SUMMARY_def parties_def\<close>)
  have eq: "sample_delivered = s'"
    unfolding sample_delivered_def sample_delivered_calls_def run.simps backend_step.simps s(1) snd_conv s'(1) ..
  show "or_status (os_order sample_delivered) = Delivered" by (simp add: eq s'(2))
  have ask: "asked ''deliver'' (DeliveryPayload sample_summary []) = Some (Deliver sample_summary [])"
    by (simp add: asked_def)
  have "submit_delivery 90 ''d1'' ?e sample_summary [] s = Inr s'" using s'(1) by (simp add: exec_as_party)
  then have "os_dispute s' = os_dispute s" by (cases rule: submit_delivery_cases) simp
  then show "os_dispute sample_delivered = None" by (simp add: eq s(3))
  from asked_parties [OF ask s'(1)] show "parties sample_delivered = (''o1'', 1, 2)" by (simp add: eq s(4))
  have "backend_reach default_config (backend_step default_config s (90, ''d1'', ?e, Deliver sample_summary []))"
    by (rule reach.intros(2) [OF r]) simp
  then show "backend_reach default_config sample_delivered" unfolding backend_step.simps s'(1) snd_conv eq .
qed

definition sample_rendering :: rendering where
  "sample_rendering =
     \<lparr>rn_iso = (\<lambda>t. show_int t), rn_attachment = (\<lambda>i. \<lparr>at_id = i, at_name = i, at_size = 1, at_type = []\<rparr>),
      rn_payment_id = ''p1'', rn_detail = (\<lambda>d. JStr (od_id d)), rn_brief = (\<lambda>c s. JObj [])\<rparr>"

abbreviation sample_student :: account where
  "sample_student \<equiv> \<lparr>acct_id = 1, acct_staff = False\<rparr>"

text \<open>A cast that reads the one view the page gets after the approval.\<close>

definition approved_casts :: casts where
  "approved_casts = one_order_casts\<lparr>order_of := (\<lambda>v. order_view default_config sample_rendering Student
     (snd (exec default_config 120 ''t'' sample_student Approve sample_delivered)))\<rparr>"

lemma sample_delivered_view:
  "view_role sample_student sample_delivered = Inr Student" "or_id (os_order sample_delivered) = ''o1''"
  using sample_delivered_facts(3) by (simp_all add: parties_def view_role_def)

text \<open>
  What the backend takes and no page sends: the delivery after a revision request, and the expert's dispute.
\<close>

lemma redelivery_left_out:
  assumes "joint_reach cfg rn Expert loc (w, s)" "ws_order w = order_view cfg rn Expert s"
    and "view_role a s = Inr Expert" "or_status (os_order s) = Revision_requested"
    and "sendable ''deliver'' (DeliveryPayload t ids)" "acceptable a s (DeliveryPayload t ids)"
  shows "(\<exists>s'. exec cfg now token a (Deliver t ids) s = (None, s') \<and> or_status (os_order s') = Delivered) \<and>
    \<not> (\<exists>e js p. joint_enabled loc (w, s) (OnPage e) \<and> workspace_call loc js w e = Some (''deliver'', p))"
proof -
  have inv: "joint_inv cfg rn Expert (w, s)" by (rule joint.reach_inv [OF assms(1)])
  then have m: "space_inv w" and b: "backend_inv s" "ready_inv cfg s" by simp_all
  have doc: "documented Expert (or_status (os_order s)) ''deliver'' = Some Delivered" by (simp add: assms(4))
  have ask: "asked ''deliver'' (DeliveryPayload t ids) = Some (Deliver t ids)" by (simp add: asked_def)
  obtain s' where "exec cfg now token a (Deliver t ids) s = (None, s')" "or_status (os_order s') = Delivered"
    by (rule documented_accepted [OF b assms(3) doc ask assms(5,6), of now token]) (simp_all add: permitted_def)
  moreover have False if "joint_enabled loc (w, s) (OnPage e)" "workspace_call loc js w e = Some (''deliver'', p)" for e js p
    using call_mode [OF m _ that(2)] that(1) assms(2,4) by (simp add: lifecycle_keys_def)
  ultimately show ?thesis by blast
qed

lemma expert_dispute_left_out:
  assumes "joint_reach cfg rn Expert loc (w, s)" "ws_order w = order_view cfg rn Expert s"
    and "view_role a s = Inr Expert" "or_status (os_order s) = Active" "os_dispute s = None"
    and "sendable ''open-dispute'' (DisputePayload q d ids)" "acceptable a s (DisputePayload q d ids)"
  shows "(\<exists>s'. exec cfg now token a (OpenDispute q d ids) s = (None, s') \<and> or_status (os_order s') = Disputed) \<and>
    \<not> (\<exists>e js p. joint_enabled loc (w, s) (OnPage e) \<and> workspace_call loc js w e = Some (''open-dispute'', p))"
proof -
  have inv: "joint_inv cfg rn Expert (w, s)" by (rule joint.reach_inv [OF assms(1)])
  then have m: "space_inv w" and b: "backend_inv s" "ready_inv cfg s" by simp_all
  have doc: "documented Expert (or_status (os_order s)) ''open-dispute'' = Some Disputed" by (simp add: assms(4))
  have ask: "asked ''open-dispute'' (DisputePayload q d ids) = Some (OpenDispute q d ids)" by (simp add: asked_def)
  obtain s' where "exec cfg now token a (OpenDispute q d ids) s = (None, s')" "or_status (os_order s') = Disputed"
    by (rule documented_accepted [OF b assms(3) doc ask assms(6,7), of now token]) (simp_all add: permitted_def assms(4,5))
  moreover have False if "joint_enabled loc (w, s) (OnPage e)" "workspace_call loc js w e = Some (''open-dispute'', p)" for e js p
    using call_mode [OF m _ that(2)] that(1) assms(2) by (simp add: lifecycle_keys_def)
  ultimately show ?thesis by blast
qed

section \<open>Properties\<close>

text \<open>
  C18: Each documented action of a participant goes through from end to end: payment, its confirmation,
  delivery, approval, revision request, cancellation, dispute. Whatever has happened to the order, an action the
  documents allow this side in the order's status, sent with a text and files the backend takes and under the
  documented conditions (\<open>permitted\<close>: a revision left, the manual gateway and, for the self-confirmation,
  its switch, a first dispute within its window), is routed to its operation and accepted; the order
  has the documented status - a started payment leaves it unpaid, with a pending payment - and the page, busy no
  more, shows the order as the backend then has it. Assumed of what is not modelled: JSON reads back
  the body that was written, the cast reads the view that was rendered, and the two views of the side
  panels only read.
\<close>

theorem action_end_to_end:
  assumes "backend_reach cfg s" "view_role a s = Inr r" "or_id (os_order s) = oid" "oid \<noteq> []"
    and "documented r (or_status (os_order s)) k = Some st" "asked k p = Some c"
    and "sendable k p" "acceptable a s p" "permitted cfg (fst (clock n)) s k"
    and loads: "loads (stringify (action_body k p)) = Some (action_body k p)"
    and cast: "\<And>s1. exec cfg (fst (clock n)) (snd (clock n)) a c s = (None, s1) \<Longrightarrow>
      order_of dec (rn_detail rn (order_view cfg rn r s1)) = order_view cfg rn r s1"
    and reads: "\<And>t. snd (rest (reviewsApi_forOrder oid) t) = t" "\<And>t. snd (rest (disputesApi_forOrder oid) t) = t"
    and run: "onAction (order_http rest loads rn cfg clock a) dec oid k p pg (s, n) = (res, pg', s', n')"
  shows "res = Inr () \<and> or_status (os_order s') = st \<and> backend_reach cfg s' \<and>
    pg_order pg' = Some (order_view cfg rn r s') \<and> \<not> pg_failed pg' \<and> \<not> pg_busy pg' \<and>
    (k = ''pay'' \<longrightarrow> (\<exists>q. os_payment s' = Some q \<and> pr_status q = Pay_pending))"
proof -
  have inv: "backend_inv s" "ready_inv cfg s" using ready_backend.reach_inv [OF assms(1)] by simp_all
  obtain s1 where s1: "exec cfg (fst (clock n)) (snd (clock n)) a c s = (None, s1)" "or_status (os_order s1) = st"
      "k = ''pay'' \<longrightarrow> (\<exists>q. os_payment s1 = Some q \<and> pr_status q = Pay_pending)"
    by (rule documented_accepted [OF inv assms(2,5-9), of "snd (clock n)"])
  have kept: "parties s1 = parties s" by (rule asked_parties [OF assms(6) s1(1)])
  have r1: "view_role a s1 = Inr r" "or_id (os_order s1) = oid"
    using view_role_parties [OF kept, of a] kept assms(2,3) by (simp_all add: parties_def)
  have "backend_reach cfg (backend_step cfg s (fst (clock n), snd (clock n), a, c))"
    by (rule reach.intros(2) [OF assms(1)]) simp
  then have reach: "backend_reach cfg s1" unfolding backend_step.simps s1(1) by simp
  obtain i keep where i: "action_request dec oid k p = Some (i, keep)" "second_request dec k p = None"
      "init_method i = Some ''POST''"
    by (rule asked_request [OF assms(6)])
  have post: "order_http rest loads rn cfg clock a i (s, n) = (Inr (rn_brief rn c s1), (s1, Suc n))"
    by (rule http_action [where loads = loads and clock = clock and dec = dec, OF assms(6) i(1) loads i(3) assms(3) s1(1)])
  obtain pg1 where load: "load_order (order_http rest loads rn cfg clock a) dec oid
        (keep (rn_brief rn c s1) (pg\<lparr>pg_busy := True\<rparr>)) (s1, Suc n)
        = (pg1, (s1, Suc (Suc (Suc (Suc n)))))"
      "pg_order pg1 = Some (order_view cfg rn r s1)" "\<not> pg_failed pg1"
    by (rule load_after_action [where rest = rest and dec = dec and rn = rn, OF r1 assms(4) cast [OF s1(1)] reads(1) reads(2)])
  have "onAction (order_http rest loads rn cfg clock a) dec oid k p pg (s, n)
      = (Inr (), pg1\<lparr>pg_busy := False\<rparr>, s1, Suc (Suc (Suc (Suc n))))"
    using assms(4) i post load(1) by (simp add: onAction_def dispatch_def request_then_def)
  then show ?thesis using run s1(2,3) load(2,3) reach by simp
qed

theorem action_end_to_end_witness:
  "\<exists>pg' s' n'. onAction (order_http (\<lambda>i t. (Inr JNull, t)) (\<lambda>t. Some (JObj [])) sample_rendering default_config
        (\<lambda>n. (120, ''t'')) sample_student) approved_casts ''o1'' ''approve'' NoPayload order_page_init
        (sample_delivered, 0) = (Inr (), pg', s', n') \<and>
     or_status (os_order s') = Completed \<and>
     pg_order pg' = Some (order_view default_config sample_rendering Student s')"
proof -
  obtain res pg' s' n' where r: "onAction (order_http (\<lambda>i t. (Inr JNull, t)) (\<lambda>t. Some (JObj [])) sample_rendering
      default_config (\<lambda>n. (120, ''t'')) sample_student) approved_casts ''o1'' ''approve'' NoPayload order_page_init
      (sample_delivered, 0) = (res, pg', s', n')"
    by (rule prod_cases4)
  have "res = Inr () \<and> or_status (os_order s') = Completed \<and> backend_reach default_config s' \<and>
      pg_order pg' = Some (order_view default_config sample_rendering Student s') \<and> \<not> pg_failed pg' \<and> \<not> pg_busy pg' \<and>
      (''approve'' = ''pay'' \<longrightarrow> (\<exists>q. os_payment s' = Some q \<and> pr_status q = Pay_pending))"
    by (rule action_end_to_end [OF sample_delivered_facts(1) sample_delivered_view(1,2), where c = Approve, OF _ _ _ _ _ _ _ _ _ _ r])
      (simp_all add: sample_delivered_facts(2) approved_casts_def asked_def permitted_def)
  then show ?thesis using r by blast
qed

text \<open>
  C19: What a page that is up to date asks for, the backend does. One side's page is open beside the
  backend, which others change in between; if the order it has is the order as the backend has it (and its
  panel shows the dispute there is), each action its tree lets the user send that moves the order is accepted
  and leads to the documented status, given own files, a text without the separators that only the
  backend strips, the manual gateway for a payment, and the days of the window for a dispute after completion,
  which the page does not count. One kind of action is refused, with an error and no effect: a payment out of
  place (\<open>stray_payment\<close>), which the page offers to the expert of an unpaid order and to the student whose
  order moved on with an attempt that had failed.
\<close>

theorem current_page_accepted:
  assumes "joint_reach cfg rn r loc (w, s)" "ws_order w = order_view cfg rn r s" "view_role a s = Inr r"
    and "ws_dispute w = None \<Longrightarrow> os_dispute s = None"
    and "joint_enabled loc (w, s) (OnPage e)" "workspace_call loc ids w e = Some (k, p)" "k \<in> lifecycle_keys"
    and "acceptable a s p"
    and "k \<in> {''pay'', ''confirm-payment''} \<Longrightarrow> get_gateway (cf_gateway cfg) = ''manual''"
    and "k = ''open-dispute'' \<Longrightarrow> or_status (os_order s) = Completed \<Longrightarrow> \<not> window_closed cfg now (os_order s)"
  shows "\<exists>c. asked k p = Some c \<and>
    (if stray_payment (ws_order w) k then \<exists>x. exec cfg now token a c s = (Some x, s)
     else \<exists>s'. exec cfg now token a c s = (None, s') \<and>
       documented r (or_status (os_order s)) k = Some (or_status (os_order s')))"
proof -
  have inv: "joint_inv cfg rn r (w, s)" by (rule joint.reach_inv [OF assms(1)])
  then have m: "space_inv w" and b: "backend_inv s" "ready_inv cfg s" by simp_all
  have en: "workspace_enabled loc w e" using assms(5) by simp
  note mode = call_mode [OF m en assms(6,7)]
  obtain c where c: "asked k p = Some c" using call_asked [OF m en assms(6,7)] by blast
  have send: "sendable k p" "k = ''revise'' \<Longrightarrow> ws_mode w = ReviseMode"
    "k = ''confirm-payment'' \<Longrightarrow> \<exists>q. od_payment (ws_order w) = Some q \<and> card_pays q k"
    using call_asked [OF m en assms(6,7)] by blast+
  show ?thesis
  proof (cases "stray_payment (ws_order w) k")
    case True
    then show ?thesis using stray_refused [OF assms(3) _ c] assms(2) c by simp
  next
    case False
    then obtain st where st: "documented r (or_status (os_order s)) k = Some st" using mode assms(2) by auto
    have "or_revisions_used (os_order s) < or_revisions_allowed (os_order s)" if "k = ''revise''"
      using send(2) [OF that] inv assms(2) by simp
    moreover have "cf_dev_self_confirm cfg" if "k = ''confirm-payment''"
      using send(3) [OF that] that assms(2)
      by (auto simp: card_pays_def order_view_def payment_meta_def Let_def)
    moreover have "os_dispute s = None" if "k = ''open-dispute''" using mode that assms(4) by simp
    ultimately have ok: "permitted cfg now s k" using assms(9,10) by (auto simp: permitted_def)
    obtain s' where "exec cfg now token a c s = (None, s')" "or_status (os_order s') = st"
      by (rule documented_accepted [OF b assms(3) st c send(1) assms(8) ok, of token])
    then show ?thesis using c st False by auto
  qed
qed

theorem current_page_accepted_witness:
  "\<exists>c s'. asked ''approve'' NoPayload = Some c \<and>
     exec default_config 120 ''t'' sample_student c sample_delivered = (None, s') \<and>
     documented Student (or_status (os_order sample_delivered)) ''approve'' = Some (or_status (os_order s'))"
proof -
  let ?v = "order_view default_config sample_rendering Student sample_delivered"
  let ?w = "workspace_init ?v None None"
  have reach: "joint_reach default_config sample_rendering Student plain_locale (?w, sample_delivered)"
    by (rule reach.intros(1)) (use sample_delivered_facts(1) in \<open>auto simp: joint_start_def\<close>)
  have "offered (action_bar ?w) (Act ''approve'')"
    by (simp add: offered_action_bar workspace_init_def sample_delivered_facts(2))
  then have en: "joint_enabled plain_locale (?w, sample_delivered) (OnPage (Act ''approve''))"
    by (simp add: workspace_enabled_def offered_bar)
  have view: "ws_order ?w = ?v" by (simp add: workspace_init_def)
  have call: "workspace_call plain_locale [] ?w (Act ''approve'') = Some (''approve'', NoPayload)" by simp
  show ?thesis
    using current_page_accepted [OF reach view sample_delivered_view(1) _ en call, of 120 "''t''"] sample_delivered_facts(4)
    by (simp add: lifecycle_keys_def stray_payment_def card_pays_def workspace_init_def sample_delivered_facts(2))
qed

end
