(* ===== verification/SelectionContract.thy ===== *)
theory SelectionContract
  imports BiddingServer OrderContract
begin

text \<open>
  The owner's page of a request and the backend together: the list of offers as the page reads it, the
  routes of \<open>apps/bidding/api/urls.py\<close>, and what becomes of the actions of a page that is up to date.
\<close>

section \<open>The list of offers\<close>

definition offer_rate :: int where "offer_rate = 1500"

text \<open>\<open>OfferForStudentSerializer\<close>. The preview is made with the built-in rate, not with the configured one.\<close>

definition offer_view :: "rendering \<Rightarrow> (int \<Rightarrow> expert_card option) \<Rightarrow> string \<Rightarrow> offer_row \<Rightarrow> offer" where
  "offer_view rn face rid f =
     (case commission_split (fr_amount f) offer_rate of
        (commission, net) \<Rightarrow>
          \<lparr>of_id = fr_id f, of_request = rid, of_amount = nat (fr_amount f),
           of_amount_display = number_text (to_major (fr_amount f) (fr_currency f)), of_currency = fr_currency f,
           of_timeline = fr_timeline f, of_message = fr_message f, of_status = fr_status f,
           of_responded_at = map_option (rn_iso rn) (fr_responded_at f), of_response_reason = fr_reason f,
           of_net_preview = Some (nat commission, nat net), of_expert = face (fr_expert f)\<rparr>)"

text \<open>A declined offer is listed only if no reason was given. The newest comes first.\<close>

definition listed_offers :: "rendering \<Rightarrow> (int \<Rightarrow> expert_card option) \<Rightarrow> market \<Rightarrow> offer list" where
  "listed_offers rn face m =
     map (offer_view rn face (rr_id (mk_request m)))
       (filter (\<lambda>f. fr_status f \<noteq> Of_declined \<or> fr_reason f = []) (rev (mk_offers m)))"

lemma offer_view_simps [simp]:
  "of_id (offer_view rn face rid f) = fr_id f" "of_status (offer_view rn face rid f) = fr_status f"
  by (simp_all add: offer_view_def split: prod.split)

section \<open>Routes\<close>

definition request_path :: "string \<Rightarrow> string \<Rightarrow> string" where
  "request_path rid part = ''/api/v1/me/requests/'' @ rid @ part"

definition selection_path :: "string \<Rightarrow> string \<Rightarrow> string \<Rightarrow> string" where
  "selection_path rid oid part = request_path rid (''/offers/'' @ oid @ part)"

text \<open>
  The owner's requests on the offers of a request and on the request itself, by the identifiers there are.
  A reason that is no text breaks the service.
\<close>

definition selection_route ::
    "(string \<Rightarrow> json option) \<Rightarrow> string \<Rightarrow> string \<Rightarrow> market \<Rightarrow> api_init \<Rightarrow> (domain_error + bid_command) option" where
  "selection_route loads order_id number m i =
     (let rid = rr_id (mk_request m); v = body_json loads i;
          wants = (\<lambda>part. find (\<lambda>f. init_path i = selection_path rid (fr_id f) part) (mk_offers m))
      in if init_method i \<noteq> Some ''POST'' then None
         else if init_path i = request_path rid ''/cancel''
         then Some (case text_field ''reason'' v of
                      None \<Rightarrow> Inl server_error | Some t \<Rightarrow> Inr (OwnRequest (Cancel_request t)))
         else (case wants ''/accept'' of
                 Some f \<Rightarrow> Some (Inr (SelectOffer (fr_id f) order_id number))
               | None \<Rightarrow>
                   (case wants ''/decline'' of
                      Some f \<Rightarrow> Some (case text_field ''reason'' v of
                                       None \<Rightarrow> Inl server_error | Some t \<Rightarrow> Inr (RefuseOffer (fr_id f) t))
                    | None \<Rightarrow> None)))"

lemma selection_path_eq [simp]: "selection_path rid a part = selection_path rid b part \<longleftrightarrow> a = b"
  by (simp add: selection_path_def request_path_def)

lemma accept_not_decline [simp]: "selection_path rid a ''/decline'' \<noteq> selection_path rid b ''/accept''"
proof
  assume "selection_path rid a ''/decline'' = selection_path rid b ''/accept''"
  then have "last (selection_path rid a ''/decline'') = last (selection_path rid b ''/accept'')" by simp
  then show False by (simp add: selection_path_def request_path_def)
qed

lemma selection_requests:
  "init_method (selectionApi_accept rid oid) = Some ''POST''" "init_method (selectionApi_decline rid oid t) = Some ''POST''"
  "init_method (requestsApi_cancel rid t) = Some ''POST''"
  "init_path (selectionApi_accept rid oid) = selection_path rid oid ''/accept''"
  "init_path (selectionApi_decline rid oid t) = selection_path rid oid ''/decline''"
  "init_path (requestsApi_cancel rid t) = request_path rid ''/cancel''"
  "init_body (selectionApi_decline rid oid t) = Some (BText (stringify (JObj [(''reason'', JStr t)])))"
  "init_body (requestsApi_cancel rid t) = Some (BText (stringify (JObj [(''reason'', JStr t)])))"
  by (simp_all add: selectionApi_accept_def selectionApi_decline_def requestsApi_cancel_def typed_def json_req_def
      selection_path_def request_path_def)

lemma selection_path_not_cancel [simp]:
  "selection_path rid a part \<noteq> request_path rid ''/cancel''"
  by (simp add: selection_path_def request_path_def)

lemma routed_selection:
  assumes "offer_of oid m = Some f" "rid = rr_id (mk_request m)"
    and "loads (stringify (JObj [(''reason'', JStr [])])) = Some (JObj [(''reason'', JStr [])])"
  shows "selection_route loads order_id number m (selectionApi_accept rid oid) = Some (Inr (SelectOffer oid order_id number))"
    "selection_route loads order_id number m (selectionApi_decline rid oid []) = Some (Inr (RefuseOffer oid []))"
proof -
  have f: "find (\<lambda>f. oid = fr_id f) (mk_offers m) = Some f" "fr_id f = oid"
    using assms(1) offer_of_mem [OF assms(1)] by (simp_all add: offer_of_def eq_commute)
  show "selection_route loads order_id number m (selectionApi_accept rid oid) = Some (Inr (SelectOffer oid order_id number))"
    using f assms(2) by (simp add: selection_route_def Let_def selection_requests)
  have "find (\<lambda>f. False) (mk_offers m) = None" by (simp add: find_None_iff)
  then show "selection_route loads order_id number m (selectionApi_decline rid oid []) = Some (Inr (RefuseOffer oid []))"
    using f assms(2,3) by (simp add: selection_route_def Let_def selection_requests body_json_def)
qed

lemma routed_cancel:
  assumes "rid = rr_id (mk_request m)"
    and "loads (stringify (JObj [(''reason'', JStr [])])) = Some (JObj [(''reason'', JStr [])])"
  shows "selection_route loads order_id number m (requestsApi_cancel rid []) = Some (Inr (OwnRequest (Cancel_request [])))"
  using assms by (simp add: selection_route_def Let_def selection_requests body_json_def)

section \<open>A page that is up to date\<close>

definition page_current ::
    "rendering \<Rightarrow> (int \<Rightarrow> expert_card option) \<Rightarrow> account \<Rightarrow> market \<Rightarrow> request_page \<Rightarrow> bool" where
  "page_current rn face a m p \<longleftrightarrow>
     rp_offers p = Some (listed_offers rn face m) \<and>
     (case rp_request p of
        None \<Rightarrow> False
      | Some r \<Rightarrow>
          sr_id r = rr_id (mk_request m) \<and> sr_status r = rr_status (mk_request m) \<and>
          sr_student_view r = (rr_student (mk_request m) = acct_id a))"

text \<open>What such a page offers is about an offer there is, pending, on an open request.\<close>

lemma current_offer:
  assumes "market_inv cfg m" "page_current rn face a m p"
    and "offered (RequestDetailPage p) e" "e = SelectExpert oid \<or> e = DeclineOffer oid"
  obtains f where "offer_of oid m = Some f" "fr_status f = Of_pending" "rr_status (mk_request m) = Rq_open"
    "rr_student (mk_request m) = acct_id a"
proof -
  obtain r o1 where r: "rp_request p = Some r" "sr_status r = Rq_open" "sr_student_view r"
    and o1: "o1 \<in> set (listed_offers rn face m)" "of_id o1 = oid" "of_status o1 = Of_pending"
    using assms(2-4)
    by (auto simp: offered_RequestDetailPage offered_request_head offered_offer_card page_current_def canAcceptOffers_def)
  then obtain f where f: "f \<in> set (mk_offers m)" "fr_id f = oid" "fr_status f = Of_pending"
    by (auto simp: listed_offers_def)
  have "offer_of oid m = Some f"
    by (rule offer_of_unique) (use assms(1) f in \<open>simp_all add: market_defs\<close>)
  then show ?thesis using that f r assms(2) by (simp add: page_current_def)
qed

text \<open>The state after a refusal and after a selection.\<close>

lemma declined_offer:
  assumes "market_inv cfg m" "offer_of oid m = Some f" "fr_id g = oid"
  shows "offer_of oid (save_offer g m) = Some g"
proof -
  have d: "distinct (map fr_id (mk_offers m))" using assms(1) by (simp add: market_defs)
  then obtain xs ys where x: "mk_offers m = xs @ f # ys" "fr_id f = oid" "save_offer g m = m\<lparr>mk_offers := xs @ g # ys\<rparr>"
    by (rule offer_split [OF _ assms(2)]) (use assms(3) in blast)
  show ?thesis by (rule offer_of_unique) (use d x assms(3) in auto)
qed

lemma selected_offer:
  assumes "market_inv cfg m" "offer_of oid m = Some f" "accept_offer cfg now w a order_id number f m = Inr m'"
  shows "rr_status (mk_request m') = Rq_matched \<and>
    (\<exists>s f. mk_order m' = Some s \<and> backend_reach cfg s \<and> or_status (os_order s) = Awaiting_payment \<and>
       accepted_offers m' = [f] \<and> fr_id f = oid \<and> order_of_offer f s)"
proof -
  have inv: "market_inv cfg m'" by (rule accept_offer_inv [OF assms(3,1,2)])
  have d: "distinct (map fr_id (mk_offers m))" using assms(1) by (simp add: market_defs)
  show ?thesis
    using assms(3,2) d
  proof (cases rule: accept_offer_cases)
    case (1 s xs ys)
    let ?g = "f\<lparr>fr_status := Of_accepted, fr_responded_at := Some now\<rparr>"
    obtain h where h: "accepted_offers m' = [h]" "order_of_offer h s" "backend_reach cfg s"
      using inv 1(9) by (auto simp: market_inv_def selection_inv_def)
    have "?g \<in> set (accepted_offers m')" by (simp add: accepted_offers_def 1(10))
    then have "h = ?g" using h(1) by simp
    then have "fr_id h = oid" using offer_of_mem [OF assms(2)] by simp
    then show ?thesis using 1(8,9) create_order_from_offer_Inr(3) [OF 1(7)] h by auto
  qed
qed

definition open_page :: "rendering \<Rightarrow> request_page" where
  "open_page rn =
     request_page_init\<lparr>rp_request := Some (sample_request\<lparr>sr_id := ''r1''\<rparr>),
       rp_offers := Some (listed_offers rn (\<lambda>_. None) open_market), rp_jobs := []\<rparr>"

lemma open_page_current: "page_current rn (\<lambda>_. None) (sample_account 1) open_market (open_page rn)"
  by (simp add: page_current_def open_page_def open_market_fields sample_request_def matched_request_def)

lemma open_page_offers: "request_page_enabled (open_page rn) (SelectExpert ''f1'')"
proof -
  let ?f = "offer_view rn (\<lambda>_. None) (rr_id matched_request) (new_offer (sample_account 2) ''f1'' sample_payload)"
  have "?f \<in> set (listed_offers rn (\<lambda>_. None) open_market)"
    by (simp add: listed_offers_def open_market_fields)
  moreover have "offers (offer_card (open_page rn) (sample_request\<lparr>sr_id := ''r1''\<rparr>) ?f) (SelectExpert ''f1'')"
    by (simp add: offered_offer_card sample_request_def canAcceptOffers_def open_page_def request_page_init_def)
  ultimately show ?thesis
    by (auto simp: offered_RequestDetailPage open_page_def sample_request_def)
qed

section \<open>Properties\<close>

text \<open>
  C20: What the owner's page of a request offers, when it is up to date, the backend accepts. Selecting an
  eligible expert, declining an offer and cancelling the request are routed to their operations and
  accepted: the selection ends with an order that awaits its payment, is with the expert and at the price
  of the chosen offer, the only one accepted. Assumed of what is not modelled: JSON reads back the
  body that was written.
\<close>

theorem current_selection_accepted:
  assumes "market_reach cfg m" "page_current rn face a m p" "rr_student (mk_request m) = acct_id a"
    and "request_page_enabled p e" "request_page_call rid p e = Some i"
    and "e = SelectExpert oid \<or> e = DeclineOffer oid \<or> e = CancelRequest"
    and "\<And>f. e = SelectExpert oid \<Longrightarrow> offer_of oid m = Some f \<Longrightarrow> expert_is_eligible (bw_experts w (fr_expert f))"
    and loads: "loads (stringify (JObj [(''reason'', JStr [])])) = Some (JObj [(''reason'', JStr [])])"
  shows "\<exists>c m'. selection_route loads order_id number m i = Some (Inr c) \<and> exec_bid cfg now w a c m = (None, m') \<and>
    (e = CancelRequest \<and> rr_status (mk_request m') = Rq_cancelled \<or>
     e = DeclineOffer oid \<and> rr_status (mk_request m') = Rq_open \<and>
       (\<exists>f. offer_of oid m' = Some f \<and> fr_status f = Of_declined) \<or>
     e = SelectExpert oid \<and> rr_status (mk_request m') = Rq_matched \<and>
       (\<exists>s f. mk_order m' = Some s \<and> backend_reach cfg s \<and> or_status (os_order s) = Awaiting_payment \<and>
         accepted_offers m' = [f] \<and> fr_id f = oid \<and> order_of_offer f s))"
proof -
  have inv: "market_inv cfg m" by (rule bidding.reach_inv [OF assms(1)])
  have off: "offered (RequestDetailPage p) e" using assms(4,6) by auto
  obtain r where r: "rp_request p = Some r" "sr_id r = rr_id (mk_request m)" "sr_status r = rr_status (mk_request m)"
    using assms(2) by (auto simp: page_current_def split: option.splits)
  consider "e = CancelRequest" | "e = DeclineOffer oid" | "e = SelectExpert oid" using assms(6) by blast
  then show ?thesis
  proof cases
    case 1
    have "rr_status (mk_request m) = Rq_open"
      using off r 1 by (auto simp: offered_RequestDetailPage offered_request_head offered_offer_card canAcceptOffers_def)
    moreover have "i = requestsApi_cancel (rr_id (mk_request m)) []" using assms(5) 1 r by simp
    ultimately show ?thesis
      using assms(3) 1 routed_cancel [where loads = loads, OF refl loads] open_no_order [OF inv]
      by (simp add: own_request_def request_exec_def cancel_request_def request_answered_def request_transition_def
          request_TRANSITIONS_def)
  next
    case 2
    then obtain f where f: "offer_of oid m = Some f" "fr_status f = Of_pending" "rr_status (mk_request m) = Rq_open"
      using current_offer [OF inv assms(2) off] by blast
    have "i = selectionApi_decline (rr_id (mk_request m)) oid []" using assms(5) 2 r by simp
    then have "selection_route loads order_id number m i = Some (Inr (RefuseOffer oid []))"
      using routed_selection(2) [where loads = loads, OF f(1) refl loads] by simp
    moreover have "offer_of oid (bid_audit u x t) = offer_of oid t" "mk_request (save_offer g m) = mk_request m" for u x t g
      by (simp_all add: offer_of_def save_offer_def)
    ultimately show ?thesis
      using assms(3) 2 f declined_offer [OF inv f(1)] offer_of_mem [OF f(1)]
      by (simp add: on_offer_def bid_atomically_def decline_offer_def)
  next
    case 3
    then obtain f where f: "offer_of oid m = Some f" "fr_status f = Of_pending" "rr_status (mk_request m) = Rq_open"
      using current_offer [OF inv assms(2) off] by blast
    obtain m' where m': "accept_offer cfg now w a order_id number f m = Inr m'"
      using accept_offer_ok [OF inv f(1) assms(3) f(2,3)] assms(7) [OF 3 f(1)] by blast
    have "i = selectionApi_accept (rr_id (mk_request m)) oid" using assms(5) 3 r by simp
    then have "selection_route loads order_id number m i = Some (Inr (SelectOffer oid order_id number))"
      using routed_selection(1) [where loads = loads, OF f(1) refl loads] by simp
    moreover have "exec_bid cfg now w a (SelectOffer oid order_id number) m = (None, m')"
      by (simp add: on_offer_def f(1) bid_atomically_def m')
    ultimately show ?thesis using selected_offer [OF inv f(1) m'] 3 by blast
  qed
qed

theorem current_selection_accepted_witness:
  "\<exists>c m'. selection_route (\<lambda>_. Some (JObj [(''reason'', JStr [])])) ''o1'' ''SL-1'' open_market
      (selectionApi_accept ''r1'' ''f1'') = Some (Inr c) \<and>
    exec_bid default_config 9 sample_world (sample_account 1) c open_market = (None, m') \<and>
    (\<exists>s f. mk_order m' = Some s \<and> accepted_offers m' = [f] \<and> fr_id f = ''f1'' \<and> order_of_offer f s)"
proof -
  have c: "request_page_call ''r1'' (open_page sample_rendering) (SelectExpert ''f1'') = Some (selectionApi_accept ''r1'' ''f1'')"
    by (simp add: open_page_def sample_request_def request_page_init_def)
  have st: "rr_student (mk_request open_market) = acct_id (sample_account 1)"
    by (simp add: open_market_fields matched_request_def)
  show ?thesis
    using current_selection_accepted [OF open_market_reach open_page_current st open_page_offers c,
      of "''f1''" sample_world "\<lambda>_. Some (JObj [(''reason'', JStr [])])" "''o1''" "''SL-1''" 9]
    by simp blast
qed

end
