(* ===== verification/Session.thy ===== *)
theory Session
  imports Machine ApiClient
begin

text \<open>
  The client-side session: \<open>frontend/src/features/auth/SessionProvider.tsx\<close> and the copy for
  errors in \<open>features/auth/errors.ts\<close>.

  Each call of \<open>refresh\<close> is a run that asks \<open>/api/v1/me\<close>, sleeps and asks again; several runs
  and logouts can be in flight at once, so the provider is a machine whose events are the
  answers, in whatever order they arrive.
\<close>

section \<open>State\<close>

datatype session_status = Loading | Authenticated | Unauthenticated | Unreachable

text \<open>The phase of a refresh run: waiting for the answer of its n-th attempt, or asleep after it.\<close>

datatype phase = Asking nat | Sleeping nat

record 'u provider =
  user :: "'u option"
  status :: session_status
  runs :: "phase list"
  logouts :: nat
  router_refreshes :: nat

definition RETRY_DELAYS_MS :: "nat list" where
  "RETRY_DELAYS_MS = [400, 1200, 3000]"

fun isDefinitivelySignedOut :: "failure \<Rightarrow> bool" where
  "isDefinitivelySignedOut (Api e) = (err_status e = 401 \<or> err_status e = 403)"
| "isDefinitivelySignedOut _ = False"

section \<open>Operations\<close>

text \<open>
  The body of the loop of \<open>refresh\<close>, once the attempt's answer is there: the new state, and the
  delay to sleep for, or \<open>None\<close> when the run returns.
\<close>

definition refresh_answer ::
    "nat \<Rightarrow> failure + 'u \<Rightarrow> 'u provider \<Rightarrow> 'u provider \<times> nat option" where
  "refresh_answer attempt answer p =
     (case answer of
        Inr me \<Rightarrow> (p\<lparr>user := Some me, status := Authenticated\<rparr>, None)
      | Inl error \<Rightarrow>
          (if isDefinitivelySignedOut error
           then (p\<lparr>user := None, status := Unauthenticated\<rparr>, None)
           else if attempt \<ge> length RETRY_DELAYS_MS
           then (p\<lparr>status := (if status p = Authenticated then status p else Unreachable)\<rparr>, None)
           else (p, Some (RETRY_DELAYS_MS ! attempt))))"

text \<open>The \<open>finally\<close> of \<open>logout\<close>, which runs whether the request succeeded or not.\<close>

definition logout_finally :: "'u provider \<Rightarrow> 'u provider" where
  "logout_finally p =
     p\<lparr>user := None, status := Unauthenticated, router_refreshes := Suc (router_refreshes p)\<rparr>"

definition provider_init :: "'u provider" where
  "provider_init =
     \<lparr>user = None, status = Loading, runs = [Asking 0], logouts = 0, router_refreshes = 0\<rparr>"

section \<open>The provider as a machine\<close>

datatype 'u session_event =
    StartRefresh
  | Answer nat "failure + 'u"     \<comment> \<open>the answer the run at this position waits for\<close>
  | Wake nat                      \<comment> \<open>its sleep is over\<close>
  | StartLogout
  | LogoutAnswer "failure + json"

definition remove_nth :: "nat \<Rightarrow> 'a list \<Rightarrow> 'a list" where
  "remove_nth i xs = take i xs @ drop (Suc i) xs"

fun session_enabled :: "'u provider \<Rightarrow> 'u session_event \<Rightarrow> bool" where
  "session_enabled p StartRefresh = True"
| "session_enabled p (Answer i a) = (i < length (runs p) \<and> (\<exists>k. runs p ! i = Asking k))"
| "session_enabled p (Wake i) = (i < length (runs p) \<and> (\<exists>k. runs p ! i = Sleeping k))"
| "session_enabled p StartLogout = True"
| "session_enabled p (LogoutAnswer a) = (0 < logouts p)"

fun session_step :: "'u provider \<Rightarrow> 'u session_event \<Rightarrow> 'u provider" where
  "session_step p StartRefresh = p\<lparr>runs := runs p @ [Asking 0]\<rparr>"
| "session_step p (Answer i a) =
     (case runs p ! i of
        Asking k \<Rightarrow>
          (case refresh_answer k a p of
             (p', None) \<Rightarrow> p'\<lparr>runs := remove_nth i (runs p)\<rparr>
           | (p', Some d) \<Rightarrow> p'\<lparr>runs := (runs p)[i := Sleeping k]\<rparr>)
      | Sleeping k \<Rightarrow> p)"
| "session_step p (Wake i) =
     (case runs p ! i of
        Sleeping k \<Rightarrow> p\<lparr>runs := (runs p)[i := Asking (Suc k)]\<rparr>
      | Asking k \<Rightarrow> p)"
| "session_step p StartLogout = p\<lparr>logouts := Suc (logouts p)\<rparr>"
| "session_step p (LogoutAnswer a) = (logout_finally p)\<lparr>logouts := logouts p - 1\<rparr>"

abbreviation session_reach :: "'u provider \<Rightarrow> bool" where
  "session_reach \<equiv> reach (\<lambda>p. p = provider_init) session_enabled session_step"

text \<open>\<open>useSession\<close> outside the provider throws.\<close>

definition useSession :: "'u provider option \<Rightarrow> failure + 'u provider" where
  "useSession ctx =
     (case ctx of
        None \<Rightarrow> Inl (JsError ''useSession must be used inside <SessionProvider>'')
      | Some p \<Rightarrow> Inr p)"

section \<open>One run against a list of answers\<close>

text \<open>
  A single call of \<open>refresh\<close> with nothing else in flight, given the answer of each attempt: the
  final state, and the delays slept. The recursion is the source's unbounded \<open>for\<close> loop; it ends
  because the attempt reaches the number of delays.
\<close>

function refresh :: "(nat \<Rightarrow> failure + 'u) \<Rightarrow> nat \<Rightarrow> 'u provider \<Rightarrow> 'u provider \<times> nat list" where
  "refresh answers attempt p =
     (case refresh_answer attempt (answers attempt) p of
        (p', None) \<Rightarrow> (p', [])
      | (p', Some d) \<Rightarrow>
          (let (p'', ds) = refresh answers (Suc attempt) p' in (p'', d # ds)))"
  by pat_completeness auto

termination
proof (relation "measure (\<lambda>(answers, attempt, p). length RETRY_DELAYS_MS - attempt)", goal_cases)
  case 1
  then show ?case by simp
next
  case (2 answers attempt p p' x d)
  then have "attempt < length RETRY_DELAYS_MS"
    by (auto simp: refresh_answer_def split: sum.splits if_splits)
  then show ?case by simp
qed

declare refresh.simps [simp del]

section \<open>Copy for errors\<close>

text \<open>
  \<open>authErrorMessage\<close> takes any thrown value; only an object with a \<open>code\<close> is looked at, and in
  this program that is an \<open>ApiError\<close>. A validation error shows the first message of the first
  field, in the order the server sent them.
\<close>

definition validation_message :: "json \<Rightarrow> string" where
  "validation_message details =
     (case details of
        JObj ((k, JArr (JStr m # _)) # _) \<Rightarrow> if k \<noteq> [] then m else ''Please check the highlighted fields.''
      | JArr (JArr (JStr m # _) # _) \<Rightarrow> m
      | _ \<Rightarrow> ''Please check the highlighted fields.'')"

definition generic_message :: string where
  "generic_message = ''Something went wrong. Please try again.''"

fun authErrorMessage :: "failure \<Rightarrow> string" where
  "authErrorMessage (Api e) =
     (let code = err_code e
      in if code = Some (JStr ''invalid_credentials'') then ''Invalid email or password.''
         else if code = Some (JStr ''not_authenticated'') then ''Please sign in to continue.''
         else if code = Some (JStr ''token_invalid'')
           then ''This session or link has expired. Please sign in again.''
         else if code = Some (JStr ''verification_failed'')
           then or_else (err_message e) ''This verification link is invalid or has expired.''
         else if code = Some (JStr ''reset_link_invalid'')
           then ''This reset link is invalid or has expired.''
         else if code = Some (JStr ''throttled'')
           then ''Too many attempts. Please wait a minute and try again.''
         else if code = Some (JStr ''validation_error'') then validation_message (err_details e)
         else or_else (err_message e) generic_message)"
| "authErrorMessage _ = generic_message"

section \<open>Lemmas\<close>

definition session_inv :: "'u provider \<Rightarrow> bool" where
  "session_inv p \<longleftrightarrow>
     (status p = Authenticated \<longleftrightarrow> user p \<noteq> None) \<and>
     (\<forall>r \<in> set (runs p). case r of Asking k \<Rightarrow> k \<le> length RETRY_DELAYS_MS
                                | Sleeping k \<Rightarrow> k < length RETRY_DELAYS_MS)"

lemma set_remove_nth: "set (remove_nth i xs) \<subseteq> set xs"
  unfolding remove_nth_def using set_take_subset set_drop_subset by fastforce

lemma refresh_answer_inv:
  "refresh_answer k a p = (p', d) \<Longrightarrow>
   (status p = Authenticated \<longleftrightarrow> user p \<noteq> None) \<Longrightarrow>
   (status p' = Authenticated \<longleftrightarrow> user p' \<noteq> None) \<and> runs p' = runs p \<and>
   (d \<noteq> None \<longrightarrow> k < length RETRY_DELAYS_MS)"
  by (auto simp: refresh_answer_def split: sum.splits if_splits)

lemma session_inv_init: "session_inv provider_init"
  by (simp add: session_inv_def provider_init_def)

lemma session_inv_Answer:
  assumes "session_inv p" "session_enabled p (Answer i a)"
  shows "session_inv (session_step p (Answer i a))"
proof -
  obtain k where i: "i < length (runs p)" and k: "runs p ! i = Asking k"
    using assms(2) by auto
  obtain p' d where r: "refresh_answer k a p = (p', d)" by fastforce
  from assms(1) have "(status p = Authenticated) = (user p \<noteq> None)"
    by (simp add: session_inv_def)
  note a = refresh_answer_inv [OF r this]
  show ?thesis
  proof (cases d)
    case None
    then show ?thesis
      using assms(1) a k r set_remove_nth [of i "runs p"] by (auto simp: session_inv_def)
  next
    case (Some n)
    then show ?thesis
      using assms(1) a k r set_update_subset_insert [of "runs p" i "Sleeping k"]
      by (auto simp: session_inv_def)
  qed
qed

lemma session_inv_Wake:
  assumes "session_inv p" "session_enabled p (Wake i)"
  shows "session_inv (session_step p (Wake i))"
proof -
  obtain k where i: "i < length (runs p)" and k: "runs p ! i = Sleeping k"
    using assms(2) by auto
  then have "Sleeping k \<in> set (runs p)" by (metis nth_mem)
  then have "k < length RETRY_DELAYS_MS"
    using assms(1) by (auto simp: session_inv_def)
  then show ?thesis
    using assms(1) k set_update_subset_insert [of "runs p" i "Asking (Suc k)"]
    by (auto simp: session_inv_def)
qed

interpretation sess: machine
  "\<lambda>p :: 'u provider. p = provider_init" session_enabled session_step session_inv
proof unfold_locales
  fix p :: "'u provider" and e
  assume "session_inv p" "session_enabled p e"
  then show "session_inv (session_step p e)"
    by (cases e)
      (auto simp del: session_enabled.simps(2,3) session_step.simps(2,3)
        intro: session_inv_Answer session_inv_Wake,
        auto simp: session_inv_def logout_finally_def)
qed (simp add: session_inv_init)

definition transient :: "failure + 'u \<Rightarrow> bool" where
  "transient a \<longleftrightarrow> (\<exists>e. a = Inl e \<and> \<not> isDefinitivelySignedOut e)"

lemma refresh_answer_transient:
  "transient a \<Longrightarrow> k < 3 \<Longrightarrow> refresh_answer k a p = (p, Some (RETRY_DELAYS_MS ! k))"
  by (auto simp: transient_def refresh_answer_def RETRY_DELAYS_MS_def)

lemma refresh_answer_final:
  "\<not> transient a \<or> 3 \<le> k \<Longrightarrow> snd (refresh_answer k a p) = None"
  by (auto simp: transient_def refresh_answer_def RETRY_DELAYS_MS_def split: sum.split)

lemma refresh_transient:
  "transient (answers k) \<Longrightarrow> k < 3 \<Longrightarrow>
   refresh answers k p = apsnd ((#) (RETRY_DELAYS_MS ! k)) (refresh answers (Suc k) p)"
  by (subst refresh.simps) (simp add: refresh_answer_transient case_prod_unfold apsnd_def map_prod_def Let_def)

lemma refresh_final:
  assumes "\<not> transient (answers k) \<or> 3 \<le> k"
  shows "refresh answers k p = (fst (refresh_answer k (answers k) p), [])"
  using refresh_answer_final [OF assms, of p]
  by (subst refresh.simps) (simp add: case_prod_unfold)

lemma refresh_answer_not_loading:
  "\<not> transient a \<or> 3 \<le> k \<Longrightarrow> status (fst (refresh_answer k a p)) \<noteq> Loading"
  by (auto simp: transient_def refresh_answer_def RETRY_DELAYS_MS_def split: sum.split)

lemma session_step_authenticated:
  assumes "session_enabled p e" "status p = Authenticated" "status (session_step p e) \<noteq> Authenticated"
  shows "(\<exists>a. e = LogoutAnswer a) \<or> (\<exists>i err. e = Answer i (Inl err) \<and> isDefinitivelySignedOut err)"
  using assms
  by (cases e) (auto simp: refresh_answer_def split: sum.splits if_splits)

section \<open>Properties\<close>

text \<open>
  C6: in every state the provider can reach, whatever refreshes and logouts are in flight and in
  whatever order their answers arrive, the session is authenticated exactly when there is a
  user, and no refresh goes beyond its fourth attempt.
\<close>

theorem session_consistent:
  assumes "session_reach p"
  shows "(status p = Authenticated \<longleftrightarrow> user p \<noteq> None) \<and>
    (\<forall>k. Asking k \<in> set (runs p) \<longrightarrow> k \<le> 3) \<and> (\<forall>k. Sleeping k \<in> set (runs p) \<longrightarrow> k < 3)"
  using sess.reach_inv [OF assms] by (auto simp: session_inv_def RETRY_DELAYS_MS_def)

theorem session_consistent_witness:
  "status (run session_step provider_init [Answer 0 (Inr (7 :: nat))]) = Authenticated \<longleftrightarrow>
   user (run session_step provider_init [Answer 0 (Inr (7 :: nat))]) \<noteq> None"
proof -
  have "session_reach (run session_step provider_init [Answer 0 (Inr (7 :: nat))])"
    by (rule reach_run) (auto intro: reach_start simp: provider_init_def)
  from session_consistent [OF this] show ?thesis by blast
qed

text \<open>
  C7: an outage never signs anyone out. An authenticated session ends only with the answer to a
  logout or with a 401 or 403 from \<open>/api/v1/me\<close>; a network failure, a 429 or a 5xx, at any
  attempt of any run, leaves it authenticated.
\<close>

theorem outage_keeps_session:
  assumes "session_enabled p e" "status p = Authenticated"
    and "\<not> (\<exists>a. e = LogoutAnswer a)"
    and "\<not> (\<exists>i err. e = Answer i (Inl (Api err)) \<and> (err_status err = 401 \<or> err_status err = 403))"
  shows "status (session_step p e) = Authenticated"
proof (rule ccontr)
  assume "status (session_step p e) \<noteq> Authenticated"
  then obtain i err where "e = Answer i (Inl err)" "isDefinitivelySignedOut err"
    using session_step_authenticated [OF assms(1,2)] assms(3) by blast
  then show False using assms(4) by (cases err) auto
qed

theorem outage_keeps_session_witness:
  "status (session_step
     \<lparr>user = Some (7 :: nat), status = Authenticated, runs = [Asking 3], logouts = 0,
      router_refreshes = 0\<rparr> (Answer 0 (Inl (JsError ''Failed to fetch'')))) = Authenticated"
  by (rule outage_keeps_session) auto

text \<open>
  C8: one refresh always ends, and how. It asks once more after each transient failure, at most
  four times in all, sleeping 400, 1200 and 3000 ms in that order; its last answer decides the
  state, and that state is never \<open>Loading\<close>, so no page waits for the session for ever.
\<close>

theorem refresh_ends:
  "\<exists>m \<le> 3. (\<forall>k < m. transient (answers k)) \<and> (m = 3 \<or> \<not> transient (answers m)) \<and>
     refresh answers 0 p =
       (fst (refresh_answer m (answers m) p), take m [400, 1200, 3000]) \<and>
     status (fst (refresh answers 0 p)) \<noteq> Loading"
proof -
  define ok where "ok m \<longleftrightarrow> refresh answers 0 p =
      (fst (refresh_answer m (answers m) p), take m [400, 1200, 3000])" for m
  have nl: "status (fst (refresh_answer m (answers m) p)) \<noteq> Loading"
    if "m = 3 \<or> \<not> transient (answers m)" for m
    using that by (intro refresh_answer_not_loading) auto
  note steps = refresh_transient refresh_final RETRY_DELAYS_MS_def ok_def
  consider "\<not> transient (answers 0)"
    | "transient (answers 0)" "\<not> transient (answers 1)"
    | "transient (answers 0)" "transient (answers 1)" "\<not> transient (answers 2)"
    | "transient (answers 0)" "transient (answers 1)" "transient (answers 2)" by blast
  then obtain m where m: "m \<le> 3" "\<forall>k < m. transient (answers k)"
      "m = 3 \<or> \<not> transient (answers m)" "ok m"
  proof cases
    case 1 then show ?thesis by (intro that [of 0]) (simp_all add: steps)
  next
    case 2 then show ?thesis by (intro that [of 1]) (simp_all add: steps)
  next
    case 3 then show ?thesis
      by (intro that [of 2]) (auto simp: steps numeral_eq_Suc less_Suc_eq)
  next
    case 4 then show ?thesis
      by (intro that [of 3]) (auto simp: steps numeral_eq_Suc less_Suc_eq)
  qed
  then show ?thesis
    using nl [OF m(3)] unfolding ok_def by (intro exI [of _ m]) simp
qed

theorem refresh_ends_witness:
  "status (fst (refresh (\<lambda>k. Inl (JsError ''Failed to fetch'')) 0 (provider_init :: nat provider)))
     \<noteq> Loading"
  using refresh_ends [of "\<lambda>k. Inl (JsError ''Failed to fetch'')" "provider_init :: nat provider"]
  by blast

text \<open>
  A refresh that was sent before a logout can answer after it, and then signs the user back
  in on the client: there is a reachable state, unauthenticated and with no logout pending, in
  which a run is still waiting, and its successful answer makes the session authenticated.
\<close>

lemma late_answer_restores_session:
  "\<exists>p :: 'u provider. session_reach p \<and> status p = Unauthenticated \<and> logouts p = 0 \<and>
     session_enabled p (Answer 0 (Inr me)) \<and>
     status (session_step p (Answer 0 (Inr me))) = Authenticated"
proof (intro exI conjI)
  let ?es = "[Answer 0 (Inr me), StartRefresh, StartLogout, LogoutAnswer (Inr JNull)]"
  show "session_reach (run session_step provider_init ?es)"
    by (rule reach_run)
      (auto intro: reach_start simp: provider_init_def refresh_answer_def remove_nth_def)
qed (auto simp: provider_init_def refresh_answer_def remove_nth_def logout_finally_def)

end
