(* ===== verification/Realtime.thy ===== *)
theory Realtime
  imports Machine Endpoints
begin

text \<open>
  The realtime layer: \<open>features/messaging/use-thread-socket.ts\<close> and
  \<open>features/notifications/NotificationsProvider.tsx\<close>. Both keep one web socket open, with a
  bounded number of reconnects, and treat what arrives on it as a hint.

  An effect is one run of the hook's \<open>useEffect\<close>: it owns \<open>closedByUs\<close> and \<open>attempt\<close>, while
  the references to the socket and the timer outlive it. Sockets and effects are numbered in
  the order they are made; a socket that was told to close fires its close event later.
\<close>

section \<open>The connection\<close>

datatype sock_state = Connecting | Open | Closing | Closed

record effect =
  closedByUs :: bool
  attempt :: nat

record conn =
  effects :: "effect list"
  sockets :: "(nat \<times> sock_state) list"   \<comment> \<open>the effect a socket belongs to, and its state\<close>
  socketRef :: "nat option"
  timers :: "(nat \<times> nat) list"           \<comment> \<open>pending reconnects: effect and delay\<close>
  retryRef :: "(nat \<times> nat) option"
  connected :: bool
  generation :: nat

definition conn_init :: conn where
  "conn_init = \<lparr>effects = [], sockets = [], socketRef = None, timers = [], retryRef = None,
                connected = False, generation = 0\<rparr>"

definition upd_effect :: "nat \<Rightarrow> (effect \<Rightarrow> effect) \<Rightarrow> conn \<Rightarrow> conn" where
  "upd_effect e f c = c\<lparr>effects := (effects c)[e := f (effects c ! e)]\<rparr>"

definition set_sock :: "nat \<Rightarrow> sock_state \<Rightarrow> conn \<Rightarrow> conn" where
  "set_sock i st c = c\<lparr>sockets := (sockets c)[i := (fst (sockets c ! i), st)]\<rparr>"

text \<open>\<open>connect\<close>: opens a socket and stores it, unless the effect was cleaned up.\<close>

definition connect :: "nat \<Rightarrow> conn \<Rightarrow> conn" where
  "connect e c =
     (if closedByUs (effects c ! e) then c
      else c\<lparr>sockets := sockets c @ [(e, Connecting)], socketRef := Some (length (sockets c))\<rparr>)"

definition on_open :: "nat \<Rightarrow> conn \<Rightarrow> conn" where
  "on_open i c =
     (set_sock i Open (upd_effect (fst (sockets c ! i)) (\<lambda>f. f\<lparr>attempt := 0\<rparr>) c))
       \<lparr>connected := True, generation := Suc (generation c)\<rparr>"

text \<open>
  The close handler. The delay grows with the attempt; after five attempts the hook gives up and
  leaves the page to its refetches.
\<close>

definition on_close :: "(nat \<Rightarrow> nat) \<Rightarrow> nat \<Rightarrow> conn \<Rightarrow> conn" where
  "on_close delay i c =
     (let e = fst (sockets c ! i);
          c1 = (set_sock i Closed c)\<lparr>connected := False, generation := 0, socketRef := None\<rparr>
      in if closedByUs (effects c ! e) then c1
         else if attempt (effects c ! e) < 5
         then (upd_effect e (\<lambda>f. f\<lparr>attempt := Suc (attempt f)\<rparr>) c1)
                \<lparr>timers := timers c @ [(e, delay (attempt (effects c ! e)))],
                 retryRef := Some (e, delay (attempt (effects c ! e)))\<rparr>
         else c1)"

text \<open>The clean-up the effect returns: runs before the next effect and on unmount.\<close>

definition cleanup :: "nat \<Rightarrow> conn \<Rightarrow> conn" where
  "cleanup e c =
     (let c1 = upd_effect e (\<lambda>f. f\<lparr>closedByUs := True\<rparr>) c;
          c2 = (case retryRef c of None \<Rightarrow> c1 | Some t \<Rightarrow> c1\<lparr>timers := remove1 t (timers c)\<rparr>)
      in (case socketRef c of None \<Rightarrow> c2 | Some i \<Rightarrow> set_sock i Closing c2)\<lparr>socketRef := None\<rparr>)"

datatype conn_event = Mount | Unmount | SockOpen nat | SockClose nat | Fire nat

text \<open>
  \<open>Mount\<close> is the effect's run, with the clean-up of the one before it when there is one that is
  still active.
\<close>

definition active_effect :: "conn \<Rightarrow> bool" where
  "active_effect c \<longleftrightarrow> effects c \<noteq> [] \<and> \<not> closedByUs (last (effects c))"

definition mount :: "conn \<Rightarrow> conn" where
  "mount c =
     (let c0 = (if active_effect c then cleanup (length (effects c) - 1) c else c)
      in connect (length (effects c0))
           (c0\<lparr>effects := effects c0 @ [\<lparr>closedByUs = False, attempt = 0\<rparr>]\<rparr>))"

fun conn_enabled :: "conn \<Rightarrow> conn_event \<Rightarrow> bool" where
  "conn_enabled c Mount = True"
| "conn_enabled c Unmount = active_effect c"
| "conn_enabled c (SockOpen i) = (i < length (sockets c) \<and> snd (sockets c ! i) = Connecting)"
| "conn_enabled c (SockClose i) = (i < length (sockets c) \<and> snd (sockets c ! i) \<noteq> Closed)"
| "conn_enabled c (Fire i) = (i < length (timers c))"

fun conn_step :: "(nat \<Rightarrow> nat) \<Rightarrow> conn \<Rightarrow> conn_event \<Rightarrow> conn" where
  "conn_step delay c Mount = mount c"
| "conn_step delay c Unmount = cleanup (length (effects c) - 1) c"
| "conn_step delay c (SockOpen i) = on_open i c"
| "conn_step delay c (SockClose i) = on_close delay i c"
| "conn_step delay c (Fire i) =
     connect (fst (timers c ! i))
       (c\<lparr>timers := take i (timers c) @ drop (Suc i) (timers c)\<rparr>)"

section \<open>The thread socket\<close>

definition thread_delay :: "nat \<Rightarrow> nat" where
  "thread_delay n = min (1500 * 2 ^ n) 15000"

datatype thread_event =
    MessageEvent json
  | TypingEvent string
  | ErrorEvent string

fun or_text :: "json option \<Rightarrow> string \<Rightarrow> string" where
  "or_text None d = d"
| "or_text (Some JNull) d = d"
| "or_text (Some v) d = to_str v"

text \<open>
  \<open>onmessage\<close>: the event handed to the page, if any. \<open>None\<close> as the frame is text that is no
  JSON; that and a frame that is null are ignored, as the source's \<open>catch\<close> does.
\<close>

definition thread_frame :: "json option \<Rightarrow> thread_event option" where
  "thread_frame raw =
     (case raw of
        None \<Rightarrow> None
      | Some data \<Rightarrow>
          (let type = get_field data ''type''
           in if type = Some (JStr ''message.new'') then Some (MessageEvent data)
              else if type = Some (JStr ''typing'')
                then Some (TypingEvent (or_text (get_field data ''user_name'') ''Someone''))
              else if type = Some (JStr ''message.error'')
                then Some (ErrorEvent (or_text (get_field data ''error'') ''Message rejected.''))
              else None))"

text \<open>\<open>send\<close>: whether the payload went out on the socket; the page falls back to REST if not.\<close>

definition thread_send :: "conn \<Rightarrow> bool" where
  "thread_send c =
     (case socketRef c of None \<Rightarrow> False | Some i \<Rightarrow> snd (sockets c ! i) = Open)"

definition thread_url :: "(string \<rightharpoonup> string) \<Rightarrow> string \<Rightarrow> string" where
  "thread_url env threadId = WS_URL env @ ''/ws/threads/'' @ threadId @ ''/''"

text \<open>\<open>useRefetchOnFocus\<close>: focus, visibility and online events all run the same trigger.\<close>

definition refetch_on_focus :: "bool \<Rightarrow> ('s \<Rightarrow> 's) \<Rightarrow> 's \<Rightarrow> 's" where
  "refetch_on_focus visible handler s = (if visible then handler s else s)"

section \<open>The notification centre\<close>

record toast =
  toast_id :: string
  toast_title :: string
  toast_body :: string
  toast_url :: string

record notification =
  n_id :: string
  n_type :: string
  n_title :: string
  n_body :: string
  n_url :: string
  n_read :: bool

record preference =
  category :: string
  label :: string
  email_enabled :: bool

record notif =
  unread :: nat
  items :: "notification list"
  preferences :: "preference list"
  loading :: bool
  toasts :: "toast list"
  toast_timers :: "string list"     \<comment> \<open>ids whose six-second timeout has not fired\<close>
  list_calls :: nat                 \<comment> \<open>list requests waiting for an answer\<close>
  nconn :: conn

definition notif_delay :: "nat \<Rightarrow> nat" where
  "notif_delay n = min (2000 * 2 ^ n) 30000"

definition POLL_INTERVAL_MS :: nat where
  "POLL_INTERVAL_MS = 60000"

definition notif_url :: "(string \<rightharpoonup> string) \<Rightarrow> string" where
  "notif_url env = nullish (env ''NEXT_PUBLIC_WS_URL'') ''ws://localhost:8000'' @ ''/ws/notifications/''"

definition start_list :: "notif \<Rightarrow> notif" where
  "start_list s = s\<lparr>list_calls := Suc (list_calls s)\<rparr>"

text \<open>The end of \<open>refresh\<close>: a failure leaves the stale list, and both stop the loading state.\<close>

definition list_answer :: "failure + (nat \<times> notification list) \<Rightarrow> notif \<Rightarrow> notif" where
  "list_answer answer s =
     (case answer of
        Inr (n, rs) \<Rightarrow> s\<lparr>unread := n, items := rs, loading := False\<rparr>
      | Inl _ \<Rightarrow> s\<lparr>loading := False\<rparr>)"

definition preferences_answer :: "failure + preference list \<Rightarrow> notif \<Rightarrow> notif" where
  "preferences_answer answer s =
     (case answer of Inr ps \<Rightarrow> s\<lparr>preferences := ps\<rparr> | Inl _ \<Rightarrow> s)"

definition pushToast :: "toast \<Rightarrow> notif \<Rightarrow> notif" where
  "pushToast t s =
     s\<lparr>toasts := slice_last 2 (toasts s) @ [t], toast_timers := toast_timers s @ [toast_id t]\<rparr>"

definition dismissToast :: "string \<Rightarrow> notif \<Rightarrow> notif" where
  "dismissToast i s = s\<lparr>toasts := filter (\<lambda>t. toast_id t \<noteq> i) (toasts s)\<rparr>"

text \<open>
  A frame of the notification socket: a push starts a refetch and shows a toast. \<open>uuid\<close> is what
  \<open>crypto.randomUUID\<close> would give for a push without an id.
\<close>

definition notif_frame :: "string \<Rightarrow> json option \<Rightarrow> notif \<Rightarrow> notif" where
  "notif_frame uuid raw s =
     (case raw of
        None \<Rightarrow> s
      | Some data \<Rightarrow>
          (if get_field data ''type'' = Some (JStr ''notification.push'')
           then pushToast
                  \<lparr>toast_id = or_text (get_field data ''id'') uuid,
                   toast_title = or_text (get_field data ''title'') ''Notification'',
                   toast_body = or_text (get_field data ''body'') [],
                   toast_url = or_text (get_field data ''url'') []\<rparr> (start_list s)
           else s))"

text \<open>
  \<open>markRead\<close> and \<open>markAllRead\<close> after their request: a refusal is thrown to the caller and no
  refetch follows.
\<close>

definition mark_answer :: "failure + json \<Rightarrow> notif \<Rightarrow> (failure + unit) \<times> notif" where
  "mark_answer answer s =
     (case answer of Inl e \<Rightarrow> (Inl e, s) | Inr _ \<Rightarrow> (Inr (), start_list s))"

definition setEmailEnabled_answer ::
    "string \<Rightarrow> failure + preference \<Rightarrow> notif \<Rightarrow> (failure + unit) \<times> notif" where
  "setEmailEnabled_answer c answer s =
     (case answer of
        Inl e \<Rightarrow> (Inl e, s)
      | Inr updated \<Rightarrow>
          (Inr (), s\<lparr>preferences := map (\<lambda>p. if category p = c
                       then p\<lparr>email_enabled := email_enabled updated\<rparr> else p) (preferences s)\<rparr>))"

definition notif_init :: notif where
  "notif_init = \<lparr>unread = 0, items = [], preferences = [], loading = True, toasts = [],
                 toast_timers = [], list_calls = 1, nconn = mount conn_init\<rparr>"

datatype notif_event =
    Focus bool                                     \<comment> \<open>is the document visible\<close>
  | Poll
  | ListAnswer "failure + (nat \<times> notification list)"
  | PreferencesAnswer "failure + preference list"
  | Frame string "json option"
  | ToastTimeout nat                               \<comment> \<open>position among the pending timeouts\<close>
  | Dismiss string
  | MarkAnswer "failure + json"
  | EmailAnswer string "failure + preference"
  | Conn conn_event

fun notif_enabled :: "notif \<Rightarrow> notif_event \<Rightarrow> bool" where
  "notif_enabled s (ListAnswer a) = (0 < list_calls s)"
| "notif_enabled s (ToastTimeout i) = (i < length (toast_timers s))"
| "notif_enabled s (Conn e) = conn_enabled (nconn s) e"
| "notif_enabled s _ = True"

fun notif_step :: "notif \<Rightarrow> notif_event \<Rightarrow> notif" where
  "notif_step s (Focus visible) = (if visible then start_list s else s)"
| "notif_step s Poll = start_list s"
| "notif_step s (ListAnswer a) = (list_answer a s)\<lparr>list_calls := list_calls s - 1\<rparr>"
| "notif_step s (PreferencesAnswer a) = preferences_answer a s"
| "notif_step s (Frame uuid raw) = notif_frame uuid raw s"
| "notif_step s (ToastTimeout i) =
     (dismissToast (toast_timers s ! i) s)
       \<lparr>toast_timers := take i (toast_timers s) @ drop (Suc i) (toast_timers s)\<rparr>"
| "notif_step s (Dismiss i) = dismissToast i s"
| "notif_step s (MarkAnswer a) = snd (mark_answer a s)"
| "notif_step s (EmailAnswer c a) = snd (setEmailEnabled_answer c a s)"
| "notif_step s (Conn e) = s\<lparr>nconn := conn_step notif_delay (nconn s) e\<rparr>"

abbreviation notif_reach :: "notif \<Rightarrow> bool" where
  "notif_reach \<equiv> reach (\<lambda>s. s = notif_init) notif_enabled notif_step"

section \<open>What the bell and the toasts show\<close>

definition TYPE_ICONS :: "(string \<times> string) list" where
  "TYPE_ICONS =
     [(''message_new'', ''[speech]''), (''order_paid_activated'', ''[check]''),
      (''order_delivered'', ''[parcel]''), (''order_revision_requested'', ''[repeat]''),
      (''order_approved_completed'', ''[party]''), (''order_cancelled'', ''[stop]''),
      (''order_deadline_warning'', ''[clock]''), (''request_new_offer'', ''[letter]''),
      (''offer_accepted'', ''[handshake]''), (''assignment_new'', ''[pin]''),
      (''invitation_new'', ''[pin]''), (''payment_failed'', ''[warning]''),
      (''payout_paid'', ''[money]'')]"

datatype bell_event = MarkAllRead | Select string bool string | OpenInbox

definition bell_item :: "notification \<Rightarrow> bell_event ui" where
  "bell_item n =
     Box (n_id n)
       ([Button (nullish (map_of TYPE_ICONS (n_type n)) ''[bell]'' @ '' '' @ n_title n) False
           (Select (n_id n) (n_read n) (n_url n))]
        @ shown_if (\<not> n_read n) [Text ''unread'']
        @ shown_if (n_body n \<noteq> []) [Text (n_body n)])"

definition NotificationBell :: "notif \<Rightarrow> bell_event ui list" where
  "NotificationBell s =
     [Heading (''Notifications ('' @ show_nat (unread s) @ '' unread)'')]
     @ shown_if (0 < unread s) [Badge ''danger'' (if 9 < unread s then ''9+'' else show_nat (unread s))]
     @ [Text ''Notifications'']
     @ shown_if (0 < unread s) [Button ''Mark all read'' False MarkAllRead]
     @ (if items s = [] then [Text ''No notifications yet.''] else map bell_item (take 10 (items s)))
     @ [Link ''/messages'' ''Open messages inbox'']"

text \<open>
  What selecting an item does: the read request for an unread one, then a navigation when the
  item has a URL. A refused read request throws before the navigation.
\<close>

definition bell_select :: "(failure + json) \<Rightarrow> string \<Rightarrow> bool \<Rightarrow> string \<Rightarrow> notif
    \<Rightarrow> (failure + string option) \<times> notif" where
  "bell_select answer i is_read url s =
     (case (if is_read then (Inr (), s) else mark_answer answer s) of
        (Inl e, s') \<Rightarrow> (Inl e, s')
      | (Inr _, s') \<Rightarrow> (Inr (if url \<noteq> [] then Some url else None), s'))"

definition toast_box :: "toast \<Rightarrow> string ui" where
  "toast_box t =
     Box (toast_id t)
       ([Text (toast_title t), Button ''Dismiss'' False (toast_id t)]
        @ shown_if (toast_body t \<noteq> []) [Text (toast_body t)]
        @ shown_if (toast_url t \<noteq> []) [Link (toast_url t) ''View ->'', Button ''View ->'' False (toast_id t)])"

definition NotificationToasts :: "notif \<Rightarrow> string ui list" where
  "NotificationToasts s = (if toasts s = [] then [] else map toast_box (toasts s))"

section \<open>Lemmas on the connection\<close>

lemmas conn_defs = upd_effect_def set_sock_def connect_def on_open_def on_close_def cleanup_def
  mount_def Let_def

definition conn_inv :: "(nat \<Rightarrow> nat) \<Rightarrow> conn \<Rightarrow> bool" where
  "conn_inv delay c \<longleftrightarrow>
     (\<forall>s \<in> set (sockets c). fst s < length (effects c)) \<and>
     (\<forall>t \<in> set (timers c). fst t < length (effects c) \<and> (\<exists>k < 5. snd t = delay k)) \<and>
     (\<forall>f \<in> set (effects c). attempt f \<le> 5) \<and>
     (\<forall>e. Suc e < length (effects c) \<longrightarrow> closedByUs (effects c ! e)) \<and>
     (\<forall>i. socketRef c = Some i \<longrightarrow> i < length (sockets c))"

lemma conn_inv_init: "conn_inv delay conn_init"
  by (simp add: conn_inv_def conn_init_def)

lemma conn_inv_connect: "conn_inv delay c \<Longrightarrow> e < length (effects c) \<Longrightarrow> conn_inv delay (connect e c)"
  by (auto simp: conn_inv_def connect_def less_Suc_eq)

lemma conn_inv_on_open:
  assumes "conn_inv delay c" "i < length (sockets c)"
  shows "conn_inv delay (on_open i c)"
proof -
  let ?e = "fst (sockets c ! i)"
  have e: "?e < length (effects c)" using assms by (auto simp: conn_inv_def)
  have "\<forall>f \<in> set ((effects c)[?e := (effects c ! ?e)\<lparr>attempt := 0\<rparr>]). attempt f \<le> 5"
    using assms(1) set_update_subset_insert [of "effects c"] by (force simp: conn_inv_def)
  moreover have "\<forall>s \<in> set ((sockets c)[i := (?e, Open)]). fst s < length (effects c)"
    using assms(1) e set_update_subset_insert [of "sockets c"] by (force simp: conn_inv_def)
  ultimately show ?thesis
    using assms e by (auto simp: conn_inv_def on_open_def upd_effect_def set_sock_def nth_list_update)
qed

lemma conn_inv_on_close:
  assumes "conn_inv delay c" "i < length (sockets c)"
  shows "conn_inv delay (on_close delay i c)"
proof -
  let ?e = "fst (sockets c ! i)"
  let ?f = "effects c ! ?e"
  have e: "?e < length (effects c)" using assms by (auto simp: conn_inv_def)
  have socks: "\<forall>s \<in> set ((sockets c)[i := (?e, Closed)]). fst s < length (effects c)"
    using assms(1) e set_update_subset_insert [of "sockets c"] by (force simp: conn_inv_def)
  have atts: "\<forall>f \<in> set ((effects c)[?e := ?f\<lparr>attempt := Suc (attempt ?f)\<rparr>]). attempt f \<le> 5"
    if "attempt ?f < 5"
    using assms(1) that set_update_subset_insert [of "effects c"] by (force simp: conn_inv_def)
  show ?thesis
    using assms e socks atts
    by (auto simp: conn_inv_def on_close_def Let_def upd_effect_def set_sock_def nth_list_update)
qed

lemma conn_inv_cleanup:
  assumes "conn_inv delay c" "e < length (effects c)"
  shows "conn_inv delay (cleanup e c)"
proof -
  let ?f = "(effects c ! e)\<lparr>closedByUs := True\<rparr>"
  have atts: "\<forall>f \<in> set ((effects c)[e := ?f]). attempt f \<le> 5"
    using assms set_update_subset_insert [of "effects c" e ?f] by (force simp: conn_inv_def)
  have timers: "set (remove1 t (timers c)) \<subseteq> set (timers c)" for t
    by (rule set_remove1_subset)
  have socks: "\<forall>s \<in> set ((sockets c)[i := (fst (sockets c ! i), Closing)]). fst s < length (effects c)"
    if "i < length (sockets c)" for i
    using assms(1) that set_update_subset_insert [of "sockets c" i] by (force simp: conn_inv_def)
  show ?thesis
    using assms atts timers socks
    by (force simp: conn_inv_def cleanup_def Let_def upd_effect_def set_sock_def nth_list_update
        split: option.split)
qed

lemma cleanup_closes: "e < length (effects c) \<Longrightarrow> closedByUs (effects (cleanup e c) ! e)"
  by (auto simp: cleanup_def Let_def upd_effect_def set_sock_def split: option.split)

lemma cleanup_effects [simp]: "length (effects (cleanup e c)) = length (effects c)"
  by (auto simp: cleanup_def Let_def upd_effect_def set_sock_def split: option.split)

lemma active_effect_nth:
  "active_effect c \<longleftrightarrow> effects c \<noteq> [] \<and> \<not> closedByUs (effects c ! (length (effects c) - 1))"
  by (auto simp: active_effect_def last_conv_nth)

lemma all_closed:
  assumes "conn_inv delay c" "\<not> active_effect c" "e < length (effects c)"
  shows "closedByUs (effects c ! e)"
proof (cases "Suc e = length (effects c)")
  case True
  then have "length (effects c) - 1 = e" "effects c \<noteq> []" by auto
  then show ?thesis using assms(2) by (simp add: active_effect_nth)
next
  case False
  then show ?thesis using assms(1,3) by (simp add: conn_inv_def)
qed

lemma conn_inv_add_effect:
  assumes "conn_inv delay c" "\<not> active_effect c"
  shows "conn_inv delay (c\<lparr>effects := effects c @ [\<lparr>closedByUs = False, attempt = 0\<rparr>]\<rparr>)"
  using assms(1) all_closed [OF assms]
  by (fastforce simp: conn_inv_def nth_append)

lemma conn_inv_mount:
  assumes "conn_inv delay c"
  shows "conn_inv delay (mount c)"
proof -
  let ?c = "if active_effect c then cleanup (length (effects c) - 1) c else c"
  have "length (effects c) - 1 < length (effects c)" if "active_effect c"
    using that by (auto simp: active_effect_def)
  then have "conn_inv delay ?c" "\<not> active_effect ?c"
    using assms conn_inv_cleanup cleanup_closes by (auto simp: active_effect_nth)
  then show ?thesis
    unfolding mount_def Let_def by (intro conn_inv_connect conn_inv_add_effect) simp_all
qed

lemma conn_inv_Fire:
  assumes "conn_inv delay c" "i < length (timers c)"
  shows "conn_inv delay (conn_step delay c (Fire i))"
proof -
  let ?c = "c\<lparr>timers := take i (timers c) @ drop (Suc i) (timers c)\<rparr>"
  have "set (take i (timers c) @ drop (Suc i) (timers c)) \<subseteq> set (timers c)"
    using set_take_subset set_drop_subset by fastforce
  then have "conn_inv delay ?c" using assms(1) by (force simp: conn_inv_def)
  moreover have "fst (timers c ! i) < length (effects ?c)"
    using assms by (auto simp: conn_inv_def)
  ultimately show ?thesis by (simp add: conn_inv_connect)
qed

text \<open>
  The contract of a reconnecting socket: the delays lie between two bounds and do not shrink.
  Both sockets of the program meet it.
\<close>

locale reconnecting =
  fixes delay :: "nat \<Rightarrow> nat" and least :: nat and most :: nat
  assumes delay_least: "least \<le> delay n"
    and delay_most: "delay n \<le> most"
    and delay_mono: "m \<le> n \<Longrightarrow> delay m \<le> delay n"
begin

sublocale socket: machine "\<lambda>c. c = conn_init" conn_enabled "conn_step delay" "conn_inv delay"
proof unfold_locales
  fix c e
  assume "conn_inv delay c" "conn_enabled c e"
  then show "conn_inv delay (conn_step delay c e)"
    by (cases e) (auto simp del: conn_step.simps(5) simp: conn_inv_mount conn_inv_on_open
        conn_inv_on_close conn_inv_Fire active_effect_nth intro!: conn_inv_cleanup)
qed (simp add: conn_inv_init)

lemma pending_delay_bounds:
  assumes "reach (\<lambda>c. c = conn_init) conn_enabled (conn_step delay) c" "(e, d) \<in> set (timers c)"
  shows "least \<le> d \<and> d \<le> most"
  using socket.reach_inv [OF assms(1)] assms(2) delay_least delay_most
  by (fastforce simp: conn_inv_def)

lemma attempts_bounded:
  assumes "reach (\<lambda>c. c = conn_init) conn_enabled (conn_step delay) c" "f \<in> set (effects c)"
  shows "attempt f \<le> 5"
  using socket.reach_inv [OF assms(1)] assms(2) by (auto simp: conn_inv_def)

lemma no_socket_when_inactive:
  assumes "reach (\<lambda>c. c = conn_init) conn_enabled (conn_step delay) c"
    and "\<not> active_effect c" "conn_enabled c e" "e \<noteq> Mount"
  shows "length (sockets (conn_step delay c e)) = length (sockets c) \<and>
    \<not> active_effect (conn_step delay c e)"
proof -
  have inv: "conn_inv delay c" using assms(1) by (rule socket.reach_inv)
  have timer: "closedByUs (effects c ! fst (timers c ! i))" if "i < length (timers c)" for i
    using that inv all_closed [OF inv assms(2)] by (auto simp: conn_inv_def)
  have owner: "closedByUs (effects c ! fst (sockets c ! i))" if "i < length (sockets c)" for i
    using that inv all_closed [OF inv assms(2)] by (auto simp: conn_inv_def)
  show ?thesis
  proof (cases e)
    case (SockOpen i)
    then show ?thesis using assms(2,3) owner [of i]
      by (cases "effects c = []"; cases "fst (sockets c ! i) = length (effects c) - 1")
        (auto simp: active_effect_nth conn_defs)
  next
    case (SockClose i)
    then show ?thesis using assms(2,3) owner [of i]
      by (auto simp: active_effect_nth conn_defs)
  next
    case (Fire i)
    then show ?thesis using assms(2,3) timer [of i] by (simp add: connect_def active_effect_def)
  qed (use assms in auto)
qed

end

lemma pow_backoff_mono: "m \<le> n \<Longrightarrow> min (a * 2 ^ m) b \<le> min (a * 2 ^ n) (b :: nat)"
  by (meson min.mono mult_le_mono2 order_refl one_le_numeral power_increasing)

lemma pow_backoff_least: "a \<le> b \<Longrightarrow> a \<le> min (a * 2 ^ n) (b :: nat)"
  by simp

interpretation thread_socket: reconnecting thread_delay 1500 15000
proof unfold_locales
  show "thread_delay m \<le> thread_delay n" if "m \<le> n" for m n
    using that unfolding thread_delay_def by (rule pow_backoff_mono)
qed (simp_all add: thread_delay_def)

interpretation notif_socket: reconnecting notif_delay 2000 30000
proof unfold_locales
  show "notif_delay m \<le> notif_delay n" if "m \<le> n" for m n
    using that unfolding notif_delay_def by (rule pow_backoff_mono)
qed (simp_all add: notif_delay_def)

section \<open>Lemmas on giving up\<close>

text \<open>Without an open, what is left to happen shrinks with every event.\<close>

definition live_socks :: "conn \<Rightarrow> nat" where
  "live_socks c = length (filter (\<lambda>s. snd s \<noteq> Closed) (sockets c))"

definition fuse :: "conn \<Rightarrow> nat" where
  "fuse c = live_socks c + 2 * length (timers c) + 2 * (5 - attempt (effects c ! 0))"

definition offline_inv :: "conn \<Rightarrow> bool" where
  "offline_inv c \<longleftrightarrow>
     (\<exists>f. effects c = [f] \<and> attempt f \<le> 5 \<and> \<not> closedByUs f \<and>
        length (sockets c) + length (timers c) = Suc (attempt f)) \<and>
     (\<forall>s \<in> set (sockets c). fst s = 0) \<and> (\<forall>t \<in> set (timers c). fst t = 0)"

fun offline_event :: "conn_event \<Rightarrow> bool" where
  "offline_event (SockClose i) = True"
| "offline_event (Fire i) = True"
| "offline_event _ = False"

lemma live_socks_close:
  assumes "i < length ss" "snd (ss ! i) \<noteq> Closed"
  shows "Suc (length (filter (\<lambda>s. snd s \<noteq> Closed) (ss[i := (e, Closed)])))
           = length (filter (\<lambda>s. snd s \<noteq> Closed) ss)"
proof -
  define as b cs where "as = take i ss" and "b = ss ! i" and "cs = drop (Suc i) ss"
  then have "ss = as @ b # cs" "ss[i := (e, Closed)] = as @ (e, Closed) # cs" "snd b \<noteq> Closed"
    using assms by (simp_all add: id_take_nth_drop upd_conv_take_nth_drop)
  then show ?thesis by simp
qed

lemma offline_close:
  assumes "offline_inv c" "i < length (sockets c)" "snd (sockets c ! i) \<noteq> Closed"
  shows "offline_inv (on_close delay i c)" "Suc (fuse (on_close delay i c)) = fuse c"
proof -
  obtain f where f: "effects c = [f]" "attempt f \<le> 5" "\<not> closedByUs f"
      "length (sockets c) + length (timers c) = Suc (attempt f)"
    using assms(1) by (auto simp: offline_inv_def)
  have e: "fst (sockets c ! i) = 0" using assms(1,2) by (auto simp: offline_inv_def)
  have up: "\<forall>s \<in> set ((sockets c)[i := (0, Closed)]). fst s = 0"
    using assms(1) set_update_subset_insert [of "sockets c"] by (force simp: offline_inv_def)
  show "offline_inv (on_close delay i c)"
    using assms(1) f e up
    by (auto simp: offline_inv_def on_close_def Let_def upd_effect_def set_sock_def)
  show "Suc (fuse (on_close delay i c)) = fuse c"
    using f e live_socks_close [OF assms(2,3), of 0]
    by (auto simp: fuse_def live_socks_def on_close_def Let_def upd_effect_def set_sock_def)
qed

lemma offline_fire:
  assumes "offline_inv c" "i < length (timers c)"
  shows "offline_inv (conn_step delay c (Fire i))" "Suc (fuse (conn_step delay c (Fire i))) = fuse c"
proof -
  obtain f where f: "effects c = [f]" "attempt f \<le> 5" "\<not> closedByUs f"
      "length (sockets c) + length (timers c) = Suc (attempt f)"
    using assms(1) by (auto simp: offline_inv_def)
  have t: "fst (timers c ! i) = 0" using assms by (auto simp: offline_inv_def)
  have sub: "set (take i (timers c) @ drop (Suc i) (timers c)) \<subseteq> set (timers c)"
    using set_take_subset set_drop_subset by fastforce
  have len: "Suc (length (take i (timers c) @ drop (Suc i) (timers c))) = length (timers c)"
    using assms(2) by simp
  show "offline_inv (conn_step delay c (Fire i))"
    using assms(1) f t sub len by (fastforce simp: offline_inv_def connect_def)
  show "Suc (fuse (conn_step delay c (Fire i))) = fuse c"
    using f t len by (auto simp: fuse_def live_socks_def connect_def)
qed

lemma offline_run:
  "offline_inv c \<Longrightarrow> enabled_run conn_enabled (conn_step delay) c es \<Longrightarrow> \<forall>e \<in> set es. offline_event e \<Longrightarrow>
   offline_inv (run (conn_step delay) c es) \<and> length es \<le> fuse c"
proof (induction es arbitrary: c)
  case (Cons e es)
  have "offline_inv (conn_step delay c e) \<and> Suc (fuse (conn_step delay c e)) = fuse c"
  proof (cases e)
    case (SockClose i)
    then show ?thesis using Cons.prems offline_close [of c i delay] by simp
  next
    case (Fire i)
    then show ?thesis using Cons.prems offline_fire [of c i delay] by simp
  qed (use Cons.prems in auto)
  moreover from this have "offline_inv (run (conn_step delay) (conn_step delay c e) es) \<and>
      length es \<le> fuse (conn_step delay c e)"
    using Cons.prems by (intro Cons.IH) auto
  ultimately show ?case by simp
qed simp

lemma offline_start: "offline_inv (mount conn_init)" "fuse (mount conn_init) = 11"
  by (auto simp: offline_inv_def fuse_def live_socks_def conn_init_def mount_def active_effect_def
      connect_def)

section \<open>Lemmas on the notification centre\<close>

definition toasts_inv :: "notif \<Rightarrow> bool" where
  "toasts_inv s \<longleftrightarrow> length (toasts s) \<le> 3 \<and> toast_id ` set (toasts s) \<subseteq> set (toast_timers s)"

lemma toasts_inv_push: "toasts_inv s \<Longrightarrow> toasts_inv (pushToast t s)"
  using set_slice_last [of 2 "toasts s"] by (auto simp: toasts_inv_def pushToast_def)

lemma toasts_inv_dismiss: "toasts_inv s \<Longrightarrow> toasts_inv (dismissToast i s)"
  by (auto simp: toasts_inv_def dismissToast_def intro: order_trans [OF length_filter_le])

lemma toasts_inv_timeout:
  assumes "toasts_inv s" "i < length (toast_timers s)"
  shows "toasts_inv (notif_step s (ToastTimeout i))"
proof -
  have "toast_timers s = take i (toast_timers s) @ toast_timers s ! i # drop (Suc i) (toast_timers s)"
    using assms(2) by (rule id_take_nth_drop)
  then have "set (toast_timers s) =
      insert (toast_timers s ! i) (set (take i (toast_timers s) @ drop (Suc i) (toast_timers s)))"
    by (metis Un_insert_right list.simps(15) set_append)
  then show ?thesis
    using assms(1) toasts_inv_dismiss [OF assms(1), of "toast_timers s ! i"]
    by (auto simp: toasts_inv_def dismissToast_def)
qed

lemma toasts_inv_frame [simp]:
  "toasts_inv (s\<lparr>list_calls := n\<rparr>) = toasts_inv s" "toasts_inv (s\<lparr>nconn := c\<rparr>) = toasts_inv s"
  "toasts_inv (s\<lparr>preferences := p\<rparr>) = toasts_inv s" "toasts_inv (s\<lparr>loading := b\<rparr>) = toasts_inv s"
  "toasts_inv (s\<lparr>unread := k, items := r\<rparr>) = toasts_inv s"
  by (simp_all add: toasts_inv_def)

interpretation centre: machine "\<lambda>s. s = notif_init" notif_enabled notif_step toasts_inv
proof unfold_locales
  fix s e
  assume inv: "toasts_inv s" and en: "notif_enabled s e"
  have start: "toasts_inv (start_list s)"
    using inv by (simp add: start_list_def)
  show "toasts_inv (notif_step s e)"
  proof (cases e)
    case (ListAnswer a)
    then show ?thesis using inv by (auto simp: list_answer_def split: sum.split)
  next
    case (PreferencesAnswer a)
    then show ?thesis using inv by (auto simp: preferences_answer_def split: sum.split)
  next
    case (Frame u raw)
    then show ?thesis
      using inv toasts_inv_push [OF start] by (auto simp: notif_frame_def split: option.split)
  next
    case (MarkAnswer a)
    then show ?thesis using inv start by (auto simp: mark_answer_def split: sum.split)
  next
    case (EmailAnswer c a)
    then show ?thesis using inv by (auto simp: setEmailEnabled_answer_def split: sum.split)
  next
    case (ToastTimeout i)
    then show ?thesis using inv en toasts_inv_timeout [of s i] by (simp del: notif_step.simps)
  qed (use inv start toasts_inv_dismiss in auto)
qed (simp add: toasts_inv_def notif_init_def)

lemmas conn_eval = conn_init_def mount_def active_effect_def connect_def on_open_def on_close_def
  cleanup_def upd_effect_def set_sock_def Let_def

section \<open>Properties\<close>

abbreviation thread_reach :: "conn \<Rightarrow> bool" where
  "thread_reach \<equiv> reach (\<lambda>c. c = conn_init) conn_enabled (conn_step thread_delay)"

text \<open>
  However the thread socket is mounted, opened, dropped and reconnected, every pending
  reconnect waits at least 1.5 and at most 15 seconds, and no effect counts more than five
  attempts in a row.
\<close>

lemma reconnect_paced:
  assumes "thread_reach c"
  shows "(\<forall>t \<in> set (timers c). 1500 \<le> snd t \<and> snd t \<le> 15000) \<and>
    (\<forall>f \<in> set (effects c). attempt f \<le> 5)"
  using thread_socket.pending_delay_bounds [OF assms] thread_socket.attempts_bounded [OF assms]
  by (simp add: case_prod_unfold split_paired_all)

text \<open>
  C9: with the server away the thread socket gives up. Whatever the order in which the
  connections fail and the timers fire, at most eleven events happen after the page is mounted:
  six connections that close and five timers; then none is enabled.
\<close>

theorem offline_gives_up:
  assumes "enabled_run conn_enabled (conn_step thread_delay) (mount conn_init) es"
    and "\<forall>e \<in> set es. offline_event e"
  shows "length es \<le> 11 \<and> length (sockets (run (conn_step thread_delay) (mount conn_init) es)) \<le> 6"
  using offline_run [OF offline_start(1) assms] offline_start(2)
  by (auto simp: offline_inv_def)

theorem offline_gives_up_witness:
  "enabled_run conn_enabled (conn_step thread_delay) (mount conn_init)
     [SockClose 0, Fire 0, SockClose 1, Fire 0, SockClose 2, Fire 0, SockClose 3, Fire 0,
      SockClose 4, Fire 0, SockClose 5] \<and>
   length (sockets (run (conn_step thread_delay) (mount conn_init)
     [SockClose 0, Fire 0, SockClose 1, Fire 0, SockClose 2, Fire 0, SockClose 3, Fire 0,
      SockClose 4, Fire 0, SockClose 5])) \<le> 6"
    (is "?run \<and> ?len")
proof
  show ?run by (simp add: conn_eval)
  from offline_gives_up [OF this] show ?len by simp
qed

text \<open>
  C10: after the page is left no socket is opened. From a state without a live effect, every
  event but a new mount - an open or a close that comes late, a timer that was not cleared -
  leaves the number of sockets as it is, and the effect stays dead.
\<close>

theorem no_reconnect_after_unmount:
  assumes "thread_reach c" "\<not> active_effect c" "conn_enabled c e" "e \<noteq> Mount"
  shows "length (sockets (conn_step thread_delay c e)) = length (sockets c) \<and>
    \<not> active_effect (conn_step thread_delay c e)"
  using assms by (rule thread_socket.no_socket_when_inactive)

theorem no_reconnect_after_unmount_witness:
  "length (sockets (run (conn_step thread_delay) conn_init
     [Mount, SockClose 0, Mount, Unmount, SockClose 1])) = 2"
proof -
  let ?es = "[Mount, SockClose 0, Mount, Unmount]"
  let ?c = "run (conn_step thread_delay) conn_init ?es"
  have "thread_reach ?c" by (rule reach_run) (auto intro: reach_start simp: conn_eval)
  from no_reconnect_after_unmount [OF this, of "SockClose 1"] show ?thesis
    by (simp add: conn_eval thread_delay_def)
qed

text \<open>
  The late close of a socket the hook has replaced takes the live one away. In a reachable
  state the newest effect is live and its socket open, yet \<open>connected\<close> is false and \<open>send\<close>
  refuses, because the close handler of the old socket clears the shared reference and the
  shared state without asking whose they are.
\<close>

lemma stale_close_drops_live_socket:
  "\<exists>c. thread_reach c \<and> active_effect c \<and> snd (last (sockets c)) = Open \<and>
     fst (last (sockets c)) = length (effects c) - 1 \<and> \<not> connected c \<and> \<not> thread_send c"
proof (intro exI conjI)
  let ?es = "[Mount, SockOpen 0, Mount, SockOpen 1, SockClose 0]"
  show "thread_reach (run (conn_step thread_delay) conn_init ?es)"
    by (rule reach_run) (auto intro: reach_start simp: conn_eval)
qed (simp_all add: conn_eval thread_send_def)

text \<open>
  The notification centre never shows more than three toasts, and none for ever: in every
  reachable state each toast on the screen has a timeout pending that will dismiss it.
\<close>

lemma toasts_expire:
  assumes "notif_reach s"
  shows "length (toasts s) \<le> 3 \<and> (\<forall>t \<in> set (toasts s). toast_id t \<in> set (toast_timers s))"
  using centre.reach_inv [OF assms] by (auto simp: toasts_inv_def)

end
