(* ===== verification/ThreadPage.thy ===== *)
theory ThreadPage
  imports Realtime Messaging
begin

text \<open>
  The conversations: the thread view \<open>app/(app)/messages/[threadId]/page.tsx\<close> and the inbox
  \<open>app/(app)/messages/page.tsx\<close>, with the types of \<open>features/messaging/types.ts\<close>.

  The thread view sends optimistically. Several sends can be in flight; each is a record with its
  phase, and the events of the machine are the user's and the answers, in any order. Whether the
  socket takes a frame at a given moment is part of the event, as \<open>thread_send\<close> of the realtime layer
  decides it.
\<close>

section \<open>Data\<close>

datatype thread_context_type = Order_thread | Request_thread | Dispute_thread

record thread_card =
  tc_id :: string
  tc_context_type :: thread_context_type
  tc_context_label :: string
  tc_counterpart :: string
  tc_last_message :: string
  tc_last_message_at :: string
  tc_unread :: nat
  tc_read_only :: bool

record chat_message =
  cm_id :: string
  cm_sender_id :: int
  cm_sender_name :: string
  cm_body :: string
  cm_created_at :: string
  cm_attachment :: "(string \<times> string) option"     \<comment> \<open>identifier and original name\<close>

record thread_detail =
  td_id :: string
  td_context_type :: thread_context_type
  td_context_label :: string
  td_read_only :: bool
  td_messages :: "chat_message list"

definition MESSAGE_MAX_CHARS :: nat where "MESSAGE_MAX_CHARS = 5000"

record pending_message =
  pm_temp_id :: string
  pm_body :: string
  pm_attachment :: "string option"

section \<open>The thread view\<close>

text \<open>Where a send is: its upload, its REST request, or the reload after it.\<close>

datatype send_phase = Uploading string | Posting | Reloading

record in_flight =
  if_temp_id :: string
  if_body :: string
  if_phase :: send_phase

record thread_page =
  th_thread :: "thread_detail option"
  th_messages :: "chat_message list"
  th_pending :: "pending_message list"
  th_draft :: string
  th_attachment :: "string option"
  th_uploading :: bool
  th_typing :: "string option"
  th_error :: "string option"
  th_sends :: "in_flight list"
  th_reports :: "string \<Rightarrow> report_form"      \<comment> \<open>the report form of each message\<close>

definition thread_init :: thread_page where
  "thread_init =
     \<lparr>th_thread = None, th_messages = [], th_pending = [], th_draft = [], th_attachment = None,
      th_uploading = False, th_typing = None, th_error = None, th_sends = [],
      th_reports = (\<lambda>_. report_init)\<rparr>"

text \<open>The end of \<open>load\<close>.\<close>

definition thread_loaded :: "failure + thread_detail \<Rightarrow> thread_page \<Rightarrow> thread_page" where
  "thread_loaded r p =
     (case r of
        Inr d \<Rightarrow> p\<lparr>th_thread := Some d, th_messages := td_messages d, th_pending := [], th_error := None\<rparr>
      | Inl e \<Rightarrow>
          p\<lparr>th_error := Some (case e of
               Api a \<Rightarrow> if err_status a = 404 then ''Conversation not found.''
                        else ''Could not load this conversation.''
             | _ \<Rightarrow> ''Could not load this conversation.'')\<rparr>)"

text \<open>\<open>onSocketEvent\<close>; a message only starts a reload.\<close>

fun on_socket_event :: "thread_event \<Rightarrow> thread_page \<Rightarrow> thread_page" where
  "on_socket_event (MessageEvent data) p = p"
| "on_socket_event (TypingEvent name) p = p\<lparr>th_typing := Some name\<rparr>"
| "on_socket_event (ErrorEvent m) p = p\<lparr>th_error := Some m, th_pending := []\<rparr>"

definition finish :: "nat \<Rightarrow> thread_page \<Rightarrow> thread_page" where
  "finish i p = p\<lparr>th_sends := take i (th_sends p) @ drop (Suc i) (th_sends p), th_uploading := False\<rparr>"

text \<open>
  \<open>sendDraft\<close> up to its first \<open>await\<close>. \<open>temp\<close> is the identifier made from the clock; \<open>sock\<close> says whether
  the socket takes the frame. A frame it takes ends the send at once.
\<close>

definition send_draft :: "locale_text \<Rightarrow> string \<Rightarrow> bool \<Rightarrow> thread_page \<Rightarrow> thread_page" where
  "send_draft loc temp sock p =
     (let body = trim (th_draft p)
      in if body = [] \<and> th_attachment p = None then p
         else if length body > MESSAGE_MAX_CHARS
         then p\<lparr>th_error := Some (''Messages are limited to '' @ show_number loc (of_nat MESSAGE_MAX_CHARS) @ '' characters.'')\<rparr>
         else
           (let p1 = p\<lparr>th_error := None,
                  th_pending := th_pending p @ [\<lparr>pm_temp_id = temp, pm_body = body, pm_attachment = th_attachment p\<rparr>],
                  th_draft := []\<rparr>
            in case th_attachment p of
                Some f \<Rightarrow> p1\<lparr>th_uploading := True,
                    th_sends := th_sends p @ [\<lparr>if_temp_id = temp, if_body = body, if_phase = Uploading f\<rparr>]\<rparr>
              | None \<Rightarrow>
                  (if sock then p1\<lparr>th_uploading := False\<rparr>
                   else p1\<lparr>th_sends := th_sends p @ [\<lparr>if_temp_id = temp, if_body = body, if_phase = Posting\<rparr>]\<rparr>)))"

text \<open>The \<open>catch\<close>: the copy goes, the text comes back unless something was typed meanwhile.\<close>

definition send_failed :: "nat \<Rightarrow> failure \<Rightarrow> thread_page \<Rightarrow> thread_page" where
  "send_failed i e p =
     (let s = th_sends p ! i
      in finish i (p\<lparr>th_pending := filter (\<lambda>m. pm_temp_id m \<noteq> if_temp_id s) (th_pending p),
           th_draft := (if th_draft p = [] then if_body s else th_draft p),
           th_error := Some (message_or ''Message failed to send.'' e)\<rparr>))"

definition set_phase :: "nat \<Rightarrow> send_phase \<Rightarrow> thread_page \<Rightarrow> thread_page" where
  "set_phase i ph p = p\<lparr>th_sends := (th_sends p)[i := (th_sends p ! i)\<lparr>if_phase := ph\<rparr>]\<rparr>"

definition upload_answer :: "nat \<Rightarrow> failure + string \<Rightarrow> bool \<Rightarrow> thread_page \<Rightarrow> thread_page" where
  "upload_answer i r sock p =
     (case r of
        Inl e \<Rightarrow> send_failed i e p
      | Inr aid \<Rightarrow>
          (let p1 = p\<lparr>th_attachment := None\<rparr>
           in if sock then finish i p1 else set_phase i Posting p1))"

definition post_answer :: "nat \<Rightarrow> failure + json \<Rightarrow> thread_page \<Rightarrow> thread_page" where
  "post_answer i r p =
     (case r of Inl e \<Rightarrow> send_failed i e p | Inr _ \<Rightarrow> set_phase i Reloading p)"

datatype thread_page_event =
    Loaded "failure + thread_detail"
  | FromSocket thread_event
  | TypingOver
  | TypeDraft string
  | ChooseAttachment "string option"
  | SendForm string bool
  | PressEnter string bool
  | UploadAnswer nat "failure + string" bool
  | PostAnswer nat "failure + json"
  | ReloadAnswer nat "failure + thread_detail"
  | OpenAttachment "string option"
  | AttachmentFailed
  | Reporting string report_event
  | ToInbox

fun thread_step :: "locale_text \<Rightarrow> thread_page \<Rightarrow> thread_page_event \<Rightarrow> thread_page" where
  "thread_step loc p (Loaded r) = thread_loaded r p"
| "thread_step loc p (FromSocket ev) = on_socket_event ev p"
| "thread_step loc p TypingOver = p\<lparr>th_typing := None\<rparr>"
| "thread_step loc p (TypeDraft s) = p\<lparr>th_draft := s\<rparr>"
| "thread_step loc p (ChooseAttachment f) = p\<lparr>th_attachment := f\<rparr>"
| "thread_step loc p (SendForm temp sock) = send_draft loc temp sock p"
| "thread_step loc p (PressEnter temp sock) = send_draft loc temp sock p"
| "thread_step loc p (UploadAnswer i r sock) = upload_answer i r sock p"
| "thread_step loc p (PostAnswer i r) = post_answer i r p"
| "thread_step loc p (ReloadAnswer i r) = finish i (thread_loaded r p)"
| "thread_step loc p (OpenAttachment a) = p"
| "thread_step loc p AttachmentFailed = p\<lparr>th_error := Some ''Could not open the attachment.''\<rparr>"
| "thread_step loc p (Reporting mid ev) =
     p\<lparr>th_reports := (th_reports p)(mid := report_step mid (th_reports p mid) ev)\<rparr>"
| "thread_step loc p ToInbox = p"

text \<open>
  The requests an event starts: the upload of the file, the message over REST when the socket takes no frame,
  the reload after a message or its hint, and the address of an attachment.
\<close>

definition send_requests :: "string \<Rightarrow> bool \<Rightarrow> thread_page \<Rightarrow> api_init list" where
  "send_requests tid sock p =
     (let body = trim (th_draft p)
      in if (body = [] \<and> th_attachment p = None) \<or> length body > MESSAGE_MAX_CHARS then []
         else (case th_attachment p of
             Some f \<Rightarrow> [upload_req ''message'' f]
           | None \<Rightarrow> if sock then [] else [messagingApi_send tid body None]))"

fun thread_requests :: "string \<Rightarrow> thread_page \<Rightarrow> thread_page_event \<Rightarrow> api_init list" where
  "thread_requests tid p (SendForm temp sock) = send_requests tid sock p"
| "thread_requests tid p (PressEnter temp sock) = send_requests tid sock p"
| "thread_requests tid p (UploadAnswer i (Inr aid) sock) =
     (if sock then [] else [messagingApi_send tid (if_body (th_sends p ! i)) (Some aid)])"
| "thread_requests tid p (PostAnswer i (Inr v)) = [messagingApi_detail tid]"
| "thread_requests tid p (FromSocket (MessageEvent data)) = [messagingApi_detail tid]"
| "thread_requests tid p (OpenAttachment (Some a)) = [download_req a]"
| "thread_requests tid p e = []"

text \<open>
  What the page shows. The text area fires \<open>TypeDraft\<close>, and \<open>PressEnter\<close> on the key whatever the
  send button says; the clock and the socket are the environment's, so the button stands for every
  identifier and both states of the socket.
\<close>

definition message_node ::
    "int option \<Rightarrow> locale_text \<Rightarrow> (string \<Rightarrow> report_form) \<Rightarrow> chat_message \<Rightarrow> thread_page_event ui" where
  "message_node me loc reports m =
     Box (cm_id m)
       (shown_if (me \<noteq> Some (cm_sender_id m)) [Text (cm_sender_name m)]
        @ shown_if (cm_body m \<noteq> []) [Text (cm_body m)]
        @ (case cm_attachment m of None \<Rightarrow> []
           | Some (aid, name) \<Rightarrow> [Button (''[clip] '' @ name) False (OpenAttachment (Some aid))])
        @ [Text (show_short loc (cm_created_at m))]
        @ map (map_events (Reporting (cm_id m))) (ReportMessageButton (cm_id m) (reports (cm_id m))))"

definition pending_node :: "pending_message \<Rightarrow> thread_page_event ui" where
  "pending_node m =
     Box ''pending-message''
       (Text (pm_body m)
        # (case pm_attachment m of None \<Rightarrow> [] | Some n \<Rightarrow> [Text (''[clip] '' @ n @ '' (uploading...)'')])
        @ [Text ''sending...''])"

definition send_form :: "string \<Rightarrow> bool \<Rightarrow> thread_page \<Rightarrow> thread_page_event ui list" where
  "send_form temp sock p =
     [Field ''message-input'' (th_draft p) TypeDraft,
                   Button ''Enter'' False (PressEnter temp sock),
                   Files (nullish (th_attachment p) ''Attach file (pdf/png/jpg/txt <= 5 MB)'')
                     (\<lambda>fs. ChooseAttachment (case fs of [] \<Rightarrow> None | f # _ \<Rightarrow> Some f)),
                   Text (show_nat (length (th_draft p)) @ ''/'' @ show_nat MESSAGE_MAX_CHARS),
                   Button (if th_uploading p then ''Sending...'' else ''Send'')
                     (th_uploading p \<or> (trim (th_draft p) = [] \<and> th_attachment p = None))
                     (SendForm temp sock)]"

definition ThreadPage ::
    "locale_text \<Rightarrow> int option \<Rightarrow> bool \<Rightarrow> string \<Rightarrow> bool \<Rightarrow> thread_page \<Rightarrow> thread_page_event ui list" where
  "ThreadPage loc me live temp sock p =
     (case th_thread p of
        None \<Rightarrow>
          (if truthy (th_error p)
           then [Text (the (th_error p)), Button ''Back to inbox'' False ToInbox]
           else [Box ''thread-loading'' []])
      | Some t \<Rightarrow>
          [Heading (td_context_label t),
           Text (if live then ''Live'' else ''Offline -- messages send over REST and sync on reconnect'')]
          @ shown_if (td_read_only t) [Badge ''neutral'' ''Read-only (ended)'']
          @ [Button ''Inbox'' False ToInbox]
          @ shown_if (td_context_type t = Order_thread \<or> td_context_type t = Dispute_thread) PolicyBanner
          @ [Box ''thread-messages'' (map (message_node me loc (th_reports p)) (th_messages p) @ map pending_node (th_pending p))]
          @ (if truthy (th_typing p) then [Text (the (th_typing p) @ '' is typing...'')] else [])
          @ alert_if (th_error p)
          @ (if td_read_only t
             then [Text ''This conversation is read-only -- the order or request has ended (history is preserved).'']
             else send_form temp sock p))"

text \<open>The user's events come from the tree; the others when there is something to answer.\<close>

fun thread_enabled :: "locale_text \<Rightarrow> thread_page \<Rightarrow> thread_page_event \<Rightarrow> bool" where
  "thread_enabled loc p (Loaded r) = True"
| "thread_enabled loc p (FromSocket ev) = True"
| "thread_enabled loc p TypingOver = True"
| "thread_enabled loc p AttachmentFailed = True"
| "thread_enabled loc p (Reporting mid (ReportSent r)) = True"
| "thread_enabled loc p (UploadAnswer i r sock) =
     (i < length (th_sends p) \<and> (case if_phase (th_sends p ! i) of Uploading f \<Rightarrow> True | _ \<Rightarrow> False))"
| "thread_enabled loc p (PostAnswer i r) = (i < length (th_sends p) \<and> if_phase (th_sends p ! i) = Posting)"
| "thread_enabled loc p (ReloadAnswer i r) = (i < length (th_sends p) \<and> if_phase (th_sends p ! i) = Reloading)"
| "thread_enabled loc p (SendForm temp sock) = offered (ThreadPage loc None True temp sock p) (SendForm temp sock)"
| "thread_enabled loc p (PressEnter temp sock) = offered (ThreadPage loc None True temp sock p) (PressEnter temp sock)"
| "thread_enabled loc p e = offered (ThreadPage loc None True [] True p) e"

section \<open>The inbox\<close>

text \<open>\<open>relativeTime\<close>, given the difference in milliseconds; \<open>Math.floor\<close> rounds down.\<close>

definition relativeTime :: "int \<Rightarrow> string" where
  "relativeTime deltaMs =
     (let minutes = deltaMs div 60000; hours = minutes div 60
      in if minutes < 1 then ''just now''
         else if minutes < 60 then show_int minutes @ ''m ago''
         else if hours < 24 then show_int hours @ ''h ago''
         else show_int (hours div 24) @ ''d ago'')"

record inbox =
  ib_threads :: "thread_card list option"
  ib_error :: "string option"
  ib_search :: string

definition inbox_init :: inbox where
  "inbox_init = \<lparr>ib_threads = None, ib_error = None, ib_search = []\<rparr>"

datatype inbox_event = InboxLoaded "failure + thread_card list" | TypeSearch string

fun inbox_step :: "inbox \<Rightarrow> inbox_event \<Rightarrow> inbox" where
  "inbox_step s (InboxLoaded (Inr ts)) = s\<lparr>ib_threads := Some ts, ib_error := None\<rparr>"
| "inbox_step s (InboxLoaded (Inl e)) = s\<lparr>ib_error := Some ''Could not load your conversations.''\<rparr>"
| "inbox_step s (TypeSearch q) = s\<lparr>ib_search := q\<rparr>"

definition matches :: "string \<Rightarrow> string \<Rightarrow> bool" where
  "matches q text \<longleftrightarrow> str_includes (to_lower text) (to_lower q)"

definition filtered_threads :: "inbox \<Rightarrow> thread_card list" where
  "filtered_threads s =
     filter (\<lambda>t. matches (ib_search s) (tc_counterpart t) \<or> matches (ib_search s) (tc_context_label t)
              \<or> matches (ib_search s) (tc_last_message t)) (nullish (ib_threads s) [])"

definition card_node :: "(string \<Rightarrow> int) \<Rightarrow> thread_card \<Rightarrow> inbox_event ui" where
  "card_node age t =
     Box (tc_id t)
       ([Link (''/messages/'' @ tc_id t) (tc_counterpart t), Text (to_upper (take 1 (tc_counterpart t))),
         Text (tc_context_label t),
         Text (or_else (tc_last_message t) ''No messages yet''), Text (relativeTime (age (tc_last_message_at t)))]
        @ shown_if (0 < tc_unread t) [Badge ''info'' (show_nat (tc_unread t) @ '' new'')]
        @ shown_if (tc_read_only t) [Badge ''neutral'' ''Archived''])"

definition MessagesInboxPage :: "(string \<Rightarrow> int) \<Rightarrow> inbox \<Rightarrow> inbox_event ui list" where
  "MessagesInboxPage age s =
     [Heading ''Marketplace Messages'', Text ''Secure & Moderated'',
      Text ''End-to-end communication for active engagements, milestone clarification, and coordinator dispatch.'',
      Field ''Search conversations...'' (ib_search s) TypeSearch]
     @ alert_if (ib_error s)
     @ shown_if (ib_threads s = None \<and> \<not> truthy (ib_error s)) [Box ''inbox-loading'' []]
     @ shown_if (ib_threads s = Some [])
         [Heading ''No conversations yet'',
          Text ''Conversations initiate automatically once an order is created, an expert offer is submitted, or a coordinator routes your task.'']
     @ shown_if (nullish (ib_threads s) [] \<noteq> [] \<and> filtered_threads s = [])
         [Text ''No conversations match your search'',
          Text ''Try searching by participant name or order topic.'']
     @ map (card_node age) (filtered_threads s)"

section \<open>Lemmas\<close>

lemma offered_message_node:
  "offers (message_node me loc rs m) e \<Longrightarrow> (\<exists>a. e = OpenAttachment a) \<or> (\<exists>x. e = Reporting (cm_id m) x)"
  by (auto simp: message_node_def offers_Box offered_child simp del: offers.simps(6) split: option.splits)

lemma offered_pending_node [simp]: "\<not> offers (pending_node m) e"
  by (auto simp: pending_node_def offers_Box simp del: offers.simps(6) split: option.splits)

lemma offered_banner [simp]: "\<not> offered PolicyBanner e"
  by (simp add: PolicyBanner_def)

lemma offered_send_form:
  "offered (send_form temp sock p) e \<longleftrightarrow>
     (\<exists>s. e = TypeDraft s) \<or> e = PressEnter temp sock \<or>
     (\<exists>fs. e = ChooseAttachment (case fs of [] \<Rightarrow> None | f # _ \<Rightarrow> Some f)) \<or>
     (e = SendForm temp sock \<and> \<not> th_uploading p \<and> (trim (th_draft p) \<noteq> [] \<or> th_attachment p \<noteq> None))"
  by (simp add: send_form_def) blast

lemma offered_ThreadPage:
  assumes "offered (ThreadPage loc me live temp sock p) e"
  shows "e = ToInbox \<or> (\<exists>a. e = OpenAttachment a) \<or> (\<exists>m x. e = Reporting m x) \<or>
   (\<exists>t. th_thread p = Some t \<and> \<not> td_read_only t \<and> offered (send_form temp sock p) e)"
proof (cases "th_thread p")
  case None
  then show ?thesis using assms by (simp add: ThreadPage_def split: if_splits)
next
  case (Some t)
  then have "e = ToInbox \<or> offered (map (message_node me loc (th_reports p)) (th_messages p)) e \<or>
      (\<not> td_read_only t \<and> offered (send_form temp sock p) e) \<or> offered (map pending_node (th_pending p)) e"
    using assms by (simp add: ThreadPage_def offers_Box del: offers.simps(6)) blast
  then show ?thesis
    using Some offered_message_node by (fastforce simp: offered_map)
qed

lemma offered_form: "th_thread p = Some t \<Longrightarrow> \<not> td_read_only t \<Longrightarrow> offered (send_form temp sock p) e \<Longrightarrow>
  offered (ThreadPage loc me live temp sock p) e"
  by (simp add: ThreadPage_def)

lemmas thread_defs = send_draft_def send_failed_def finish_def set_phase_def upload_answer_def
  post_answer_def thread_loaded_def Let_def

abbreviation thread_page_reach :: "locale_text \<Rightarrow> thread_page \<Rightarrow> bool" where
  "thread_page_reach loc \<equiv> reach (\<lambda>p. p = thread_init) (thread_enabled loc) (thread_step loc)"

definition sample_thread :: thread_detail where
  "sample_thread = \<lparr>td_id = ''t1'', td_context_type = Order_thread, td_context_label = ''HM-1'',
     td_read_only = False, td_messages = []\<rparr>"

section \<open>Properties\<close>

text \<open>
  What a click on the button or the enter key can send. If either adds a message, then the
  conversation is loaded and not read-only, and the message is the trimmed draft, of at most
  5,000 characters and not empty unless it carries the chosen file; the draft is cleared.
\<close>

lemma thread_sends_guarded:
  assumes "thread_enabled loc p e" "e = SendForm temp sock \<or> e = PressEnter temp sock"
    and "th_pending (thread_step loc p e) \<noteq> th_pending p"
  shows "(\<exists>t. th_thread p = Some t \<and> \<not> td_read_only t) \<and>
    th_pending (thread_step loc p e) =
      th_pending p @ [\<lparr>pm_temp_id = temp, pm_body = trim (th_draft p), pm_attachment = th_attachment p\<rparr>] \<and>
    length (trim (th_draft p)) \<le> 5000 \<and> (trim (th_draft p) \<noteq> [] \<or> th_attachment p \<noteq> None) \<and>
    th_draft (thread_step loc p e) = []"
proof -
  have "\<exists>t. th_thread p = Some t \<and> \<not> td_read_only t"
    using assms(1,2) offered_ThreadPage [of loc None True temp sock p] by fastforce
  then show ?thesis
    using assms(2,3)
    by (auto simp: thread_defs MESSAGE_MAX_CHARS_def split: if_splits option.splits)
qed

text \<open>A send keeps its text as long as it is in flight, whatever happens to the page.\<close>

fun sends_as :: "string \<Rightarrow> thread_page_event \<Rightarrow> bool" where
  "sends_as temp (SendForm t sock) = (t = temp)"
| "sends_as temp (PressEnter t sock) = (t = temp)"
| "sends_as temp e = False"

definition carries :: "string \<Rightarrow> string \<Rightarrow> in_flight list \<Rightarrow> bool" where
  "carries temp body sends \<longleftrightarrow>
     (\<forall>s \<in> set sends. if_temp_id s = temp \<longrightarrow> if_body s = body) \<and>
     length (filter (\<lambda>s. if_temp_id s = temp) sends) \<le> 1"

lemma carries_snoc:
  "carries temp b ss \<Longrightarrow> if_temp_id x \<noteq> temp \<Longrightarrow> carries temp b (ss @ [x])"
  by (simp add: carries_def)

lemma carries_remove: "carries temp b ss \<Longrightarrow> carries temp b (take i ss @ drop (Suc i) ss)"
proof -
  assume c: "carries temp b ss"
  have "set (take i ss @ drop (Suc i) ss) \<subseteq> set ss" by (auto dest: in_set_takeD in_set_dropD)
  moreover have "length (filter P (take i ss @ drop (Suc i) ss)) \<le> length (filter P ss)" for P
  proof (cases "i < length ss")
    case True
    have "length (filter P ss) = length (filter P (take i ss @ ss ! i # drop (Suc i) ss))"
      using id_take_nth_drop [OF True] by simp
    then show ?thesis by simp
  qed simp
  ultimately show ?thesis using c by (auto simp: carries_def intro: le_trans)
qed

lemma carries_phase: "carries temp b ss \<Longrightarrow> carries temp b (ss[i := (ss ! i)\<lparr>if_phase := ph\<rparr>])"
proof (cases "i < length ss")
  case True
  assume c: "carries temp b ss"
  let ?P = "\<lambda>s. if_temp_id s = temp"
  have "length (filter ?P (ss[i := (ss ! i)\<lparr>if_phase := ph\<rparr>])) = length (filter ?P ss)"
    using True by (subst (2) id_take_nth_drop [OF True]) (simp add: upd_conv_take_nth_drop)
  moreover have "if_temp_id s = temp \<longrightarrow> if_body s = b" if "s \<in> set (ss[i := (ss ! i)\<lparr>if_phase := ph\<rparr>])" for s
    using set_update_subset_insert [of ss i "(ss ! i)\<lparr>if_phase := ph\<rparr>"] that c nth_mem [OF True]
    by (auto simp: carries_def)
  ultimately show ?thesis using c by (simp add: carries_def)
qed (simp add: list_update_beyond)

lemma carries_step:
  assumes "carries temp b (th_sends p)" "\<not> sends_as temp e"
  shows "carries temp b (th_sends (thread_step loc p e))"
proof -
  have socket: "th_sends (on_socket_event ev p) = th_sends p" for ev by (cases ev) simp_all
  have send: "carries temp b (th_sends (send_draft loc t sock p))" if "t \<noteq> temp" for t sock
    using assms(1) that
    by (auto simp: send_draft_def Let_def split: option.split intro: carries_snoc)
  show ?thesis
    using assms send
    by (cases e)
      (simp_all add: send_failed_def finish_def set_phase_def upload_answer_def post_answer_def thread_loaded_def
        Let_def socket carries_remove carries_phase split: sum.split)
qed

lemma carries_run:
  "carries temp b (th_sends p) \<Longrightarrow> \<forall>e \<in> set es. \<not> sends_as temp e \<Longrightarrow>
   carries temp b (th_sends (run (thread_step loc) p es))"
  by (induction es arbitrary: p) (simp_all add: carries_step)

lemma carries_alone:
  assumes "carries temp b ss" "i < length ss" "if_temp_id (ss ! i) = temp"
  shows "temp \<notin> if_temp_id ` set (take i ss @ drop (Suc i) ss)"
proof -
  let ?P = "\<lambda>s. if_temp_id s = temp"
  have "length (filter ?P ss) = length (filter ?P (take i ss @ ss ! i # drop (Suc i) ss))"
    using id_take_nth_drop [OF assms(2)] by simp
  then have "filter ?P (take i ss @ drop (Suc i) ss) = []" using assms(1,3) by (simp add: carries_def)
  then show ?thesis unfolding filter_empty_conv by auto
qed

lemma send_added:
  assumes "th_sends (send_draft loc temp sock p) \<noteq> th_sends p"
  obtains ph where "th_sends (send_draft loc temp sock p)
      = th_sends p @ [\<lparr>if_temp_id = temp, if_body = trim (th_draft p), if_phase = ph\<rparr>]"
    "th_pending (send_draft loc temp sock p)
      = th_pending p @ [\<lparr>pm_temp_id = temp, pm_body = trim (th_draft p), pm_attachment = th_attachment p\<rparr>]"
    "th_draft (send_draft loc temp sock p) = []"
    "send_requests tid sock p = (case th_attachment p of
       Some f \<Rightarrow> [upload_req ''message'' f] | None \<Rightarrow> [messagingApi_send tid (trim (th_draft p)) None])"
  using assms that
  by (auto simp: send_draft_def send_requests_def Let_def split: if_splits option.splits)

text \<open>
  C22: a send that fails over REST gives back exactly what was sent. The click takes the trimmed draft
  off the field and shows its copy; the message that goes out, at once or after the upload of its file,
  carries that text. Whatever happens meanwhile - other sends, answers, reloads, typing - when its
  upload or its request then fails, the copy goes, the others stay, the send has ended, the reason is shown
  and the text of the click is back in the field, unless something was typed since, which stays. The
  identifier the clock gives is assumed not to be used by another send.
\<close>

theorem failed_send_restores:
  assumes "e0 \<in> {SendForm temp sock, PressEnter temp sock}" "th_sends (thread_step loc p e0) \<noteq> th_sends p"
    and "temp \<notin> if_temp_id ` set (th_sends p)" "\<forall>x \<in> set es. \<not> sends_as temp x"
    and "p2 = run (thread_step loc) (thread_step loc p e0) es"
    and "i < length (th_sends p2)" "if_temp_id (th_sends p2 ! i) = temp"
    and "e = UploadAnswer i (Inl err) sock2 \<or> e = PostAnswer i (Inl err)"
  shows "th_draft (thread_step loc p e0) = [] \<and>
    th_pending (thread_step loc p e0)
      = th_pending p @ [\<lparr>pm_temp_id = temp, pm_body = trim (th_draft p), pm_attachment = th_attachment p\<rparr>] \<and>
    (th_attachment p = None \<longrightarrow>
       thread_requests tid p e0 = [messagingApi_send tid (trim (th_draft p)) None]) \<and>
    thread_requests tid p2 (UploadAnswer i (Inr aid) False)
      = [messagingApi_send tid (trim (th_draft p)) (Some aid)] \<and>
    th_draft (thread_step loc p2 e) = (if th_draft p2 = [] then trim (th_draft p) else th_draft p2) \<and>
    th_pending (thread_step loc p2 e) = filter (\<lambda>m. pm_temp_id m \<noteq> temp) (th_pending p2) \<and>
    temp \<notin> if_temp_id ` set (th_sends (thread_step loc p2 e)) \<and>
    th_error (thread_step loc p2 e) = Some (message_or ''Message failed to send.'' err)"
proof -
  have step: "thread_step loc p e0 = send_draft loc temp sock p"
    and req: "thread_requests tid p e0 = send_requests tid sock p" using assms(1) by auto
  obtain ph where sent: "th_sends (thread_step loc p e0)
        = th_sends p @ [\<lparr>if_temp_id = temp, if_body = trim (th_draft p), if_phase = ph\<rparr>]"
      "th_pending (thread_step loc p e0)
        = th_pending p @ [\<lparr>pm_temp_id = temp, pm_body = trim (th_draft p), pm_attachment = th_attachment p\<rparr>]"
      "th_draft (thread_step loc p e0) = []"
      "thread_requests tid p e0 = (case th_attachment p of
         Some f \<Rightarrow> [upload_req ''message'' f] | None \<Rightarrow> [messagingApi_send tid (trim (th_draft p)) None])"
    using send_added [of loc temp sock p tid] assms(2) unfolding step req by blast
  have none: "filter (\<lambda>s. if_temp_id s = temp) (th_sends p) = []"
    using assms(3) by (auto simp: filter_empty_conv)
  have "carries temp (trim (th_draft p)) (th_sends (thread_step loc p e0))"
    using assms(3) by (auto simp: carries_def sent(1) none)
  then have c: "carries temp (trim (th_draft p)) (th_sends p2)"
    unfolding assms(5) by (rule carries_run [OF _ assms(4)])
  have body: "if_body (th_sends p2 ! i) = trim (th_draft p)"
    using c assms(6,7) nth_mem by (auto simp: carries_def)
  have fail: "thread_step loc p2 e = send_failed i err p2" using assms(8) by (auto simp: upload_answer_def post_answer_def)
  have "temp \<notin> if_temp_id ` set (th_sends (thread_step loc p2 e))"
    using carries_alone [OF c assms(6,7)] by (simp add: fail send_failed_def finish_def Let_def)
  then show ?thesis
    using sent(2-4) body assms(7) by (simp add: fail send_failed_def finish_def Let_def)
qed

theorem failed_send_restores_witness:
  "th_draft (run (thread_step plain_locale) thread_init
     [Loaded (Inr sample_thread), TypeDraft ''hello'', PressEnter ''k1'' False, FromSocket (TypingEvent ''Sam''),
      PostAnswer 0 (Inl (JsError ''Failed to fetch''))]) = ''hello''"
proof -
  let ?p = "run (thread_step plain_locale) thread_init [Loaded (Inr sample_thread), TypeDraft ''hello'']"
  let ?p2 = "run (thread_step plain_locale) (thread_step plain_locale ?p (PressEnter ''k1'' False))
     [FromSocket (TypingEvent ''Sam'')]"
  have t: "trim ''hello'' = ''hello''" by (simp add: trim_def is_js_space_def)
  have s: "th_sends ?p2 = [\<lparr>if_temp_id = ''k1'', if_body = ''hello'', if_phase = Posting\<rparr>]" "th_draft ?p2 = []"
    "th_sends (thread_step plain_locale ?p (PressEnter ''k1'' False)) \<noteq> th_sends ?p" "th_sends ?p = []"
    "th_draft ?p = ''hello''"
    by (simp_all add: thread_defs t MESSAGE_MAX_CHARS_def thread_init_def)
  have "th_draft (thread_step plain_locale ?p2 (PostAnswer 0 (Inl (JsError ''Failed to fetch'')))) = ''hello''"
    using failed_send_restores [of "PressEnter ''k1'' False" "''k1''" False plain_locale ?p
        "[FromSocket (TypingEvent ''Sam'')]" ?p2 0 "PostAnswer 0 (Inl (JsError ''Failed to fetch''))"
        "JsError ''Failed to fetch''" False "[]" "[]"]
    using s t by (simp del: run.simps thread_step.simps add: s(3))
  then show ?thesis by simp
qed

text \<open>
  A message the server refuses over the socket is lost. For every text of at most 5,000
  characters there is a reachable state that shows it as being sent; when the refusal arrives, it
  is in neither the list, the draft nor a send.
\<close>

lemma refused_frame_loses_text:
  assumes "trim txt = txt" "txt \<noteq> []" "length txt \<le> 5000"
  shows "\<exists>p. thread_page_reach loc p \<and> map pm_body (th_pending p) = [txt] \<and>
    (let p' = thread_step loc p (FromSocket (ErrorEvent m))
     in th_pending p' = [] \<and> th_draft p' = [] \<and> th_sends p' = [])"
proof (intro exI conjI)
  let ?es = "[Loaded (Inr sample_thread), TypeDraft txt, PressEnter ''k1'' True]"
  let ?p = "run (thread_step loc) thread_init ?es"
  show "thread_page_reach loc ?p"
    by (rule reach_run)
      (auto intro: reach_start simp: ThreadPage_def offered_send_form sample_thread_def thread_defs thread_init_def)
  show "map pm_body (th_pending ?p) = [txt]"
    using assms by (simp add: thread_defs MESSAGE_MAX_CHARS_def thread_init_def)
  show "let p' = thread_step loc ?p (FromSocket (ErrorEvent m))
     in th_pending p' = [] \<and> th_draft p' = [] \<and> th_sends p' = []"
    using assms by (simp add: thread_defs MESSAGE_MAX_CHARS_def thread_init_def)
qed

text \<open>
  Pressing enter twice while a file uploads sends the file twice. The button is disabled
  meanwhile, but the key is not: a reachable state has two uploads of the same file in flight, and
  the second message has no text.
\<close>

lemma double_enter_sends_twice:
  "\<exists>p. thread_page_reach loc p \<and> th_uploading p \<and>
     map if_phase (th_sends p) = [Uploading f, Uploading f] \<and> map if_body (th_sends p) = [''see file'', []]"
proof (intro exI conjI)
  let ?es = "[Loaded (Inr sample_thread), TypeDraft ''see file'', ChooseAttachment (Some f),
      PressEnter ''k1'' True, PressEnter ''k2'' True]"
  let ?p = "run (thread_step loc) thread_init ?es"
  have t: "trim ''see file'' = ''see file''" "trim [] = []" by (simp_all add: trim_def is_js_space_def)
  have choose: "\<exists>fs. Some f = (case fs of [] \<Rightarrow> None | g # _ \<Rightarrow> Some g)"
    by (rule exI [of _ "[f]"]) simp
  show "thread_page_reach loc ?p"
    by (rule reach_run)
      (auto intro: reach_start choose simp: ThreadPage_def offered_send_form sample_thread_def thread_defs thread_init_def t
        MESSAGE_MAX_CHARS_def)
  show "th_uploading ?p" "map if_phase (th_sends ?p) = [Uploading f, Uploading f]"
    "map if_body (th_sends ?p) = [''see file'', []]"
    by (simp_all add: thread_defs t MESSAGE_MAX_CHARS_def thread_init_def)
qed

end
