(* ===== verification/Desks.thy ===== *)
theory Desks
  imports Forms Numbers
begin

text \<open>
  Two desks of the portal that work on lists of their own: the dispatch of managed work,
  \<open>app/(portal)/portal/dispatch/page.tsx\<close>, and the verification of experts,
  \<open>app/(portal)/portal/experts/page.tsx\<close>. The third, the escrow monitor, is in \<open>Finance\<close>.

  The locale \<open>desk\<close> is what the three share: an action changes the status of entries and nothing else of the
  list, and a notice goes away because a timeout is pending while it is shown.
\<close>

section \<open>Desks\<close>

text \<open>\<open>list.map((x) => (x.id === id ? change(x) : x))\<close>.\<close>

definition update_where :: "('a \<Rightarrow> string) \<Rightarrow> string \<Rightarrow> ('a \<Rightarrow> 'a) \<Rightarrow> 'a list \<Rightarrow> 'a list" where
  "update_where key k f xs = map (\<lambda>x. if key x = k then f x else x) xs"

text \<open>\<open>text.toLowerCase().includes(query.toLowerCase())\<close>.\<close>

definition has_text :: "string \<Rightarrow> string \<Rightarrow> bool" where
  "has_text q s \<longleftrightarrow> sublist (to_lower q) (to_lower s)"

lemma map_update_where: "(\<And>x. g (f x) = g x) \<Longrightarrow> map g (update_where key k f xs) = map g xs"
  by (simp add: update_where_def)

lemma set_update_where:
  "x \<in> set (update_where key k f xs) \<Longrightarrow> (\<exists>y \<in> set xs. key y = k \<and> x = f y) \<or> (x \<in> set xs \<and> key x \<noteq> k)"
  by (auto simp: update_where_def split: if_splits)

text \<open>
  A desk: \<open>entries\<close> are the rows, \<open>frame\<close> is what is left of a row without its status, \<open>notice\<close> is shown
  on top, and \<open>timers\<close> counts the timeouts that will clear it.
\<close>

locale desk =
  fixes begin_with :: 's
    and allowed :: "'s \<Rightarrow> 'e \<Rightarrow> bool"
    and step :: "'s \<Rightarrow> 'e \<Rightarrow> 's"
    and entries :: "'s \<Rightarrow> 'a list"
    and frame :: "'a \<Rightarrow> 'b"
    and notice :: "'s \<Rightarrow> string option"
    and timers :: "'s \<Rightarrow> nat"
  assumes quiet: "notice begin_with = None"
    and frame_step: "map frame (entries (step s e)) = map frame (entries s)"
    and timed_step: "notice s = None \<or> 0 < timers s \<Longrightarrow> allowed s e \<Longrightarrow> notice (step s e) = None \<or> 0 < timers (step s e)"
begin

lemma frame_run: "map frame (entries (run step s es)) = map frame (entries s)"
  by (induction es arbitrary: s) (simp_all add: frame_step)

lemma entries_number: "length (entries (run step s es)) = length (entries s)"
  using frame_run by (metis length_map)

lemma total_run:
  assumes "\<And>x. value x = g (frame x)"
  shows "sum_list (map value (entries (run step s es))) = sum_list (map value (entries s))"
proof -
  have "map value xs = map g (map frame xs)" for xs using assms by simp
  then show ?thesis by (simp only: frame_run)
qed

end

sublocale desk \<subseteq> machine "\<lambda>s. s = begin_with" allowed step
    "\<lambda>s. map frame (entries s) = map frame (entries begin_with) \<and> (notice s = None \<or> 0 < timers s)"
proof unfold_locales
  fix s e
  assume "map frame (entries s) = map frame (entries begin_with) \<and> (notice s = None \<or> 0 < timers s)" "allowed s e"
  then show "map frame (entries (step s e)) = map frame (entries begin_with) \<and> (notice (step s e) = None \<or> 0 < timers (step s e))"
    using frame_step [of s e] timed_step [of s e] by simp
qed (simp add: quiet)

section \<open>The dispatch of managed work\<close>

datatype task_status = Unmatched | Pool_broadcast | Specialist_locked

record managed_task =
  mt_id :: string
  mt_reference :: string
  mt_title :: string
  mt_discipline :: string
  mt_student :: string
  mt_budget :: nat
  mt_currency :: string
  mt_pricing :: string
  mt_hours :: rat
  mt_status :: task_status
  mt_description :: string

record specialist =
  sc_id :: nat
  sc_name :: string
  sc_headline :: string
  sc_rating :: rat
  sc_completed :: nat
  sc_workload :: nat
  sc_match :: nat
  sc_discipline :: string
  sc_payout :: nat

definition INITIAL_TASKS :: "managed_task list" where
  "INITIAL_TASKS =
     [\<lparr>mt_id = ''req-m-01'', mt_reference = ''MAN-8821'',
        mt_title = ''Econometric Model Specification & Robustness Standard Errors in Stata'',
        mt_discipline = ''Economics & Econometrics'', mt_student = ''Chloe M. (Columbia Univ)'', mt_budget = 380,
        mt_currency = ''USD'', mt_pricing = ''fixed'', mt_hours = 18 / 10, mt_status = Unmatched,
        mt_description = ''Need model verification for panel data regression analyzing cross-country tariff impacts with clustered standard errors. Verification of do-files and summary table export required.''\<rparr>,
      \<lparr>mt_id = ''req-m-02'', mt_reference = ''MAN-8824'',
        mt_title = ''Quantum Mechanics Perturbation Theory & Dirac Notation Proofs'',
        mt_discipline = ''Physics'', mt_student = ''Alexander W. (Oxford)'', mt_budget = 520,
        mt_currency = ''USD'', mt_pricing = ''fixed'', mt_hours = 42 / 10, mt_status = Unmatched,
        mt_description = ''Step-by-step mathematical derivation of second-order non-degenerate perturbation Hamiltonian shifts with full Bra-Ket notation formatting.''\<rparr>,
      \<lparr>mt_id = ''req-m-03'', mt_reference = ''MAN-8829'',
        mt_title = ''Biochemical Pathway Analysis & Enzyme Kinetics Michaelis-Menten'',
        mt_discipline = ''Biology & Medicine'', mt_student = ''Devon L. (Johns Hopkins)'', mt_budget = 260,
        mt_currency = ''USD'', mt_pricing = ''fixed'', mt_hours = 95 / 10, mt_status = Pool_broadcast,
        mt_description = ''Calculation of Vmax, Km, and competitive inhibition curve fitting using Lineweaver-Burk and non-linear regression models.''\<rparr>,
      \<lparr>mt_id = ''req-m-04'', mt_reference = ''MAN-8835'',
        mt_title = ''Distributed Systems Raft Consensus Protocol Implementation Review'',
        mt_discipline = ''Computer Science'', mt_student = ''Liam T. (UC Berkeley)'', mt_budget = 650,
        mt_currency = ''USD'', mt_pricing = ''fixed'', mt_hours = 18, mt_status = Specialist_locked,
        mt_description = ''Formal verification and Go implementation review of leader election and log replication safety invariants under network partition scenarios.''\<rparr>]"

definition SPECIALISTS_DATABASE :: "specialist list" where
  "SPECIALISTS_DATABASE =
     [\<lparr>sc_id = 101, sc_name = ''Dr. Eleanor Vance'', sc_headline = ''Ph.D. in Econometrics (MIT) - Postdoctoral Fellow'',
        sc_rating = 5, sc_completed = 142, sc_workload = 1, sc_match = 98,
        sc_discipline = ''Economics & Econometrics'', sc_payout = 300\<rparr>,
      \<lparr>sc_id = 102, sc_name = ''Dr. Marcus Thorne'', sc_headline = ''Ph.D. in Theoretical Physics (Cambridge) - Ex-CERN'',
        sc_rating = 49 / 10, sc_completed = 98, sc_workload = 2, sc_match = 95,
        sc_discipline = ''Physics'', sc_payout = 410\<rparr>,
      \<lparr>sc_id = 103, sc_name = ''Dr. Sarah Chen'', sc_headline = ''Ph.D. in Molecular Biology (Harvard) - 12 Pubs'',
        sc_rating = 495 / 100, sc_completed = 110, sc_workload = 0, sc_match = 96,
        sc_discipline = ''Biology & Medicine'', sc_payout = 200\<rparr>,
      \<lparr>sc_id = 104, sc_name = ''Dr. Alan Turing-Smith'', sc_headline = ''Ph.D. in Computer Science (Stanford) - Systems Architect'',
        sc_rating = 498 / 100, sc_completed = 215, sc_workload = 1, sc_match = 99,
        sc_discipline = ''Computer Science'', sc_payout = 520\<rparr>]"

record dispatch_desk =
  di_tasks :: "managed_task list"
  di_selected :: "managed_task option"
  di_search :: string
  di_filter :: "task_status option"      \<comment> \<open>None for all\<close>
  di_toast :: "string option"
  di_timers :: nat

definition dispatch_init :: dispatch_desk where
  "dispatch_init =
     \<lparr>di_tasks = INITIAL_TASKS, di_selected = None, di_search = [], di_filter = None, di_toast = None, di_timers = 0\<rparr>"

definition filteredTasks :: "dispatch_desk \<Rightarrow> managed_task list" where
  "filteredTasks p =
     filter (\<lambda>t. (di_search p = [] \<or> has_text (di_search p) (mt_title t) \<or> has_text (di_search p) (mt_reference t)
                   \<or> has_text (di_search p) (mt_discipline t))
                \<and> (di_filter p = None \<or> di_filter p = Some (mt_status t))) (di_tasks p)"

definition matchedCandidates :: "specialist list \<Rightarrow> managed_task option \<Rightarrow> specialist list" where
  "matchedCandidates db t =
     (case t of
        None \<Rightarrow> []
      | Some k \<Rightarrow> sort_key (\<lambda>s. - int (sc_match s)) (filter (\<lambda>s. to_lower (sc_discipline s) = to_lower (mt_discipline k)) db))"

datatype dispatch_event =
    SelectTask managed_task
  | CloseMatcher
  | AssignTo specialist
  | BroadcastPool
  | TypeTaskSearch string
  | PickTaskFilter "task_status option"
  | CloseToast
  | ToastOver                            \<comment> \<open>one of the pending timeouts\<close>

definition set_task :: "string \<Rightarrow> task_status \<Rightarrow> managed_task list \<Rightarrow> managed_task list" where
  "set_task k st = update_where mt_id k (\<lambda>t. t\<lparr>mt_status := st\<rparr>)"

definition handleAssign :: "specialist \<Rightarrow> dispatch_desk \<Rightarrow> dispatch_desk" where
  "handleAssign s p =
     (case di_selected p of
        None \<Rightarrow> p
      | Some t \<Rightarrow>
          p\<lparr>di_tasks := set_task (mt_id t) Specialist_locked (di_tasks p),
            di_toast := Some (''Directly assigned '' @ sc_name s @ '' to '' @ mt_reference t @ ''. Engagement locked.''),
            di_selected := None, di_timers := Suc (di_timers p)\<rparr>)"

definition handleBroadcastPool :: "dispatch_desk \<Rightarrow> dispatch_desk" where
  "handleBroadcastPool p =
     (case di_selected p of
        None \<Rightarrow> p
      | Some t \<Rightarrow>
          p\<lparr>di_tasks := set_task (mt_id t) Pool_broadcast (di_tasks p),
            di_toast := Some (''Task '' @ mt_reference t @ '' broadcast to Tier-1 specialist pool with 24h TTL.''),
            di_selected := None, di_timers := Suc (di_timers p)\<rparr>)"

fun dispatch_step :: "dispatch_desk \<Rightarrow> dispatch_event \<Rightarrow> dispatch_desk" where
  "dispatch_step p (SelectTask t) = p\<lparr>di_selected := Some t\<rparr>"
| "dispatch_step p CloseMatcher = p\<lparr>di_selected := None\<rparr>"
| "dispatch_step p (AssignTo s) = handleAssign s p"
| "dispatch_step p BroadcastPool = handleBroadcastPool p"
| "dispatch_step p (TypeTaskSearch s) = p\<lparr>di_search := s\<rparr>"
| "dispatch_step p (PickTaskFilter f) = p\<lparr>di_filter := f\<rparr>"
| "dispatch_step p CloseToast = p\<lparr>di_toast := None\<rparr>"
| "dispatch_step p ToastOver = (if di_timers p = 0 then p else p\<lparr>di_toast := None, di_timers := di_timers p - 1\<rparr>)"

fun task_badge :: "task_status \<Rightarrow> 'e ui" where
  "task_badge Unmatched = Badge ''warning'' ''Awaiting Match''"
| "task_badge Pool_broadcast = Badge ''info'' ''In Pool Broadcast''"
| "task_badge Specialist_locked = Badge ''success'' ''Specialist Locked''"

definition task_row :: "managed_task \<Rightarrow> dispatch_event ui" where
  "task_row t =
     Box (mt_id t)
       [Text (mt_reference t), Text (mt_discipline t), Text (mt_title t), Text (mt_student t),
        Text (''$'' @ show_nat (mt_budget t) @ '' '' @ mt_currency t), Text (mt_pricing t @ '' fee''),
        Badge (if mt_hours t < 6 then ''urgent'' else ''neutral'') (number_text (mt_hours t) @ ''h remaining''),
        task_badge (mt_status t), Button ''Matcher Desk'' False (SelectTask t)]"

text \<open>What the platform keeps of the budget, and its share in percent.\<close>

definition margin :: "managed_task \<Rightarrow> specialist \<Rightarrow> int" where
  "margin t s = int (mt_budget t) - int (sc_payout s)"

definition marginPercent :: "managed_task \<Rightarrow> specialist \<Rightarrow> int" where
  "marginPercent t s = math_round (of_int (margin t s) / of_nat (mt_budget t) * 100)"

definition candidate_card :: "managed_task \<Rightarrow> specialist \<Rightarrow> dispatch_event ui" where
  "candidate_card t s =
     Box (show_nat (sc_id s))
       [Text (sc_name s), Text (show_nat (sc_match s) @ ''% Match''), Text (sc_headline s),
        Text (''* '' @ number_text (sc_rating s) @ '' rating''), Text (show_nat (sc_completed s) @ '' completed''),
        Text (show_nat (sc_workload s) @ '' active orders''), Text ''Specialist Quote'', Text (''$'' @ show_nat (sc_payout s)),
        Text (''Platform Net: +$'' @ show_int (margin t s) @ '' ('' @ show_int (marginPercent t s) @ ''%)''),
        Button ''Direct Assign Specialist'' False (AssignTo s)]"

definition matcher_drawer :: "managed_task \<Rightarrow> specialist list \<Rightarrow> dispatch_event ui list" where
  "matcher_drawer t cs =
     [Text (mt_reference t), Badge ''info'' (mt_discipline t), Heading (mt_title t),
      Text (''Client: '' @ mt_student t @ '' - Stated Budget: $'' @ show_nat (mt_budget t) @ '' '' @ mt_currency t),
      Button ''Close drawer'' False CloseMatcher, Text ''Academic Scope Brief'', Text (mt_description t),
      Heading (''Top Matched Specialists ('' @ show_nat (length cs) @ '')''), Text ''Ranked by discipline & rating'']
     @ (if cs = [] then [Text ''No specialists currently on duty with this exact discipline. Use Tier-2 Pool broadcast.'']
        else map (candidate_card t) cs)
     @ [Text ''Broadcast to Discipline Pool'',
        Text (''Send simultaneous invitation to all vetted specialists in '' @ mt_discipline t
          @ ''. First to accept locks the task.''),
        Button ''Broadcast to Pool'' False BroadcastPool]"

definition ManagedDispatchPage :: "dispatch_desk \<Rightarrow> dispatch_event ui list" where
  "ManagedDispatchPage p =
     [Heading ''Managed Service Dispatch Desk'', Text ''Coordinator Matching'',
      Text ''White-glove assignment pipeline. Match high-urgency student tasks directly to verified doctoral specialists.'',
      Text ''2 Tasks under critical SLA (< 6h)'']
     @ (if truthy (di_toast p) then [Text (the (di_toast p)), Button ''Close'' False CloseToast] else [])
     @ [Button ''All Tasks'' False (PickTaskFilter None), Button ''Awaiting Match'' False (PickTaskFilter (Some Unmatched)),
        Button ''Pool Dispatched'' False (PickTaskFilter (Some Pool_broadcast)),
        Button ''Locked'' False (PickTaskFilter (Some Specialist_locked)),
        Field ''Search'' (di_search p) TypeTaskSearch]
     @ map task_row (filteredTasks p)
     @ (case di_selected p of None \<Rightarrow> [] | Some t \<Rightarrow> matcher_drawer t (matchedCandidates SPECIALISTS_DATABASE (Some t)))"

fun dispatch_enabled :: "dispatch_desk \<Rightarrow> dispatch_event \<Rightarrow> bool" where
  "dispatch_enabled p ToastOver = (0 < di_timers p)"
| "dispatch_enabled p e = offered (ManagedDispatchPage p) e"

section \<open>The verification of experts\<close>

datatype candidate_status = Cd_pending | Cd_approved | Cd_action_required | Cd_rejected

fun candidate_key :: "candidate_status \<Rightarrow> string" where
  "candidate_key Cd_pending = ''pending''"
| "candidate_key Cd_approved = ''approved''"
| "candidate_key Cd_action_required = ''action_required''"
| "candidate_key Cd_rejected = ''rejected''"

text \<open>A document is its name, type and size.\<close>

record expert_candidate =
  ec_id :: string
  ec_name :: string
  ec_email :: string
  ec_institution :: string
  ec_degree :: string
  ec_year :: nat
  ec_disciplines :: "string list"
  ec_honors :: string
  ec_documents :: "(string \<times> string \<times> string) list"
  ec_status :: candidate_status
  ec_applied :: string
  ec_bio :: string

definition CANDIDATES_INITIAL :: "expert_candidate list" where
  "CANDIDATES_INITIAL =
     [\<lparr>ec_id = ''exp-app-01'', ec_name = ''Dr. Alexander Wright'', ec_email = ''a.wright@alumni.ox.ac.uk'',
        ec_institution = ''University of Oxford'', ec_degree = ''D.Phil. in Theoretical Physics'', ec_year = 2023,
        ec_disciplines = [''Physics'', ''Applied Mathematics''], ec_honors = ''First Class Honours - Clarendon Scholar'',
        ec_documents =
          [(''Oxford_DPhil_Diploma_Certified.pdf'', ''Diploma'', ''2.4 MB''), (''Curriculum_Vitae_Wright.pdf'', ''CV'', ''480 KB''),
           (''NonPerturbative_Field_Theory_Thesis.pdf'', ''Sample Publication'', ''6.1 MB'')],
        ec_status = Cd_pending, ec_applied = ''2026-09-28T14:20:00Z'',
        ec_bio = ''Theoretical physicist specializing in quantum field theory, non-perturbative conformal bootstrap, and differential geometry.''\<rparr>,
      \<lparr>ec_id = ''exp-app-02'', ec_name = ''Sophia Sterling, M.Sc.'', ec_email = ''s.sterling@columbia.edu'',
        ec_institution = ''Columbia University'', ec_degree = ''M.S. in Quantitative Finance & Risk'', ec_year = 2024,
        ec_disciplines = [''Economics & Econometrics'', ''Finance''], ec_honors = ''GPA 3.96 / 4.0 - Dean's List'',
        ec_documents =
          [(''Columbia_MS_Transcript.pdf'', ''Transcript'', ''1.8 MB''),
           (''Stata_Python_Empirical_Paper.pdf'', ''Sample Analysis'', ''3.2 MB'')],
        ec_status = Cd_pending, ec_applied = ''2026-09-28T19:45:00Z'',
        ec_bio = ''Quantitative financial analyst with extensive modeling experience in high-frequency volatility models and options pricing.''\<rparr>,
      \<lparr>ec_id = ''exp-app-03'', ec_name = ''Dr. Elena Rostova'', ec_email = ''elena.rostova@mit.edu'',
        ec_institution = ''Massachusetts Institute of Technology'', ec_degree = ''Ph.D. in Computer Science (Distributed Systems)'',
        ec_year = 2022, ec_disciplines = [''Computer Science'', ''Software Engineering''],
        ec_honors = ''IEEE Best Paper Runner-up 2023'',
        ec_documents =
          [(''MIT_PhD_Diploma.pdf'', ''Diploma'', ''3.1 MB''), (''Consensus_Protocols_Dissertation.pdf'', ''Thesis'', ''8.4 MB'')],
        ec_status = Cd_approved, ec_applied = ''2026-09-25T11:10:00Z'',
        ec_bio = ''Specialist in consensus protocols (Raft, Paxos), formal verification with TLA+, and high-throughput distributed databases.''\<rparr>]"

record verification_desk =
  vd_candidates :: "expert_candidate list"
  vd_selected :: "expert_candidate option"
  vd_filter :: "candidate_status option"  \<comment> \<open>None for all\<close>
  vd_search :: string
  vd_notice :: "string option"
  vd_timers :: nat

definition verification_init :: verification_desk where
  "verification_init =
     \<lparr>vd_candidates = CANDIDATES_INITIAL, vd_selected = None, vd_filter = None, vd_search = [], vd_notice = None,
      vd_timers = 0\<rparr>"

definition filteredCandidates :: "verification_desk \<Rightarrow> expert_candidate list" where
  "filteredCandidates p =
     filter (\<lambda>c. (vd_filter p = None \<or> vd_filter p = Some (ec_status c))
                \<and> (vd_search p = [] \<or> has_text (vd_search p) (ec_name c) \<or> has_text (vd_search p) (ec_institution c)
                   \<or> has_text (vd_search p) (ec_degree c))) (vd_candidates p)"

datatype verification_event =
    InspectDossier expert_candidate
  | CloseDossier
  | ApproveCandidate expert_candidate
  | RequestDocs expert_candidate
  | RejectCandidate expert_candidate
  | TypeCandidateSearch string
  | PickCandidateFilter "candidate_status option"
  | CloseVerdict
  | VerdictOver                          \<comment> \<open>one of the pending timeouts\<close>

text \<open>What the three rulings have in common.\<close>

definition rule_on :: "expert_candidate \<Rightarrow> candidate_status \<Rightarrow> string \<Rightarrow> verification_desk \<Rightarrow> verification_desk" where
  "rule_on c st note p =
     p\<lparr>vd_candidates := update_where ec_id (ec_id c) (\<lambda>x. x\<lparr>ec_status := st\<rparr>) (vd_candidates p),
       vd_notice := Some note, vd_selected := None, vd_timers := Suc (vd_timers p)\<rparr>"

definition handleApprove :: "expert_candidate \<Rightarrow> verification_desk \<Rightarrow> verification_desk" where
  "handleApprove c = rule_on c Cd_approved (ec_name c @ '' approved as Verified Specialist. Public profile activated.'')"

definition handleRequestDocs :: "expert_candidate \<Rightarrow> verification_desk \<Rightarrow> verification_desk" where
  "handleRequestDocs c = rule_on c Cd_action_required (''Documentation request sent to '' @ ec_email c @ ''.'')"

definition handleReject :: "expert_candidate \<Rightarrow> verification_desk \<Rightarrow> verification_desk" where
  "handleReject c = rule_on c Cd_rejected (''Application for '' @ ec_name c @ '' rejected.'')"

fun verification_step :: "verification_desk \<Rightarrow> verification_event \<Rightarrow> verification_desk" where
  "verification_step p (InspectDossier c) = p\<lparr>vd_selected := Some c\<rparr>"
| "verification_step p CloseDossier = p\<lparr>vd_selected := None\<rparr>"
| "verification_step p (ApproveCandidate c) = handleApprove c p"
| "verification_step p (RequestDocs c) = handleRequestDocs c p"
| "verification_step p (RejectCandidate c) = handleReject c p"
| "verification_step p (TypeCandidateSearch s) = p\<lparr>vd_search := s\<rparr>"
| "verification_step p (PickCandidateFilter f) = p\<lparr>vd_filter := f\<rparr>"
| "verification_step p CloseVerdict = p\<lparr>vd_notice := None\<rparr>"
| "verification_step p VerdictOver = (if vd_timers p = 0 then p else p\<lparr>vd_notice := None, vd_timers := vd_timers p - 1\<rparr>)"

text \<open>\<open>status.replace("_", " ")\<close>: the first underscore.\<close>

definition candidate_card_of :: "expert_candidate \<Rightarrow> verification_event ui" where
  "candidate_card_of c =
     Box (ec_id c)
       ([Heading (ec_name c), Text (ec_email c),
         Badge (case ec_status c of Cd_approved \<Rightarrow> ''success'' | Cd_pending \<Rightarrow> ''warning'' | Cd_action_required \<Rightarrow> ''info''
                 | Cd_rejected \<Rightarrow> ''danger'')
           (if ec_status c = Cd_action_required then ''action required'' else candidate_key (ec_status c)),
         Text (ec_institution c), Text (ec_degree c @ '' ('' @ show_nat (ec_year c) @ '')''), Text (ec_honors c)]
        @ map Text (ec_disciplines c)
        @ [Text (show_nat (length (ec_documents c)) @ '' verified files attached''),
           Button ''Inspect Dossier'' False (InspectDossier c)])"

text \<open>The download buttons have no handler.\<close>

definition dossier :: "expert_candidate \<Rightarrow> verification_event ui list" where
  "dossier c =
     [Heading (ec_name c), Badge ''info'' (ec_institution c),
      Text (''Degree: '' @ ec_degree c @ '' ('' @ show_nat (ec_year c) @ '') - '' @ ec_honors c),
      Button ''Close dossier'' False CloseDossier, Text ''Applicant Academic Statement'', Text (ec_bio c),
      Text (''Submitted Verification Artifacts ('' @ show_nat (length (ec_documents c)) @ '')'')]
     @ map (\<lambda>(n, t, z). Box ''document'' [Text n, Text (t @ '' - '' @ z), Text ''Download'']) (ec_documents c)
     @ [Text ''Credential Verification Ruling'',
        Button ''Approve as Verified Specialist'' False (ApproveCandidate c),
        Button ''Request Further Documentation'' False (RequestDocs c),
        Button ''Reject Application'' False (RejectCandidate c)]"

definition ExpertVerificationDeskPage :: "verification_desk \<Rightarrow> verification_event ui list" where
  "ExpertVerificationDeskPage p =
     [Heading ''Expert Credential Verification Desk'', Text ''Institutional Vetting'',
      Text ''Rigorous quality gating. Verify diplomas, transcripts, and published research before granting bidding privileges.'',
      Text ''Top 3% Acceptance Rate Enforced'']
     @ (if truthy (vd_notice p) then [Text (the (vd_notice p)), Button ''Close'' False CloseVerdict] else [])
     @ [Button ''All Applicants'' False (PickCandidateFilter None),
        Button ''Pending Review'' False (PickCandidateFilter (Some Cd_pending)),
        Button ''Approved'' False (PickCandidateFilter (Some Cd_approved)),
        Button ''Docs Needed'' False (PickCandidateFilter (Some Cd_action_required)),
        Field ''Search'' (vd_search p) TypeCandidateSearch]
     @ map candidate_card_of (filteredCandidates p)
     @ (case vd_selected p of None \<Rightarrow> [] | Some c \<Rightarrow> dossier c)"

fun verification_enabled :: "verification_desk \<Rightarrow> verification_event \<Rightarrow> bool" where
  "verification_enabled p VerdictOver = (0 < vd_timers p)"
| "verification_enabled p e = offered (ExpertVerificationDeskPage p) e"

section \<open>Lemmas\<close>

lemmas desk_handlers =
  handleAssign_def handleBroadcastPool_def set_task_def handleApprove_def handleRequestDocs_def handleReject_def rule_on_def

definition task_frame :: "managed_task \<Rightarrow> managed_task" where
  "task_frame t = t\<lparr>mt_status := Unmatched\<rparr>"

definition candidate_frame :: "expert_candidate \<Rightarrow> expert_candidate" where
  "candidate_frame c = c\<lparr>ec_status := Cd_pending\<rparr>"

lemma frame_fields [simp]:
  "task_frame (t\<lparr>mt_status := a\<rparr>) = task_frame t"
  "candidate_frame (c\<lparr>ec_status := b\<rparr>) = candidate_frame c"
  by (simp_all add: task_frame_def candidate_frame_def)

interpretation dispatching: desk dispatch_init dispatch_enabled dispatch_step di_tasks task_frame di_toast di_timers
proof unfold_locales
  show "map task_frame (di_tasks (dispatch_step p e)) = map task_frame (di_tasks p)" for p :: dispatch_desk and e
    by (cases e) (auto simp: desk_handlers map_update_where split: option.split)
next
  fix p :: dispatch_desk and e assume "di_toast p = None \<or> 0 < di_timers p"
  then show "di_toast (dispatch_step p e) = None \<or> 0 < di_timers (dispatch_step p e)"
    by (cases e) (auto simp: desk_handlers split: option.split)
qed (simp add: dispatch_init_def)

interpretation verifying: desk verification_init verification_enabled verification_step vd_candidates candidate_frame
  vd_notice vd_timers
proof unfold_locales
  show "map candidate_frame (vd_candidates (verification_step p e)) = map candidate_frame (vd_candidates p)" for p :: verification_desk and e
    by (cases e) (auto simp: desk_handlers map_update_where)
next
  fix p :: verification_desk and e assume "vd_notice p = None \<or> 0 < vd_timers p"
  then show "vd_notice (verification_step p e) = None \<or> 0 < vd_timers (verification_step p e)"
    by (cases e) (auto simp: desk_handlers)
qed (simp add: verification_init_def)

lemma offers_badges [simp]: "\<not> offers (task_badge s) e"
  by (cases s) simp_all

lemma offered_ManagedDispatchPage:
  "offered (ManagedDispatchPage p) e \<longleftrightarrow>
   (e = CloseToast \<and> truthy (di_toast p)) \<or> (\<exists>f. e = PickTaskFilter f) \<or> (\<exists>s. e = TypeTaskSearch s) \<or>
   (\<exists>t \<in> set (filteredTasks p). e = SelectTask t) \<or>
   (di_selected p \<noteq> None \<and> (e = CloseMatcher \<or> e = BroadcastPool \<or>
      (\<exists>s \<in> set (matchedCandidates SPECIALISTS_DATABASE (di_selected p)). e = AssignTo s)))"
proof -
  have "f = None \<or> f = Some Unmatched \<or> f = Some Pool_broadcast \<or> f = Some Specialist_locked" for f
    by (cases f) (simp, metis task_status.exhaust)
  then show ?thesis
    by (auto simp: ManagedDispatchPage_def matcher_drawer_def task_row_def candidate_card_def offered_map offers_Box
        split: option.split simp del: offers.simps(6))
qed

text \<open>
  The specialists offered for a task are those of its discipline, in falling order of their score, and an
  assignment locks the chosen task and leaves every other one.
\<close>

lemma dispatch_candidates:
  assumes "di_selected p = Some t"
  shows "dispatch_enabled p (AssignTo s) \<longleftrightarrow> s \<in> set SPECIALISTS_DATABASE \<and> to_lower (sc_discipline s) = to_lower (mt_discipline t)"
    and "sorted (map (\<lambda>s. - int (sc_match s)) (matchedCandidates db (di_selected p)))"
    and "x \<in> set (di_tasks (dispatch_step p (AssignTo s))) \<Longrightarrow> mt_id x = mt_id t \<Longrightarrow> mt_status x = Specialist_locked"
    and "mt_id x \<noteq> mt_id t \<Longrightarrow> x \<in> set (di_tasks (dispatch_step p (AssignTo s))) \<longleftrightarrow> x \<in> set (di_tasks p)"
  using assms
  by (auto simp: offered_ManagedDispatchPage matchedCandidates_def handleAssign_def set_task_def update_where_def image_iff)

text \<open>A task that is locked to a specialist can be broadcast again.\<close>

lemma locked_task_reopens:
  assumes "t \<in> set (di_tasks p)" "mt_status t = Specialist_locked" "di_search p = []" "di_filter p = None"
  shows "enabled_run dispatch_enabled dispatch_step p [SelectTask t, BroadcastPool] \<and>
    t\<lparr>mt_status := Pool_broadcast\<rparr> \<in> set (di_tasks (run dispatch_step p [SelectTask t, BroadcastPool]))"
  using assms
  by (auto simp: offered_ManagedDispatchPage filteredTasks_def handleBroadcastPool_def set_task_def update_where_def image_iff)

end
