(* ===== verification/Portal.thy ===== *)
theory Portal
  imports Forms Numbers
begin

text \<open>
  The operations portal: its money format (\<open>features/portal/api.ts\<close>), the dispute tribunal
  \<open>app/(portal)/portal/disputes/page.tsx\<close>, the moderation queue \<open>app/(portal)/portal/moderation/page.tsx\<close>
  and the configuration editor \<open>app/(portal)/portal/config/page.tsx\<close>.
\<close>

section \<open>Shared\<close>

text \<open>\<open>value || undefined\<close>, as a filter of a list request.\<close>

definition filter_value :: "string \<Rightarrow> string option" where
  "filter_value s = (if s = [] then None else Some s)"

definition money :: "locale_text \<Rightarrow> int \<Rightarrow> string \<Rightarrow> string" where
  "money loc minor currency = currency @ '' '' @ show_number loc (of_int minor / 100)"

definition OpsSelect :: "string \<Rightarrow> string \<Rightarrow> (string \<times> string) list \<Rightarrow> (string \<Rightarrow> 'e) \<Rightarrow> 'e ui list" where
  "OpsSelect lab value options f = [Choice lab value options f]"

text \<open>\<open>text.replace(/_/g, " ")\<close>.\<close>

definition spaced :: "string \<Rightarrow> string" where
  "spaced s = map (\<lambda>c. if c = CHR ''_'' then CHR '' '' else c) s"

section \<open>The dispute tribunal\<close>

record dispute_row =
  dr_id :: string
  dr_status :: string
  dr_reason :: string
  dr_outcome :: "string option"
  dr_order_id :: string
  dr_order_number :: string
  dr_order_status :: string
  dr_amount :: int
  dr_currency :: string
  dr_student_id :: int
  dr_expert_id :: int
  dr_opened_by :: int
  dr_admin_url :: string
  dr_created_at :: string
  dr_resolved_at :: "string option"

definition TRIBUNAL_STATUS_COPY :: "(string \<times> (string \<times> string)) list" where
  "TRIBUNAL_STATUS_COPY =
     [(''open'', (''Open'', ''warning'')), (''opened'', (''Opened'', ''warning'')),
      (''under_review'', (''Under review'', ''info'')), (''awaiting_response'', (''Awaiting response'', ''info'')),
      (''resolved'', (''Resolved'', ''success'')), (''closed'', (''Closed'', ''neutral''))]"

text \<open>The evidence shown is the same text for every dispute; a message is sender, role, text, time and flag.\<close>

record arbitration =
  ar_student :: string
  ar_expert :: string
  ar_notes :: string
  ar_count :: nat
  ar_chat :: "(string \<times> string \<times> string \<times> string \<times> bool) list"

definition arbitrationContext :: arbitration where
  "arbitrationContext =
     \<lparr>ar_student = ''The expert failed to address Section 3 of the prompt regarding time-series econometric variance. When I requested a revision, they sent back an incomplete draft that does not match the agreed rubric.'',
      ar_expert = ''I delivered a complete 28-page statistical model with full Stata logs. The student requested out-of-scope alterations after the initial delivery that were not part of the initial brief. All core requirements were met.'',
      ar_notes = ''Delivered 2 PDF files (Model_Specification.pdf, Robustness_Checks.do) on Sept 22.'',
      ar_count = 2,
      ar_chat =
        [(''Student'', ''student'', ''Please confirm you can include the ARCH/GARCH modeling.'', ''10:14 AM'', False),
         (''Expert'', ''expert'', ''Yes, that will be included in the appendix results.'', ''10:22 AM'', False),
         (''Expert'', ''expert'', ''Can we talk on WhatsApp instead to send voice notes?'', ''10:25 AM'', True),
         (''Student'', ''student'', ''Platform rules require keeping all discussion here.'', ''10:28 AM'', False),
         (''Expert'', ''expert'', ''Understood. The deliverables have now been submitted.'', ''4:45 PM'', False)]\<rparr>"

text \<open>A ruling's timeout reloads with the filter its closure holds.\<close>

record dispute_queue =
  dq_status :: string
  dq_disputes :: "dispute_row list option"
  dq_total :: nat
  dq_error :: "string option"
  dq_active :: "dispute_row option"
  dq_notice :: "string option"
  dq_timers :: "string list"

definition dispute_queue_init :: dispute_queue where
  "dispute_queue_init =
     \<lparr>dq_status = [], dq_disputes = None, dq_total = 0, dq_error = None, dq_active = None,
      dq_notice = None, dq_timers = []\<rparr>"

datatype dispute_queue_event =
    OpenQueue
  | PickStatus string
  | QueueAnswer "failure + dispute_row list \<times> nat"
  | RefreshQueue
  | OpenTribunal dispute_row
  | CloseTribunal
  | Ruling string
  | RulingOver nat

definition executeRuling :: "string \<Rightarrow> dispute_queue \<Rightarrow> dispute_queue" where
  "executeRuling ruling p =
     (case dq_active p of
        None \<Rightarrow> p
      | Some d \<Rightarrow>
          p\<lparr>dq_notice := Some (''Ruling Executed: '' @ ruling @ '' for Order '' @ dr_order_number d
               @ ''. Audited ledger entry created.''),
            dq_timers := dq_timers p @ [dq_status p]\<rparr>)"

fun dispute_queue_step :: "dispute_queue \<Rightarrow> dispute_queue_event \<Rightarrow> dispute_queue" where
  "dispute_queue_step p OpenQueue = p"
| "dispute_queue_step p (PickStatus s) = p\<lparr>dq_status := s\<rparr>"
| "dispute_queue_step p (QueueAnswer (Inr (ds, n))) = p\<lparr>dq_disputes := Some ds, dq_total := n, dq_error := None\<rparr>"
| "dispute_queue_step p (QueueAnswer (Inl e)) = p\<lparr>dq_error := Some ''Could not load the dispute queue.''\<rparr>"
| "dispute_queue_step p RefreshQueue = p"
| "dispute_queue_step p (OpenTribunal d) = p\<lparr>dq_active := Some d\<rparr>"
| "dispute_queue_step p CloseTribunal = p\<lparr>dq_active := None\<rparr>"
| "dispute_queue_step p (Ruling r) = executeRuling r p"
| "dispute_queue_step p (RulingOver i) =
     p\<lparr>dq_active := None, dq_notice := None, dq_timers := take i (dq_timers p) @ drop (Suc i) (dq_timers p)\<rparr>"

definition load_disputes :: "string \<Rightarrow> api_init" where
  "load_disputes s = portalApi_disputes [(''status'', filter_value s)]"

fun dispute_queue_call :: "dispute_queue \<Rightarrow> dispute_queue_event \<Rightarrow> api_init option" where
  "dispute_queue_call p OpenQueue = Some (load_disputes (dq_status p))"
| "dispute_queue_call p (PickStatus s) = Some (load_disputes s)"
| "dispute_queue_call p RefreshQueue = Some (load_disputes (dq_status p))"
| "dispute_queue_call p (RulingOver i) =
     (if i < length (dq_timers p) then Some (load_disputes (dq_timers p ! i)) else None)"
| "dispute_queue_call p _ = None"

definition dispute_line :: "locale_text \<Rightarrow> dispute_row \<Rightarrow> dispute_queue_event ui" where
  "dispute_line loc d =
     (let (lab, tone) = nullish (map_of TRIBUNAL_STATUS_COPY (dr_status d)) (dr_status d, ''neutral'')
      in Box (dr_id d)
           [Badge tone lab, Text (dr_order_number d), Text (spaced (dr_order_status d)), Text (dr_reason d),
            Text (money loc (dr_amount d) (dr_currency d)), Text (show_date loc (dr_created_at d)),
            Text (if truthy (dr_outcome d) then spaced (the (dr_outcome d)) else ''--''),
            Button ''Tribunal'' False (OpenTribunal d), Link (dr_admin_url d) ''Django Admin Model''])"

definition chat_line :: "string \<times> string \<times> string \<times> string \<times> bool \<Rightarrow> 'e ui" where
  "chat_line m =
     (case m of (sender, side, txt, time, flagged) \<Rightarrow>
        Box ''chat''
          ([Text (sender @ '' ('' @ side @ '')''), Text time, Text txt]
           @ shown_if flagged [Text ''Policy Violation: Off-platform contact request (BR-34)'']))"

definition tribunal_modal :: "locale_text \<Rightarrow> string option \<Rightarrow> dispute_row \<Rightarrow> dispute_queue_event ui list" where
  "tribunal_modal loc notice d =
     [Text (dr_order_number d), Badge ''danger'' (''Dispute: '' @ dr_reason d),
      Text (''Amount: '' @ money loc (dr_amount d) (dr_currency d)), Heading ''Binding Arbitration Workspace'',
      Text (''Client ID #'' @ show_int (dr_student_id d) @ '' vs. Specialist ID #'' @ show_int (dr_expert_id d)
        @ '' - Opened '' @ show_datetime loc (dr_created_at d)),
      Button ''Close arbitration'' False CloseTribunal]
     @ (if truthy notice then [Text (the notice)] else [])
     @ [Text ''Student Claim Statement'', Text (ar_student arbitrationContext),
        Text ''Specialist Defense Rebuttal'', Text (ar_expert arbitrationContext),
        Text ''Deliverable Audit Notes'', Text (ar_notes arbitrationContext),
        Text ''Embedded Chat Transcript Audit'', Text ''1 Violation Flagged'']
     @ map chat_line (ar_chat arbitrationContext)
     @ [Text ''Binding Operator Ruling Actions'',
        Button ''Issue 100% Refund'' False (Ruling ''100% Student Refund''),
        Button ''Release to Expert'' False (Ruling ''100% Specialist Escrow Release''),
        Button ''Split 50% / 50%'' False (Ruling ''50/50 Split Settlement''),
        Button ''Reassign Task'' False (Ruling ''Reassigned to Replacement Specialist'')]"

definition DisputeQueuePage :: "locale_text \<Rightarrow> dispute_queue \<Rightarrow> dispute_queue_event ui list" where
  "DisputeQueuePage loc p =
     [Heading ''Dispute Resolution Tribunal'', Text ''Neutral Arbitration'',
      Text ''48-hour binding arbitration desk. Inspect deliverable audits, student briefs, and moderation logs to execute escrow disbursement.'']
     @ OpsSelect ''Status'' (dq_status p)
         [([], ''All Disputes''), (''open'', ''Open / Pending''), (''under_review'', ''Under review''),
          (''awaiting_response'', ''Awaiting response''), (''resolved'', ''Resolved''), (''closed'', ''Closed'')] PickStatus
     @ alert_if (dq_error p)
     @ (case dq_disputes p of
          None \<Rightarrow> [Box ''busy'' []]
        | Some ds \<Rightarrow>
            if ds = []
            then [Heading ''No Disputes Found'',
                  Text ''All marketplace orders are progressing smoothly without arbitration flags.'']
            else [Box ''dispute-queue'' (map (dispute_line loc) ds),
                  Text (show_nat (dq_total p) @ '' dispute ticket(s) recorded in audit registry''),
                  Button ''Refresh'' False RefreshQueue])
     @ (case dq_active p of None \<Rightarrow> [] | Some d \<Rightarrow> tribunal_modal loc (dq_notice p) d)"

section \<open>The moderation queue\<close>

datatype report_status = Rp_open | Rp_reviewed | Rp_dismissed

record report_row =
  rr_id :: string
  rr_status :: report_status
  rr_reason :: string
  rr_reason_display :: string
  rr_details :: string
  rr_reporter :: string
  rr_sender :: string
  rr_body :: string
  rr_message_at :: string
  rr_hidden :: bool
  rr_created_at :: string

definition STATUS_OPTIONS :: "(string \<times> string) list" where
  "STATUS_OPTIONS = [([], ''All''), (''open'', ''Open''), (''reviewed'', ''Reviewed''), (''dismissed'', ''Dismissed'')]"

definition REASON_OPTIONS :: "(string \<times> string) list" where
  "REASON_OPTIONS =
     [([], ''All reasons''), (''off_platform'', ''Off-platform''), (''abuse'', ''Abuse''),
      (''integrity'', ''Integrity''), (''spam'', ''Spam''), (''other'', ''Other'')]"

text \<open>
  The drawer of a report. Each time it opens it is a new instance, with an identifier of its own: an
  answer writes only to the instance that asked, but its \<open>onDone\<close> closes whichever is open.
\<close>

record drawer =
  dw_id :: nat
  dw_report :: report_row
  dw_note :: string
  dw_busy :: bool
  dw_error :: "string option"

record moderation =
  md_status :: string
  md_reason :: string
  md_reports :: "report_row list option"
  md_total :: nat
  md_error :: "string option"
  md_drawer :: "drawer option"
  md_opened :: nat                       \<comment> \<open>how many drawers were opened\<close>
  md_acts :: "(nat \<times> string \<times> string) list"
      \<comment> \<open>the reviews in flight: the drawer, and the filters of the closure that reloads\<close>

definition moderation_init :: moderation where
  "moderation_init =
     \<lparr>md_status = ''open'', md_reason = [], md_reports = None, md_total = 0, md_error = None,
      md_drawer = None, md_opened = 0, md_acts = []\<rparr>"

datatype moderation_event =
    OpenModeration
  | PickReportStatus string
  | PickReason string
  | ReportsAnswer "failure + report_row list \<times> nat"
  | Inspect report_row
  | CloseDrawer
  | TypeReviewNote string
  | Decide report_action
  | Decided nat "failure + unit"

definition on_drawer :: "nat \<Rightarrow> (drawer \<Rightarrow> drawer) \<Rightarrow> moderation \<Rightarrow> moderation" where
  "on_drawer k g p =
     (case md_drawer p of Some d \<Rightarrow> (if dw_id d = k then p\<lparr>md_drawer := Some (g d)\<rparr> else p) | None \<Rightarrow> p)"

fun review_error :: "failure \<Rightarrow> string" where
  "review_error (Api e) =
     (if err_code e = Some (JStr ''report_not_open'') then ''Already reviewed -- refreshing.'' else err_message e)"
| "review_error _ = ''Action failed.''"

definition drop_act :: "nat \<Rightarrow> moderation \<Rightarrow> moderation" where
  "drop_act i p = p\<lparr>md_acts := take i (md_acts p) @ drop (Suc i) (md_acts p)\<rparr>"

definition decided :: "nat \<Rightarrow> failure + unit \<Rightarrow> moderation \<Rightarrow> moderation" where
  "decided i r p =
     (let k = fst (md_acts p ! i)
      in case r of
          Inr u \<Rightarrow> (drop_act i p)\<lparr>md_drawer := None\<rparr>
        | Inl e \<Rightarrow> on_drawer k (\<lambda>d. d\<lparr>dw_error := Some (review_error e), dw_busy := False\<rparr>) (drop_act i p))"

fun moderation_step :: "moderation \<Rightarrow> moderation_event \<Rightarrow> moderation" where
  "moderation_step p OpenModeration = p"
| "moderation_step p (PickReportStatus s) = p\<lparr>md_status := s\<rparr>"
| "moderation_step p (PickReason s) = p\<lparr>md_reason := s\<rparr>"
| "moderation_step p (ReportsAnswer (Inr (rs, n))) = p\<lparr>md_reports := Some rs, md_total := n, md_error := None\<rparr>"
| "moderation_step p (ReportsAnswer (Inl e)) = p\<lparr>md_error := Some ''Could not load the report queue.''\<rparr>"
| "moderation_step p (Inspect r) =
     p\<lparr>md_drawer := Some \<lparr>dw_id = md_opened p, dw_report = r, dw_note = [], dw_busy = False, dw_error = None\<rparr>,
       md_opened := Suc (md_opened p)\<rparr>"
| "moderation_step p CloseDrawer = p\<lparr>md_drawer := None\<rparr>"
| "moderation_step p (TypeReviewNote s) =
     (case md_drawer p of None \<Rightarrow> p | Some d \<Rightarrow> p\<lparr>md_drawer := Some (d\<lparr>dw_note := s\<rparr>)\<rparr>)"
| "moderation_step p (Decide a) =
     (case md_drawer p of
        None \<Rightarrow> p
      | Some d \<Rightarrow> p\<lparr>md_drawer := Some (d\<lparr>dw_busy := True, dw_error := None\<rparr>),
                  md_acts := md_acts p @ [(dw_id d, md_status p, md_reason p)]\<rparr>)"
| "moderation_step p (Decided i r) = decided i r p"

definition load_reports :: "string \<Rightarrow> string \<Rightarrow> api_init" where
  "load_reports st rs = portalApi_reports [(''status'', filter_value st), (''reason'', filter_value rs)]"

fun moderation_call :: "moderation \<Rightarrow> moderation_event \<Rightarrow> api_init option" where
  "moderation_call p OpenModeration = Some (load_reports (md_status p) (md_reason p))"
| "moderation_call p (PickReportStatus s) = Some (load_reports s (md_reason p))"
| "moderation_call p (PickReason s) = Some (load_reports (md_status p) s)"
| "moderation_call p (Decide a) =
     map_option (\<lambda>d. portalApi_reviewReport (rr_id (dw_report d)) a (trim (dw_note d))) (md_drawer p)"
| "moderation_call p (Decided i (Inr u)) =
     (case md_acts p ! i of (k, st, rs) \<Rightarrow> Some (load_reports st rs))"
| "moderation_call p _ = None"

fun report_badge :: "report_status \<Rightarrow> 'e ui" where
  "report_badge Rp_open = Badge ''warning'' ''open''"
| "report_badge Rp_reviewed = Badge ''success'' ''reviewed''"
| "report_badge Rp_dismissed = Badge ''neutral'' ''dismissed''"

definition seen_as :: "bool \<Rightarrow> string" where
  "seen_as hidden = (if hidden then ''hidden'' else ''visible'')"

definition report_line :: "locale_text \<Rightarrow> report_row \<Rightarrow> moderation_event ui" where
  "report_line loc r =
     Box (rr_id r)
       ([report_badge (rr_status r), Text (rr_reason_display r), Text (rr_body r),
         Text (rr_sender r @ '' - '' @ seen_as (rr_hidden r)), Text (rr_reporter r), Text (show_date loc (rr_created_at r))]
        @ shown_if (rr_status r = Rp_open) [Button ''Review'' False (Inspect r)])"

definition ReviewDrawer :: "locale_text \<Rightarrow> drawer \<Rightarrow> moderation_event ui list" where
  "ReviewDrawer loc d =
     (let r = dw_report d
      in [Button ''Close'' False CloseDrawer, Heading (rr_reason_display r), Text (''Report '' @ take 8 (rr_id r) @ ''...''),
          Text (rr_sender r @ '' - '' @ show_datetime loc (rr_message_at r) @ '' - '' @ seen_as (rr_hidden r)),
          Text (rr_body r), Text (''Reported by '' @ rr_reporter r @ '' - '' @ show_datetime loc (rr_created_at r)),
          Field ''Reviewer note (audited)'' (dw_note d) TypeReviewNote]
         @ alert_if (dw_error d)
         @ [Button ''Dismiss report'' (dw_busy d) (Decide Dismiss),
            Button ''Confirm & hide message'' (dw_busy d) (Decide Confirm_hide),
            Text ''Hiding uses the audited messaging service; the reporter and sender keep their thread history. Account warnings/suspensions are not available from the portal (no such service -- recorded decision).''])"

definition ModerationQueuePage :: "locale_text \<Rightarrow> moderation \<Rightarrow> moderation_event ui list" where
  "ModerationQueuePage loc p =
     [Heading ''Moderation queue'',
      Text ''Message reports (BR-34) -- actions audited; grounds-gated thread view applies (BR-35).'']
     @ OpsSelect ''Status'' (md_status p) STATUS_OPTIONS PickReportStatus
     @ OpsSelect ''Reason'' (md_reason p) REASON_OPTIONS PickReason
     @ alert_if (md_error p)
     @ (case md_reports p of
          None \<Rightarrow> [Text ''Loading queue...'']
        | Some rs \<Rightarrow>
            if rs = [] then [Text ''No reports match these filters.'']
            else [Box ''report-queue'' (map (report_line loc) rs), Text (show_nat (md_total p) @ '' report(s) total'')])
     @ (case md_drawer p of None \<Rightarrow> [] | Some d \<Rightarrow> ReviewDrawer loc d)"

section \<open>The configuration editor\<close>

record config_payload =
  cp_open_rate :: string
  cp_managed_rate :: string
  cp_min_offer :: int
  cp_payout_min :: int
  cp_dispute_window :: int
  cp_currency :: string
  cp_updated_at :: string
  cp_mutable :: "string list"

text \<open>Key, label and hint of each field.\<close>

definition FIELD_META :: "(string \<times> string \<times> string) list" where
  "FIELD_META =
     [(''open_commission_rate'', ''Open-marketplace commission'',
       ''BR-17 rate snapped onto new open orders (0-0.5). Existing orders keep their snapshot.''),
      (''managed_commission_rate'', ''Managed-service commission'', ''Rate for managed pool/direct orders (0-0.5).''),
      (''min_offer_minor'', ''Offer floor (minor units)'', ''BR-18 binding floor, e.g. 500 = $5.00.''),
      (''payout_min_minor'', ''Payout floor (minor units)'', ''BR-30 roll-forward floor, e.g. 1000 = $10.00.''),
      (''dispute_window_days'', ''Dispute window (days)'', ''BR-40: days after completion a dispute can open (1-30).'')]"

record config_page =
  pc_config :: "config_payload option"
  pc_draft :: "string \<rightharpoonup> string"
  pc_error :: "string option"
  pc_saved :: bool
  pc_busy :: bool

definition config_init :: config_page where
  "config_init = \<lparr>pc_config = None, pc_draft = Map.empty, pc_error = None, pc_saved = False, pc_busy = False\<rparr>"

definition draft_of :: "config_payload \<Rightarrow> string \<rightharpoonup> string" where
  "draft_of c =
     [''open_commission_rate'' \<mapsto> cp_open_rate c, ''managed_commission_rate'' \<mapsto> cp_managed_rate c,
      ''min_offer_minor'' \<mapsto> show_int (cp_min_offer c), ''payout_min_minor'' \<mapsto> show_int (cp_payout_min c),
      ''dispute_window_days'' \<mapsto> show_int (cp_dispute_window c)]"

datatype config_event =
    ConfigLoaded "failure + config_payload"
  | TypeSetting string string
  | SaveConfig
  | ConfigSaved "failure + config_payload"

fun config_step :: "config_page \<Rightarrow> config_event \<Rightarrow> config_page" where
  "config_step p (ConfigLoaded (Inr c)) = p\<lparr>pc_config := Some c, pc_draft := draft_of c\<rparr>"
| "config_step p (ConfigLoaded (Inl e)) = p\<lparr>pc_error := Some ''Could not load configuration.''\<rparr>"
| "config_step p (TypeSetting k v) = p\<lparr>pc_draft := (pc_draft p)(k \<mapsto> v)\<rparr>"
| "config_step p SaveConfig =
     (if pc_config p = None then p else p\<lparr>pc_busy := True, pc_error := None, pc_saved := False\<rparr>)"
| "config_step p (ConfigSaved (Inr c)) = p\<lparr>pc_config := Some c, pc_saved := True, pc_busy := False\<rparr>"
| "config_step p (ConfigSaved (Inl e)) =
     p\<lparr>pc_error := Some (api_message_or ''Could not save configuration.'' e), pc_busy := False\<rparr>"

text \<open>A field the draft does not have is left out of the body.\<close>

definition config_changes :: "(string \<rightharpoonup> string) \<Rightarrow> json" where
  "config_changes draft =
     JObj (List.map_filter (\<lambda>(k, _). map_option (\<lambda>v. (k, JStr v)) (draft k)) FIELD_META)"

fun config_call :: "config_page \<Rightarrow> config_event \<Rightarrow> api_init option" where
  "config_call p SaveConfig =
     (if pc_config p = None then None else Some (portalApi_updateConfig (config_changes (pc_draft p))))"
| "config_call p _ = None"

definition setting_field :: "(string \<rightharpoonup> string) \<Rightarrow> string \<times> string \<times> string \<Rightarrow> config_event ui" where
  "setting_field draft m =
     (case m of (k, lab, hint) \<Rightarrow> Box k [Field lab (nullish (draft k) []) (TypeSetting k), Text hint])"

definition PlatformConfigPage :: "locale_text \<Rightarrow> config_page \<Rightarrow> config_event ui list" where
  "PlatformConfigPage loc p =
     (case pc_config p of
        None \<Rightarrow>
          Heading ''Platform configuration''
          # (if truthy (pc_error p) then [Alert (the (pc_error p))] else [Text ''Loading...''])
      | Some c \<Rightarrow>
          [Heading ''Platform configuration'',
           Text ''Service-validated, audited before/after. Admin-only -- support gets 403 on write.'']
          @ map (setting_field (pc_draft p)) FIELD_META
          @ [Text ''Default currency: '', Badge ''neutral'' (cp_currency c),
             Text ''(immutable -- ledger currency contract)'',
             Text (''Last updated '' @ show_datetime loc (cp_updated_at c))]
          @ alert_if (pc_error p)
          @ shown_if (pc_saved p) [Text ''Saved -- change recorded in the audit log.'']
          @ [Button (if pc_busy p then ''Saving...'' else ''Save configuration'') (pc_busy p) SaveConfig])"

section \<open>Lemmas\<close>

lemma dispute_calls: "dispute_queue_call p e = Some i \<Longrightarrow> i \<in> range load_disputes"
  by (cases "(p, e)" rule: dispute_queue_call.cases) (auto split: if_splits)

text \<open>The unedited configuration is sent back as it was loaded.\<close>

lemma unedited_config:
  "config_changes (draft_of c) =
     JObj [(''open_commission_rate'', JStr (cp_open_rate c)), (''managed_commission_rate'', JStr (cp_managed_rate c)),
           (''min_offer_minor'', JStr (show_int (cp_min_offer c))),
           (''payout_min_minor'', JStr (show_int (cp_payout_min c))),
           (''dispute_window_days'', JStr (show_int (cp_dispute_window c)))]"
  by (simp add: config_changes_def draft_of_def FIELD_META_def List.map_filter_def)

text \<open>The answer to a review that was closed closes the drawer of the next report.\<close>

lemma late_review_closes_other:
  "md_drawer (run moderation_step moderation_init
      [Inspect r1, Decide a, CloseDrawer, Inspect r2, TypeReviewNote n, Decided 0 (Inr ())]) = None"
  by (simp add: moderation_init_def decided_def drop_act_def Let_def)

section \<open>Properties\<close>

text \<open>
  A ruling of the tribunal rules nothing. Whatever is done on the page, it only ever asks for the
  list of disputes; a ruling sends no request at all, and yet the page says that it was executed and
  that a ledger entry was created.
\<close>

lemma rulings_send_nothing:
  "set (run_log dispute_queue_step dispute_queue_call dispute_queue_init es) \<subseteq> range load_disputes \<and>
   (let p' = p\<lparr>dq_active := Some d\<rparr>
    in offered (DisputeQueuePage loc p') (Ruling ''100% Student Refund'') \<and>
       dispute_queue_call p' (Ruling ''100% Student Refund'') = None \<and>
       dq_notice (dispute_queue_step p' (Ruling ''100% Student Refund'')) =
         Some (''Ruling Executed: 100% Student Refund for Order '' @ dr_order_number d
           @ ''. Audited ledger entry created.''))"
proof
  show "set (run_log dispute_queue_step dispute_queue_call dispute_queue_init es) \<subseteq> range load_disputes"
    by (rule run_log_subset) (rule dispute_calls)
  show "let p' = p\<lparr>dq_active := Some d\<rparr>
    in offered (DisputeQueuePage loc p') (Ruling ''100% Student Refund'') \<and>
       dispute_queue_call p' (Ruling ''100% Student Refund'') = None \<and>
       dq_notice (dispute_queue_step p' (Ruling ''100% Student Refund'')) =
         Some (''Ruling Executed: 100% Student Refund for Order '' @ dr_order_number d
           @ ''. Audited ledger entry created.'')"
    by (simp add: DisputeQueuePage_def tribunal_modal_def executeRuling_def Let_def)
qed

end
