(* ===== verification/Finance.thy ===== *)
theory Finance
  imports Desks Portal
begin

text \<open>
  The treasury page of the portal, \<open>app/(portal)/portal/finance/page.tsx\<close>: the escrow monitor, a desk over
  deposits of its own, and the report of the reconciliation, which the server makes.
\<close>

section \<open>The state\<close>

definition CHECK_COPY :: "(string \<times> string) list" where
  "CHECK_COPY =
     [(''ledger_identity'', ''Ledger identity (charge + refund = commission + credit + fee)''),
      (''refund_ledger_parity'', ''Refund rows vs REFUND ledger entries''),
      (''payout_credit_parity'', ''Unsettled payouts vs unallocated expert credit''),
      (''payment_ledger_coverage'', ''Succeeded payments missing charge entries''),
      (''payment_refund_state'', ''Payment.refunded_minor vs refund rows''),
      (''webhook_failures'', ''Failed webhook events (replay from admin)'')]"

datatype escrow_status = Held | Locked_dispute | Scheduled_payout | Frozen

record escrow =
  es_id :: string
  es_order :: string
  es_student :: string
  es_expert :: string
  es_amount :: rat
  es_commission :: rat
  es_currency :: string
  es_status :: escrow_status
  es_deposited :: string

definition INITIAL_ESCROW_VAULT :: "escrow list" where
  "INITIAL_ESCROW_VAULT =
     [\<lparr>es_id = ''esc-901'', es_order = ''ORD-9012'', es_student = ''Chloe M.'', es_expert = ''Dr. Eleanor Vance'',
        es_amount = 380, es_commission = 57, es_currency = ''USD'', es_status = Held, es_deposited = ''2026-09-28T10:15:00Z''\<rparr>,
      \<lparr>es_id = ''esc-902'', es_order = ''ORD-9018'', es_student = ''David K.'', es_expert = ''Dr. Marcus Thorne'',
        es_amount = 520, es_commission = 78, es_currency = ''USD'', es_status = Held, es_deposited = ''2026-09-27T16:40:00Z''\<rparr>,
      \<lparr>es_id = ''esc-903'', es_order = ''ORD-8942'', es_student = ''Liam T.'', es_expert = ''Ayra K.'',
        es_amount = 270, es_commission = 405 / 10, es_currency = ''USD'', es_status = Locked_dispute,
        es_deposited = ''2026-09-24T09:20:00Z''\<rparr>,
      \<lparr>es_id = ''esc-904'', es_order = ''ORD-8810'', es_student = ''Rachel P.'', es_expert = ''Dr. Sarah Chen'',
        es_amount = 450, es_commission = 675 / 10, es_currency = ''USD'', es_status = Scheduled_payout,
        es_deposited = ''2026-09-26T12:00:00Z''\<rparr>]"

text \<open>
  A finding of the report: check, severity, the printed detail, and the order and the payment it names. The
  record of the report has the counts of the payouts in the order of the payload's keys.
\<close>

record ledger_finding =
  lf_check :: string
  lf_severity :: string
  lf_detail :: string
  lf_order :: "string option"
  lf_payment :: "string option"

record reconciliation =
  rc_generated :: string
  rc_ok :: bool
  rc_findings :: "ledger_finding list"
  rc_payments :: nat
  rc_refunds :: nat
  rc_payouts :: "(string \<times> nat) list"
  rc_webhooks :: nat

record finance_page =
  fp_report :: "reconciliation option"
  fp_vault :: "escrow list"
  fp_error :: "string option"
  fp_busy :: bool
  fp_search :: string
  fp_toast :: "string option"
  fp_timers :: nat

definition finance_init :: finance_page where
  "finance_init =
     \<lparr>fp_report = None, fp_vault = INITIAL_ESCROW_VAULT, fp_error = None, fp_busy = False, fp_search = [],
      fp_toast = None, fp_timers = 0\<rparr>"

definition filteredVault :: "finance_page \<Rightarrow> escrow list" where
  "filteredVault p =
     filter (\<lambda>e. has_text (fp_search p) (es_order e) \<or> has_text (fp_search p) (es_student e)
                 \<or> has_text (fp_search p) (es_expert e)) (fp_vault p)"

definition totalInCustody :: "escrow list \<Rightarrow> rat" where
  "totalInCustody v = sum_list (map es_amount v)"

definition totalCommissionAccrued :: "escrow list \<Rightarrow> rat" where
  "totalCommissionAccrued v = sum_list (map es_commission v)"

section \<open>Events\<close>

datatype finance_event =
    RunChecks                            \<comment> \<open>opening the page, or the button\<close>
  | ReportIs "failure + reconciliation"
  | ToggleFreeze escrow
  | ReleaseEscrow escrow
  | TypeVaultSearch string
  | EscrowToastOver                      \<comment> \<open>one of the pending timeouts\<close>

definition set_escrow :: "string \<Rightarrow> escrow_status \<Rightarrow> escrow list \<Rightarrow> escrow list" where
  "set_escrow k st = update_where es_id k (\<lambda>e. e\<lparr>es_status := st\<rparr>)"

definition toggleFreeze :: "escrow \<Rightarrow> finance_page \<Rightarrow> finance_page" where
  "toggleFreeze e p =
     (let next_status = (if es_status e = Frozen then Held else Frozen)
      in p\<lparr>fp_vault := set_escrow (es_id e) next_status (fp_vault p),
           fp_toast := Some
             (if next_status = Frozen then ''EMERGENCY FREEZE ENGAGED: Funds for '' @ es_order e @ '' locked.''
              else ''Custody Freeze Lifted: Normal milestone flow resumed for '' @ es_order e @ ''.''),
           fp_timers := Suc (fp_timers p)\<rparr>)"

definition handleManualRelease :: "escrow \<Rightarrow> finance_page \<Rightarrow> finance_page" where
  "handleManualRelease e p =
     p\<lparr>fp_vault := set_escrow (es_id e) Scheduled_payout (fp_vault p),
       fp_toast := Some (''Manual Escrow Release Confirmed for '' @ es_order e @ ''. Net payout routed to '' @ es_expert e @ ''.''),
       fp_timers := Suc (fp_timers p)\<rparr>"

fun finance_step :: "finance_page \<Rightarrow> finance_event \<Rightarrow> finance_page" where
  "finance_step p RunChecks = p\<lparr>fp_busy := True\<rparr>"
| "finance_step p (ReportIs (Inr r)) = p\<lparr>fp_report := Some r, fp_error := None, fp_busy := False\<rparr>"
| "finance_step p (ReportIs (Inl e)) = p\<lparr>fp_error := Some ''Could not load the reconciliation report.'', fp_busy := False\<rparr>"
| "finance_step p (ToggleFreeze e) = toggleFreeze e p"
| "finance_step p (ReleaseEscrow e) = handleManualRelease e p"
| "finance_step p (TypeVaultSearch s) = p\<lparr>fp_search := s\<rparr>"
| "finance_step p EscrowToastOver = (if fp_timers p = 0 then p else p\<lparr>fp_toast := None, fp_timers := fp_timers p - 1\<rparr>)"

text \<open>The buttons of the monitor send nothing.\<close>

fun finance_call :: "finance_page \<Rightarrow> finance_event \<Rightarrow> api_init option" where
  "finance_call p RunChecks = Some portalApi_reconciliation"
| "finance_call p _ = None"

section \<open>What the page shows\<close>

fun escrow_badge :: "escrow_status \<Rightarrow> 'e ui" where
  "escrow_badge Held = Badge ''info'' ''Held in Escrow''"
| "escrow_badge Locked_dispute = Badge ''warning'' ''Dispute Locked''"
| "escrow_badge Scheduled_payout = Badge ''success'' ''Payout Scheduled''"
| "escrow_badge Frozen = Badge ''danger'' ''EMERGENCY FROZEN''"

definition escrow_row :: "escrow \<Rightarrow> finance_event ui" where
  "escrow_row e =
     Box (es_id e)
       ([Text (es_order e), Text (es_id e), Text (es_student e), Text (es_expert e),
         Text (''$'' @ number_text (es_amount e) @ '' '' @ es_currency e), Text (''$'' @ number_text (es_commission e)),
         escrow_badge (es_status e),
         Button (if es_status e = Frozen then ''Unfreeze'' else ''Freeze'') False (ToggleFreeze e)]
        @ shown_if (es_status e = Held) [Button ''Release'' False (ReleaseEscrow e)])"

definition custody_strip :: "locale_text \<Rightarrow> finance_page \<Rightarrow> finance_event ui list" where
  "custody_strip loc p =
     [Text ''Total Escrow Custody'', Text (''$'' @ show_number loc (totalInCustody (fp_vault p))),
      Text ''Platform Rake (15%)'', Text (''$'' @ show_number loc (totalCommissionAccrued (fp_vault p))),
      Text ''Disputed Holds'',
      Text (''$'' @ number_text (totalInCustody (filter (\<lambda>e. es_status e = Locked_dispute) (fp_vault p)))),
      Text ''1 order under arbitration'', Text ''Reconciliation State'',
      Text (case fp_report p of Some r \<Rightarrow> (if rc_ok r then ''BALANCED'' else ''AUDITED'') | None \<Rightarrow> ''AUDITED''),
      Text ''0 ledger discrepancies'']"

definition payout_tone :: "string \<Rightarrow> string" where
  "payout_tone st = (if st = ''paid'' then ''success'' else if st = ''failed'' then ''danger'' else ''neutral'')"

definition finding_line :: "ledger_finding \<Rightarrow> finance_event ui" where
  "finding_line f =
     Box ''finding''
       [Badge (if lf_severity f = ''high'' then ''danger'' else ''warning'') (lf_severity f),
        Text (nullish (map_of CHECK_COPY (lf_check f)) (lf_check f)),
        Text (nullish (lf_order f) (nullish (lf_payment f) ''--'')), Text (lf_detail f)]"

definition report_view :: "locale_text \<Rightarrow> reconciliation \<Rightarrow> finance_event ui list" where
  "report_view loc r =
     [Heading ''Double-Entry Ledger Invariants'',
      if rc_ok r then Badge ''success'' ''All Invariants Pass''
      else Badge ''danger'' (show_nat (length (rc_findings r)) @ '' finding(s)''),
      Text (''Audited at '' @ show_datetime loc (rc_generated r)),
      Text ''Succeeded payments'', Text (show_nat (rc_payments r)), Text ''Refunds processed'', Text (show_nat (rc_refunds r)),
      Text ''Payouts settled'']
     @ map (\<lambda>(st, n). Badge (payout_tone st) (st @ '': '' @ show_nat n)) (rc_payouts r)
     @ [Text ''Failed Webhooks'', Text (show_nat (rc_webhooks r))]
     @ shown_if (rc_findings r \<noteq> []) [Box ''reconciliation-findings'' (map finding_line (rc_findings r))]"

definition ReconciliationPage :: "locale_text \<Rightarrow> finance_page \<Rightarrow> finance_event ui list" where
  "ReconciliationPage loc p =
     [Heading ''Treasury, Escrow Custody & Reconciliation'', Text ''100% Reserve Backed'',
      Text ''Authoritative double-entry ledger oversight - Real-time escrow holds - Automatic parity verification'',
      Button (if fp_busy p then ''Auditing Ledger...'' else ''Re-run Reconciliation Checks'') (fp_busy p) RunChecks]
     @ (if truthy (fp_toast p) then [Text (the (fp_toast p))] else [])
     @ alert_if (fp_error p) @ custody_strip loc p
     @ [Heading (''Live Escrow Custody Monitor ('' @ show_nat (length (filteredVault p)) @ '' active deposits)''),
        Field ''Filter'' (fp_search p) TypeVaultSearch]
     @ map escrow_row (filteredVault p)
     @ (case fp_report p of None \<Rightarrow> [Text ''Running automated reconciliation tests...''] | Some r \<Rightarrow> report_view loc r)"

fun finance_enabled :: "locale_text \<Rightarrow> finance_page \<Rightarrow> finance_event \<Rightarrow> bool" where
  "finance_enabled loc p EscrowToastOver = (0 < fp_timers p)"
| "finance_enabled loc p (ReportIs r) = fp_busy p"
| "finance_enabled loc p e = offered (ReconciliationPage loc p) e"

section \<open>Lemmas\<close>

definition escrow_frame :: "escrow \<Rightarrow> escrow" where
  "escrow_frame e = e\<lparr>es_status := Held\<rparr>"

lemma escrow_frame_fields [simp]:
  "escrow_frame (e\<lparr>es_status := s\<rparr>) = escrow_frame e" "es_amount (escrow_frame e) = es_amount e"
  "es_commission (escrow_frame e) = es_commission e" "es_id (escrow_frame e) = es_id e"
  by (simp_all add: escrow_frame_def)

lemmas finance_handlers = toggleFreeze_def handleManualRelease_def set_escrow_def Let_def

interpretation treasury: desk finance_init "finance_enabled loc" finance_step fp_vault escrow_frame fp_toast fp_timers
  for loc
proof unfold_locales
  fix p :: finance_page and e
  show "map escrow_frame (fp_vault (finance_step p e)) = map escrow_frame (fp_vault p)"
    by (cases "(p, e)" rule: finance_step.cases) (simp_all add: finance_handlers map_update_where)
  show "fp_toast (finance_step p e) = None \<or> 0 < fp_timers (finance_step p e)" if "fp_toast p = None \<or> 0 < fp_timers p"
    using that by (cases "(p, e)" rule: finance_step.cases) (auto simp: finance_handlers)
qed (simp add: finance_init_def)

lemma offers_escrow_badge [simp]: "\<not> offers (escrow_badge s) e"
  by (cases s) simp_all

lemma offered_ReconciliationPage:
  "offered (ReconciliationPage loc p) e \<longleftrightarrow>
   (e = RunChecks \<and> \<not> fp_busy p) \<or> (\<exists>s. e = TypeVaultSearch s) \<or>
   (\<exists>x \<in> set (filteredVault p). e = ToggleFreeze x \<or> (e = ReleaseEscrow x \<and> es_status x = Held))"
  by (auto simp: ReconciliationPage_def custody_strip_def report_view_def offered_map escrow_row_def finding_line_def
        offers_Box shown_if_def split: option.split prod.splits simp del: offers.simps(6))

text \<open>How a deposit may change: a held one is released, any is frozen, a frozen one is held again.\<close>

fun custody_next :: "escrow_status \<Rightarrow> escrow_status \<Rightarrow> bool" where
  "custody_next Held Scheduled_payout = True"
| "custody_next Frozen st = (st = Held)"
| "custody_next st Frozen = True"
| "custody_next _ _ = False"

lemma reach_vault:
  assumes "reach (\<lambda>p. p = finance_init) (finance_enabled loc) finance_step p"
  shows "map escrow_frame (fp_vault p) = map escrow_frame INITIAL_ESCROW_VAULT" "fp_toast p = None \<or> 0 < fp_timers p"
  using treasury.reach_inv [OF assms] by (simp_all add: finance_init_def)

lemma vault_by_id:
  assumes "map escrow_frame (fp_vault p) = map escrow_frame INITIAL_ESCROW_VAULT" "x \<in> set (fp_vault p)" "y \<in> set (fp_vault p)"
    "es_id x = es_id y"
  shows "x = y"
proof -
  have "map es_id (fp_vault p) = map es_id (map escrow_frame (fp_vault p))" by simp
  then have "map es_id (fp_vault p) = map es_id INITIAL_ESCROW_VAULT" unfolding assms(1) by simp
  then have "distinct (map es_id (fp_vault p))" by (simp add: INITIAL_ESCROW_VAULT_def)
  then show ?thesis using assms(2-4) by (meson distinct_map inj_onD)
qed

lemma set_escrow_steps:
  assumes "e \<in> set v" "custody_next (es_status e) st" "\<And>x. x \<in> set v \<Longrightarrow> e \<in> set v \<Longrightarrow> es_id x = es_id e \<Longrightarrow> x = e"
  shows "list_all2 (\<lambda>a b. escrow_frame a = escrow_frame b \<and> (es_status a = es_status b \<or> custody_next (es_status a) (es_status b)))
    v (set_escrow (es_id e) st v)"
proof -
  have "escrow_frame z = escrow_frame w \<and> (es_status z = es_status w \<or> custody_next (es_status z) (es_status w))"
    if "z \<in> set v" "w = (if es_id z = es_id e then z\<lparr>es_status := st\<rparr> else z)" for z w
  proof (cases "es_id z = es_id e")
    case True
    then have "z = e" using assms that by blast
    then show ?thesis using that assms by simp
  qed (use that in simp)
  then show ?thesis by (simp add: set_escrow_def update_where_def list.rel_map list.rel_refl_strong)
qed

text \<open>
  A dispute does not hold its deposit: freezing and unfreezing it makes a deposit that is held, which can be
  released.
\<close>

lemma dispute_lock_bypassed:
  assumes "es_status e = Locked_dispute"
  shows "map es_status (fp_vault (run finance_step (finance_init\<lparr>fp_vault := [e]\<rparr>)
      [ToggleFreeze e, ToggleFreeze (e\<lparr>es_status := Frozen\<rparr>), ReleaseEscrow (e\<lparr>es_status := Held\<rparr>)])) = [Scheduled_payout] \<and>
    enabled_run (finance_enabled loc) finance_step (finance_init\<lparr>fp_vault := [e]\<rparr>)
      [ToggleFreeze e, ToggleFreeze (e\<lparr>es_status := Frozen\<rparr>), ReleaseEscrow (e\<lparr>es_status := Held\<rparr>)]"
  using assms
  by (simp add: finance_init_def finance_handlers update_where_def offered_ReconciliationPage filteredVault_def has_text_def
      to_lower_def)

section \<open>Properties\<close>

text \<open>
  C37: the treasury desk keeps the deposits. In every state that the page can be in, the totals it shows are
  those of the deposits it began with, 1620 in custody and 243 in commission, whatever was frozen or
  released; a step changes nothing of a deposit but its status, and that only along these lines: a
  held deposit is released, any is frozen, a frozen one is held again. A notice is shown only while a timeout
  is pending that takes it away.
\<close>

theorem escrow_conserved:
  assumes "reach (\<lambda>p. p = finance_init) (finance_enabled loc) finance_step p" "finance_enabled loc p ev"
  shows "totalInCustody (fp_vault p) = 1620 \<and> totalCommissionAccrued (fp_vault p) = 243 \<and>
    list_all2 (\<lambda>a b. escrow_frame a = escrow_frame b \<and> (es_status a = es_status b \<or> custody_next (es_status a) (es_status b)))
      (fp_vault p) (fp_vault (finance_step p ev)) \<and>
    (fp_toast p = None \<or> 0 < fp_timers p)"
proof -
  note v = reach_vault [OF assms(1)]
  have amounts: "totalInCustody (fp_vault p) = sum_list (map es_amount (map escrow_frame (fp_vault p)))"
    "totalCommissionAccrued (fp_vault p) = sum_list (map es_commission (map escrow_frame (fp_vault p)))"
    by (simp_all add: totalInCustody_def totalCommissionAccrued_def comp_def)
  note one = set_escrow_steps [OF _ _ vault_by_id [OF v(1)]]
  have "list_all2 (\<lambda>a b. escrow_frame a = escrow_frame b \<and> (es_status a = es_status b \<or> custody_next (es_status a) (es_status b)))
      (fp_vault p) (fp_vault (finance_step p ev))"
  proof (cases ev)
    case (ToggleFreeze e)
    then have e: "e \<in> set (fp_vault p)" using assms(2) by (auto simp: offered_ReconciliationPage filteredVault_def)
    have "custody_next (es_status e) (if es_status e = Frozen then Held else Frozen)" by (cases "es_status e") simp_all
    with e show ?thesis unfolding ToggleFreeze by (simp add: toggleFreeze_def Let_def one)
  next
    case (ReleaseEscrow e)
    then have e: "e \<in> set (fp_vault p)" "es_status e = Held"
      using assms(2) by (auto simp: offered_ReconciliationPage filteredVault_def)
    then show ?thesis unfolding ReleaseEscrow by (simp add: handleManualRelease_def one)
  next
    case (ReportIs r)
    then show ?thesis by (cases r) (auto intro: list.rel_refl_strong)
  qed (auto intro: list.rel_refl_strong)
  then show ?thesis using v by (simp add: amounts) (simp add: INITIAL_ESCROW_VAULT_def)
qed

theorem escrow_conserved_witness:
  "totalInCustody (fp_vault (finance_step finance_init (ToggleFreeze (hd INITIAL_ESCROW_VAULT)))) = 1620"
proof -
  let ?e = "hd INITIAL_ESCROW_VAULT"
  have on: "finance_enabled plain_locale finance_init (ToggleFreeze ?e)"
    by (simp add: offered_ReconciliationPage filteredVault_def has_text_def to_lower_def finance_init_def INITIAL_ESCROW_VAULT_def)
  have r: "reach (\<lambda>p. p = finance_init) (finance_enabled plain_locale) finance_step (finance_step finance_init (ToggleFreeze ?e))"
    by (rule reach_step) (rule reach_start, rule refl, rule on)
  have "finance_enabled plain_locale (finance_step finance_init (ToggleFreeze ?e)) (TypeVaultSearch [])"
    by (simp add: offered_ReconciliationPage)
  from escrow_conserved [OF r this] show ?thesis by simp
qed

end
