(* ===== verification/Oversight.thy ===== *)
theory Oversight
  imports Finance "HOL-Library.List_Lexorder" "HOL-Library.Char_ord"
begin

text \<open>
  The pages of the portal that only read: the overview \<open>app/(portal)/portal/page.tsx\<close> with the range
  control and the trend bars of \<open>features/portal/components/ops-ui.tsx\<close>, the audit viewer
  \<open>app/(portal)/portal/audit/page.tsx\<close> and the list of users \<open>app/(portal)/portal/users/page.tsx\<close>.
\<close>

section \<open>Cards and trends\<close>

definition KpiCard :: "string \<Rightarrow> 'e ui list \<Rightarrow> string option \<Rightarrow> 'e ui" where
  "KpiCard lab shown hint = Box (''kpi-'' @ lab) (Text lab # shown @ (if truthy hint then [Text (the hint)] else []))"

text \<open>
  The bars of a series, days to values: the last thirty days in order, and for each the height of its bar.
  Days are ISO dates, on which \<open>localeCompare\<close> is the order of the characters.
\<close>

definition trend_entries :: "(string \<times> rat) list \<Rightarrow> (string \<times> rat) list" where
  "trend_entries series = slice_last 30 (sort_key fst series)"

definition trend_max :: "(string \<times> rat) list \<Rightarrow> rat" where
  "trend_max xs = foldl max 1 (map snd xs)"

definition bar_height :: "rat \<Rightarrow> rat \<Rightarrow> rat" where
  "bar_height m v = max 3 (v / m * 60)"

definition TrendBars :: "(string \<times> rat) list \<Rightarrow> string \<Rightarrow> 'e ui list" where
  "TrendBars series lab =
     (let xs = trend_entries series; m = trend_max xs
      in if xs = [] then [Text (''No '' @ lab @ '' in this range.'')]
         else
           [Box (''trend-'' @ lab)
              (Text (lab @ '' per day (last '' @ show_nat (length xs) @ '' days)'')
               # map (\<lambda>(day, v). Box (day @ '': '' @ number_text v) [Text (number_text (bar_height m v) @ ''px'')]) xs
               @ [Text (fst (hd xs) @ '' -> '' @ fst (last xs) @ '' - max '' @ number_text m)])])"

section \<open>The range control\<close>

record range_control =
  rg_from :: string
  rg_to :: string

datatype range_event =
    TypeFrom string
  | TypeTo string
  | ChooseRange kpi_range
  | ApplyCustom

fun range_step :: "range_control \<Rightarrow> range_event \<Rightarrow> range_control" where
  "range_step c (TypeFrom s) = c\<lparr>rg_from := s\<rparr>"
| "range_step c (TypeTo s) = c\<lparr>rg_to := s\<rparr>"
| "range_step c _ = c"

definition RangeControl :: "bool \<Rightarrow> range_control \<Rightarrow> range_event ui list" where
  "RangeControl busy c =
     [Button ''Today'' busy (ChooseRange Today), Button ''Last 7 days'' busy (ChooseRange D7),
      Button ''Last 30 days'' busy (ChooseRange D30), Text ''UTC ranges; custom = [from, to]'',
      Field ''Custom range from'' (rg_from c) TypeFrom, Field ''Custom range to'' (rg_to c) TypeTo,
      Button ''Apply custom'' (busy \<or> rg_from c = [] \<or> rg_to c = []) ApplyCustom]"

section \<open>The overview\<close>

record kpi_payload =
  kp_from :: string
  kp_to :: string
  kp_tz :: string
  kp_total_requests :: nat
  kp_open_requests :: nat
  kp_matched_requests :: nat
  kp_completed_orders :: nat
  kp_cancelled_orders :: nat
  kp_active_orders :: nat
  kp_match_rate :: "rat option"
  kp_gmv :: int
  kp_commission :: int
  kp_payable :: int
  kp_refunds :: int
  kp_payouts :: "(string \<times> nat) list"
  kp_take_rate :: "rat option"
  kp_currency :: string
  kp_avg_rating :: "rat option"
  kp_review_count :: nat
  kp_dispute_count :: nat
  kp_dispute_rate :: "rat option"
  kp_outcomes :: "(string \<times> nat) list"
  kp_revision_rate :: "rat option"
  kp_messages :: nat
  kp_reports :: nat
  kp_open_reports :: nat
  kp_pushed :: nat
  kp_emailed :: nat
  kp_threads :: nat
  kp_trend_orders :: "(string \<times> rat) list"
  kp_trend_gmv :: "(string \<times> rat) list"

datatype triage_category = Tc_dispute | Tc_moderation | Tc_dispatch | Tc_verification
datatype triage_severity = Sv_critical | Sv_warning | Sv_info

record triage_item =
  tr_id :: string
  tr_category :: triage_category
  tr_severity :: triage_severity
  tr_title :: string
  tr_subtitle :: string
  tr_timestamp :: string
  tr_href :: string
  tr_action :: string

datatype triage_filter = Tf_all | Tf_critical | Tf_dispute | Tf_moderation

text \<open>A chosen range with the two days of a custom one; \<open>ov_control\<close> is the state of the control.\<close>

record overview =
  ov_range :: kpi_range
  ov_custom :: "(string \<times> string) option"
  ov_kpis :: "kpi_payload option"
  ov_reports :: "report_row list"
  ov_disputes :: "dispute_row list"
  ov_triage :: triage_filter
  ov_error :: "string option"
  ov_busy :: bool
  ov_control :: range_control

definition overview_init :: overview where
  "overview_init =
     \<lparr>ov_range = D30, ov_custom = None, ov_kpis = None, ov_reports = [], ov_disputes = [], ov_triage = Tf_all,
      ov_error = None, ov_busy = False, ov_control = \<lparr>rg_from = [], rg_to = []\<rparr>\<rparr>"

text \<open>\<open>OverviewIs\<close> is the settled answer of the three requests of a load.\<close>

datatype overview_event =
    OpenOverview
  | RangeEvent range_event
  | OverviewIs "failure + kpi_payload" "failure + report_row list" "failure + dispute_row list"
  | PickTriage triage_filter

text \<open>
  A load begins when the range or the custom days changed: setting the same range again, with no custom days,
  changes neither. A custom range is a new object each time.
\<close>

fun range_changed :: "overview \<Rightarrow> range_event \<Rightarrow> (kpi_range \<times> (string \<times> string) option) option" where
  "range_changed p (ChooseRange r) = (if ov_range p = r \<and> ov_custom p = None then None else Some (r, None))"
| "range_changed p ApplyCustom =
     (if rg_from (ov_control p) \<noteq> [] \<and> rg_to (ov_control p) \<noteq> []
      then Some (Custom, Some (rg_from (ov_control p), rg_to (ov_control p))) else None)"
| "range_changed p _ = None"

definition begin_load :: "overview \<Rightarrow> overview" where
  "begin_load p = p\<lparr>ov_busy := True, ov_error := None\<rparr>"

fun overview_step :: "overview \<Rightarrow> overview_event \<Rightarrow> overview" where
  "overview_step p OpenOverview = begin_load p"
| "overview_step p (RangeEvent e) =
     (let q = p\<lparr>ov_control := range_step (ov_control p) e\<rparr>
      in case range_changed p e of None \<Rightarrow> q | Some (r, c) \<Rightarrow> begin_load (q\<lparr>ov_range := r, ov_custom := c\<rparr>))"
| "overview_step p (OverviewIs (Inl k) rs ds) =
     p\<lparr>ov_error := Some ''Could not load KPIs -- staff access and backend required.'', ov_busy := False\<rparr>"
| "overview_step p (OverviewIs (Inr k) rs ds) =
     p\<lparr>ov_kpis := Some k, ov_reports := (case rs of Inr xs \<Rightarrow> xs | Inl x \<Rightarrow> ov_reports p),
       ov_disputes := (case ds of Inr xs \<Rightarrow> xs | Inl x \<Rightarrow> ov_disputes p), ov_busy := False\<rparr>"
| "overview_step p (PickTriage f) = p\<lparr>ov_triage := f\<rparr>"

text \<open>The three requests of a load, side by side.\<close>

definition overview_load :: "kpi_range \<Rightarrow> (string \<times> string) option \<Rightarrow> api_init list" where
  "overview_load r c =
     [portalApi_kpis r (map_option fst c) (map_option snd c), portalApi_reports [(''status'', Some ''open'')],
      portalApi_disputes []]"

fun overview_calls :: "overview \<Rightarrow> overview_event \<Rightarrow> api_init list option" where
  "overview_calls p OpenOverview = Some (overview_load (ov_range p) (ov_custom p))"
| "overview_calls p (RangeEvent e) = map_option (\<lambda>(r, c). overview_load r c) (range_changed p e)"
| "overview_calls p _ = None"

section \<open>The triage board\<close>

definition dispute_item :: "dispute_row \<Rightarrow> triage_item" where
  "dispute_item d =
     \<lparr>tr_id = ''disp-'' @ dr_id d, tr_category = Tc_dispute, tr_severity = Sv_critical,
      tr_title = ''Order '' @ dr_order_number d @ '': Dispute Opened ('' @ dr_reason d @ '')'',
      tr_subtitle = ''Amount at stake: '' @ show_int (dr_amount d) @ '' '' @ dr_currency d
        @ '' - Escalated by party #'' @ show_int (dr_opened_by d),
      tr_timestamp = dr_created_at d, tr_href = ''/portal/disputes'', tr_action = ''Arbitrate''\<rparr>"

definition report_item :: "report_row \<Rightarrow> triage_item" where
  "report_item r =
     \<lparr>tr_id = ''rep-'' @ rr_id r, tr_category = Tc_moderation, tr_severity = Sv_warning,
      tr_title = ''Honor Code Flag: '' @ rr_reason_display r,
      tr_subtitle = ''Reported by '' @ rr_reporter r @ '': \"'' @ take 75 (rr_body r) @ ''...\"'',
      tr_timestamp = rr_created_at r, tr_href = ''/portal/moderation'', tr_action = ''Review Chat''\<rparr>"

definition triageItems :: "overview \<Rightarrow> triage_item list" where
  "triageItems p =
     map dispute_item (filter (\<lambda>d. dr_status d \<noteq> ''resolved'' \<and> dr_status d \<noteq> ''closed'') (ov_disputes p))
     @ map report_item (filter (\<lambda>r. rr_status r = Rp_open) (ov_reports p))"

fun passes_triage :: "triage_filter \<Rightarrow> triage_item \<Rightarrow> bool" where
  "passes_triage Tf_all i = True"
| "passes_triage Tf_critical i = (tr_severity i = Sv_critical)"
| "passes_triage Tf_dispute i = (tr_category i = Tc_dispute)"
| "passes_triage Tf_moderation i = (tr_category i = Tc_moderation)"

definition filteredTriage :: "overview \<Rightarrow> triage_item list" where
  "filteredTriage p = filter (passes_triage (ov_triage p)) (triageItems p)"

fun severity_badge :: "triage_severity \<Rightarrow> 'e ui" where
  "severity_badge Sv_critical = Badge ''danger'' ''critical''"
| "severity_badge Sv_warning = Badge ''warning'' ''warning''"
| "severity_badge Sv_info = Badge ''info'' ''info''"

definition triage_line :: "locale_text \<Rightarrow> triage_item \<Rightarrow> overview_event ui" where
  "triage_line loc i =
     Box (tr_id i)
       [severity_badge (tr_severity i), Text (tr_title i), Text (tr_subtitle i), Text (show_short loc (tr_timestamp i)),
        Link (tr_href i) (tr_action i)]"

definition triage_board :: "locale_text \<Rightarrow> overview \<Rightarrow> overview_event ui list" where
  "triage_board loc p =
     [Heading (''Priority Action Triage ('' @ show_nat (length (filteredTriage p)) @ '' pending)''),
      Button ''All Items'' False (PickTriage Tf_all), Button ''Critical Only'' False (PickTriage Tf_critical),
      Button ''Disputes'' False (PickTriage Tf_dispute), Button ''Reports'' False (PickTriage Tf_moderation)]
     @ (if filteredTriage p = []
        then [Heading ''Triage Queue Clear'',
              Text ''No urgent disputes, honor code flags, or overdue assignments require platform owner intervention.'']
        else map (triage_line loc) (filteredTriage p))"

section \<open>The figures of the overview\<close>

definition rate_text :: "rat option \<Rightarrow> string" where
  "rate_text r = (case r of None \<Rightarrow> ''--'' | Some x \<Rightarrow> number_text x)"

definition disputeOutcomeCopy :: "(string \<times> string) list" where
  "disputeOutcomeCopy =
     [(''refund_student_full'', ''Full refunds''), (''refund_student_partial'', ''Partial refunds''),
      (''release_expert'', ''Released to expert''), (''split'', ''Split''), (''no_fault_close'', ''No-fault closes'')]"

definition kpi_ribbon :: "locale_text \<Rightarrow> overview \<Rightarrow> kpi_payload \<Rightarrow> overview_event ui list" where
  "kpi_ribbon loc p k =
     [Heading ''Executive KPI Ribbon'', Text ''Gross Marketplace Volume'', Text (money loc (kp_gmv k) (kp_currency k)),
      Text ''Platform Revenue (15%)'', Text (money loc (kp_commission k) (kp_currency k)),
      Text (''Take rate: '' @ (case kp_take_rate k of None \<Rightarrow> ''15.0%'' | Some x \<Rightarrow> to_fixed1 (x * 100) @ ''%'')),
      Text ''Active Escrow in Custody'', Text (money loc (kp_payable k) (kp_currency k)),
      Text (show_nat (kp_active_orders k) @ '' orders in progress''), Text ''Managed Queue Depth'',
      Text (show_nat (kp_open_requests k)), Link ''/portal/dispatch'' ''Open Dispatch Desk'', Text ''Open Triage Flags'',
      Text (show_nat (length (triageItems p))),
      Text (show_nat (length (ov_reports p)) @ '' reports - '' @ show_nat (length (ov_disputes p)) @ '' disputes'')]"

definition payout_badge :: "string \<times> nat \<Rightarrow> 'e ui" where
  "payout_badge m =
     (case m of (st, n) \<Rightarrow>
        Badge (if st = ''paid'' then ''success'' else if st = ''failed'' then ''danger'' else ''neutral'') (st @ '': '' @ show_nat n))"

definition market_strip :: "kpi_payload \<Rightarrow> overview_event ui list" where
  "market_strip k =
     [Heading ''Marketplace Core'', KpiCard ''Requests'' [Text (show_nat (kp_total_requests k))] None,
      KpiCard ''Open'' [Text (show_nat (kp_open_requests k))] None,
      KpiCard ''Matched'' [Text (show_nat (kp_matched_requests k))] None,
      KpiCard ''Match rate'' [Text (rate_text (kp_match_rate k))] None,
      KpiCard ''Active orders'' [Text (show_nat (kp_active_orders k))] None,
      KpiCard ''Completed'' [Text (show_nat (kp_completed_orders k))] None,
      KpiCard ''Cancelled'' [Text (show_nat (kp_cancelled_orders k))] None]"

definition ledger_cards :: "locale_text \<Rightarrow> kpi_payload \<Rightarrow> overview_event ui list" where
  "ledger_cards loc k =
     [Heading ''Ledger Breakdown'', KpiCard ''GMV'' [Text (money loc (kp_gmv k) (kp_currency k))] None,
      KpiCard ''Commission'' [Text (money loc (kp_commission k) (kp_currency k))] (Some (''take rate '' @ rate_text (kp_take_rate k))),
      KpiCard ''Expert payable'' [Text (money loc (kp_payable k) (kp_currency k))] None,
      KpiCard ''Refunds'' [Text (money loc (kp_refunds k) (kp_currency k))] None,
      KpiCard ''Payouts'' (map payout_badge (kp_payouts k)) None]"

text \<open>The volume in whole units of the currency, day by day.\<close>

definition gmv_series :: "(string \<times> rat) list \<Rightarrow> (string \<times> rat) list" where
  "gmv_series xs = map (\<lambda>(day, v). (day, of_int (math_round (v / 100)))) xs"

definition trend_cards :: "kpi_payload \<Rightarrow> overview_event ui list" where
  "trend_cards k =
     Heading ''Orders Trend (Volume)'' # TrendBars (kp_trend_orders k) ''orders''
     @ Heading ''GMV Trend (USD Major)'' # TrendBars (gmv_series (kp_trend_gmv k)) ''gmv''"

definition outcome_text :: "(string \<times> nat) list \<Rightarrow> string" where
  "outcome_text xs =
     (if xs = [] then ''--''
      else join '', '' (map (\<lambda>(key, n). nullish (map_of disputeOutcomeCopy key) key @ '': '' @ show_nat n) xs))"

definition quality_cards :: "kpi_payload \<Rightarrow> overview_event ui list" where
  "quality_cards k =
     [Heading ''Quality Index'',
      Text (''Avg Student Rating: '' @ rate_text (kp_avg_rating k) @ '' ('' @ show_nat (kp_review_count k) @ '' reviews)''),
      Text (''Dispute Frequency: '' @ show_nat (kp_dispute_count k) @ '' (rate: '' @ rate_text (kp_dispute_rate k) @ '')''),
      Text (''Arbitration Outcomes: '' @ outcome_text (kp_outcomes k)),
      Text (''Revision Rate: '' @ rate_text (kp_revision_rate k)),
      Heading ''Communications & Integrity'', Text (''Total Messages: '' @ show_nat (kp_messages k)),
      Text (''Flagged Reports: '' @ show_nat (kp_reports k) @ '' ('' @ show_nat (kp_open_reports k) @ '' pending review)''),
      Text (''Active Order Threads: '' @ show_nat (kp_threads k)),
      Text (''Push / Email Notifications: '' @ show_nat (kp_pushed k) @ '' / '' @ show_nat (kp_emailed k)),
      Heading ''Operations Navigation'', Link ''/portal/dispatch'' ''Managed Dispatch Desk'', Badge ''info'' ''Active'',
      Link ''/portal/moderation'' ''Moderation Queue'', Badge ''warning'' (show_nat (kp_open_reports k) @ '' open''),
      Link ''/portal/disputes'' ''Dispute Tribunal'', Badge ''danger'' (show_nat (kp_dispute_count k) @ '' in range''),
      Link ''/portal/finance'' ''Escrow & Reconciliation'', Text ''Audited'',
      Box ''kpi-range-summary'' [Text (kp_from k @ '' -> '' @ kp_to k @ '' ('' @ kp_tz k @ '')'')]]"

definition PortalDashboardPage :: "locale_text \<Rightarrow> overview \<Rightarrow> overview_event ui list" where
  "PortalDashboardPage loc p =
     [Heading ''Executive Operations Cockpit'', Text ''Real-Time Telemetry'',
      Text ''Server-side authoritative aggregates (UTC) - Real-time ledger balances - Active platform arbitration queue'']
     @ map (map_events RangeEvent) (RangeControl (ov_busy p) (ov_control p))
     @ alert_if (ov_error p)
     @ (case ov_kpis p of
          None \<Rightarrow> [Box ''busy'' []]
        | Some k \<Rightarrow> kpi_ribbon loc p k @ triage_board loc p @ market_strip k @ ledger_cards loc k @ trend_cards k @ quality_cards k)"

fun overview_enabled :: "locale_text \<Rightarrow> overview \<Rightarrow> overview_event \<Rightarrow> bool" where
  "overview_enabled loc p OpenOverview = False"
| "overview_enabled loc p (OverviewIs k rs ds) = ov_busy p"
| "overview_enabled loc p e = offered (PortalDashboardPage loc p) e"

section \<open>The audit viewer\<close>

record audit_row =
  au_id :: nat
  au_actor :: "string option"
  au_action :: string
  au_type :: string
  au_object :: string
  au_detail :: string                    \<comment> \<open>the detail as JSON\<close>
  au_created :: string

definition OBJECT_TYPE_OPTIONS :: "(string \<times> string) list" where
  "OBJECT_TYPE_OPTIONS =
     [([], ''All objects''), (''messagereport'', ''Message reports''), (''dispute'', ''Disputes''), (''payment'', ''Payments''),
      (''payout'', ''Payouts''), (''platformconfig'', ''Platform config''), (''message'', ''Messages''), (''thread'', ''Threads'')]"

record audit_page =
  aw_action :: string
  aw_type :: string
  aw_from :: string
  aw_to :: string
  aw_rows :: "audit_row list option"
  aw_total :: nat
  aw_error :: "string option"

definition audit_init :: audit_page where
  "audit_init = \<lparr>aw_action = [], aw_type = [], aw_from = [], aw_to = [], aw_rows = None, aw_total = 0, aw_error = None\<rparr>"

datatype audit_event =
    OpenAudit
  | TypeAction string
  | PickObject string
  | TypeAuditFrom string
  | TypeAuditTo string
  | ApplyAudit
  | ClearAudit
  | AuditIs "failure + audit_row list \<times> nat"

fun audit_step :: "audit_page \<Rightarrow> audit_event \<Rightarrow> audit_page" where
  "audit_step p (TypeAction s) = p\<lparr>aw_action := s\<rparr>"
| "audit_step p (PickObject s) = p\<lparr>aw_type := s\<rparr>"
| "audit_step p (TypeAuditFrom s) = p\<lparr>aw_from := s\<rparr>"
| "audit_step p (TypeAuditTo s) = p\<lparr>aw_to := s\<rparr>"
| "audit_step p ClearAudit = p\<lparr>aw_action := [], aw_type := [], aw_from := [], aw_to := []\<rparr>"
| "audit_step p (AuditIs (Inr (rs, n))) = p\<lparr>aw_rows := Some rs, aw_total := n, aw_error := None\<rparr>"
| "audit_step p (AuditIs (Inl e)) = p\<lparr>aw_error := Some ''Could not load audit events.''\<rparr>"
| "audit_step p _ = p"

definition audit_load :: "audit_page \<Rightarrow> api_init" where
  "audit_load p =
     portalApi_audit
       [(''action'', filter_value (aw_action p)), (''object_type'', filter_value (aw_type p)),
        (''from'', filter_value (aw_from p)), (''to'', filter_value (aw_to p))]"

definition audit_filters :: "audit_page \<Rightarrow> string \<times> string \<times> string \<times> string" where
  "audit_filters p = (aw_action p, aw_type p, aw_from p, aw_to p)"

text \<open>The list is loaded when the page opens, when a filter has changed, and by the button.\<close>

definition audit_call :: "audit_page \<Rightarrow> audit_event \<Rightarrow> api_init option" where
  "audit_call p e =
     (if e = OpenAudit \<or> e = ApplyAudit \<or> audit_filters (audit_step p e) \<noteq> audit_filters p
      then Some (audit_load (audit_step p e)) else None)"

definition audit_line :: "locale_text \<Rightarrow> audit_row \<Rightarrow> audit_event ui" where
  "audit_line loc r =
     Box (show_nat (au_id r))
       [Text (show_datetime loc (au_created r)), Text (nullish (au_actor r) ''system''), Text (au_action r),
        Text (au_type r @ '' - '' @ take 12 (au_object r) @ ''...''), Text (au_detail r)]"

definition AuditViewerPage :: "locale_text \<Rightarrow> audit_page \<Rightarrow> audit_event ui list" where
  "AuditViewerPage loc p =
     [Heading ''Audit viewer'', Text ''Append-only (BR-42) -- read-only everywhere, including here.'',
      Field ''Action contains'' (aw_action p) TypeAction]
     @ OpsSelect ''Object'' (aw_type p) OBJECT_TYPE_OPTIONS PickObject
     @ [Field ''From'' (aw_from p) TypeAuditFrom, Field ''To'' (aw_to p) TypeAuditTo, Button ''Apply'' False ApplyAudit,
        Button ''Clear'' False ClearAudit]
     @ alert_if (aw_error p)
     @ (case aw_rows p of
          None \<Rightarrow> [Text ''Loading...'']
        | Some rs \<Rightarrow>
            if rs = [] then [Text ''No audit events match these filters.'']
            else [Box ''audit-table'' (map (audit_line loc) rs), Text (show_nat (aw_total p) @ '' event(s)'')])"

section \<open>The users\<close>

text \<open>What the list says of an expert: slug, status, rating and how many ratings.\<close>

record user_row =
  ur_id :: nat
  ur_email :: string
  ur_name :: string
  ur_staff :: bool
  ur_verified :: bool
  ur_created :: string
  ur_expert :: "(string \<times> string option \<times> string option \<times> nat) option"
  ur_orders :: nat
  ur_reviews :: nat
  ur_disputes :: nat

record users_page =
  us_role :: string
  us_query :: string
  us_data :: "(user_row list \<times> nat) option"
  us_error :: "string option"

definition users_init :: users_page where
  "users_init = \<lparr>us_role = ''all'', us_query = [], us_data = None, us_error = None\<rparr>"

datatype users_event =
    OpenUsers
  | PickRole string
  | TypeUserSearch string
  | SearchUsers
  | UsersAre "failure + user_row list \<times> nat"

fun users_step :: "users_page \<Rightarrow> users_event \<Rightarrow> users_page" where
  "users_step p (PickRole r) = p\<lparr>us_role := r\<rparr>"
| "users_step p (TypeUserSearch s) = p\<lparr>us_query := s\<rparr>"
| "users_step p (UsersAre (Inr d)) = p\<lparr>us_data := Some d, us_error := None\<rparr>"
| "users_step p (UsersAre (Inl e)) = p\<lparr>us_error := Some ''Could not load users.''\<rparr>"
| "users_step p _ = p"

definition users_load :: "users_page \<Rightarrow> api_init" where
  "users_load p = portalApi_users [(''role'', Some (us_role p)), (''q'', Some (us_query p))]"

definition users_call :: "users_page \<Rightarrow> users_event \<Rightarrow> api_init option" where
  "users_call p e =
     (let q = users_step p e
      in if e = OpenUsers \<or> e = SearchUsers \<or> us_role q \<noteq> us_role p \<or> us_query q \<noteq> us_query p
         then Some (users_load q) else None)"

definition user_line :: "locale_text \<Rightarrow> user_row \<Rightarrow> users_event ui" where
  "user_line loc u =
     Box (show_nat (ur_id u))
       ([Text (ur_name u), Text (ur_email u)]
        @ shown_if (ur_staff u) [Badge ''info'' ''staff'']
        @ [Badge (if ur_verified u then ''success'' else ''warning'') (if ur_verified u then ''verified'' else ''unverified'')]
        @ (case ur_expert u of
             None \<Rightarrow> [Text ''--'']
           | Some (slug, st, avg, n) \<Rightarrow>
               [Text slug, Text (nullish st ''--'' @ '' - * '' @ nullish avg ''--'' @ '' ('' @ show_nat n @ '')'')])
        @ [Text (show_nat (ur_orders u)), Text (show_nat (ur_reviews u)), Text (show_nat (ur_disputes u)),
           Text (show_date loc (ur_created u))])"

definition UsersOverviewPage :: "locale_text \<Rightarrow> users_page \<Rightarrow> users_event ui list" where
  "UsersOverviewPage loc p =
     [Heading ''Users & experts'',
      Text ''Operational visibility -- profile edits, expert vetting and suspensions live in Django admin.'']
     @ OpsSelect ''Role'' (us_role p) [(''all'', ''All''), (''expert'', ''Experts''), (''staff'', ''Staff'')] PickRole
     @ [Field ''Search users'' (us_query p) TypeUserSearch, Button ''Search'' False SearchUsers]
     @ alert_if (us_error p)
     @ (case us_data p of
          None \<Rightarrow> [Text ''Loading...'']
        | Some (us, n) \<Rightarrow>
            if us = [] then [Text ''No users match.'']
            else [Box ''users-table'' (map (user_line loc) us), Text (show_nat n @ '' user(s)'')])"

section \<open>Lemmas\<close>

lemma foldl_max_start: "(a :: rat) \<le> foldl max a xs"
proof (induction xs arbitrary: a)
  case (Cons y ys)
  have "a \<le> max a y" by simp
  also have "\<dots> \<le> foldl max (max a y) ys" by (rule Cons.IH)
  finally show ?case by simp
qed simp

lemma foldl_max_mem: "x \<in> set xs \<Longrightarrow> (x :: rat) \<le> foldl max a xs"
proof (induction xs arbitrary: a)
  case (Cons y ys)
  then show ?case using foldl_max_start [of "max a y" ys] by auto
qed simp

text \<open>Every bar is between 3 and 60 pixels high, for values that are not negative.\<close>

lemma bar_heights:
  assumes "(d, v) \<in> set xs" "0 \<le> v"
  shows "3 \<le> bar_height (trend_max xs) v" "bar_height (trend_max xs) v \<le> 60"
proof -
  have "v \<le> trend_max xs" "1 \<le> trend_max xs"
    using foldl_max_mem [of v "map snd xs"] foldl_max_start [of 1 "map snd xs"] assms(1)
    by (force simp: trend_max_def)+
  then show "bar_height (trend_max xs) v \<le> 60" by (simp add: bar_height_def field_simps)
qed (simp add: bar_height_def)

lemma offered_RangeControl:
  "offered (RangeControl busy c) e \<longleftrightarrow>
   (\<exists>s. e = TypeFrom s \<or> e = TypeTo s) \<or>
   (\<not> busy \<and> (e = ChooseRange Today \<or> e = ChooseRange D7 \<or> e = ChooseRange D30 \<or>
      (e = ApplyCustom \<and> rg_from c \<noteq> [] \<and> rg_to c \<noteq> [])))"
  by (auto simp: RangeControl_def)

lemma offers_triage_line [simp]: "\<not> offers (triage_line loc i) e"
  by (cases "tr_severity i") (simp_all add: triage_line_def)

lemma offered_figures [simp]:
  "\<not> offered (kpi_ribbon loc p k) e" "\<not> offered (market_strip k) e" "\<not> offered (ledger_cards loc k) e"
  "\<not> offered (trend_cards k) e" "\<not> offered (quality_cards k) e"
  by (auto simp: kpi_ribbon_def market_strip_def ledger_cards_def trend_cards_def quality_cards_def KpiCard_def TrendBars_def
      payout_badge_def offers_Box offered_map Let_def split: prod.splits simp del: offers.simps(6))

lemma offered_triage_board:
  "offered (triage_board loc p) e \<longleftrightarrow> (\<exists>f. e = PickTriage f)"
proof -
  have "f = Tf_all \<or> f = Tf_critical \<or> f = Tf_dispute \<or> f = Tf_moderation" for f by (cases f) simp_all
  then show ?thesis by (auto simp: triage_board_def offered_map)
qed

lemma offered_PortalDashboardPage:
  "offered (PortalDashboardPage loc p) e \<longleftrightarrow>
   (\<exists>r. e = RangeEvent r \<and> offered (RangeControl (ov_busy p) (ov_control p)) r) \<or> (ov_kpis p \<noteq> None \<and> (\<exists>f. e = PickTriage f))"
  by (auto simp: PortalDashboardPage_def offered_child offered_triage_board split: option.split)

text \<open>The range is custom exactly while there are two days for it.\<close>

definition range_ok :: "overview \<Rightarrow> bool" where
  "range_ok p \<longleftrightarrow>
     (case ov_custom p of
        None \<Rightarrow> ov_range p \<noteq> Custom
      | Some (a, b) \<Rightarrow> ov_range p = Custom \<and> a \<noteq> [] \<and> b \<noteq> [])"

interpretation watching: machine "\<lambda>p. p = overview_step overview_init OpenOverview" "overview_enabled loc" overview_step range_ok
  for loc
proof unfold_locales
  fix p :: overview and e assume p: "range_ok p" "overview_enabled loc p e"
  show "range_ok (overview_step p e)"
  proof (cases e)
    case (RangeEvent r)
    then show ?thesis using p
      by (cases r) (auto simp: range_ok_def begin_load_def Let_def offered_PortalDashboardPage offered_RangeControl split: option.splits)
  next
    case (OverviewIs k rs ds)
    then show ?thesis using p by (cases k) (auto simp: range_ok_def split: option.splits)
  qed (use p in \<open>auto simp: range_ok_def begin_load_def split: option.splits\<close>)
qed (simp add: range_ok_def begin_load_def overview_init_def)

text \<open>The board has the open disputes and then the open reports; the tab for critical items is the tab for disputes.\<close>

lemma triage_tabs:
  "filteredTriage (p\<lparr>ov_triage := Tf_all\<rparr>) = filteredTriage (p\<lparr>ov_triage := Tf_dispute\<rparr>) @ filteredTriage (p\<lparr>ov_triage := Tf_moderation\<rparr>)"
  "filteredTriage (p\<lparr>ov_triage := Tf_critical\<rparr>) = filteredTriage (p\<lparr>ov_triage := Tf_dispute\<rparr>)"
  by (simp_all add: filteredTriage_def triageItems_def filter_map comp_def dispute_item_def report_item_def)

section \<open>Properties\<close>

text \<open>
  The overview asks for the range it shows, and once at a time. In every state the page can be in, the
  range is the custom one exactly while there are two days for it, none of them empty; an event of the user
  that starts a load does so only when no load is under way, the three requests of the load are for the range
  and the days that are shown from then on, and the page is busy until their answer.
\<close>

lemma range_followed:
  assumes "reach (\<lambda>p. p = overview_step overview_init OpenOverview) (overview_enabled loc) overview_step p"
    and "overview_enabled loc p e" "overview_calls p e = Some cs"
  shows "range_ok p \<and> \<not> ov_busy p \<and>
    (let p' = overview_step p e
     in range_ok p' \<and> ov_busy p' \<and> cs = overview_load (ov_range p') (ov_custom p'))"
proof -
  have ok: "range_ok p" by (rule watching.reach_inv [OF assms(1)])
  obtain r where e: "e = RangeEvent r" using assms(2,3) by (cases e) auto
  obtain n c where n: "range_changed p r = Some (n, c)" "cs = overview_load n c"
    using assms(3) e by auto
  have "\<not> ov_busy p"
    using assms(2) n e by (cases r) (auto simp: offered_PortalDashboardPage offered_RangeControl)
  moreover have "range_ok (overview_step p e)" by (rule watching.inv_step [OF ok assms(2)])
  ultimately show ?thesis using ok n e by (simp add: begin_load_def Let_def)
qed

text \<open>
  The pages that watch only read. Whatever the events, the requests of the audit viewer, which is append-only
  by BR-42, of the list of users, of the overview, of the treasury and of the dispute tribunal are all reads: none
  of them is one that changes something on the server.
\<close>

lemma watching_reads:
  "list_all (\<lambda>i. \<not> mutating i)
     (run_log audit_step audit_call a es @ run_log users_step users_call u us @ concat (run_log overview_step overview_calls v vs)
      @ run_log finance_step finance_call f fs @ run_log dispute_queue_step dispute_queue_call d ds)"
proof -
  have get: "\<not> mutating (get_req path)" for path
    by (simp add: mutating_def get_req_def to_upper_def upper_char_def)
  have log: "list_all P (run_log step call s es)" if "\<And>s e i. call s e = Some i \<Longrightarrow> P i" for P step call s es
    using run_log_subset [of call "Collect P" step s es] that by (auto simp: list_all_iff)
  have "list_all (list_all (\<lambda>i. \<not> mutating i)) (run_log overview_step overview_calls v vs)"
  proof (rule log)
    have "list_all (\<lambda>i. \<not> mutating i) (overview_load r c)" for r c
      by (simp add: overview_load_def portalApi_kpis_def portalApi_reports_def portalApi_disputes_def get)
    then show "list_all (\<lambda>i. \<not> mutating i) i" if "overview_calls s e = Some i" for s e i
      using that by (cases "(s, e)" rule: overview_calls.cases) auto
  qed
  then have "list_all (\<lambda>i. \<not> mutating i) (concat (run_log overview_step overview_calls v vs))"
    by (simp add: list_all_iff)
  moreover have "list_all (\<lambda>i. \<not> mutating i) (run_log audit_step audit_call a es)"
    by (rule log) (auto simp: audit_call_def audit_load_def portalApi_audit_def get split: if_splits)
  moreover have "list_all (\<lambda>i. \<not> mutating i) (run_log users_step users_call u us)"
    by (rule log) (auto simp: users_call_def users_load_def portalApi_users_def get Let_def split: if_splits)
  moreover have "list_all (\<lambda>i. \<not> mutating i) (run_log finance_step finance_call f fs)"
    by (rule log) (erule finance_call.elims; auto simp: portalApi_reconciliation_def get)
  moreover have "list_all (\<lambda>i. \<not> mutating i) (run_log dispute_queue_step dispute_queue_call d ds)"
    by (rule log) (use dispute_calls in \<open>force simp: load_disputes_def portalApi_disputes_def get\<close>)
  ultimately show ?thesis by simp
qed

end
