(* ===== verification/Middleware.thy ===== *)
theory Middleware
  imports Prelude
begin

text \<open>
  The edge middleware (\<open>frontend/src/middleware.ts\<close>): which request is redirected, to which
  host and path, and the content security policy each response carries.

  An environment is a partial map from variable names to values. The parser behind
  \<open>new URL(value).origin\<close> belongs to the platform, so \<open>url_origin\<close>, with \<open>None\<close> for a
  value it throws on, is a parameter of \<open>connectSources\<close> and of everything above it; the
  16 random bytes of \<open>crypto.getRandomValues\<close> are an argument of \<open>middleware\<close>.
\<close>

type_synonym env = "string \<rightharpoonup> string"

section \<open>Protected routes\<close>

definition PROTECTED_PREFIXES :: "string list" where
  "PROTECTED_PREFIXES =
    [''/account'', ''/onboarding'', ''/expert'', ''/requests'', ''/opportunities'',
     ''/offers'', ''/assignments'', ''/orders'', ''/portal'']"

definition AUTH_PAGES :: "string list" where
  "AUTH_PAGES = [''/login'', ''/login/expert'', ''/register'', ''/register/expert'']"

definition ACCESS_COOKIE :: string where
  "ACCESS_COOKIE = ''hm_access''"

definition REDIRECT_SCOPE :: "string list" where
  "REDIRECT_SCOPE =
    [''/account'', ''/onboarding'', ''/expert'', ''/login'', ''/login/expert'',
     ''/register'', ''/register/expert'']"

text \<open>The test \<open>pathname === p || pathname.startsWith(`${p}/`)\<close> that the three lists share.\<close>

definition under :: "string \<Rightarrow> string \<Rightarrow> bool" where
  "under pathname p \<longleftrightarrow> pathname = p \<or> starts_with pathname (p @ ''/'')"

definition resolveRoute :: "string \<Rightarrow> bool \<Rightarrow> string option" where
  "resolveRoute pathname hasAccessCookie =
     (let isProtected = (\<exists>p \<in> set PROTECTED_PREFIXES. under pathname p)
      in if isProtected \<and> \<not> hasAccessCookie then Some ''/login''
         else if hasAccessCookie \<and> pathname \<in> set AUTH_PAGES then Some ''/account''
         else None)"

definition inRedirectScope :: "string \<Rightarrow> bool" where
  "inRedirectScope pathname \<longleftrightarrow> (\<exists>p \<in> set REDIRECT_SCOPE. under pathname p)"

section \<open>Three experiences on three hosts\<close>

datatype experience = Marketing | App | Portal

definition APP_PREFIXES :: "string list" where
  "APP_PREFIXES =
    [''/login'', ''/login/expert'', ''/register'', ''/register/expert'', ''/verify-email'',
     ''/reset-password'', ''/account'', ''/onboarding'', ''/expert'', ''/requests'',
     ''/offers'', ''/opportunities'', ''/assignments'', ''/orders'', ''/messages'']"

definition experienceForPath :: "string \<Rightarrow> experience" where
  "experienceForPath pathname =
     (if pathname = ''/portal'' \<or> starts_with pathname ''/portal/'' then Portal
      else if (\<exists>p \<in> set APP_PREFIXES. under pathname p) then App
      else Marketing)"

record experience_hosts =
  marketing :: "string option"
  app :: "string option"
  portal :: "string option"

fun host_of :: "experience_hosts \<Rightarrow> experience \<Rightarrow> string option" where
  "host_of hs Marketing = marketing hs"
| "host_of hs App = app hs"
| "host_of hs Portal = portal hs"

text \<open>A variable that is unset or empty leaves its key out.\<close>

definition env_set :: "env \<Rightarrow> string \<Rightarrow> string option" where
  "env_set env k = (if truthy (env k) then env k else None)"

definition experienceHosts :: "env \<Rightarrow> experience_hosts" where
  "experienceHosts env =
     \<lparr>marketing = env_set env ''NEXT_PUBLIC_MARKETING_HOST'',
      app = env_set env ''NEXT_PUBLIC_APP_HOST'',
      portal = env_set env ''NEXT_PUBLIC_PORTAL_HOST''\<rparr>"

text \<open>\<open>Object.values(hosts).filter(Boolean)\<close>.\<close>

definition configured_hosts :: "experience_hosts \<Rightarrow> string list" where
  "configured_hosts hs =
     filter (\<lambda>h. h \<noteq> []) (List.map_filter id [marketing hs, app hs, portal hs])"

definition bare_host :: "string \<Rightarrow> string" where
  "bare_host host = to_lower (hd (split_on (CHR '':'') host))"

definition resolveHostRedirect ::
    "string option \<Rightarrow> string \<Rightarrow> experience_hosts \<Rightarrow> string option" where
  "resolveHostRedirect host pathname hosts =
     (let configured = configured_hosts hosts
      in if length configured < 3 \<or> \<not> truthy host then None
         else
           let bare = bare_host (the host)
           in if \<not> (\<exists>h \<in> set configured. to_lower h = bare) then None
              else
                let expected = host_of hosts (experienceForPath pathname)
                in if \<not> truthy expected \<or> to_lower (the expected) = bare then None
                   else expected)"

section \<open>The content security policy\<close>

definition toOrigin :: "(string \<Rightarrow> string option) \<Rightarrow> string option \<Rightarrow> string option" where
  "toOrigin url_origin value =
     (if \<not> truthy value then None else url_origin (the value))"

text \<open>Adds each trimmed, non-empty piece of a comma-separated list.\<close>

fun add_extras :: "string list \<Rightarrow> string list \<Rightarrow> string list" where
  "add_extras [] sources = sources"
| "add_extras (extra # extras) sources =
     (let trimmed = trim extra
      in add_extras extras (if trimmed \<noteq> [] then add_uniq trimmed sources else sources))"

fun add_origins ::
    "(string \<Rightarrow> string option) \<Rightarrow> string option list \<Rightarrow> string list \<Rightarrow> string list" where
  "add_origins url_origin [] sources = sources"
| "add_origins url_origin (raw # raws) sources =
     (let origin = toOrigin url_origin raw
      in add_origins url_origin raws
           (if truthy origin then add_uniq (the origin) sources else sources))"

definition connectSources :: "(string \<Rightarrow> string option) \<Rightarrow> env \<Rightarrow> string list" where
  "connectSources url_origin env =
     add_extras (split_on (CHR '','') (nullish (env ''NEXT_PUBLIC_CSP_CONNECT_EXTRA'') []))
       (add_origins url_origin [env ''NEXT_PUBLIC_API_URL'', env ''NEXT_PUBLIC_WS_URL'']
         [[CHR 0x27] @ ''self'' @ [CHR 0x27]])"

definition imageSources :: "env \<Rightarrow> string list" where
  "imageSources env =
     add_extras (split_on (CHR '','') (nullish (env ''NEXT_PUBLIC_CSP_IMG_EXTRA'') []))
       [[CHR 0x27] @ ''self'' @ [CHR 0x27], ''data:'', ''blob:'']"

text \<open>A keyword of the policy is written between single quotes (character 39).\<close>

definition quoted :: "string \<Rightarrow> string" where
  "quoted s = CHR 0x27 # s @ [CHR 0x27]"

definition scriptSrc :: "string \<Rightarrow> bool \<Rightarrow> string" where
  "scriptSrc nonce enforce =
     (if enforce
      then quoted ''self'' @ '' '' @ quoted (''nonce-'' @ nonce) @ '' '' @ quoted ''strict-dynamic''
      else quoted ''self'' @ '' '' @ quoted (''nonce-'' @ nonce) @ '' '' @ quoted ''strict-dynamic''
             @ '' '' @ quoted ''unsafe-inline'' @ '' '' @ quoted ''unsafe-eval'')"

definition policy_directives ::
    "(string \<Rightarrow> string option) \<Rightarrow> string \<Rightarrow> bool \<Rightarrow> env \<Rightarrow> string list" where
  "policy_directives url_origin nonce enforce env =
     [''default-src '' @ quoted ''self'',
      ''script-src '' @ scriptSrc nonce enforce,
      ''style-src '' @ quoted ''self'' @ '' '' @ quoted ''unsafe-inline'',
      ''img-src '' @ join '' '' (imageSources env),
      ''font-src '' @ quoted ''self'' @ '' data:'',
      ''connect-src '' @ join '' '' (connectSources url_origin env),
      ''frame-ancestors '' @ quoted ''none'',
      ''base-uri '' @ quoted ''self'',
      ''form-action '' @ quoted ''self'',
      ''object-src '' @ quoted ''none'']"

definition buildContentSecurityPolicy ::
    "(string \<Rightarrow> string option) \<Rightarrow> string \<Rightarrow> bool \<Rightarrow> env \<Rightarrow> string" where
  "buildContentSecurityPolicy url_origin nonce enforce env =
     join ''; '' (policy_directives url_origin nonce enforce env)"

text \<open>
  \<open>btoa\<close> on a list of bytes: three bytes are 24 bits, read as four digits of base 64, and the
  last group is padded with \<open>=\<close>.
\<close>

definition base64_char :: "nat \<Rightarrow> char" where
  "base64_char n =
     (if n < 26 then char_of (65 + n)
      else if n < 52 then char_of (71 + n)
      else if n < 62 then char_of (n - 4)
      else if n = 62 then CHR ''+'' else CHR ''/'')"

fun btoa :: "nat list \<Rightarrow> string" where
  "btoa [] = []"
| "btoa [a] =
     [base64_char (a div 4), base64_char (a mod 4 * 16), CHR ''='', CHR ''='']"
| "btoa [a, b] =
     [base64_char (a div 4), base64_char (a mod 4 * 16 + b div 16),
      base64_char (b mod 16 * 4), CHR ''='']"
| "btoa (a # b # c # rest) =
     base64_char (a div 4) # base64_char (a mod 4 * 16 + b div 16)
       # base64_char (b mod 16 * 4 + c div 64) # base64_char (c mod 64) # btoa rest"

definition generateNonce :: "nat list \<Rightarrow> string" where
  "generateNonce bytes = btoa bytes"

section \<open>The handler\<close>

text \<open>
  The parts of a request's URL the handler reads or writes. \<open>search\<close> is the decoded list of
  query parameters behind \<open>searchParams\<close>.
\<close>

record url =
  protocol :: string
  hostname :: string
  port :: string
  pathname :: string
  search :: "(string \<times> string) list"

record next_request =
  req_url :: url
  req_host :: "string option"
  req_cookies :: "string \<rightharpoonup> string"
  req_headers :: "string \<rightharpoonup> string"

datatype next_response =
  Redirect nat url "string \<rightharpoonup> string"
| Next "string \<rightharpoonup> string" "string \<rightharpoonup> string"

text \<open>\<open>URLSearchParams.get\<close> and \<open>set\<close>: the first value of a name; one value in its place.\<close>

definition params_get :: "(string \<times> string) list \<Rightarrow> string \<Rightarrow> string option" where
  "params_get ps k = map_of ps k"

fun params_set :: "string \<Rightarrow> string \<Rightarrow> (string \<times> string) list \<Rightarrow> (string \<times> string) list" where
  "params_set k v [] = [(k, v)]"
| "params_set k v ((k', v') # ps) =
     (if k' = k then (k, v) # filter (\<lambda>p. fst p \<noteq> k) ps else (k', v') # params_set k v ps)"

text \<open>
  Assigning \<open>url.host\<close>: the part before a colon becomes the host name, in lower case as every
  URL keeps it, and the part after it the port; without a colon the port stays.
\<close>

definition set_host :: "string \<Rightarrow> url \<Rightarrow> url" where
  "set_host h u =
     (case split_on (CHR '':'') h of
        [n] \<Rightarrow> u\<lparr>hostname := to_lower n\<rparr>
      | n # p # _ \<Rightarrow> u\<lparr>hostname := to_lower n, port := p\<rparr>
      | [] \<Rightarrow> u)"

definition csp_header :: "bool \<Rightarrow> string" where
  "csp_header enforce =
     (if enforce then ''Content-Security-Policy'' else ''Content-Security-Policy-Report-Only'')"

definition middleware ::
    "(string \<Rightarrow> string option) \<Rightarrow> env \<Rightarrow> nat list \<Rightarrow> next_request \<Rightarrow> next_response" where
  "middleware url_origin env bytes request =
     (let nonce = generateNonce bytes;
          enforce = (env ''NODE_ENV'' = Some ''production'');
          csp = buildContentSecurityPolicy url_origin nonce enforce env;
          cspHeader = csp_header enforce;
          path = pathname (req_url request);
          targetHost = resolveHostRedirect (req_host request) path (experienceHosts env)
      in case targetHost of
           Some h \<Rightarrow>
             Redirect 308 ((set_host h (req_url request))\<lparr>port := [], protocol := ''https:''\<rparr>)
               [cspHeader \<mapsto> csp]
         | None \<Rightarrow>
             (let redirectTarget =
                    (if inRedirectScope path
                     then resolveRoute path (truthy (req_cookies request ACCESS_COOKIE))
                     else None)
              in case redirectTarget of
                   Some t \<Rightarrow>
                     (let u = req_url request;
                          u' = (if t = ''/login'' \<and> \<not> truthy (params_get (search u) ''next'')
                                then u\<lparr>search := params_set ''next'' path (search u)\<rparr>
                                else u\<lparr>search := []\<rparr>)
                      in Redirect 307 (u'\<lparr>pathname := t\<rparr>) [cspHeader \<mapsto> csp])
                 | None \<Rightarrow>
                     Next ((req_headers request)(''x-nonce'' \<mapsto> nonce,
                                                 ''Content-Security-Policy'' \<mapsto> csp))
                       [cspHeader \<mapsto> csp]))"

section \<open>Lemmas on the path tests\<close>

lemmas path_lists =
  PROTECTED_PREFIXES_def AUTH_PAGES_def REDIRECT_SCOPE_def APP_PREFIXES_def

lemmas [route_simps] = path_lists under_def resolveRoute_def inRedirectScope_def
  experienceForPath_def Let_def

lemma under_login: "under p ''/login'' \<Longrightarrow> \<not> (\<exists>q \<in> set PROTECTED_PREFIXES. under p q)"
  by (auto simp: route_simps prefix_def)

lemma resolveRoute_targets:
  "resolveRoute p c = Some t \<Longrightarrow> (t = ''/login'' \<and> \<not> c) \<or> (t = ''/account'' \<and> c)"
  by (auto simp: resolveRoute_def Let_def split: if_splits)

lemma resolveRoute_target_stays: "resolveRoute p c = Some t \<Longrightarrow> resolveRoute t c = None"
  by (drule resolveRoute_targets) (auto simp: route_simps)

lemma directory_not_app:
  "starts_with p ''/experts'' \<Longrightarrow> experienceForPath p = Marketing \<and> \<not> inRedirectScope p"
  by (auto simp: route_simps prefix_def)

section \<open>Lemmas on hosts\<close>

lemma lower_char_idem [simp]: "lower_char (lower_char c) = lower_char c"
proof -
  have "of_char c < (256 :: nat)"
    by simp
  then have "of_char (char_of ((of_char c :: nat) + 32) :: char) = (of_char c :: nat) + 32"
    if "(of_char c :: nat) \<le> 222"
    using that by simp
  then show ?thesis
    by (auto simp: lower_char_def Let_def)
qed

lemma to_lower_idem [simp]: "to_lower (to_lower s) = to_lower s"
  by (simp add: to_lower_def)

lemma colon_to_lower [simp]: "CHR '':'' \<in> set (to_lower s) \<longleftrightarrow> CHR '':'' \<in> set s"
  by (auto simp: to_lower_def image_iff) (metis lower_char_colon)+

lemma bare_host_plain: "CHR '':'' \<notin> set h \<Longrightarrow> bare_host (to_lower h) = to_lower h"
  by (simp add: bare_host_def split_on_no_sep)

lemma resolveHostRedirect_Some:
  assumes "resolveHostRedirect host p hs = Some t"
  shows "host_of hs (experienceForPath p) = Some t" "t \<noteq> []" "truthy host"
    "to_lower t \<noteq> bare_host (the host)"
  using assms by (auto simp: resolveHostRedirect_def Let_def split: if_splits)

lemma resolveHostRedirect_fixed:
  assumes "host_of hs (experienceForPath p) = Some t" "CHR '':'' \<notin> set t"
  shows "resolveHostRedirect (Some (to_lower t)) p hs = None"
  using assms by (simp add: resolveHostRedirect_def Let_def bare_host_plain)

lemma under_portal_scope:
  "q \<in> set REDIRECT_SCOPE \<Longrightarrow> under p q \<Longrightarrow> \<not> starts_with p ''/portal''"
  by (auto simp: REDIRECT_SCOPE_def under_def prefix_def)

lemma experience_in_scope: "inRedirectScope p \<Longrightarrow> experienceForPath p = App"
proof -
  assume "inRedirectScope p"
  then obtain q where q: "q \<in> set REDIRECT_SCOPE" "under p q"
    by (auto simp: inRedirectScope_def)
  then have "\<not> starts_with p ''/portal''"
    by (rule under_portal_scope)
  then have "p \<noteq> ''/portal''" "\<not> starts_with p ''/portal/''"
    by (auto simp: prefix_def)
  moreover have "set REDIRECT_SCOPE \<subseteq> set APP_PREFIXES"
    by (simp add: REDIRECT_SCOPE_def APP_PREFIXES_def)
  ultimately show ?thesis
    using q by (auto simp: experienceForPath_def)
qed

lemma resolveHostRedirect_same_experience:
  "experienceForPath p = experienceForPath q \<Longrightarrow>
   resolveHostRedirect host p hs = resolveHostRedirect host q hs"
  by (simp add: resolveHostRedirect_def Let_def)

section \<open>Lemmas on the policy\<close>

lemma set_add_extras:
  "set (add_extras es ss) = set ss \<union> {trim e |e. e \<in> set es \<and> trim e \<noteq> []}"
  by (induction es arbitrary: ss) (auto simp: Let_def)

lemma distinct_add_extras: "distinct ss \<Longrightarrow> distinct (add_extras es ss)"
  by (induction es arbitrary: ss) (auto simp: Let_def)

lemma set_add_origins:
  "set (add_origins f rs ss) =
     set ss \<union> {w. w \<noteq> [] \<and> (\<exists>r \<in> set rs. toOrigin f r = Some w)}"
proof (induction rs arbitrary: ss)
  case (Cons r rs)
  show ?case
    by (cases "toOrigin f r") (auto simp: Let_def Cons.IH)
qed simp

lemma distinct_add_origins: "distinct ss \<Longrightarrow> distinct (add_origins f rs ss)"
  by (induction rs arbitrary: ss) (auto simp: Let_def)

lemma add_extras_Cons: "\<exists>ts. add_extras es (x # xs) = x # ts"
  by (induction es arbitrary: xs) (auto simp: Let_def add_uniq_def)

lemma add_origins_Cons: "\<exists>ts. add_origins f rs (x # xs) = x # ts"
  by (induction rs arbitrary: xs) (auto simp: Let_def add_uniq_def)

text \<open>
  Splitting a policy at its semicolons gives back the directives, as long as no directive
  contains one: the inverse of the join that \<open>buildContentSecurityPolicy\<close> ends with.
\<close>

fun strip_space :: "string \<Rightarrow> string" where
  "strip_space [] = []"
| "strip_space (c # cs) = (if c = CHR '' '' then cs else c # cs)"

definition parse_policy :: "string \<Rightarrow> string list" where
  "parse_policy s = map strip_space (split_on (CHR '';'') s)"

lemma split_join_policy:
  assumes "\<forall>d \<in> set (d0 # ds). CHR '';'' \<notin> set d"
  shows "split_on (CHR '';'') (join ''; '' (d0 # ds)) = d0 # map ((@) '' '') ds"
  using assms
proof (induction ds arbitrary: d0)
  case Nil
  then show ?case by (simp add: split_on_no_sep)
next
  case (Cons d ds)
  then have "split_on (CHR '';'') ('' '' @ join ''; '' (d # ds))
      = ('' '' @ d) # map ((@) '' '') ds"
    by (cases "split_on (CHR '';'') (join ''; '' (d # ds))") auto
  with Cons.prems show ?case
    by (simp add: split_on_append)
qed

lemma parse_policy_join:
  assumes "\<forall>d \<in> set ds. CHR '';'' \<notin> set d \<and> d \<noteq> [] \<and> hd d \<noteq> CHR '' ''" "ds \<noteq> []"
  shows "parse_policy (join ''; '' ds) = ds"
proof -
  obtain d0 ds' where ds: "ds = d0 # ds'"
    using assms(2) by (cases ds) auto
  have "strip_space d0 = d0"
    using assms(1) ds by (cases d0) auto
  moreover have "map strip_space (map ((@) '' '') ds') = ds'"
    by (simp add: map_idI)
  ultimately show ?thesis
    using assms(1) unfolding ds parse_policy_def by (subst split_join_policy) auto
qed

section \<open>Lemmas on base 64\<close>

definition base64_alphabet :: "char set" where
  "base64_alphabet =
     base64_char ` {0..<64} \<union> {CHR ''=''}"

definition is_byte :: "nat \<Rightarrow> bool" where
  "is_byte b \<longleftrightarrow> b < 256"

lemma base64_char_in [simp]: "n < 64 \<Longrightarrow> base64_char n \<in> base64_alphabet"
  by (simp add: base64_alphabet_def)

lemma base64_alphabet_eq:
  "base64_alphabet = set (map base64_char [0..<64]) \<union> {CHR ''=''}"
  by (simp add: base64_alphabet_def)

lemma base64_alphabet_safe:
  "c \<in> base64_alphabet \<Longrightarrow> c \<notin> set '' ;,'' \<and> c \<noteq> CHR 0x27"
proof -
  have "list_all (\<lambda>n. base64_char n \<notin> set '' ;,'' \<and> base64_char n \<noteq> CHR 0x27) [0..<64]"
    by code_simp
  then have "\<forall>n \<in> {0..<64}. base64_char n \<notin> set '' ;,'' \<and> base64_char n \<noteq> CHR 0x27"
    by (simp add: list_all_iff)
  then show "c \<in> base64_alphabet \<Longrightarrow> c \<notin> set '' ;,'' \<and> c \<noteq> CHR 0x27"
    unfolding base64_alphabet_def by auto
qed

lemma base64_char_inj: "m < 64 \<Longrightarrow> n < 64 \<Longrightarrow> base64_char m = base64_char n \<Longrightarrow> m = n"
proof -
  have "distinct (map base64_char [0..<64])"
    by code_simp
  then show "m < 64 \<Longrightarrow> n < 64 \<Longrightarrow> base64_char m = base64_char n \<Longrightarrow> m = n"
    by (simp add: distinct_map inj_on_def)
qed

lemma set_btoa: "list_all is_byte bs \<Longrightarrow> set (btoa bs) \<subseteq> base64_alphabet"
  by (induction bs rule: btoa.induct)
    (auto simp: is_byte_def base64_alphabet_def less_mult_imp_div_less)

lemma length_btoa: "length (btoa bs) = 4 * ((length bs + 2) div 3)"
proof (induction bs rule: btoa.induct)
  case (4 a b c rest)
  have "(length (a # b # c # rest) + 2) div 3 = Suc ((length rest + 2) div 3)"
    by simp
  with 4 show ?case by simp
qed simp_all

section \<open>Lemmas on the handler\<close>

lemma middleware_host:
  "resolveHostRedirect (req_host r) (pathname (req_url r)) (experienceHosts env) = Some t \<Longrightarrow>
   middleware uo env bs r =
     Redirect 308 ((set_host t (req_url r))\<lparr>port := [], protocol := ''https:''\<rparr>)
       [csp_header (env ''NODE_ENV'' = Some ''production'') \<mapsto>
          buildContentSecurityPolicy uo (generateNonce bs) (env ''NODE_ENV'' = Some ''production'') env]"
  by (simp add: middleware_def Let_def)

lemma middleware_308D:
  assumes "middleware uo env bs r = Redirect 308 u h"
  obtains t where
    "resolveHostRedirect (req_host r) (pathname (req_url r)) (experienceHosts env) = Some t"
    "u = (set_host t (req_url r))\<lparr>port := [], protocol := ''https:''\<rparr>"
  using assms by (auto simp: middleware_def Let_def split: option.splits if_splits)

lemma middleware_307D:
  assumes "middleware uo env bs r = Redirect 307 u h"
  shows "resolveHostRedirect (req_host r) (pathname (req_url r)) (experienceHosts env) = None"
    and "inRedirectScope (pathname (req_url r))"
    and "resolveRoute (pathname (req_url r)) (truthy (req_cookies r ACCESS_COOKIE)) =
           Some (pathname u)"
  using assms by (auto simp: middleware_def Let_def split: option.splits if_splits)

lemma set_host_pathname [simp]: "pathname (set_host t u) = pathname u"
  by (auto simp: set_host_def split: list.splits)

lemma set_host_plain:
  "CHR '':'' \<notin> set t \<Longrightarrow> hostname (set_host t u) = to_lower t"
  by (simp add: set_host_def split_on_no_sep)

lemma targets_in_scope: "resolveRoute p c = Some t \<Longrightarrow> inRedirectScope t"
  by (drule resolveRoute_targets) (auto simp: inRedirectScope_def REDIRECT_SCOPE_def under_def)

lemma host_of_experienceHosts:
  "host_of (experienceHosts env) e = Some t \<Longrightarrow>
   \<exists>k. env k = Some t \<and> k \<in> {''NEXT_PUBLIC_MARKETING_HOST'', ''NEXT_PUBLIC_APP_HOST'',
                              ''NEXT_PUBLIC_PORTAL_HOST''}"
  by (cases e) (auto simp: experienceHosts_def env_set_def split: if_splits)

text \<open>The values the operator writes into the policy hold no directive separator.\<close>

definition env_no_semicolon :: "(string \<Rightarrow> string option) \<Rightarrow> env \<Rightarrow> bool" where
  "env_no_semicolon uo env \<longleftrightarrow>
     (\<forall>s \<in> set (connectSources uo env) \<union> set (imageSources env). CHR '';'' \<notin> set s)"

lemma join_no_semicolon:
  "\<forall>s \<in> set ss. CHR '';'' \<notin> set s \<Longrightarrow> CHR '';'' \<notin> set (join '' '' ss)"
  using set_join [of "'' ''" ss] by auto

lemma nonce_safe:
  "list_all is_byte bs \<Longrightarrow> c \<in> set (generateNonce bs) \<Longrightarrow> c \<notin> set '' ;,'' \<and> c \<noteq> CHR 0x27"
  unfolding generateNonce_def using set_btoa base64_alphabet_safe by blast

lemma parse_built_policy:
  assumes "list_all is_byte bs" "env_no_semicolon uo env"
  shows "parse_policy (buildContentSecurityPolicy uo (generateNonce bs) enforce env)
           = policy_directives uo (generateNonce bs) enforce env"
proof -
  have n: "CHR '';'' \<notin> set (generateNonce bs)"
    using nonce_safe [OF assms(1), of "CHR '';''"] by auto
  have "CHR '';'' \<notin> set (join '' '' (imageSources env))"
    "CHR '';'' \<notin> set (join '' '' (connectSources uo env))"
    using assms(2) by (auto simp: env_no_semicolon_def intro!: join_no_semicolon)
  with n show ?thesis
    unfolding buildContentSecurityPolicy_def
    by (intro parse_policy_join) (auto simp: policy_directives_def scriptSrc_def quoted_def)
qed

section \<open>Properties\<close>

text \<open>
  C1: an authentication redirect settles in one hop. The request a browser makes after the
  middleware sent it to \<open>/login\<close> or \<open>/account\<close>, on the same host with the same access
  cookie, is passed through: there is no redirect loop between the two pages, and the host
  mapping does not move the redirected request either.
\<close>

theorem auth_redirect_settles:
  assumes "middleware uo env bs r = Redirect 307 u h"
    and "req_url r' = u" "req_host r' = req_host r"
    and "req_cookies r' ACCESS_COOKIE = req_cookies r ACCESS_COOKIE"
  shows "\<exists>rq rs. middleware uo env bs' r' = Next rq rs"
proof -
  note d = middleware_307D [OF assms(1)]
  have "experienceForPath (pathname u) = experienceForPath (pathname (req_url r))"
    using d(2) targets_in_scope [OF d(3)] by (simp add: experience_in_scope)
  then have "resolveHostRedirect (req_host r) (pathname u) (experienceHosts env) = None"
    using d(1) resolveHostRedirect_same_experience by metis
  moreover have "resolveRoute (pathname u) (truthy (req_cookies r ACCESS_COOKIE)) = None"
    using d(3) by (rule resolveRoute_target_stays)
  ultimately show ?thesis
    using assms(2-4) by (simp add: middleware_def Let_def)
qed

definition plain_env :: env where
  "plain_env = Map.empty"

lemma plain_env_apply [simp]: "plain_env k = None"
  by (simp add: plain_env_def)

definition request_at :: "string \<Rightarrow> string option \<Rightarrow> next_request" where
  "request_at path cookie =
     \<lparr>req_url = \<lparr>protocol = ''http:'', hostname = ''localhost'', port = ''3000'',
                 pathname = path, search = []\<rparr>,
      req_host = Some ''localhost:3000'',
      req_cookies = (\<lambda>k. if k = ACCESS_COOKIE then cookie else None),
      req_headers = Map.empty\<rparr>"

lemma experienceHosts_plain: "experienceHosts plain_env = \<lparr>marketing = None, app = None, portal = None\<rparr>"
  by (simp add: experienceHosts_def env_set_def)

lemma host_plain: "resolveHostRedirect h p (experienceHosts plain_env) = None"
  by (simp add: experienceHosts_plain resolveHostRedirect_def configured_hosts_def List.map_filter_def)

theorem auth_redirect_settles_witness:
  "\<exists>rq rs. middleware (\<lambda>_. None) plain_env []
     ((request_at ''/account/x'' None)
        \<lparr>req_url := \<lparr>protocol = ''http:'', hostname = ''localhost'', port = ''3000'',
           pathname = ''/login'', search = [(''next'', ''/account/x'')]\<rparr>\<rparr>) = Next rq rs"
  by (rule auth_redirect_settles
        [where r = "request_at ''/account/x'' None" and bs = "[]" and
          u = "\<lparr>protocol = ''http:'', hostname = ''localhost'', port = ''3000'',
           pathname = ''/login'', search = [(''next'', ''/account/x'')]\<rparr>" and
          h = "[csp_header False \<mapsto> buildContentSecurityPolicy (\<lambda>_. None) [] False plain_env]"])
    (simp_all add: middleware_def Let_def host_plain request_at_def route_simps params_get_def
      generateNonce_def)

text \<open>
  C2: a host redirect settles in one hop and keeps the path. When every configured host is a
  plain name, without a port, the request that follows a 308 to the expected host is not sent
  to another host again; the scheme is https and the port is dropped.
\<close>

theorem host_redirect_settles:
  assumes "middleware uo env bs r = Redirect 308 u h"
    and plain: "\<And>k t. k \<in> {''NEXT_PUBLIC_MARKETING_HOST'', ''NEXT_PUBLIC_APP_HOST'',
                  ''NEXT_PUBLIC_PORTAL_HOST''} \<Longrightarrow> env k = Some t \<Longrightarrow> CHR '':'' \<notin> set t"
    and "req_url r' = u" "req_host r' = Some (hostname u)"
  shows "pathname u = pathname (req_url r) \<and> protocol u = ''https:'' \<and> port u = [] \<and>
    (\<forall>u2 h2. middleware uo env bs' r' \<noteq> Redirect 308 u2 h2)"
proof -
  obtain t where t: "resolveHostRedirect (req_host r) (pathname (req_url r)) (experienceHosts env) = Some t"
    and u: "u = (set_host t (req_url r))\<lparr>port := [], protocol := ''https:''\<rparr>"
    using assms(1) by (rule middleware_308D)
  have path: "pathname u = pathname (req_url r)" "protocol u = ''https:''" "port u = []"
    by (simp_all add: u)
  have host: "host_of (experienceHosts env) (experienceForPath (pathname u)) = Some t"
    using resolveHostRedirect_Some(1) [OF t] by (simp add: path)
  have colon: "CHR '':'' \<notin> set t"
    using host_of_experienceHosts [OF host] plain by blast
  have "hostname u = to_lower t"
    using colon by (simp add: u set_host_plain)
  then have "resolveHostRedirect (req_host r') (pathname (req_url r')) (experienceHosts env) = None"
    using assms(3,4) resolveHostRedirect_fixed [OF host colon] by simp
  then have "\<forall>u2 h2. middleware uo env bs' r' \<noteq> Redirect 308 u2 h2"
    by (auto elim: middleware_308D)
  with path show ?thesis by blast
qed

definition host_env :: env where
  "host_env =
     [''NEXT_PUBLIC_MARKETING_HOST'' \<mapsto> ''www.hem.io'', ''NEXT_PUBLIC_APP_HOST'' \<mapsto> ''app.hem.io'',
      ''NEXT_PUBLIC_PORTAL_HOST'' \<mapsto> ''admin.hem.io'']"

definition www_request :: next_request where
  "www_request =
     \<lparr>req_url = \<lparr>protocol = ''http:'', hostname = ''www.hem.io'', port = ''80'',
                 pathname = ''/portal/users'', search = []\<rparr>,
      req_host = Some ''WWW.hem.io:80'', req_cookies = Map.empty, req_headers = Map.empty\<rparr>"

lemma www_target:
  "resolveHostRedirect (req_host www_request) (pathname (req_url www_request))
     (experienceHosts host_env) = Some ''admin.hem.io''"
  by code_simp

theorem host_redirect_settles_witness:
  "\<exists>u h. middleware (\<lambda>_. None) host_env [] www_request = Redirect 308 u h \<and>
     pathname u = ''/portal/users'' \<and> protocol u = ''https:'' \<and>
     (\<forall>u2 h2. middleware (\<lambda>_. None) host_env []
        (www_request\<lparr>req_url := u, req_host := Some (hostname u)\<rparr>) \<noteq> Redirect 308 u2 h2)"
proof -
  obtain u h where m: "middleware (\<lambda>_. None) host_env [] www_request = Redirect 308 u h"
    using middleware_host [OF www_target] by blast
  have "pathname u = pathname (req_url www_request) \<and> protocol u = ''https:'' \<and> port u = [] \<and>
    (\<forall>u2 h2. middleware (\<lambda>_. None) host_env []
        (www_request\<lparr>req_url := u, req_host := Some (hostname u)\<rparr>) \<noteq> Redirect 308 u2 h2)"
    by (rule host_redirect_settles [OF m]) (auto simp: host_env_def)
  with m show ?thesis
    by (auto simp: www_request_def)
qed

text \<open>
  C3: in production every response carries the enforcing policy, and that policy, read back by
  splitting at its semicolons, has one script directive whose sources are the page itself, the
  response's own nonce and \<open>strict-dynamic\<close>: no inline script and no \<open>eval\<close> is allowed. The
  nonce handed to the renderer and the one in the policy are the same. The random bytes cannot
  break out of the directive; the operator's extra sources are assumed to hold no semicolon.
\<close>

theorem production_csp_strict:
  assumes "env ''NODE_ENV'' = Some ''production''" "list_all is_byte bs" "env_no_semicolon uo env"
  shows "\<exists>csp. parse_policy csp = policy_directives uo (generateNonce bs) True env \<and>
     filter (\<lambda>d. starts_with d ''script-src '') (parse_policy csp) =
       [''script-src '' @ quoted ''self'' @ '' '' @ quoted (''nonce-'' @ generateNonce bs) @ '' ''
          @ quoted ''strict-dynamic''] \<and>
     (case middleware uo env bs r of
        Redirect st u rs \<Rightarrow> rs = [''Content-Security-Policy'' \<mapsto> csp]
      | Next rq rs \<Rightarrow> rs = [''Content-Security-Policy'' \<mapsto> csp]
          \<and> rq ''Content-Security-Policy'' = Some csp
          \<and> rq ''x-nonce'' = Some (generateNonce bs))"
proof (intro exI conjI)
  let ?csp = "buildContentSecurityPolicy uo (generateNonce bs) True env"
  show p: "parse_policy ?csp = policy_directives uo (generateNonce bs) True env"
    using assms(2,3) by (rule parse_built_policy)
  show "filter (\<lambda>d. starts_with d ''script-src '') (parse_policy ?csp) =
       [''script-src '' @ quoted ''self'' @ '' '' @ quoted (''nonce-'' @ generateNonce bs) @ '' ''
          @ quoted ''strict-dynamic'']"
    unfolding p by (simp add: policy_directives_def scriptSrc_def)
  show "case middleware uo env bs r of
        Redirect st u rs \<Rightarrow> rs = [''Content-Security-Policy'' \<mapsto> ?csp]
      | Next rq rs \<Rightarrow> rs = [''Content-Security-Policy'' \<mapsto> ?csp]
          \<and> rq ''Content-Security-Policy'' = Some ?csp \<and> rq ''x-nonce'' = Some (generateNonce bs)"
    using assms(1)
    by (simp add: middleware_def Let_def csp_header_def split: option.split)
qed

definition prod_env :: env where
  "prod_env = [''NODE_ENV'' \<mapsto> ''production'', ''NEXT_PUBLIC_API_URL'' \<mapsto> ''https://api.hem.io/v1/'',
     ''NEXT_PUBLIC_CSP_CONNECT_EXTRA'' \<mapsto> ''https://a.io, https://b.io'']"

definition demo_origin :: "string \<Rightarrow> string option" where
  "demo_origin v = (if v = ''https://api.hem.io/v1/'' then Some ''https://api.hem.io'' else None)"

lemma prod_sources:
  "connectSources demo_origin prod_env =
     [quoted ''self'', ''https://api.hem.io'', ''https://a.io'', ''https://b.io'']"
  "imageSources prod_env = [quoted ''self'', ''data:'', ''blob:'']"
  by code_simp+

theorem production_csp_strict_witness:
  "filter (\<lambda>d. starts_with d ''script-src '')
     (parse_policy (buildContentSecurityPolicy demo_origin (generateNonce [0, 16, 255]) True prod_env))
   = [''script-src '' @ quoted ''self'' @ '' '' @ quoted ''nonce-ABD/'' @ '' '' @ quoted ''strict-dynamic'']"
proof -
  have nonce: "generateNonce [0, 16, 255] = ''ABD/''"
    by code_simp
  have "env_no_semicolon demo_origin prod_env"
    unfolding env_no_semicolon_def prod_sources by (simp add: quoted_def)
  then have "\<exists>csp. parse_policy csp = policy_directives demo_origin (generateNonce [0, 16, 255]) True prod_env
     \<and> filter (\<lambda>d. starts_with d ''script-src '') (parse_policy csp) =
       [''script-src '' @ quoted ''self'' @ '' '' @ quoted (''nonce-'' @ generateNonce [0, 16, 255]) @ '' ''
          @ quoted ''strict-dynamic'']"
    using production_csp_strict [of prod_env "[0, 16, 255]" demo_origin www_request]
    by (auto simp: prod_env_def is_byte_def)
  then show ?thesis
    using parse_built_policy [of "[0, 16, 255]" demo_origin prod_env True]
      \<open>env_no_semicolon demo_origin prod_env\<close> nonce by (auto simp: is_byte_def)
qed

end
