(* ===== verification/Discovery.thy ===== *)
theory Discovery
  imports Middleware Reviews
begin

text \<open>
  What the site tells search engines and visitors without an account: the sitemap \<open>app/sitemap.ts\<close> with
  its crawl of the directory, the crawler's rules \<open>app/robots.ts\<close>, the pages of subjects and experts under
  \<open>app/(marketing)\<close> with their metadata.

  The sitemap's \<open>fetch\<close> is a server: it answers an address and may change its world. The platform's parser of
  addresses is the parameter \<open>url_params\<close>: the parameters of the query, or \<open>None\<close> where \<open>new URL\<close> throws. The
  casts of the payloads are parameters too.
\<close>

section \<open>The sitemap\<close>

definition MAX_PAGES :: nat where "MAX_PAGES = 25"
definition PAGE_SIZE :: nat where "PAGE_SIZE = 100"

record listed_expert =
  le_slug :: string
  le_approved :: "string option"

record directory_page =
  dp_results :: "listed_expert list option"
  dp_next :: "string option"

record listed_subject =
  ls_slug :: string
  ls_name :: string
  ls_count :: nat

datatype frequency = Daily | Weekly | Monthly | Yearly

text \<open>When an entry was modified: at the time of the request, or at a date of the payload.\<close>

datatype modified = Now | At string

record sitemap_entry =
  sm_url :: string
  sm_modified :: modified
  sm_frequency :: frequency
  sm_priority :: rat

definition STATIC_ROUTES :: "(string \<times> frequency \<times> rat) list" where
  "STATIC_ROUTES =
     [([], Weekly, 1), (''/how-it-works'', Monthly, 8 / 10), (''/pricing'', Monthly, 8 / 10), (''/experts'', Daily, 7 / 10),
      (''/subjects'', Weekly, 7 / 10), (''/for-experts'', Monthly, 8 / 10), (''/about'', Yearly, 5 / 10),
      (''/terms'', Yearly, 3 / 10), (''/privacy'', Yearly, 3 / 10), (''/academic-integrity'', Yearly, 3 / 10)]"

type_synonym 'w web = "string \<Rightarrow> 'w \<Rightarrow> outcome \<times> 'w"

definition directory_url :: "env \<Rightarrow> string" where
  "directory_url env = API_URL_SERVER env @ ''/api/v1/experts?page_size='' @ show_nat PAGE_SIZE"

text \<open>The address of the next page: only the cursor of the server's own address is taken over.\<close>

definition next_url :: "(string \<Rightarrow> (string \<times> string) list option) \<Rightarrow> env \<Rightarrow> string option \<Rightarrow> failure + string option" where
  "next_url url_params env nxt =
     (if \<not> truthy nxt then Inr None
      else (case url_params (the nxt) of
              None \<Rightarrow> Inl (JsError ''TypeError: Invalid URL'')
            | Some ps \<Rightarrow>
                let cursor = params_get ps ''cursor''
                in Inr (if truthy cursor then Some (directory_url env @ ''&cursor='' @ encodeURIComponent (the cursor)) else None)))"

text \<open>The loop over the pages; the number counts those that may still be fetched.\<close>

fun crawl :: "'w web \<Rightarrow> (json \<Rightarrow> directory_page) \<Rightarrow> (string \<Rightarrow> (string \<times> string) list option) \<Rightarrow> env \<Rightarrow> nat
    \<Rightarrow> string option \<Rightarrow> listed_expert list \<Rightarrow> 'w \<Rightarrow> (failure + listed_expert list) \<times> 'w" where
  "crawl web page_of url_params env 0 url experts w = (Inr experts, w)"
| "crawl web page_of url_params env (Suc n) None experts w = (Inr experts, w)"
| "crawl web page_of url_params env (Suc n) (Some url) experts w =
     (case web url w of
        (Rejected m, w') \<Rightarrow> (Inl (JsError m), w')
      | (Response r, w') \<Rightarrow>
          if \<not> res_ok r then (Inr experts, w')
          else (case res_json r of
                  None \<Rightarrow> (Inl (JsError ''SyntaxError''), w')
                | Some v \<Rightarrow>
                    let body = page_of v;
                        found = experts @ filter (\<lambda>x. le_slug x \<noteq> []) (nullish (dp_results body) [])
                    in case next_url url_params env (dp_next body) of
                         Inl e \<Rightarrow> (Inl e, w')
                       | Inr u \<Rightarrow> crawl web page_of url_params env n u found w'))"

definition fetchExperts where
  "fetchExperts web page_of url_params env w =
     crawl web page_of url_params env MAX_PAGES (Some (directory_url env)) [] w"

definition fetchSubjects ::
    "'w web \<Rightarrow> (json \<Rightarrow> listed_subject list option) \<Rightarrow> env \<Rightarrow> 'w \<Rightarrow> (failure + listed_subject list) \<times> 'w" where
  "fetchSubjects web subjects_of env w =
     (case web (API_URL_SERVER env @ ''/api/v1/subjects'') w of
        (Rejected m, w') \<Rightarrow> (Inl (JsError m), w')
      | (Response r, w') \<Rightarrow>
          if \<not> res_ok r then (Inr [], w')
          else (case res_json r of
                  None \<Rightarrow> (Inl (JsError ''SyntaxError''), w')
                | Some v \<Rightarrow> (Inr (nullish (subjects_of v) []), w')))"

definition static_entry :: "env \<Rightarrow> string \<times> frequency \<times> rat \<Rightarrow> sitemap_entry" where
  "static_entry env r =
     (case r of (path, freq, prio) \<Rightarrow>
        \<lparr>sm_url = SITE_URL env @ path, sm_modified = Now, sm_frequency = freq, sm_priority = prio\<rparr>)"

definition expert_entry :: "env \<Rightarrow> listed_expert \<Rightarrow> sitemap_entry" where
  "expert_entry env x =
     \<lparr>sm_url = SITE_URL env @ ''/experts/'' @ le_slug x,
      sm_modified = (if truthy (le_approved x) then At (the (le_approved x)) else Now),
      sm_frequency = Weekly, sm_priority = 6 / 10\<rparr>"

definition subject_entry :: "env \<Rightarrow> listed_subject \<Rightarrow> sitemap_entry" where
  "subject_entry env s =
     \<lparr>sm_url = SITE_URL env @ ''/subjects/'' @ ls_slug s, sm_modified = Now, sm_frequency = Weekly, sm_priority = 7 / 10\<rparr>"

text \<open>The two lists are fetched in turn; one that throws is left out.\<close>

definition sitemap where
  "sitemap web page_of subjects_of url_params env w =
     (case fetchExperts web page_of url_params env w of
        (re, w1) \<Rightarrow>
          (case fetchSubjects web subjects_of env w1 of
             (rs, w2) \<Rightarrow>
               (map (static_entry env) STATIC_ROUTES
                @ (case rs of Inl e \<Rightarrow> [] | Inr ss \<Rightarrow> map (subject_entry env) (filter (\<lambda>s. 0 < ls_count s) ss))
                @ (case re of Inl e \<Rightarrow> [] | Inr xs \<Rightarrow> map (expert_entry env) xs), w2)))"

section \<open>The crawler's rules\<close>

definition DISALLOW :: "string list" where
  "DISALLOW =
     [''/api/'', ''/account'', ''/assignments'', ''/expert/'', ''/messages'', ''/offers'', ''/onboarding/'', ''/opportunities'',
      ''/orders'', ''/requests'', ''/portal'', ''/login'', ''/register'', ''/reset-password'', ''/verify-email'']"

record robots_rules =
  rb_agent :: string
  rb_allow :: string
  rb_disallow :: "string list"
  rb_sitemap :: string
  rb_host :: string

definition robots :: "env \<Rightarrow> robots_rules" where
  "robots env =
     \<lparr>rb_agent = ''*'', rb_allow = ''/'', rb_disallow = DISALLOW, rb_sitemap = SITE_URL env @ ''/sitemap.xml'',
      rb_host = SITE_URL env\<rparr>"

text \<open>How a crawler reads the rules: the longest one that begins the path decides.\<close>

definition crawlable :: "robots_rules \<Rightarrow> string \<Rightarrow> bool" where
  "crawlable rb path \<longleftrightarrow>
     list_all (\<lambda>d. starts_with path d \<longrightarrow> starts_with path (rb_allow rb) \<and> length d \<le> length (rb_allow rb)) (rb_disallow rb)"

section \<open>Lemmas\<close>

definition web_log :: "'w web \<Rightarrow> ('w \<times> string list) web" where
  "web_log web url wl = (case web url (fst wl) of (r, w') \<Rightarrow> (r, w', snd wl @ [url]))"

text \<open>An address of the directory: the first page, or a cursor on it, which holds no delimiter.\<close>

definition directory_address :: "env \<Rightarrow> string \<Rightarrow> bool" where
  "directory_address env url \<longleftrightarrow>
     (let rest = drop (length (directory_url env)) url
      in starts_with url (directory_url env) \<and>
         (rest = [] \<or> (starts_with rest ''&cursor='' \<and> set (drop 8 rest) \<inter> set ''/?&#='' = {})))"

lemma directory_addresses:
  "directory_address env (directory_url env)"
  "next_url url_params env nxt = Inr (Some u) \<Longrightarrow> directory_address env u"
proof -
  show "directory_address env (directory_url env)" by (simp add: directory_address_def)
  assume "next_url url_params env nxt = Inr (Some u)"
  then obtain c where "u = directory_url env @ ''&cursor='' @ encodeURIComponent c"
    by (auto simp: next_url_def Let_def split: if_splits option.splits)
  then show "directory_address env u"
    using encodeURIComponent_plain [of c] by (simp add: directory_address_def Let_def)
qed

lemma crawl_log:
  assumes "url = None \<or> directory_address env (the url)"
  shows "\<exists>us. snd (snd (crawl (web_log web) page_of url_params env n url xs wl)) = snd wl @ us \<and> length us \<le> n
    \<and> list_all (directory_address env) us"
  using assms
proof (induction n arbitrary: url xs wl)
  case (Suc n)
  show ?case
  proof (cases url)
    case None
    then show ?thesis by simp
  next
    case (Some u)
    obtain r w' where r: "web u (fst wl) = (r, w')" by (meson surj_pair)
    then have wr: "web_log web u wl = (r, w', snd wl @ [u])" by (simp add: web_log_def)
    have u: "directory_address env u" using Suc.prems Some by simp
    show ?thesis
    proof (cases "\<exists>q v nxt. r = Response q \<and> res_ok q \<and> res_json q = Some v \<and> next_url url_params env (dp_next (page_of v)) = Inr nxt")
      case True
      then obtain q v nxt where q: "r = Response q" "res_ok q" "res_json q = Some v"
        "next_url url_params env (dp_next (page_of v)) = Inr nxt" by blast
      have "nxt = None \<or> directory_address env (the nxt)"
        using q(4) directory_addresses(2) by (cases nxt) auto
      from Suc.IH [OF this, of "xs @ filter (\<lambda>x. le_slug x \<noteq> []) (nullish (dp_results (page_of v)) [])" "(w', snd wl @ [u])"]
      obtain us where us: "snd (snd (crawl (web_log web) page_of url_params env n nxt
          (xs @ filter (\<lambda>x. le_slug x \<noteq> []) (nullish (dp_results (page_of v)) [])) (w', snd wl @ [u]))) = snd wl @ [u] @ us"
        "length us \<le> n" "list_all (directory_address env) us" by auto
      show ?thesis
        using us u q wr by (intro exI [of _ "u # us"]) (simp add: Some Let_def)
    next
      case False
      then show ?thesis
        using u wr by (intro exI [of _ "[u]"]) (auto simp: Some Let_def split: outcome.splits option.splits sum.splits)
    qed
  qed
qed simp

lemma subjects_log:
  "snd (snd (fetchSubjects (web_log web) subjects_of env wl)) = snd wl @ [API_URL_SERVER env @ ''/api/v1/subjects'']"
  by (auto simp: fetchSubjects_def web_log_def split: prod.splits outcome.splits option.splits)

lemma slug_path_open:
  "crawlable (robots env) (''/experts/'' @ s)" "crawlable (robots env) (''/subjects/'' @ s)"
  "resolveRoute (''/experts/'' @ s) has = None" "resolveRoute (''/subjects/'' @ s) has = None"
  "experienceForPath (''/experts/'' @ s) = Marketing" "experienceForPath (''/subjects/'' @ s) = Marketing"
  by (simp_all add: crawlable_def robots_def DISALLOW_def resolveRoute_def under_def PROTECTED_PREFIXES_def AUTH_PAGES_def
      experienceForPath_def APP_PREFIXES_def)

lemma static_path_open:
  "list_all (\<lambda>(path, f, q). (path = [] \<or> crawlable (robots Map.empty) path) \<and> resolveRoute path False = None \<and>
     resolveRoute path True = None \<and> experienceForPath path = Marketing) STATIC_ROUTES"
  by code_simp

definition open_path :: "env \<Rightarrow> string \<Rightarrow> bool" where
  "open_path env path \<longleftrightarrow>
     (path = [] \<or> crawlable (robots env) path) \<and> resolveRoute path False = None \<and> resolveRoute path True = None \<and>
     experienceForPath path = Marketing"

lemma entries_open:
  "list_all (\<lambda>e. starts_with (sm_url e) (SITE_URL env) \<and> open_path env (drop (length (SITE_URL env)) (sm_url e)))
     (fst (sitemap web page_of subjects_of url_params env w))"
proof -
  have "crawlable (robots env) path = crawlable (robots Map.empty) path" for path by (simp add: crawlable_def robots_def)
  then have "list_all (\<lambda>e. starts_with (sm_url e) (SITE_URL env) \<and> open_path env (drop (length (SITE_URL env)) (sm_url e)))
      (map (static_entry env) STATIC_ROUTES)"
    using static_path_open by (auto simp: list_all_iff static_entry_def open_path_def)
  then show ?thesis
    by (auto simp: sitemap_def list_all_iff expert_entry_def subject_entry_def open_path_def slug_path_open [simplified append_Cons append_Nil]
        split: prod.split sum.split)
qed

text \<open>Every protected prefix is a rule, or is one with a slash after it.\<close>

lemma protected_closed:
  assumes "resolveRoute path False \<noteq> None"
  shows "\<not> crawlable (robots env) path \<or> path = ''/expert'' \<or> path = ''/onboarding''"
proof -
  have rules: "list_all (\<lambda>d. 1 < length d) DISALLOW"
    "list_all (\<lambda>p. p \<in> set DISALLOW \<or> ((p = ''/expert'' \<or> p = ''/onboarding'') \<and> p @ ''/'' \<in> set DISALLOW)) PROTECTED_PREFIXES"
    by code_simp+
  have closed: "\<not> crawlable (robots env) path" if "d \<in> set DISALLOW" "prefix d path" for d
  proof -
    have "1 < length d" using that(1) rules(1) by (simp add: list_all_iff)
    then show ?thesis using that by (auto simp: crawlable_def robots_def list_all_iff intro!: bexI [of _ d])
  qed
  from assms obtain p where p: "p \<in> set PROTECTED_PREFIXES" "under path p"
    by (auto simp: resolveRoute_def Let_def split: if_splits)
  from p(1) rules(2) have "p \<in> set DISALLOW \<or> ((p = ''/expert'' \<or> p = ''/onboarding'') \<and> p @ ''/'' \<in> set DISALLOW)"
    by (auto simp: list_all_iff)
  then show ?thesis
  proof
    assume "p \<in> set DISALLOW"
    moreover have "prefix p path" using p(2) by (auto simp: under_def dest: append_prefixD)
    ultimately show ?thesis using closed by blast
  next
    assume "(p = ''/expert'' \<or> p = ''/onboarding'') \<and> p @ ''/'' \<in> set DISALLOW"
    then show ?thesis using p(2) closed by (auto simp: under_def)
  qed
qed

section \<open>Properties\<close>

text \<open>
  C38: the crawl behind the sitemap stays on the API's host and ends. Whatever the server answers, also when the
  address it gives for the next page points elsewhere, every request of the sitemap goes to the directory of the
  configured API, its first page or a cursor on it, except the last, which is the list of subjects; and there are at most
  twenty-six of them.
\<close>

theorem sitemap_crawl_bounded:
  "\<exists>us. snd (snd (sitemap (web_log web) page_of subjects_of url_params env wl)) =
      snd wl @ us @ [API_URL_SERVER env @ ''/api/v1/subjects''] \<and>
    length us \<le> 25 \<and> list_all (directory_address env) us"
proof -
  obtain re w1 where re: "fetchExperts (web_log web) page_of url_params env wl = (re, w1)" by (meson surj_pair)
  obtain us where us: "snd w1 = snd wl @ us" "length us \<le> MAX_PAGES" "list_all (directory_address env) us"
    using crawl_log [of "Some (directory_url env)" env web page_of url_params MAX_PAGES "[]" wl] re
    by (auto simp: fetchExperts_def directory_addresses(1))
  obtain rs w2 where rs: "fetchSubjects (web_log web) subjects_of env w1 = (rs, w2)" by (meson surj_pair)
  have "snd w2 = snd w1 @ [API_URL_SERVER env @ ''/api/v1/subjects'']"
    using subjects_log [of web subjects_of env w1] rs by simp
  then show ?thesis
    using us by (intro exI [of _ us]) (simp add: sitemap_def re rs MAX_PAGES_def)
qed

text \<open>
  C39: what the site advertises, the crawler's rules and the edge agree. Every entry of the sitemap is an address of the
  site whose path the rules let a crawler fetch, that the edge serves without a session and does not redirect with
  one, and that belongs to the marketing site, whatever the slugs; conversely, every path that the edge protects is closed
  to crawlers, but for the two bare paths /expert and /onboarding, which are no pages.
\<close>

theorem sitemap_indexable:
  "list_all (\<lambda>e. starts_with (sm_url e) (SITE_URL env) \<and> open_path env (drop (length (SITE_URL env)) (sm_url e)))
     (fst (sitemap web page_of subjects_of url_params env w)) \<and>
   (crawlable (robots env) path = False \<or> resolveRoute path False = None \<or> path = ''/expert'' \<or> path = ''/onboarding'')"
proof
  show "crawlable (robots env) path = False \<or> resolveRoute path False = None \<or> path = ''/expert'' \<or> path = ''/onboarding''"
    using protected_closed [of path env] by blast
qed (rule entries_open)

end
