(* ===== verification/Auth.thy ===== *)
theory Auth
  imports Session Forms
begin

text \<open>
  The pages of \<open>app/(auth)\<close>: signing in, registering, verifying the email and resetting the password.
  Each page is a machine whose events are the user's and the answers; \<open>\<dots>_call\<close> is the request an event
  sends. The two pages under \<open>expert\<close> are empty files.
\<close>

section \<open>Signing in\<close>

text \<open>\<open>res?.user?.roles?.expert\<close>: a property of nothing is nothing.\<close>

fun get_path :: "json option \<Rightarrow> string list \<Rightarrow> json option" where
  "get_path v [] = v"
| "get_path None (k # ks) = None"
| "get_path (Some v) (k # ks) = get_path (get_field v k) ks"

text \<open>A run of \<open>onSubmit\<close>, with the address the closure holds: its login, or the refresh after it.\<close>

datatype login_run = Asking_login string | Refreshing string json

record login_page =
  li_email :: string
  li_password :: string
  li_show :: bool
  li_remember :: bool
  li_error :: "string option"
  li_submitting :: bool
  li_shake :: bool
  li_run :: "login_run option"
  li_writable :: bool                     \<comment> \<open>whether the browser lets \<open>localStorage\<close> be written\<close>
  li_role_mode :: "string option"          \<comment> \<open>the stored role, also a cookie\<close>
  li_pushed :: "string option"             \<comment> \<open>the page routed to\<close>

definition login_init :: "bool \<Rightarrow> string option \<Rightarrow> login_page" where
  "login_init writable mode =
     \<lparr>li_email = [], li_password = [], li_show = False, li_remember = True, li_error = None,
      li_submitting = False, li_shake = False, li_run = None, li_writable = writable, li_role_mode = mode, li_pushed = None\<rparr>"

text \<open>The role is written in a \<open>try\<close> without a handler: a store that throws keeps what it had, and the cookie too.\<close>

definition remember_mode :: "string \<Rightarrow> login_page \<Rightarrow> string option" where
  "remember_mode mode p = (if li_writable p then Some mode else li_role_mode p)"

definition login_is_expert :: "string \<Rightarrow> json \<Rightarrow> bool" where
  "login_is_expert email res \<longleftrightarrow>
     json_truthy (get_path (Some res) [''user'', ''roles'', ''expert'']) \<or> starts_with (to_lower email) ''expert@''"

definition role_mode :: "bool \<Rightarrow> string" where
  "role_mode isExpert = (if isExpert then ''EXPERT'' else ''STUDENT'')"

definition login_target :: "bool \<Rightarrow> string option \<Rightarrow> string" where
  "login_target isExpert next =
     (case next of
        Some n \<Rightarrow>
          if n \<noteq> [] \<and> starts_with n ''/''
          then (if n = ''/account'' \<and> isExpert then ''/opportunities'' else n)
          else if isExpert then ''/opportunities'' else ''/requests''
      | None \<Rightarrow> if isExpert then ''/opportunities'' else ''/requests'')"

datatype login_event =
    TypeLoginEmail string
  | TypeLoginPassword string
  | ToggleShow
  | ToggleRemember
  | FillDemo
  | SubmitLogin
  | LoginAnswer "failure + json"
  | LoginRefreshed
  | ShakeOver

fun login_step :: "string option \<Rightarrow> login_page \<Rightarrow> login_event \<Rightarrow> login_page" where
  "login_step next p (TypeLoginEmail s) = p\<lparr>li_email := s\<rparr>"
| "login_step next p (TypeLoginPassword s) = p\<lparr>li_password := s\<rparr>"
| "login_step next p ToggleShow = p\<lparr>li_show := \<not> li_show p\<rparr>"
| "login_step next p ToggleRemember = p\<lparr>li_remember := \<not> li_remember p\<rparr>"
| "login_step next p FillDemo =
     p\<lparr>li_email := ''student@demo.local'', li_password := ''demo-password-1234'', li_error := None\<rparr>"
| "login_step next p SubmitLogin =
     p\<lparr>li_error := None, li_submitting := True, li_run := Some (Asking_login (li_email p))\<rparr>"
| "login_step next p (LoginAnswer r) =
     (case r of
        Inl e \<Rightarrow> p\<lparr>li_error := Some (authErrorMessage e), li_shake := True, li_submitting := False, li_run := None\<rparr>
      | Inr v \<Rightarrow>
          (case li_run p of
             Some (Asking_login email) \<Rightarrow> p\<lparr>li_run := Some (Refreshing email v)\<rparr>
           | _ \<Rightarrow> p))"
| "login_step next p LoginRefreshed =
     (case li_run p of
        Some (Refreshing email res) \<Rightarrow>
          (let isExpert = login_is_expert email res
           in p\<lparr>li_role_mode := remember_mode (role_mode isExpert) p,
                li_pushed := Some (login_target isExpert next), li_submitting := False, li_run := None\<rparr>)
      | _ \<Rightarrow> p)"
| "login_step next p ShakeOver = p\<lparr>li_shake := False\<rparr>"

fun login_call :: "string \<Rightarrow> login_page \<Rightarrow> login_event \<Rightarrow> api_init option" where
  "login_call b p SubmitLogin = Some (authApi_login b (trim (li_email p)) (li_password p))"
| "login_call b p _ = None"

definition LoginForm :: "login_page \<Rightarrow> login_event ui list" where
  "LoginForm p =
     [Text ''Student Portal'', Heading ''Welcome Back'',
      Text ''Sign in to access your requests, orders, and expert consultations.'',
      Text ''Escrow protected'', Text ''Expert matched'', Text ''Fast turnaround'',
      Button ''Google'' False FillDemo, Button ''GitHub'' False FillDemo,
      Field ''Email'' (li_email p) TypeLoginEmail,
      Link ''/reset-password'' ''Forgot password?'',
      Field ''Password'' (li_password p) TypeLoginPassword,
      Button (if li_show p then ''Hide password'' else ''Show password'') False ToggleShow,
      Check ''Remember me for 30 days'' (li_remember p) False ToggleRemember]
     @ alert_if (li_error p)
     @ [Button (if li_submitting p then ''Signing in...'' else ''Sign In to Student Zone'') (li_submitting p) SubmitLogin,
        Text ''Or try the demo'', Button ''Fill Student Demo Credentials'' False FillDemo,
        Link ''/register'' ''Create student account'', Link ''/login/expert'' ''Expert login'']"

fun login_enabled :: "login_page \<Rightarrow> login_event \<Rightarrow> bool" where
  "login_enabled p (LoginAnswer r) = (\<exists>m. li_run p = Some (Asking_login m))"
| "login_enabled p LoginRefreshed = (\<exists>m v. li_run p = Some (Refreshing m v))"
| "login_enabled p ShakeOver = li_shake p"
| "login_enabled p e = offered (LoginForm p) e"

section \<open>Registering\<close>

datatype register_role = Learner | Mentor

text \<open>A run of \<open>onSubmit\<close>, with the role and the address the closure holds.\<close>

datatype register_run = Asking_register register_role string | Refreshing_session string

record register_page =
  rg_role :: register_role
  rg_name :: string
  rg_email :: string
  rg_password :: string
  rg_show :: bool
  rg_honor :: bool
  rg_error :: "string option"
  rg_submitting :: bool
  rg_study_level :: string
  rg_student_discipline :: string
  rg_degree :: string
  rg_institution :: string
  rg_expert_discipline :: string
  rg_run :: "register_run option"
  rg_role_mode :: "string option"
  rg_pushed :: "string option"

definition register_init :: "string option \<Rightarrow> register_page" where
  "register_init mode =
     \<lparr>rg_role = Learner, rg_name = [], rg_email = [], rg_password = [], rg_show = False, rg_honor = False,
      rg_error = None, rg_submitting = False, rg_study_level = ''undergraduate'', rg_student_discipline = ''cs'',
      rg_degree = ''phd'', rg_institution = [], rg_expert_discipline = ''distributed_systems'',
      rg_run = None, rg_role_mode = mode, rg_pushed = None\<rparr>"

definition char_between :: "char \<Rightarrow> char \<Rightarrow> char \<Rightarrow> bool" where
  "char_between a b c \<longleftrightarrow> (of_char a :: nat) \<le> of_char c \<and> (of_char c :: nat) \<le> of_char b"

definition is_alphanumeric :: "char \<Rightarrow> bool" where
  "is_alphanumeric c \<longleftrightarrow>
     char_between (CHR ''A'') (CHR ''Z'') c \<or> char_between (CHR ''a'') (CHR ''z'') c \<or> char_between (CHR ''0'') (CHR ''9'') c"

text \<open>The four criteria, in the order of \<open>passwordCriteria\<close>.\<close>

definition passwordCriteria :: "string \<Rightarrow> bool list" where
  "passwordCriteria pw =
     [10 \<le> length pw, list_ex (char_between (CHR ''A'') (CHR ''Z'')) pw,
      list_ex (char_between (CHR ''0'') (CHR ''9'')) pw, list_ex (\<lambda>c. \<not> is_alphanumeric c) pw]"

definition strengthScore :: "string \<Rightarrow> nat" where
  "strengthScore pw = (if pw = [] then 0 else length (filter id (passwordCriteria pw)))"

definition strength_label :: "nat \<Rightarrow> string" where
  "strength_label n =
     (if n = 1 then ''Weak'' else if n = 2 then ''Fair'' else if n = 3 then ''Good''
      else if n = 4 then ''Strong & Resilient'' else ''Incomplete'')"

definition register_check :: "register_page \<Rightarrow> string option" where
  "register_check p =
     (if \<not> rg_honor p then Some ''Please accept the Platform Honor Code and Terms of Service.''
      else if strengthScore (rg_password p) < 3
      then Some ''Please choose a stronger password matching the criteria below.''
      else None)"

definition register_route :: "string \<Rightarrow> string" where
  "register_route email = ''/verify-email?email='' @ encodeURIComponent email"

datatype register_event =
    PickRole register_role
  | TypeName string
  | TypeEmail string
  | TypePassword string
  | ToggleShowPassword
  | ToggleHonor
  | PickStudyLevel string
  | PickStudentDiscipline string
  | PickDegree string
  | TypeInstitution string
  | PickExpertDiscipline string
  | SubmitRegister
  | RegisterAnswer "failure + json"
  | RegisterRefreshed

fun register_step :: "register_page \<Rightarrow> register_event \<Rightarrow> register_page" where
  "register_step p (PickRole r) = p\<lparr>rg_role := r\<rparr>"
| "register_step p (TypeName s) = p\<lparr>rg_name := s\<rparr>"
| "register_step p (TypeEmail s) = p\<lparr>rg_email := s\<rparr>"
| "register_step p (TypePassword s) = p\<lparr>rg_password := s\<rparr>"
| "register_step p ToggleShowPassword = p\<lparr>rg_show := \<not> rg_show p\<rparr>"
| "register_step p ToggleHonor = p\<lparr>rg_honor := \<not> rg_honor p\<rparr>"
| "register_step p (PickStudyLevel s) = p\<lparr>rg_study_level := s\<rparr>"
| "register_step p (PickStudentDiscipline s) = p\<lparr>rg_student_discipline := s\<rparr>"
| "register_step p (PickDegree s) = p\<lparr>rg_degree := s\<rparr>"
| "register_step p (TypeInstitution s) = p\<lparr>rg_institution := s\<rparr>"
| "register_step p (PickExpertDiscipline s) = p\<lparr>rg_expert_discipline := s\<rparr>"
| "register_step p SubmitRegister =
     (case register_check p of
        Some m \<Rightarrow> p\<lparr>rg_error := Some m\<rparr>
      | None \<Rightarrow> p\<lparr>rg_error := None, rg_submitting := True, rg_run := Some (Asking_register (rg_role p) (rg_email p))\<rparr>)"
| "register_step p (RegisterAnswer r) =
     (case r of
        Inl e \<Rightarrow> p\<lparr>rg_error := Some (authErrorMessage e), rg_submitting := False, rg_run := None\<rparr>
      | Inr v \<Rightarrow>
          (case rg_run p of
             Some (Asking_register r email) \<Rightarrow>
               p\<lparr>rg_role_mode := Some (role_mode (r = Mentor)), rg_run := Some (Refreshing_session email)\<rparr>
           | _ \<Rightarrow> p))"
| "register_step p RegisterRefreshed =
     (case rg_run p of
        Some (Refreshing_session email) \<Rightarrow>
          p\<lparr>rg_pushed := Some (register_route email), rg_submitting := False, rg_run := None\<rparr>
      | _ \<Rightarrow> p)"

fun register_call :: "string \<Rightarrow> register_page \<Rightarrow> register_event \<Rightarrow> api_init option" where
  "register_call b p SubmitRegister =
     (if register_check p = None
      then Some (authApi_register b (trim (rg_email p)) (trim (rg_name p)) (rg_password p)) else None)"
| "register_call b p _ = None"

definition student_fields :: "register_page \<Rightarrow> register_event ui list" where
  "student_fields p =
     [Choice ''Study Level'' (rg_study_level p)
        [(''undergraduate'', ''Undergraduate''), (''masters'', ''Master's / M.Sc.''), (''phd'', ''Ph.D. / Doctoral''),
         (''bootcamp'', ''Bootcamp / Self-Taught'')] PickStudyLevel,
      Choice ''Primary Discipline'' (rg_student_discipline p)
        [(''cs'', ''Computer Science & AI''), (''math'', ''Mathematics & Calculus''), (''stats'', ''Statistics & Data''),
         (''engineering'', ''Engineering''), (''economics'', ''Economics & Finance'')] PickStudentDiscipline]"

definition mentor_fields :: "register_page \<Rightarrow> register_event ui list" where
  "mentor_fields p =
     [Choice ''Highest Degree'' (rg_degree p)
        [(''phd'', ''Ph.D. / Doctorate''), (''postdoc'', ''Postdoctoral Fellow''), (''masters'', ''Master's Degree''),
         (''industry'', ''Industry Veteran (10+ yrs)'')] PickDegree,
      Choice ''Expertise Domain'' (rg_expert_discipline p)
        [(''distributed_systems'', ''Distributed Systems & AI''), (''calculus'', ''Higher Mathematics''),
         (''econometrics'', ''Econometrics & Stats''), (''robotics'', ''Robotics & Control'')] PickExpertDiscipline,
      Field ''Alma Mater / Research Institution'' (rg_institution p) TypeInstitution]"

definition strength_bar :: "string \<Rightarrow> register_event ui list" where
  "strength_bar pw = shown_if (pw \<noteq> []) [Text ''Strength:'', Text (strength_label (strengthScore pw))]"

text \<open>The buttons of the other sign-in services do nothing and are left out.\<close>

definition RegisterPage :: "register_page \<Rightarrow> register_event ui list" where
  "RegisterPage p =
     [Heading ''Create Your Account'', Text ''Join thousands of learners and verified doctoral specialists.'',
      Button ''I want to Learn'' False (PickRole Learner), Button ''I want to Mentor'' False (PickRole Mentor),
      Text ''Or continue with email'',
      Field (if rg_role p = Mentor then ''Full Name (as on credentials)'' else ''Full Name'') (rg_name p) TypeName,
      Field (if rg_role p = Mentor then ''Academic / Professional Email'' else ''University / Personal Email'')
        (rg_email p) TypeEmail]
     @ (if rg_role p = Learner then student_fields p else mentor_fields p)
     @ [Field ''Password'' (rg_password p) TypePassword,
        Button (if rg_show p then ''Hide password'' else ''Show password'') False ToggleShowPassword]
     @ strength_bar (rg_password p)
     @ [Check ''I agree to the Platform Honor Code and Terms of Service. I confirm I will never submit or ghostwrite graded coursework.''
          (rg_honor p) False ToggleHonor,
        Link ''/academic-integrity'' ''Platform Honor Code'', Link ''/terms'' ''Terms of Service'']
     @ alert_if (rg_error p)
     @ [Button (if rg_submitting p then ''Creating your account...''
                else if rg_role p = Mentor then ''Join as a Specialist'' else ''Create Student Account'')
          (rg_submitting p) SubmitRegister,
        Text ''Already have an account?'', Link ''/login'' ''Sign in'']"

fun register_enabled :: "register_page \<Rightarrow> register_event \<Rightarrow> bool" where
  "register_enabled p (RegisterAnswer r) = (\<exists>x m. rg_run p = Some (Asking_register x m))"
| "register_enabled p RegisterRefreshed = (\<exists>m. rg_run p = Some (Refreshing_session m))"
| "register_enabled p e = offered (RegisterPage p) e"

section \<open>Verifying the email\<close>

datatype verify_state = Vf_idle | Vf_verifying | Vf_success | Vf_error

text \<open>\<open>verification\<close> and the message of the button that sends the link again.\<close>

record verify_page =
  vf_state :: verify_state
  vf_message :: "string option"
  vf_cancelled :: bool
  vf_resend_message :: "string option"
  vf_sending :: bool

definition search_param :: "string \<Rightarrow> string \<Rightarrow> string" where
  "search_param search k = nullish (map_of (parse_query search) k) []"

definition justRegistered :: "string \<Rightarrow> bool" where
  "justRegistered search \<longleftrightarrow> search_param search ''registered'' = ''1''"

definition verify_init :: "string \<Rightarrow> verify_page" where
  "verify_init search =
     \<lparr>vf_state = (if search_param search ''token'' \<noteq> [] then Vf_verifying else Vf_idle), vf_message = None,
      vf_cancelled = False, vf_resend_message = None, vf_sending = False\<rparr>"

text \<open>The answer to the verification; after a success, the refresh is awaited in between.\<close>

datatype verify_event =
    VerifyFailed failure
  | VerifyDone json
  | LeaveVerify
  | Resend
  | ResendAnswer "failure + json"

definition detail_of :: "json \<Rightarrow> string option" where
  "detail_of v = (case get_field v ''detail'' of Some (JStr s) \<Rightarrow> Some s | _ \<Rightarrow> None)"

fun verify_step :: "verify_page \<Rightarrow> verify_event \<Rightarrow> verify_page" where
  "verify_step p (VerifyFailed e) =
     (if vf_cancelled p then p else p\<lparr>vf_state := Vf_error, vf_message := Some (authErrorMessage e)\<rparr>)"
| "verify_step p (VerifyDone v) =
     (if vf_cancelled p then p else p\<lparr>vf_state := Vf_success, vf_message := detail_of v\<rparr>)"
| "verify_step p LeaveVerify = p\<lparr>vf_cancelled := True\<rparr>"
| "verify_step p Resend = p\<lparr>vf_sending := True, vf_resend_message := None\<rparr>"
| "verify_step p (ResendAnswer r) =
     p\<lparr>vf_resend_message := (case r of Inr v \<Rightarrow> detail_of v | Inl e \<Rightarrow> Some (authErrorMessage e)), vf_sending := False\<rparr>"

definition ResendButton :: "session_status \<Rightarrow> verify_page \<Rightarrow> verify_event ui list" where
  "ResendButton st p =
     (if st \<noteq> Authenticated then [Link ''/login'' ''Log in to resend the verification email'']
      else [Button (if vf_sending p then ''Sending...'' else ''Resend verification email'') (vf_sending p) Resend]
           @ (if truthy (vf_resend_message p) then [Text (the (vf_resend_message p))] else []))"

definition verify_instructions :: string where
  "verify_instructions = ''Check your inbox -- we sent you a verification link. A verified email unlocks posting, offers and messaging (you can still browse meanwhile).''"

definition VerifyEmailInner :: "string \<Rightarrow> session_status \<Rightarrow> verify_page \<Rightarrow> verify_event ui list" where
  "VerifyEmailInner search st p =
     [Heading ''Verify your email'']
     @ shown_if (vf_state p = Vf_verifying) [Text ''Verifying...'']
     @ shown_if (vf_state p = Vf_success)
         [Text (nullish (vf_message p) ''Your email is verified.''), Link ''/account'' ''Go to your account'']
     @ shown_if (vf_state p = Vf_error) (Alert (nullish (vf_message p) []) # ResendButton st p)
     @ shown_if (vf_state p = Vf_idle)
         ((if justRegistered search \<and> st = Authenticated then Text verify_instructions
           else Text ''Open the link from your inbox to verify your email address.'') # ResendButton st p)"

section \<open>Resetting the password\<close>

record reset_page =
  rs_email :: string
  rs_sent :: bool
  rs_error :: "string option"
  rs_submitting :: bool

definition reset_init :: reset_page where
  "reset_init = \<lparr>rs_email = [], rs_sent = False, rs_error = None, rs_submitting = False\<rparr>"

datatype reset_event = TypeResetEmail string | SubmitReset | ResetAnswer "failure + json"

fun reset_step :: "reset_page \<Rightarrow> reset_event \<Rightarrow> reset_page" where
  "reset_step p (TypeResetEmail s) = p\<lparr>rs_email := s\<rparr>"
| "reset_step p SubmitReset = p\<lparr>rs_error := None, rs_submitting := True\<rparr>"
| "reset_step p (ResetAnswer (Inr v)) = p\<lparr>rs_sent := True, rs_submitting := False\<rparr>"
| "reset_step p (ResetAnswer (Inl e)) = p\<lparr>rs_error := Some (authErrorMessage e), rs_submitting := False\<rparr>"

fun reset_call :: "string \<Rightarrow> reset_page \<Rightarrow> reset_event \<Rightarrow> api_init option" where
  "reset_call b p SubmitReset = Some (authApi_requestPasswordReset b (trim (rs_email p)))"
| "reset_call b p _ = None"

definition ResetPasswordPage :: "reset_page \<Rightarrow> reset_event ui list" where
  "ResetPasswordPage p =
     [Heading ''Reset your password'']
     @ (if rs_sent p
        then [Text ''If that address has an account, a reset link is on its way. Check your inbox.'',
              Link ''/login'' ''Back to log in'']
        else [Text ''Enter your email and we'll send you a reset link.'', Field ''Email'' (rs_email p) TypeResetEmail]
          @ alert_if (rs_error p)
          @ [Button (if rs_submitting p then ''Sending...'' else ''Send reset link'') (rs_submitting p) SubmitReset,
             Link ''/login'' ''Back to log in''])"

record confirm_page =
  cf_password :: string
  cf_error :: "string option"
  cf_submitting :: bool
  cf_pushed :: "string option"

definition confirm_init :: confirm_page where
  "confirm_init = \<lparr>cf_password = [], cf_error = None, cf_submitting = False, cf_pushed = None\<rparr>"

datatype confirm_event = TypeNewPassword string | SubmitConfirm | ConfirmAnswer "failure + json"

fun confirm_step :: "confirm_page \<Rightarrow> confirm_event \<Rightarrow> confirm_page" where
  "confirm_step p (TypeNewPassword s) = p\<lparr>cf_password := s\<rparr>"
| "confirm_step p SubmitConfirm =
     (if length (cf_password p) < 10 then p\<lparr>cf_error := Some ''Password must be at least 10 characters.''\<rparr>
      else p\<lparr>cf_error := None, cf_submitting := True\<rparr>)"
| "confirm_step p (ConfirmAnswer (Inr v)) = p\<lparr>cf_pushed := Some ''/login?reset=1'', cf_submitting := False\<rparr>"
| "confirm_step p (ConfirmAnswer (Inl e)) = p\<lparr>cf_error := Some (authErrorMessage e), cf_submitting := False\<rparr>"

fun confirm_call :: "string \<Rightarrow> string \<Rightarrow> confirm_page \<Rightarrow> confirm_event \<Rightarrow> api_init option" where
  "confirm_call b search p SubmitConfirm =
     (if length (cf_password p) < 10 then None
      else Some (authApi_confirmPasswordReset b (search_param search ''uid'') (search_param search ''token'')
        (cf_password p)))"
| "confirm_call b search p _ = None"

definition ConfirmInner :: "string \<Rightarrow> confirm_page \<Rightarrow> confirm_event ui list" where
  "ConfirmInner search p =
     [Heading ''Choose a new password'']
     @ (if search_param search ''uid'' = [] \<or> search_param search ''token'' = []
        then [Alert ''This reset link is incomplete. Request a new one.'',
              Link ''/reset-password'' ''Request a reset link'']
        else [Field ''New password'' (cf_password p) TypeNewPassword, Text ''At least 10 characters.'']
          @ alert_if (cf_error p)
          @ [Button (if cf_submitting p then ''Updating...'' else ''Set new password'') (cf_submitting p) SubmitConfirm])"

section \<open>Lemmas\<close>

lemma offered_RegisterPage_submit: "offered (RegisterPage p) SubmitRegister \<longleftrightarrow> \<not> rg_submitting p"
  by (simp add: RegisterPage_def student_fields_def mentor_fields_def strength_bar_def)

lemma login_target_rooted: "starts_with (login_target x next) ''/''"
  by (auto simp: login_target_def split: option.split)

text \<open>The query string the registration routes to: one parameter, whatever the address holds.\<close>

lemma parse_register_route:
  "register_route email = ''/verify-email?'' @ (''email='' @ encodeURIComponent email) \<and>
   parse_query (''email='' @ encodeURIComponent email) = [(''email'', email)]"
proof
  show "register_route email = ''/verify-email?'' @ (''email='' @ encodeURIComponent email)"
    by (simp add: register_route_def)
  let ?v = "encodeURIComponent email"
  have amp: "CHR ''&'' \<notin> set (''email='' @ ?v)" using encodeURIComponent_plain [of email] by auto
  have "split_first (CHR ''='') (''email'' @ CHR ''='' # ?v) = (''email'', ?v)"
    by (rule split_first_append) simp
  moreover have "form_decode ''email'' = ''email''" by code_simp
  ultimately show "parse_query (''email='' @ ?v) = [(''email'', email)]"
    using amp by (simp add: parse_query_def split_on_no_sep)
qed

section \<open>Properties\<close>

text \<open>
  After signing in the page routed to starts with a slash, and is the one asked for whenever that
  one does; but a slash is not enough to stay on the site: a target that starts with two, which a
  browser reads as another host, is followed as it is.
\<close>

lemma login_target_unchecked:
  "(let p' = login_step next (p\<lparr>li_run := Some (Refreshing email res)\<rparr>) LoginRefreshed
    in \<exists>t. li_pushed p' = Some t \<and> starts_with t ''/'' \<and>
         li_role_mode p' = remember_mode (role_mode (login_is_expert email res)) p \<and> \<not> li_submitting p') \<and>
   li_pushed (login_step (Some (''//'' @ evil)) (p\<lparr>li_run := Some (Refreshing email res)\<rparr>) LoginRefreshed) =
     Some (''//'' @ evil)"
proof
  show "let p' = login_step next (p\<lparr>li_run := Some (Refreshing email res)\<rparr>) LoginRefreshed
    in \<exists>t. li_pushed p' = Some t \<and> starts_with t ''/'' \<and>
         li_role_mode p' = remember_mode (role_mode (login_is_expert email res)) p \<and> \<not> li_submitting p'"
    using login_target_rooted [of "login_is_expert email res" "next"] by (simp add: Let_def remember_mode_def)
  show "li_pushed (login_step (Some (''//'' @ evil)) (p\<lparr>li_run := Some (Refreshing email res)\<rparr>) LoginRefreshed) =
     Some (''//'' @ evil)"
    by (simp add: login_target_def Let_def)
qed

text \<open>
  C26: a registration is sent only with the honor code accepted and at least three of the four
  criteria met, with the name and the address trimmed and the password as it is. The length is only
  one of the four: a password of three characters is sent, although ten are the minimum.
\<close>

theorem register_guard:
  assumes "register_enabled p e" "register_call b p e = Some i"
  shows "rg_honor p \<and> 3 \<le> strengthScore (rg_password p) \<and> \<not> rg_submitting p \<and>
    i = authApi_register b (trim (rg_email p)) (trim (rg_name p)) (rg_password p) \<and>
    rg_submitting (register_step p e) \<and>
    register_call b (p\<lparr>rg_password := ''A1!''\<rparr>) e = Some (authApi_register b (trim (rg_email p)) (trim (rg_name p)) ''A1!'')"
proof -
  have e: "e = SubmitRegister" using assms(2) by (cases e) auto
  have weak: "strengthScore ''A1!'' = 3" by code_simp
  have ok: "register_check p = None" using assms(2) e by (simp split: if_splits)
  then have "rg_honor p" "3 \<le> strengthScore (rg_password p)"
    by (auto simp: register_check_def split: if_splits)
  moreover have "\<not> rg_submitting p" using assms(1) e by (simp add: offered_RegisterPage_submit)
  moreover have "register_check (p\<lparr>rg_password := ''A1!''\<rparr>) = None"
    using calculation weak by (simp add: register_check_def)
  ultimately show ?thesis using assms(2) e ok by simp
qed

theorem register_guard_witness:
  "(let p = (register_init None)\<lparr>rg_honor := True, rg_password := ''Long-enough-1''\<rparr>
    in 3 \<le> strengthScore (rg_password p) \<and> rg_submitting (register_step p SubmitRegister))"
proof -
  let ?p = "(register_init None)\<lparr>rg_honor := True, rg_password := ''Long-enough-1''\<rparr>"
  have s: "strengthScore ''Long-enough-1'' = 4" by code_simp
  have e: "register_enabled ?p SubmitRegister"
    by (simp add: offered_RegisterPage_submit register_init_def)
  have c: "register_call ''https://api'' ?p SubmitRegister =
      Some (authApi_register ''https://api'' (trim []) (trim []) ''Long-enough-1'')"
    by (simp add: register_check_def register_init_def s)
  show ?thesis using register_guard [OF e c] by (simp add: Let_def)
qed

text \<open>
  The instructions for a newly registered user are never shown. The page the registration routes
  to is opened with one parameter, the address, whatever characters it holds; the verification page
  looks for another one, so it is idle, takes the user for somebody who was not just registered, and
  shows the text that does not say that a link was sent.
\<close>

lemma registration_hides_instructions:
  "(let p' = register_step (p\<lparr>rg_run := Some (Refreshing_session email)\<rparr>) RegisterRefreshed;
        search = ''email='' @ encodeURIComponent email
    in rg_pushed p' = Some (''/verify-email?'' @ search) \<and>
       \<not> justRegistered search \<and> vf_state (verify_init search) = Vf_idle \<and>
       Text verify_instructions \<notin> set (VerifyEmailInner search st (verify_init search)))"
proof -
  let ?s = "''email='' @ encodeURIComponent email"
  have q: "parse_query ?s = [(''email'', email)]" using parse_register_route by blast
  then have n: "\<not> justRegistered ?s" "search_param ?s ''token'' = []"
    by (simp_all add: justRegistered_def search_param_def)
  have "verify_instructions \<noteq> ''Open the link from your inbox to verify your email address.''"
    by (simp add: verify_instructions_def)
  then have "Text verify_instructions \<notin> set (VerifyEmailInner ?s st (verify_init ?s))"
    using n by (auto simp: VerifyEmailInner_def shown_if_def ResendButton_def verify_init_def)
  then show ?thesis
    using n parse_register_route [of email] by (simp add: verify_init_def Let_def register_route_def)
qed

end
