(* ===== verification/Workspace.thy ===== *)
theory Workspace
  imports Auth Middleware
begin

text \<open>
  The shell around every page of the workspace, \<open>app/(app)/layout.tsx\<close>, and the account page
  \<open>app/(app)/account/page.tsx\<close>: the student and the specialist mode, their navigation, the command
  palette, and what is shown while there is no session.

  The mode is kept in the local storage of the browser and in a cookie. Writing there may throw, which
  the code swallows: \<open>writes\<close> says whether it works. A storage that cannot be read is the empty one,
  since a failed read and a missing value leave the same state.
\<close>

section \<open>Modes\<close>

datatype work_mode = Student_mode | Expert_mode

definition mode_key :: "work_mode \<Rightarrow> string" where
  "mode_key m = (case m of Expert_mode \<Rightarrow> ''EXPERT'' | Student_mode \<Rightarrow> ''STUDENT'')"

text \<open>What the layout uses of the user of the session.\<close>

record shell_user =
  su_name :: string
  su_email :: string
  su_expert :: bool
  su_verified :: bool
  su_timezone :: string

record shell =
  sh_mode :: work_mode
  sh_collapsed :: bool
  sh_palette :: bool
  sh_query :: string
  sh_local :: "string \<rightharpoonup> string"
  sh_cookie :: "string option"
  sh_path :: string
  sh_route :: "string option"          \<comment> \<open>the page last asked for from the router\<close>

definition store_mode :: "bool \<Rightarrow> work_mode \<Rightarrow> shell \<Rightarrow> shell" where
  "store_mode writes m s =
     (if writes
      then s\<lparr>sh_local := (sh_local s)(''hem_role_mode'' \<mapsto> mode_key m), sh_cookie := Some (mode_key m)\<rparr>
      else s)"

text \<open>The first effect: the stored mode, and the state of the side bar.\<close>

definition read_stored :: "shell \<Rightarrow> shell" where
  "read_stored s =
     (let stored = sh_local s ''hem_role_mode'';
          s1 = (if stored = Some ''EXPERT'' then s\<lparr>sh_mode := Expert_mode\<rparr>
                else if stored = Some ''STUDENT'' then s\<lparr>sh_mode := Student_mode\<rparr> else s)
      in if sh_local s ''hem_sidebar_collapsed'' = Some ''true'' then s1\<lparr>sh_collapsed := True\<rparr> else s1)"

text \<open>The pages of one role: the effect that follows the path.\<close>

definition expert_surface :: "string \<Rightarrow> bool" where
  "expert_surface path \<longleftrightarrow>
     starts_with path ''/opportunities'' \<or> starts_with path ''/assignments'' \<or>
     (starts_with path ''/expert'' \<and> \<not> starts_with path ''/expert/apply'' \<and>
      \<not> starts_with path ''/expert/application'') \<or>
     starts_with path ''/offers''"

definition student_surface :: "string \<Rightarrow> bool" where
  "student_surface path \<longleftrightarrow>
     starts_with path ''/requests'' \<or> starts_with path ''/expert/apply'' \<or>
     starts_with path ''/expert/application''"

definition sync_mode :: "bool \<Rightarrow> shell \<Rightarrow> shell" where
  "sync_mode writes s =
     (if expert_surface (sh_path s) then store_mode writes Expert_mode (s\<lparr>sh_mode := Expert_mode\<rparr>)
      else if student_surface (sh_path s) then store_mode writes Student_mode (s\<lparr>sh_mode := Student_mode\<rparr>)
      else s)"

definition redirect_session :: "session_status \<Rightarrow> shell \<Rightarrow> shell" where
  "redirect_session st s = (if st = Unauthenticated then s\<lparr>sh_route := Some ''/login?next=/account''\<rparr> else s)"

text \<open>The effects of the first render, in their order.\<close>

definition shell_mount ::
    "bool \<Rightarrow> session_status \<Rightarrow> (string \<rightharpoonup> string) \<Rightarrow> string option \<Rightarrow> string \<Rightarrow> shell" where
  "shell_mount writes st kept cookie path =
     sync_mode writes (redirect_session st (read_stored
       \<lparr>sh_mode = Student_mode, sh_collapsed = False, sh_palette = False, sh_query = [],
        sh_local = kept, sh_cookie = cookie, sh_path = path, sh_route = None\<rparr>))"

section \<open>Operations\<close>

definition toggleCollapsed :: "bool \<Rightarrow> shell \<Rightarrow> shell" where
  "toggleCollapsed writes s =
     (let after = \<not> sh_collapsed s
      in s\<lparr>sh_collapsed := after,
           sh_local := (if writes then (sh_local s)(''hem_sidebar_collapsed'' \<mapsto> (if after then ''true'' else ''false''))
                        else sh_local s)\<rparr>)"

definition handleKeyDown :: "bool \<Rightarrow> bool \<Rightarrow> string \<Rightarrow> shell \<Rightarrow> shell" where
  "handleKeyDown meta ctrl k s =
     (let s1 = (if (meta \<or> ctrl) \<and> k = ''k'' then s\<lparr>sh_palette := \<not> sh_palette s\<rparr> else s)
      in if k = ''Escape'' then s1\<lparr>sh_palette := False\<rparr> else s1)"

definition handleSwitchToStudent :: "bool \<Rightarrow> shell \<Rightarrow> shell" where
  "handleSwitchToStudent writes s =
     (store_mode writes Student_mode (s\<lparr>sh_mode := Student_mode\<rparr>))\<lparr>sh_route := Some ''/requests''\<rparr>"

definition handleSwitchToExpert :: "bool \<Rightarrow> bool \<Rightarrow> shell \<Rightarrow> shell" where
  "handleSwitchToExpert writes isExpertUser s =
     (store_mode writes Expert_mode (s\<lparr>sh_mode := Expert_mode\<rparr>))
       \<lparr>sh_route := Some (if isExpertUser then ''/opportunities'' else ''/expert/apply'')\<rparr>"

datatype shell_event =
    Arrive string                      \<comment> \<open>the path changes\<close>
  | Session_is session_status          \<comment> \<open>the status of the session changes\<close>
  | Key bool bool string               \<comment> \<open>meta, control, key\<close>
  | Toggle_sidebar
  | Open_palette
  | Close_palette
  | Type_search string
  | Pick_command string
  | To_student
  | To_expert
  | Open_account
  | Open_apply
  | Log_out
  | Logged_out "failure + unit"        \<comment> \<open>how the awaited logout ended\<close>
  | Try_again

fun shell_step :: "bool \<Rightarrow> bool \<Rightarrow> shell \<Rightarrow> shell_event \<Rightarrow> shell" where
  "shell_step writes isExpertUser s (Arrive path) = sync_mode writes (s\<lparr>sh_path := path\<rparr>)"
| "shell_step writes isExpertUser s (Session_is st) = redirect_session st s"
| "shell_step writes isExpertUser s (Key meta ctrl k) = handleKeyDown meta ctrl k s"
| "shell_step writes isExpertUser s Toggle_sidebar = toggleCollapsed writes s"
| "shell_step writes isExpertUser s Open_palette = s\<lparr>sh_palette := True\<rparr>"
| "shell_step writes isExpertUser s Close_palette = s\<lparr>sh_palette := False\<rparr>"
| "shell_step writes isExpertUser s (Type_search q) = s\<lparr>sh_query := q\<rparr>"
| "shell_step writes isExpertUser s (Pick_command href) = s\<lparr>sh_palette := False, sh_route := Some href\<rparr>"
| "shell_step writes isExpertUser s To_student = handleSwitchToStudent writes s"
| "shell_step writes isExpertUser s To_expert = handleSwitchToExpert writes isExpertUser s"
| "shell_step writes isExpertUser s Open_account = s\<lparr>sh_route := Some ''/account''\<rparr>"
| "shell_step writes isExpertUser s Open_apply = s\<lparr>sh_route := Some ''/expert/apply''\<rparr>"
| "shell_step writes isExpertUser s Log_out = s"
| "shell_step writes isExpertUser s (Logged_out r) =
     (case r of Inr _ \<Rightarrow> s\<lparr>sh_route := Some ''/''\<rparr> | Inl _ \<Rightarrow> s)"
| "shell_step writes isExpertUser s Try_again = s"

section \<open>Navigation\<close>

definition studentNav :: "(string \<times> string) list" where
  "studentNav =
     [(''/requests'', ''Learning Dashboard''), (''/requests/new'', ''New Task Brief''), (''/orders'', ''Active Orders''),
      (''/messages'', ''Direct Messages''), (''/account'', ''Account Settings'')]"

definition expertNav :: "bool \<Rightarrow> (string \<times> string) list" where
  "expertNav isExpertUser =
     [(''/opportunities'', ''Opportunity Radar''), (''/assignments'', ''Managed Tasks''), (''/orders'', ''Active Orders''),
      (''/expert/reviews'', ''Reviews & Ratings''),
      (if isExpertUser then ''/expert/profile'' else ''/expert/apply'', ''Specialist Cockpit''),
      (''/messages'', ''Direct Messages''), (''/account'', ''Account Settings'')]"

definition shell_nav :: "work_mode \<Rightarrow> bool \<Rightarrow> (string \<times> string) list" where
  "shell_nav m isExpertUser = (case m of Expert_mode \<Rightarrow> expertNav isExpertUser | Student_mode \<Rightarrow> studentNav)"

definition nav_active :: "string \<Rightarrow> string \<Rightarrow> bool" where
  "nav_active path href =
     (if href = ''/requests'' then path = ''/requests''
      else if href = ''/requests/new'' then path = ''/requests/new''
      else if href = ''/expert/apply''
      then starts_with path ''/expert/apply'' \<or> starts_with path ''/expert/application''
      else if href = ''/expert/profile'' then starts_with path ''/expert/profile''
      else path = href \<or> (starts_with path (href @ ''/'') \<and> href \<noteq> ''/requests''))"

text \<open>Label, target and category of the commands of the palette.\<close>

definition quickCommands :: "(string \<times> string \<times> string) list" where
  "quickCommands =
     [(''Learning Dashboard'', ''/requests'', ''Student''), (''New Task Brief'', ''/requests/new'', ''Student''),
      (''My Orders'', ''/orders'', ''Workspace''), (''Messages & Chat'', ''/messages'', ''Workspace''),
      (''Account Settings'', ''/account'', ''Account''), (''Opportunity Radar'', ''/opportunities'', ''Specialist''),
      (''Managed Tasks'', ''/assignments'', ''Specialist''), (''Specialist Cockpit'', ''/expert/profile'', ''Specialist''),
      (''Reviews & Ratings'', ''/expert/reviews'', ''Specialist''), (''Public Marketplace'', ''/'', ''General'')]"

text \<open>\<open>text.toLowerCase().includes(query.toLowerCase())\<close>.\<close>

definition matches_query :: "string \<Rightarrow> string \<Rightarrow> bool" where
  "matches_query q s \<longleftrightarrow> sublist (to_lower q) (to_lower s)"

definition filteredCommands :: "string \<Rightarrow> (string \<times> string \<times> string) list" where
  "filteredCommands q = filter (\<lambda>(lab, _, cat). matches_query q lab \<or> matches_query q cat) quickCommands"

text \<open>\<open>charAt(0)?.toUpperCase()\<close>: an empty name has no initial, and no fallback.\<close>

definition userInitial :: "shell_user option \<Rightarrow> string" where
  "userInitial u = (case u of None \<Rightarrow> ''S'' | Some m \<Rightarrow> to_upper (take 1 (su_name m)))"

definition userRoleTag :: "work_mode \<Rightarrow> bool \<Rightarrow> string" where
  "userRoleTag m isExpertUser =
     (if m = Student_mode then ''Scholar - Level 2''
      else if isExpertUser then ''Specialist - Verified'' else ''Specialist - Candidate'')"

section \<open>What the layout shows\<close>

definition command_button :: "string \<times> string \<times> string \<Rightarrow> shell_event ui" where
  "command_button c =
     (case c of (lab, href, cat) \<Rightarrow> Box href [Button lab False (Pick_command href), Text cat, Text href])"

definition palette_modal :: "string \<Rightarrow> shell_event ui list" where
  "palette_modal q =
     [Button ''backdrop'' False Close_palette, Field ''Search'' q Type_search,
      Text ''Quick Actions & Navigation''] @ map command_button (filteredCommands q)"

definition nav_link :: "string \<Rightarrow> string \<times> string \<Rightarrow> shell_event ui" where
  "nav_link path n =
     (case n of (href, lab) \<Rightarrow> if nav_active path href then Box ''current'' [Link href lab] else Link href lab)"

definition user_menu :: "bool \<Rightarrow> work_mode \<Rightarrow> shell_user option \<Rightarrow> shell_event ui list" where
  "user_menu isExpertUser m u =
     (case u of None \<Rightarrow> [] | Some x \<Rightarrow> [Text (su_name x), Text (su_email x)])
     @ [Text (userRoleTag m isExpertUser), Button ''Account & Preferences'' False Open_account]
     @ (if isExpertUser
        then [Button (''Switch to '' @ (if m = Student_mode then ''Specialist View'' else ''Student View'')) False
                (if m = Student_mode then To_expert else To_student)]
        else [Button ''Apply as Specialist'' False Open_apply])
     @ [Button ''Log out'' False Log_out]"

definition sidebar :: "bool \<Rightarrow> shell_user option \<Rightarrow> shell \<Rightarrow> shell_event ui list" where
  "sidebar isExpertUser u s =
     [Link ''/'' ''HYBRID PRO'',
      Button (if sh_collapsed s then ''Expand sidebar'' else ''Collapse sidebar'') False Toggle_sidebar,
      Text (if sh_mode s = Student_mode then ''Student Workspace'' else ''Specialist Hub'')]
     @ map (nav_link (sh_path s)) (shell_nav (sh_mode s) isExpertUser)
     @ (if isExpertUser
        then [Button (if sh_mode s = Student_mode then ''Switch to Specialist View'' else ''Switch to Student View'') False
                (if sh_mode s = Student_mode then To_expert else To_student)]
        else [Link ''/expert/apply'' ''Apply as Specialist''])
     @ [Text ''Escrow: $0.00 Active'', Text (userInitial u)] @ user_menu isExpertUser (sh_mode s) u"

definition mobile_sheet :: "bool \<Rightarrow> shell \<Rightarrow> shell_event ui list" where
  "mobile_sheet isExpertUser s =
     [Text (if sh_mode s = Student_mode then ''Student Learning'' else ''Specialist Hub'')]
     @ (if isExpertUser then [Button ''Student'' False To_student, Button ''Specialist'' False To_expert]
        else [Text ''Specialist Candidate'', Text ''Earn 85% net take-home on verified academic briefs.'',
              Link ''/expert/apply'' ''Apply as Specialist''])
     @ [Button ''Search Workspace...'' False Open_palette]
     @ map (nav_link (sh_path s)) (shell_nav (sh_mode s) isExpertUser)
     @ [Link ''/account'' ''Account & Preferences'', Button ''Log out'' False Log_out]"

definition utility_bar :: "bool \<Rightarrow> shell \<Rightarrow> shell_event ui list" where
  "utility_bar isExpertUser s =
     Box ''Open menu'' (mobile_sheet isExpertUser s)
     # [Text (if sh_mode s = Student_mode then ''Student Learning Hub'' else ''Specialist Cockpit''),
        Text (if sh_mode s = Student_mode then ''Milestone Protected'' else ''85% Payout Active''),
        Button ''Search Workspace'' False Open_palette, Text ''Escrow Safe'']"

definition is_expert_user :: "shell_user option \<Rightarrow> bool" where
  "is_expert_user u = (case u of None \<Rightarrow> False | Some x \<Rightarrow> su_expert x)"

text \<open>The bell and the toasts are in \<open>Realtime\<close>; the page inside the shell is its own component.\<close>

definition AppLayout :: "session_status \<Rightarrow> shell_user option \<Rightarrow> shell \<Rightarrow> shell_event ui list" where
  "AppLayout st u s =
     (if st = Unreachable
      then [Heading ''We can't reach the server'',
            Text ''Your session is probably fine -- the connection is not. Check your network and try again.'',
            Button ''Try again'' False Try_again]
      else if st \<noteq> Authenticated then [Box ''protected-loading'' []]
      else shown_if (sh_palette s) (palette_modal (sh_query s)) @ sidebar (is_expert_user u) u s
        @ utility_bar (is_expert_user u) s @ [Box ''page'' []])"

fun shell_enabled :: "session_status \<Rightarrow> shell_user option \<Rightarrow> shell \<Rightarrow> shell_event \<Rightarrow> bool" where
  "shell_enabled st u s (Arrive path) = True"
| "shell_enabled st u s (Session_is st') = True"
| "shell_enabled st u s (Key meta ctrl k) = True"
| "shell_enabled st u s (Logged_out r) = True"
| "shell_enabled st u s e = offered (AppLayout st u s) e"

section \<open>Lemmas: the stored mode\<close>

definition mode_of :: "string option \<Rightarrow> work_mode" where
  "mode_of v = (if v = Some ''EXPERT'' then Expert_mode else Student_mode)"

text \<open>With a storage that can be written, the mode and the side bar are what the storage says.\<close>

definition stored_inv :: "shell \<Rightarrow> bool" where
  "stored_inv s \<longleftrightarrow>
     sh_mode s = mode_of (sh_local s ''hem_role_mode'') \<and>
     sh_collapsed s = (sh_local s ''hem_sidebar_collapsed'' = Some ''true'')"

lemma mode_of_key [simp]: "mode_of (Some (mode_key m)) = m"
  by (cases m) (simp_all add: mode_of_def mode_key_def)

lemma mode_key_role: "mode_key m = role_mode (m = Expert_mode)"
  by (cases m) (simp_all add: mode_key_def role_mode_def)

lemma stored_inv_store: "stored_inv s \<Longrightarrow> stored_inv (store_mode True m (s\<lparr>sh_mode := m\<rparr>))"
  by (simp add: stored_inv_def store_mode_def)

lemma stored_inv_route [simp]: "stored_inv (s\<lparr>sh_route := r\<rparr>) = stored_inv s"
  by (simp add: stored_inv_def)

lemma stored_inv_sync: "stored_inv s \<Longrightarrow> stored_inv (sync_mode True s)"
  unfolding sync_mode_def by (auto intro: stored_inv_store)

lemma stored_inv_mount: "stored_inv (shell_mount True st m c path)"
  unfolding shell_mount_def redirect_session_def
  by (rule stored_inv_sync) (simp add: read_stored_def stored_inv_def mode_of_def Let_def)

lemma stored_inv_step: "stored_inv s \<Longrightarrow> stored_inv (shell_step True x s e)"
proof (cases e)
  case (Arrive path)
  assume "stored_inv s"
  then have "stored_inv (s\<lparr>sh_path := path\<rparr>)" by (simp add: stored_inv_def)
  then show ?thesis using Arrive by (simp add: stored_inv_sync)
qed (auto simp: redirect_session_def handleKeyDown_def toggleCollapsed_def handleSwitchToStudent_def
  handleSwitchToExpert_def Let_def stored_inv_store split: sum.split, auto simp: stored_inv_def)

abbreviation shell_start :: "shell \<Rightarrow> bool" where
  "shell_start s \<equiv> (\<exists>st m c path. s = shell_mount True st m c path)"

interpretation shell: machine shell_start "\<lambda>s e. \<exists>st u. shell_enabled st u s e" "shell_step True x" stored_inv
  for x
  by unfold_locales (auto simp: stored_inv_mount stored_inv_step)

lemma mount_mode:
  "sh_mode (shell_mount w st m c path) =
     (if expert_surface path then Expert_mode else if student_surface path then Student_mode
      else mode_of (m ''hem_role_mode''))"
  by (simp add: shell_mount_def sync_mode_def store_mode_def redirect_session_def read_stored_def mode_of_def Let_def)

lemma mount_collapsed:
  "sh_collapsed (shell_mount w st m c path) = (m ''hem_sidebar_collapsed'' = Some ''true'')"
  by (simp add: shell_mount_def sync_mode_def store_mode_def redirect_session_def read_stored_def Let_def)

lemma arrive_mode:
  "sh_mode (shell_step w x s (Arrive path)) =
     (if expert_surface path then Expert_mode else if student_surface path then Student_mode else sh_mode s)"
  by (simp add: sync_mode_def store_mode_def)

section \<open>Lemmas: navigation\<close>

text \<open>
  Beyond the two entries that are compared exactly, the first characters of a path decide which entry
  it activates.
\<close>

definition path_tag :: "string \<Rightarrow> string \<times> string" where
  "path_tag path = (take 5 path, if take 5 path = ''/expe'' then take 9 path else [])"

lemma take_prefix: "prefix p s \<Longrightarrow> n \<le> length p \<Longrightarrow> take n s = take n p"
  by (auto simp: prefix_def)

lemma nav_active_tag:
  assumes "n \<in> set (expertNav x)" "nav_active path (fst n)"
  shows "path_tag path = path_tag (fst n)"
proof -
  have pre: "prefix (fst n) path \<or> (prefix ''/expert/application'' path \<and> fst n = ''/expert/apply'')"
    using assms(2) by (auto simp: nav_active_def dest: append_prefixD split: if_splits)
  have len: "5 \<le> length (fst n)" "take 5 (fst n) = ''/expe'' \<Longrightarrow> 9 \<le> length (fst n)"
    using assms(1) by (auto simp: expertNav_def split: if_splits)
  show ?thesis
  proof (cases "prefix (fst n) path")
    case True
    then show ?thesis using len by (auto simp: path_tag_def take_prefix)
  next
    case False
    then have "prefix ''/expert/application'' path" "fst n = ''/expert/apply''" using pre by auto
    then show ?thesis by (simp add: path_tag_def take_prefix)
  qed
qed

lemma expert_tags_distinct: "distinct (map (path_tag \<circ> fst) (expertNav x))"
  by (cases x) (simp_all add: expertNav_def path_tag_def)

lemma filter_at_most_one:
  "distinct (map f xs) \<Longrightarrow> (\<And>x. x \<in> set xs \<Longrightarrow> P x \<Longrightarrow> f x = c) \<Longrightarrow> length (filter P xs) \<le> 1"
proof (induction xs)
  case (Cons x xs)
  show ?case
  proof (cases "P x")
    case True
    then have "f x = c" using Cons.prems by auto
    moreover have "f y = c" if "y \<in> set xs" "P y" for y using Cons.prems that by auto
    ultimately have "\<forall>y \<in> set xs. \<not> P y" using Cons.prems(1) by (metis distinct.simps(2) image_eqI image_set list.simps(9))
    then have "filter P xs = []" by (simp add: filter_empty_conv)
    then show ?thesis by simp
  qed (use Cons in auto)
qed simp

lemma student_tag:
  assumes "n \<in> set studentNav" "nav_active path (fst n)"
  shows "(if path = ''/requests/new'' then ''new'' else take 5 path) =
    (if fst n = ''/requests/new'' then ''new'' else take 5 (fst n))"
proof -
  have "path = fst n \<or> (prefix (fst n @ ''/'') path \<and> fst n \<notin> {''/requests'', ''/requests/new''})"
    using assms by (auto simp: nav_active_def studentNav_def)
  then show ?thesis
    using assms(1) by (auto simp: studentNav_def dest: take_prefix [where n = 5])
qed

lemma nav_at_most_one: "length (filter (\<lambda>n. nav_active path (fst n)) (shell_nav m x)) \<le> 1"
proof (cases m)
  case Student_mode
  have "distinct (map (\<lambda>n. if fst n = ''/requests/new'' then ''new'' else take 5 (fst n)) studentNav)"
    by (simp add: studentNav_def)
  then have "length (filter (\<lambda>n. nav_active path (fst n)) studentNav) \<le> 1"
    by (rule filter_at_most_one) (rule student_tag [symmetric])
  then show ?thesis using Student_mode by (simp add: shell_nav_def)
next
  case Expert_mode
  have "length (filter (\<lambda>n. nav_active path (fst n)) (expertNav x)) \<le> 1"
    using expert_tags_distinct [of x]
    by (rule filter_at_most_one [where c = "path_tag path"]) (simp add: nav_active_tag)
  then show ?thesis using Expert_mode by (simp add: shell_nav_def)
qed

text \<open>Arriving where an entry of the navigation points to.\<close>

lemma nav_targets_active: "n \<in> set (shell_nav m x) \<Longrightarrow> nav_active (fst n) (fst n)"
  by (cases m; cases x) (auto simp: shell_nav_def studentNav_def expertNav_def nav_active_def)

lemma nav_keeps_mode:
  assumes "n \<in> set (shell_nav (sh_mode s) x)" "fst n \<noteq> ''/expert/apply''"
  shows "sh_mode (shell_step w x s (Arrive (fst n))) = sh_mode s"
  using assms unfolding arrive_mode
  by (cases "sh_mode s"; cases x)
    (auto simp: shell_nav_def studentNav_def expertNav_def expert_surface_def student_surface_def)

lemma filter_unique:
  assumes "length (filter P xs) \<le> 1" "x \<in> set xs" "P x"
  shows "filter P xs = [x]"
proof -
  have "x \<in> set (filter P xs)" using assms by simp
  then show ?thesis using assms(1) by (cases "filter P xs") auto
qed

text \<open>The edge asks for a session on every page of the navigation but the messages.\<close>

lemma edge_guards_nav:
  "n \<in> set (shell_nav m x) \<Longrightarrow>
   resolveRoute (fst n) False = (if fst n = ''/messages'' then None else Some ''/login'')"
  by (cases m; cases x) (auto simp: shell_nav_def studentNav_def expertNav_def route_simps)

section \<open>Lemmas: the tree of the layout\<close>

lemma offered_nav_links: "\<not> offered (map (nav_link path) ns) e"
  by (auto simp: offered_map nav_link_def split: prod.splits)

lemma offered_palette:
  "offered (palette_modal q) e \<Longrightarrow>
   e = Close_palette \<or> (\<exists>t. e = Type_search t) \<or> (\<exists>c \<in> set quickCommands. e = Pick_command (fst (snd c)))"
  by (force simp: palette_modal_def command_button_def offered_map filteredCommands_def split: prod.splits)

lemma palette_targets:
  "list_all (\<lambda>c. fst (snd c) = ''/'' \<or> experienceForPath (fst (snd c)) = App) quickCommands"
  by code_simp

lemma offered_user_menu:
  "offered (user_menu x m u) e \<longleftrightarrow>
   e \<in> {Open_account, Log_out} \<or> e = (if x then (if m = Student_mode then To_expert else To_student) else Open_apply)"
  by (auto simp: user_menu_def split: option.split)

lemma offered_sidebar:
  "offered (sidebar x u s) e \<longleftrightarrow> e = Toggle_sidebar \<or> offered (user_menu x (sh_mode s) u) e"
  by (auto simp: sidebar_def offered_nav_links offered_user_menu)

lemma offered_utility_bar:
  "offered (utility_bar x s) e \<longleftrightarrow> e \<in> {Open_palette, Log_out} \<or> x \<and> e \<in> {To_student, To_expert}"
  by (auto simp: utility_bar_def mobile_sheet_def offers_Box offered_nav_links simp del: offers.simps(6) list.map)

section \<open>Properties\<close>

text \<open>
  C27: the mode survives. In every state the shell can reach while the storage can be written, what the
  storage holds is the mode and the side bar shown: a page of neither role, opened later or in another
  tab, shows the same two.
\<close>

theorem mode_survives:
  assumes "reach shell_start (\<lambda>s e. \<exists>st u. shell_enabled st u s e) (shell_step True x) s"
    and "\<not> expert_surface path" "\<not> student_surface path"
  shows "sh_mode (shell_mount True st (sh_local s) c path) = sh_mode s \<and>
    sh_collapsed (shell_mount True st (sh_local s) c path) = sh_collapsed s"
  using shell.reach_inv [OF assms(1)] assms(2,3) by (simp add: stored_inv_def mount_mode mount_collapsed)

theorem mode_survives_witness:
  "sh_mode (shell_mount True Authenticated
     (sh_local (run (shell_step True True) (shell_mount True Authenticated Map.empty None ''/requests'') [To_expert, Toggle_sidebar]))
     None ''/orders'') = Expert_mode"
proof -
  let ?u = "Some \<lparr>su_name = ''Ada'', su_email = ''a@b'', su_expert = True, su_verified = True, su_timezone = ''UTC''\<rparr>"
  let ?s = "shell_mount True Authenticated Map.empty None ''/requests''"
  have m: "sh_mode ?s = Student_mode" by (simp add: mount_mode expert_surface_def student_surface_def)
  have e: "shell_enabled Authenticated ?u s e" if "e \<in> {To_expert, Toggle_sidebar}" for s e
    using that by (auto simp: AppLayout_def offered_sidebar offered_utility_bar is_expert_user_def)
  have "enabled_run (\<lambda>s e. \<exists>st u. shell_enabled st u s e) (shell_step True True) ?s [To_expert, Toggle_sidebar]"
    using e by (auto simp del: shell_enabled.simps shell_step.simps intro!: exI [of _ Authenticated] exI [of _ ?u])
  then have "reach shell_start (\<lambda>s e. \<exists>st u. shell_enabled st u s e) (shell_step True True)
      (run (shell_step True True) ?s [To_expert, Toggle_sidebar])"
    by (intro reach_run reach_start) blast
  from mode_survives [OF this, of "''/orders''" Authenticated None]
  show ?thesis
    by (simp add: expert_surface_def student_surface_def handleSwitchToExpert_def store_mode_def toggleCollapsed_def Let_def)
qed

text \<open>
  C28: at most one entry of the navigation is marked as the current page, on every path. Following an
  entry keeps the mode and marks exactly that entry, with one exception: for a user who is no expert
  yet, the cockpit of the specialist mode leads to the application, which belongs to the student mode,
  and no entry is marked.
\<close>

theorem navigation_lands:
  assumes "n \<in> set (shell_nav (sh_mode s) x)"
  shows "length (filter (\<lambda>n. nav_active path (fst n)) (shell_nav m x)) \<le> 1 \<and>
    (let s' = shell_step w x s (Arrive (fst n));
         current = filter (\<lambda>n. nav_active (sh_path s') (fst n)) (shell_nav (sh_mode s') x)
     in if fst n = ''/expert/apply'' then sh_mode s' = Student_mode \<and> current = []
        else sh_mode s' = sh_mode s \<and> current = [n])"
proof (cases "fst n = ''/expert/apply''")
  case True
  have "filter (\<lambda>n. nav_active ''/expert/apply'' (fst n)) studentNav = []"
    by (simp add: studentNav_def nav_active_def)
  then show ?thesis
    using True nav_at_most_one arrive_mode [of w x s "''/expert/apply''"]
    by (simp add: Let_def expert_surface_def student_surface_def sync_mode_def store_mode_def shell_nav_def)
next
  case False
  let ?s = "shell_step w x s (Arrive (fst n))"
  have m: "sh_mode ?s = sh_mode s" using nav_keeps_mode assms False by blast
  have p: "sh_path ?s = fst n" by (simp add: sync_mode_def store_mode_def)
  have "filter (\<lambda>n. nav_active (sh_path ?s) (fst n)) (shell_nav (sh_mode ?s) x) = [n]"
    unfolding m p using nav_at_most_one assms nav_targets_active [OF assms] by (rule filter_unique)
  then show ?thesis using False m nav_at_most_one by (simp add: Let_def del: shell_step.simps)
qed

theorem navigation_lands_witness:
  "(let s' = shell_step True True (shell_mount True Authenticated Map.empty None ''/opportunities'') (Arrive ''/expert/reviews'')
    in filter (\<lambda>n. nav_active (sh_path s') (fst n)) (shell_nav (sh_mode s') True) = [(''/expert/reviews'', ''Reviews & Ratings'')])"
proof -
  let ?s = "shell_mount True Authenticated Map.empty None ''/opportunities''"
  have "sh_mode ?s = Expert_mode" by (simp add: mount_mode expert_surface_def)
  then have "(''/expert/reviews'', ''Reviews & Ratings'') \<in> set (shell_nav (sh_mode ?s) True)"
    by (simp add: shell_nav_def expertNav_def)
  note land = navigation_lands [OF this, of "[]" Student_mode True, unfolded Let_def fst_conv, THEN conjunct2]
  have "''/expert/reviews'' \<noteq> ''/expert/apply''" by simp
  from land [unfolded if_not_P [OF this], THEN conjunct2] show ?thesis unfolding Let_def .
qed

text \<open>
  Without a session the layout offers nothing but to try again, and that only when the server
  cannot be reached. With one, only an expert is offered to switch modes, and the palette leads only to
  its ten commands, each of them a page of the workspace or the home page.
\<close>

lemma shell_offers:
  assumes "offered (AppLayout st u s) e"
  shows "(if e = Try_again then st = Unreachable else st = Authenticated) \<and>
    (e \<in> {To_student, To_expert} \<longrightarrow> is_expert_user u) \<and>
    (\<forall>href. e = Pick_command href \<longrightarrow> sh_palette s \<and> (href = ''/'' \<or> experienceForPath href = App))"
proof (cases "st = Authenticated")
  case True
  have cmd: "c \<in> set quickCommands \<Longrightarrow> fst (snd c) = ''/'' \<or> experienceForPath (fst (snd c)) = App" for c
    using palette_targets by (simp add: list_all_iff)
  consider (palette) "sh_palette s" "offered (palette_modal (sh_query s)) e"
    | (side) "offered (sidebar (is_expert_user u) u s) e" | (bar) "offered (utility_bar (is_expert_user u) s) e"
    using assms True by (auto simp: AppLayout_def)
  then show ?thesis
  proof cases
    case palette
    then show ?thesis using offered_palette [OF palette(2)] True cmd by (elim disjE exE bexE) auto
  next
    case side
    then show ?thesis using True by (auto simp: offered_sidebar offered_user_menu split: if_splits)
  next
    case bar
    then show ?thesis using True by (auto simp: offered_utility_bar)
  qed
qed (use assms in \<open>auto simp: AppLayout_def split: if_splits\<close>)

text \<open>
  C29: what signing in hands to the layout. The role that the sign-in stores, where the browser lets it, is the mode the
  layout opens with on every page it routes to that belongs to neither role; without a page to return
  to, the layout opens in the mode of that role even when nothing could be stored, and so it does with the page the layout
  itself asks for, for a student when the role could be stored.
\<close>

theorem login_handoff:
  "(let p' = login_step next (p\<lparr>li_run := Some (Refreshing email res)\<rparr>) LoginRefreshed;
        m = (if login_is_expert email res then Expert_mode else Student_mode);
        target = login_target (login_is_expert email res) next;
        s = shell_mount w Authenticated (Map.empty(''hem_role_mode'' := li_role_mode p')) (li_role_mode p') target
    in li_pushed p' = Some target \<and>
       (li_writable p \<and> \<not> expert_surface target \<and> \<not> student_surface target \<longrightarrow> sh_mode s = m) \<and>
       (next = None \<or> next = Some ''/account'' \<and> (li_writable p \<or> m = Expert_mode) \<longrightarrow> sh_mode s = m))"
proof -
  have "mode_of (Some (role_mode b)) = (if b then Expert_mode else Student_mode)" for b
    by (simp add: mode_of_def role_mode_def)
  then show ?thesis
    by (auto simp: Let_def mount_mode login_target_def expert_surface_def student_surface_def remember_mode_def)
qed

theorem login_handoff_witness:
  "sh_mode (shell_mount True Authenticated
     (Map.empty(''hem_role_mode'' := li_role_mode (login_step None
        ((login_init True None)\<lparr>li_run := Some (Refreshing ''expert@demo.local'' JNull)\<rparr>) LoginRefreshed)))
     (Some ''EXPERT'') ''/opportunities'') = Expert_mode"
  using login_handoff [of None "''expert@demo.local''" JNull "login_init True None" True]
  by (simp add: mount_mode expert_surface_def)

end
