(* ===== verification/Console.thy ===== *)
theory Console
  imports Auth Workspace
begin

text \<open>
  The shells of the operations portal. \<open>app/(portal)/layout.tsx\<close> is the one of the combined application:
  navigation and a command palette, with no session. The separate administration application has its
  own: \<open>apps/admin/src/app/(portal)/layout.tsx\<close>, which asks for a role, and the sign-in
  \<open>apps/admin/src/app/(auth)/login/page.tsx\<close>, which keeps a token in the local storage for the client of
  that application (\<open>admin_apiFetch\<close> of \<open>ApiClient\<close>).
\<close>

section \<open>The portal's layout\<close>

text \<open>Sections: a title, and the target, the label and the badge of each entry.\<close>

definition NAV_SECTIONS :: "(string \<times> (string \<times> string \<times> string option) list) list" where
  "NAV_SECTIONS =
     [(''OPERATIONAL TRIAGE'',
       [(''/portal'', ''Operations Overview'', None), (''/portal/dispatch'', ''Managed Dispatch'', Some ''Live Match''),
        (''/portal/experts'', ''Verification Desk'', Some ''Pending'')]),
      (''DISPUTES & GOVERNANCE'',
       [(''/portal/disputes'', ''Dispute Tribunal'', None), (''/portal/moderation'', ''Content Moderation'', None)]),
      (''TREASURY & AUDIT'',
       [(''/portal/finance'', ''Escrow & Financials'', None), (''/portal/users'', ''User Directory'', None),
        (''/portal/audit'', ''Audit Event Log'', None), (''/portal/config'', ''System Parameters'', None)])]"

definition allNavItems :: "(string \<times> string \<times> string option) list" where
  "allNavItems = concat (map snd NAV_SECTIONS)"

definition portal_commands :: "string \<Rightarrow> (string \<times> string \<times> string option) list" where
  "portal_commands q = filter (\<lambda>i. matches_query q (fst (snd i))) allNavItems"

record portal_shell =
  ps_mobile :: bool
  ps_palette :: bool
  ps_query :: string
  ps_path :: string
  ps_route :: "string option"

definition portal_shell_init :: "string \<Rightarrow> portal_shell" where
  "portal_shell_init path = \<lparr>ps_mobile = False, ps_palette = False, ps_query = [], ps_path = path, ps_route = None\<rparr>"

datatype portal_event =
    Portal_key bool bool string
  | Portal_arrive string
  | Portal_search string
  | Portal_open_palette
  | Portal_pick string
  | Open_sidebar
  | Close_sidebar

fun portal_step :: "portal_shell \<Rightarrow> portal_event \<Rightarrow> portal_shell" where
  "portal_step s (Portal_key meta ctrl k) =
     (let s1 = (if (meta \<or> ctrl) \<and> k = ''k'' then s\<lparr>ps_palette := \<not> ps_palette s\<rparr> else s)
      in if k = ''Escape'' then s1\<lparr>ps_palette := False\<rparr> else s1)"
| "portal_step s (Portal_arrive path) = s\<lparr>ps_path := path\<rparr>"
| "portal_step s (Portal_search q) = s\<lparr>ps_query := q\<rparr>"
| "portal_step s Portal_open_palette = s\<lparr>ps_palette := True\<rparr>"
| "portal_step s (Portal_pick href) = s\<lparr>ps_palette := False, ps_route := Some href\<rparr>"
| "portal_step s Open_sidebar = s\<lparr>ps_mobile := True\<rparr>"
| "portal_step s Close_sidebar = s\<lparr>ps_mobile := False\<rparr>"

definition portal_palette :: "string \<Rightarrow> portal_event ui list" where
  "portal_palette q =
     [Field ''Search'' q Portal_search, Text ''Quick Navigation'']
     @ map (\<lambda>(href, lab, _). Box href [Button lab False (Portal_pick href), Text href]) (portal_commands q)"

definition portal_entry :: "string \<Rightarrow> string \<times> string \<times> string option \<Rightarrow> portal_event ui list" where
  "portal_entry path i =
     (case i of (href, lab, badge) \<Rightarrow>
        [if path = href then Box ''current'' [Link href lab] else Link href lab]
        @ (case badge of None \<Rightarrow> [] | Some b \<Rightarrow> [Text b]))"

definition portal_sidebar :: "string \<Rightarrow> portal_event ui list" where
  "portal_sidebar path =
     [Link ''/portal'' ''HYBRID PLATFORM'', Button ''Close sidebar'' False Close_sidebar,
      Button ''Search Portal...'' False Portal_open_palette]
     @ concat (map (\<lambda>(title, items). Heading title # concat (map (portal_entry path) items)) NAV_SECTIONS)
     @ [Text ''Django API Live'', Link ''http://localhost:3000'' ''Public Marketplace'']"

definition PortalLayout :: "portal_shell \<Rightarrow> portal_event ui list" where
  "PortalLayout s =
     shown_if (ps_palette s) (portal_palette (ps_query s))
     @ shown_if (ps_mobile s) [Button ''backdrop'' False Close_sidebar]
     @ portal_sidebar (ps_path s)
     @ [Button ''Open sidebar'' False Open_sidebar, Badge ''info'' ''OPERATIONS CONSOLE'', Text ''Escrow Custody OK'',
        Text ''Platform Admin'', Text ''SUPERUSER'', Box ''page'' []]"

section \<open>The console's layout\<close>

record console_user =
  cu_name :: string
  cu_email :: string
  cu_admin :: bool
  cu_staff :: bool
  cu_support :: bool

definition console_authorized :: "console_user option \<Rightarrow> bool" where
  "console_authorized u = (case u of None \<Rightarrow> False | Some x \<Rightarrow> cu_admin x \<or> cu_staff x \<or> cu_support x)"

text \<open>The shell of the portal, the local storage (\<open>None\<close> where it throws) and what the router is asked for.\<close>

record console =
  co_shell :: portal_shell
  co_storage :: "(string \<rightharpoonup> string) option"
  co_route :: "string option"

definition console_redirect :: "session_status \<Rightarrow> console \<Rightarrow> console" where
  "console_redirect st s =
     (if st = Unauthenticated then s\<lparr>co_route := Some (''/login?next='' @ encodeURIComponent (ps_path (co_shell s)))\<rparr> else s)"

text \<open>The two ways to sign out: both await the logout, only one forgets the tokens.\<close>

definition forget_tokens :: "(string \<rightharpoonup> string) option \<Rightarrow> (string \<rightharpoonup> string) option" where
  "forget_tokens st = map_option (\<lambda>m. m(''admin_access_token'' := None, ''hm_access_token'' := None)) st"

datatype console_event =
    In_shell portal_event
  | Console_session session_status
  | Sign_out
  | Switch_account
  | Signed_out "failure + unit"

fun console_step :: "console \<Rightarrow> console_event \<Rightarrow> console" where
  "console_step s (In_shell e) =
     (let s' = portal_step (co_shell s) e
      in s\<lparr>co_shell := s', co_route := (case e of Portal_pick href \<Rightarrow> Some href | _ \<Rightarrow> co_route s)\<rparr>)"
| "console_step s (Console_session st) = console_redirect st s"
| "console_step s Sign_out = s\<lparr>co_storage := forget_tokens (co_storage s)\<rparr>"
| "console_step s Switch_account = s"
| "console_step s (Signed_out r) = (case r of Inr _ \<Rightarrow> s\<lparr>co_route := Some ''/login''\<rparr> | Inl _ \<Rightarrow> s)"

definition console_initial :: "console_user option \<Rightarrow> string" where
  "console_initial u =
     (case u of
        None \<Rightarrow> ''A''
      | Some x \<Rightarrow> to_upper (if cu_name x \<noteq> [] then take 1 (cu_name x) else if cu_email x \<noteq> [] then take 1 (cu_email x) else ''A''))"

definition console_role :: "console_user option \<Rightarrow> string" where
  "console_role u =
     (case u of
        None \<Rightarrow> ''SUPPORT''
      | Some x \<Rightarrow> if cu_admin x then ''SUPERUSER'' else if cu_staff x then ''STAFF'' else ''SUPPORT'')"

definition access_restricted :: "console_user option \<Rightarrow> console_event ui list" where
  "access_restricted u =
     [Heading ''Operations Access Restricted'',
      Text (''Authenticated as '' @ (case u of None \<Rightarrow> [] | Some x \<Rightarrow> cu_email x)
        @ '', but this account does not possess operations or staff privileges.''),
      Button ''Sign Out & Switch Account'' False Switch_account, Link ''http://localhost:3000'' ''Go to Marketplace'']"

definition ConsoleLayout :: "session_status \<Rightarrow> console_user option \<Rightarrow> console \<Rightarrow> console_event ui list" where
  "ConsoleLayout st u s =
     (if st = Loading then [Box ''loading'' []]
      else if st = Unauthenticated then [Text ''Redirecting to Operations Sign-In...'']
      else if \<not> console_authorized u then access_restricted u
      else
        map (map_events In_shell)
          (shown_if (ps_palette (co_shell s)) (portal_palette (ps_query (co_shell s)))
           @ shown_if (ps_mobile (co_shell s)) [Button ''backdrop'' False Close_sidebar]
           @ portal_sidebar (ps_path (co_shell s))
           @ [Button ''Open sidebar'' False Open_sidebar, Badge ''info'' ''OPERATIONS CONSOLE''])
        @ [Text (console_initial u), Text (case u of None \<Rightarrow> ''Platform Admin'' | Some x \<Rightarrow> or_else (cu_name x) ''Platform Admin''),
           Text (console_role u), Button ''Sign Out'' False Sign_out, Box ''page'' []])"

section \<open>Signing in to the console\<close>

text \<open>A run of \<open>performLogin\<close>: the answer awaited, or the refresh after it.\<close>

datatype console_run = Awaiting_login | Refreshing_console json

record console_login =
  cl_email :: string
  cl_password :: string
  cl_show :: bool
  cl_submitting :: bool
  cl_error :: "string option"
  cl_run :: "console_run option"
  cl_storage :: "(string \<rightharpoonup> string) option"
  cl_cookie :: "string option"          \<comment> \<open>the cookie \<open>hm_access\<close> as set by the script\<close>
  cl_pushed :: "string option"

definition console_login_init :: "(string \<rightharpoonup> string) option \<Rightarrow> string option \<Rightarrow> console_login" where
  "console_login_init st cookie =
     \<lparr>cl_email = ''admin@example.com'', cl_password = ''password123'', cl_show = False, cl_submitting = False, cl_error = None,
      cl_run = None, cl_storage = st, cl_cookie = cookie, cl_pushed = None\<rparr>"

definition store_token :: "json option \<Rightarrow> console_login \<Rightarrow> console_login" where
  "store_token token p =
     (if json_truthy token
      then (case cl_storage p of
              None \<Rightarrow> p
            | Some m \<Rightarrow>
                (let t = text_of token
                 in p\<lparr>cl_storage := Some (m(''admin_access_token'' \<mapsto> t, ''hm_access_token'' \<mapsto> t)), cl_cookie := Some t\<rparr>))
      else p)"

definition login_authorized :: "json \<Rightarrow> bool" where
  "login_authorized res \<longleftrightarrow>
     (\<exists>role \<in> {''admin'', ''staff'', ''support''}. json_truthy (get_path (Some res) [''user'', ''roles'', role]))"

definition console_target :: "string option \<Rightarrow> string" where
  "console_target next =
     (case next of
        Some n \<Rightarrow> if n \<noteq> [] \<and> starts_with n ''/'' \<and> \<not> starts_with n ''/login'' then n else ''/portal''
      | None \<Rightarrow> ''/portal'')"

datatype console_login_event =
    Type_console_email string
  | Type_console_password string
  | Toggle_console_show
  | One_click
  | Submit_console
  | Console_answer "failure + json"
  | Console_refreshed

definition access_denied :: string where
  "access_denied = ''Access denied: Account authenticated, but your profile lacks Operations Console / Staff privileges.''"

fun console_login_step :: "string option \<Rightarrow> console_login \<Rightarrow> console_login_event \<Rightarrow> console_login" where
  "console_login_step next p (Type_console_email s) = p\<lparr>cl_email := s\<rparr>"
| "console_login_step next p (Type_console_password s) = p\<lparr>cl_password := s\<rparr>"
| "console_login_step next p Toggle_console_show = p\<lparr>cl_show := \<not> cl_show p\<rparr>"
| "console_login_step next p One_click = p\<lparr>cl_error := None, cl_submitting := True, cl_run := Some Awaiting_login\<rparr>"
| "console_login_step next p Submit_console = p\<lparr>cl_error := None, cl_submitting := True, cl_run := Some Awaiting_login\<rparr>"
| "console_login_step next p (Console_answer r) =
     (case r of
        Inl e \<Rightarrow> p\<lparr>cl_error := Some (authErrorMessage e), cl_submitting := False, cl_run := None\<rparr>
      | Inr res \<Rightarrow>
          (case member_of (Some res) ''access'' of
             Inl e \<Rightarrow> p\<lparr>cl_error := Some (authErrorMessage e), cl_submitting := False, cl_run := None\<rparr>
           | Inr token \<Rightarrow> (store_token token p)\<lparr>cl_run := Some (Refreshing_console res)\<rparr>))"
| "console_login_step next p Console_refreshed =
     (case cl_run p of
        Some (Refreshing_console res) \<Rightarrow>
          (if login_authorized res then p\<lparr>cl_pushed := Some (console_target next)\<rparr> else p\<lparr>cl_error := Some access_denied\<rparr>)
            \<lparr>cl_submitting := False, cl_run := None\<rparr>
      | _ \<Rightarrow> p)"

fun console_login_call :: "string \<Rightarrow> console_login \<Rightarrow> console_login_event \<Rightarrow> api_init option" where
  "console_login_call b p One_click = Some (authApi_login b ''admin@example.com'' ''password123'')"
| "console_login_call b p Submit_console = Some (authApi_login b (trim (cl_email p)) (cl_password p))"
| "console_login_call b p _ = None"

definition AdminLoginForm :: "console_login \<Rightarrow> console_login_event ui list" where
  "AdminLoginForm p =
     [Text ''Operations Gateway'', Heading ''Operations Sign-In'', Text ''Platform Administrator'',
      Text ''admin@example.com - Superuser'', Badge ''success'' ''Ready'',
      Button ''1-Click Platform Owner Sign-In'' (cl_submitting p) One_click, Text ''Or Enter Credentials'']
     @ (if truthy (cl_error p) then [Text (the (cl_error p))] else [])
     @ [Field ''Staff Email Address'' (cl_email p) Type_console_email,
        Field ''Security Key / Password'' (cl_password p) Type_console_password,
        Button (if cl_show p then ''Hide password'' else ''Show password'') False Toggle_console_show,
        Button ''Authenticate Session'' (cl_submitting p) Submit_console]"

section \<open>Lemmas\<close>

lemma offered_portal_entry [simp]: "\<not> offered (portal_entry path i) e"
  by (auto simp: portal_entry_def split: prod.split option.split)

lemma offered_concat: "offered (concat uss) e = (\<exists>us \<in> set uss. offered us e)"
  by (auto simp: offered_def)

lemma offered_portal_sidebar: "offered (portal_sidebar path) e \<longleftrightarrow> e \<in> {Close_sidebar, Portal_open_palette}"
  by (auto simp: portal_sidebar_def offered_concat split: prod.splits)

lemma portal_paths:
  "list_all (\<lambda>i. experienceForPath (fst i) = Portal \<and> \<not> inRedirectScope (fst i) \<and> resolveRoute (fst i) False = Some ''/login'') allNavItems"
  by code_simp

lemma stored_token:
  assumes "cl_storage p = Some m" "get_field res ''access'' = Some (JStr t)" "t \<noteq> []"
  shows "cl_storage (console_login_step next p (Console_answer (Inr res))) =
    Some (m(''admin_access_token'' \<mapsto> t, ''hm_access_token'' \<mapsto> t))"
proof -
  obtain fs where "res = JObj fs" using assms(2) by (cases res) auto
  then show ?thesis using assms by (simp add: store_token_def Let_def)
qed

text \<open>An authorized request of the client carries the token of the storage.\<close>

lemma admin_headers_token:
  assumes "storage w = Some m" "m ''admin_access_token'' = Some t \<or> m ''admin_access_token'' = None \<and> m ''hm_access_token'' = Some t"
    and "t \<noteq> []" "\<not> truthy (base_headers i ''Authorization'')"
  shows "admin_headers i (Some w) ''Authorization'' = Some (''Bearer '' @ t)"
  using assms by (auto simp: admin_headers_def admin_token_def Let_def)

lemma forgotten_no_token: "storage w = forget_tokens st \<Longrightarrow> \<not> truthy (admin_token w)"
  by (cases st) (simp_all add: forget_tokens_def admin_token_def)

text \<open>Signing out of an account without the privileges keeps its token.\<close>

lemma switch_account_keeps_token: "co_storage (console_step s Switch_account) = co_storage s"
  by simp

lemma console_target_rooted: "starts_with (console_target n) ''/''"
  by (auto simp: console_target_def split: option.split)

section \<open>Properties\<close>



text \<open>
  C35: what becomes of the token. After a sign-in whose answer carries a token, every request of the client
  that brings no authorization of its own carries it. A 401 is meant to end that: the client takes the
  token out of the storage, but only one of its two copies, so that the next request carries it again.
  Signing out takes out both.
\<close>

theorem stale_token_survives:
  assumes "cl_storage p = Some m" "get_field res ''access'' = Some (JStr t)" "t \<noteq> []"
    and "\<not> truthy (base_headers i ''Authorization'')"
    and "w = \<lparr>storage = cl_storage (console_login_step next p (Console_answer (Inr res))), loc_pathname = lp, loc_search = ls,
              navigate_to = None\<rparr>"
  shows "admin_headers i (Some w) ''Authorization'' = Some (''Bearer '' @ t) \<and>
    admin_headers i (Some (on_unauthorized path w)) ''Authorization'' = Some (''Bearer '' @ t) \<and>
    \<not> truthy (admin_headers i (Some (w\<lparr>storage := forget_tokens (storage w)\<rparr>)) ''Authorization'')"
proof (intro conjI)
  have st: "storage w = Some (m(''admin_access_token'' \<mapsto> t, ''hm_access_token'' \<mapsto> t))"
    using stored_token [OF assms(1,2,3)] assms(5) by simp
  show "admin_headers i (Some w) ''Authorization'' = Some (''Bearer '' @ t)"
    using st assms(3,4) by (intro admin_headers_token) auto
  have "storage (on_unauthorized path w) = Some (m(''admin_access_token'' := None, ''hm_access_token'' \<mapsto> t))"
    using st by (auto simp: on_unauthorized_def Let_def)
  then show "admin_headers i (Some (on_unauthorized path w)) ''Authorization'' = Some (''Bearer '' @ t)"
    using assms(3,4) by (intro admin_headers_token) auto
  have "\<not> truthy (admin_token (w\<lparr>storage := forget_tokens (storage w)\<rparr>))"
    by (rule forgotten_no_token) simp
  then show "\<not> truthy (admin_headers i (Some (w\<lparr>storage := forget_tokens (storage w)\<rparr>)) ''Authorization'')"
    using assms(4) by (simp add: admin_headers_def Let_def)
qed

theorem stale_token_survives_witness:
  "(let w = \<lparr>storage = cl_storage (console_login_step None (console_login_init (Some Map.empty) None)
        (Console_answer (Inr (JObj [(''access'', JStr ''jwt'')])))), loc_pathname = ''/portal'', loc_search = [], navigate_to = None\<rparr>
    in admin_headers (get_req ''/api/v1/me'') (Some (on_unauthorized ''/api/v1/me'' w)) ''Authorization'' = Some ''Bearer jwt'')"
proof -
  have "\<not> truthy (base_headers (get_req ''/api/v1/me'') ''Authorization'')"
    by (simp add: base_headers_def get_req_def Let_def)
  then show ?thesis
    using stale_token_survives [of "console_login_init (Some Map.empty) None" Map.empty "JObj [(''access'', JStr ''jwt'')]" "''jwt''"
        "get_req ''/api/v1/me''" _ None "''/portal''" "[]" "''/api/v1/me''"]
    by (simp add: console_login_init_def Let_def del: console_login_step.simps)
qed

text \<open>The query string of the address a 401 navigates to: one parameter, the page that was open.\<close>

lemma parse_next: "parse_query (''next='' @ encodeURIComponent page) = [(''next'', page)]"
proof -
  let ?v = "encodeURIComponent page"
  have amp: "CHR ''&'' \<notin> set (''next='' @ ?v)" using encodeURIComponent_plain [of page] by auto
  have "split_first (CHR ''='') (''next'' @ CHR ''='' # ?v) = (''next'', ?v)"
    by (rule split_first_append) simp
  moreover have "form_decode ''next'' = ''next''" by code_simp
  ultimately show ?thesis using amp by (simp add: parse_query_def split_on_no_sep)
qed

text \<open>The answer to a call, apart from the headers it was sent with, is handled as by the other client.\<close>

lemma admin_answer:
  "fst (admin_apiFetch fetch env win i)
     = apiFetch (\<lambda>q. fetch (q\<lparr>http_headers := admin_headers i win\<rparr>)) env i"
  by (simp add: admin_apiFetch_def apiFetch_def split: outcome.split sum.split)

lemma kept_page:
  assumes "starts_with path ''/''" "\<not> starts_with path ''/login''" "q = [] \<or> hd q = CHR ''?''"
  shows "console_target (Some (path @ q)) = path @ q"
proof -
  have "\<not> starts_with (path @ q) ''/login''"
  proof
    assume "starts_with (path @ q) ''/login''"
    then obtain us where us: "''/login'' = path @ us" "prefix us q" using assms(2) by (auto simp: prefix_append)
    show False
    proof (cases us)
      case Nil
      then show False using us(1) assms(2) by simp
    next
      case (Cons u us')
      then have "u = CHR ''?''" using us(2) assms(3) by (cases q) auto
      then have "CHR ''?'' \<in> set ''/login''" unfolding us(1) Cons by simp
      then show False by simp
    qed
  qed
  then show ?thesis using assms(1) by (auto simp: console_target_def prefix_append)
qed

text \<open>
  C36: an operator whose session has ended is brought back. A call of the administration client that is
  answered with a 401 - on any page but the sign-in, any call but the sign-in and the sign-out - throws the
  error of the answer, takes the console's token out of the storage and sends the browser to the sign-in; the
  address it is sent to, read by that page, makes an authorized sign-in route to the page that was open, its
  query included, whatever characters they hold. With any other answer the client handles the call as the
  client of the other applications does and leaves the browser as it was.
\<close>

theorem expired_session_returns:
  assumes "fetch ((api_request env i)\<lparr>http_headers := admin_headers i (Some w)\<rparr>) = Response r"
    and "read_payload r = Inr payload"
    and "\<not> str_includes (init_path i) ''/auth/token''" "\<not> str_includes (init_path i) ''/auth/logout''"
    and "starts_with (loc_pathname w) ''/''" "\<not> starts_with (loc_pathname w) ''/login''"
    and "loc_search w = [] \<or> hd (loc_search w) = CHR ''?''"
    and "login_authorized answer"
  shows "fst (admin_apiFetch fetch env (Some w) i)
      = apiFetch (\<lambda>q. fetch (q\<lparr>http_headers := admin_headers i (Some w)\<rparr>)) env i \<and>
    (if res_status r = 401
     then \<exists>w' q. admin_apiFetch fetch env (Some w) i = (Inl (Api (envelope_error 401 payload)), Some w') \<and>
       storage w' = map_option (\<lambda>m. m(''admin_access_token'' := None)) (storage w) \<and>
       navigate_to w' = Some (''/login?'' @ q) \<and>
       cl_pushed (console_login_step (map_of (parse_query q) ''next'')
           (p\<lparr>cl_run := Some (Refreshing_console answer)\<rparr>) Console_refreshed)
         = Some (loc_pathname w @ loc_search w)
     else snd (admin_apiFetch fetch env (Some w) i) = Some w)"
proof -
  define page where "page = ''next='' @ encodeURIComponent (loc_pathname w @ loc_search w)"
  have brought: "cl_pushed (console_login_step (map_of (parse_query page) ''next'')
      (p\<lparr>cl_run := Some (Refreshing_console answer)\<rparr>) Console_refreshed) = Some (loc_pathname w @ loc_search w)"
    using parse_next [of "loc_pathname w @ loc_search w"] kept_page [OF assms(5-7)] assms(8)
    by (simp add: page_def)
  have "\<exists>w'. admin_apiFetch fetch env (Some w) i = (Inl (Api (envelope_error 401 payload)), Some w') \<and>
      storage w' = map_option (\<lambda>m. m(''admin_access_token'' := None)) (storage w) \<and>
      navigate_to w' = Some (''/login?'' @ page)" if "res_status r = 401"
    using assms(1-4,6) that by (simp add: admin_apiFetch_def res_ok_def on_unauthorized_def Let_def page_def)
  moreover have "snd (admin_apiFetch fetch env (Some w) i) = Some w" if "res_status r \<noteq> 401"
    using assms(1) that by (simp add: admin_apiFetch_def split: sum.split)
  ultimately show ?thesis using admin_answer brought by (simp del: console_login_step.simps) blast
qed

definition admin_answer_json :: json where
  "admin_answer_json = JObj [(''user'', JObj [(''roles'', JObj [(''admin'', JBool True)])])]"

theorem expired_session_returns_witness:
  "\<exists>q. navigate_to (the (snd (admin_apiFetch
        (\<lambda>_. Response \<lparr>res_status = 401, res_type = None, res_json = None\<rparr>) Map.empty
        (Some \<lparr>storage = Some [''hm_access_token'' \<mapsto> ''jwt''], loc_pathname = ''/portal/audit'', loc_search = ''?page=2'',
                navigate_to = None\<rparr>) portalApi_config))) = Some (''/login?'' @ q) \<and>
     cl_pushed (console_login_step (map_of (parse_query q) ''next'')
       ((console_login_init None None)\<lparr>cl_run := Some (Refreshing_console admin_answer_json)\<rparr>) Console_refreshed)
     = Some ''/portal/audit?page=2''"
proof -
  let ?w = "\<lparr>storage = Some [''hm_access_token'' \<mapsto> ''jwt''], loc_pathname = ''/portal/audit'', loc_search = ''?page=2'',
    navigate_to = None\<rparr>"
  let ?r = "\<lparr>res_status = 401, res_type = None, res_json = None\<rparr> :: http_response"
  have path: "\<not> str_includes (init_path portalApi_config) ''/auth/token''"
    "\<not> str_includes (init_path portalApi_config) ''/auth/logout''" by code_simp+
  have auth: "login_authorized admin_answer_json" by code_simp
  have pay: "read_payload ?r = Inr JNull" by (simp add: read_payload_def Let_def)
  show ?thesis
    using expired_session_returns [where fetch = "\<lambda>_. Response ?r" and env = Map.empty and i = portalApi_config
        and w = ?w and r = ?r and payload = JNull and answer = admin_answer_json and p = "console_login_init None None"]
      pay path auth
    by (auto simp del: console_login_step.simps)
qed

end
