(* ===== verification/PublicPages.thy ===== *)
theory PublicPages
  imports Discovery Console Numbers
begin

text \<open>
  The pages for visitors under \<open>app/(marketing)\<close> that read from the API: subjects, the directory of experts and an
  expert's profile, with the metadata they give to search engines; the header of the site,
  \<open>components/nav/SiteHeader.tsx\<close>, and the status card \<open>features/status/StatusCard.tsx\<close>.

  A page rendered on the server is a function of the answers of \<open>lib/api/public.ts\<close>. Of the structured data a page
  publishes, the model has what depends on the payload.
\<close>

section \<open>Metadata\<close>

record page_metadata =
  pm_title :: string
  pm_description :: "string option"
  pm_canonical :: "string option"
  pm_indexed :: bool

datatype 'e page_result = Not_found | Page "'e ui list"

text \<open>\<open>n === 1 ? "" : "s"\<close>.\<close>

definition plural :: "nat \<Rightarrow> string" where
  "plural n = (if n = 1 then [] else ''s'')"

section \<open>Subjects\<close>

text \<open>The related subjects are names and slugs.\<close>

record subject_detail =
  sd_name :: string
  sd_slug :: string
  sd_description :: string
  sd_parent :: "string option"
  sd_count :: nat
  sd_related :: "(string \<times> string) list"

record directory_expert =
  de_slug :: string
  de_name :: string
  de_headline :: string
  de_summary :: string
  de_rating :: string
  de_reviews :: nat
  de_availability :: string

definition SubjectsPage :: "listed_subject list option \<Rightarrow> 'e ui list" where
  "SubjectsPage data =
     (let subjects = nullish data []; staffed = filter (\<lambda>s. 0 < ls_count s) subjects; unstaffed = filter (\<lambda>s. ls_count s = 0) subjects
      in [Heading ''Subjects'', Text ''Every subject the marketplace covers. Pick one to see the experts available, or'',
          Link ''/experts'' ''browse the full directory'']
         @ (if subjects = []
            then [Heading ''Subjects are unavailable right now'', Text ''We could not load the subject list. You can still'',
                  Link ''/experts'' ''browse every expert'']
            else map (\<lambda>s. Box (ls_slug s) [Link (''/subjects/'' @ ls_slug s) (ls_name s),
                                           Text (show_nat (ls_count s) @ '' expert'' @ plural (ls_count s))]) staffed
                 @ shown_if (unstaffed \<noteq> [])
                     (Heading ''Subjects without a listed expert yet''
                      # Text ''You can still post a request in these -- the managed service will match an expert.''
                      # map (\<lambda>s. Link (''/subjects/'' @ ls_slug s) (ls_name s)) unstaffed)))"

definition subject_canonical :: "env \<Rightarrow> subject_detail \<Rightarrow> string" where
  "subject_canonical env d = SITE_URL env @ ''/subjects/'' @ sd_slug d"

definition subject_metadata :: "env \<Rightarrow> subject_detail option \<Rightarrow> page_metadata" where
  "subject_metadata env data =
     (case data of
        None \<Rightarrow> \<lparr>pm_title = ''Subject'', pm_description = None, pm_canonical = None, pm_indexed = False\<rparr>
      | Some d \<Rightarrow>
          \<lparr>pm_title = sd_name d @ '' experts & tutoring'',
           pm_description = Some (or_else (sd_description d)
             (''Find vetted '' @ sd_name d @ '' experts for tutoring, coaching, feedback and exam preparation.'')),
           pm_canonical = Some (subject_canonical env d), pm_indexed = (sd_count d \<noteq> 0)\<rparr>)"

text \<open>The list of a subject's experts as structured data: position, address and name.\<close>

definition subject_items :: "env \<Rightarrow> directory_expert list \<Rightarrow> (nat \<times> string \<times> string) list" where
  "subject_items env xs =
     map (\<lambda>(i, x). (i + 1, SITE_URL env @ ''/experts/'' @ de_slug x, de_name x)) (zip [0..<length xs] xs)"

definition availability_badge :: "string \<Rightarrow> 'e ui" where
  "availability_badge a = (if a = ''available'' then Badge ''success'' ''Available'' else Badge ''neutral'' ''Paused'')"

definition expert_teaser :: "directory_expert \<Rightarrow> 'e ui" where
  "expert_teaser x =
     Box (de_slug x)
       ([Link (''/experts/'' @ de_slug x) (de_name x), Text (de_headline x), availability_badge (de_availability x), Text (de_summary x)]
        @ shown_if (0 < de_reviews x)
            [Text (''* '' @ de_rating x @ '' - '' @ show_nat (de_reviews x) @ '' review'' @ plural (de_reviews x))])"

definition subject_body :: "subject_detail \<Rightarrow> directory_expert list \<Rightarrow> 'e ui list" where
  "subject_body d experts =
     [Link ''/'' ''Home'', Link ''/subjects'' ''Subjects'', Text (sd_name d), Heading (''Find help in '' @ sd_name d),
      Text (or_else (sd_description d)
        (''Vetted '' @ sd_name d @ '' experts for tutoring, coaching, feedback and exam preparation.'')),
      Text ((if sd_count d = 0 then ''No experts are listed in this subject yet.''
             else show_nat (sd_count d) @ '' expert'' @ plural (sd_count d) @ '' available'')
            @ (case sd_parent d of None \<Rightarrow> [] | Some n \<Rightarrow> '' - part of '' @ n))]
     @ (if experts \<noteq> []
        then Heading (''Experts in '' @ sd_name d) # map expert_teaser experts
             @ [Link (''/experts?subject='' @ sd_slug d) (''See all '' @ sd_name d @ '' experts'')]
        else [Heading (''No '' @ sd_name d @ '' experts listed yet''),
              Text ''You can still post a request -- the managed service reviews it and matches a vetted expert for you, and experts joining this subject will see it in the marketplace.'',
              Link ''/register'' ''Post a request'', Link ''/experts'' ''Browse every expert''])
     @ [Heading (''How getting '' @ sd_name d @ '' help works''), Link ''/how-it-works'' ''Read the full walkthrough'',
        Link ''/pricing'' ''See what it costs'']
     @ shown_if (sd_related d \<noteq> [])
         (Heading ''Related subjects'' # map (\<lambda>(n, s). Link (''/subjects/'' @ s) n) (sd_related d))"

text \<open>The page asks for the subject and, when there is one, for its experts.\<close>

definition SubjectPage where
  "SubjectPage fetch env subject_of experts_of slug =
     (let answer = getSubject fetch env slug
      in if notFound answer then Not_found
         else (case pub_data answer of
                 None \<Rightarrow>
                   Page [Heading ''Subject unavailable'', Text ''We could not load this subject just now. Please try again shortly, or'',
                         Link ''/experts'' ''browse every expert'']
               | Some v \<Rightarrow>
                   let d = subject_of v
                   in Page (subject_body d
                        (case pub_data (getExpertsForSubject fetch env (sd_slug d) 12) of
                           None \<Rightarrow> [] | Some w \<Rightarrow> nullish (experts_of w) []))))"

section \<open>An expert's metadata\<close>

text \<open>The two figures as \<open>Number\<close> reads them; \<open>None\<close> is not a number.\<close>

record expert_detail =
  xd_slug :: string
  xd_name :: string
  xd_headline :: string
  xd_summary :: string
  xd_languages :: string
  xd_rating :: "rat option"
  xd_reviews :: "rat option"
  xd_subjects :: "string list"

definition ratingOf :: "expert_detail \<Rightarrow> (rat \<times> rat) option" where
  "ratingOf x =
     (case (xd_rating x, xd_reviews x) of
        (Some v, Some n) \<Rightarrow> (if 0 < n \<and> 0 < v then Some (v, n) else None)
      | _ \<Rightarrow> None)"

definition expert_canonical :: "env \<Rightarrow> expert_detail \<Rightarrow> string" where
  "expert_canonical env x = SITE_URL env @ ''/experts/'' @ xd_slug x"

definition expert_metadata :: "env \<Rightarrow> expert_detail option \<Rightarrow> page_metadata" where
  "expert_metadata env data =
     (case data of
        None \<Rightarrow> \<lparr>pm_title = ''Expert profile'', pm_description = None, pm_canonical = None, pm_indexed = False\<rparr>
      | Some x \<Rightarrow>
          \<lparr>pm_title = xd_name x @ '' -- '' @ or_else (xd_summary x) ''vetted expert'',
           pm_description = Some (or_else (trim (xd_headline x)) (or_else (trim (xd_summary x))
             (xd_name x @ '' is a vetted expert on Hybrid Expert Marketplace.''))),
           pm_canonical = Some (expert_canonical env x), pm_indexed = True\<rparr>)"

record expert_ld =
  ld_url :: string
  ld_name :: string
  ld_description :: "string option"
  ld_about :: "string list"
  ld_languages :: "string list option"
  ld_rating :: "(rat \<times> rat) option"

definition expert_json_ld :: "env \<Rightarrow> expert_detail option \<Rightarrow> expert_ld option" where
  "expert_json_ld env data =
     map_option (\<lambda>x.
       \<lparr>ld_url = expert_canonical env x, ld_name = xd_name x,
        ld_description = (let t = or_else (xd_headline x) (xd_summary x) in if t = [] then None else Some t),
        ld_about = xd_subjects x,
        ld_languages = (if xd_languages x = [] then None
                        else Some (filter (\<lambda>l. l \<noteq> []) (map trim (split_on (CHR '','') (xd_languages x))))),
        ld_rating = ratingOf x\<rparr>) data"

section \<open>The directory\<close>

record listed_term =
  lt_name :: string
  lt_slug :: string

record listed_profile =
  px_slug :: string
  px_name :: string
  px_headline :: string
  px_bio :: string
  px_summary :: string
  px_years :: nat
  px_qualifications :: string
  px_languages :: string
  px_timezone :: string
  px_availability :: string
  px_subjects :: "listed_term list"
  px_skills :: "listed_term list"
  px_rating :: "string option"
  px_reviews :: nat

text \<open>Each query has an effect of its own, numbered; only the answer of the last one is taken.\<close>

record expert_directory =
  ed_q :: string
  ed_effect :: nat
  ed_experts :: "listed_profile list option"
  ed_error :: "string option"

definition directory_init :: expert_directory where
  "directory_init = \<lparr>ed_q = [], ed_effect = 0, ed_experts = None, ed_error = None\<rparr>"

datatype directory_event =
    OpenDirectory
  | TypeExpertSearch string
  | DirectoryIs nat "failure + listed_profile list"

fun directory_step :: "expert_directory \<Rightarrow> directory_event \<Rightarrow> expert_directory" where
  "directory_step p OpenDirectory = p"
| "directory_step p (TypeExpertSearch s) =
     (if s = ed_q p then p else p\<lparr>ed_q := s, ed_effect := Suc (ed_effect p)\<rparr>)"
| "directory_step p (DirectoryIs n (Inr xs)) = (if n = ed_effect p then p\<lparr>ed_experts := Some xs\<rparr> else p)"
| "directory_step p (DirectoryIs n (Inl e)) =
     (if n = ed_effect p then p\<lparr>ed_error := Some ''The directory is unavailable right now. Please try again.''\<rparr> else p)"

definition directory_load :: "string \<Rightarrow> string \<Rightarrow> api_init" where
  "directory_load base q = expertsApi_directory base (if trim q \<noteq> [] then [(''q'', trim q)] else [])"

fun directory_call :: "string \<Rightarrow> expert_directory \<Rightarrow> directory_event \<Rightarrow> api_init option" where
  "directory_call base p OpenDirectory = Some (directory_load base (ed_q p))"
| "directory_call base p (TypeExpertSearch s) = (if s = ed_q p then None else Some (directory_load base s))"
| "directory_call base p _ = None"

definition directory_card :: "listed_profile \<Rightarrow> directory_event ui" where
  "directory_card x =
     Box (px_slug x)
       ([Link (''/experts/'' @ px_slug x) (px_name x), Text (px_headline x), availability_badge (px_availability x), Text (px_summary x)]
        @ map (\<lambda>t. Badge ''info'' (lt_name t)) (take 3 (px_subjects x))
        @ shown_if (0 < px_reviews x)
            [Text (''* '' @ nullish (px_rating x) []), Text (show_nat (px_reviews x) @ '' review'' @ plural (px_reviews x))])"

definition ExpertDirectoryPage :: "expert_directory \<Rightarrow> directory_event ui list" where
  "ExpertDirectoryPage p =
     [Heading ''Expert Directory'',
      Text ''Browse vetted scholars, educators, and domain practitioners. Every specialist has passed identity and credential verification.'',
      Field ''Search experts'' (ed_q p) TypeExpertSearch]
     @ alert_if (ed_error p)
     @ shown_if (ed_experts p = None \<and> \<not> truthy (ed_error p)) [Box ''directory-loading'' []]
     @ shown_if (ed_experts p = Some [])
         [Text ''No experts match your search query. Try broader keywords or browse subjects.'']
     @ map directory_card (nullish (ed_experts p) [])"

section \<open>An expert's profile\<close>

datatype profile_phase = Pf_loading | Pf_ready | Pf_missing

record public_profile =
  pp_expert :: "listed_profile option"
  pp_feed :: "(review list \<times> nat) option"
  pp_state :: profile_phase

definition public_profile_init :: public_profile where
  "public_profile_init = \<lparr>pp_expert = None, pp_feed = None, pp_state = Pf_loading\<rparr>"

datatype public_profile_event =
    ExpertIs "failure + listed_profile"
  | PublicReviewsAre "failure + review list \<times> nat"

fun public_profile_step :: "public_profile \<Rightarrow> public_profile_event \<Rightarrow> public_profile" where
  "public_profile_step p (ExpertIs (Inr x)) = p\<lparr>pp_expert := Some x, pp_state := Pf_ready\<rparr>"
| "public_profile_step p (ExpertIs (Inl e)) = p\<lparr>pp_state := Pf_missing\<rparr>"
| "public_profile_step p (PublicReviewsAre (Inr f)) = p\<lparr>pp_feed := Some f\<rparr>"
| "public_profile_step p (PublicReviewsAre (Inl e)) = p"

text \<open>The reviews are asked for when the expert has come.\<close>

fun public_profile_call :: "string \<Rightarrow> string \<Rightarrow> public_profile_event \<Rightarrow> api_init option" where
  "public_profile_call base slug (ExpertIs (Inr x)) = Some (reviewsApi_public (Some base) slug)"
| "public_profile_call base slug _ = None"

definition expert_rating :: "listed_profile \<Rightarrow> public_profile_event ui list" where
  "expert_rating x =
     (case px_rating x of
        Some v \<Rightarrow>
          (if 0 < px_reviews x
           then (case to_number v of
                   None \<Rightarrow> [Box ''Rating: NaN out of 5'' [Text [], Text []]]
                 | Some n \<Rightarrow> (if 0 \<le> math_round n then Stars (nat (math_round n)) else [Throws ''RangeError'']))
                @ [Text v, Text ('' - '' @ show_nat (px_reviews x) @ '' review'' @ plural (px_reviews x) @ '' (recency-weighted)'')]
           else [Text ''No reviews yet''])
      | None \<Rightarrow> [Text ''No reviews yet''])"

definition public_reviews :: "(review list \<times> nat) option \<Rightarrow> public_profile_event ui list" where
  "public_reviews feed =
     Heading ''Reviews''
     # (case feed of
          None \<Rightarrow> []
        | Some (rs, n) \<Rightarrow>
            if rs = []
            then [Text (''No published reviews yet'' @ (if n = 0 then [] else '' (moderation may hide reviews temporarily)'') @ ''.'')]
            else concat (map ReviewCard rs))"

definition ExpertPublicProfilePage :: "public_profile \<Rightarrow> public_profile_event ui list" where
  "ExpertPublicProfilePage p =
     (case (pp_state p, pp_expert p) of
        (Pf_loading, _) \<Rightarrow> [Box ''profile-loading'' []]
      | (Pf_ready, Some x) \<Rightarrow>
          [Link ''/experts'' ''Directory'', Heading (px_name x), Text (px_headline x), Box ''expert-rating'' (expert_rating x),
           availability_badge (px_availability x), Heading ''About'', Text (px_bio x), Text (''Expertise '' @ px_summary x),
           Text (''Experience '' @ show_nat (px_years x) @ '' years'')]
          @ shown_if (px_qualifications x \<noteq> []) [Text (''Qualifications '' @ px_qualifications x)]
          @ shown_if (px_languages x \<noteq> []) [Text (''Languages '' @ px_languages x)]
          @ [Text (''Timezone '' @ px_timezone x)]
          @ map (\<lambda>t. Link (''/subjects/'' @ lt_slug t) (lt_name t)) (px_subjects x)
          @ map (\<lambda>t. Badge ''neutral'' (lt_name t)) (px_skills x)
          @ [Box ''expert-reviews'' (public_reviews (pp_feed p))]
      | _ \<Rightarrow> [Text ''This expert profile is not available.'', Link ''/experts'' ''Back to the directory''])"

section \<open>The header and the status card\<close>

definition SITE_LINKS :: "(string \<times> string) list" where
  "SITE_LINKS =
     [(''/experts'', ''Explore Experts''), (''/how-it-works'', ''How It Works''), (''/subjects'', ''Masterclasses''),
      (''/pricing'', ''Pricing''), (''/for-experts'', ''Become a Mentor'')]"

datatype header_event = HeaderLogout | OpenMenu

definition PrimaryRoleBadge :: "console_user \<Rightarrow> 'e ui list" where
  "PrimaryRoleBadge u =
     (if cu_admin u then [Badge ''danger'' ''Admin''] else if cu_support u then [Badge ''info'' ''Support'']
      else if cu_staff u then [Badge ''neutral'' ''Staff''] else [])"

definition header_actions :: "session_status \<Rightarrow> console_user option \<Rightarrow> header_event ui list" where
  "header_actions st u0 =
     (if st = Loading then [Box ''nav-loading'' []]
      else (case u0 of
              Some u \<Rightarrow>
                Link (if cu_staff u then ''/portal'' else ''/account'') (cu_name u) # PrimaryRoleBadge u
                @ [Button ''Log out'' False HeaderLogout]
            | None \<Rightarrow> [Link ''/login'' ''Sign In'', Link ''/register'' ''Get Started'']))"

definition header_drawer :: "console_user option \<Rightarrow> header_event ui list" where
  "header_drawer u0 =
     map (\<lambda>(h, l). Link h l) SITE_LINKS
     @ (case u0 of
          Some u \<Rightarrow> [Text (cu_name u), Text (cu_email u), Link ''/account'' ''My Account'', Button ''Log out'' False HeaderLogout]
        | None \<Rightarrow> [Link ''/login'' ''Sign In'', Link ''/register'' ''Get Started''])"

definition SiteHeader :: "session_status \<Rightarrow> console_user option \<Rightarrow> bool \<Rightarrow> header_event ui list" where
  "SiteHeader st u0 opened =
     Link ''/'' ''KnowledgeMarketplace'' # map (\<lambda>(h, l). Link h l) SITE_LINKS @ header_actions st u0
     @ [Button ''Open menu'' False OpenMenu] @ (if opened then header_drawer u0 else [])"

text \<open>The health of the backend: its status and whether the database answers.\<close>

definition StatusCard :: "(string \<times> bool) option \<Rightarrow> 'e ui list" where
  "StatusCard health =
     (let live = (case health of None \<Rightarrow> False | Some (st, db) \<Rightarrow> st = ''ok'' \<and> db)
      in [Text ''Backend API'', Text (if live then ''Connected to the Django service'' else ''Backend not reachable right now''),
          if live then Badge ''success'' ''LIVE'' else Badge ''danger'' ''UNREACHABLE''])"

section \<open>Lemmas\<close>

text \<open>What a subject page can make of the answer of the API.\<close>

lemma getSubject_answer:
  "notFound (getSubject fetch env slug) \<longleftrightarrow>
   (\<exists>r. fetch (API_URL_SERVER env @ ''/api/v1/subjects/'' @ encodeURIComponent slug) 3600 = Response r \<and> res_status r = 404)"
  by (auto simp: getSubject_def fetchPublic_def MARKETING_TTL_SECONDS_def split: outcome.split option.split)

text \<open>The answer of a query that is no longer in the field changes nothing.\<close>

lemma superseded_answer:
  assumes "n < ed_effect p"
  shows "directory_step p (DirectoryIs n r) = p"
  using assms by (cases r) simp_all

lemma effects_grow: "ed_effect p \<le> ed_effect (run directory_step p es)"
proof (induction es arbitrary: p)
  case (Cons e es)
  have "ed_effect p \<le> ed_effect (directory_step p e)"
    by (cases "(p, e)" rule: directory_step.cases) auto
  also have "\<dots> \<le> ed_effect (run directory_step (directory_step p e) es)" by (rule Cons.IH)
  finally show ?case by simp
qed simp

text \<open>Once an answer failed, the message stays although later ones arrive.\<close>

lemma directory_error_stays:
  "ed_error (directory_step p e) = None \<Longrightarrow> ed_error p = None"
  by (cases "(p, e)" rule: directory_step.cases) (auto split: if_splits)

section \<open>Properties\<close>

text \<open>The addresses of subjects in the sitemap: those of the list that have experts.\<close>

lemma static_no_subject: "list_all (\<lambda>r. take 10 (fst r) \<noteq> ''/subjects/'') STATIC_ROUTES"
  by code_simp

lemma sitemap_subjects:
  assumes "fst (fetchSubjects web subjects_of env (snd (fetchExperts web page_of url_params env w))) = Inr ss"
  shows "SITE_URL env @ ''/subjects/'' @ slug \<in> sm_url ` set (fst (sitemap web page_of subjects_of url_params env w)) \<longleftrightarrow>
    (\<exists>s \<in> set ss. ls_slug s = slug \<and> 0 < ls_count s)"
proof -
  obtain re w1 where re: "fetchExperts web page_of url_params env w = (re, w1)" by (meson surj_pair)
  obtain w2 where rs: "fetchSubjects web subjects_of env w1 = (Inr ss, w2)"
    using assms re by (cases "fetchSubjects web subjects_of env w1") simp
  have none: "SITE_URL env @ ''/subjects/'' @ slug \<notin> sm_url ` set (map (static_entry env) STATIC_ROUTES)"
  proof
    assume "SITE_URL env @ ''/subjects/'' @ slug \<in> sm_url ` set (map (static_entry env) STATIC_ROUTES)"
    then obtain r where r: "r \<in> set STATIC_ROUTES" "fst r = ''/subjects/'' @ slug"
      by (auto simp: static_entry_def split: prod.splits)
    then have "take 10 (fst r) = ''/subjects/''" by simp
    then show False using static_no_subject r(1) by (simp only: list_all_iff)
  qed
  let ?u = "SITE_URL env @ ''/subjects/'' @ slug"
  let ?named = "subject_entry env ` {s \<in> set ss. 0 < ls_count s}"
  let ?experts = "set (case re of Inl e \<Rightarrow> [] | Inr xs \<Rightarrow> map (expert_entry env) xs)"
  have parts: "set (fst (sitemap web page_of subjects_of url_params env w)) =
      set (map (static_entry env) STATIC_ROUTES) \<union> ?named \<union> ?experts"
    by (simp add: sitemap_def re rs Un_assoc)
  have expert: "?u \<notin> sm_url ` ?experts"
    by (auto simp: expert_entry_def split: sum.splits)
  have named: "?u \<in> sm_url ` ?named \<longleftrightarrow> (\<exists>s \<in> set ss. ls_slug s = slug \<and> 0 < ls_count s)"
    by (auto simp: subject_entry_def image_iff)
  show ?thesis using none expert named unfolding parts image_Un by blast
qed

text \<open>
  C40: the metadata tells search engines the truth. A subject's page is replaced by the not-found page exactly when the
  API said that there is no such subject, never because it could not be reached; a page without data, and a
  subject without experts, is kept out of the index; when the list of subjects the sitemap was given has the subject, with
  the count its page is given, then the address its metadata names as canonical is in the sitemap exactly when that
  metadata lets the page be indexed; and the structured data of an expert has a rating only when there are reviews and
  the figure is positive.
\<close>

theorem metadata_honest:
  assumes "fst (fetchSubjects web subjects_of env (snd (fetchExperts web page_of url_params env w))) = Inr ss"
    and "sd_slug d \<in> ls_slug ` set ss" "\<forall>s \<in> set ss. ls_slug s = sd_slug d \<longrightarrow> ls_count s = sd_count d"
  shows "(SubjectPage fetch env subject_of experts_of slug = Not_found \<longleftrightarrow>
      (\<exists>r. fetch (API_URL_SERVER env @ ''/api/v1/subjects/'' @ encodeURIComponent slug) 3600 = Response r \<and> res_status r = 404)) \<and>
   \<not> pm_indexed (subject_metadata env None) \<and> \<not> pm_indexed (expert_metadata env None) \<and>
   pm_indexed (subject_metadata env (Some d)) = (0 < sd_count d) \<and>
   (\<exists>u. pm_canonical (subject_metadata env (Some d)) = Some u \<and>
      (u \<in> sm_url ` set (fst (sitemap web page_of subjects_of url_params env w)) \<longleftrightarrow>
         pm_indexed (subject_metadata env (Some d)))) \<and>
   (case expert_json_ld env (Some x) of
      None \<Rightarrow> False
    | Some l \<Rightarrow>
        Some (ld_url l) = pm_canonical (expert_metadata env (Some x)) \<and>
        ((ld_rating l \<noteq> None) = (\<exists>v n. xd_rating x = Some v \<and> xd_reviews x = Some n \<and> 0 < n \<and> 0 < v)))"
proof (intro conjI)
  have "SubjectPage fetch env subject_of experts_of slug = Not_found \<longleftrightarrow> notFound (getSubject fetch env slug)"
    by (simp add: SubjectPage_def Let_def split: option.split)
  then show "SubjectPage fetch env subject_of experts_of slug = Not_found \<longleftrightarrow>
      (\<exists>r. fetch (API_URL_SERVER env @ ''/api/v1/subjects/'' @ encodeURIComponent slug) 3600 = Response r \<and> res_status r = 404)"
    unfolding getSubject_answer .
  have "(\<exists>s \<in> set ss. ls_slug s = sd_slug d \<and> 0 < ls_count s) \<longleftrightarrow> 0 < sd_count d"
    using assms(2,3) by force
  then show "\<exists>u. pm_canonical (subject_metadata env (Some d)) = Some u \<and>
      (u \<in> sm_url ` set (fst (sitemap web page_of subjects_of url_params env w)) \<longleftrightarrow>
         pm_indexed (subject_metadata env (Some d)))"
    using sitemap_subjects [OF assms(1), of "sd_slug d"] by (simp add: subject_metadata_def subject_canonical_def)
qed (auto simp: subject_metadata_def expert_metadata_def expert_json_ld_def
      expert_canonical_def ratingOf_def Let_def split: option.split)

text \<open>
  A subject nobody teaches: the list has it, its page names its address and keeps out of the index, and the sitemap leaves
  it out.
\<close>

lemma metadata_honest_witness:
  "let web = (\<lambda>url (w::unit). (Response \<lparr>res_status = 200, res_type = None, res_json = Some JNull\<rparr>, w));
       s = \<lparr>ls_slug = ''rust'', ls_name = ''Rust'', ls_count = 0\<rparr>;
       d = \<lparr>sd_name = ''Rust'', sd_slug = ''rust'', sd_description = [], sd_parent = None, sd_count = 0, sd_related = []\<rparr>
   in \<exists>u. pm_canonical (subject_metadata Map.empty (Some d)) = Some u \<and>
        u \<notin> sm_url ` set (fst (sitemap web (\<lambda>_. \<lparr>dp_results = None, dp_next = None\<rparr>) (\<lambda>_. Some [s]) (\<lambda>_. None) Map.empty ())) \<and>
        \<not> pm_indexed (subject_metadata Map.empty (Some d))"
proof -
  let ?web = "\<lambda>url (w::unit). (Response \<lparr>res_status = 200, res_type = None, res_json = Some JNull\<rparr>, w)"
  let ?s = "\<lparr>ls_slug = ''rust'', ls_name = ''Rust'', ls_count = 0\<rparr>"
  let ?d = "\<lparr>sd_name = ''Rust'', sd_slug = ''rust'', sd_description = [], sd_parent = None, sd_count = 0, sd_related = []\<rparr>"
  have listed: "fst (fetchSubjects ?web (\<lambda>_. Some [?s]) Map.empty
      (snd (fetchExperts ?web (\<lambda>_. \<lparr>dp_results = None, dp_next = None\<rparr>) (\<lambda>_. None) Map.empty ()))) = Inr [?s]"
    by (simp add: fetchSubjects_def res_ok_def)
  have one: "sd_slug ?d \<in> ls_slug ` set [?s]" "\<forall>s \<in> set [?s]. ls_slug s = sd_slug ?d \<longrightarrow> ls_count s = sd_count ?d"
    by simp_all
  note metadata_honest [OF listed one, THEN conjunct2, THEN conjunct2, THEN conjunct2, THEN conjunct2, THEN conjunct1]
  then show ?thesis by (simp add: Let_def subject_metadata_def)
qed

text \<open>
  The directory shows the answer to what is in its field. However the answers arrive, one that belongs to a query typed
  before the last change changes nothing; the answer of the current query is shown, and it was asked for with the
  query trimmed.
\<close>

lemma directory_current:
  assumes "s \<noteq> ed_q p" "n \<le> ed_effect p"
  shows "directory_call base p (TypeExpertSearch s) = Some (directory_load base s) \<and>
    (let q = run directory_step (directory_step p (TypeExpertSearch s)) es
     in directory_step q (DirectoryIs n r) = q \<and>
        ed_experts (directory_step q (DirectoryIs (ed_effect q) (Inr xs))) = Some xs)"
proof -
  let ?q = "run directory_step (directory_step p (TypeExpertSearch s)) es"
  have "Suc (ed_effect p) \<le> ed_effect ?q"
    using effects_grow [of "directory_step p (TypeExpertSearch s)" es] assms(1) by simp
  then have "n < ed_effect ?q" using assms(2) by simp
  then show ?thesis using assms(1) by (simp add: superseded_answer Let_def)
qed

end
