(* ===== verification/HomePage.thy ===== *)
theory HomePage
  imports Forms Numbers
begin

text \<open>
  The two interactive parts of the home page: the estimate of a budget,
  \<open>components/patterns/marketing/interactive-scope-simulator.tsx\<close>, and the grid of experts,
  \<open>components/patterns/marketing/expert-discovery-grid.tsx\<close>. Their data is in the source.
\<close>

section \<open>The scope simulator\<close>

record domain_preset =
  dm_id :: string
  dm_name :: string
  dm_hours :: nat
  dm_budget :: nat
  dm_online :: nat
  dm_expert :: string
  dm_degree :: string
  dm_institution :: string
  dm_rating :: rat
  dm_reviews :: nat
  dm_deliveries :: nat

definition DOMAINS :: "domain_preset list" where
  "DOMAINS =
     [\<lparr>dm_id = ''cs'', dm_name = ''Computer Science & AI'', dm_hours = 12, dm_budget = 95, dm_online = 42,
        dm_expert = ''Dr. Elena Rostova'', dm_degree = ''PhD Distributed Systems'', dm_institution = ''ETH Zurich'',
        dm_rating = 498 / 100, dm_reviews = 184, dm_deliveries = 312\<rparr>,
      \<lparr>dm_id = ''math'', dm_name = ''Higher Mathematics & Stats'', dm_hours = 14, dm_budget = 85, dm_online = 28,
        dm_expert = ''Marcus Vance'', dm_degree = ''MPhil Pure Mathematics'', dm_institution = ''Cambridge'',
        dm_rating = 496 / 100, dm_reviews = 142, dm_deliveries = 260\<rparr>,
      \<lparr>dm_id = ''econ'', dm_name = ''Economics & Econometrics'', dm_hours = 16, dm_budget = 110, dm_online = 19,
        dm_expert = ''Dr. Aris Thorne'', dm_degree = ''PhD Econometrics'', dm_institution = ''London School of Economics'',
        dm_rating = 499 / 100, dm_reviews = 98, dm_deliveries = 175\<rparr>,
      \<lparr>dm_id = ''thesis'', dm_name = ''Academic Writing & Thesis'', dm_hours = 24, dm_budget = 125, dm_online = 35,
        dm_expert = ''Sarah Lin'', dm_degree = ''PhD Comparative Literature'', dm_institution = ''Columbia University'',
        dm_rating = 497 / 100, dm_reviews = 215, dm_deliveries = 410\<rparr>]"

datatype urgency = Rush | Standard | Extended
datatype scope_depth = Targeted | Comprehensive
datatype audience = For_student | For_specialist

record simulator =
  sim_domain :: string
  sim_urgency :: urgency
  sim_depth :: scope_depth
  sim_audience :: audience

definition simulator_init :: simulator where
  "simulator_init = \<lparr>sim_domain = ''cs'', sim_urgency = Standard, sim_depth = Targeted, sim_audience = For_student\<rparr>"

datatype simulator_event =
    PickDomain string
  | PickUrgency urgency
  | PickDepth scope_depth
  | PickAudience audience

fun simulator_step :: "simulator \<Rightarrow> simulator_event \<Rightarrow> simulator" where
  "simulator_step s (PickDomain d) = s\<lparr>sim_domain := d\<rparr>"
| "simulator_step s (PickUrgency u) = s\<lparr>sim_urgency := u\<rparr>"
| "simulator_step s (PickDepth d) = s\<lparr>sim_depth := d\<rparr>"
| "simulator_step s (PickAudience a) = s\<lparr>sim_audience := a\<rparr>"

definition currentDomain :: "simulator \<Rightarrow> domain_preset" where
  "currentDomain s = nullish (List.find (\<lambda>d. dm_id d = sim_domain s) DOMAINS) (hd DOMAINS)"

fun urgencyMultiplier :: "urgency \<Rightarrow> rat" where
  "urgencyMultiplier Rush = 14 / 10"
| "urgencyMultiplier Standard = 1"
| "urgencyMultiplier Extended = 85 / 100"

fun depthMultiplier :: "scope_depth \<Rightarrow> rat" where
  "depthMultiplier Comprehensive = 18 / 10"
| "depthMultiplier Targeted = 1"

fun calculatedResponseMinutes :: "urgency \<Rightarrow> nat" where
  "calculatedResponseMinutes Rush = 11"
| "calculatedResponseMinutes Standard = 22"
| "calculatedResponseMinutes Extended = 45"

text \<open>The estimate at a factor: 0.85 for the lower end and 1.25 for the upper.\<close>

definition calculatedBudget :: "rat \<Rightarrow> simulator \<Rightarrow> int" where
  "calculatedBudget k s =
     math_round (of_nat (dm_budget (currentDomain s)) * urgencyMultiplier (sim_urgency s) * depthMultiplier (sim_depth s) * k)"

definition calculatedBudgetMin :: "simulator \<Rightarrow> int" where
  "calculatedBudgetMin = calculatedBudget (85 / 100)"

definition calculatedBudgetMax :: "simulator \<Rightarrow> int" where
  "calculatedBudgetMax = calculatedBudget (125 / 100)"

definition simulator_controls :: "simulator_event ui list" where
  "simulator_controls =
     Text ''1. Select Academic Discipline''
     # map (\<lambda>d. Button (dm_name d @ '' '' @ show_nat (dm_online d) @ '' specialists online'') False (PickDomain (dm_id d))) DOMAINS
     @ [Text ''2. Select Target Turnaround'', Button ''Rush (<24h) Priority Dispatch'' False (PickUrgency Rush),
        Button ''Standard (2-4d) Normal Cadence'' False (PickUrgency Standard),
        Button ''Deep-Dive (7d+) Rigorous Scope'' False (PickUrgency Extended), Text ''3. Project Depth'',
        Button ''Targeted Consultation'' False (PickDepth Targeted),
        Button ''Comprehensive Milestone'' False (PickDepth Comprehensive)]"

definition simulator_output :: "simulator \<Rightarrow> simulator_event ui list" where
  "simulator_output s =
     (let d = currentDomain s
      in [Text ''Algorithmic Projection'', Text ''Estimated Budget'',
          Text (''$'' @ show_int (calculatedBudgetMin s) @ '' - $'' @ show_int (calculatedBudgetMax s)), Text ''USD (Escrow held)'',
          Text ''First Proposal SLA'', Text (''< '' @ show_nat (calculatedResponseMinutes (sim_urgency s)) @ '' mins''),
          Text ''Example Qualified Specialist'', Text (take 1 (dm_expert d)), Text (dm_expert d),
          Text (dm_degree d @ '' - '' @ dm_institution d), Text (''* '' @ number_text (dm_rating d)),
          Text (show_nat (dm_deliveries d) @ '' tasks completed''),
          Text ''100% Escrow Protection: Funds only release after your review and sign-off.'',
          Link ''/register'' ''Post Your Academic Brief''])"

definition InteractiveScopeSimulator :: "simulator \<Rightarrow> simulator_event ui list" where
  "InteractiveScopeSimulator s =
     [Heading ''Experience How the Marketplace Works in Real Time'',
      Text ''Test our algorithmic scope estimator. Calculate budget ranges, average match SLAs, and inspect verified doctoral specialist profiles before publishing.'',
      Button ''I am a Student / Researcher'' False (PickAudience For_student),
      Button ''I am an Academic Specialist'' False (PickAudience For_specialist)]
     @ (if sim_audience s = For_student then simulator_controls @ simulator_output s
        else [Heading ''85% Specialist Split'', Heading ''Guaranteed Escrow Deposit'', Heading ''Intellectual Autonomy'',
              Text ''Strict academic honor code (BR-10). Provide coaching, code reviews, and proof insights with zero ghostwriting.'',
              Text ''Join our accredited specialist pool. Applications are reviewed within 48 hours.'',
              Link ''/for-experts'' ''Apply as Specialist''])"

section \<open>The discovery grid\<close>

definition DISCOVERY_CATEGORIES :: "(string \<times> string) list" where
  "DISCOVERY_CATEGORIES =
     [(''all'', ''All Disciplines''), (''engineering'', ''Engineering & Systems''), (''ai'', ''AI & Data Science''),
      (''cloud'', ''Cloud & Distributed''), (''math'', ''Math & Quant''), (''product'', ''Product & Research'')]"

record discovery_expert =
  xe_id :: string
  xe_name :: string
  xe_role :: string
  xe_company :: string
  xe_avatar :: string
  xe_category :: string
  xe_rating :: rat
  xe_reviews :: nat
  xe_hourly :: string
  xe_bio :: string
  xe_skills :: "string list"

definition DISCOVERY_EXPERTS :: "discovery_expert list" where
  "DISCOVERY_EXPERTS =
     [\<lparr>xe_id = ''jordan-hayes'', xe_name = ''Dr. Jordan Hayes, Ph.D.'', xe_role = ''Staff AI Research Scientist'',
        xe_company = ''Ex-Google Brain - Stanford AI Lab'', xe_avatar = ''JH'', xe_category = ''ai'', xe_rating = 499 / 100,
        xe_reviews = 420, xe_hourly = ''$45/brief'',
        xe_bio = ''Pioneered distributed training frameworks for large-scale transformers. Coached 200+ engineers through complex GPU CUDA bottlenecks.'',
        xe_skills = [''Distributed Systems'', ''PyTorch'', ''CUDA'', ''LLM Inference'']\<rparr>,
      \<lparr>xe_id = ''elena-rostova'', xe_name = ''Dr. Elena Rostova, Ph.D.'', xe_role = ''Doctoral Fellow & Quantitative Researcher'',
        xe_company = ''Oxford University - ETH Zurich'', xe_avatar = ''ER'', xe_category = ''math'', xe_rating = 498 / 100,
        xe_reviews = 312, xe_hourly = ''$50/brief'',
        xe_bio = ''Doctoral thesis in Bayesian non-parametric time series. Proven advisor for econometric modeling, causal inference, and stochastic calculus.'',
        xe_skills = [''Causal Inference'', ''Time Series'', ''R / Stata'', ''Econometrics'']\<rparr>,
      \<lparr>xe_id = ''david-chen'', xe_name = ''Prof. David Chen, Sc.D.'', xe_role = ''Principal Systems Architect'',
        xe_company = ''MIT CSAIL - Autonomous Robotics'', xe_avatar = ''DC'', xe_category = ''engineering'', xe_rating = 5,
        xe_reviews = 280, xe_hourly = ''$55/brief'',
        xe_bio = ''Specializes in real-time embedded control, Kalman state estimation, and low-latency C++ flight software for aerospace robotics.'',
        xe_skills = [''ROS2'', ''C++'', ''Kalman Filters'', ''Embedded Systems'']\<rparr>,
      \<lparr>xe_id = ''marcus-vance'', xe_name = ''Marcus Vance'', xe_role = ''Principal Cloud Architect'',
        xe_company = ''Ex-AWS Solutions - Stripe Partner'', xe_avatar = ''MV'', xe_category = ''cloud'', xe_rating = 496 / 100,
        xe_reviews = 185, xe_hourly = ''$42/brief'',
        xe_bio = ''Designs multi-region resilient database clusters and zero-trust Kubernetes architectures handling tens of millions of daily API transactions.'',
        xe_skills = [''Kubernetes'', ''AWS Architecture'', ''PostgreSQL'', ''Terraform'']\<rparr>,
      \<lparr>xe_id = ''sarah-jenkins'', xe_name = ''Dr. Sarah Jenkins, Ph.D.'', xe_role = ''Postdoctoral Research Fellow'',
        xe_company = ''Cambridge University'', xe_avatar = ''SJ'', xe_category = ''math'', xe_rating = 497 / 100,
        xe_reviews = 195, xe_hourly = ''$40/brief'',
        xe_bio = ''Specialized in topological data analysis, differential forms, and manifold theory. Highly regarded for patient, rigorous proof walkthroughs.'',
        xe_skills = [''Topology'', ''Real Analysis'', ''Abstract Algebra'', ''LaTeX'']\<rparr>,
      \<lparr>xe_id = ''alexa-morales'', xe_name = ''Alexa Morales'', xe_role = ''Head of Technical Product'',
        xe_company = ''Y Combinator Alum - AI Platforms'', xe_avatar = ''AM'', xe_category = ''product'', xe_rating = 495 / 100,
        xe_reviews = 160, xe_hourly = ''$48/brief'',
        xe_bio = ''Mentors technical founders and researchers in converting complex deep-tech research papers into productionized B2B developer platforms.'',
        xe_skills = [''Product Strategy'', ''API Design'', ''Developer Tools'', ''AI Roadmaps'']\<rparr>]"

definition filteredExperts :: "string \<Rightarrow> discovery_expert list" where
  "filteredExperts c = (if c = ''all'' then DISCOVERY_EXPERTS else filter (\<lambda>x. xe_category x = c) DISCOVERY_EXPERTS)"

definition discovery_card :: "discovery_expert \<Rightarrow> string ui" where
  "discovery_card x =
     Box (xe_id x)
       ([Text (xe_avatar x), Heading (xe_name x), Text (xe_role x), Text (xe_company x), Text (number_text (xe_rating x)),
         Text (''('' @ show_nat (xe_reviews x) @ '' sessions)''), Text (xe_hourly x), Text (xe_bio x)]
        @ map Text (xe_skills x) @ [Link ''/register'' ''Book 1:1 Consultation''])"

text \<open>The event of the grid is the category that is picked, which is its state.\<close>

definition ExpertDiscoveryGrid :: "string \<Rightarrow> string ui list" where
  "ExpertDiscoveryGrid c =
     map (\<lambda>(i, l). Button l False i) DISCOVERY_CATEGORIES @ Link ''/experts'' ''View All 1,420 Mentors'' # map discovery_card (filteredExperts c)"

section \<open>Lemmas\<close>

lemma offered_simulator:
  "offered (InteractiveScopeSimulator s) (PickDomain d) \<longleftrightarrow> sim_audience s = For_student \<and> d \<in> dm_id ` set DOMAINS"
  by (auto simp: InteractiveScopeSimulator_def simulator_controls_def simulator_output_def offered_map Let_def)

text \<open>The preset shown is the one that was picked, and the estimate is a range.\<close>

interpretation estimating: machine "\<lambda>s. s = simulator_init" "\<lambda>s. offered (InteractiveScopeSimulator s)" simulator_step
  "\<lambda>s. sim_domain s \<in> dm_id ` set DOMAINS"
proof unfold_locales
  fix s e assume "sim_domain s \<in> dm_id ` set DOMAINS" "offered (InteractiveScopeSimulator s) e"
  then show "sim_domain (simulator_step s e) \<in> dm_id ` set DOMAINS"
    by (cases e) (auto simp: offered_simulator)
qed (simp add: simulator_init_def DOMAINS_def)

lemma math_round_mono: "x \<le> y \<Longrightarrow> math_round x \<le> math_round y"
  by (simp add: math_round_def floor_mono)

lemma estimate_is_range: "calculatedBudgetMin s \<le> calculatedBudgetMax s"
proof -
  have "0 \<le> urgencyMultiplier (sim_urgency s)" "0 \<le> depthMultiplier (sim_depth s)"
    by (cases "sim_urgency s"; simp) (cases "sim_depth s"; simp)
  then have "0 \<le> of_nat (dm_budget (currentDomain s)) * urgencyMultiplier (sim_urgency s) * depthMultiplier (sim_depth s)" by simp
  then show ?thesis
    unfolding calculatedBudgetMin_def calculatedBudgetMax_def calculatedBudget_def
    by (intro math_round_mono mult_left_mono) simp_all
qed

lemma domain_shown:
  assumes "reach (\<lambda>s. s = simulator_init) (\<lambda>s. offered (InteractiveScopeSimulator s)) simulator_step s"
  shows "dm_id (currentDomain s) = sim_domain s"
  using estimating.reach_inv [OF assms] by (auto simp: currentDomain_def DOMAINS_def)

text \<open>Every category of the grid but the first has its experts, and no expert is in none.\<close>

lemma categories_cover:
  "list_all (\<lambda>(i, l). filteredExperts i \<noteq> []) DISCOVERY_CATEGORIES \<and>
   list_all (\<lambda>x. xe_category x \<in> set (map fst DISCOVERY_CATEGORIES)) DISCOVERY_EXPERTS"
  by code_simp

end
