(* ===== verification/Theme.thy ===== *)
theory Theme
  imports Machine
begin

text \<open>
  The colour theme: the provider \<open>features/theme/ThemeProvider.tsx\<close> and the switch
  \<open>components/ui/ThemeToggle.tsx\<close>.

  The state has the provider's two variables, the classes of the root element, the stored theme and what the
  system prefers. An effect runs after the render that changed what it depends on: the theme is applied at once.
\<close>

datatype theme = Light | Dark | System

fun theme_key :: "theme \<Rightarrow> string" where
  "theme_key Light = ''light''"
| "theme_key Dark = ''dark''"
| "theme_key System = ''system''"

record theming =
  tm_theme :: theme
  tm_dark :: bool                        \<comment> \<open>resolvedTheme is dark\<close>
  tm_classes :: "string set"             \<comment> \<open>of the root element\<close>
  tm_stored :: "string option"
  tm_system_dark :: bool

datatype theming_event =
    SetTheme theme
  | SystemPrefers bool

definition applyTheme :: "theming \<Rightarrow> theming" where
  "applyTheme s =
     (let isDark = (tm_theme s = Dark \<or> (tm_theme s = System \<and> tm_system_dark s));
          classes = tm_classes s - {''light'', ''dark''}
      in s\<lparr>tm_classes := insert (if isDark then ''dark'' else ''light'') classes, tm_dark := isDark\<rparr>)"

text \<open>The stored value is taken over when it names a theme.\<close>

definition saved_theme :: "string option \<Rightarrow> theme option" where
  "saved_theme saved =
     (if saved = Some ''light'' then Some Light else if saved = Some ''dark'' then Some Dark
      else if saved = Some ''system'' then Some System else None)"

text \<open>Mounting: the first render has the system's theme, which is applied; then the stored one is.\<close>

definition theming_mount :: "string set \<Rightarrow> string option \<Rightarrow> bool \<Rightarrow> theming" where
  "theming_mount classes saved prefers =
     (let s = applyTheme \<lparr>tm_theme = System, tm_dark = False, tm_classes = classes, tm_stored = saved, tm_system_dark = prefers\<rparr>
      in case saved_theme saved of None \<Rightarrow> s | Some t \<Rightarrow> applyTheme (s\<lparr>tm_theme := t\<rparr>))"

fun theming_step :: "theming \<Rightarrow> theming_event \<Rightarrow> theming" where
  "theming_step s (SetTheme t) = applyTheme (s\<lparr>tm_theme := t, tm_stored := Some (theme_key t)\<rparr>)"
| "theming_step s (SystemPrefers d) = applyTheme (s\<lparr>tm_system_dark := d\<rparr>)"

definition ThemeToggle :: "theming \<Rightarrow> theming_event ui list" where
  "ThemeToggle s =
     [Button (if tm_dark s then ''Switch to light theme'' else ''Switch to dark theme'') False
        (SetTheme (if tm_dark s then Light else Dark))]"

fun theming_enabled :: "theming \<Rightarrow> theming_event \<Rightarrow> bool" where
  "theming_enabled s (SystemPrefers d) = True"
| "theming_enabled s e = offered (ThemeToggle s) e"

text \<open>The theme that is shown is the one that is set, and the one that the next visit opens with.\<close>

definition theme_shown :: "theming \<Rightarrow> bool" where
  "theme_shown s \<longleftrightarrow>
     tm_dark s = (tm_theme s = Dark \<or> (tm_theme s = System \<and> tm_system_dark s)) \<and>
     tm_classes s \<inter> {''light'', ''dark''} = {if tm_dark s then ''dark'' else ''light''} \<and>
     tm_theme s = nullish (saved_theme (tm_stored s)) System"

lemma theme_key_saved [simp]: "saved_theme (Some (theme_key t)) = Some t"
  by (cases t) (simp_all add: saved_theme_def)

lemma applyTheme_shown: "tm_theme s = nullish (saved_theme (tm_stored s)) System \<Longrightarrow> theme_shown (applyTheme s)"
  unfolding theme_shown_def by (simp add: applyTheme_def Let_def)

lemma mount_shown: "theme_shown (theming_mount classes saved prefers)"
proof (cases "saved_theme saved")
  case None
  then show ?thesis by (simp add: theming_mount_def Let_def applyTheme_shown)
next
  case (Some t)
  have "tm_stored (applyTheme s) = tm_stored s" for s by (simp add: applyTheme_def Let_def)
  then show ?thesis using Some by (simp add: theming_mount_def Let_def applyTheme_shown)
qed

interpretation theming: machine "\<lambda>s. \<exists>c v d. s = theming_mount c v d" theming_enabled theming_step theme_shown
proof unfold_locales
  fix s :: theming and e assume "theme_shown s" "theming_enabled s e"
  then show "theme_shown (theming_step s e)"
    by (cases e) (simp_all add: applyTheme_shown theme_shown_def [of s])
qed (auto simp: mount_shown)

text \<open>Two clicks on the switch bring back what was shown; the theme of the system is not among what it sets.\<close>

lemma toggle_twice_theme:
  assumes "offered (ThemeToggle s) e" "offered (ThemeToggle (theming_step s e)) e'"
  shows "tm_dark (theming_step (theming_step s e) e') = tm_dark s" "tm_theme (theming_step s e) \<noteq> System"
  using assms by (cases "tm_dark s"; simp add: ThemeToggle_def applyTheme_def Let_def)+

end
