(* ===== verification/Application.thy ===== *)
theory Application
  imports Forms Numbers
begin

text \<open>
  Applying as an expert: \<open>features/experts/types.ts\<close>, \<open>features/experts/status.ts\<close>, the form
  \<open>app/(app)/expert/apply/page.tsx\<close> and the page \<open>app/(app)/expert/application/page.tsx\<close> that shows where
  the application stands.

  The fields of the form are the browser's: the program reads them when the form is submitted, and the
  browser submits it only when they satisfy the constraints of their elements.
\<close>

section \<open>Types\<close>

record taxonomy_term =
  tt_id :: int
  tt_kind :: string
  tt_name :: string

datatype application_status =
    Ap_not_applied | Ap_draft | Ap_submitted | Ap_under_review | Ap_approved | Ap_rejected | Ap_suspended

fun application_key :: "application_status \<Rightarrow> string" where
  "application_key Ap_not_applied = ''not_applied''"
| "application_key Ap_draft = ''draft''"
| "application_key Ap_submitted = ''submitted''"
| "application_key Ap_under_review = ''under_review''"
| "application_key Ap_approved = ''approved''"
| "application_key Ap_rejected = ''rejected''"
| "application_key Ap_suspended = ''suspended''"

definition APPLICATION_STATUS_ORDER :: "application_status list" where
  "APPLICATION_STATUS_ORDER =
     [Ap_not_applied, Ap_draft, Ap_submitted, Ap_under_review, Ap_approved, Ap_rejected, Ap_suspended]"

text \<open>What the pages read of an application: the reviewer's reason, the credentials and the resubmissions.\<close>

record application =
  al_reason :: "string option"
  al_credentials :: "string list"
  al_resubmissions :: nat

definition isApplicationEditable :: "application_status \<Rightarrow> bool" where
  "isApplicationEditable s \<longleftrightarrow> s = Ap_not_applied \<or> s = Ap_draft \<or> s = Ap_submitted \<or> s = Ap_rejected"

definition canSubmitApplication :: "application_status \<Rightarrow> bool" where
  "canSubmitApplication s \<longleftrightarrow> s = Ap_draft \<or> s = Ap_rejected"

text \<open>Title, detail and tone.\<close>

fun APPLICATION_STATUS_COPY :: "application_status \<Rightarrow> string \<times> string \<times> string" where
  "APPLICATION_STATUS_COPY Ap_not_applied =
     (''Not applied'', ''You haven't started an expert application.'', ''neutral'')"
| "APPLICATION_STATUS_COPY Ap_draft =
     (''Draft'', ''Complete the form, upload at least one credential, then submit for review.'', ''neutral'')"
| "APPLICATION_STATUS_COPY Ap_submitted =
     (''Submitted'', ''Your application is in the review queue -- typically reviewed within 48 hours.'', ''info'')"
| "APPLICATION_STATUS_COPY Ap_under_review =
     (''Under review'', ''A reviewer is looking at your application. The application is locked while under review.'', ''info'')"
| "APPLICATION_STATUS_COPY Ap_approved =
     (''Approved'', ''You're a verified expert -- your profile is live in the public directory.'', ''success'')"
| "APPLICATION_STATUS_COPY Ap_rejected =
     (''Not approved this time'', ''You can update your application and resubmit whenever you're ready.'', ''danger'')"
| "APPLICATION_STATUS_COPY Ap_suspended =
     (''Suspended'', ''Expert surfaces are paused and you're hidden from the directory. Your student account is unaffected.'', ''danger'')"

text \<open>\<open>status.replace("_", " ")\<close>: the first underscore only.\<close>

definition replace_first :: "char \<Rightarrow> string \<Rightarrow> string \<Rightarrow> string" where
  "replace_first c r s =
     (if c \<in> set s then takeWhile (\<lambda>x. x \<noteq> c) s @ r @ tl (dropWhile (\<lambda>x. x \<noteq> c) s) else s)"

section \<open>The form\<close>

text \<open>What the fields of the form hold; the chips are checkboxes, so what counts is which are checked.\<close>

record apply_fields =
  ad_name :: string
  ad_headline :: string
  ad_bio :: string
  ad_summary :: string
  ad_years :: string
  ad_languages :: string
  ad_quals :: string
  ad_note :: string
  ad_subjects :: "int list"
  ad_skills :: "int list"
  ad_adult :: bool
  ad_integrity :: bool

definition empty_fields :: apply_fields where
  "empty_fields =
     \<lparr>ad_name = [], ad_headline = [], ad_bio = [], ad_summary = [], ad_years = ''0'', ad_languages = [],
      ad_quals = [], ad_note = [], ad_subjects = [], ad_skills = [], ad_adult = False, ad_integrity = False\<rparr>"

text \<open>Each call of \<open>onFileChange\<close> is a run that ends with the identifiers or a failure.\<close>

record apply_page =
  ap_status :: application_status
  ap_reason :: "string option"
  ap_terms :: "taxonomy_term list"
  ap_creds :: "string list"
  ap_names :: "string list"
  ap_uploading :: bool
  ap_saving :: bool
  ap_error :: "string option"
  ap_loaded :: bool
  ap_cancelled :: bool
  ap_fields :: apply_fields
  ap_pushed :: "string option"

definition apply_init :: apply_page where
  "apply_init =
     \<lparr>ap_status = Ap_not_applied, ap_reason = None, ap_terms = [], ap_creds = [], ap_names = [],
      ap_uploading = False, ap_saving = False, ap_error = None, ap_loaded = False, ap_cancelled = False,
      ap_fields = empty_fields, ap_pushed = None\<rparr>"

text \<open>The chips of a fieldset, and those of them that are checked, in the order of the document.\<close>

definition subject_terms :: "taxonomy_term list \<Rightarrow> taxonomy_term list" where
  "subject_terms ts = filter (\<lambda>t. tt_kind t = ''subject'' \<or> tt_kind t = ''category'') ts"

definition skill_terms :: "taxonomy_term list \<Rightarrow> taxonomy_term list" where
  "skill_terms ts = filter (\<lambda>t. tt_kind t = ''skill'') ts"

definition checked_ids :: "taxonomy_term list \<Rightarrow> int list \<Rightarrow> int list" where
  "checked_ids ts marked = filter (\<lambda>i. i \<noteq> 0) (filter (\<lambda>i. i \<in> set marked) (map tt_id ts))"

text \<open>
  \<open>Number\<close> of the number field. The browser lets whole numbers and the empty text through; the value of
  the model on another text, which is never submitted, is its floor, or null where it is no number.
\<close>

definition years_json :: "string \<Rightarrow> json" where
  "years_json s = (case to_number s of Some r \<Rightarrow> JNum \<lfloor>r\<rfloor> | None \<Rightarrow> JNull)"

definition apply_payload :: "apply_page \<Rightarrow> json" where
  "apply_payload p =
     (let f = ap_fields p
      in JObj
        [(''display_name'', JStr (trim (ad_name f))), (''headline'', JStr (trim (ad_headline f))),
         (''bio'', JStr (trim (ad_bio f))), (''expertise_summary'', JStr (trim (ad_summary f))),
         (''experience_years'', years_json (ad_years f)), (''qualifications'', JStr (trim (ad_quals f))),
         (''languages'', JStr (trim (ad_languages f))), (''availability_note'', JStr (trim (ad_note f))),
         (''certified_18_plus'', JBool (ad_adult f)), (''integrity_acknowledged'', JBool (ad_integrity f)),
         (''subject_ids'', JArr (map JNum (checked_ids (subject_terms (ap_terms p)) (ad_subjects f)))),
         (''skill_ids'', JArr (map JNum (checked_ids (skill_terms (ap_terms p)) (ad_skills f)))),
         (''credential_ids'', JArr (map JStr (ap_creds p)))])"

text \<open>The requests of a submission: the application is saved, then submitted.\<close>

definition apply_send ::
    "string \<Rightarrow> 'w server \<Rightarrow> application_status \<Rightarrow> json \<Rightarrow> 'w \<Rightarrow> (failure + json) \<times> 'w" where
  "apply_send b srv st payload w =
     (case srv (expertsApi_saveApplication b payload (if st = Ap_not_applied then Create else Patch)) w of
        (Inl e, w1) \<Rightarrow> (Inl e, w1)
      | (Inr _, w1) \<Rightarrow> srv (expertsApi_submitApplication b) w1)"

text \<open>The uploads of a choice of files: \<open>upload_all\<close> with the purpose of a credential.\<close>

definition credential_send ::
    "string \<Rightarrow> 'w server \<Rightarrow> string list \<Rightarrow> 'w \<Rightarrow> (failure + string list) \<times> 'w" where
  "credential_send b srv files w = upload_all (upload_id b Credential srv) files w"

datatype apply_field =
  D_name | D_headline | D_bio | D_summary | D_years | D_languages | D_quals | D_note

fun set_field :: "apply_field \<Rightarrow> string \<Rightarrow> apply_fields \<Rightarrow> apply_fields" where
  "set_field D_name v f = f\<lparr>ad_name := v\<rparr>"
| "set_field D_headline v f = f\<lparr>ad_headline := v\<rparr>"
| "set_field D_bio v f = f\<lparr>ad_bio := v\<rparr>"
| "set_field D_summary v f = f\<lparr>ad_summary := v\<rparr>"
| "set_field D_years v f = f\<lparr>ad_years := v\<rparr>"
| "set_field D_languages v f = f\<lparr>ad_languages := v\<rparr>"
| "set_field D_quals v f = f\<lparr>ad_quals := v\<rparr>"
| "set_field D_note v f = f\<lparr>ad_note := v\<rparr>"

definition toggle_in :: "'a \<Rightarrow> 'a list \<Rightarrow> 'a list" where
  "toggle_in x xs = (if x \<in> set xs then filter (\<lambda>y. y \<noteq> x) xs else xs @ [x])"

datatype apply_event =
    ApplyLoaded "failure + (application_status \<times> application option) \<times> taxonomy_term list"
  | LeaveApply
  | TypeApply apply_field string
  | PickHint string
  | ChipSubject int
  | ChipSkill int
  | TickAdult
  | TickIntegrity
  | ChooseCredentials "string list"
  | CredentialsDone "string list" "failure + string list"
  | SubmitApply
  | ApplyDone "failure + application_status"

abbreviation upd_fields :: "(apply_fields \<Rightarrow> apply_fields) \<Rightarrow> apply_page \<Rightarrow> apply_page" where
  "upd_fields g p \<equiv> p\<lparr>ap_fields := g (ap_fields p)\<rparr>"

fun apply_step :: "apply_page \<Rightarrow> apply_event \<Rightarrow> apply_page" where
  "apply_step p (ApplyLoaded r) =
     (if ap_cancelled p then p
      else case r of
        Inl e \<Rightarrow> p\<lparr>ap_error := Some ''Could not load the application. Please refresh.'', ap_loaded := True\<rparr>
      | Inr ((st, al), ts) \<Rightarrow>
          p\<lparr>ap_status := st, ap_reason := (case al of None \<Rightarrow> None | Some a \<Rightarrow> al_reason a),
            ap_creds := (case al of None \<Rightarrow> [] | Some a \<Rightarrow> al_credentials a), ap_terms := ts, ap_loaded := True\<rparr>)"
| "apply_step p LeaveApply = p\<lparr>ap_cancelled := True\<rparr>"
| "apply_step p (TypeApply k v) = upd_fields (set_field k v) p"
| "apply_step p (PickHint h) = upd_fields (\<lambda>f. f\<lparr>ad_headline := h\<rparr>) p"
| "apply_step p (ChipSubject i) = upd_fields (\<lambda>f. f\<lparr>ad_subjects := toggle_in i (ad_subjects f)\<rparr>) p"
| "apply_step p (ChipSkill i) = upd_fields (\<lambda>f. f\<lparr>ad_skills := toggle_in i (ad_skills f)\<rparr>) p"
| "apply_step p TickAdult = upd_fields (\<lambda>f. f\<lparr>ad_adult := \<not> ad_adult f\<rparr>) p"
| "apply_step p TickIntegrity = upd_fields (\<lambda>f. f\<lparr>ad_integrity := \<not> ad_integrity f\<rparr>) p"
| "apply_step p (ChooseCredentials fs) = (if fs = [] then p else p\<lparr>ap_error := None, ap_uploading := True\<rparr>)"
| "apply_step p (CredentialsDone fs r) =
     (case r of
        Inr ids \<Rightarrow> p\<lparr>ap_creds := ap_creds p @ ids, ap_names := ap_names p @ fs, ap_uploading := False\<rparr>
      | Inl e \<Rightarrow> p\<lparr>ap_error := Some ''Upload failed -- allowed: PDF, PNG or JPG up to 10 MB.'', ap_uploading := False\<rparr>)"
| "apply_step p SubmitApply = p\<lparr>ap_error := None, ap_saving := True\<rparr>"
| "apply_step p (ApplyDone r) =
     (case r of
        Inr st \<Rightarrow> p\<lparr>ap_status := st, ap_pushed := Some ''/expert/application'', ap_saving := False\<rparr>
      | Inl e \<Rightarrow> p\<lparr>ap_error := Some ''Could not submit the application -- check the required fields and try again.'',
                  ap_saving := False\<rparr>)"

text \<open>
  The constraints of the elements, which the browser checks before it submits: required, \<open>maxLength\<close>, and
  a whole number from 0 to 60 or nothing.
\<close>

definition years_valid :: "string \<Rightarrow> bool" where
  "years_valid s \<longleftrightarrow>
     s = [] \<or> (case to_number s of None \<Rightarrow> False | Some r \<Rightarrow> 0 \<le> r \<and> r \<le> 60 \<and> of_int \<lfloor>r\<rfloor> = r)"

definition apply_valid :: "apply_fields \<Rightarrow> bool" where
  "apply_valid f \<longleftrightarrow>
     ad_name f \<noteq> [] \<and> length (ad_name f) \<le> 150 \<and> ad_headline f \<noteq> [] \<and> length (ad_headline f) \<le> 120 \<and>
     ad_bio f \<noteq> [] \<and> length (ad_bio f) \<le> 2000 \<and> ad_summary f \<noteq> [] \<and> length (ad_summary f) \<le> 500 \<and>
     years_valid (ad_years f) \<and> length (ad_languages f) \<le> 200 \<and> length (ad_quals f) \<le> 1000 \<and>
     length (ad_note f) \<le> 300 \<and> ad_adult f \<and> ad_integrity f"

section \<open>What the form shows\<close>

definition headline_hints :: "string list" where
  "headline_hints =
     [''Postdoc in Applied Mathematics & Proofs'', ''Senior AI Researcher -- PyTorch & Optimization'',
      ''PhD Candidate in Econometrics & Time-Series'']"

definition apply_hero :: "apply_page \<Rightarrow> apply_event ui list" where
  "apply_hero p =
     (let (title, detail, tone) = APPLICATION_STATUS_COPY (ap_status p)
      in [Link ''/requests'' ''Back to Student Learning Workspace'', Text ''Step 1 of 2: Application Dossier'',
          Text ''85% Specialist Net Payout'', Heading ''Apply as an Academic Specialist'',
          Text (if ap_loaded p \<and> ap_status p \<noteq> Ap_not_applied then title @ '' -- '' @ detail
                else ''Join our accredited peer network of verified doctoral specialists, postdocs, and senior practitioners. Provide high-impact academic coaching, code reviews, and proof critiques.'')])"

definition locked_card :: "apply_page \<Rightarrow> apply_event ui list" where
  "locked_card p =
     [Text ''Application Under Review (< 48h)'',
      Text (''Status: '' @ to_upper (replace_first (CHR ''_'') '' '' (application_key (ap_status p)))),
      Heading ''Your Specialist Accreditation Dossier is Being Audited'',
      Link ''/expert/application'' ''View Dossier Details'', Link ''/requests'' ''Return to Student Workspace'']"

definition apply_persona :: "apply_fields \<Rightarrow> apply_event ui list" where
  "apply_persona f =
     [Field ''Professional / display name'' (ad_name f) (TypeApply D_name),
      Field ''Professional Headline'' (ad_headline f) (TypeApply D_headline)]
     @ map (\<lambda>h. Button (''+ '' @ h) False (PickHint h)) headline_hints
     @ [Field ''Coaching Bio & Teaching Philosophy'' (ad_bio f) (TypeApply D_bio),
        Text ''You are an educator and mentor, not a ghostwriter. The marketplace strictly enforces our academic-integrity pledge (BR-10).'',
        Field ''Summary of Core Competencies'' (ad_summary f) (TypeApply D_summary),
        Field ''Years of academic/teaching experience'' (ad_years f) (TypeApply D_years),
        Field ''Languages spoken'' (ad_languages f) (TypeApply D_languages),
        Field ''Formal Qualifications & Degrees'' (ad_quals f) (TypeApply D_quals),
        Field ''Availability & Timezone Preferences'' (ad_note f) (TypeApply D_note)]"

definition apply_chips :: "apply_page \<Rightarrow> apply_event ui list" where
  "apply_chips p =
     map (\<lambda>t. Check (tt_name t) (tt_id t \<in> set (ad_subjects (ap_fields p))) False (ChipSubject (tt_id t)))
       (subject_terms (ap_terms p))
     @ map (\<lambda>t. Check (tt_name t) (tt_id t \<in> set (ad_skills (ap_fields p))) False (ChipSkill (tt_id t)))
       (skill_terms (ap_terms p))"

definition apply_files :: "apply_page \<Rightarrow> apply_event ui list" where
  "apply_files p =
     [Files ''Upload Degree, Diploma, or Transcripts'' ChooseCredentials,
      Text (if ap_uploading p then ''Uploading securely to encrypted bucket...''
            else ''Accepted: PDF, PNG, JPG up to 10 MB per file. Visible exclusively to compliance auditors.'')]
     @ map Text (ap_names p)"

definition apply_form :: "apply_page \<Rightarrow> apply_event ui list" where
  "apply_form p =
     apply_persona (ap_fields p) @ apply_chips p @ apply_files p
     @ [Check ''I certify that I am 18 years of age or older'' (ad_adult (ap_fields p)) False TickAdult,
        Check ''Academic Integrity Honor Code (BR-10 & BR-14)'' (ad_integrity (ap_fields p)) False TickIntegrity]
     @ alert_if (ap_error p)
     @ [Link ''/requests'' ''Cancel and return to Student Workspace'',
        Button (if ap_saving p then ''Submitting Application...'' else ''Submit Application for Review'')
          (ap_saving p \<or> ap_uploading p) SubmitApply]"

text \<open>The cards beside the form.\<close>

definition apply_side :: "apply_event ui list" where
  "apply_side =
     [Heading ''Specialist Economics'', Text ''Transparent earnings and milestone payout'',
      Text ''85% Specialist Split: Keep 85% of your quoted milestone fees.'',
      Text ''Guaranteed Escrow: Client funds are locked before you write a single line of explanation.'',
      Text ''Direct Payouts: Automated bank wire or Stripe disbursements upon milestone release.'',
      Heading ''Dual-Role Compatibility'', Text ''Learn and teach with one login'',
      Text ''Can I still get help as a student? Yes! Every specialist retains full student rights. You can switch instantly between [Specialist View] and [Student View] from your header.'',
      Text ''Integrity Safeguard: The marketplace algorithm mathematically prevents self-dealing: you will never see or bid on briefs you created as a student.'',
      Text ''Verification SLA: < 48 Hours'',
      Text ''Academic compliance officers audit every credential and sample publication. You will receive an email confirmation once approved.'']"

definition ExpertApplyPage :: "apply_page \<Rightarrow> apply_event ui list" where
  "ExpertApplyPage p =
     apply_hero p
     @ shown_if (truthy (ap_reason p) \<and> ap_status p = Ap_rejected)
         [Text ''Reviewer note & revision request:'', Text (nullish (ap_reason p) [])]
     @ shown_if (\<not> isApplicationEditable (ap_status p) \<and> ap_loaded p \<and> ap_status p \<noteq> Ap_not_applied) (locked_card p)
     @ shown_if (isApplicationEditable (ap_status p)) (Box ''expert-apply-form'' (apply_form p) # apply_side)"

fun apply_enabled :: "apply_page \<Rightarrow> apply_event \<Rightarrow> bool" where
  "apply_enabled p (ApplyLoaded r) = (\<not> ap_loaded p)"
| "apply_enabled p LeaveApply = True"
| "apply_enabled p (CredentialsDone fs r) = True"
| "apply_enabled p (ApplyDone r) = ap_saving p"
| "apply_enabled p SubmitApply = (offered (ExpertApplyPage p) SubmitApply \<and> apply_valid (ap_fields p))"
| "apply_enabled p e = offered (ExpertApplyPage p) e"

section \<open>The page that shows the status\<close>

record status_page =
  as_status :: "application_status option"
  as_reason :: "string option"
  as_resubmissions :: nat
  as_error :: "string option"
  as_cancelled :: bool

definition status_init :: status_page where
  "status_init = \<lparr>as_status = None, as_reason = None, as_resubmissions = 0, as_error = None, as_cancelled = False\<rparr>"

datatype status_event =
    StatusLoaded "failure + application_status \<times> application option"
  | LeaveStatus
  | SubmitForReview
  | ReviewAnswer "failure + application_status"

fun status_step :: "status_page \<Rightarrow> status_event \<Rightarrow> status_page" where
  "status_step p (StatusLoaded r) =
     (if as_cancelled p then p
      else case r of
        Inl e \<Rightarrow> p\<lparr>as_error := Some ''Could not load your application status.''\<rparr>
      | Inr (st, al) \<Rightarrow>
          p\<lparr>as_status := Some st, as_reason := (case al of None \<Rightarrow> None | Some a \<Rightarrow> al_reason a),
            as_resubmissions := (case al of None \<Rightarrow> 0 | Some a \<Rightarrow> al_resubmissions a)\<rparr>)"
| "status_step p LeaveStatus = p\<lparr>as_cancelled := True\<rparr>"
| "status_step p SubmitForReview = p"
| "status_step p (ReviewAnswer r) =
     (case r of
        Inr st \<Rightarrow> p\<lparr>as_status := Some st\<rparr>
      | Inl e \<Rightarrow> p\<lparr>as_error := Some ''Could not submit -- complete the required fields first.''\<rparr>)"

fun status_call :: "string \<Rightarrow> status_page \<Rightarrow> status_event \<Rightarrow> api_init option" where
  "status_call b p SubmitForReview = Some (expertsApi_submitApplication b)"
| "status_call b p _ = None"

definition status_actions :: "application_status \<Rightarrow> status_event ui list" where
  "status_actions st =
     shown_if (st = Ap_not_applied) [Link ''/expert/apply'' ''Start an application'']
     @ shown_if (canSubmitApplication st)
         [Link ''/expert/apply'' (if st = Ap_rejected then ''Update & resubmit'' else ''Continue draft''),
          Button ''Submit for review'' False SubmitForReview]
     @ shown_if (st = Ap_approved) [Link ''/expert/profile'' ''Edit your expert profile'']"

definition ExpertApplicationStatusPage :: "status_page \<Rightarrow> status_event ui list" where
  "ExpertApplicationStatusPage p =
     (if truthy (as_error p) then [Alert (the (as_error p))]
      else case as_status p of
        None \<Rightarrow> [Box ''application-loading'' []]
      | Some st \<Rightarrow>
          (let (title, detail, tone) = APPLICATION_STATUS_COPY st
           in [Heading ''Expert application'', Text title, Text detail,
               Badge tone (replace_first (CHR ''_'') '' '' (application_key st))]
              @ shown_if (truthy (as_reason p)) [Text (''Reviewer note: '' @ nullish (as_reason p) [])]
              @ shown_if (0 < as_resubmissions p) [Text (''Resubmissions: '' @ show_nat (as_resubmissions p))]
              @ status_actions st))"

section \<open>The documented lifecycle\<close>

text \<open>
  What an applicant may do, from \<open>docs/workflows/expert-journey.md\<close>: one application per user, editing
  until the review starts, submitting a complete draft or a rejected application. A server that
  follows it holds the status; \<open>full\<close> says whether its check of the content passes.
\<close>

datatype applicant_action = A_apply | A_edit | A_submit

fun application_rule :: "bool \<Rightarrow> applicant_action \<Rightarrow> application_status \<Rightarrow> application_status option" where
  "application_rule full A_apply st = (if st = Ap_not_applied then Some Ap_draft else None)"
| "application_rule full A_edit st = (if st \<in> {Ap_draft, Ap_submitted, Ap_rejected} then Some st else None)"
| "application_rule full A_submit st =
     (if st \<in> {Ap_draft, Ap_rejected} \<and> full then Some Ap_submitted else None)"

definition application_request :: "api_init \<Rightarrow> applicant_action option" where
  "application_request i =
     (if init_path i = ''/api/v1/me/expert-application/submit'' then Some A_submit
      else if init_path i = ''/api/v1/me/expert-application''
      then Some (if init_method i = Some ''POST'' then A_apply else A_edit) else None)"

definition application_server :: "bool \<Rightarrow> application_status server" where
  "application_server full i st =
     (case Option.bind (application_request i) (\<lambda>a. application_rule full a st) of
        None \<Rightarrow> (Inl (JsError ''refused''), st)
      | Some st' \<Rightarrow> (Inr (JObj [(''status'', JStr (application_key st'))]), st'))"

section \<open>Lemmas\<close>

lemma application_requests [simp]:
  "application_request (expertsApi_submitApplication b) = Some A_submit"
  "application_request (expertsApi_saveApplication b v Create) = Some A_apply"
  "application_request (expertsApi_saveApplication b v Patch) = Some A_edit"
  by (simp_all add: application_request_def expertsApi_submitApplication_def expertsApi_saveApplication_def js_simps)

lemma apply_send_server:
  "apply_send b (application_server full) shown payload st =
     (case application_rule full (if shown = Ap_not_applied then A_apply else A_edit) st of
        None \<Rightarrow> (Inl (JsError ''refused''), st)
      | Some st1 \<Rightarrow>
          (case application_rule full A_submit st1 of
             None \<Rightarrow> (Inl (JsError ''refused''), st1)
           | Some st2 \<Rightarrow> (Inr (JObj [(''status'', JStr (application_key st2))]), st2)))"
  by (auto simp: apply_send_def application_server_def simp del: application_rule.simps split: option.splits)

lemma offered_apply_persona:
  "offered (apply_persona f) e \<longleftrightarrow> (\<exists>k v. e = TypeApply k v) \<or> (\<exists>h \<in> set headline_hints. e = PickHint h)"
proof -
  have "(\<exists>k v. e = TypeApply k v) \<longleftrightarrow>
    (\<exists>v. e \<in> {TypeApply D_name v, TypeApply D_headline v, TypeApply D_bio v, TypeApply D_summary v,
      TypeApply D_years v, TypeApply D_languages v, TypeApply D_quals v, TypeApply D_note v})"
    by (auto, metis apply_field.exhaust)
  then show ?thesis by (auto simp: apply_persona_def offered_map)
qed

lemma offered_ExpertApplyPage_submit:
  "offered (ExpertApplyPage p) SubmitApply \<longleftrightarrow>
   isApplicationEditable (ap_status p) \<and> \<not> ap_saving p \<and> \<not> ap_uploading p"
  by (auto simp: ExpertApplyPage_def apply_form_def apply_hero_def locked_card_def offers_Box offered_apply_persona
      apply_chips_def apply_files_def apply_side_def offered_map split: prod.split simp del: offers.simps(6) list.map)

lemma offered_status_page:
  "offered (ExpertApplicationStatusPage p) e \<longleftrightarrow>
   e = SubmitForReview \<and> \<not> truthy (as_error p) \<and> (\<exists>st. as_status p = Some st \<and> canSubmitApplication st)"
  by (auto simp: ExpertApplicationStatusPage_def status_actions_def split: option.split prod.split)

text \<open>
  Nothing of a stored application comes back into the form: loading it leaves the fields as they are, so
  an update that does not type them again sends them empty.
\<close>

lemma loading_keeps_fields: "ap_fields (apply_step p (ApplyLoaded r)) = ap_fields p"
  by (auto split: sum.split)

lemma update_sends_empty:
  "get_field (apply_payload (apply_step apply_init (ApplyLoaded r))) ''qualifications'' = Some (JStr [])"
  by (simp add: apply_payload_def loading_keeps_fields Let_def apply_init_def empty_fields_def trim_def del: apply_step.simps)

text \<open>The note of a rejection stays on the page after the application is submitted again.\<close>

lemma rejection_note_stays: "as_reason (status_step p (ReviewAnswer (Inr st))) = as_reason p"
  by simp

lemma set_checked_ids: "set (checked_ids ts marked) = {i \<in> tt_id ` set ts. i \<in> set marked \<and> i \<noteq> 0}"
  by (auto simp: checked_ids_def)

lemma years_json_valid:
  assumes "years_valid s"
  obtains n where "years_json s = JNum n" "0 \<le> n" "n \<le> 60"
proof (cases "s = []")
  case True
  then have "years_json s = JNum 0" by (simp add: years_json_def to_number_def trim_def)
  then show ?thesis using that by simp
next
  case False
  then obtain r where "to_number s = Some r" "0 \<le> r" "r \<le> 60" "of_int \<lfloor>r\<rfloor> = r"
    using assms by (auto simp: years_valid_def split: option.splits)
  then have "years_json s = JNum \<lfloor>r\<rfloor>" "0 \<le> \<lfloor>r\<rfloor>" "\<lfloor>r\<rfloor> \<le> 60"
    by (auto simp: years_json_def floor_le_iff)
  then show ?thesis using that by blast
qed

section \<open>Properties\<close>

text \<open>
  C30: every application the form sends has the documented shape: the texts within their lengths, the
  years a whole number from 0 to 60, both attestations true, and the subjects and skills identifiers of
  terms of the right kind, none of them 0.
\<close>

theorem application_typed:
  assumes "apply_enabled p SubmitApply"
  shows "(\<forall>(k, n) \<in> {(''display_name'', 150), (''headline'', 120), (''bio'', 2000), (''expertise_summary'', 500),
        (''qualifications'', 1000), (''languages'', 200), (''availability_note'', 300)}.
      \<exists>s. get_field (apply_payload p) k = Some (JStr s) \<and> length s \<le> n) \<and>
    (\<exists>n. get_field (apply_payload p) ''experience_years'' = Some (JNum n) \<and> 0 \<le> n \<and> n \<le> 60) \<and>
    get_field (apply_payload p) ''certified_18_plus'' = Some (JBool True) \<and>
    get_field (apply_payload p) ''integrity_acknowledged'' = Some (JBool True) \<and>
    (\<exists>is. get_field (apply_payload p) ''subject_ids'' = Some (JArr (map JNum is)) \<and>
       set is \<subseteq> tt_id ` set (subject_terms (ap_terms p)) - {0}) \<and>
    (\<exists>is. get_field (apply_payload p) ''skill_ids'' = Some (JArr (map JNum is)) \<and>
       set is \<subseteq> tt_id ` set (skill_terms (ap_terms p)) - {0}) \<and>
    get_field (apply_payload p) ''credential_ids'' = Some (JArr (map JStr (ap_creds p)))"
proof -
  from assms have v: "apply_valid (ap_fields p)" by simp
  have texts: "length (trim s) \<le> n" if "length s \<le> n" for s n
    using length_trim [of s] that by linarith
  obtain n where n: "years_json (ad_years (ap_fields p)) = JNum n" "0 \<le> n" "n \<le> 60"
    using v years_json_valid by (auto simp: apply_valid_def)
  have "get_field (apply_payload p) ''experience_years'' = Some (JNum n)"
    using n by (simp add: apply_payload_def Let_def)
  moreover have "get_field (apply_payload p) ''subject_ids'' =
      Some (JArr (map JNum (checked_ids (subject_terms (ap_terms p)) (ad_subjects (ap_fields p)))))"
    "get_field (apply_payload p) ''skill_ids'' =
      Some (JArr (map JNum (checked_ids (skill_terms (ap_terms p)) (ad_skills (ap_fields p)))))"
    by (simp_all add: apply_payload_def Let_def)
  moreover have "\<forall>(k, n) \<in> {(''display_name'', 150), (''headline'', 120), (''bio'', 2000), (''expertise_summary'', 500),
        (''qualifications'', 1000), (''languages'', 200), (''availability_note'', 300)}.
      \<exists>s. get_field (apply_payload p) k = Some (JStr s) \<and> length s \<le> n"
    using v texts by (simp add: apply_payload_def apply_valid_def Let_def)
  moreover have "get_field (apply_payload p) ''certified_18_plus'' = Some (JBool True)"
    "get_field (apply_payload p) ''integrity_acknowledged'' = Some (JBool True)"
    "get_field (apply_payload p) ''credential_ids'' = Some (JArr (map JStr (ap_creds p)))"
    using v by (simp_all add: apply_payload_def apply_valid_def Let_def)
  ultimately show ?thesis using n by (auto simp: set_checked_ids)
qed

definition filled_fields :: apply_fields where
  "filled_fields = empty_fields\<lparr>ad_name := ''Ada'', ad_headline := ''PhD'', ad_bio := ''I teach.'', ad_summary := ''Proofs'',
     ad_years := ''6'', ad_subjects := [4, 9], ad_adult := True, ad_integrity := True\<rparr>"

theorem application_typed_witness:
  "(let p = apply_init\<lparr>ap_fields := filled_fields, ap_terms := [\<lparr>tt_id = 4, tt_kind = ''subject'', tt_name = ''Logic''\<rparr>]\<rparr>
    in get_field (apply_payload p) ''certified_18_plus'' = Some (JBool True))"
proof -
  let ?p = "apply_init\<lparr>ap_fields := filled_fields, ap_terms := [\<lparr>tt_id = 4, tt_kind = ''subject'', tt_name = ''Logic''\<rparr>]\<rparr>"
  have "years_valid ''6''" by code_simp
  then have "apply_enabled ?p SubmitApply"
    by (simp add: offered_ExpertApplyPage_submit apply_init_def isApplicationEditable_def apply_valid_def filled_fields_def empty_fields_def)
  then show ?thesis using application_typed [of ?p] by (simp add: Let_def)
qed

text \<open>
  C31: the form against the documented lifecycle. With a server that follows it, a submission of the form
  opened in the server's status ends in \<open>submitted\<close> exactly when the documents allow to submit in that
  status or to apply and then submit; the one status in which the form is offered all the same, and
  always fails, is \<open>submitted\<close>. The page with the status offers to submit only where it is allowed. When
  the content is refused after the application was created, the form still takes it for not created, and
  trying again is refused however complete it is by then.
\<close>

theorem application_lifecycle:
  "apply_send b (application_server True) st payload st =
     (if st \<in> {Ap_not_applied, Ap_draft, Ap_rejected}
      then (Inr (JObj [(''status'', JStr ''submitted'')]), Ap_submitted) else (Inl (JsError ''refused''), st)) \<and>
   (isApplicationEditable st \<longleftrightarrow> st \<in> {Ap_not_applied, Ap_draft, Ap_rejected} \<or> st = Ap_submitted) \<and>
   (offered (ExpertApplicationStatusPage (status_step status_init (StatusLoaded (Inr (st, al))))) SubmitForReview \<longleftrightarrow>
      application_rule True A_submit st \<noteq> None) \<and>
   (let (answer, server) = apply_send b (application_server False) Ap_not_applied payload Ap_not_applied;
        p = apply_step (apply_step apply_init SubmitApply) (ApplyDone (map_sum id (\<lambda>_. Ap_submitted) answer))
    in server = Ap_draft \<and> ap_status p = Ap_not_applied \<and> offered (ExpertApplyPage p) SubmitApply \<and>
       apply_send b (application_server True) (ap_status p) payload server = (Inl (JsError ''refused''), Ap_draft))"
proof (intro conjI)
  show "apply_send b (application_server True) st payload st =
     (if st \<in> {Ap_not_applied, Ap_draft, Ap_rejected}
      then (Inr (JObj [(''status'', JStr ''submitted'')]), Ap_submitted) else (Inl (JsError ''refused''), st))"
    by (cases st) (simp_all add: apply_send_server)
  show "isApplicationEditable st \<longleftrightarrow> st \<in> {Ap_not_applied, Ap_draft, Ap_rejected} \<or> st = Ap_submitted"
    by (auto simp: isApplicationEditable_def)
  show "offered (ExpertApplicationStatusPage (status_step status_init (StatusLoaded (Inr (st, al))))) SubmitForReview \<longleftrightarrow>
      application_rule True A_submit st \<noteq> None"
    by (auto simp: offered_status_page status_init_def canSubmitApplication_def)
  show "let (answer, server) = apply_send b (application_server False) Ap_not_applied payload Ap_not_applied;
        p = apply_step (apply_step apply_init SubmitApply) (ApplyDone (map_sum id (\<lambda>_. Ap_submitted) answer))
    in server = Ap_draft \<and> ap_status p = Ap_not_applied \<and> offered (ExpertApplyPage p) SubmitApply \<and>
       apply_send b (application_server True) (ap_status p) payload server = (Inl (JsError ''refused''), Ap_draft)"
    by (simp add: apply_send_server offered_ExpertApplyPage_submit apply_init_def isApplicationEditable_def)
qed

end
