(* ===== verification/Profiles.thy ===== *)
theory Profiles
  imports Application Reviews
begin

text \<open>
  The approved expert's pages: the profile \<open>app/(app)/expert/profile/page.tsx\<close> and the reviews received
  \<open>app/(app)/expert/reviews/page.tsx\<close>.
\<close>

section \<open>The profile\<close>

datatype availability = Available | Paused

fun availability_key :: "availability \<Rightarrow> string" where
  "availability_key Available = ''available''"
| "availability_key Paused = ''paused''"

text \<open>What the page reads of the public profile.\<close>

record public_expert =
  pe_slug :: string
  pe_name :: string
  pe_headline :: string
  pe_bio :: string
  pe_quals :: string
  pe_languages :: string
  pe_availability :: availability

datatype profile_field = P_name | P_headline | P_bio | P_quals | P_languages

fun profile_default :: "public_expert \<Rightarrow> profile_field \<Rightarrow> string" where
  "profile_default e P_name = pe_name e"
| "profile_default e P_headline = pe_headline e"
| "profile_default e P_bio = pe_bio e"
| "profile_default e P_quals = pe_quals e"
| "profile_default e P_languages = pe_languages e"

text \<open>A field shows its default until something is typed into it.\<close>

datatype profile_state = Pf_loading | Pf_ready | Pf_saving | Pf_saved | Pf_none

record profile_page =
  pp_profile :: "public_expert option"
  pp_availability :: availability
  pp_public :: bool
  pp_state :: profile_state
  pp_error :: "string option"
  pp_cancelled :: bool
  pp_typed :: "profile_field \<rightharpoonup> string"

definition profile_init :: profile_page where
  "profile_init =
     \<lparr>pp_profile = None, pp_availability = Available, pp_public = True, pp_state = Pf_loading, pp_error = None,
      pp_cancelled = False, pp_typed = Map.empty\<rparr>"

definition profile_value :: "profile_page \<Rightarrow> profile_field \<Rightarrow> string" where
  "profile_value p k =
     (case pp_typed p k of
        Some v \<Rightarrow> v
      | None \<Rightarrow> (case pp_profile p of None \<Rightarrow> [] | Some e \<Rightarrow> profile_default e k))"

definition profile_payload :: "profile_page \<Rightarrow> json" where
  "profile_payload p =
     JObj
       [(''display_name'', JStr (trim (profile_value p P_name))), (''headline'', JStr (trim (profile_value p P_headline))),
        (''bio'', JStr (trim (profile_value p P_bio))), (''qualifications'', JStr (trim (profile_value p P_quals))),
        (''languages'', JStr (trim (profile_value p P_languages))),
        (''availability'', JStr (availability_key (pp_availability p))), (''is_public'', JBool (pp_public p))]"

datatype profile_event =
    ProfileLoaded "failure + public_expert"
  | LeaveProfile
  | TypeProfile profile_field string
  | PickAvailability availability
  | TogglePublic
  | SaveProfile
  | ProfileSaved "failure + public_expert"

fun profile_step :: "profile_page \<Rightarrow> profile_event \<Rightarrow> profile_page" where
  "profile_step p (ProfileLoaded r) =
     (if pp_cancelled p then p
      else case r of
        Inl e \<Rightarrow> p\<lparr>pp_state := Pf_none\<rparr>
      | Inr e \<Rightarrow> p\<lparr>pp_profile := Some e, pp_availability := pe_availability e, pp_public := True, pp_state := Pf_ready\<rparr>)"
| "profile_step p LeaveProfile = p\<lparr>pp_cancelled := True\<rparr>"
| "profile_step p (TypeProfile k v) = p\<lparr>pp_typed := (pp_typed p)(k \<mapsto> v)\<rparr>"
| "profile_step p (PickAvailability a) = p\<lparr>pp_availability := a\<rparr>"
| "profile_step p TogglePublic = p\<lparr>pp_public := \<not> pp_public p\<rparr>"
| "profile_step p SaveProfile = p\<lparr>pp_error := None, pp_state := Pf_saving\<rparr>"
| "profile_step p (ProfileSaved r) =
     (case r of
        Inr e \<Rightarrow> p\<lparr>pp_profile := Some e, pp_state := Pf_saved\<rparr>
      | Inl e \<Rightarrow> p\<lparr>pp_error := Some ''Could not save changes. Please try again.'', pp_state := Pf_ready\<rparr>)"

fun profile_call :: "string \<Rightarrow> profile_page \<Rightarrow> profile_event \<Rightarrow> api_init option" where
  "profile_call b p SaveProfile = Some (expertsApi_updateExpertProfile b (profile_payload p))"
| "profile_call b p _ = None"

text \<open>
  The constraints of the elements: the browser submits the form only with the three texts that are
  \<open>required\<close>. (\<open>maxLength\<close> limits what can be typed into a field, the same in both applications.)
\<close>

definition profile_required :: "profile_page \<Rightarrow> bool" where
  "profile_required p \<longleftrightarrow> profile_value p P_name \<noteq> [] \<and> profile_value p P_headline \<noteq> [] \<and> profile_value p P_bio \<noteq> []"

definition profile_form :: "profile_page \<Rightarrow> profile_event ui list" where
  "profile_form p =
     [Field ''Public Display Name'' (profile_value p P_name) (TypeProfile P_name),
      Field ''Professional Academic Headline'' (profile_value p P_headline) (TypeProfile P_headline),
      Field ''Academic Background & Coaching Philosophy'' (profile_value p P_bio) (TypeProfile P_bio),
      Field ''Degrees, Honors & Certifications'' (profile_value p P_quals) (TypeProfile P_quals),
      Field ''Languages (comma separated)'' (profile_value p P_languages) (TypeProfile P_languages),
      Check ''Available for new requests & invitations'' (pp_availability p = Available) False (PickAvailability Available),
      Check ''Paused (not accepting new assignments)'' (pp_availability p = Paused) False (PickAvailability Paused),
      Check ''Listed in the public marketplace specialist directory'' (pp_public p) False TogglePublic]
     @ alert_if (pp_error p)
     @ shown_if (pp_state p = Pf_saved) [Text ''Profile saved successfully.'']
     @ [Button (if pp_state p = Pf_saving then ''Saving Profile...'' else ''Save Changes'')
          (pp_state p = Pf_saving \<or> \<not> profile_required p) SaveProfile]"

definition ExpertProfilePage :: "profile_page \<Rightarrow> profile_event ui list" where
  "ExpertProfilePage p =
     (if pp_state p = Pf_loading then [Box ''expert-profile-loading'' []]
      else if pp_state p = Pf_none
      then [Heading ''Specialist Profile Pending Approval'',
            Text ''Your public specialist profile and bidding eligibility appear here after your credentials and background are verified by our academic review team.'',
            Link ''/expert/application'' ''Check Application Review Status'']
      else Heading ''Specialist Profile Cockpit''
        # (case pp_profile p of None \<Rightarrow> [] | Some e \<Rightarrow> [Link (''/experts/'' @ pe_slug e) ''View Public Profile''])
        @ [Link ''/expert/reviews'' ''Reviews & Ratings''] @ profile_form p)"

section \<open>The reviews received\<close>

text \<open>
  Each card that can be replied to has a reply form of its own. A run of \<open>onSubmit\<close> posts the reply, then
  loads the list again; \<open>load\<close> catches its own failure.
\<close>

record received_page =
  er_reviews :: "review list option"
  er_failed :: bool
  er_busy :: "string option"
  er_notice :: "string option"
  er_forms :: "string \<Rightarrow> reply_form"

definition received_init :: received_page where
  "received_init =
     \<lparr>er_reviews = None, er_failed = False, er_busy = None, er_notice = None, er_forms = (\<lambda>_. reply_init)\<rparr>"

text \<open>The average as printed, the number of reviews and the number of replies.\<close>

definition rating_total :: "review list \<Rightarrow> nat" where
  "rating_total rs = sum_list (map (\<lambda>r. if rv_rating r = 0 then 5 else rv_rating r) rs)"

definition review_metrics :: "review list option \<Rightarrow> string \<times> nat \<times> nat" where
  "review_metrics rs =
     (case rs of
        None \<Rightarrow> (''5.0'', 0, 0)
      | Some xs \<Rightarrow>
          if xs = [] then (''5.0'', 0, 0)
          else (to_fixed1 (of_nat (rating_total xs) / of_nat (length xs)), length xs,
                length (filter (\<lambda>r. truthy (rv_replied_at r)) xs)))"

datatype received_event =
    ReviewsLoaded "failure + review list"
  | ReplyOn string reply_event
  | ReplyPosted string "failure + json"
  | ReviewsReloaded "failure + review list"   \<comment> \<open>the list loaded again after a reply\<close>

text \<open>The list, and the forms of the cards: a form whose card no longer has one starts afresh.\<close>

definition load_reviews :: "failure + review list \<Rightarrow> received_page \<Rightarrow> received_page" where
  "load_reviews r p =
     (case r of
        Inl e \<Rightarrow> p\<lparr>er_failed := True\<rparr>
      | Inr rs \<Rightarrow>
          p\<lparr>er_reviews := Some rs, er_failed := False,
            er_forms := (\<lambda>i. if \<exists>r \<in> set rs. rv_id r = i \<and> canReplyToReview r True then er_forms p i else reply_init)\<rparr>)"

definition reply_failed_notice :: "failure \<Rightarrow> string" where
  "reply_failed_notice e =
     (case e of
        Api a \<Rightarrow> if err_code a = Some (JStr ''duplicate_reply'') then ''You already replied to this review.''
                else ''Could not post the reply.''
      | _ \<Rightarrow> ''Could not post the reply.'')"

fun received_step :: "received_page \<Rightarrow> received_event \<Rightarrow> received_page" where
  "received_step p (ReviewsLoaded r) = load_reviews r p"
| "received_step p (ReplyOn i e) =
     (let p' = p\<lparr>er_forms := (er_forms p)(i := reply_step (er_forms p i) e)\<rparr>
      in if e = SubmitReply \<and> snd (reply_submit (er_forms p i)) \<noteq> None
         then p'\<lparr>er_busy := Some i, er_notice := None\<rparr> else p')"
| "received_step p (ReplyPosted i r) =
     (case r of
        Inr _ \<Rightarrow> p
      | Inl e \<Rightarrow> p\<lparr>er_notice := Some (reply_failed_notice e), er_busy := None\<rparr>)"
| "received_step p (ReviewsReloaded r) = (load_reviews r p)\<lparr>er_notice := Some ''Reply published.'', er_busy := None\<rparr>"

fun received_call :: "received_page \<Rightarrow> received_event \<Rightarrow> api_init option" where
  "received_call p (ReplyOn i SubmitReply) =
     map_option (\<lambda>(t, n). reviewsApi_reply i t (map_option int n)) (snd (reply_submit (er_forms p i)))"
| "received_call p (ReplyPosted i (Inr _)) = Some reviewsApi_received"
| "received_call p _ = None"

definition received_card :: "received_page \<Rightarrow> review \<Rightarrow> received_event ui" where
  "received_card p r =
     Box (rv_id r)
       ([Text (''Order '' @ rv_order_number r),
         if truthy (rv_replied_at r) then Badge ''info'' ''Replied'' else Badge ''warning'' ''Awaiting reply'']
        @ ReviewCard r
        @ shown_if (canReplyToReview r True)
            (map (map_events (ReplyOn (rv_id r))) (ReviewReplyForm (er_forms p (rv_id r)) (er_busy p = Some (rv_id r)))))"

definition metric_strip :: "review list option \<Rightarrow> received_event ui list" where
  "metric_strip rs =
     (case review_metrics rs of (avg, count, replied) \<Rightarrow>
        [Text ''Recency Weighted Score'', Text avg, Text ''/ 5.0'', Text ''Total Client Reviews'', Text (show_nat count),
         Text ''Public Replies Published'', Text (show_nat replied)])"

definition ExpertReviewsPage :: "received_page \<Rightarrow> received_event ui list" where
  "ExpertReviewsPage p =
     (case er_reviews p of
        None \<Rightarrow>
          if er_failed p
          then [Link ''/expert/profile'' ''Back'', Alert ''Could not load your reviews -- please refresh.'']
          else [Box ''loading'' []]
      | Some rs \<Rightarrow>
          [Link ''/expert/profile'' ''Back'', Heading ''Client Reviews & Academic Ratings'',
           Text ''Student feedback on completed engagements. Public ratings use a recency-weighted average (BR-39).'']
          @ metric_strip (er_reviews p)
          @ (if truthy (er_notice p) then [Text (the (er_notice p))] else [])
          @ (if rs = [] then [Heading ''No published reviews yet'']
             else map (received_card p) rs))"

section \<open>Lemmas\<close>

lemma profile_field_events:
  "(\<exists>k v. e = TypeProfile k v) \<longleftrightarrow>
   (\<exists>v. e \<in> {TypeProfile P_name v, TypeProfile P_headline v, TypeProfile P_bio v, TypeProfile P_quals v, TypeProfile P_languages v})"
  by (auto, metis profile_field.exhaust)

lemma offered_profile_form:
  "offered (profile_form p) e \<longleftrightarrow>
   (\<exists>k v. e = TypeProfile k v) \<or> (\<exists>a. e = PickAvailability a) \<or> e = TogglePublic \<or>
   (e = SaveProfile \<and> pp_state p \<noteq> Pf_saving \<and> profile_required p)"
proof -
  have "(\<exists>a. e = PickAvailability a) \<longleftrightarrow> e = PickAvailability Available \<or> e = PickAvailability Paused"
    by (metis availability.exhaust)
  then show ?thesis unfolding profile_field_events by (auto simp: profile_form_def)
qed

lemma offered_received_card:
  "offers (received_card p r) e \<longleftrightarrow>
   canReplyToReview r True \<and>
   (\<exists>x. e = ReplyOn (rv_id r) x \<and> offered (ReviewReplyForm (er_forms p (rv_id r)) (er_busy p = Some (rv_id r))) x)"
  by (auto simp: received_card_def offers_Box offered_child simp del: offers.simps(6) list.map)

lemma offered_reply_submit: "offered (ReviewReplyForm f busy) SubmitReply \<longleftrightarrow> \<not> busy"
  by (auto simp: ReviewReplyForm_def offers_Box offered_map simp del: offers.simps(6))

lemma offered_ExpertReviewsPage:
  "offered (ExpertReviewsPage p) e \<longleftrightarrow> (\<exists>rs. er_reviews p = Some rs \<and> (\<exists>r \<in> set rs. offers (received_card p r) e))"
  by (auto simp: ExpertReviewsPage_def metric_strip_def offered_map split: option.split prod.split)

text \<open>The reply that is being posted is only kept for one card: a reply to another makes the first sendable again.\<close>

lemma second_reply_frees_first:
  assumes "er_busy p = Some i" "j \<noteq> i" "20 \<le> length (trim (rf_reply (er_forms p j)))"
  shows "er_busy (received_step p (ReplyOn j SubmitReply)) = Some j"
  using assms by (simp add: reply_submit_def MIN_BODY_CHARS_def)

lemma replies_counted:
  "review_metrics (Some rs) = (avg, count, replied) \<Longrightarrow> count = length rs \<and> replied \<le> count"
  by (auto simp: review_metrics_def split: if_splits)

section \<open>Properties\<close>

text \<open>
  Saving an untouched profile that has its three required texts. What is sent are the texts the server gave, trimmed, and the
  availability it gave; but whether the profile is listed is not among what the page loads, so the
  profile is listed, whatever it was before.
\<close>

lemma untouched_profile_roundtrip:
  assumes "pe_name e \<noteq> []" "pe_headline e \<noteq> []" "pe_bio e \<noteq> []"
  shows "(let p = profile_step profile_init (ProfileLoaded (Inr e))
    in offered (ExpertProfilePage p) SaveProfile \<and>
       profile_call b p SaveProfile = Some (expertsApi_updateExpertProfile b (JObj
         [(''display_name'', JStr (trim (pe_name e))), (''headline'', JStr (trim (pe_headline e))),
          (''bio'', JStr (trim (pe_bio e))), (''qualifications'', JStr (trim (pe_quals e))),
          (''languages'', JStr (trim (pe_languages e))),
          (''availability'', JStr (availability_key (pe_availability e))), (''is_public'', JBool True)])))"
  using assms
  by (simp add: profile_init_def ExpertProfilePage_def offered_profile_form profile_payload_def profile_value_def
      profile_required_def)

text \<open>
  A reply is sent only for a listed review that has none and is published, while it is not being
  posted, trimmed and of at least twenty characters, with the rating of the student left out where none
  was given; and the page then shows it as being posted.
\<close>

lemma replies_guarded:
  assumes "offered (ExpertReviewsPage p) e" "received_call p e = Some i"
  shows "\<exists>r rs f. er_reviews p = Some rs \<and> r \<in> set rs \<and> canReplyToReview r True \<and> er_busy p \<noteq> Some (rv_id r) \<and>
    e = ReplyOn (rv_id r) SubmitReply \<and> f = er_forms p (rv_id r) \<and> 20 \<le> length (trim (rf_reply f)) \<and>
    i = reviewsApi_reply (rv_id r) (trim (rf_reply f)) (if rf_rating f = 0 then None else Some (int (rf_rating f))) \<and>
    er_busy (received_step p e) = Some (rv_id r)"
proof -
  obtain rs r x where r: "er_reviews p = Some rs" "r \<in> set rs" "canReplyToReview r True" "e = ReplyOn (rv_id r) x"
      "offered (ReviewReplyForm (er_forms p (rv_id r)) (er_busy p = Some (rv_id r))) x"
    using assms(1) by (auto simp: offered_ExpertReviewsPage offered_received_card)
  have x: "x = SubmitReply" using assms(2) r(4) by (cases x) auto
  then have "er_busy p \<noteq> Some (rv_id r)" using r(5) by (simp add: offered_reply_submit)
  moreover have long: "20 \<le> length (trim (rf_reply (er_forms p (rv_id r))))"
    using assms(2) r(4) x by (simp add: reply_submit_def MIN_BODY_CHARS_def split: if_splits)
  moreover have "i = reviewsApi_reply (rv_id r) (trim (rf_reply (er_forms p (rv_id r))))
      (if rf_rating (er_forms p (rv_id r)) = 0 then None else Some (int (rf_rating (er_forms p (rv_id r)))))"
    using assms(2) r(4) x long by (auto simp: reply_submit_def MIN_BODY_CHARS_def)
  moreover have "er_busy (received_step p e) = Some (rv_id r)"
    using r(4) x long by (simp add: reply_submit_def MIN_BODY_CHARS_def)
  ultimately show ?thesis using r x by blast
qed

end
