(* ===== verification/Account.thy ===== *)
theory Account
  imports Workspace Application
begin

text \<open>
  What belongs to the account: \<open>app/(app)/account/page.tsx\<close>, whose workspace controller writes the mode
  that the layout reads, and the student's onboarding \<open>app/(app)/onboarding/student/page.tsx\<close>.
\<close>

section \<open>The account page\<close>

text \<open>The storage and the cookie are the browser's, shared with the layout.\<close>

record account_page =
  ac_mode :: work_mode
  ac_application :: "application_status option"
  ac_cancelled :: bool
  ac_local :: "string \<rightharpoonup> string"
  ac_cookie :: "string option"
  ac_pushed :: "string option"

definition account_init :: "(string \<rightharpoonup> string) \<Rightarrow> string option \<Rightarrow> account_page" where
  "account_init loc cookie =
     \<lparr>ac_mode = (if loc ''hem_role_mode'' = Some ''EXPERT'' then Expert_mode else Student_mode), ac_application = None,
      ac_cancelled = False, ac_local = loc, ac_cookie = cookie, ac_pushed = None\<rparr>"

definition handleSwitchMode :: "bool \<Rightarrow> bool \<Rightarrow> work_mode \<Rightarrow> account_page \<Rightarrow> account_page" where
  "handleSwitchMode writes isExpert m p =
     (let p1 = p\<lparr>ac_mode := m\<rparr>;
          p2 = (if writes then p1\<lparr>ac_local := (ac_local p1)(''hem_role_mode'' \<mapsto> mode_key m), ac_cookie := Some (mode_key m)\<rparr>
                else p1)
      in p2\<lparr>ac_pushed := Some (if m = Expert_mode then (if isExpert then ''/opportunities'' else ''/expert/apply'')
                             else ''/requests'')\<rparr>)"

datatype account_event =
    ApplicationIs "failure + application_status"
  | LeaveAccount
  | Switch_mode work_mode

fun account_step :: "bool \<Rightarrow> bool \<Rightarrow> account_page \<Rightarrow> account_event \<Rightarrow> account_page" where
  "account_step writes isExpert p (ApplicationIs r) =
     (if ac_cancelled p then p
      else p\<lparr>ac_application := (case r of Inl e \<Rightarrow> None | Inr st \<Rightarrow> Some st)\<rparr>)"
| "account_step writes isExpert p LeaveAccount = p\<lparr>ac_cancelled := True\<rparr>"
| "account_step writes isExpert p (Switch_mode m) = handleSwitchMode writes isExpert m p"

definition account_identity :: "shell_user \<Rightarrow> account_event ui list" where
  "account_identity u =
     [Heading ''Account & Scholar Profile'', Text (su_email u), Link ''/requests'' ''Learning Dashboard'',
      Link ''/requests/new'' ''Post New Brief'', Text (userInitial (Some u)),
      if su_verified u then Badge ''success'' ''Email Verified'' else Badge ''danger'' ''Unverified'',
      Heading (su_name u), Text (su_email u), Text ''Scholar - Level 2'', Text ''5-Day Streak'', Text ''4.98'',
      Text ''BR-10 Certified'', Text (su_timezone u), Text ''100% Escrow Hold'']"

definition workspace_controller :: "bool \<Rightarrow> account_page \<Rightarrow> account_event ui list" where
  "workspace_controller isExpert p =
     [Text ''Workspace Controller'',
      if isExpert then Badge ''success'' ''DUAL-ROLE ACTIVE'' else Badge ''neutral'' ''STUDENT ACCESS'',
      Text (if ac_mode p = Student_mode then ''Student Workspace (/requests)''
            else if isExpert then ''Specialist Workspace (/opportunities)'' else ''Specialist Workspace (/expert/apply)''),
      Button ''Student Hub'' False (Switch_mode Student_mode), Button ''Specialist Hub'' False (Switch_mode Expert_mode)]
     @ shown_if (\<not> isExpert)
         [Heading ''Upgrade to Verified Specialist'', Link ''/expert/apply'' ''Apply for Vetting'',
          Link ''/expert/application'' ''Status'']"

definition account_cards :: "account_event ui list" where
  "account_cards =
     [Heading ''My Orders & Active Engagements'',
      Text ''Every engagement -- open marketplace, managed pool, or direct consultation -- is managed here with real-time milestone tracking and escrow verification.'',
      Link ''/orders'' ''Open Orders Hub'', Text ''In-Flight Orders'', Text ''0'', Text ''Escrow Custody'', Text ''$0.00'',
      Text ''Completed'', Text ''0'', Heading ''Academic Disciplines & Interests'',
      Text ''Your customized learning tags help our coordinator algorithm match you with the top 3% doctoral specialists.'',
      Link ''/onboarding/student'' ''Edit Preferences'', Text ''[laptop] Computer Science & ML'',
      Text ''[ruler] Advanced Mathematics & Calculus'', Text ''[chart] Econometrics & Finance'',
      Text ''[gear] Mechanical Engineering'', Text ''[dna] Molecular Biology & Genetics'',
      Heading ''Security, Escrow & Authentication'',
      Text ''Bank-grade milestone escrow and zero-trust session management for your account.'', Text ''Escrow Custody Protocol'',
      Text ''All funds are locked in segregated escrow until you personally approve deliverables.'', Text ''Dual-Authentication Seam'',
      Text ''Protected with hardware-isolated HTTP-only cookies and cryptographically signed JWTs.'']"

definition AccountPage :: "shell_user option \<Rightarrow> account_page \<Rightarrow> account_event ui list" where
  "AccountPage u p =
     (case u of
        None \<Rightarrow> []
      | Some x \<Rightarrow>
          account_identity x @ workspace_controller (su_expert x) p
          @ account_cards
          @ shown_if (su_expert x)
              [Heading ''Verified Specialist Workspace'', Badge ''success'' ''Active Specialist'',
               Link ''/expert/profile'' ''Edit Specialist Profile & Rates''])"

section \<open>The student's onboarding\<close>

record student_profile =
  sp_name :: string
  sp_bio :: string
  sp_interests :: "taxonomy_term list"

datatype onboarding_state = Ob_loading | Ob_ready | Ob_saving | Ob_saved

record onboarding =
  ob_name :: string
  ob_bio :: string
  ob_terms :: "taxonomy_term list"
  ob_interests :: "int list"
  ob_state :: onboarding_state
  ob_error :: "string option"
  ob_cancelled :: bool

definition onboarding_init :: onboarding where
  "onboarding_init =
     \<lparr>ob_name = [], ob_bio = [], ob_terms = [], ob_interests = [], ob_state = Ob_loading, ob_error = None, ob_cancelled = False\<rparr>"

datatype onboarding_event =
    OnboardingLoaded "failure + student_profile option \<times> taxonomy_term list"
  | LeaveOnboarding
  | TypeDisplayName string
  | TypeStudentBio string
  | ToggleInterest int
  | SaveOnboarding
  | OnboardingSaved "failure + json"

definition toggleInterest :: "int \<Rightarrow> onboarding \<Rightarrow> onboarding" where
  "toggleInterest i p = p\<lparr>ob_interests := toggle_in i (ob_interests p)\<rparr>"

fun onboarding_step :: "onboarding \<Rightarrow> onboarding_event \<Rightarrow> onboarding" where
  "onboarding_step p (OnboardingLoaded r) =
     (if ob_cancelled p then p
      else case r of
        Inl e \<Rightarrow> p\<lparr>ob_error := Some ''Could not load your profile. Please refresh.'', ob_state := Ob_ready\<rparr>
      | Inr (sp, ts) \<Rightarrow>
          (case sp of None \<Rightarrow> p
           | Some s \<Rightarrow> p\<lparr>ob_name := sp_name s, ob_bio := sp_bio s, ob_interests := map tt_id (sp_interests s)\<rparr>)
            \<lparr>ob_terms := filter (\<lambda>t. tt_kind t = ''subject'' \<or> tt_kind t = ''skill'') ts, ob_state := Ob_ready\<rparr>)"
| "onboarding_step p LeaveOnboarding = p\<lparr>ob_cancelled := True\<rparr>"
| "onboarding_step p (TypeDisplayName s) = p\<lparr>ob_name := s\<rparr>"
| "onboarding_step p (TypeStudentBio s) = p\<lparr>ob_bio := s\<rparr>"
| "onboarding_step p (ToggleInterest i) = toggleInterest i p"
| "onboarding_step p SaveOnboarding = p\<lparr>ob_error := None, ob_state := Ob_saving\<rparr>"
| "onboarding_step p (OnboardingSaved r) =
     (case r of
        Inr v \<Rightarrow> p\<lparr>ob_state := Ob_saved\<rparr>
      | Inl e \<Rightarrow> p\<lparr>ob_error := Some ''Could not save your profile. Please try again.'', ob_state := Ob_ready\<rparr>)"

definition onboarding_payload :: "onboarding \<Rightarrow> json" where
  "onboarding_payload p =
     JObj [(''display_name'', JStr (ob_name p)), (''bio'', JStr (ob_bio p)),
           (''interest_ids'', JArr (map JNum (ob_interests p)))]"

fun onboarding_call :: "string \<Rightarrow> onboarding \<Rightarrow> onboarding_event \<Rightarrow> api_init option" where
  "onboarding_call b p SaveOnboarding = Some (profilesApi_saveStudentProfile b (onboarding_payload p))"
| "onboarding_call b p _ = None"

definition StudentOnboardingPage :: "onboarding \<Rightarrow> onboarding_event ui list" where
  "StudentOnboardingPage p =
     [Heading ''Set up your student profile'',
      Text ''Optional preferences that help experts understand what you're learning. You can change this anytime.'']
     @ (if ob_state p = Ob_loading then [Box ''onboarding-loading'' []]
        else [Field ''Display name'' (ob_name p) TypeDisplayName,
              Field ''What are you working on?'' (ob_bio p) TypeStudentBio]
          @ map (\<lambda>t. Check (tt_name t) (tt_id t \<in> set (ob_interests p)) False (ToggleInterest (tt_id t))) (ob_terms p)
          @ alert_if (ob_error p)
          @ shown_if (ob_state p = Ob_saved) [Text ''Profile saved.'']
          @ [Button (if ob_state p = Ob_saving then ''Saving...'' else ''Save profile'') (ob_state p = Ob_saving) SaveOnboarding])"

fun onboarding_enabled :: "onboarding \<Rightarrow> onboarding_event \<Rightarrow> bool" where
  "onboarding_enabled p (OnboardingLoaded r) = (ob_state p = Ob_loading)"
| "onboarding_enabled p LeaveOnboarding = True"
| "onboarding_enabled p (OnboardingSaved r) = (ob_state p = Ob_saving)"
| "onboarding_enabled p e = offered (StudentOnboardingPage p) e"

section \<open>Lemmas\<close>

lemma offered_AccountPage:
  "offered (AccountPage u p) e \<longleftrightarrow> u \<noteq> None \<and> (\<exists>m. e = Switch_mode m)"
proof -
  have "(\<exists>m. e = Switch_mode m) \<longleftrightarrow> e = Switch_mode Student_mode \<or> e = Switch_mode Expert_mode"
    by (metis work_mode.exhaust)
  then show ?thesis
    by (auto simp: AccountPage_def account_identity_def account_cards_def workspace_controller_def split: option.split)
qed

lemma offered_onboarding:
  "offered (StudentOnboardingPage p) e \<longleftrightarrow>
   ob_state p \<noteq> Ob_loading \<and>
   ((\<exists>s. e = TypeDisplayName s) \<or> (\<exists>s. e = TypeStudentBio s) \<or> (\<exists>t \<in> set (ob_terms p). e = ToggleInterest (tt_id t)) \<or>
    (e = SaveOnboarding \<and> ob_state p \<noteq> Ob_saving))"
  by (auto simp: StudentOnboardingPage_def offered_map)

lemma set_toggle_in: "set (toggle_in x xs) = (if x \<in> set xs then set xs - {x} else insert x (set xs))"
  by (auto simp: toggle_in_def)

lemma distinct_toggle_in: "distinct xs \<Longrightarrow> distinct (toggle_in x xs)"
  by (simp add: toggle_in_def)

text \<open>Pressing an interest twice leaves the same interests chosen.\<close>

lemma toggle_twice: "set (toggle_in x (toggle_in x xs)) = set xs"
  by (auto simp: set_toggle_in)

section \<open>Properties\<close>

text \<open>
  The account page's controller and the layout agree. Choosing a mode on the account page routes to
  a page on which the layout shows that mode, for an expert; for another user the specialist mode leads
  to the application, and the layout is back in the student mode, whose value it stores.
\<close>

lemma account_switch_agrees:
  "(let p' = account_step True isExpert p (Switch_mode m);
        s = shell_step True isExpert (shell_mount True Authenticated (ac_local p') (ac_cookie p') ''/account'')
              (Arrive (the (ac_pushed p')))
    in sh_mode (shell_mount True Authenticated (ac_local p') (ac_cookie p') ''/account'') = m \<and>
       sh_mode s = (if isExpert then m else Student_mode) \<and>
       sh_local s ''hem_role_mode'' = Some (mode_key (sh_mode s)) \<and> sh_cookie s = Some (mode_key (sh_mode s)))"
proof -
  have "sh_mode (shell_mount True Authenticated (ac_local (handleSwitchMode True isExpert m p))
      (ac_cookie (handleSwitchMode True isExpert m p)) ''/account'') = m"
    by (simp add: mount_mode expert_surface_def student_surface_def handleSwitchMode_def Let_def)
  then show ?thesis
    by (cases m) (auto simp: handleSwitchMode_def sync_mode_def store_mode_def expert_surface_def student_surface_def Let_def)
qed

text \<open>
  Saving an untouched student profile sends back what was loaded, every interest included, also those
  that are not among the terms shown. But where loading fails, the page offers the empty form all the
  same, and saving that erases the name, the text and the interests.
\<close>

lemma onboarding_roundtrip:
  "(let p = onboarding_step onboarding_init (OnboardingLoaded (Inr (Some sp, ts)))
    in onboarding_enabled p SaveOnboarding \<and>
       onboarding_call b p SaveOnboarding = Some (profilesApi_saveStudentProfile b (JObj
         [(''display_name'', JStr (sp_name sp)), (''bio'', JStr (sp_bio sp)),
          (''interest_ids'', JArr (map (\<lambda>t. JNum (tt_id t)) (sp_interests sp)))]))) \<and>
   (let p = onboarding_step onboarding_init (OnboardingLoaded (Inl e))
    in onboarding_enabled p SaveOnboarding \<and>
       onboarding_call b p SaveOnboarding = Some (profilesApi_saveStudentProfile b (JObj
         [(''display_name'', JStr []), (''bio'', JStr []), (''interest_ids'', JArr [])])))"
  by (simp add: offered_onboarding onboarding_init_def onboarding_payload_def comp_def)

end
