(* ===== verification/Assignments.thy ===== *)
theory Assignments
  imports Forms Numbers
begin

text \<open>
  Managed work: \<open>features/assignments/types.ts\<close> and the expert's page of pool invitations and direct
  assignments \<open>app/(app)/assignments/page.tsx\<close>.
\<close>

section \<open>Types\<close>

datatype assignment_status = As_pending | As_accepted | As_declined | As_expired | As_superseded

record pool_invitation =
  pi_id :: string
  pi_request :: string
  pi_title :: string
  pi_subject :: "string option"
  pi_budget_max :: "int option"
  pi_quote :: "string option"          \<comment> \<open>the amount as printed\<close>
  pi_status :: assignment_status
  pi_reason :: string
  pi_expires :: string

record direct_assignment =
  da_id :: string
  da_request :: string
  da_title :: string
  da_subject :: "string option"
  da_amount :: string                  \<comment> \<open>as printed\<close>
  da_currency :: string
  da_deadline :: "string option"
  da_scope :: string
  da_status :: assignment_status
  da_reason :: string
  da_expires :: string

fun ASSIGNMENT_STATUS_TONE :: "assignment_status \<Rightarrow> string" where
  "ASSIGNMENT_STATUS_TONE As_pending = ''info''"
| "ASSIGNMENT_STATUS_TONE As_accepted = ''success''"
| "ASSIGNMENT_STATUS_TONE As_declined = ''neutral''"
| "ASSIGNMENT_STATUS_TONE As_expired = ''warning''"
| "ASSIGNMENT_STATUS_TONE As_superseded = ''neutral''"

fun ASSIGNMENT_STATUS_COPY :: "assignment_status \<Rightarrow> string" where
  "ASSIGNMENT_STATUS_COPY As_pending = ''Awaiting your response''"
| "ASSIGNMENT_STATUS_COPY As_accepted = ''Accepted''"
| "ASSIGNMENT_STATUS_COPY As_declined = ''Declined''"
| "ASSIGNMENT_STATUS_COPY As_expired = ''Expired''"
| "ASSIGNMENT_STATUS_COPY As_superseded = ''Superseded''"

definition isRespondable :: "assignment_status \<Rightarrow> bool" where
  "isRespondable s \<longleftrightarrow> s = As_pending"

section \<open>The time left\<close>

text \<open>\<open>ms\<close> is the time from now to the end, in milliseconds; the result is the hours left and their tone.\<close>

definition ttl_hours :: "rat \<Rightarrow> int" where
  "ttl_hours ms = max 0 (math_round (ms / 3600000))"

definition ttl_tone :: "int \<Rightarrow> string" where
  "ttl_tone hours = (if hours \<le> 6 then ''urgent'' else if hours > 6 \<and> hours \<le> 24 then ''moderate'' else ''calm'')"

definition TTL :: "(string \<Rightarrow> rat) \<Rightarrow> string \<Rightarrow> 'e ui" where
  "TTL left expiresAt =
     (let hours = ttl_hours (left expiresAt)
      in Badge (ttl_tone hours) (if hours = 0 then ''Expiring now'' else show_int hours @ ''h left to respond''))"

section \<open>The page\<close>

record assignments_page =
  ag_invitations :: "pool_invitation list option"
  ag_assignments :: "direct_assignment list option"
  ag_error :: "string option"
  ag_busy :: "string option"
  ag_expected :: "string \<rightharpoonup> string"

definition assignments_init :: assignments_page where
  "assignments_init =
     \<lparr>ag_invitations = None, ag_assignments = None, ag_error = None, ag_busy = None, ag_expected = Map.empty\<rparr>"

datatype assignments_event =
    OpenAssignments
  | InvitationsAre "failure + pool_invitation list"
  | AssignmentsAre "failure + direct_assignment list"
  | TypeExpected string string
  | AcceptInvitation string
  | DeclineInvitation string
  | AcceptAssignment string
  | DeclineAssignment string
  | Acted "failure + json"              \<comment> \<open>the answer to an action\<close>

definition assignment_act :: "string \<Rightarrow> assignments_page \<Rightarrow> assignments_page" where
  "assignment_act i p = p\<lparr>ag_busy := Some i, ag_error := None\<rparr>"

text \<open>The lists are asked for again after an action, without waiting for them; a failed load is the empty list.\<close>

fun assignments_step :: "assignments_page \<Rightarrow> assignments_event \<Rightarrow> assignments_page" where
  "assignments_step p OpenAssignments = p"
| "assignments_step p (InvitationsAre r) = p\<lparr>ag_invitations := Some (case r of Inr is \<Rightarrow> is | Inl e \<Rightarrow> [])\<rparr>"
| "assignments_step p (AssignmentsAre r) = p\<lparr>ag_assignments := Some (case r of Inr as \<Rightarrow> as | Inl e \<Rightarrow> [])\<rparr>"
| "assignments_step p (TypeExpected i s) = p\<lparr>ag_expected := (ag_expected p)(i \<mapsto> s)\<rparr>"
| "assignments_step p (AcceptInvitation i) = assignment_act i p"
| "assignments_step p (DeclineInvitation i) = assignment_act i p"
| "assignments_step p (AcceptAssignment i) = assignment_act i p"
| "assignments_step p (DeclineAssignment i) = assignment_act i p"
| "assignments_step p (Acted (Inr v)) = p\<lparr>ag_busy := None\<rparr>"
| "assignments_step p (Acted (Inl e)) = p\<lparr>ag_error := Some (api_message_or ''Action failed.'' e), ag_busy := None\<rparr>"

definition load_assignments :: "api_init list" where
  "load_assignments = [assignmentsApi_invitations, assignmentsApi_assignments]"

text \<open>
  \<open>expected[id] ? Number(expected[id]) : undefined\<close>; what is no number is left out by the API function,
  like nothing.
\<close>

definition expected_amount :: "assignments_page \<Rightarrow> string \<Rightarrow> rat option" where
  "expected_amount p i = (if truthy (ag_expected p i) then to_number (the (ag_expected p i)) else None)"

fun assignments_calls :: "assignments_page \<Rightarrow> assignments_event \<Rightarrow> api_init list" where
  "assignments_calls p OpenAssignments = load_assignments"
| "assignments_calls p (AcceptInvitation i) = [assignmentsApi_acceptInvitation i (expected_amount p i)]"
| "assignments_calls p (DeclineInvitation i) = [assignmentsApi_declineInvitation i []]"
| "assignments_calls p (AcceptAssignment i) = [assignmentsApi_acceptAssignment i]"
| "assignments_calls p (DeclineAssignment i) = [assignmentsApi_declineAssignment i []]"
| "assignments_calls p (Acted (Inr v)) = load_assignments"
| "assignments_calls p _ = []"

definition invitation_card ::
    "(string \<Rightarrow> rat) \<Rightarrow> assignments_page \<Rightarrow> pool_invitation \<Rightarrow> assignments_event ui" where
  "invitation_card left p v =
     Box (pi_id v)
       ([Link (''/opportunities/'' @ pi_request v) (pi_title v),
         Badge (ASSIGNMENT_STATUS_TONE (pi_status v)) (ASSIGNMENT_STATUS_COPY (pi_status v))]
        @ shown_if (isRespondable (pi_status v)) [TTL left (pi_expires v)]
        @ [Text (nullish (pi_subject v) ''General''), Text (''Platform Guaranteed Rate: '' @ nullish (pi_quote v) [])]
        @ (case pi_budget_max v of
             None \<Rightarrow> []
           | Some n \<Rightarrow> [Text (if n = 0 then ''0'' else ''Student max budget: '' @ show_int n)])
        @ shown_if (pi_reason v \<noteq> []) [Text (''Decline reason: '' @ pi_reason v)]
        @ shown_if (isRespondable (pi_status v))
            [Field ''Counter-amount (optional)'' (nullish (ag_expected p (pi_id v)) []) (TypeExpected (pi_id v)),
             Button (if ag_busy p = Some (pi_id v) then ''Accepting...'' else ''Accept & Lock'')
               (ag_busy p = Some (pi_id v)) (AcceptInvitation (pi_id v)),
             Button ''Decline'' (ag_busy p = Some (pi_id v)) (DeclineInvitation (pi_id v))])"

definition assignment_card ::
    "locale_text \<Rightarrow> (string \<Rightarrow> rat) \<Rightarrow> assignments_page \<Rightarrow> direct_assignment \<Rightarrow> assignments_event ui" where
  "assignment_card loc left p a =
     Box (da_id a)
       ([Link (''/opportunities/'' @ da_request a) (da_title a),
         Badge (ASSIGNMENT_STATUS_TONE (da_status a)) (ASSIGNMENT_STATUS_COPY (da_status a))]
        @ shown_if (isRespondable (da_status a)) [TTL left (da_expires a)]
        @ [Text (nullish (da_subject a) ''General''), Text (''Agreed Compensation: '' @ da_amount a @ '' '' @ da_currency a)]
        @ (if truthy (da_deadline a) then [Text (''Deadline: '' @ show_date loc (the (da_deadline a)))] else [])
        @ shown_if (da_scope a \<noteq> []) [Text (''Coordinator Scope Note:'' @ da_scope a)]
        @ shown_if (da_reason a \<noteq> []) [Text (''Decline reason: '' @ da_reason a)]
        @ shown_if (isRespondable (da_status a))
            [Button (if ag_busy p = Some (da_id a) then ''Accepting...'' else ''Accept Direct Order'')
               (ag_busy p = Some (da_id a)) (AcceptAssignment (da_id a)),
             Button ''Decline'' (ag_busy p = Some (da_id a)) (DeclineAssignment (da_id a))])"

text \<open>\<open>section\<close>: a title with the number of its entries, and either the note for none or the entries.\<close>

definition assignment_section :: "string \<Rightarrow> string \<Rightarrow> 'e ui list option \<Rightarrow> 'e ui" where
  "assignment_section title none cards =
     Box title
       ([Heading title, Text (show_nat (case cards of None \<Rightarrow> 0 | Some cs \<Rightarrow> length cs))]
        @ (case cards of None \<Rightarrow> [] | Some cs \<Rightarrow> if cs = [] then [Text none] else cs))"

definition AssignmentsPage ::
    "locale_text \<Rightarrow> (string \<Rightarrow> rat) \<Rightarrow> assignments_page \<Rightarrow> assignments_event ui list" where
  "AssignmentsPage loc left p =
     [Heading ''Managed Assignments & Pool Invitations'']
     @ alert_if (ag_error p)
     @ shown_if (ag_invitations p = None \<and> ag_assignments p = None) [Box ''loading'' []]
     @ [assignment_section ''Pool invitations'' ''No active pool invitations''
          (map_option (map (invitation_card left p)) (ag_invitations p)),
        assignment_section ''Direct assignments'' ''No direct assignments assigned''
          (map_option (map (assignment_card loc left p)) (ag_assignments p))]"

section \<open>Lemmas\<close>

lemma TTL_offers [simp]: "\<not> offers (TTL left s) e"
  by (simp add: TTL_def Let_def)

lemma offers_invitation_card:
  "offers (invitation_card left p v) e \<longleftrightarrow>
   pi_status v = As_pending \<and>
   ((\<exists>s. e = TypeExpected (pi_id v) s) \<or>
    (ag_busy p \<noteq> Some (pi_id v) \<and> (e = AcceptInvitation (pi_id v) \<or> e = DeclineInvitation (pi_id v))))"
  by (auto simp: invitation_card_def offers_Box isRespondable_def split: option.split simp del: offers.simps(6))

lemma offers_assignment_card:
  "offers (assignment_card loc left p a) e \<longleftrightarrow>
   da_status a = As_pending \<and> ag_busy p \<noteq> Some (da_id a) \<and> (e = AcceptAssignment (da_id a) \<or> e = DeclineAssignment (da_id a))"
  by (auto simp: assignment_card_def offers_Box isRespondable_def split: option.split simp del: offers.simps(6))

lemma offers_assignment_section:
  "offers (assignment_section title none cards) e \<longleftrightarrow> (\<exists>cs. cards = Some cs \<and> offered cs e)"
  by (auto simp: assignment_section_def offers_Box split: option.split simp del: offers.simps(6))

lemma offered_AssignmentsPage:
  "offered (AssignmentsPage loc left p) e \<longleftrightarrow>
   (\<exists>is. ag_invitations p = Some is \<and> (\<exists>v \<in> set is. offers (invitation_card left p v) e)) \<or>
   (\<exists>as. ag_assignments p = Some as \<and> (\<exists>a \<in> set as. offers (assignment_card loc left p a) e))"
  by (simp add: AssignmentsPage_def offers_assignment_section offered_map) (auto simp: offered_map)

text \<open>The field asks for at least 0 but is in no form, so nothing checks it: a negative amount is sent.\<close>

lemma negative_amount_sent:
  "ag_expected p i = Some ''-5'' \<Longrightarrow>
   assignments_calls p (AcceptInvitation i) =
     [typed (json_req ''POST'' (''/api/v1/me/pool-invitations/'' @ i @ ''/accept'') (JObj [(''expected_amount'', JNum (-500))]))]"
proof -
  assume a: "ag_expected p i = Some ''-5''"
  have n: "to_number ''-5'' = Some (-5)" by code_simp
  have r: "math_round (-500) = -500" unfolding math_round_def by (rule floor_unique) simp_all
  show ?thesis by (simp add: expected_amount_def a n assignmentsApi_acceptInvitation_def r)
qed

text \<open>An outage is shown as having no work: a list that cannot be loaded is the empty list, with no alert.\<close>

lemma outage_looks_empty:
  "AssignmentsPage loc left (assignments_step p (InvitationsAre (Inl e))) =
   AssignmentsPage loc left (assignments_step p (InvitationsAre (Inr [])))"
  by simp

text \<open>The hours left are never negative, and 0, shown as expiring, in the last half hour.\<close>

lemma ttl_hours_bounds: "0 \<le> ttl_hours ms" "ttl_hours ms = 0 \<longleftrightarrow> ms < 1800000"
proof -
  have "math_round (ms / 3600000) \<le> 0 \<longleftrightarrow> ms < 1800000"
    by (simp add: math_round_def floor_le_iff) linarith
  then show "0 \<le> ttl_hours ms" "ttl_hours ms = 0 \<longleftrightarrow> ms < 1800000"
    by (auto simp: ttl_hours_def max_def)
qed

section \<open>Properties\<close>

text \<open>
  What the expert can answer. A request leaves the page only for an invitation or an assignment that
  is listed, still pending and not being answered; it is the answer chosen, for that one, and the page
  is then busy with it.
\<close>

lemma answers_guarded:
  assumes "offered (AssignmentsPage loc left p) e" "assignments_calls p e = c # cs"
  shows "cs = [] \<and>
    ((\<exists>is v. ag_invitations p = Some is \<and> v \<in> set is \<and> pi_status v = As_pending \<and> ag_busy p \<noteq> Some (pi_id v) \<and>
        ag_busy (assignments_step p e) = Some (pi_id v) \<and>
        (e = AcceptInvitation (pi_id v) \<and> c = assignmentsApi_acceptInvitation (pi_id v) (expected_amount p (pi_id v)) \<or>
         e = DeclineInvitation (pi_id v) \<and> c = assignmentsApi_declineInvitation (pi_id v) [])) \<or>
     (\<exists>as a. ag_assignments p = Some as \<and> a \<in> set as \<and> da_status a = As_pending \<and> ag_busy p \<noteq> Some (da_id a) \<and>
        ag_busy (assignments_step p e) = Some (da_id a) \<and>
        (e = AcceptAssignment (da_id a) \<and> c = assignmentsApi_acceptAssignment (da_id a) \<or>
         e = DeclineAssignment (da_id a) \<and> c = assignmentsApi_declineAssignment (da_id a) [])))"
proof -
  consider (pool) "is" v where "ag_invitations p = Some is" "v \<in> set is" "offers (invitation_card left p v) e"
    | (direct) as a where "ag_assignments p = Some as" "a \<in> set as" "offers (assignment_card loc left p a) e"
    using assms(1) unfolding offered_AssignmentsPage by blast
  then show ?thesis
  proof cases
    case pool
    then have "pi_status v = As_pending" "ag_busy p \<noteq> Some (pi_id v)"
        "e = AcceptInvitation (pi_id v) \<or> e = DeclineInvitation (pi_id v)"
      using assms(2) by (auto simp: offers_invitation_card)
    then show ?thesis using pool assms(2) by (auto simp: assignment_act_def)
  next
    case direct
    then show ?thesis using assms(2) by (auto simp: offers_assignment_card assignment_act_def)
  qed
qed

definition sample_assignment :: direct_assignment where
  "sample_assignment =
     \<lparr>da_id = ''a1'', da_request = ''q1'', da_title = ''Proof review'', da_subject = None, da_amount = ''180'', da_currency = ''USD'',
      da_deadline = None, da_scope = [], da_status = As_pending, da_reason = [], da_expires = []\<rparr>"

end
