(* ===== verification/Listings.thy ===== *)
theory Listings
  imports RequestForm
begin

text \<open>
  The two lists of requests: the student's own, \<open>app/(app)/requests/page.tsx\<close>, with its quick links into
  the wizard, and the expert's feed, \<open>app/(app)/opportunities/page.tsx\<close>.
\<close>

section \<open>The student's requests\<close>

datatype filter_tab = Tab_all | Tab_bidding | Tab_active | Tab_completed

definition includes_any :: "string list \<Rightarrow> string \<Rightarrow> bool" where
  "includes_any ws s \<longleftrightarrow> (\<exists>w \<in> set ws. sublist w s)"

text \<open>The colour of a subject's badge.\<close>

definition getSubjectBadgeClass :: "string \<Rightarrow> string" where
  "getSubjectBadgeClass subjectName =
     (if subjectName = [] then ''primary''
      else
        let lower = to_lower subjectName
        in if includes_any [''cs'', ''computer'', ''code'', ''software'', ''ai'', ''data''] lower then ''violet''
           else if includes_any [''math'', ''stat'', ''calculus'', ''algebra'', ''geometry''] lower then ''sky''
           else if includes_any [''econ'', ''finance'', ''accounting'', ''business'', ''market''] lower then ''emerald''
           else if includes_any [''eng'', ''physics'', ''chem'', ''biology''] lower then ''amber''
           else ''rose'')"

record requests_page =
  qp_requests :: "service_request list option"
  qp_error :: "string option"
  qp_search :: string
  qp_tab :: filter_tab

definition requests_init :: requests_page where
  "requests_init = \<lparr>qp_requests = None, qp_error = None, qp_search = [], qp_tab = Tab_all\<rparr>"

text \<open>Requests whose title says that they are records of the portal's demonstration are left out.\<close>

definition scoped_requests :: "service_request list \<Rightarrow> service_request list" where
  "scoped_requests rs = filter (\<lambda>r. \<not> starts_with (to_lower (sr_title r)) ''portal demo'') rs"

record request_metrics =
  qm_total :: nat
  qm_bidding :: nat
  qm_active :: nat
  qm_completed :: nat
  qm_offers :: nat

text \<open>One pass of the loop that counts.\<close>

definition count_request :: "service_request \<Rightarrow> request_metrics \<Rightarrow> request_metrics" where
  "count_request r m =
     (let m1 = m\<lparr>qm_offers := qm_offers m + sr_offer_count r\<rparr>
      in if sr_status r = Rq_open \<or> sr_status r = Rq_pooled \<or> sr_status r = Rq_draft
         then m1\<lparr>qm_bidding := qm_bidding m + 1\<rparr>
         else if sr_status r = Rq_matched \<or> sr_status r = Rq_in_progress \<or> sr_status r = Rq_in_review
         then m1\<lparr>qm_active := qm_active m + 1\<rparr>
         else m1\<lparr>qm_completed := qm_completed m + 1\<rparr>)"

definition request_metrics_of :: "service_request list option \<Rightarrow> request_metrics" where
  "request_metrics_of rs =
     (let zero = \<lparr>qm_total = 0, qm_bidding = 0, qm_active = 0, qm_completed = 0, qm_offers = 0\<rparr>
      in case rs of None \<Rightarrow> zero | Some xs \<Rightarrow> (foldl (\<lambda>m r. count_request r m) zero xs)\<lparr>qm_total := length xs\<rparr>)"

definition in_tab :: "filter_tab \<Rightarrow> request_status \<Rightarrow> bool" where
  "in_tab t st =
     (case t of
        Tab_all \<Rightarrow> True
      | Tab_bidding \<Rightarrow> st \<in> {Rq_open, Rq_pooled, Rq_draft}
      | Tab_active \<Rightarrow> st \<in> {Rq_matched, Rq_in_progress, Rq_in_review}
      | Tab_completed \<Rightarrow> st \<in> {Rq_completed, Rq_cancelled, Rq_expired, Rq_rejected})"

text \<open>The search of both pages: the query is lowered but not trimmed.\<close>

definition request_matches :: "string \<Rightarrow> service_request \<Rightarrow> bool" where
  "request_matches q r =
     (trim q = [] \<or>
      (let l = to_lower q
       in sublist l (to_lower (sr_title r)) \<or> sublist l (to_lower (sr_description r)) \<or>
          (case sr_subject r of None \<Rightarrow> False | Some t \<Rightarrow> sublist l (to_lower (tx_name t)))))"

definition filtered_requests :: "requests_page \<Rightarrow> service_request list" where
  "filtered_requests p =
     (case qp_requests p of
        None \<Rightarrow> []
      | Some rs \<Rightarrow> filter (\<lambda>r. in_tab (qp_tab p) (sr_status r) \<and> request_matches (qp_search p) r) rs)"

datatype requests_event =
    RequestsAre "failure + service_request list"
  | TypeRequestSearch string
  | PickTab filter_tab

fun requests_step :: "requests_page \<Rightarrow> requests_event \<Rightarrow> requests_page" where
  "requests_step p (RequestsAre (Inr rs)) = p\<lparr>qp_requests := Some (scoped_requests rs)\<rparr>"
| "requests_step p (RequestsAre (Inl e)) = p\<lparr>qp_error := Some ''Could not load your requests.''\<rparr>"
| "requests_step p (TypeRequestSearch s) = p\<lparr>qp_search := s\<rparr>"
| "requests_step p (PickTab t) = p\<lparr>qp_tab := t\<rparr>"

text \<open>Label, title, prompt and category of the quick links.\<close>

definition quick_launch :: "(string \<times> string \<times> string \<times> string) list" where
  "quick_launch =
     [(''[bolt] Python / Algorithm Optimization'', ''Python Algorithm Optimization & Vectorization'',
       ''Need assistance profiling and optimizing Python code bottlenecks, vectorizing operations with NumPy/Pandas, and ensuring clean asymptotic runtime complexity.'', ''code_review''),
      (''[ruler] Multivariable Calculus & Proofs'', ''Multivariable Calculus & Differential Proofs'',
       ''Need step-by-step conceptual walkthrough and verification of multivariable calculus proofs and coordinate transformation problems.'', ''tutoring''),
      (''[memo] Academic Paper & Thesis Review'', ''Academic Paper & Literature Review Critique'',
       ''Need comprehensive peer review of academic tone, literature review framing, citation rigor, and thesis counter-arguments.'', ''tutoring''),
      (''[chart] Econometrics & Regression Models'', ''Econometrics Regression & Time-Series Modeling'',
       ''Need guidance resolving heteroskedasticity, autocorrelation, and interpreting multivariate regression results in Stata / R.'', ''tutoring''),
      (''[brain] Machine Learning & PyTorch'', ''PyTorch Model Debugging & Loss Convergence'',
       ''Need specialist review of custom PyTorch loss function, gradient clipping, and validation curve overfitting.'', ''code_review'')]"

definition launch_query :: "string \<Rightarrow> string \<Rightarrow> string \<Rightarrow> string" where
  "launch_query title prompt category =
     ''title='' @ encodeURIComponent title @ ''&prompt='' @ encodeURIComponent prompt
     @ ''&category='' @ encodeURIComponent category"

definition launch_link :: "string \<times> string \<times> string \<times> string \<Rightarrow> requests_event ui" where
  "launch_link i = (case i of (lab, title, prompt, category) \<Rightarrow> Link (''/requests/new?'' @ launch_query title prompt category) lab)"

definition request_row :: "locale_text \<Rightarrow> service_request \<Rightarrow> requests_event ui" where
  "request_row loc r =
     Box (sr_id r)
       ([Text (or_else (sr_title r) ''Untitled Task Brief''),
         Badge (REQUEST_STATUS_TONE (sr_status r)) (REQUEST_STATUS_COPY (sr_status r)),
         Text (if sr_mode r = Managed_mode then ''White-Glove Match'' else ''Open Market'')]
        @ (case sr_subject r of
             None \<Rightarrow> []
           | Some t \<Rightarrow> if tx_name t = [] then [] else [Badge (getSubjectBadgeClass (tx_name t)) (tx_name t)])
        @ [Text (sr_description r)]
        @ (case sr_budget_max_display r of
             None \<Rightarrow> [] | Some a \<Rightarrow> [Text (''Budget: Up to '' @ a @ '' '' @ sr_currency r)])
        @ (if truthy (sr_deadline r) then [Text (''Deadline: '' @ the (sr_deadline r))] else [])
        @ [Text (''Created '' @ show_date loc (sr_created_at r)), Text ''Proposals'',
           Text (if sr_offer_count r = 0 then ''Waiting for bids...''
                 else show_nat (sr_offer_count r) @ '' proposal'' @ (if sr_offer_count r = 1 then [] else ''s'') @ '' ready''),
           Link (''/requests/'' @ sr_id r) ''Inspect Proposals''])"

definition tab_buttons :: "request_metrics \<Rightarrow> requests_event ui list" where
  "tab_buttons m =
     [Button (''All Briefs ('' @ show_nat (qm_total m) @ '')'') False (PickTab Tab_all),
      Button (''Awaiting Bids ('' @ show_nat (qm_bidding m) @ '')'') False (PickTab Tab_bidding),
      Button (''In Progress ('' @ show_nat (qm_active m) @ '')'') False (PickTab Tab_active),
      Button (''Archives ('' @ show_nat (qm_completed m) @ '')'') False (PickTab Tab_completed)]"

definition no_requests :: "string \<Rightarrow> requests_event ui list" where
  "no_requests q =
     [Heading (if q \<noteq> [] then ''No matching academic briefs'' else ''No active task briefs in this view'')]
     @ (if q \<noteq> [] then [Text (''No briefs matched your query '' @ q), Button ''Clear Filter'' False (TypeRequestSearch [])]
        else [Link ''/requests/new'' ''Post Your First Academic Brief''])"

definition telemetry :: "bool \<Rightarrow> request_metrics \<Rightarrow> requests_event ui list" where
  "telemetry known m =
     [Text ''Active Briefs'', if known then Text (show_nat (qm_bidding m + qm_active m)) else Box ''loading'' [],
      Text ''Proposals'', if known then Text (show_nat (qm_offers m)) else Box ''loading'' [],
      Text ''Escrow Custody'', Text ''100%'', Text ''Match SLA'', Text ''< 18m'', Heading ''Accelerate Your Research'',
      Text ''Describe your coursework, code bottlenecks, or calculus proofs. Get peer-matched in under 18 minutes.'',
      Link ''/requests/new'' ''Create New Task Brief'',
      Text ''Funds held in vault until you inspect and approve completed deliverables.'',
      Text ''Double-blind competitive proposals prevent bid poaching.'',
      Text ''BR-10 & BR-14 Honor Code: Tutoring & concept guidance only. Zero ghostwriting.'']"

definition RequestsPage :: "locale_text \<Rightarrow> string option \<Rightarrow> requests_page \<Rightarrow> requests_event ui list" where
  "RequestsPage loc name p =
     (let m = request_metrics_of (qp_requests p); rs = filtered_requests p
      in [Heading (''Welcome back, '' @ (case name of None \<Rightarrow> ''Scholar'' | Some n \<Rightarrow> hd (split_on (CHR '' '') n))),
          Link ''/requests/new'' ''Start New Task Brief'', Heading ''AI Quick Launchpad'',
          Link ''/requests/new'' ''Custom Brief Builder'']
         @ map launch_link quick_launch @ tab_buttons m
         @ [Field ''Search briefs by topic'' (qp_search p) TypeRequestSearch]
         @ alert_if (qp_error p)
         @ shown_if (qp_requests p = None \<and> \<not> truthy (qp_error p)) [Box ''loading'' []]
         @ shown_if (qp_requests p \<noteq> None \<and> rs = []) (no_requests (qp_search p))
         @ map (request_row loc) rs
         @ telemetry (qp_requests p \<noteq> None) m)"

section \<open>The expert's feed\<close>

datatype quick_filter = Qf_all | Qf_urgent | Qf_high_budget | Qf_managed | Qf_unbid

text \<open>\<open>request.budget_max || request.budget_max_display || 0\<close>, as a number and as it prints.\<close>

definition feed_budget :: "service_request \<Rightarrow> rat" where
  "feed_budget r =
     (case sr_budget_max r of
        Some n \<Rightarrow> if n \<noteq> 0 then of_nat n else nullish (Option.bind (sr_budget_max_display r) to_number) 0
      | None \<Rightarrow> nullish (Option.bind (sr_budget_max_display r) to_number) 0)"

definition feed_budget_text :: "service_request \<Rightarrow> string" where
  "feed_budget_text r =
     (case sr_budget_max r of
        Some n \<Rightarrow> if n \<noteq> 0 then show_nat n else nullish (sr_budget_max_display r) ''0''
      | None \<Rightarrow> nullish (sr_budget_max_display r) ''0'')"

definition deadline_urgent :: "string option \<Rightarrow> bool" where
  "deadline_urgent d \<longleftrightarrow> truthy d \<and> includes_any [''hour'', ''12h'', ''24h''] (the d)"

definition offer_made :: "service_request \<Rightarrow> bool" where
  "offer_made r = (case sr_bidding r of None \<Rightarrow> False | Some b \<Rightarrow> truthy (bd_my_offer_status b))"

text \<open>The pool, the number of requests, the big budgets and the urgent ones.\<close>

definition marketIntelligence :: "service_request list option \<Rightarrow> rat \<times> nat \<times> nat \<times> nat" where
  "marketIntelligence rs =
     (case rs of
        None \<Rightarrow> (0, 0, 0, 0)
      | Some xs \<Rightarrow>
          (sum_list (map feed_budget xs), length xs, length (filter (\<lambda>r. 150 \<le> feed_budget r) xs),
           length (filter (\<lambda>r. deadline_urgent (sr_deadline r)) xs)))"

definition quick_pass :: "quick_filter \<Rightarrow> service_request \<Rightarrow> bool" where
  "quick_pass f r =
     (case f of
        Qf_all \<Rightarrow> True
      | Qf_urgent \<Rightarrow> deadline_urgent (sr_deadline r)
      | Qf_high_budget \<Rightarrow> \<not> feed_budget r < 150
      | Qf_managed \<Rightarrow> sr_mode r = Managed_mode
      | Qf_unbid \<Rightarrow> \<not> offer_made r)"

record feed_page =
  fd_requests :: "service_request list option"
  fd_error :: "string option"
  fd_q :: string
  fd_category :: string
  fd_quick :: quick_filter

definition feed_init :: feed_page where
  "feed_init = \<lparr>fd_requests = None, fd_error = None, fd_q = [], fd_category = [], fd_quick = Qf_all\<rparr>"

definition filtered_feed :: "feed_page \<Rightarrow> service_request list" where
  "filtered_feed p =
     (case fd_requests p of
        None \<Rightarrow> []
      | Some rs \<Rightarrow>
          filter (\<lambda>r. (fd_category p = [] \<or> sr_category r = fd_category p) \<and> quick_pass (fd_quick p) r \<and>
                      request_matches (fd_q p) r) rs)"

datatype feed_event =
    OpenFeed
  | FeedIs "failure + service_request list"
  | TypeFeedSearch string
  | PickFeedCategory string
  | PickQuick quick_filter
  | SubmitFeed
  | ResetFeed

text \<open>The answers of several loads can come in any order; each replaces the list.\<close>

fun feed_step :: "feed_page \<Rightarrow> feed_event \<Rightarrow> feed_page" where
  "feed_step p OpenFeed = p\<lparr>fd_error := None\<rparr>"
| "feed_step p (FeedIs (Inr rs)) = p\<lparr>fd_requests := Some rs\<rparr>"
| "feed_step p (FeedIs (Inl e)) = p\<lparr>fd_error := Some (api_message_or ''Could not load the feed.'' e), fd_requests := Some []\<rparr>"
| "feed_step p (TypeFeedSearch s) = p\<lparr>fd_q := s\<rparr>"
| "feed_step p (PickFeedCategory c) = p\<lparr>fd_category := c\<rparr>"
| "feed_step p (PickQuick f) = p\<lparr>fd_quick := f\<rparr>"
| "feed_step p SubmitFeed = p\<lparr>fd_error := None\<rparr>"
| "feed_step p ResetFeed = p\<lparr>fd_q := [], fd_category := [], fd_quick := Qf_all, fd_error := None\<rparr>"

definition feed_params :: "feed_page \<Rightarrow> (string \<times> string) list" where
  "feed_params p =
     (if fd_q p = [] then [] else [(''q'', fd_q p)]) @ (if fd_category p = [] then [] else [(''category'', fd_category p)])"

fun feed_call :: "feed_page \<Rightarrow> feed_event \<Rightarrow> api_init option" where
  "feed_call p OpenFeed = Some (feedApi_list [])"
| "feed_call p SubmitFeed = Some (feedApi_list (feed_params p))"
| "feed_call p ResetFeed = Some (feedApi_list [])"
| "feed_call p _ = None"

definition feed_row :: "locale_text \<Rightarrow> service_request \<Rightarrow> feed_event ui" where
  "feed_row loc r =
     Box (sr_id r)
       ([Text (sr_title r),
         if offer_made r then Badge ''info'' ''Offer Submitted'' else Badge ''neutral'' ''Accepting Proposals'',
         Text (if sr_mode r = Managed_mode then ''White-Glove Match'' else ''Open Market'')]
        @ (case sr_subject r of None \<Rightarrow> [] | Some t \<Rightarrow> if tx_name t = [] then [] else [Text (tx_name t)])
        @ [Text (sr_description r),
           Text (show_nat (sr_offer_count r) @ '' competing bid'' @ (if sr_offer_count r = 1 then [] else ''s''))]
        @ (if truthy (sr_deadline r) then [Text (''Needed by '' @ the (sr_deadline r))] else [])
        @ shown_if (sr_attachments r \<noteq> [])
            [Text (show_nat (length (sr_attachments r)) @ '' attached document'' @ (if length (sr_attachments r) = 1 then [] else ''s''))]
        @ [Text (''Posted '' @ show_date loc (sr_created_at r))]
        @ (if 0 < feed_budget r
           then [Text (''Student Budget: '' @ feed_budget_text r @ '' '' @ sr_currency r),
                 Text (''$'' @ to_fixed2 (feed_budget r * (85 / 100)) @ '' Net Payout'')]
           else [Text ''Open to Quotes''])
        @ [Link (''/opportunities/'' @ sr_id r) (if offer_made r then ''View Offer Status'' else ''Calculate & Bid'')])"

definition feed_ribbon :: "locale_text \<Rightarrow> service_request list option \<Rightarrow> feed_event ui list" where
  "feed_ribbon loc rs =
     (case marketIntelligence rs of (pool, count, high, urgent) \<Rightarrow>
        [Text ''Available Bounty Pool'', if rs = None then Box ''loading'' [] else Text (show_price loc pool),
         Text ''Live Open Briefs'', if rs = None then Box ''loading'' [] else Text (show_nat count),
         Text ''Specialist Net Payout'', Text ''85.0%'', Text ''Flat 15% platform commission (BR-03)'',
         Text ''Urgent Opportunities'', if rs = None then Box ''loading'' [] else Text (show_nat urgent)])"

definition feed_controls :: "feed_page \<Rightarrow> feed_event ui list" where
  "feed_controls p =
     [Field ''Search opportunities'' (fd_q p) TypeFeedSearch,
      Choice ''Category'' (fd_category p) (([], ''All Categories'') # REQUEST_CATEGORIES) PickFeedCategory,
      Button ''Filter Feed'' False SubmitFeed, Button ''All'' False (PickQuick Qf_all),
      Button ''High Budget ($150+)'' False (PickQuick Qf_high_budget), Button ''Managed Tasks'' False (PickQuick Qf_managed),
      Button ''Unbid Briefs'' False (PickQuick Qf_unbid)]"

definition OpportunitiesPage :: "locale_text \<Rightarrow> feed_page \<Rightarrow> feed_event ui list" where
  "OpportunitiesPage loc p =
     [Heading ''Market Opportunities'', Link ''/assignments'' ''Managed Assignments'', Link ''/expert/profile'' ''Specialist Cockpit'']
     @ feed_ribbon loc (fd_requests p) @ feed_controls p
     @ (if truthy (fd_error p)
        then [Alert (the (fd_error p) @ '' Complete your academic specialist dossier to unlock access to live student bounties, direct quote requests, and fast-track escrow payouts.''),
              Link ''/expert/apply'' ''Complete Specialist Application'']
        else [])
     @ shown_if (fd_requests p = None \<and> \<not> truthy (fd_error p)) [Box ''loading'' []]
     @ shown_if (fd_requests p \<noteq> None \<and> filtered_feed p = [])
         [Heading ''No opportunities matching your criteria'', Button ''Reset All Filters'' False ResetFeed]
     @ map (feed_row loc) (filtered_feed p)"

fun feed_enabled :: "locale_text \<Rightarrow> feed_page \<Rightarrow> feed_event \<Rightarrow> bool" where
  "feed_enabled loc p OpenFeed = True"
| "feed_enabled loc p (FeedIs r) = True"
| "feed_enabled loc p e = offered (OpportunitiesPage loc p) e"

section \<open>Lemmas\<close>

text \<open>The loop that counts, from any count on.\<close>

lemma count_loop:
  "foldl (\<lambda>m r. count_request r m) m rs =
     m\<lparr>qm_bidding := qm_bidding m + length (filter (\<lambda>r. in_tab Tab_bidding (sr_status r)) rs),
       qm_active := qm_active m + length (filter (\<lambda>r. in_tab Tab_active (sr_status r)) rs),
       qm_completed := qm_completed m + length (filter (\<lambda>r. in_tab Tab_completed (sr_status r)) rs),
       qm_offers := qm_offers m + sum_list (map sr_offer_count rs)\<rparr>"
proof (induction rs arbitrary: m)
  case (Cons r rs)
  show ?case
    by (simp add: Cons.IH) (cases "sr_status r"; simp add: count_request_def in_tab_def Let_def)
qed simp

lemma tabs_partition:
  "length (filter (\<lambda>r. in_tab Tab_bidding (sr_status r)) rs) + length (filter (\<lambda>r. in_tab Tab_active (sr_status r)) rs)
     + length (filter (\<lambda>r. in_tab Tab_completed (sr_status r)) rs) = length rs"
proof (induction rs)
  case (Cons r rs)
  then show ?case by (cases "sr_status r") (simp_all add: in_tab_def)
qed simp

text \<open>The query of a quick link is read back as it was written.\<close>

lemma parse_launch_query:
  "parse_query (launch_query title prompt category) = [(''title'', title), (''prompt'', prompt), (''category'', category)]"
proof -
  have amp: "CHR ''&'' \<notin> set (k @ CHR ''='' # encodeURIComponent v)" if "CHR ''&'' \<notin> set k" for k v
    using encodeURIComponent_plain [of v] that by auto
  have one: "split_first (CHR ''='') (k @ CHR ''='' # encodeURIComponent v) = (k, encodeURIComponent v)"
    if "CHR ''='' \<notin> set k" for k v
    using that by (rule split_first_append)
  have plain: "form_decode ''title'' = ''title''" "form_decode ''prompt'' = ''prompt''" "form_decode ''category'' = ''category''"
    by code_simp+
  have q: "launch_query title prompt category =
      (''title'' @ CHR ''='' # encodeURIComponent title) @ CHR ''&'' #
      (''prompt'' @ CHR ''='' # encodeURIComponent prompt) @ CHR ''&'' #
      (''category'' @ CHR ''='' # encodeURIComponent category)"
    by (simp add: launch_query_def)
  have "split_on (CHR ''&'') (launch_query title prompt category) =
      [''title'' @ CHR ''='' # encodeURIComponent title, ''prompt'' @ CHR ''='' # encodeURIComponent prompt,
       ''category'' @ CHR ''='' # encodeURIComponent category]"
    unfolding q by (subst split_on_append, rule amp, simp)+ (subst split_on_no_sep, rule amp, simp_all)
  then show ?thesis
    using one [of "''title''" title] one [of "''prompt''" prompt] one [of "''category''" category]
    by (simp add: parse_query_def plain) (simp add: launch_query_def)
qed

lemma offered_feed_row: "\<not> offers (feed_row loc r) e"
  by (auto simp: feed_row_def offers_Box shown_if_def split: option.split simp del: offers.simps(6))

lemma offered_OpportunitiesPage:
  "offered (OpportunitiesPage loc p) e \<longleftrightarrow> offered (feed_controls p) e \<or> (e = ResetFeed \<and> fd_requests p \<noteq> None \<and> filtered_feed p = [])"
  by (auto simp: OpportunitiesPage_def feed_ribbon_def offered_map offered_feed_row split: prod.split)

text \<open>No control asks for the urgent requests.\<close>

interpretation feed: machine "\<lambda>p. p = feed_init" "feed_enabled loc" feed_step "\<lambda>p. fd_quick p \<noteq> Qf_urgent" for loc
proof unfold_locales
  fix p e assume p: "fd_quick p \<noteq> Qf_urgent" "feed_enabled loc p e"
  show "fd_quick (feed_step p e) \<noteq> Qf_urgent"
  proof (cases e)
    case (FeedIs r)
    then show ?thesis using p by (cases r) simp_all
  qed (use p in \<open>auto simp: offered_OpportunitiesPage feed_controls_def\<close>)
qed (simp add: feed_init_def)

text \<open>A date has no letters, so none is urgent.\<close>

lemma dates_not_urgent: "CHR ''h'' \<notin> set d \<Longrightarrow> \<not> deadline_urgent (Some d)"
  by (auto simp: deadline_urgent_def includes_any_def sublist_def)

section \<open>Properties\<close>

text \<open>
  The numbers on the tabs are those of the lists behind them. With no search, the loop that counts and
  the filter of a tab agree for each of the tabs, and the three groups have every request exactly once.
\<close>

lemma tab_counts_agree:
  assumes "qp_requests p = Some rs" "trim (qp_search p) = []"
  shows "(let m = request_metrics_of (qp_requests p); shown = (\<lambda>t. length (filtered_requests (p\<lparr>qp_tab := t\<rparr>)))
    in qm_total m = shown Tab_all \<and> qm_bidding m = shown Tab_bidding \<and> qm_active m = shown Tab_active \<and>
       qm_completed m = shown Tab_completed \<and> qm_bidding m + qm_active m + qm_completed m = qm_total m)"
  using assms tabs_partition [of rs]
  by (simp add: request_metrics_of_def count_loop filtered_requests_def request_matches_def Let_def)
    (simp add: in_tab_def)

text \<open>
  A quick link fills in the wizard. The query of a link is read back by the page it leads to as the
  title, the prompt and the category it was made from, whatever characters they hold; a new form takes
  over all three, opens on its second step, and the category of every quick link is one the form knows.
\<close>

lemma quick_links_prefill:
  assumes "title \<noteq> []" "prompt \<noteq> []" "category \<noteq> []"
  shows "(let s = request_step env cast None (request_form_init None) (Prefill (parse_query (launch_query title prompt category)))
    in fs_title (rq_form s) = title \<and> fs_description (rq_form s) = prompt \<and> fs_category (rq_form s) = category \<and> rq_step s = 2) \<and>
    list_all (\<lambda>i. snd (snd (snd i)) \<in> set (map fst REQUEST_CATEGORIES)) quick_launch"
proof
  show "let s = request_step env cast None (request_form_init None) (Prefill (parse_query (launch_query title prompt category)))
    in fs_title (rq_form s) = title \<and> fs_description (rq_form s) = prompt \<and> fs_category (rq_form s) = category \<and> rq_step s = 2"
    using assms by (simp add: parse_launch_query prefill_def param_def request_form_init_def or_else_def Let_def)
  show "list_all (\<lambda>i. snd (snd (snd i)) \<in> set (map fst REQUEST_CATEGORIES)) quick_launch"
    by code_simp
qed

text \<open>
  The feed takes cents for dollars. For a request with a maximum budget, which is kept in cents and
  which the form that wrote it shows in dollars, the row of the feed prints the number of cents as the
  budget, and 85 percent of that number as the payout in dollars; and the filter for budgets from
  150 dollars lets through every budget from one dollar and fifty cents.
\<close>

lemma feed_reads_cents:
  assumes "sr_budget_max r = Some n" "0 < n"
  shows "fs_budget_max (form_init (Some r)) = cents_text n \<and>
    (\<exists>us. feed_row loc r = Box (sr_id r) us \<and> Text (''Student Budget: '' @ show_nat n @ '' '' @ sr_currency r) \<in> set us \<and>
       Text (''$'' @ to_fixed2 (of_nat n * (85 / 100)) @ '' Net Payout'') \<in> set us) \<and>
    (quick_pass Qf_high_budget r \<longleftrightarrow> 150 \<le> n)"
proof -
  have b: "feed_budget r = of_nat n" "feed_budget_text r = show_nat n"
    using assms by (simp_all add: feed_budget_def feed_budget_text_def)
  have "\<not> of_nat n < (150 :: rat) \<longleftrightarrow> 150 \<le> n"
    by (metis not_less of_nat_less_iff of_nat_numeral)
  then show ?thesis
    using assms b by (simp add: form_init_def budget_text_def feed_row_def quick_pass_def)
qed

end
