(* ===== verification/WebWorkspace.thy ===== *)
theory WebWorkspace
  imports OrderWorkspace
begin

text \<open>
  The order workspace of the split application,
  \<open>apps/web/src/features/orders/components/order-workspace.tsx\<close>. Its state, handlers and sections are
  those of \<open>OrderWorkspace\<close>; what it renders is not. The header, the delivery, the composers and the
  cancellation are written again here, and the two workspaces are compared.
\<close>

section \<open>What it shows\<close>

definition web_STEPS :: "string list" where
  "web_STEPS = [''Confirmed'', ''In progress'', ''Delivered'', ''Completed'']"

definition web_ProgressRail :: "order_status \<Rightarrow> 'e ui list" where
  "web_ProgressRail st =
     [Box (''Order progress: step '' @ show_nat (Suc (progressStep st)) @ '' of '' @ show_nat (length web_STEPS))
       (map Text web_STEPS)]"

text \<open>The width of the line after the step \<open>i\<close>, in percent.\<close>

definition web_line_width :: "order_status \<Rightarrow> nat \<Rightarrow> nat" where
  "web_line_width st i = (if i < progressStep st then 100 else 0)"

definition web_DeliveryComposer :: "delivery_composer \<Rightarrow> bool \<Rightarrow> delivery_event ui list" where
  "web_DeliveryComposer c busy =
     [Field ''Delivery summary'' (dv_summary c) TypeSummary,
      Files ''Files (PDF/JPG/PNG, <=25 MB each)'' ChooseDelivery]
     @ alert_if (dv_error c)
     @ [Button (if dv_uploading c then ''Uploading...'' else ''Submit delivery'')
          (busy \<or> dv_uploading c) SubmitDelivery]"

definition web_RevisionComposer :: "revision_composer \<Rightarrow> bool \<Rightarrow> revision_event ui list" where
  "web_RevisionComposer c busy =
     [Field ''Revision note'' (rv_note c) TypeNote]
     @ alert_if (rv_error c) @ [Button ''Request revision'' busy SubmitRevision]"

definition web_DeliveryFiles :: "order_detail \<Rightarrow> workspace_event ui list" where
  "web_DeliveryFiles ord =
     (case od_deliveries ord of
        [] \<Rightarrow> []
      | latest # _ \<Rightarrow>
          map (\<lambda>f. Button (at_name f @ '' ('' @ show_int (max 1 (math_round (of_nat (at_size f) / 1024))) @ '' KB)'')
                 False (Download (at_id f)))
            (dl_attachments latest))"

definition web_header :: "locale_text \<Rightarrow> workspace \<Rightarrow> workspace_event ui list" where
  "web_header loc s =
     (let ord = ws_order s; student = (od_role ord = Student)
      in [Text (od_number ord), Heading (od_title ord), Text (SOURCE_COPY (od_source ord)),
          Text ((if student then ''Expert: '' else ''Client: '') @ od_counterparty ord)]
         @ map (map_events Messages)
             (MessageThreadButton ''Message'' (od_status ord = Cancelled) (ws_messaging s))
         @ [Badge (ORDER_STATUS_TONE (od_status ord)) (ORDER_STATUS_COPY (od_status ord))]
         @ web_ProgressRail (od_status ord)
         @ [Text ''Agreed price'', Text (od_currency ord @ '' '' @ show_number loc (od_amount ord))]
         @ shown_if student
             [Text ''Expert receives'', Text (od_currency ord @ '' '' @ show_number loc (od_expert_amount ord))]
         @ [Text ''Revisions'', Text (show_nat (od_revisions_used ord) @ '' / '' @ show_nat (od_revisions_allowed ord))]
         @ (if truthy (od_auto_approve_at ord) \<and> od_status ord \<noteq> Completed
            then [Text ''Auto-approves'', Text (show_datetime loc (the (od_auto_approve_at ord)))] else []))"

definition web_delivery :: "workspace \<Rightarrow> workspace_event ui list" where
  "web_delivery s =
     (let ord = ws_order s
      in case od_deliveries ord of
        latest # _ \<Rightarrow>
          [Heading (if dl_revision latest = 0 then ''Delivery'' else ''Revision '' @ show_nat (dl_revision latest)),
           Badge (delivery_tone (dl_status latest)) (delivery_label (dl_status latest)), Text (dl_summary latest)]
          @ web_DeliveryFiles ord
      | [] \<Rightarrow>
          [Text ''No delivery yet. '',
           Text (if od_role ord = Student
             then ''Your expert is working -- the timeline updates the moment it lands.''
             else ''Submit your work when it's ready.'')])"

text \<open>The form has no way back: only a cancellation that was sent closes it.\<close>

definition web_cancel_form :: "workspace \<Rightarrow> workspace_event ui list" where
  "web_cancel_form s =
     [Field ''Cancellation reason'' (ws_reason s) TypeCancel] @ alert_if (ws_error s)
     @ [Button ''Confirm cancellation'' (ws_busy s) SubmitCancel]"

definition web_OrderWorkspace :: "locale_text \<Rightarrow> workspace \<Rightarrow> workspace_event ui list" where
  "web_OrderWorkspace loc s =
     (let ord = ws_order s
      in web_header loc s
         @ (case od_payment ord of None \<Rightarrow> []
            | Some p \<Rightarrow> map (map_events payment_key) (PaymentCard loc p (od_role ord) (ws_busy s)))
         @ web_delivery s
         @ (if od_status ord = Revision_requested \<and> truthy (od_deadline ord)
            then [Text ''A revised delivery is due by '', Text (show_date loc (the (od_deadline ord)))] else [])
         @ shown_if (ws_mode s = DeliverMode)
             (map (map_events Delivering) (web_DeliveryComposer (ws_delivery s) (ws_busy s)))
         @ shown_if (ws_mode s = ReviseMode)
             (map (map_events Revising) (web_RevisionComposer (ws_revision s) (ws_busy s)))
         @ shown_if (ws_mode s = CancelMode) (web_cancel_form s)
         @ shown_if (od_status ord = Completed \<or> ws_review s \<noteq> None)
             (map (map_events Reviewing)
               (ReviewSection loc (od_role ord) (ws_review s) (ws_busy s) (ws_reviewing s)))
         @ action_bar s
         @ [Heading ''Timeline''] @ Timeline loc (od_events ord)
         @ map (map_events Disputing)
             (DisputeSection (status_name (od_status ord)) (od_role ord) (ws_dispute s) (ws_busy s)
               (ws_disputing s)))"

section \<open>The two workspaces\<close>

definition web_enabled :: "locale_text \<Rightarrow> workspace \<Rightarrow> workspace_event \<Rightarrow> bool" where
  "web_enabled loc s e \<longleftrightarrow>
     (case e of
        Props ord rw d busy \<Rightarrow> od_role ord = od_role (ws_order s)
      | _ \<Rightarrow> settles e \<or> offered (web_OrderWorkspace loc s) e)"

abbreviation web_reach :: "locale_text \<Rightarrow> workspace \<Rightarrow> bool" where
  "web_reach loc \<equiv> reach workspace_start (web_enabled loc) (workspace_step loc)"

text \<open>The controls the other workspace has twice, or besides an open form.\<close>

definition shortcut :: "workspace_event \<Rightarrow> bool" where
  "shortcut e \<longleftrightarrow> e = Act ''approve'' \<or> (\<exists>m. e = SetMode m)"

lemma shortcut_simps [simp]:
  "shortcut (Act k) \<longleftrightarrow> k = ''approve''" "shortcut (SetMode m)" "\<not> shortcut (Delivering dx)"
  "\<not> shortcut (Revising rx)" "\<not> shortcut (TypeCancel r)" "\<not> shortcut SubmitCancel"
  "\<not> shortcut (CancelSent q)" "\<not> shortcut (Download i)" "\<not> shortcut (Reviewing y)"
  "\<not> shortcut (Disputing z)" "\<not> shortcut (Messages b)" "\<not> shortcut (Props ord rw d busy)"
  by (simp_all add: shortcut_def)

lemma offered_web_composers [simp]:
  "offered (web_DeliveryComposer c busy) = offered (DeliveryComposer c busy)"
  "offered (web_RevisionComposer rc busy) = offered (RevisionComposer rc busy)"
  by (auto simp: web_DeliveryComposer_def DeliveryComposer_def web_RevisionComposer_def
      RevisionComposer_def fun_eq_iff)

lemma offered_web_rail [simp]: "\<not> offered (web_ProgressRail st) e"
  by (simp add: web_ProgressRail_def web_STEPS_def)

lemma offered_headers [simp]:
  "offered (web_header loc s) e \<longleftrightarrow> (\<exists>x. e = Messages x \<and>
     offered (MessageThreadButton ''Message'' (od_status (ws_order s) = Cancelled) (ws_messaging s)) x)"
  "offered (header_banner loc s) e \<longleftrightarrow> (\<exists>x. e = Messages x \<and>
     offered (MessageThreadButton ''Message'' (od_status (ws_order s) = Cancelled) (ws_messaging s)) x)"
  by (auto simp: web_header_def header_banner_def Let_def offered_child)

lemma offered_web_files [simp]: "offered (web_DeliveryFiles ord) = offered (DeliveryFiles ord)"
  by (auto simp: web_DeliveryFiles_def DeliveryFiles_def fun_eq_iff offered_map offers_Box
      simp del: offers.simps(6) split: list.splits)

lemma offered_web_delivery: "offered (web_delivery s) e = offered (DeliveryFiles (ws_order s)) e"
  by (auto simp: web_delivery_def Let_def split: list.splits) (simp add: DeliveryFiles_def)

text \<open>What the panel of the other workspace offers beyond the files, the bar offers as well when no form is open.\<close>

lemma offered_panel:
  "offered (inspection_panel s) e \<and> \<not> shortcut e \<longleftrightarrow> offered (DeliveryFiles (ws_order s)) e"
proof (cases "od_deliveries (ws_order s)")
  case Nil
  then show ?thesis by (auto simp: inspection_panel_def DeliveryFiles_def Let_def)
next
  case Cons
  then show ?thesis by (auto simp: inspection_panel_def Let_def dest: offered_files)
qed

lemma panel_in_bar:
  assumes "offered (inspection_panel s) e" "shortcut e" "ws_mode s = Idle"
  shows "offered (action_bar s) e"
  using offered_inspection [OF assms(1)] assms(2,3) by (auto simp: offered_action_bar)

lemma payment_plain [simp]: "\<not> shortcut (payment_key x)"
  by (cases x) simp_all

text \<open>Event by event, what the two trees offer.\<close>

lemma web_offered:
  "offered (web_OrderWorkspace loc s) e \<longleftrightarrow>
     offered (OrderWorkspace loc s) e \<and> (ws_mode s = Idle \<or> \<not> shortcut e)"
proof -
  let ?o = "ws_order s"
  let ?rest = "(\<exists>p. od_payment ?o = Some p \<and>
        offered (map (map_events payment_key) (PaymentCard loc p (od_role ?o) (ws_busy s))) e) \<or>
      (ws_mode s = DeliverMode \<and> (\<exists>x. e = Delivering x \<and> offered (DeliveryComposer (ws_delivery s) (ws_busy s)) x)) \<or>
      (ws_mode s = ReviseMode \<and> (\<exists>x. e = Revising x \<and> offered (RevisionComposer (ws_revision s) (ws_busy s)) x)) \<or>
      (\<exists>x. e = Messages x \<and>
        offered (MessageThreadButton ''Message'' (od_status ?o = Cancelled) (ws_messaging s)) x) \<or>
      ((od_status ?o = Completed \<or> ws_review s \<noteq> None) \<and>
        offered (map (map_events Reviewing) (ReviewSection loc (od_role ?o) (ws_review s) (ws_busy s) (ws_reviewing s))) e) \<or>
      offered (map (map_events Disputing) (DisputeSection (status_name (od_status ?o)) (od_role ?o)
        (ws_dispute s) (ws_busy s) (ws_disputing s))) e"
  have rest: "\<not> shortcut e" if ?rest using that
    by (auto simp: offered_child)
  have src: "offered (OrderWorkspace loc s) e \<longleftrightarrow>
      ?rest \<or> offered (inspection_panel s) e \<or> offered (action_bar s) e \<or>
      (ws_mode s = CancelMode \<and> offered (cancel_form s) e)"
    unfolding OrderWorkspace_def Let_def offered_simps offered_shown_if offered_headers
    by (cases "od_payment ?o") (auto simp: offered_child)
  have web: "offered (web_OrderWorkspace loc s) e \<longleftrightarrow>
      ?rest \<or> offered (DeliveryFiles ?o) e \<or> offered (action_bar s) e \<or>
      (ws_mode s = CancelMode \<and> offered (web_cancel_form s) e)"
    unfolding web_OrderWorkspace_def Let_def offered_simps offered_shown_if offered_headers
      offered_web_delivery
    by (cases "od_payment ?o") (auto simp: offered_child)
  have cancel: "offered (web_cancel_form s) e \<longleftrightarrow> offered (cancel_form s) e \<and> \<not> shortcut e"
    by (auto simp: web_cancel_form_def cancel_form_def)
  have bar: "offered (action_bar s) e \<Longrightarrow> ws_mode s = Idle"
    by (simp add: offered_action_bar)
  obtain R where R: "R \<longrightarrow> \<not> shortcut e"
      "offered (OrderWorkspace loc s) e \<longleftrightarrow> R \<or> offered (inspection_panel s) e \<or> offered (action_bar s) e \<or>
        (ws_mode s = CancelMode \<and> offered (cancel_form s) e)"
      "offered (web_OrderWorkspace loc s) e \<longleftrightarrow> R \<or> offered (DeliveryFiles ?o) e \<or> offered (action_bar s) e \<or>
        (ws_mode s = CancelMode \<and> offered (web_cancel_form s) e)"
    using that [OF impI [OF rest] src web] .
  show ?thesis
    unfolding R(2,3) cancel
    using R(1) bar panel_in_bar [of s e] offered_panel [of s e]
    by (cases "ws_mode s"; cases "shortcut e") auto
qed

lemma web_enabled_enabled: "web_enabled loc s e \<Longrightarrow> workspace_enabled loc s e"
  by (cases e) (simp_all add: web_enabled_def workspace_enabled_def web_offered)

lemma web_reach_reach: "web_reach loc s \<Longrightarrow> workspace_reach loc s"
  by (induction rule: reach.induct) (auto intro: reach_start reach_step web_enabled_enabled)

interpretation web_space: machine workspace_start "web_enabled loc" "workspace_step loc" space_inv for loc
  by unfold_locales (auto simp: workspace_start_def intro: space_inv_step web_enabled_enabled)

text \<open>The lifecycle is kept, and the transitions nobody can reach are missing here as well.\<close>

lemma web_lifecycle:
  assumes "web_reach loc s" "web_enabled loc s e" "workspace_call loc ids s e = Some (k, p)"
    and "k \<in> lifecycle_keys"
  shows "(documented (od_role (ws_order s)) (od_status (ws_order s)) k \<noteq> None \<or> stray_payment (ws_order s) k) \<and>
    payload_ok p \<and> k \<noteq> ''cancel'' \<and>
    (k = ''deliver'' \<longrightarrow> od_status (ws_order s) \<noteq> Revision_requested) \<and>
    (k = ''open-dispute'' \<longrightarrow> od_role (ws_order s) = Student \<and> ws_dispute s = None)"
  by (rule call_mode [OF web_space.reach_inv [OF assms(1)] web_enabled_enabled [OF assms(2)] assms(3,4)])

text \<open>An open form of the split application is left only by what it sends, or by a change of the order.\<close>

lemma web_form_stays:
  assumes "ws_mode s \<noteq> Idle" "web_enabled loc s e" "\<not> settles e" "\<nexists>ord rw d b. e = Props ord rw d b"
  shows "ws_mode (workspace_step loc s e) = ws_mode s"
proof -
  have "offered (web_OrderWorkspace loc s) e" using assms(2-4) by (cases e) (simp_all add: web_enabled_def)
  then have "\<not> shortcut e" using assms(1) by (simp add: web_offered)
  then show ?thesis
    using assms(3,4) by (cases "(loc, s, e)" rule: workspace_step.cases) auto
qed

end
