(* ===== verification/WebPages.thy ===== *)
theory WebPages
  imports WebWorkspace Workspace Profiles Assignments
begin

text \<open>
  The pages of the split application that are not those of \<open>src\<close>, under \<open>apps/web/src/app\<close>: the
  specialists' sign-in and registration, which are empty files in \<open>src\<close>, and the plainer trees of the
  assignments, the profile and the reviews received.
\<close>

section \<open>The specialists' sign-in\<close>

text \<open>The state and the requests are those of the students' sign-in.\<close>

definition specialist_known :: "string \<Rightarrow> json \<Rightarrow> bool" where
  "specialist_known email res \<longleftrightarrow>
     json_truthy (get_path (Some res) [''user'', ''roles'', ''expert'']) \<or>
     starts_with (to_lower email) ''expert@'' \<or> starts_with (to_lower email) ''bid''"

definition specialist_target :: "bool \<Rightarrow> string option \<Rightarrow> string" where
  "specialist_target isExpert next =
     (case next of
        Some n \<Rightarrow>
          if n \<noteq> [] \<and> starts_with n ''/'' then n
          else if isExpert then ''/opportunities'' else ''/expert/apply''
      | None \<Rightarrow> if isExpert then ''/opportunities'' else ''/expert/apply'')"

fun specialist_login_step :: "string option \<Rightarrow> login_page \<Rightarrow> login_event \<Rightarrow> login_page" where
  "specialist_login_step next p FillDemo =
     p\<lparr>li_email := ''expert@demo.local'', li_password := ''demo-password-1234'', li_error := None\<rparr>"
| "specialist_login_step next p SubmitLogin =
     p\<lparr>li_error := None, li_submitting := True, li_run := Some (Asking_login (li_email p))\<rparr>"
| "specialist_login_step next p (LoginAnswer r) =
     (case r of
        Inl e \<Rightarrow> p\<lparr>li_error := Some (authErrorMessage e), li_shake := True, li_submitting := False, li_run := None\<rparr>
      | Inr v \<Rightarrow>
          (case li_run p of
             Some (Asking_login email) \<Rightarrow> p\<lparr>li_run := Some (Refreshing email v)\<rparr>
           | _ \<Rightarrow> p))"
| "specialist_login_step next p LoginRefreshed =
     (case li_run p of
        Some (Refreshing email res) \<Rightarrow>
          p\<lparr>li_role_mode := remember_mode ''EXPERT'' p, li_pushed := Some (specialist_target (specialist_known email res) next),
            li_submitting := False, li_run := None\<rparr>
      | _ \<Rightarrow> p)"
| "specialist_login_step next p (TypeLoginEmail s) = p\<lparr>li_email := s\<rparr>"
| "specialist_login_step next p (TypeLoginPassword s) = p\<lparr>li_password := s\<rparr>"
| "specialist_login_step next p ToggleShow = p\<lparr>li_show := \<not> li_show p\<rparr>"
| "specialist_login_step next p ToggleRemember = p\<lparr>li_remember := \<not> li_remember p\<rparr>"
| "specialist_login_step next p ShakeOver = p\<lparr>li_shake := False\<rparr>"

fun specialist_login_call :: "string \<Rightarrow> login_page \<Rightarrow> login_event \<Rightarrow> api_init option" where
  "specialist_login_call b p SubmitLogin = Some (authApi_login b (trim (li_email p)) (li_password p))"
| "specialist_login_call b p _ = None"

definition ExpertLoginForm :: "login_page \<Rightarrow> login_event ui list" where
  "ExpertLoginForm p =
     [Text ''Specialist Portal'', Heading ''Specialist Sign In'',
      Text ''Access your bids, active orders, earnings dashboard, and expert profile.'',
      Text ''85% payout'', Text ''Verified profile'', Text ''Grow your reach'',
      Field ''Expert Email'' (li_email p) TypeLoginEmail,
      Link ''/reset-password'' ''Forgot password?'',
      Field ''Password'' (li_password p) TypeLoginPassword,
      Button (if li_show p then ''Hide password'' else ''Show password'') False ToggleShow,
      Check ''Remember me for 30 days'' (li_remember p) False ToggleRemember]
     @ alert_if (li_error p)
     @ [Button (if li_submitting p then ''Authenticating...'' else ''Enter Specialist Cockpit'') (li_submitting p) SubmitLogin,
        Text ''Or try the demo'', Button ''Fill Expert Demo Credentials'' False FillDemo,
        Text ''Want to apply as a specialist? '', Link ''/register/expert'' ''Create expert account'',
        Text ''Are you a student? '', Link ''/login'' ''Student login'',
        Link ''/for-experts'' ''Learn about the expert program ->'']"

section \<open>The specialists' registration\<close>

datatype specialist_run = Registering | Settling

record specialist_page =
  sp_name :: string
  sp_email :: string
  sp_password :: string
  sp_show :: bool
  sp_degree :: string
  sp_institution :: string
  sp_discipline :: string
  sp_honor :: bool
  sp_error :: "string option"
  sp_submitting :: bool
  sp_run :: "specialist_run option"
  sp_role_mode :: "string option"
  sp_pushed :: "string option"

definition specialist_init :: "string option \<Rightarrow> specialist_page" where
  "specialist_init mode =
     \<lparr>sp_name = [], sp_email = [], sp_password = [], sp_show = False, sp_degree = ''phd'', sp_institution = [],
      sp_discipline = ''cs_ai'', sp_honor = False, sp_error = None, sp_submitting = False, sp_run = None,
      sp_role_mode = mode, sp_pushed = None\<rparr>"

definition specialist_check :: "specialist_page \<Rightarrow> string option" where
  "specialist_check p =
     (if length (sp_password p) < 10 then Some ''Password must be at least 10 characters.''
      else if \<not> sp_honor p then Some ''You must agree to the Academic Honor Code.''
      else None)"

datatype specialist_event =
    Spec_name string
  | Spec_email string
  | Spec_degree string
  | Spec_discipline string
  | Spec_institution string
  | Spec_password string
  | Spec_show
  | Spec_honor
  | Spec_submit
  | Spec_answer "failure + json"
  | Spec_refreshed

fun specialist_step :: "specialist_page \<Rightarrow> specialist_event \<Rightarrow> specialist_page" where
  "specialist_step p (Spec_name s) = p\<lparr>sp_name := s\<rparr>"
| "specialist_step p (Spec_email s) = p\<lparr>sp_email := s\<rparr>"
| "specialist_step p (Spec_degree s) = p\<lparr>sp_degree := s\<rparr>"
| "specialist_step p (Spec_discipline s) = p\<lparr>sp_discipline := s\<rparr>"
| "specialist_step p (Spec_institution s) = p\<lparr>sp_institution := s\<rparr>"
| "specialist_step p (Spec_password s) = p\<lparr>sp_password := s\<rparr>"
| "specialist_step p Spec_show = p\<lparr>sp_show := \<not> sp_show p\<rparr>"
| "specialist_step p Spec_honor = p\<lparr>sp_honor := \<not> sp_honor p\<rparr>"
| "specialist_step p Spec_submit =
     (case specialist_check p of
        Some m \<Rightarrow> p\<lparr>sp_error := Some m\<rparr>
      | None \<Rightarrow> p\<lparr>sp_error := None, sp_submitting := True, sp_run := Some Registering\<rparr>)"
| "specialist_step p (Spec_answer r) =
     (case r of
        Inl e \<Rightarrow> p\<lparr>sp_error := Some (authErrorMessage e), sp_submitting := False, sp_run := None\<rparr>
      | Inr v \<Rightarrow> p\<lparr>sp_run := Some Settling\<rparr>)"
| "specialist_step p Spec_refreshed =
     p\<lparr>sp_role_mode := Some ''EXPERT'', sp_pushed := Some ''/for-experts?welcome=1'', sp_submitting := False, sp_run := None\<rparr>"

fun specialist_call :: "string \<Rightarrow> specialist_page \<Rightarrow> specialist_event \<Rightarrow> api_init option" where
  "specialist_call b p Spec_submit =
     (if specialist_check p = None
      then Some (authApi_register b (trim (sp_email p)) (trim (sp_name p)) (sp_password p)) else None)"
| "specialist_call b p _ = None"

text \<open>The four bars, filled up to the score, and the list of the criteria, each with whether it is met.\<close>

definition specialist_strength :: "string \<Rightarrow> specialist_event ui list" where
  "specialist_strength pw =
     map (\<lambda>k. Text (if k \<le> strengthScore pw then ''filled'' else ''empty'')) [1..<5]
     @ [Text ''Strength: '', Text (strength_label (strengthScore pw))]
     @ shown_if (strengthScore pw = 4) [Text ''Excellent'']
     @ map (\<lambda>(ok, label). Text ((if ok then ''[check] '' else ''[ ] '') @ label))
         (zip (passwordCriteria pw) [''10+ Characters'', ''Uppercase Letter'', ''Number Included'', ''Special Symbol''])"

definition specialist_fields :: "specialist_page \<Rightarrow> specialist_event ui list" where
  "specialist_fields p =
     [Choice ''Highest Degree Held'' (sp_degree p)
        [(''phd'', ''Ph.D. / Doctorate''), (''postdoc'', ''Postdoctoral Researcher''),
         (''masters'', ''Master's Degree (M.S./M.A.)''), (''industry'', ''Senior Industry Specialist'')] Spec_degree,
      Choice ''Primary Expertise Domain'' (sp_discipline p)
        [(''cs_ai'', ''Distributed Systems & AI''), (''math_stats'', ''Stochastic Calculus & Pure Math''),
         (''quant_econ'', ''Econometrics & Causal Inference''), (''robotics'', ''Robotics & Embedded Systems''),
         (''quantum'', ''Quantum Physics & Chemistry'')] Spec_discipline,
      Field ''Alma Mater / Research Institution'' (sp_institution p) Spec_institution]"

definition ExpertRegisterPage :: "specialist_page \<Rightarrow> specialist_event ui list" where
  "ExpertRegisterPage p =
     [Text ''Expert Application'', Heading ''Apply as a Specialist'',
      Text ''Join our vetted network. Teach what you know and earn on your schedule.'',
      Text ''Keep 85% of every order'', Text ''Vetted Badge builds trust'', Text ''Grow Income flexible schedule'',
      Field ''Full Name (as on credentials)'' (sp_name p) Spec_name, Field ''Email Address'' (sp_email p) Spec_email]
     @ specialist_fields p
     @ [Field ''Password'' (sp_password p) Spec_password,
        Button (if sp_show p then ''Hide password'' else ''Show password'') False Spec_show]
     @ specialist_strength (sp_password p)
     @ [Check ''I agree to the Platform Honor Code and Terms of Service. I confirm I will never ghostwrite graded work.''
          (sp_honor p) False Spec_honor,
        Link ''/academic-integrity'' ''Platform Honor Code'', Link ''/terms'' ''Terms of Service'']
     @ alert_if (sp_error p)
     @ [Button (if sp_submitting p then ''Creating Account...'' else ''Start Expert Application'') (sp_submitting p) Spec_submit,
        Text ''Already have an account? '', Link ''/login/expert'' ''Expert sign in'',
        Text ''Are you a student? '', Link ''/register'' ''Student registration'',
        Link ''/for-experts'' ''Learn about the expert program ->'']"

fun specialist_enabled :: "specialist_page \<Rightarrow> specialist_event \<Rightarrow> bool" where
  "specialist_enabled p (Spec_answer r) = (sp_run p = Some Registering)"
| "specialist_enabled p Spec_refreshed = (sp_run p = Some Settling)"
| "specialist_enabled p e = offered (ExpertRegisterPage p) e"

section \<open>Assignments\<close>

definition web_TTL :: "(string \<Rightarrow> rat) \<Rightarrow> string \<Rightarrow> string" where
  "web_TTL left expiresAt = '' . respond within '' @ show_int (max 0 (math_round (left expiresAt / 3600000))) @ ''h''"

definition web_invitation_card ::
    "(string \<Rightarrow> rat) \<Rightarrow> assignments_page \<Rightarrow> pool_invitation \<Rightarrow> assignments_event ui" where
  "web_invitation_card left p v =
     Box (pool_invitation.pi_id v)
       ([Link (''/opportunities/'' @ pi_request v) (pi_title v),
         Badge (ASSIGNMENT_STATUS_TONE (pool_invitation.pi_status v)) (ASSIGNMENT_STATUS_COPY (pool_invitation.pi_status v)),
         Text (nullish (pi_subject v) ''General'' @ '' . platform-set price '' @ nullish (pi_quote v) []
           @ '' . student budget up to '' @ (case pi_budget_max v of None \<Rightarrow> ''--'' | Some n \<Rightarrow> show_int n)
           @ (if isRespondable (pool_invitation.pi_status v) then web_TTL left (pi_expires v) else []))]
        @ shown_if (pi_reason v \<noteq> []) [Text (''Reason: '' @ pi_reason v)]
        @ shown_if (isRespondable (pool_invitation.pi_status v))
            [Field ''Your expected amount (optional)'' (nullish (ag_expected p (pool_invitation.pi_id v)) []) (TypeExpected (pool_invitation.pi_id v)),
             Button (if ag_busy p = Some (pool_invitation.pi_id v) then ''Accepting...'' else ''Accept'')
               (ag_busy p = Some (pool_invitation.pi_id v)) (AcceptInvitation (pool_invitation.pi_id v)),
             Button ''Decline'' (ag_busy p = Some (pool_invitation.pi_id v)) (DeclineInvitation (pool_invitation.pi_id v))])"

definition web_assignment_card ::
    "(string \<Rightarrow> rat) \<Rightarrow> assignments_page \<Rightarrow> direct_assignment \<Rightarrow> assignments_event ui" where
  "web_assignment_card left p a =
     Box (da_id a)
       ([Link (''/opportunities/'' @ da_request a) (da_title a),
         Badge (ASSIGNMENT_STATUS_TONE (da_status a)) (ASSIGNMENT_STATUS_COPY (da_status a)),
         Text (nullish (da_subject a) ''General'' @ '' . proposed '' @ da_amount a @ '' '' @ da_currency a
           @ (if truthy (da_deadline a) then '' . deadline '' @ the (da_deadline a) else [])
           @ (if isRespondable (da_status a) then web_TTL left (da_expires a) else []))]
        @ shown_if (da_scope a \<noteq> []) [Text (da_scope a)]
        @ shown_if (da_reason a \<noteq> []) [Text (''Reason: '' @ da_reason a)]
        @ shown_if (isRespondable (da_status a))
            [Button (if ag_busy p = Some (da_id a) then ''Accepting...'' else ''Accept'')
               (ag_busy p = Some (da_id a)) (AcceptAssignment (da_id a)),
             Button ''Decline'' (ag_busy p = Some (da_id a)) (DeclineAssignment (da_id a))])"

definition web_section :: "string \<Rightarrow> string \<Rightarrow> 'e ui list option \<Rightarrow> 'e ui" where
  "web_section title none cards =
     Box title
       ([Heading title, Text (''('' @ show_nat (case cards of None \<Rightarrow> 0 | Some cs \<Rightarrow> length cs) @ '')'')]
        @ (case cards of None \<Rightarrow> [] | Some cs \<Rightarrow> if cs = [] then [Text none] else cs))"

definition web_AssignmentsPage :: "(string \<Rightarrow> rat) \<Rightarrow> assignments_page \<Rightarrow> assignments_event ui list" where
  "web_AssignmentsPage left p =
     [Heading ''Assignments'',
      Text ''Requests our team routed to you. For pool invitations, the first expert to accept is assigned (the platform-set price applies).'']
     @ alert_if (ag_error p)
     @ shown_if (ag_invitations p = None \<and> ag_assignments p = None) [Box ''loading'' []]
     @ [web_section ''Pool invitations'' ''No invitations right now.''
          (map_option (map (web_invitation_card left p)) (ag_invitations p)),
        web_section ''Direct assignments'' ''No direct assignments right now.''
          (map_option (map (web_assignment_card left p)) (ag_assignments p))]"

section \<open>Profile and reviews received\<close>

definition web_profile_form :: "profile_page \<Rightarrow> profile_event ui list" where
  "web_profile_form p =
     [Field ''Display name'' (profile_value p P_name) (TypeProfile P_name),
      Field ''Headline'' (profile_value p P_headline) (TypeProfile P_headline),
      Field ''Bio'' (profile_value p P_bio) (TypeProfile P_bio),
      Field ''Qualifications'' (profile_value p P_quals) (TypeProfile P_quals),
      Field ''Languages'' (profile_value p P_languages) (TypeProfile P_languages),
      Check ''Available for work'' (pp_availability p = Available) False (PickAvailability Available),
      Check ''Paused (hidden badge, stays listed)'' (pp_availability p = Paused) False (PickAvailability Paused),
      Check ''Listed in the public directory'' (pp_public p) False TogglePublic]
     @ alert_if (pp_error p)
     @ shown_if (pp_state p = Pf_saved) [Text ''Profile saved.'']
     @ [Button (if pp_state p = Pf_saving then ''Saving...'' else ''Save changes'') (pp_state p = Pf_saving) SaveProfile]"

definition web_ExpertProfilePage :: "profile_page \<Rightarrow> profile_event ui list" where
  "web_ExpertProfilePage p =
     (if pp_state p = Pf_loading then [Box ''expert-profile-loading'' []]
      else if pp_state p = Pf_none
      then [Text ''Your expert profile appears here after your application is approved. '',
            Link ''/expert/application'' ''Check your application status'']
      else Heading ''Your expert profile''
        # (case pp_profile p of
             None \<Rightarrow> []
           | Some e \<Rightarrow> [Text ''Public page: '', Link (''/experts/'' @ pe_slug e) (''/experts/'' @ pe_slug e)])
        @ web_profile_form p)"

definition web_ExpertReviewsPage :: "received_page \<Rightarrow> received_event ui list" where
  "web_ExpertReviewsPage p =
     (case er_reviews p of
        None \<Rightarrow>
          if er_failed p then [Alert ''Could not load your reviews -- please refresh.'']
          else [Box ''loading'' []]
      | Some rs \<Rightarrow>
          [Heading ''Reviews you received'',
           Text ''Public ratings use a recency-weighted average (BR-39). Reply once per review -- replies are public and permanent.'']
          @ (if truthy (er_notice p) then [Text (the (er_notice p))] else [])
          @ (if rs = []
             then [Text ''No reviews yet -- clients can review each completed order once. They appear here the moment they are published.'']
             else map (received_card p) rs)
          @ [Link ''/expert/profile'' ''Expert profile''])"

section \<open>Lemmas\<close>

lemma specialist_target_rooted: "starts_with (specialist_target known next) ''/''"
  by (auto simp: specialist_target_def split: option.split)

lemma offered_specialist_submit: "offered (ExpertRegisterPage p) Spec_submit \<longleftrightarrow> \<not> sp_submitting p"
  by (auto simp: ExpertRegisterPage_def specialist_fields_def specialist_strength_def offered_map)

text \<open>
  A registration is sent only with ten characters and the honor code, trimmed but for the password; the
  degree, the domain and the institution that were asked for are in no request. The strength that is
  displayed decides nothing: ten letters are enough. The page that follows is a public one, on the
  marketing host, not the application.
\<close>

lemma specialist_guard:
  assumes "specialist_enabled p e" "specialist_call b p e = Some i"
  shows "sp_honor p \<and> 10 \<le> length (sp_password p) \<and> \<not> sp_submitting p \<and>
    i = authApi_register b (trim (sp_email p)) (trim (sp_name p)) (sp_password p) \<and>
    sp_submitting (specialist_step p e) \<and>
    specialist_call b (p\<lparr>sp_password := ''aaaaaaaaaa''\<rparr>) e \<noteq> None \<and> strengthScore ''aaaaaaaaaa'' = 1"
proof -
  have e: "e = Spec_submit" using assms(2) by (cases e) auto
  have ok: "specialist_check p = None" using assms(2) e by (simp split: if_splits)
  have "\<not> sp_submitting p" using assms(1) e by (simp add: offered_specialist_submit)
  moreover have "strengthScore ''aaaaaaaaaa'' = 1" by code_simp
  ultimately show ?thesis using assms(2) e ok by (auto simp: specialist_check_def split: if_splits)
qed

lemma specialist_welcome:
  "sp_pushed (specialist_step p Spec_refreshed) = Some (''/for-experts'' @ ''?welcome=1'')"
  "experienceForPath ''/for-experts'' = Marketing" "experienceForPath ''/expert/apply'' = App"
  by (simp, code_simp, code_simp)

text \<open>The page of registration for everybody and the one for specialists each accept what the other refuses.\<close>

lemma registrations_differ:
  "register_check ((register_init m)\<lparr>rg_honor := True, rg_password := ''A1!''\<rparr>) = None"
  "specialist_check ((specialist_init m)\<lparr>sp_honor := True, sp_password := ''A1!''\<rparr>) \<noteq> None"
  "specialist_check ((specialist_init m)\<lparr>sp_honor := True, sp_password := ''aaaaaaaaaa''\<rparr>) = None"
  "register_check ((register_init m)\<lparr>rg_honor := True, rg_password := ''aaaaaaaaaa''\<rparr>) \<noteq> None"
proof -
  have s: "strengthScore ''A1!'' = 3" "strengthScore ''aaaaaaaaaa'' = 1" by code_simp+
  show "register_check ((register_init m)\<lparr>rg_honor := True, rg_password := ''A1!''\<rparr>) = None"
    "register_check ((register_init m)\<lparr>rg_honor := True, rg_password := ''aaaaaaaaaa''\<rparr>) \<noteq> None"
    by (simp_all add: register_check_def s)
  show "specialist_check ((specialist_init m)\<lparr>sp_honor := True, sp_password := ''A1!''\<rparr>) \<noteq> None"
    "specialist_check ((specialist_init m)\<lparr>sp_honor := True, sp_password := ''aaaaaaaaaa''\<rparr>) = None"
    by (simp_all add: specialist_check_def)
qed

lemma offers_web_invitation: "offers (web_invitation_card left p v) e \<longleftrightarrow> offers (invitation_card left p v) e"
  by (auto simp: offers_invitation_card web_invitation_card_def offers_Box isRespondable_def
      simp del: offers.simps(6))

lemma offers_web_assignment:
  "offers (web_assignment_card left p a) e \<longleftrightarrow> offers (assignment_card loc left p a) e"
  by (auto simp: offers_assignment_card web_assignment_card_def offers_Box isRespondable_def
      simp del: offers.simps(6))

lemma offers_web_section:
  "offers (web_section title none cards) e \<longleftrightarrow> (\<exists>cs. cards = Some cs \<and> offered cs e)"
  by (auto simp: web_section_def offers_Box split: option.split simp del: offers.simps(6))

lemma offered_web_assignments:
  "offered (web_AssignmentsPage left p) e \<longleftrightarrow> offered (AssignmentsPage loc left p) e"
  unfolding offered_AssignmentsPage offers_web_assignment [where loc = loc, symmetric]
  by (cases "ag_invitations p"; cases "ag_assignments p")
    (simp_all add: web_AssignmentsPage_def offers_web_section offered_map offers_web_invitation)

lemma offered_web_profile_form:
  "offered (web_profile_form p) e \<longleftrightarrow>
     offered (profile_form p) e \<or> (e = SaveProfile \<and> pp_state p \<noteq> Pf_saving \<and> \<not> profile_required p)"
  by (auto simp: web_profile_form_def profile_form_def)

lemma offered_web_profile:
  "offered (web_ExpertProfilePage p) e \<longleftrightarrow>
     offered (ExpertProfilePage p) e \<or>
     (e = SaveProfile \<and> pp_state p \<in> {Pf_ready, Pf_saved} \<and> \<not> profile_required p)"
  by (cases "pp_state p")
    (auto simp: web_ExpertProfilePage_def ExpertProfilePage_def offered_web_profile_form split: option.split)

lemma offered_web_reviews: "offered (web_ExpertReviewsPage p) e \<longleftrightarrow> offered (ExpertReviewsPage p) e"
  unfolding offered_ExpertReviewsPage
  by (auto simp: web_ExpertReviewsPage_def offered_map split: option.split)

section \<open>Properties\<close>

text \<open>
  C32: the split application can do what the other one can, with two differences. On the order page with
  no form open, on the assignments and the reviews received the same events are possible. With a form open on
  the order page it lacks exactly the approval and the changes of the mode, which the other repeats
  above the form, so that every state of the order page it can reach is one the other can reach. On the
  profile it offers one thing more: it saves a profile whose name, headline or biography is empty, which the
  other one requires.
\<close>

theorem split_application_equivalent:
  "(offered (web_OrderWorkspace loc s) e \<longleftrightarrow>
      offered (OrderWorkspace loc s) e \<and> \<not> (ws_mode s \<noteq> Idle \<and> shortcut e)) \<and>
   {s. web_reach loc s} \<subseteq> {s. workspace_reach loc s} \<and>
   (offered (web_AssignmentsPage left p) x \<longleftrightarrow> offered (AssignmentsPage loc left p) x) \<and>
   (offered (web_ExpertProfilePage q) y \<longleftrightarrow>
      offered (ExpertProfilePage q) y \<or>
      (y = SaveProfile \<and> pp_state q \<in> {Pf_ready, Pf_saved} \<and> \<not> profile_required q)) \<and>
   (offered (web_ExpertReviewsPage r) z \<longleftrightarrow> offered (ExpertReviewsPage r) z)"
  using web_offered web_reach_reach offered_web_assignments offered_web_profile offered_web_reviews
  by (intro conjI) blast+

text \<open>
  C33: what the specialists' sign-in hands to the layout. It stores the specialist mode wherever the browser lets it,
  and routes to a target that begins with a slash, but only who is known as a specialist, or comes back to a page
  that is not the student's, then sees it. Without a page to come back to, who is not known is sent to the application,
  which the layout counts among the pages of students, and finds the mode of students shown and, where the
  storage can be written, stored. Who comes back to a page of students sees the students' mode as well.
\<close>

theorem specialist_handoff:
  "(let p' = specialist_login_step next (p\<lparr>li_run := Some (Refreshing email res)\<rparr>) LoginRefreshed;
        known = specialist_known email res; target = specialist_target known next;
        s = shell_mount w Authenticated (Map.empty(''hem_role_mode'' := li_role_mode p')) (li_role_mode p') target
    in li_role_mode p' = (if li_writable p then Some ''EXPERT'' else li_role_mode p) \<and>
       li_pushed p' = Some target \<and> starts_with target ''/'' \<and>
       (\<not> student_surface target \<and> (li_writable p \<or> expert_surface target) \<longrightarrow> sh_mode s = Expert_mode) \<and>
       (student_surface target \<and> \<not> expert_surface target \<longrightarrow> sh_mode s = Student_mode) \<and>
       (next = None \<and> known \<longrightarrow> sh_mode s = Expert_mode) \<and>
       (next = None \<and> \<not> known \<longrightarrow> sh_mode s = Student_mode \<and> (w \<longrightarrow> sh_cookie s = Some ''STUDENT'')))"
proof -
  have candidate: "\<not> expert_surface ''/expert/apply''" "student_surface ''/expert/apply''"
    and radar: "expert_surface ''/opportunities''"
    by (simp_all add: expert_surface_def student_surface_def)
  have cookie: "sh_cookie (shell_mount True st m c ''/expert/apply'') = Some ''STUDENT''" for st m c
    using candidate
    by (simp add: shell_mount_def sync_mode_def store_mode_def mode_key_def redirect_session_def read_stored_def Let_def)
  show ?thesis
    using specialist_target_rooted candidate radar cookie
    by (auto simp: Let_def mount_mode mode_of_def specialist_target_def remember_mode_def)
qed

theorem specialist_handoff_witness:
  "sh_mode (shell_mount True Authenticated
     (Map.empty(''hem_role_mode'' := li_role_mode (specialist_login_step None
        ((login_init True None)\<lparr>li_run := Some (Refreshing ''ada@uni.edu'' JNull)\<rparr>) LoginRefreshed)))
     (Some ''EXPERT'') ''/expert/apply'') = Student_mode"
proof -
  have k: "\<not> specialist_known ''ada@uni.edu'' JNull" by code_simp
  show ?thesis
    using specialist_handoff [of None "''ada@uni.edu''" JNull "login_init True None" True] k
    by (simp add: Let_def specialist_target_def remember_mode_def login_init_def)
qed

end
