(* ===== verification/Showcase.thy ===== *)
theory Showcase
  imports PublicPages
begin

text \<open>
  The pages that print the platform's rates, \<open>app/(marketing)/pricing/page.tsx\<close> and
  \<open>app/(marketing)/for-experts/page.tsx\<close>, and the panel beside the sign-in forms,
  \<open>components/auth/AuthStorytelling.tsx\<close>.
\<close>

section \<open>Rates\<close>

record pricing_tier =
  tr_percent :: string
  tr_label :: string
  tr_description :: string

record pricing =
  pr_open_bid :: pricing_tier
  pr_managed :: pricing_tier
  pr_min_offer :: string               \<comment> \<open>as displayed, like the next\<close>
  pr_payout_min :: string
  pr_window_days :: nat

text \<open>The structured data of a list of questions and answers.\<close>

definition faq_ld :: "(string \<times> string) list \<Rightarrow> json" where
  "faq_ld faq =
     JObj [(''@context'', JStr ''https://schema.org''), (''@type'', JStr ''FAQPage''),
           (''mainEntity'', JArr (map (\<lambda>(q, a).
              JObj [(''@type'', JStr ''Question''), (''name'', JStr q),
                    (''acceptedAnswer'', JObj [(''@type'', JStr ''Answer''), (''text'', JStr a)])]) faq))]"

definition faq_list :: "(string \<times> string) list \<Rightarrow> 'e ui list" where
  "faq_list faq = map (\<lambda>(q, a). Box q [Text q, Text a]) faq"

definition pricing_FAQ :: "(string \<times> string) list" where
  "pricing_FAQ =
     [(''Do students pay a platform fee?'',
       ''No. Students pay the price agreed with the expert. The platform commission is deducted from the expert's earnings, so the quoted price is the price.''),
      (''When is the expert paid?'',
       ''After the order completes -- either when the student approves the delivery, or automatically 72 hours after delivery if they do not respond. Funds are held until then, and are frozen while a dispute is open.''),
      (''Are there subscriptions, listing fees or monthly costs?'',
       ''No. There is no charge to join, to publish a request, or to submit an offer. The platform only earns when an order completes.''),
      (''What happens if the work is not delivered?'',
       ''You can open a dispute. Resolutions can include a full or partial refund, and the expert's payout stays frozen until the dispute is resolved.'')]"

definition tier_card :: "pricing_tier \<Rightarrow> 'e ui" where
  "tier_card t = Box (tr_label t) [Text (tr_label t), Text (tr_percent t), Text ''%'', Text (tr_description t)]"

definition PricingPage :: "pricing option \<Rightarrow> 'e ui list" where
  "PricingPage data =
     [Heading ''Pricing'',
      Text ''Students pay the price they agreed to -- nothing on top. Experts pay a commission only on work that actually completes. No subscriptions, no listing fees, no charge for posting a request.'']
     @ (case data of
          Some p \<Rightarrow>
            [Heading ''Commission, by how you were matched'', tier_card (pr_open_bid p), tier_card (pr_managed p),
             Text ''Commission is fixed at the moment an order is booked and never changes afterwards, even if rates change later.'',
             Heading ''Thresholds'',
             Text ''Minimum offer'', Text (pr_min_offer p), Text ''The lowest an expert may bid.'',
             Text ''Minimum payout'', Text (pr_payout_min p),
             Text ''Smaller balances roll forward to the next payout rather than being lost.'',
             Text ''Dispute window'', Text (show_nat (pr_window_days p) @ '' days''),
             Text ''After completion, to raise a problem.'']
        | None \<Rightarrow>
            [Text ''Live pricing is temporarily unavailable. Commission is charged to the expert on completed orders only -- students always pay the agreed price. '',
             Link ''/how-it-works'' ''How it works''])
     @ [Heading ''Common questions''] @ faq_list pricing_FAQ
     @ [Text ''Academic integrity comes first: the platform supports learning, coaching and feedback -- not work submitted as a student's own. '',
        Link ''/academic-integrity'' ''Read the policy'']"

text \<open>The page of the server: the answer is read, and what is missing leaves the rates out.\<close>

definition pricing_page where
  "pricing_page fetch env pricing_of = PricingPage (map_option pricing_of (pub_data (getPricing fetch env)))"

section \<open>For experts\<close>

definition experts_faq :: "pricing option \<Rightarrow> (string \<times> string) list" where
  "experts_faq data =
     [(''What does it cost to join?'',
       ''Nothing. There is no subscription, no listing fee and no charge for bidding. The platform only takes a commission on work that actually completes.''),
      (''How much commission does the platform take?'',
       (case data of
          Some p \<Rightarrow> tr_percent (pr_open_bid p) @ ''% on open-marketplace orders you win by bidding, and ''
            @ tr_percent (pr_managed p) @ ''% on managed assignments the platform routes to you. The rate is fixed at the moment an order is booked and never changes afterwards.''
        | None \<Rightarrow> ''Commission differs between open-marketplace bids and managed assignments. See the pricing page for the current rates.'')),
      (''When do I get paid?'',
       ''You are paid after the order completes -- when the student approves your delivery, or automatically 72 hours after delivery if they do not respond.''
       @ (case data of
            Some p \<Rightarrow> '' Balances below '' @ pr_payout_min p @ '' roll forward to the next payout rather than being lost, and a student has ''
              @ show_nat (pr_window_days p) @ '' days after completion to raise a dispute, during which funds are held.''
          | None \<Rightarrow> [])),
      (''Do I have to accept every request?'',
       ''No. Open-marketplace bidding is entirely your choice, and you can decline managed assignments. You can also pause your profile so it shows as unavailable.'')]"

text \<open>\<open>(100 - Number(tier.percent)).toString()\<close>.\<close>

definition keepPercent :: "pricing_tier \<Rightarrow> string" where
  "keepPercent t = (case to_number (tr_percent t) of None \<Rightarrow> ''NaN'' | Some x \<Rightarrow> number_text (100 - x))"

definition keep_card :: "pricing_tier \<times> string \<times> string \<times> string \<Rightarrow> 'e ui" where
  "keep_card c =
     (case c of (t, blurb, badge, tone) \<Rightarrow>
        Box (tr_label t)
          [Badge tone badge, Text (tr_label t), Text (keepPercent t), Text ''% to you'',
           Text (tr_percent t @ ''% platform commission. '' @ blurb)])"

definition keep_section :: "pricing option \<Rightarrow> 'e ui list" where
  "keep_section data =
     [Heading ''What you keep'']
     @ (case data of
          Some p \<Rightarrow>
            map keep_card
              [(pr_open_bid p, ''Work you win by bidding on an open request. You set your own price and timeline.'', ''Open Bidding'', ''info''),
               (pr_managed p, ''Work the platform routes to you: it triages the request, sets the price and matches you. The higher rate pays for that sourcing.'', ''Managed Pool'', ''neutral'')]
        | None \<Rightarrow>
            [Text ''Commission rates could not be loaded right now. They are published in full on the '',
             Link ''/pricing'' ''pricing page''])
     @ [Text ''Commission applies only to work that completes, and the rate is fixed when the order is booked. '',
        Link ''/pricing'' ''Full pricing'']"

definition EXPERT_BENEFITS :: "(string \<times> string) list" where
  "EXPERT_BENEFITS =
     [(''Top Payouts'', ''Keep the majority of what you charge''), (''Zero Listing Fees'', ''Pay nothing until you earn''),
      (''72h Payout Release'', ''Direct escrow clearing upon approval''),
      (''Milestone Protection'', ''Platform arbitration for every order'')]"

definition REQUIREMENTS :: "string list" where
  "REQUIREMENTS =
     [''A verified email address on your account.'',
      ''At least one credential document (degree, certification or proof of expertise).'',
      ''Confirmation that you are 18 or over.'',
      ''Agreement to the academic-integrity policy -- you support learning, you do not ghostwrite graded work.'',
      ''Subjects and skills selected from the platform taxonomy so the right requests reach you.'']"

definition for_experts_hero :: "'e ui list" where
  "for_experts_hero =
     [Heading ''Teach what you know. Get paid for it.'', Link ''/register/expert'' ''Create your account'',
      Link ''/experts'' ''See who is already here'', Text ''Already registered? '',
      Link ''/expert/apply'' ''Start your expert application'']
     @ map (\<lambda>(label, sub). Box label [Text label, Text sub]) EXPERT_BENEFITS"

text \<open>The steps and the two ways to get work are fixed texts and are left out.\<close>

definition ForExpertsPage :: "pricing option \<Rightarrow> 'e ui list" where
  "ForExpertsPage data =
     for_experts_hero @ keep_section data
     @ [Heading ''What we ask of you''] @ map Text REQUIREMENTS @ [Link ''/academic-integrity'' ''Read the policy'']
     @ [Heading ''Common questions''] @ faq_list (experts_faq data)
     @ [Heading ''Ready to apply?'', Link ''/register/expert'' ''Create your account'',
        Link ''/how-it-works'' ''How the platform works'']"

section \<open>The panel beside the sign-in forms\<close>

record testimonial =
  te_quote :: string
  te_author :: string
  te_title :: string
  te_institution :: string
  te_avatar :: string
  te_discipline :: string

definition TESTIMONIALS :: "testimonial list" where
  "TESTIMONIALS =
     [\<lparr>te_quote = ''The milestone escrow and automated specialist matching connected me to a postdoctoral researcher who debugged my distributed Raft simulation in two targeted sessions. Phenomenal rigor.'',
       te_author = ''Tyler Vance'', te_title = ''Ph.D. Candidate in Distributed Systems'', te_institution = ''MIT CSAIL'',
       te_avatar = ''TV'', te_discipline = ''Computer Science''\<rparr>,
      \<lparr>te_quote = ''Escrow milestones give both student and specialist absolute certainty. The feedback on my econometric synthetic control model rivaled peer review at top tier journals.'',
       te_author = ''Elena Rostova'', te_title = ''M.Sc. Quantitative Economics'', te_institution = ''Oxford University'',
       te_avatar = ''ER'', te_discipline = ''Econometrics''\<rparr>,
      \<lparr>te_quote = ''As a specialist on the platform, the blind bidding and guaranteed payouts eliminate freelance anxiety. I only consult for serious learners who value deep conceptual mastery.'',
       te_author = ''Dr. Marcus Thorne'', te_title = ''Former Senior Research Fellow'', te_institution = ''Stanford AI Lab'',
       te_avatar = ''MT'', te_discipline = ''Machine Learning''\<rparr>]"

datatype story_event =
    Story_tick                          \<comment> \<open>six seconds have passed\<close>
  | Go_to_slide nat

fun story_step :: "nat \<Rightarrow> story_event \<Rightarrow> nat" where
  "story_step i Story_tick = Suc i mod length TESTIMONIALS"
| "story_step i (Go_to_slide k) = k"

definition story_card :: "testimonial \<Rightarrow> story_event ui list" where
  "story_card t =
     [Text (te_quote t), Text (te_avatar t), Text (te_author t), Text (te_title t @ '' . ''), Text (te_institution t),
      Text (te_discipline t)]"

definition AuthStorytelling :: "nat \<Rightarrow> story_event ui list" where
  "AuthStorytelling i =
     [Text ''Expert Marketplace'', Heading ''Where World-Class Academics Converge.'',
      Text ''Join over 250,000 students and verified PhD specialists collaborating on advanced research, algorithmic architecture, and quantitative problem solving.'',
      Text ''250K+'', Text ''Tasks Completed'', Text ''99.2%'', Text ''On-Time Delivery'', Text ''Top 3%'', Text ''Vetted Experts'',
      Text ''Verified Academic Review'']
     @ map (\<lambda>k. Button (''Go to slide '' @ show_nat (Suc k)) False (Go_to_slide k)) [0..<length TESTIMONIALS]
     @ story_card (TESTIMONIALS ! i)
     @ [Text ''Escrow Milestone Protection'', Text ''Zero-Plagiarism Honor Code'', Text ''FERPA & Privacy Compliant'',
        Text ''1,420 specialists'', Text ''Milestone Security v2.4'']"

fun story_enabled :: "nat \<Rightarrow> story_event \<Rightarrow> bool" where
  "story_enabled i Story_tick = True"
| "story_enabled i e = offered (AuthStorytelling i) e"

section \<open>Lemmas\<close>

text \<open>The structured data is what the page shows, whether the rates are known or not.\<close>

lemma get_faq_entities:
  "get_field (faq_ld faq) ''mainEntity'' =
     Some (JArr (map (\<lambda>(q, a). JObj [(''@type'', JStr ''Question''), (''name'', JStr q),
       (''acceptedAnswer'', JObj [(''@type'', JStr ''Answer''), (''text'', JStr a)])]) faq))"
  by (simp add: faq_ld_def)

lemma faq_shown:
  "(q, a) \<in> set (experts_faq data) \<Longrightarrow> Box q [Text q, Text a] \<in> set (ForExpertsPage data)"
  "(q, a) \<in> set pricing_FAQ \<Longrightarrow> Box q [Text q, Text a] \<in> set (PricingPage data)"
  by (force simp: ForExpertsPage_def faq_list_def) (force simp: PricingPage_def faq_list_def)

text \<open>Without an answer no rate is shown: both pages are then the same for every reader of the payload.\<close>

lemma no_stale_rate:
  assumes "\<not> (\<exists>r. fetch (API_URL_SERVER env @ ''/api/v1/platform/pricing'') PRICING_TTL_SECONDS = Response r \<and> res_ok r)"
  shows "pricing_page fetch env f = PricingPage None"
proof -
  have "pub_data (getPricing fetch env) = None"
    using assms by (auto simp: getPricing_def fetchPublic_def split: outcome.split)
  then show ?thesis by (simp add: pricing_page_def)
qed

lemma frac_digits_0 [simp]: "frac_digits n 0 = []"
  by (cases n) simp_all

text \<open>Hundredths are printed in full, so the share and the commission add up as they are read.\<close>

lemma frac_digits_hundredths:
  assumes "r < 100"
  shows "frac_digits 17 (of_nat r / 100) =
    (if r = 0 then [] else if r mod 10 = 0 then [digit_char (r div 10)]
     else [digit_char (r div 10), digit_char (r mod 10)])"
proof -
  let ?d = "r div 10" and ?e = "r mod 10"
  have r: "(of_nat r :: rat) = of_nat ?d * 10 + of_nat ?e"
    by (metis mult_div_mod_eq mult.commute of_nat_add of_nat_mult of_nat_numeral)
  have e: "(of_nat ?e :: rat) < 10" using of_nat_less_iff [of ?e 10, where 'a = rat] by simp
  have f1: "\<lfloor>of_nat r / 100 * 10 :: rat\<rfloor> = int ?d"
    unfolding r using e by (intro floor_unique) (simp_all add: field_simps)
  have left: "of_nat r / 100 * 10 - of_int (int ?d) = (of_nat ?e / 10 :: rat)"
    unfolding r by (simp add: field_simps)
  have f2: "\<lfloor>of_nat ?e / 10 * 10 :: rat\<rfloor> = int ?e"
    by (intro floor_unique) simp_all
  have s: "(17 :: nat) = Suc (Suc 15)" by simp
  show ?thesis
  proof (cases "r = 0")
    case True then show ?thesis by simp
  next
    case False
    have "frac_digits 17 (of_nat r / 100) =
        digit_char ?d # (if ?e = 0 then [] else digit_char ?e # frac_digits 15 (of_nat ?e / 10 * 10 - of_int (int ?e)))"
      unfolding s frac_digits.simps f1 left f2 using False by simp
    then show ?thesis using False by simp
  qed
qed

lemma number_text_hundredths: "number_text (of_nat c / 100) = cents_text c"
proof -
  let ?q = "c div 100" and ?r = "c mod 100"
  have c: "(of_nat c :: rat) = of_nat ?q * 100 + of_nat ?r"
    by (metis mult_div_mod_eq mult.commute of_nat_add of_nat_mult of_nat_numeral)
  have r: "(of_nat ?r :: rat) < 100" using of_nat_less_iff [of ?r 100, where 'a = rat] by simp
  have fl: "\<lfloor>of_nat c / 100 :: rat\<rfloor> = int ?q"
    unfolding c using r by (intro floor_unique) (simp_all add: field_simps)
  have rest: "of_nat c / 100 - of_int (int ?q) = (of_nat ?r / 100 :: rat)"
    unfolding c by (simp add: field_simps)
  have pos: "\<bar>of_nat c / 100 :: rat\<bar> = of_nat c / 100" "\<not> (of_nat c / 100 :: rat) < 0" by simp_all
  show ?thesis
    unfolding number_text_def cents_text_def Let_def pos fl rest
    by (simp add: frac_digits_hundredths)
qed

lemma keep_adds_up:
  assumes "tr_percent t = cents_text b" "b \<le> 10000"
  shows "keepPercent t = cents_text (10000 - b)"
    "to_number (keepPercent t) = Some (100 - of_nat b / 100)"
proof -
  have n: "to_number (tr_percent t) = Some (of_nat b / 100)" by (simp add: assms(1) to_number_cents_text)
  have m: "100 - of_nat b / 100 = (of_nat (10000 - b) / 100 :: rat)"
    using assms(2) by (simp add: of_nat_diff field_simps)
  show k: "keepPercent t = cents_text (10000 - b)"
    unfolding keepPercent_def n option.case m by (rule number_text_hundredths)
  show "to_number (keepPercent t) = Some (100 - of_nat b / 100)"
    unfolding k to_number_cents_text m ..
qed

text \<open>The panel never runs out of testimonials.\<close>

lemma offered_story: "offered (AuthStorytelling i) e \<longleftrightarrow> (\<exists>k < length TESTIMONIALS. e = Go_to_slide k)"
  by (auto simp: AuthStorytelling_def story_card_def offered_map)

interpretation telling: machine "\<lambda>i. i = 0" story_enabled story_step "\<lambda>i. i < length TESTIMONIALS"
proof unfold_locales
  fix i e assume i: "i < length TESTIMONIALS" "story_enabled i e"
  show "story_step i e < length TESTIMONIALS"
  proof (cases e)
    case Story_tick
    have "0 < length TESTIMONIALS" using i(1) by linarith
    then show ?thesis using Story_tick by simp
  next
    case (Go_to_slide k)
    then show ?thesis using i(2) by (simp add: offered_story)
  qed
qed (simp add: TESTIMONIALS_def)

end
