(* ===== verification/Spec2Isabelle.thy ===== *)
theory Spec2Isabelle
  imports SelectionContract Session Realtime OrderPage ThreadPage Offers Oversight PublicPages HomePage Theme Profiles Account Assignments
    Listings Console WebWorkspace WebPages Showcase
begin

text \<open>
  A verification library for the knowledge marketplace. It covers the TypeScript front end, which is the
  application \<open>src/frontend/src\<close> and of the split applications \<open>apps/admin\<close> and \<open>apps/web\<close> the files that
  differ from it; and, of the Django backend, the services from the offers on a request to the end of its
  order: \<open>bidding\<close>, \<open>orders\<close>, \<open>payments\<close>, \<open>disputes\<close> and the part of \<open>service_requests\<close> they call, under
  \<open>src/backend/apps\<close>.

  \<^bold>\<open>The program.\<close> A Next.js application on three hosts: the marketing site, the workspace of students
  and experts, and the operations portal. Every request passes the edge middleware (\<open>middleware.ts\<close>),
  which maps paths to hosts, guards the pages that need a session and issues the security policy.
  Pages talk to a Django backend through one function, \<open>apiFetch\<close> (\<open>lib/api/client.ts\<close>), and the
  modules \<open>features/*/api.ts\<close> on top of it. A session provider and a notification provider wrap the
  pages; the conversations and the notifications have a web socket each, which only hints that
  something is to be fetched again. A layout gives the workspace its two modes, student and expert. The
  pages hold the state of the order, request, offer and dispute workflows and offer what the workflows
  allow. The pages for visitors are rendered on the server from the public part of the API. The
  portal exists twice, in \<open>src\<close> and, with a token of its own, in \<open>apps/admin\<close>. Behind the pages, an accepted
  offer becomes an order that is paid into escrow, worked on, delivered at most three times, approved or
  disputed, and whose money ends as a payout, a refund or both.

  \<^bold>\<open>How it is modelled.\<close> A pure function is a HOL function of the same name. A component with state
  is a record and a step function over a datatype of events: what the user does, the answers of the
  server, timers, socket events. The answers of requests that can overlap are events of their own, in
  any order. What a component renders is a list of \<open>ui\<close> nodes; a user's event is enabled when the
  tree offers it, so that a guard of the program is a disabled or absent control of the model.
  Handlers that await several requests in sequence are functions over a server, a parameter that
  answers a request and may change its world; \<open>logged\<close> records the requests it was asked. A page of the
  server is a function of the answers it fetches. Errors are values: \<open>failure + 'a\<close> where \<open>failure\<close> is an
  \<open>ApiError\<close>, another \<open>Error\<close> or neither. The rows of the database that belong to one order are a record, a
  service of the backend is a function of it that returns an error of the domain or the new rows, and a
  transaction that raises leaves the rows as they were; what is saved outside of one stays.

  \<^bold>\<open>The theories.\<close> The foundations:
  \<^item> \<open>Prelude\<close>: strings, options, truthiness and printing as the language has them; the collection
    \<open>js_simps\<close>. \<open>Machine\<close>: reachable states (\<open>reach\<close>), runs and what they send, the locale
    \<open>machine\<close> of an invariant, and rendered trees with \<open>offers\<close>.
  \<^item> \<open>Middleware\<close>: \<open>middleware.ts\<close>. C1, C2: redirects settle in one hop; C3: the production policy.
  \<^item> \<open>ApiClient\<close>: \<open>lib/config.ts\<close>, \<open>lib/api/client.ts\<close>, \<open>lib/api/public.ts\<close>, \<open>lib/api/health.ts\<close> and the admin
    client. \<open>Endpoints\<close>: one definition per call of \<open>features/*/api.ts\<close>, the set \<open>api_call\<close> of all of
    them with the reset of a password and the address of a download, and query strings. C4: query strings parse back; C5: the headers of every request.
  \<^item> \<open>Session\<close>: \<open>features/auth/SessionProvider.tsx\<close> and \<open>errors.ts\<close>. A refresh is a run that asks and
    sleeps; several can be in flight. C6 to C8.
  \<^item> \<open>Realtime\<close>: \<open>features/messaging/use-thread-socket.ts\<close> and the provider, bell and toasts of
    \<open>features/notifications\<close>. The locale \<open>reconnecting\<close> is the contract of a reconnect delay, which both
    sockets interpret. C9, C10.
  \<^item> \<open>Forms\<close>: servers, error texts and upload loops; the locale \<open>uploader\<close> is the contract of an
    upload, interpreted for files and for evidence. \<open>Numbers\<close>: \<open>Number(s)\<close>, \<open>String(x)\<close> and \<open>toFixed\<close> over
    exact rationals.

  The workflows:
  \<^item> \<open>Reviews\<close>, \<open>Disputes\<close>, \<open>Orders\<close>, \<open>Messaging\<close>: the types, helpers and sections of the same
    directories of \<open>features\<close>.
  \<^item> \<open>OrderWorkspace\<close>, \<open>OrderPage\<close>: \<open>features/orders/components/order-workspace.tsx\<close> and
    \<open>order-workspace-client.tsx\<close>. The lifecycle of the documents - payment and its
    confirmation, delivery, approval, revision, cancellation, dispute - is the abstract specification (\<open>documented\<close>) that
    the workspace refines, apart from payments out of place (C11); C12: it offers exactly what is documented but for three
    actions; that these cannot be reached and the requests of a delivery are lemmas; C21: the page follows the server.
  \<^item> \<open>ThreadPage\<close>: the conversation and the inbox under \<open>app/(app)/messages\<close>, with the requests a send
    starts. C22.
  \<^item> \<open>RequestForm\<close>: \<open>features/requests/types.ts\<close> and the wizard \<open>RequestForm.tsx\<close>. C23, C24.
  \<^item> \<open>Offers\<close>: \<open>features/offers/types.ts\<close> and the pages of offers, of a request and of an opportunity
    under \<open>app/(app)\<close>. C25. \<open>Listings\<close>: the lists of requests and of opportunities.
  \<^item> \<open>Auth\<close>: the pages of \<open>app/(auth)\<close>. C26. \<open>Workspace\<close>: \<open>app/(app)/layout.tsx\<close>, its modes, navigation and
    palette. C27 to C29, the last over \<open>Auth\<close> and the layout. \<open>Account\<close>: the account page and the first profile.
  \<^item> \<open>Application\<close>, \<open>Profiles\<close>: the expert's application with its lifecycle (C30, C31), profile and reviews.
    \<open>Assignments\<close>: invitations and direct assignments.

  The portal:
  \<^item> \<open>Portal\<close>: disputes, moderation and configuration under \<open>app/(portal)\<close>. \<open>Console\<close>: the two layouts and the
    sign-in of \<open>apps/admin\<close>. C34 to C36, the last: a session that
    expired leads to the sign-in and from there back to the page that was open.
  \<^item> \<open>Desks\<close>: dispatch and verification; the locale \<open>desk\<close>, a \<open>machine\<close> over a queue of cases with one
    selected, is interpreted for both. \<open>Finance\<close>: the treasury. C37. \<open>Oversight\<close>: overview, audit, users.

  The pages for visitors:
  \<^item> \<open>Discovery\<close>: sitemap and robots. C38, C39. \<open>PublicPages\<close>: subjects, experts, their metadata, the header, the
    status card. C40: the metadata says what the API and the sitemap say. \<open>HomePage\<close>: the scope simulator and the grid of the disciplines. \<open>Theme\<close>: the provider
    and the switch. \<open>Showcase\<close>: the rates on the pages pricing and for-experts, the panel of the sign-in.

  The split application:
  \<^item> \<open>WebWorkspace\<close>, \<open>WebPages\<close>: the pages of \<open>apps/web\<close> that differ. C32: what they offer is what those of
    \<open>src\<close> offer, but for two stated differences (shortcuts beside an open form, required fields of the profile). C33: the sign-in of specialists and the layout.

  The backend, from a request to the end of its order:
  \<^item> \<open>Backend\<close>: \<open>core\<close> (errors, references, money, the configuration) and the tables of transitions of
    orders, payments and disputes. \<open>OrderRows\<close>: the models of \<open>orders\<close>, \<open>payments\<close> and \<open>disputes\<close>, and the record of all
    rows of one order. \<open>RequestServer\<close>: the state machine of a service request and its owner's operations.
  \<^item> \<open>PaymentServer\<close>, \<open>OrderServer\<close>, \<open>DisputeServer\<close>: one definition per function of the three \<open>services.py\<close>, and
    the periodic tasks. \<open>OrderBackend\<close>: the commands of the views with their permissions, dispatched to the
    services; a step is a command with the time of the clock, and a refused command keeps what was saved before it was refused.
  \<^item> \<open>OrderLaw\<close>: the locale \<open>order_law\<close>, a relation between the state before and after a request: if each service
    obeys it, every command does. The three theories after it and \<open>OrderTerms\<close> interpret it (\<open>stable\<close>, \<open>frozen\<close>,
    \<open>waiting\<close>, \<open>settled\<close>).
  \<^item> \<open>OrderInvariants\<close>: what every reachable state satisfies, by the interpretation \<open>order_backend\<close> of
    \<open>machine\<close>. \<open>OrderGuarantees\<close>: the properties that follow. C14: the ledger balances, an order is
    charged once, and no more leaves escrow than came in. C15: deliveries are numbered without a gap, and there
    is at most one more than revisions are allowed.
  \<^item> \<open>OrderTerms\<close>: no request to the backend changes who an order is between, its price and its shares, or
    opens its service request again. \<open>BiddingServer\<close>: the services of \<open>bidding\<close> and the machine of one request,
    the offers on it and, from the selection on, its order (interpretation \<open>bidding\<close>). C13: the offers stay sound,
    and one is accepted exactly when there is an order, at its terms.
  \<^item> \<open>OrderProgress\<close>: C16: while a dispute is open nothing is paid out. C17: from every reachable state
    that is not cancelled, the participants and the staff can complete the order with at most three
    commands, all accepted; where it is unpaid, given that the manual gateway is configured.
  \<^item> \<open>OrderContract\<close>: the two halves together. What the backend renders is read by the types of \<open>Orders\<close>, and
    the request of a call of \<open>Endpoints\<close> is routed to the view that is its command. C18: each documented
    action of the page, payments and disputes included, is routed to its command and accepted, and the page shows what
    came of it. C19: an action that the page offers on what the server now shows is accepted by the server, but for a
    payment out of place, which it refuses. \<open>SelectionContract\<close>: the same for the owner's page of a
    request. C20: selecting, declining and cancelling are accepted when the page is up to date, and a
    selection ends with the order the other theories are about.

  \<^bold>\<open>What the lemmas show.\<close> \<open>offered_X\<close> says which events the tree of the component \<open>X\<close> offers; the
  properties of the pages follow from these and the step function. Invariants are proved once in the
  locale \<open>machine\<close> and used through its interpretations: \<open>sess\<close> and \<open>centre\<close> (session, notifications),
  \<open>composing\<close>, \<open>disputing\<close>, \<open>space\<close>, \<open>web_space\<close>, \<open>request_view\<close> (workflows), \<open>shell\<close>, \<open>feed\<close> (layout and feed),
  \<open>dispatching\<close>, \<open>verifying\<close>, \<open>treasury\<close>, \<open>watching\<close> (portal), \<open>estimating\<close>, \<open>theming\<close>, \<open>telling\<close> (pages for visitors),
  \<open>order_backend\<close>, \<open>ready_backend\<close> and \<open>bidding\<close> (backend), \<open>joint\<close> (the page and the backend, answers arriving late).
  Lemmas on the upload loop are proved in \<open>uploader\<close>.

  \<^bold>\<open>Bounds.\<close> No definition has fuel of its own. The refresh of the session recurses over its four
  attempts, with a measure; the reconnecting sockets give up after their attempts by the state itself;
  the crawl behind the sitemap has the program's own counter of at most 25 pages, and C38 says that it ends
  within them; C17 needs at most three commands; \<open>number_text\<close> prints at most the 17 digits the language prints. Every other definition is
  structural.

  \<^bold>\<open>What is left out.\<close> The matcher pattern that Next reads; class names, icons, animation, focus and
  scrolling; placeholders; the browser's own checks of a form's fields, except the required ones of the profile; the rounding of binary fractions
  (numbers are exact rationals); characters beyond one byte (pictures and dashes in the texts are
  written in ASCII); the casts of payloads, which are parameters or typed answers; dates and number
  formats, which are a record of functions of the user's locale; parsing a URL's query where the
  program calls \<open>new URL\<close>, which is the parameter \<open>url_params\<close>. React itself is not modelled: a set state is visible to the
  next event, and a value that a handler read before it awaited is kept in the record of the run.

  Of the backend: the rows of other orders and the locks that order their transactions (one order is a
  sequence of its commands, one request of its, though taking an offer back, declining and resubmitting read before they
  lock); the change forms of the administration site, which write rows past the services; a change of the
  configuration in the course of an order; list and search views; the editing of a draft and the managed path of a request; the storage and the signature check of webhooks
  before they reach \<open>payments\<close>; delivery of mails and notifications; entries of the audit log written by
  batches; identifiers that do not parse, which never reach a service; files, which are identifiers. The
  gateways are the parameter of what a configured provider answers. Shares of an amount are exact
  quotients, rounded as the code rounds them, where the code divides floats.

  \<^bold>\<open>Not modelled.\<close> The static pages (about, terms, privacy, academic integrity, how it works), which are
  texts; the component kit, which is presentation; the copies in \<open>apps/web\<close> and \<open>apps/admin\<close> of files of
  \<open>src\<close>, which would be the same definitions again; thin wrappers around the lists and the home page; and the
  other apps of the backend (accounts, messaging, assignments, experts and so on), whose answers the models
  of the pages take as parameters.
\<close>

end
